(* ===== verification/Prelude.thy ===== *)
theory Prelude
  imports Main "HOL-Library.List_Lexorder" "HOL-Library.Char_ord"
begin

section \<open>Shared vocabulary: results, errors, rows\<close>

text \<open>
  What every component uses.  A service function of the back end either returns or raises, and a
  raise rolls the request's transaction back, so a service is a function into the sum type
  \<open>error + 'a\<close>: \<open>Inl\<close> carries the exception, \<open>Inr\<close> the result together with the database after
  the transaction.  The exceptions are those of \<open>app/core/exceptions.py\<close>, plus the
  non-API failures the services name (a \<open>RuntimeError\<close> for a broken deployment, a driver
  \<open>IntegrityError\<close> that nobody translates, and a \<open>RedisError\<close> of the session store).  An f-string message is kept as its template and the
  values that fill it.

  \<^item> \<open>bindE\<close> sequences statements, \<open>ensure\<close> is a guard that raises, \<open>the_or\<close> is
    ``fetch, and raise when the row is missing'';
  \<^item> \<open>py_sorted_set\<close> is Python's \<open>sorted(set(xs))\<close>;
  \<^item> the lemmas about \<open>find\<close>, \<open>map\<close> and \<open>distinct\<close> on lists of rows are what the component
    proofs rest on.
\<close>

type_synonym uuid = nat
type_synonym timestamp = int
type_synonym day = int

datatype arg =
    AId uuid | AStr string | AOpt "string option" | AStrs "string list" | AIds "uuid list" | ANat nat
  | ADetails "detail list"
and detail = Msg string "arg list"

datatype error =
    BadRequestError detail
  | UnauthorizedError detail
  | ForbiddenError detail
  | NotFoundError detail
  | ConflictError detail
  | GoneError detail
  | BadGatewayError detail
  | ServiceUnavailableError detail
  | RuntimeError
  | IntegrityError
  | RedisError

type_synonym 'a result = "error + 'a"

fun is_api_error :: "error \<Rightarrow> bool" where
  "is_api_error RuntimeError = False"
| "is_api_error IntegrityError = False"
| "is_api_error RedisError = False"
| "is_api_error _ = True"

fun status_code :: "error \<Rightarrow> nat" where
  "status_code (BadRequestError _) = 400"
| "status_code (UnauthorizedError _) = 401"
| "status_code (ForbiddenError _) = 403"
| "status_code (NotFoundError _) = 404"
| "status_code (ConflictError _) = 409"
| "status_code (GoneError _) = 410"
| "status_code (BadGatewayError _) = 502"
| "status_code (ServiceUnavailableError _) = 503"
| "status_code RuntimeError = 500"
| "status_code IntegrityError = 500"
| "status_code RedisError = 500"

definition bindE :: "'a result \<Rightarrow> ('a \<Rightarrow> 'b result) \<Rightarrow> 'b result" where
  "bindE m f = (case m of Inl e \<Rightarrow> Inl e | Inr x \<Rightarrow> f x)"

definition ensure :: "bool \<Rightarrow> error \<Rightarrow> unit result" where
  "ensure b e = (if b then Inr () else Inl e)"

definition the_or :: "error \<Rightarrow> 'a option \<Rightarrow> 'a result" where
  "the_or e x = (case x of None \<Rightarrow> Inl e | Some y \<Rightarrow> Inr y)"

definition py_sorted_set :: "'a::linorder list \<Rightarrow> 'a list" where
  "py_sorted_set xs = sort (remdups xs)"

text \<open>\<open>list(dict.fromkeys(xs))\<close>: the first occurrence of each element, in order.\<close>

definition py_dedup :: "'a list \<Rightarrow> 'a list" where
  "py_dedup xs = rev (remdups (rev xs))"

text \<open>\<open>SELECT count(*) FROM (SELECT key FROM rows GROUP BY key HAVING bool_or(f = x) AND count(*) = 1)\<close>.\<close>

definition count_sole_groups :: "('a \<Rightarrow> 'k) \<Rightarrow> ('a \<Rightarrow> 'r) \<Rightarrow> 'r \<Rightarrow> 'a list \<Rightarrow> nat" where
  "count_sole_groups key f x rows =
     length (filter (\<lambda>k. let grp = filter (\<lambda>a. key a = k) rows in
               (\<exists>a\<in>set grp. f a = x) \<and> length grp = 1) (remdups (map key rows)))"

text \<open>\<open>paginate\<close> of \<open>app/core/pagination.py\<close>: one page of a filtered, ordered result, and its size.\<close>

definition paginate :: "nat \<Rightarrow> nat \<Rightarrow> 'a list \<Rightarrow> 'a list \<times> nat" where
  "paginate limit offset rows = (take limit (drop offset rows), length rows)"

named_theorems svc_simps \<open>reduction of the result combinators\<close>
named_theorems row_simps \<open>facts about tables as lists of rows\<close>

subsection \<open>Sequencing\<close>

lemma bindE_Inr [simp]: "bindE (Inr x) f = f x"
  by (simp add: bindE_def)

lemma bindE_Inl [simp]: "bindE (Inl e) f = Inl e"
  by (simp add: bindE_def)

lemma bindE_eq_Inr [svc_simps]: "bindE m f = Inr y \<longleftrightarrow> (\<exists>x. m = Inr x \<and> f x = Inr y)"
  by (cases m) (auto simp: bindE_def)

lemma bindE_eq_Inl [svc_simps]:
  "bindE m f = Inl e \<longleftrightarrow> m = Inl e \<or> (\<exists>x. m = Inr x \<and> f x = Inl e)"
  by (cases m) (auto simp: bindE_def)

lemma bindE_assoc: "bindE (bindE m f) g = bindE m (\<lambda>x. bindE (f x) g)"
  by (cases m) simp_all

lemma ensure_eq_Inr [simp]: "ensure b e = Inr u \<longleftrightarrow> b"
  by (cases b) (simp_all add: ensure_def)

lemma ensure_eq_Inl [simp]: "ensure b e = Inl e' \<longleftrightarrow> \<not> b \<and> e = e'"
  by (cases b) (auto simp: ensure_def)

lemma ensure_True [simp]: "ensure True e = Inr ()"
  by (simp add: ensure_def)

lemma ensure_False [simp]: "ensure False e = Inl e"
  by (simp add: ensure_def)

lemma the_or_eq_Inr [simp]: "the_or e x = Inr y \<longleftrightarrow> x = Some y"
  by (cases x) (simp_all add: the_or_def)

lemma the_or_eq_Inl [simp]: "the_or e x = Inl e' \<longleftrightarrow> x = None \<and> e = e'"
  by (cases x) (auto simp: the_or_def)

lemma the_or_Some [simp]: "the_or e (Some y) = Inr y"
  by (simp add: the_or_def)

lemma the_or_None [simp]: "the_or e None = Inl e"
  by (simp add: the_or_def)

subsection \<open>Lists of rows\<close>

lemma set_py_sorted_set [simp]: "set (py_sorted_set xs) = set xs"
  by (simp add: py_sorted_set_def)

lemma sorted_py_sorted_set [simp]: "sorted (py_sorted_set xs)"
  by (simp add: py_sorted_set_def)

lemma distinct_py_sorted_set [simp]: "distinct (py_sorted_set xs)"
  by (simp add: py_sorted_set_def)

lemma py_sorted_set_cong: "set xs = set ys \<Longrightarrow> py_sorted_set xs = py_sorted_set ys"
  by (rule sorted_distinct_set_unique) simp_all

lemma set_py_dedup [simp]: "set (py_dedup xs) = set xs"
  by (simp add: py_dedup_def)

lemma distinct_py_dedup [simp]: "distinct (py_dedup xs)"
  by (simp add: py_dedup_def)

lemma py_sorted_set_eq_Nil [simp]: "py_sorted_set xs = [] \<longleftrightarrow> xs = []"
  by (metis set_empty2 set_py_sorted_set)

lemma find_SomeD: "List.find P xs = Some x \<Longrightarrow> x \<in> set xs \<and> P x"
  by (induction xs) (auto split: if_splits)

lemma find_None_iff_all: "List.find P xs = None \<longleftrightarrow> (\<forall>x\<in>set xs. \<not> P x)"
  by (induction xs) auto

lemma find_ex: "x \<in> set xs \<Longrightarrow> P x \<Longrightarrow> \<exists>y. List.find P xs = Some y"
  by (induction xs) auto

lemma find_append: "List.find P (xs @ ys) =
   (case List.find P xs of None \<Rightarrow> List.find P ys | Some x \<Rightarrow> Some x)"
  by (induction xs) auto

lemma distinct_map_same:
  "distinct (map k xs) \<Longrightarrow> x \<in> set xs \<Longrightarrow> y \<in> set xs \<Longrightarrow> k x = k y \<Longrightarrow> x = y"
  by (metis distinct_map inj_onD)

lemma key_in_image:
  "distinct (map k t) \<Longrightarrow> set rs \<subseteq> set t \<Longrightarrow> r \<in> set t \<Longrightarrow> k r \<in> k ` set rs \<longleftrightarrow> r \<in> set rs"
  by (simp add: distinct_map inj_on_image_mem_iff [of k "set t"])

lemma find_unique:
  assumes "distinct (map k xs)" and "x \<in> set xs" and "P x"
    and "\<And>y. P y \<Longrightarrow> k y = k x"
  shows "List.find P xs = Some x"
proof -
  obtain y where y: "List.find P xs = Some y"
    using find_ex assms(2,3) by metis
  then have "y \<in> set xs" "P y" using find_SomeD by metis+
  then have "y = x" using distinct_map_same assms(1,2,4) by metis
  with y show ?thesis by simp
qed

lemma count_sole_groups_zero:
  assumes "count_sole_groups key f x rows = 0" and "distinct rows" and "a \<in> set rows" and "f a = x"
  shows "\<exists>b\<in>set rows. key b = key a \<and> b \<noteq> a"
proof (rule ccontr)
  assume *: "\<not> ?thesis"
  let ?grp = "filter (\<lambda>b. key b = key a) rows"
  have "set ?grp = {a}" using * assms(3) by auto
  moreover have "distinct ?grp" using assms(2) by simp
  ultimately have "length ?grp = 1" by (metis distinct_card card.empty card_insert_disjoint empty_iff finite.emptyI One_nat_def)
  moreover have "\<exists>b\<in>set ?grp. f b = x" using assms(3,4) by auto
  moreover have "key a \<in> set (remdups (map key rows))" using assms(3) by simp
  ultimately show False using assms(1) by (auto simp: count_sole_groups_def filter_empty_conv)
qed

lemma map_map_same: "(\<And>x. x \<in> set xs \<Longrightarrow> k (f x) = k x) \<Longrightarrow> map k (map f xs) = map k xs"
  by simp

subsection \<open>Step relations that keep an invariant\<close>

text \<open>
  The contract between an operation set and its invariant: every step keeps it.  Each component
  interprets it on its own steps, and gets the invariant of every reachable state.
\<close>

locale step_invariant =
  fixes step :: "'s \<Rightarrow> 's \<Rightarrow> bool" and inv :: "'s \<Rightarrow> bool"
  assumes step_keeps: "step s s' \<Longrightarrow> inv s \<Longrightarrow> inv s'"
begin

lemma reachable_keeps: "step\<^sup>*\<^sup>* s s' \<Longrightarrow> inv s \<Longrightarrow> inv s'"
  by (induction rule: rtranclp_induct) (auto intro: step_keeps)

end

text \<open>
  A state machine kept in rows: on top of the invariant, each step leaves a row's status or moves it along
  the transition table, and no row disappears.  Then a status only ever moves along paths of the table.
\<close>

locale status_machine = step_invariant step inv
  for step :: "'s \<Rightarrow> 's \<Rightarrow> bool" and inv :: "'s \<Rightarrow> bool" +
  fixes status_of :: "'s \<Rightarrow> 'i \<Rightarrow> 'st option" and transitions :: "'st \<Rightarrow> 'st list"
  assumes step_status: "step s s' \<Longrightarrow> inv s \<Longrightarrow> status_of s i = Some a \<Longrightarrow>
    \<exists>b. status_of s' i = Some b \<and> (b = a \<or> b \<in> set (transitions a))"
begin

lemma status_path:
  "step\<^sup>*\<^sup>* s s' \<Longrightarrow> inv s \<Longrightarrow> status_of s i = Some a \<Longrightarrow>
     \<exists>b. status_of s' i = Some b \<and> (\<lambda>x y. y \<in> set (transitions x))\<^sup>*\<^sup>* a b"
proof (induction rule: rtranclp_induct)
  case base
  then show ?case by auto
next
  case (step s' s'')
  then obtain b where b: "status_of s' i = Some b" "(\<lambda>x y. y \<in> set (transitions x))\<^sup>*\<^sup>* a b" by blast
  have "inv s'" using reachable_keeps step by blast
  with step_status [OF step(2) _ b(1)] show ?case using b by (metis (no_types, lifting) rtranclp.rtrancl_into_rtrancl)
qed

lemma terminal_stays:
  assumes "step\<^sup>*\<^sup>* s s'" "inv s" "status_of s i = Some a" "transitions a = []"
  shows "status_of s' i = Some a"
proof -
  obtain b where "status_of s' i = Some b" "(\<lambda>x y. y \<in> set (transitions x))\<^sup>*\<^sup>* a b"
    using status_path assms(1-3) by blast
  moreover from this(2) have "b = a" by (cases rule: converse_rtranclpE) (use assms(4) in auto)
  ultimately show ?thesis by simp
qed

end

end
