(* ===== verification/Base_Model.thy ===== *)
theory Base_Model
  imports Prelude
begin

section \<open>BaseModel: primary keys, soft delete, restore\<close>

text \<open>
  \<open>app/core/base_model.py\<close>, \<open>soft_delete.py\<close> and \<open>restore.py\<close>.  Every table model of the back
  end is a subclass of \<open>BaseModel\<close>; here every row record extends \<open>base\<close>, so the operations
  below apply to the rows of every table.  A table is the list of its rows, tombstones included.
  \<open>updated_at\<close> is a server-side stamp that no modelled code reads and is left out.
\<close>

record base =
  row_id :: uuid
  created_at :: timestamp
  deleted_at :: "timestamp option"
  deleted_by_id :: "uuid option"

definition soft_delete :: "timestamp \<Rightarrow> uuid option \<Rightarrow> 'a base_scheme \<Rightarrow> 'a base_scheme" where
  "soft_delete t by_id r = r\<lparr>deleted_at := Some t, deleted_by_id := by_id\<rparr>"

definition restore :: "'a base_scheme \<Rightarrow> 'a base_scheme" where
  "restore r = r\<lparr>deleted_at := None, deleted_by_id := None\<rparr>"

definition is_deleted :: "'a base_scheme \<Rightarrow> bool" where
  "is_deleted r \<longleftrightarrow> deleted_at r \<noteq> None"

definition live :: "'a base_scheme option \<Rightarrow> 'a base_scheme option" where
  "live x = (case x of None \<Rightarrow> None | Some r \<Rightarrow> if deleted_at r = None then Some r else None)"

text \<open>\<open>live_select\<close>: the rows \<open>with_live\<close> lets through.\<close>

definition live_select :: "'a base_scheme list \<Rightarrow> 'a base_scheme list" where
  "live_select t = filter (\<lambda>r. deleted_at r = None) t"

text \<open>\<open>live_update().where(P).values(f)\<close>: a bulk update that skips tombstones.\<close>

definition live_update ::
  "('a base_scheme \<Rightarrow> bool) \<Rightarrow> ('a base_scheme \<Rightarrow> 'a base_scheme) \<Rightarrow> 'a base_scheme list \<Rightarrow> 'a base_scheme list"
where
  "live_update P f t = map (\<lambda>r. if deleted_at r = None \<and> P r then f r else r) t"

text \<open>A primary-key lookup among the live rows (\<open>live_select().where(id == i)\<close>).\<close>

definition live_by_id :: "uuid \<Rightarrow> 'a base_scheme list \<Rightarrow> 'a base_scheme option" where
  "live_by_id i t = List.find (\<lambda>r. row_id r = i \<and> deleted_at r = None) t"

text \<open>Writing a changed instance back (\<open>session.add(row); flush()\<close>): the row with its key is replaced.\<close>

definition save_row :: "'a base_scheme \<Rightarrow> 'a base_scheme list \<Rightarrow> 'a base_scheme list" where
  "save_row r t = map (\<lambda>x. if row_id x = row_id r then r else x) t"

text \<open>The loop \<open>for row in rows: row.soft_delete(by_id); session.add(row)\<close>.\<close>

definition soft_delete_rows ::
  "timestamp \<Rightarrow> uuid option \<Rightarrow> 'a base_scheme list \<Rightarrow> 'a base_scheme list \<Rightarrow> 'a base_scheme list" where
  "soft_delete_rows t by_id rows table = map (\<lambda>r. if r \<in> set rows then soft_delete t by_id r else r) table"

text \<open>\<open>restore.py\<close>: the oldest restorable stamp, and the tombstones inside the window.\<close>

definition restore_cutoff :: "int \<Rightarrow> timestamp \<Rightarrow> timestamp" where
  "restore_cutoff restore_window_days t = t - restore_window_days * 86400"

definition in_window :: "timestamp \<Rightarrow> uuid option \<Rightarrow> 'a base_scheme \<Rightarrow> bool" where
  "in_window cutoff deleted_by r \<longleftrightarrow>
     (case deleted_at r of None \<Rightarrow> False | Some t \<Rightarrow> cutoff \<le> t) \<and>
     (case deleted_by of None \<Rightarrow> True | Some u \<Rightarrow> deleted_by_id r = Some u)"

definition deleted_select :: "timestamp \<Rightarrow> uuid option \<Rightarrow> 'a base_scheme list \<Rightarrow> 'a base_scheme list" where
  "deleted_select cutoff deleted_by t = filter (in_window cutoff deleted_by) t"

text \<open>
  \<open>restore_row\<close>: clear the tombstone; \<open>clashes\<close> is the table's partial unique index (it says
  whether a live row of the table holds the key of the revived row), whose violation is a 409.
\<close>

definition restore_row ::
  "('a base_scheme \<Rightarrow> 'a base_scheme \<Rightarrow> bool) \<Rightarrow> detail \<Rightarrow> 'a base_scheme \<Rightarrow> 'a base_scheme list
    \<Rightarrow> ('a base_scheme \<times> 'a base_scheme list) result"
where
  "restore_row clashes conflict_message r t =
     bindE (ensure (\<not> (\<exists>x\<in>set (live_select t). row_id x \<noteq> row_id r \<and> clashes x r))
              (ConflictError conflict_message)) (\<lambda>_.
     Inr (restore r, save_row (restore r) t))"

subsection \<open>Facts about the row operations\<close>

lemma soft_delete_sel [simp]:
  "row_id (soft_delete t u r) = row_id r" "created_at (soft_delete t u r) = created_at r"
  "deleted_at (soft_delete t u r) = Some t" "deleted_by_id (soft_delete t u r) = u"
  by (simp_all add: soft_delete_def)

lemma restore_sel [simp]:
  "row_id (restore r) = row_id r" "created_at (restore r) = created_at r"
  "deleted_at (restore r) = None" "deleted_by_id (restore r) = None"
  by (simp_all add: restore_def)

lemma restore_soft_delete:
  "deleted_at r = None \<Longrightarrow> deleted_by_id r = None \<Longrightarrow> restore (soft_delete t u r) = r"
  by (cases r) (simp add: restore_def soft_delete_def)

lemma in_live_select [simp]: "r \<in> set (live_select t) \<longleftrightarrow> r \<in> set t \<and> deleted_at r = None"
  by (auto simp: live_select_def)

lemma live_by_id_SomeD:
  "live_by_id i t = Some r \<Longrightarrow> r \<in> set t \<and> row_id r = i \<and> deleted_at r = None"
  by (auto simp: live_by_id_def dest!: find_SomeD)

lemma live_by_id_None [row_simps]:
  "live_by_id i t = None \<longleftrightarrow> (\<forall>r\<in>set t. row_id r = i \<longrightarrow> deleted_at r \<noteq> None)"
  by (auto simp: live_by_id_def find_None_iff_all)

lemma live_by_id_member:
  "distinct (map row_id t) \<Longrightarrow> r \<in> set t \<Longrightarrow> deleted_at r = None \<Longrightarrow> live_by_id (row_id r) t = Some r"
  unfolding live_by_id_def by (rule find_unique [where k = row_id]) auto

lemma live_by_id_iff:
  "distinct (map row_id t) \<Longrightarrow>
     live_by_id i t = Some r \<longleftrightarrow> r \<in> set t \<and> row_id r = i \<and> deleted_at r = None"
  using live_by_id_SomeD live_by_id_member by blast

lemma map_row_id_save_row [simp]: "map row_id (save_row r t) = map row_id t"
  by (induction t) (auto simp: save_row_def)

lemma save_row_fresh [simp]: "row_id r \<notin> row_id ` set t \<Longrightarrow> save_row r t = t"
  by (induction t) (auto simp: save_row_def)

lemma save_row_same: "distinct (map row_id t) \<Longrightarrow> r \<in> set t \<Longrightarrow> save_row r t = t"
  unfolding save_row_def by (rule map_idI) (auto dest: distinct_map_same)

lemma in_save_row [row_simps]:
  "x \<in> set (save_row r t) \<longleftrightarrow>
     (x = r \<and> row_id r \<in> row_id ` set t) \<or> (x \<in> set t \<and> row_id x \<noteq> row_id r)"
  by (induction t) (auto simp: save_row_def)

lemma saved_row_mem: "x \<in> set t \<Longrightarrow> row_id r = row_id x \<Longrightarrow> r \<in> set (save_row r t)"
  by (simp add: in_save_row)

lemma live_by_id_save_row_other [simp]:
  "i \<noteq> row_id r \<Longrightarrow> live_by_id i (save_row r t) = live_by_id i t"
  by (induction t) (auto simp: save_row_def live_by_id_def)

lemma live_by_id_save_row_same:
  assumes "row_id r \<in> row_id ` set t"
  shows "live_by_id (row_id r) (save_row r t) = (if deleted_at r = None then Some r else None)"
proof (cases "live_by_id (row_id r) (save_row r t)")
  case None
  then have "deleted_at r \<noteq> None"
    using assms by (metis live_by_id_None in_save_row)
  with None show ?thesis by simp
next
  case (Some x)
  then have "x = r" "deleted_at x = None"
    using live_by_id_SomeD in_save_row by metis+
  with Some show ?thesis by simp
qed

lemma live_by_id_append_fresh [simp]:
  "row_id r \<notin> row_id ` set t \<Longrightarrow> deleted_at r = None \<Longrightarrow> live_by_id (row_id r) (t @ [r]) = Some r"
  by (induction t) (auto simp: live_by_id_def)

lemma live_by_id_append_other [simp]:
  "i \<noteq> row_id r \<Longrightarrow> live_by_id i (t @ [r]) = live_by_id i t"
  by (induction t) (auto simp: live_by_id_def)

lemma map_row_id_live_update:
  "(\<And>r. row_id (f r) = row_id r) \<Longrightarrow> map row_id (live_update P f t) = map row_id t"
  by (induction t) (auto simp: live_update_def)

lemma map_row_id_soft_delete_rows [simp]: "map row_id (soft_delete_rows t u rows tb) = map row_id tb"
  by (simp add: soft_delete_rows_def)

lemma live_soft_delete_rows [row_simps]:
  "deleted_at r = None \<Longrightarrow> r \<in> set (soft_delete_rows t u rows tb) \<longleftrightarrow> r \<in> set tb \<and> r \<notin> set rows"
  by (auto simp: soft_delete_rows_def)

lemma in_deleted_select [simp]:
  "r \<in> set (deleted_select c d t) \<longleftrightarrow> r \<in> set t \<and> in_window c d r"
  by (simp add: deleted_select_def)

lemma in_window_soft_delete:
  "c \<le> t \<Longrightarrow> d = None \<or> d = u \<Longrightarrow> in_window c d (soft_delete t u r)"
  by (auto simp: in_window_def split: option.splits)

lemma in_window_deleted: "in_window c d r \<Longrightarrow> deleted_at r \<noteq> None"
  by (auto simp: in_window_def split: option.splits)

lemma restore_row_Inr:
  "restore_row cl m r t = Inr (r', t') \<longleftrightarrow>
     (\<forall>x\<in>set (live_select t). row_id x \<noteq> row_id r \<longrightarrow> \<not> cl x r) \<and> r' = restore r \<and>
     t' = save_row (restore r) t"
  by (auto simp: restore_row_def svc_simps)

end
