(* ===== verification/Rbac.thy ===== *)
theory Rbac
  imports Prelude
begin

section \<open>The RBAC vocabulary: permissions, system roles, elevation\<close>

text \<open>
  \<open>app/core/auth/roles.py\<close>: the permission keys, the five canonical roles with the permission set
  each carries, the roles whose assignment needs an elevated permission
  (\<open>ELEVATED_ROLE_PERMISSIONS\<close>), the permissions no operator-defined role may carry
  (\<open>NON_DELEGABLE_PERMISSIONS\<close>) and the system roles that are never switched off.

  A permission set travels as strings (the session token and \<open>roles.permissions\<close> hold the values of
  the \<open>StrEnum\<close>), so \<open>permission_value\<close> is the bridge between the enum and the services; that it is
  injective is what makes a test on strings a test on permissions.
\<close>

datatype system_role = ADMIN | OWNER | RED_TEAMER | ANNOTATOR | VIEWER

fun system_role_value :: "system_role \<Rightarrow> string" where
  "system_role_value ADMIN = ''admin''"
| "system_role_value OWNER = ''owner''"
| "system_role_value RED_TEAMER = ''red_teamer''"
| "system_role_value ANNOTATOR = ''annotator''"
| "system_role_value VIEWER = ''viewer''"

definition all_system_roles :: "system_role list" where
  "all_system_roles = [ADMIN, OWNER, RED_TEAMER, ANNOTATOR, VIEWER]"

datatype (plugins only: code size) permission =
    USERS_READ | USERS_UPDATE | USERS_DELETE | USERS_INVITE | USERS_MANAGE_ADMIN
    | USERS_MANAGE_SESSIONS | ROLES_READ | ROLES_MANAGE | ORGANIZATIONS_READ
    | ORGANIZATIONS_CREATE | ORGANIZATIONS_UPDATE | ORGANIZATIONS_DELETE
    | ORGANIZATIONS_MANAGE_MEMBERS | MODELS_READ | MODELS_CREATE | MODELS_UPDATE
    | MODELS_DELETE | EVALUATIONS_READ | EVALUATIONS_CREATE | EVALUATIONS_UPDATE
    | EVALUATIONS_DELETE | EVALUATIONS_APPROVE | EVALUATION_GROUPS_READ
    | EVALUATION_GROUPS_MANAGE_MEMBERS | EVALUATION_GROUPS_CREATE
    | EVALUATION_GROUPS_UPDATE | EVALUATION_GROUPS_VIEW_METRICS
    | EVALUATION_GROUPS_VIEW_PERSONAL_METRICS | EVALUATION_GROUPS_EXPORT
    | EVALUATION_GROUPS_MANAGE | CONVERSATIONS_READ | CONVERSATIONS_CREATE
    | CONVERSATIONS_UPDATE | CONVERSATIONS_DELETE | CONVERSATIONS_READ_ANY
    | CONVERSATIONS_PARTICIPATE | FLAGS_READ | FLAGS_CREATE | FLAGS_UPDATE | FLAGS_DELETE
    | NOTES_READ | NOTES_CREATE | NOTES_UPDATE | NOTES_DELETE | ANNOTATIONS_READ
    | ANNOTATIONS_CREATE | ANNOTATIONS_DELETE | REVIEWS_READ | REVIEWS_CREATE
    | REVIEWS_UPDATE | REVIEWS_DELETE | REVIEWS_ANNOTATE | PLATFORM_SETTINGS_READ
    | PLATFORM_SETTINGS_UPDATE | LICENSES_CREATE | LICENSES_UPDATE | LICENSES_DELETE
    | LICENSES_MANAGE | AUDIT_READ | SAVED_VIEWS_READ | SAVED_VIEWS_CREATE
    | SAVED_VIEWS_UPDATE | SAVED_VIEWS_DELETE | NOTIFICATIONS_READ | NOTIFICATIONS_UPDATE

primrec permission_value :: "permission \<Rightarrow> string" where
  "permission_value USERS_READ = ''users:read''"
| "permission_value USERS_UPDATE = ''users:update''"
| "permission_value USERS_DELETE = ''users:delete''"
| "permission_value USERS_INVITE = ''users:invite''"
| "permission_value USERS_MANAGE_ADMIN = ''users:manage_admin''"
| "permission_value USERS_MANAGE_SESSIONS = ''users:manage_sessions''"
| "permission_value ROLES_READ = ''roles:read''"
| "permission_value ROLES_MANAGE = ''roles:manage''"
| "permission_value ORGANIZATIONS_READ = ''organizations:read''"
| "permission_value ORGANIZATIONS_CREATE = ''organizations:create''"
| "permission_value ORGANIZATIONS_UPDATE = ''organizations:update''"
| "permission_value ORGANIZATIONS_DELETE = ''organizations:delete''"
| "permission_value ORGANIZATIONS_MANAGE_MEMBERS = ''organizations:manage_members''"
| "permission_value MODELS_READ = ''models:read''"
| "permission_value MODELS_CREATE = ''models:create''"
| "permission_value MODELS_UPDATE = ''models:update''"
| "permission_value MODELS_DELETE = ''models:delete''"
| "permission_value EVALUATIONS_READ = ''evaluations:read''"
| "permission_value EVALUATIONS_CREATE = ''evaluations:create''"
| "permission_value EVALUATIONS_UPDATE = ''evaluations:update''"
| "permission_value EVALUATIONS_DELETE = ''evaluations:delete''"
| "permission_value EVALUATIONS_APPROVE = ''evaluations:approve''"
| "permission_value EVALUATION_GROUPS_READ = ''evaluation_groups:read''"
| "permission_value EVALUATION_GROUPS_MANAGE_MEMBERS = ''evaluation_groups:manage_members''"
| "permission_value EVALUATION_GROUPS_CREATE = ''evaluation_groups:create''"
| "permission_value EVALUATION_GROUPS_UPDATE = ''evaluation_groups:update''"
| "permission_value EVALUATION_GROUPS_VIEW_METRICS = ''evaluation_groups:view_metrics''"
| "permission_value EVALUATION_GROUPS_VIEW_PERSONAL_METRICS = ''evaluation_groups:view_personal_metrics''"
| "permission_value EVALUATION_GROUPS_EXPORT = ''evaluation_groups:export''"
| "permission_value EVALUATION_GROUPS_MANAGE = ''evaluation_groups:manage''"
| "permission_value CONVERSATIONS_READ = ''conversations:read''"
| "permission_value CONVERSATIONS_CREATE = ''conversations:create''"
| "permission_value CONVERSATIONS_UPDATE = ''conversations:update''"
| "permission_value CONVERSATIONS_DELETE = ''conversations:delete''"
| "permission_value CONVERSATIONS_READ_ANY = ''conversations:read_any''"
| "permission_value CONVERSATIONS_PARTICIPATE = ''conversations:participate''"
| "permission_value FLAGS_READ = ''flags:read''"
| "permission_value FLAGS_CREATE = ''flags:create''"
| "permission_value FLAGS_UPDATE = ''flags:update''"
| "permission_value FLAGS_DELETE = ''flags:delete''"
| "permission_value NOTES_READ = ''notes:read''"
| "permission_value NOTES_CREATE = ''notes:create''"
| "permission_value NOTES_UPDATE = ''notes:update''"
| "permission_value NOTES_DELETE = ''notes:delete''"
| "permission_value ANNOTATIONS_READ = ''annotations:read''"
| "permission_value ANNOTATIONS_CREATE = ''annotations:create''"
| "permission_value ANNOTATIONS_DELETE = ''annotations:delete''"
| "permission_value REVIEWS_READ = ''reviews:read''"
| "permission_value REVIEWS_CREATE = ''reviews:create''"
| "permission_value REVIEWS_UPDATE = ''reviews:update''"
| "permission_value REVIEWS_DELETE = ''reviews:delete''"
| "permission_value REVIEWS_ANNOTATE = ''reviews:annotate''"
| "permission_value PLATFORM_SETTINGS_READ = ''platform_settings:read''"
| "permission_value PLATFORM_SETTINGS_UPDATE = ''platform_settings:update''"
| "permission_value LICENSES_CREATE = ''licenses:create''"
| "permission_value LICENSES_UPDATE = ''licenses:update''"
| "permission_value LICENSES_DELETE = ''licenses:delete''"
| "permission_value LICENSES_MANAGE = ''licenses:manage''"
| "permission_value AUDIT_READ = ''audit:read''"
| "permission_value SAVED_VIEWS_READ = ''saved_views:read''"
| "permission_value SAVED_VIEWS_CREATE = ''saved_views:create''"
| "permission_value SAVED_VIEWS_UPDATE = ''saved_views:update''"
| "permission_value SAVED_VIEWS_DELETE = ''saved_views:delete''"
| "permission_value NOTIFICATIONS_READ = ''notifications:read''"
| "permission_value NOTIFICATIONS_UPDATE = ''notifications:update''"

definition all_permissions :: "permission list" where
  "all_permissions =
    [USERS_READ, USERS_UPDATE, USERS_DELETE, USERS_INVITE, USERS_MANAGE_ADMIN,
     USERS_MANAGE_SESSIONS, ROLES_READ, ROLES_MANAGE, ORGANIZATIONS_READ,
     ORGANIZATIONS_CREATE, ORGANIZATIONS_UPDATE, ORGANIZATIONS_DELETE,
     ORGANIZATIONS_MANAGE_MEMBERS, MODELS_READ, MODELS_CREATE, MODELS_UPDATE,
     MODELS_DELETE, EVALUATIONS_READ, EVALUATIONS_CREATE, EVALUATIONS_UPDATE,
     EVALUATIONS_DELETE, EVALUATIONS_APPROVE, EVALUATION_GROUPS_READ,
     EVALUATION_GROUPS_MANAGE_MEMBERS, EVALUATION_GROUPS_CREATE, EVALUATION_GROUPS_UPDATE,
     EVALUATION_GROUPS_VIEW_METRICS, EVALUATION_GROUPS_VIEW_PERSONAL_METRICS,
     EVALUATION_GROUPS_EXPORT, EVALUATION_GROUPS_MANAGE, CONVERSATIONS_READ,
     CONVERSATIONS_CREATE, CONVERSATIONS_UPDATE, CONVERSATIONS_DELETE,
     CONVERSATIONS_READ_ANY, CONVERSATIONS_PARTICIPATE, FLAGS_READ, FLAGS_CREATE,
     FLAGS_UPDATE, FLAGS_DELETE, NOTES_READ, NOTES_CREATE, NOTES_UPDATE, NOTES_DELETE,
     ANNOTATIONS_READ, ANNOTATIONS_CREATE, ANNOTATIONS_DELETE, REVIEWS_READ,
     REVIEWS_CREATE, REVIEWS_UPDATE, REVIEWS_DELETE, REVIEWS_ANNOTATE,
     PLATFORM_SETTINGS_READ, PLATFORM_SETTINGS_UPDATE, LICENSES_CREATE, LICENSES_UPDATE,
     LICENSES_DELETE, LICENSES_MANAGE, AUDIT_READ, SAVED_VIEWS_READ, SAVED_VIEWS_CREATE,
     SAVED_VIEWS_UPDATE, SAVED_VIEWS_DELETE, NOTIFICATIONS_READ, NOTIFICATIONS_UPDATE]"

definition admin_permissions :: "permission list" where
  "admin_permissions =
    [USERS_READ, USERS_UPDATE, USERS_DELETE, USERS_INVITE, USERS_MANAGE_ADMIN,
     USERS_MANAGE_SESSIONS, ROLES_READ, ROLES_MANAGE, ORGANIZATIONS_READ,
     ORGANIZATIONS_CREATE, ORGANIZATIONS_UPDATE, ORGANIZATIONS_DELETE,
     ORGANIZATIONS_MANAGE_MEMBERS, MODELS_READ, MODELS_CREATE, MODELS_UPDATE,
     MODELS_DELETE, EVALUATIONS_READ, EVALUATIONS_CREATE, EVALUATIONS_UPDATE,
     EVALUATIONS_DELETE, EVALUATIONS_APPROVE, EVALUATION_GROUPS_READ,
     EVALUATION_GROUPS_CREATE, EVALUATION_GROUPS_UPDATE, EVALUATION_GROUPS_VIEW_METRICS,
     EVALUATION_GROUPS_MANAGE, CONVERSATIONS_READ, CONVERSATIONS_CREATE,
     CONVERSATIONS_UPDATE, CONVERSATIONS_DELETE, CONVERSATIONS_PARTICIPATE, FLAGS_READ,
     FLAGS_CREATE, FLAGS_UPDATE, FLAGS_DELETE, NOTES_READ, NOTES_CREATE, NOTES_UPDATE,
     NOTES_DELETE, ANNOTATIONS_READ, ANNOTATIONS_CREATE, ANNOTATIONS_DELETE, REVIEWS_READ,
     REVIEWS_CREATE, REVIEWS_UPDATE, REVIEWS_DELETE, PLATFORM_SETTINGS_READ,
     PLATFORM_SETTINGS_UPDATE, LICENSES_CREATE, LICENSES_UPDATE, LICENSES_DELETE,
     LICENSES_MANAGE, AUDIT_READ, SAVED_VIEWS_READ, SAVED_VIEWS_CREATE, SAVED_VIEWS_UPDATE,
     SAVED_VIEWS_DELETE, NOTIFICATIONS_READ, NOTIFICATIONS_UPDATE]"

definition owner_permissions :: "permission list" where
  "owner_permissions =
    [USERS_INVITE, ROLES_READ, EVALUATIONS_READ, EVALUATIONS_CREATE, EVALUATIONS_UPDATE,
     EVALUATIONS_DELETE, EVALUATION_GROUPS_READ, MODELS_READ, ORGANIZATIONS_READ,
     EVALUATION_GROUPS_CREATE, EVALUATION_GROUPS_UPDATE, EVALUATION_GROUPS_VIEW_METRICS,
     EVALUATION_GROUPS_MANAGE_MEMBERS, EVALUATION_GROUPS_EXPORT, LICENSES_CREATE,
     LICENSES_UPDATE, LICENSES_DELETE, CONVERSATIONS_PARTICIPATE, CONVERSATIONS_READ,
     CONVERSATIONS_READ_ANY, ANNOTATIONS_READ, REVIEWS_READ, REVIEWS_CREATE,
     REVIEWS_UPDATE, REVIEWS_DELETE, SAVED_VIEWS_READ, SAVED_VIEWS_CREATE,
     SAVED_VIEWS_UPDATE, SAVED_VIEWS_DELETE, NOTIFICATIONS_READ, NOTIFICATIONS_UPDATE]"

definition red_teamer_permissions :: "permission list" where
  "red_teamer_permissions =
    [EVALUATIONS_READ, EVALUATION_GROUPS_READ, EVALUATION_GROUPS_VIEW_PERSONAL_METRICS,
     ORGANIZATIONS_READ, CONVERSATIONS_READ, CONVERSATIONS_CREATE, CONVERSATIONS_UPDATE,
     CONVERSATIONS_DELETE, CONVERSATIONS_PARTICIPATE, FLAGS_READ, FLAGS_CREATE,
     FLAGS_UPDATE, FLAGS_DELETE, NOTES_READ, NOTES_CREATE, NOTES_UPDATE, NOTES_DELETE,
     REVIEWS_READ, SAVED_VIEWS_READ, SAVED_VIEWS_CREATE, SAVED_VIEWS_UPDATE,
     SAVED_VIEWS_DELETE, NOTIFICATIONS_READ, NOTIFICATIONS_UPDATE]"

definition annotator_permissions :: "permission list" where
  "annotator_permissions =
    [EVALUATIONS_READ, EVALUATION_GROUPS_READ, ORGANIZATIONS_READ, NOTES_READ,
     NOTES_CREATE, NOTES_UPDATE, NOTES_DELETE, ANNOTATIONS_READ, ANNOTATIONS_CREATE,
     ANNOTATIONS_DELETE, FLAGS_READ, REVIEWS_READ, REVIEWS_CREATE, REVIEWS_UPDATE,
     REVIEWS_DELETE, REVIEWS_ANNOTATE, SAVED_VIEWS_READ, SAVED_VIEWS_CREATE,
     SAVED_VIEWS_UPDATE, SAVED_VIEWS_DELETE, NOTIFICATIONS_READ, NOTIFICATIONS_UPDATE]"

definition viewer_permissions :: "permission list" where
  "viewer_permissions =
    [EVALUATIONS_READ, EVALUATION_GROUPS_READ, ORGANIZATIONS_READ, SAVED_VIEWS_READ,
     SAVED_VIEWS_CREATE, SAVED_VIEWS_UPDATE, SAVED_VIEWS_DELETE, NOTIFICATIONS_READ,
     NOTIFICATIONS_UPDATE]"

record role_spec =
  rs_display_name :: string
  rs_description :: string
  rs_permissions :: "permission list"

fun spec :: "system_role \<Rightarrow> role_spec" where
  "spec ADMIN = \<lparr>rs_display_name = ''Admin'',
     rs_description = ''Full administrative access: manage users and invite any role.'',
     rs_permissions = admin_permissions\<rparr>"
| "spec OWNER = \<lparr>rs_display_name = ''Owner'',
     rs_description = ''Manages a single instance and invites owners, red teamers, annotators, and viewers.'',
     rs_permissions = owner_permissions\<rparr>"
| "spec RED_TEAMER = \<lparr>rs_display_name = ''Red Teamer'',
     rs_description = ''Participates as a red teamer in assigned evaluations.'',
     rs_permissions = red_teamer_permissions\<rparr>"
| "spec ANNOTATOR = \<lparr>rs_display_name = ''Annotator'',
     rs_description = ''Annotates conversations and evaluation outputs.'',
     rs_permissions = annotator_permissions\<rparr>"
| "spec VIEWER = \<lparr>rs_display_name = ''Viewer'',
     rs_description = ''Views aggregated evaluation results and dashboards.'',
     rs_permissions = viewer_permissions\<rparr>"

text \<open>\<open>ELEVATED_ROLE_PERMISSIONS\<close>, keyed by role slug as the services read it (\<open>StrEnum\<close> keys hash as
  their strings).\<close>

definition ELEVATED_ROLE_PERMISSIONS :: "string \<rightharpoonup> permission" where
  "ELEVATED_ROLE_PERMISSIONS =
     [system_role_value ADMIN \<mapsto> USERS_MANAGE_ADMIN, system_role_value OWNER \<mapsto> USERS_MANAGE_ADMIN]"

definition NON_DELEGABLE_PERMISSIONS :: "permission list" where
  "NON_DELEGABLE_PERMISSIONS = [ROLES_MANAGE, USERS_MANAGE_ADMIN, USERS_UPDATE]"

definition NON_DEACTIVATABLE_SYSTEM_ROLES :: "system_role list" where
  "NON_DEACTIVATABLE_SYSTEM_ROLES = [ADMIN, OWNER]"

definition RESERVED_ROLE_NAMES :: "string list" where
  "RESERVED_ROLE_NAMES = map system_role_value all_system_roles"

definition ROLE_PERMISSIONS :: "system_role \<Rightarrow> string list" where
  "ROLE_PERMISSIONS r = map permission_value (rs_permissions (spec r))"

text \<open>Membership of a permission in a set of permission strings (a token's or a role's).\<close>

definition has_permission :: "permission \<Rightarrow> string list \<Rightarrow> bool" where
  "has_permission p ps \<longleftrightarrow> permission_value p \<in> set ps"

subsection \<open>The vocabulary is consistent\<close>

lemma set_all_system_roles [simp]: "set all_system_roles = UNIV"
proof -
  have "r \<in> set all_system_roles" for r
    by (cases r) (simp_all add: all_system_roles_def)
  then show ?thesis by blast
qed

lemma system_role_value_eq_iff [simp]: "system_role_value a = system_role_value b \<longleftrightarrow> a = b"
  by (cases a; cases b) simp_all

lemma set_all_permissions [simp]: "set all_permissions = UNIV"
proof -
  have "p \<in> set all_permissions" for p
    by (cases p) (simp_all add: all_permissions_def)
  then show ?thesis by blast
qed

lemma distinct_permission_values: "distinct (map permission_value all_permissions)"
  by code_simp

lemma permission_value_eq_iff [simp]: "permission_value p = permission_value q \<longleftrightarrow> p = q"
  using distinct_permission_values
  by (metis UNIV_I distinct_map inj_onD set_all_permissions)

lemma has_permission_map [simp]: "has_permission p (map permission_value ps) \<longleftrightarrow> p \<in> set ps"
  by (auto simp: has_permission_def)

lemma ROLE_PERMISSIONS_has [simp]: "has_permission p (ROLE_PERMISSIONS r) \<longleftrightarrow> p \<in> set (rs_permissions (spec r))"
  by (simp add: ROLE_PERMISSIONS_def)

lemma RESERVED_ROLE_NAMES_iff [simp]: "n \<in> set RESERVED_ROLE_NAMES \<longleftrightarrow> (\<exists>r. n = system_role_value r)"
  by (auto simp: RESERVED_ROLE_NAMES_def)

end
