(* ===== verification/Db.thy ===== *)
theory Db
  imports Base_Model Rbac
begin

section \<open>The database schema\<close>

text \<open>
  The table models of \<open>app/core/auth/models.py\<close>, \<open>auth/object_roles/models.py\<close>,
  \<open>evaluations/models.py\<close>, \<open>licenses/models.py\<close>, \<open>notifications/models.py\<close> and the enums they store
  (\<open>evaluations/enums.py\<close>, \<open>notifications/enums.py\<close>, \<open>auth/object_roles/registry.py\<close>).  Each row type is
  a record over \<open>base\<close>; each field carries a prefix naming its table.  \<open>user_roles\<close> is the junction
  table, a list of pairs.  The database record \<open>db\<close> holds every table, the supply of fresh primary
  keys, the clock of the running transaction (\<open>now()\<close>), and \<open>revoked\<close>, the session-revocation
  markers the back end keeps in Redis.

  The ORM objects a service holds are identified with their rows: a row is looked up by key, changed
  and written back with \<open>save_row\<close>.  Columns no modelled code reads (model connection data, \<open>updated_at\<close>) are left
  out.
\<close>

subsection \<open>Enums\<close>

datatype user_status = USER_ACTIVE | USER_PENDING | USER_INVITED | USER_INACTIVE

fun user_status_value :: "user_status \<Rightarrow> string" where
  "user_status_value USER_ACTIVE = ''active''"
| "user_status_value USER_PENDING = ''pending''"
| "user_status_value USER_INVITED = ''invited''"
| "user_status_value USER_INACTIVE = ''inactive''"

datatype object_type = EVALUATION_GROUP

datatype publication_status =
  PS_DRAFT | PENDING_APPROVAL | CHANGES_REQUESTED | PS_APPROVED | NOT_APPROVED | PS_PUBLISHED | PS_INACTIVE

fun publication_status_value :: "publication_status \<Rightarrow> string" where
  "publication_status_value PS_DRAFT = ''draft''"
| "publication_status_value PENDING_APPROVAL = ''pending_approval''"
| "publication_status_value CHANGES_REQUESTED = ''changes_requested''"
| "publication_status_value PS_APPROVED = ''approved''"
| "publication_status_value NOT_APPROVED = ''not_approved''"
| "publication_status_value PS_PUBLISHED = ''published''"
| "publication_status_value PS_INACTIVE = ''inactive''"

definition GROUP_STATUSES_ACCEPTING_EVALUATIONS :: "publication_status list" where
  "GROUP_STATUSES_ACCEPTING_EVALUATIONS = [PS_APPROVED, PS_PUBLISHED]"

datatype evaluation_status =
  ES_NEW | ES_DRAFT | UNDER_REVIEW | REJECTED | ES_APPROVED | ES_PUBLISHED | COMPLETED

fun evaluation_status_value :: "evaluation_status \<Rightarrow> string" where
  "evaluation_status_value ES_NEW = ''new''"
| "evaluation_status_value ES_DRAFT = ''draft''"
| "evaluation_status_value UNDER_REVIEW = ''under_review''"
| "evaluation_status_value REJECTED = ''rejected''"
| "evaluation_status_value ES_APPROVED = ''approved''"
| "evaluation_status_value ES_PUBLISHED = ''published''"
| "evaluation_status_value COMPLETED = ''completed''"

datatype evaluation_group_access_level = PUBLIC | ORGANIZATION | INVITATION_ONLY

datatype metrics_access_level =
  INHERIT_GROUP_ACCESS | ALL_MEMBERS | MEMBERS_PERSONAL_METRICS | OWNER_ONLY

datatype metrics_scope = FULL | PERSONAL

datatype invitation_status = INV_PENDING | INV_ACCEPTED | INV_EXPIRED | INV_REVOKED

fun invitation_status_value :: "invitation_status \<Rightarrow> string" where
  "invitation_status_value INV_PENDING = ''pending''"
| "invitation_status_value INV_ACCEPTED = ''accepted''"
| "invitation_status_value INV_EXPIRED = ''expired''"
| "invitation_status_value INV_REVOKED = ''revoked''"

datatype email_verification_status = EV_PENDING | EV_VERIFIED | EV_EXPIRED | EV_REVOKED

fun email_verification_status_value :: "email_verification_status \<Rightarrow> string" where
  "email_verification_status_value EV_PENDING = ''pending''"
| "email_verification_status_value EV_VERIFIED = ''verified''"
| "email_verification_status_value EV_EXPIRED = ''expired''"
| "email_verification_status_value EV_REVOKED = ''revoked''"

datatype password_reset_token_status = PR_PENDING | PR_USED | PR_EXPIRED | PR_REVOKED

fun password_reset_token_status_value :: "password_reset_token_status \<Rightarrow> string" where
  "password_reset_token_status_value PR_PENDING = ''pending''"
| "password_reset_token_status_value PR_USED = ''used''"
| "password_reset_token_status_value PR_EXPIRED = ''expired''"
| "password_reset_token_status_value PR_REVOKED = ''revoked''"

datatype notification_object_type = NOT_EVALUATION | NOT_EVALUATION_GROUP | NOT_AI_MODEL

subsection \<open>Rows\<close>

record user = base +
  u_email :: string
  u_email_verified_at :: "timestamp option"
  u_first_name :: "string option"
  u_last_name :: "string option"
  u_password :: "string option"
  u_organization_id :: "uuid option"
  u_status :: user_status
  u_consent_emails :: bool
  u_password_cleared_at :: "timestamp option"
  u_accepted_terms_id :: "uuid option"
  u_terms_accepted_at :: "timestamp option"

record role = base +
  r_name :: string
  r_display_name :: "string option"
  r_description :: "string option"
  r_permissions :: "string list"
  r_is_system :: bool
  r_is_active :: bool
  r_is_default :: bool
  r_is_participant_default :: bool
  r_is_object_assignable :: bool

record provider_identity = base +
  pi_provider :: string
  pi_subject :: string
  pi_user_id :: uuid

record organization = base +
  o_name :: string

record object_role_assignment = base +
  a_object_type :: object_type
  a_object_id :: uuid
  a_user_id :: uuid
  a_role_id :: uuid

record evaluation_group = base +
  g_title :: "string option"
  g_description :: "string option"
  g_created_by_id :: uuid
  g_status :: publication_status
  g_rejection_reason :: "string option"
  g_access_level :: evaluation_group_access_level
  g_metrics_access_during :: metrics_access_level
  g_metrics_access_after :: metrics_access_level
  g_organization_id :: "uuid option"
  g_start_date :: "day option"
  g_end_date :: "day option"
  g_data_license_id :: "uuid option"

record evaluation = base +
  e_title :: string
  e_description :: "string option"
  e_mask_models_enabled :: bool
  e_tags_enabled :: bool
  e_tags_restricted :: bool
  e_cover_image :: "string option"
  e_data_license_id :: "uuid option"
  e_status :: evaluation_status
  e_rejection_reason :: "string option"
  e_created_by_id :: uuid
  e_evaluation_group_id :: uuid

record evaluation_ai_model = base +
  em_model_id :: uuid
  em_evaluation_id :: uuid
  em_model_display_mask :: "string option"
  em_parameters :: "(string \<times> string) list"

record evaluation_group_ai_model = base +
  gm_evaluation_group_id :: uuid
  gm_model_id :: uuid

record evaluation_tag_key = base +
  tk_evaluation_id :: uuid
  tk_key :: string

record scenario = base +
  s_name :: string
  s_description :: string
  s_evaluation_id :: uuid
  s_position :: nat
  s_required_reviews :: int

record task = base +
  t_name :: string
  t_description :: string
  t_scenario_id :: uuid

record ai_model = base +
  m_name :: string

record data_license = base +
  l_name :: string
  l_version :: "string option"
  l_short_description :: string
  l_content :: string
  l_reference_url :: "string option"
  l_protects_conversation_data :: bool
  l_spdx_id :: "string option"
  l_created_by_id :: "uuid option"

record notification = base +
  n_user_id :: uuid
  n_name :: string
  n_description :: "detail option"
  n_read_at :: "timestamp option"
  n_object_type :: "notification_object_type option"
  n_object_id :: "uuid option"

record invitation = base +
  iv_user_id :: uuid
  iv_token_hash :: string
  iv_expires_at :: timestamp
  iv_revoked_at :: "timestamp option"
  iv_invited_by_user_id :: "uuid option"
  iv_accepted_at :: "timestamp option"
  iv_status :: invitation_status
  iv_object_type :: "object_type option"
  iv_object_id :: "uuid option"

record email_verification = base +
  ev_user_id :: uuid
  ev_token_hash :: string
  ev_expires_at :: timestamp
  ev_revoked_at :: "timestamp option"
  ev_verified_at :: "timestamp option"
  ev_status :: email_verification_status

record password_reset_token = base +
  pr_user_id :: uuid
  pr_token_hash :: string
  pr_expires_at :: timestamp
  pr_used_at :: "timestamp option"
  pr_revoked_at :: "timestamp option"
  pr_status :: password_reset_token_status

record terms_document = base +
  td_version :: string
  td_content :: string
  td_published_at :: timestamp

text \<open>\<open>PlatformSettings\<close>: the one row of knobs, absent until the first admin write.\<close>

record platform_settings =
  ps_default_license_id :: uuid
  ps_invite_only :: bool
  ps_email_verification_ttl_hours :: int
  ps_password_min_length :: nat
  ps_password_require_uppercase :: bool
  ps_password_require_digit :: bool
  ps_password_require_symbol :: bool
  ps_password_reset_cooldown_seconds :: int
  ps_password_reset_max_per_day :: nat

text \<open>\<open>AuditLog\<close>: who did what to which object, with the curated snapshots; \<open>context\<close> and the request id are left out.\<close>

record audit_entry = base +
  al_actor_id :: "uuid option"
  al_actor_email :: "string option"
  al_action :: string
  al_object_type :: "string option"
  al_object_id :: "uuid option"
  al_before :: "(string \<times> arg) list option"
  al_after :: "(string \<times> arg) list option"

text \<open>A mail handed to the task queue: the persisted template and recipient, and the raw token that only travels in
  its link.\<close>

record mail =
  ml_template :: string
  ml_to :: string
  ml_raw_token :: "string option"

record db =
  users :: "user list"
  roles :: "role list"
  user_roles :: "(uuid \<times> uuid) list"
  provider_identities :: "provider_identity list"
  organizations :: "organization list"
  assignments :: "object_role_assignment list"
  groups :: "evaluation_group list"
  evaluations :: "evaluation list"
  eval_models :: "evaluation_ai_model list"
  group_models :: "evaluation_group_ai_model list"
  tag_keys :: "evaluation_tag_key list"
  scenarios :: "scenario list"
  tasks :: "task list"
  ai_models :: "ai_model list"
  licenses :: "data_license list"
  notifications :: "notification list"
  invitations :: "invitation list"
  email_verifications :: "email_verification list"
  password_resets :: "password_reset_token list"
  terms_documents :: "terms_document list"
  settings_row :: "platform_settings option"
  audit_log :: "audit_entry list"
  outbox :: "mail list"
  revoked :: "uuid \<rightharpoonup> timestamp"
  next_id :: uuid
  now :: timestamp

text \<open>The caller of a request: the claims of its session token.\<close>

record session_user =
  su_id :: uuid
  su_permissions :: "string list"
  su_email :: string
  su_email_verified :: bool
  su_first_name :: "string option"
  su_last_name :: "string option"
  su_provider :: string
  su_auth_time :: "timestamp option"
  su_issued_at :: "timestamp option"

text \<open>An empty database, the starting point of the examples.\<close>

definition empty_db :: db where
  "empty_db = \<lparr>users = [], roles = [], user_roles = [], provider_identities = [], organizations = [],
     assignments = [], groups = [], evaluations = [], eval_models = [], group_models = [],
     tag_keys = [], scenarios = [], tasks = [], ai_models = [], licenses = [], notifications = [],
     invitations = [], email_verifications = [], password_resets = [], terms_documents = [], settings_row = None,
     audit_log = [], outbox = [], revoked = Map.empty, next_id = 0, now = 0\<rparr>"

text \<open>\<open>date.today()\<close> of the transaction clock.\<close>

definition today :: "db \<Rightarrow> day" where
  "today d = now d div 86400"

text \<open>The shape of the keys every table keeps: keys are distinct and below the supply.\<close>

definition keys_ok :: "uuid \<Rightarrow> 'a base_scheme list \<Rightarrow> bool" where
  "keys_ok n t \<longleftrightarrow> distinct (map row_id t) \<and> (\<forall>r\<in>set t. row_id r < n)"

lemma keys_ok_save_row [simp]: "keys_ok n t \<Longrightarrow> row_id r < n \<Longrightarrow> keys_ok n (save_row r t)"
  by (auto simp: keys_ok_def in_save_row)

lemma keys_ok_append: "keys_ok n t \<Longrightarrow> row_id r = n \<Longrightarrow> keys_ok (Suc n) (t @ [r])"
  by (fastforce simp: keys_ok_def)

lemma keys_ok_mono: "keys_ok n t \<Longrightarrow> n \<le> m \<Longrightarrow> keys_ok m t"
  by (fastforce simp: keys_ok_def)

lemma keys_ok_live_update:
  "keys_ok n t \<Longrightarrow> (\<And>r. row_id (f r) = row_id r) \<Longrightarrow> keys_ok n (live_update P f t)"
  by (auto simp: keys_ok_def map_row_id_live_update) (auto simp: live_update_def)

lemma keys_ok_fresh: "keys_ok n t \<Longrightarrow> n \<notin> row_id ` set t"
  by (auto simp: keys_ok_def)

end
