(* ===== verification/User_Service.thy ===== *)
theory User_Service
  imports Db
begin

section \<open>User accounts and the elevation gate\<close>

text \<open>
  \<open>app/core/auth/services/users.py\<close>: role resolution, the gate on elevated roles, and the account
  operations (create, update, status change, soft delete, restore), with the permission dependency
  \<open>require_permission\<close> of \<open>auth/dependencies.py\<close>.  \<open>user_live_roles\<close> is the \<open>User.roles\<close> collection
  as every read loads it (\<open>with_live(Role)\<close>): linked roles that are not tombstoned, active or not.
  Assigning to that collection makes the ORM delete the links of loaded roles that left it and
  insert the links of the roles that joined it; links to tombstoned roles are never loaded, so they
  stay.  Password hashing is a parameter.  The list endpoint (filters, ordering, paging) is left out.
\<close>

definition require_permission :: "permission \<Rightarrow> session_user \<Rightarrow> session_user result" where
  "require_permission p caller =
     bindE (ensure (has_permission p (su_permissions caller))
       (ForbiddenError (Msg ''Caller lacks the {} permission.'' [AStr (permission_value p)]))) (\<lambda>_.
     Inr caller)"

definition user_live_roles :: "db \<Rightarrow> uuid \<Rightarrow> role list" where
  "user_live_roles d uid = filter (\<lambda>r. (uid, row_id r) \<in> set (user_roles d)) (live_select (roles d))"

definition get_roles_by_ids :: "db \<Rightarrow> uuid list \<Rightarrow> role list result" where
  "get_roles_by_ids d role_ids =
     (let unique_ids = py_dedup role_ids;
          by_id = (\<lambda>i. live_by_id i (roles d));
          missing = filter (\<lambda>i. by_id i = None) unique_ids;
          found = List.map_filter by_id unique_ids;
          inactive = sort (map r_name (filter (\<lambda>r. \<not> r_is_active r) found))
      in bindE (ensure (missing = []) (BadRequestError (Msg ''Unknown role(s): {}.'' [AIds missing]))) (\<lambda>_.
         bindE (ensure (inactive = [])
           (BadRequestError (Msg ''Cannot assign inactive role(s): {}.'' [AStrs inactive]))) (\<lambda>_.
         Inr found)))"

text \<open>An elevated role name whose permission \<open>caller\<close> does not hold.\<close>

definition elevation_missing :: "session_user \<Rightarrow> string \<Rightarrow> bool" where
  "elevation_missing caller n =
     (case ELEVATED_ROLE_PERMISSIONS n of None \<Rightarrow> False
      | Some p \<Rightarrow> \<not> has_permission p (su_permissions caller))"

definition assert_can_assign_roles ::
  "session_user \<Rightarrow> role list \<Rightarrow> role list \<Rightarrow> unit result" where
  "assert_can_assign_roles caller rs current_roles =
     (let requested = map r_name rs;
          held = map r_name current_roles;
          assigning = py_sorted_set (filter (elevation_missing caller) requested);
          revoking = py_sorted_set (filter (\<lambda>n. n \<notin> set requested \<and> elevation_missing caller n) held)
      in bindE (ensure (assigning = [])
           (ForbiddenError (Msg ''Caller cannot assign role(s): {}.'' [AStrs assigning]))) (\<lambda>_.
         ensure (revoking = [])
           (ForbiddenError (Msg ''Caller cannot revoke role(s): {}.'' [AStrs revoking]))))"

definition blocked_elevated_roles :: "db \<Rightarrow> session_user \<Rightarrow> user \<Rightarrow> string list" where
  "blocked_elevated_roles d caller u =
     py_sorted_set (filter (elevation_missing caller) (map r_name (user_live_roles d (row_id u))))"

definition assert_can_delete_user :: "db \<Rightarrow> session_user \<Rightarrow> user \<Rightarrow> unit result" where
  "assert_can_delete_user d caller u =
     (let blocked = blocked_elevated_roles d caller u in
      ensure (blocked = [])
        (ForbiddenError (Msg ''Caller cannot delete a user holding role(s): {}.'' [AStrs blocked])))"

definition assert_can_restore_user :: "db \<Rightarrow> session_user \<Rightarrow> user \<Rightarrow> unit result" where
  "assert_can_restore_user d caller u =
     (let blocked = blocked_elevated_roles d caller u in
      ensure (blocked = [])
        (ForbiddenError (Msg ''Caller cannot restore a user holding role(s): {}.'' [AStrs blocked])))"

definition assert_can_manage_invitation :: "db \<Rightarrow> session_user \<Rightarrow> user \<Rightarrow> unit result" where
  "assert_can_manage_invitation d caller u =
     (let blocked = blocked_elevated_roles d caller u in
      ensure (blocked = [])
        (ForbiddenError (Msg ''Caller cannot manage the invitation of a user holding role(s): {}.'' [AStrs blocked])))"

definition assert_can_manage_status :: "db \<Rightarrow> session_user \<Rightarrow> user \<Rightarrow> unit result" where
  "assert_can_manage_status d caller u =
     (let blocked = blocked_elevated_roles d caller u in
      ensure (blocked = [])
        (ForbiddenError (Msg ''Caller cannot change the status of a user holding role(s): {}.'' [AStrs blocked])))"

definition resolve_assignable_roles ::
  "db \<Rightarrow> session_user \<Rightarrow> uuid list \<Rightarrow> role list \<Rightarrow> role list result" where
  "resolve_assignable_roles d caller role_ids current_roles =
     bindE (get_roles_by_ids d role_ids) (\<lambda>rs.
     bindE (assert_can_assign_roles caller rs current_roles) (\<lambda>_.
     Inr rs))"

subsection \<open>Account operations\<close>

definition create_user ::
  "(string \<Rightarrow> string) \<Rightarrow> db \<Rightarrow> string \<Rightarrow> role list \<Rightarrow> string option \<Rightarrow> string option \<Rightarrow> string option
     \<Rightarrow> bool \<Rightarrow> user_status \<Rightarrow> (user \<times> db) result" where
  "create_user hash_password d email rs first_name last_name password email_verified status =
     bindE (ensure (rs \<noteq> []) (BadRequestError (Msg ''A user must be created with at least one role.'' []))) (\<lambda>_.
     let uid = next_id d;
         u = \<lparr>row_id = uid, created_at = now d, deleted_at = None, deleted_by_id = None,
              u_email = email, u_email_verified_at = (if email_verified then Some (now d) else None),
              u_first_name = first_name, u_last_name = last_name,
              u_password = map_option hash_password password, u_organization_id = None,
              u_status = status, u_consent_emails = False,
              u_password_cleared_at = None, u_accepted_terms_id = None, u_terms_accepted_at = None\<rparr>
     in bindE (ensure (\<forall>x\<in>set (live_select (users d)). u_email x \<noteq> email)
          (ConflictError (Msg ''A user with this email already exists.'' []))) (\<lambda>_.
        Inr (u, d\<lparr>users := users d @ [u],
                  user_roles := user_roles d @ map (\<lambda>r. (uid, row_id r)) rs,
                  next_id := Suc uid\<rparr>)))"

definition get_user :: "db \<Rightarrow> uuid \<Rightarrow> user result" where
  "get_user d user_id =
     the_or (NotFoundError (Msg ''User {} not found.'' [AId user_id])) (live_by_id user_id (users d))"

definition get_user_by_email :: "db \<Rightarrow> string \<Rightarrow> user option" where
  "get_user_by_email d email = List.find (\<lambda>u. u_email u = email) (live_select (users d))"

text \<open>\<open>UserUpdateChanges\<close>: \<open>None\<close> is an omitted field; an explicit null for \<open>roles\<close> and
  \<open>consent_emails\<close> changes nothing, like an omission.\<close>

record user_update_changes =
  uc_first_name :: "string option option"
  uc_last_name :: "string option option"
  uc_roles :: "role list option"
  uc_consent_emails :: "bool option"

text \<open>The links the ORM writes when the loaded collection \<open>loaded\<close> of \<open>uid\<close> becomes \<open>new\<close>.\<close>

definition replace_links ::
  "uuid \<Rightarrow> uuid list \<Rightarrow> uuid list \<Rightarrow> (uuid \<times> uuid) list \<Rightarrow> (uuid \<times> uuid) list" where
  "replace_links uid loaded new links =
     filter (\<lambda>(u, r). \<not> (u = uid \<and> r \<in> set loaded \<and> r \<notin> set new)) links
     @ map (\<lambda>r. (uid, r)) (filter (\<lambda>r. r \<notin> set loaded) new)"

text \<open>The loaded roles a full-set update keeps although the request does not name them: the API never
  shows an inactive (or tombstoned) role, so the caller could not have re-sent it.\<close>

definition hidden_roles :: "role list \<Rightarrow> uuid list \<Rightarrow> role list" where
  "hidden_roles loaded assigned =
     filter (\<lambda>r. row_id r \<notin> set assigned \<and> (\<not> r_is_active r \<or> deleted_at r \<noteq> None)) loaded"

definition update_user :: "db \<Rightarrow> user \<Rightarrow> user_update_changes \<Rightarrow> (user \<times> db) result" where
  "update_user d u changes =
     (let uid = row_id u;
          loaded = user_live_roles d uid;
          links = (case uc_roles changes of
                     None \<Rightarrow> user_roles d
                   | Some assigned_roles \<Rightarrow>
                       let assigned = map row_id assigned_roles;
                           hidden = hidden_roles loaded assigned
                       in replace_links uid (map row_id loaded) (assigned @ map row_id hidden) (user_roles d));
          u1 = (case uc_first_name changes of None \<Rightarrow> u | Some n \<Rightarrow> u\<lparr>u_first_name := n\<rparr>);
          u2 = (case uc_last_name changes of None \<Rightarrow> u1 | Some n \<Rightarrow> u1\<lparr>u_last_name := n\<rparr>);
          u3 = (case uc_consent_emails changes of None \<Rightarrow> u2 | Some b \<Rightarrow> u2\<lparr>u_consent_emails := b\<rparr>)
      in bindE (ensure (distinct (filter (\<lambda>(x, r). x = uid) links))
           (ConflictError (Msg ''User update violates a uniqueness constraint.'' []))) (\<lambda>_.
         Inr (u3, d\<lparr>users := save_row u3 (users d), user_roles := links\<rparr>)))"

text \<open>\<open>SettableUserStatus\<close> restricts the requested status to the two settable ones.\<close>

datatype settable_user_status = SET_ACTIVE | SET_INACTIVE

fun settable_status :: "settable_user_status \<Rightarrow> user_status" where
  "settable_status SET_ACTIVE = USER_ACTIVE"
| "settable_status SET_INACTIVE = USER_INACTIVE"

definition change_user_status :: "db \<Rightarrow> user \<Rightarrow> settable_user_status \<Rightarrow> (user \<times> db) result" where
  "change_user_status d u s =
     (if u_status u = settable_status s then Inr (u, d)
      else bindE (ensure (u_status u \<in> {USER_ACTIVE, USER_INACTIVE})
             (ConflictError (Msg ''User is {}; only an active or inactive account can be activated or deactivated.''
                [AStr (user_status_value (u_status u))]))) (\<lambda>_.
           let u' = u\<lparr>u_status := settable_status s\<rparr> in
           Inr (u', d\<lparr>users := save_row u' (users d)\<rparr>)))"

definition soft_delete_user :: "db \<Rightarrow> user \<Rightarrow> uuid \<Rightarrow> user \<times> db" where
  "soft_delete_user d u by_id =
     (let u' = soft_delete (now d) (Some by_id) u in
      (u', d\<lparr>users := save_row u' (users d),
             provider_identities :=
               live_update (\<lambda>p. pi_user_id p = row_id u) (soft_delete (now d) (Some by_id))
                 (provider_identities d)\<rparr>))"

definition get_restorable_user :: "db \<Rightarrow> uuid \<Rightarrow> timestamp \<Rightarrow> user result" where
  "get_restorable_user d user_id deleted_cutoff =
     the_or (NotFoundError (Msg ''No restorable user {} was deleted within the restore window.'' [AId user_id]))
       (List.find (\<lambda>u. row_id u = user_id) (deleted_select deleted_cutoff None (users d)))"

definition restore_user :: "db \<Rightarrow> user \<Rightarrow> (user \<times> db) result" where
  "restore_user d u =
     bindE (ensure (\<exists>r\<in>set (user_live_roles d (row_id u)). r_is_active r)
       (ConflictError (Msg ''Cannot restore {}: none of its roles is live and active. Restore or reactivate one first.''
          [AStr (u_email u)]))) (\<lambda>_.
     bindE (restore_row (\<lambda>x y. u_email x = u_email y)
       (Msg ''A user with email {} already exists.'' [AStr (u_email u)]) u (users d)) (\<lambda>(u', t').
     Inr (u', d\<lparr>users := t'\<rparr>)))"

subsection \<open>Role resolution\<close>

lemma in_user_live_roles [row_simps]:
  "r \<in> set (user_live_roles d uid) \<longleftrightarrow>
     r \<in> set (roles d) \<and> deleted_at r = None \<and> (uid, row_id r) \<in> set (user_roles d)"
  by (auto simp: user_live_roles_def)

lemma map_filter_all_found:
  "(\<And>i. i \<in> set is \<Longrightarrow> f i \<noteq> None) \<Longrightarrow> (\<And>i x. f i = Some x \<Longrightarrow> k x = i) \<Longrightarrow> map k (List.map_filter f is) = is"
  by (induction "is") (auto simp: List.map_filter_simps split: option.splits)

lemma get_roles_by_ids_Inr:
  assumes "get_roles_by_ids d role_ids = Inr rs"
  shows "map row_id rs = py_dedup role_ids"
    and "r \<in> set rs \<Longrightarrow> r \<in> set (roles d) \<and> deleted_at r = None \<and> r_is_active r"
proof -
  let ?f = "\<lambda>i. live_by_id i (roles d)"
  from assms have found: "\<forall>i\<in>set (py_dedup role_ids). ?f i \<noteq> None"
    and rs: "rs = List.map_filter ?f (py_dedup role_ids)"
    and act: "\<forall>r\<in>set rs. r_is_active r"
    by (auto simp: get_roles_by_ids_def Let_def svc_simps filter_empty_conv simp flip: set_empty2)
  show "map row_id rs = py_dedup role_ids"
    unfolding rs using found by (intro map_filter_all_found) (auto dest: live_by_id_SomeD)
  show "r \<in> set (roles d) \<and> deleted_at r = None \<and> r_is_active r" if "r \<in> set rs"
  proof -
    from that rs obtain i where "?f i = Some r" by (auto simp: List.map_filter_def)
    with that act show ?thesis by (auto dest: live_by_id_SomeD)
  qed
qed

lemma assert_can_assign_roles_Inr [svc_simps]:
  "assert_can_assign_roles caller rs cur = Inr u \<longleftrightarrow>
     (\<forall>r\<in>set rs. \<not> elevation_missing caller (r_name r)) \<and>
     (\<forall>r\<in>set cur. \<not> elevation_missing caller (r_name r))"
  by (auto simp: assert_can_assign_roles_def Let_def svc_simps filter_empty_conv)

lemma blocked_elevated_roles_Nil [svc_simps]:
  "blocked_elevated_roles d caller u = [] \<longleftrightarrow>
     (\<forall>r\<in>set (user_live_roles d (row_id u)). \<not> elevation_missing caller (r_name r))"
  by (auto simp: blocked_elevated_roles_def filter_empty_conv)

lemma elevation_missing_iff:
  "elevation_missing caller n \<longleftrightarrow>
     (n = ''admin'' \<or> n = ''owner'') \<and> \<not> has_permission USERS_MANAGE_ADMIN (su_permissions caller)"
  by (auto simp: elevation_missing_def ELEVATED_ROLE_PERMISSIONS_def split: option.splits if_splits)

lemma in_replace_links:
  "(x, r) \<in> set (replace_links uid loaded new links) \<longleftrightarrow>
     (if x = uid then (r \<in> set new \<and> r \<notin> set loaded) \<or> ((uid, r) \<in> set links \<and> (r \<in> set loaded \<longrightarrow> r \<in> set new))
      else (x, r) \<in> set links)"
  by (auto simp: replace_links_def)

lemma update_user_Inr:
  assumes "update_user d u ch = Inr (u', d')" and "uc_roles ch = Some rs"
  shows "roles d' = roles d"
    and "user_roles d' = replace_links (row_id u) (map row_id (user_live_roles d (row_id u)))
           (map row_id rs @ map row_id (hidden_roles (user_live_roles d (row_id u)) (map row_id rs))) (user_roles d)"
  using assms by (auto simp: update_user_def Let_def svc_simps)

lemma user_live_roles_update_user:
  assumes upd: "update_user d u ch = Inr (u', d')" "uc_roles ch = Some rs"
    and keys: "distinct (map row_id (roles d))"
    and rs: "set rs \<subseteq> set (live_select (roles d))"
  shows "set (user_live_roles d' (row_id u)) =
           set rs \<union> {r \<in> set (user_live_roles d (row_id u)). \<not> r_is_active r}"
    and "x \<noteq> row_id u \<Longrightarrow> user_live_roles d' x = user_live_roles d x"
proof -
  let ?old = "user_live_roles d (row_id u)"
  let ?hidden = "hidden_roles ?old (map row_id rs)"
  have sub: "set rs \<subseteq> set (roles d)" "set ?old \<subseteq> set (roles d)" "set ?hidden \<subseteq> set (roles d)"
    using rs by (auto simp: in_user_live_roles hidden_roles_def)
  have "r \<in> set (user_live_roles d' (row_id u)) \<longleftrightarrow> r \<in> set rs \<or> (r \<in> set ?old \<and> \<not> r_is_active r)" for r
  proof (cases "r \<in> set (roles d) \<and> deleted_at r = None")
    case True
    then have r: "r \<in> set (roles d)" by simp
    note key = key_in_image [OF keys sub(1) r] key_in_image [OF keys sub(2) r] key_in_image [OF keys sub(3) r]
    from True have "(row_id u, row_id r) \<in> set (user_roles d) \<longleftrightarrow> r \<in> set ?old"
      by (simp add: in_user_live_roles)
    then have "(row_id u, row_id r) \<in> set (user_roles d') \<longleftrightarrow> r \<in> set rs \<or> r \<in> set ?hidden"
      by (auto simp: update_user_Inr(2) [OF upd] in_replace_links key simp del: image_iff)
    moreover have "r \<in> set ?hidden \<longleftrightarrow> r \<in> set ?old \<and> r \<notin> set rs \<and> \<not> r_is_active r"
      using True key(1) by (simp add: hidden_roles_def)
    ultimately show ?thesis
      using True by (auto simp: in_user_live_roles update_user_Inr(1) [OF upd])
  next
    case False
    with rs show ?thesis by (auto simp: in_user_live_roles update_user_Inr(1) [OF upd])
  qed
  then show "set (user_live_roles d' (row_id u)) = set rs \<union> {r \<in> set ?old. \<not> r_is_active r}" by blast
  show "x \<noteq> row_id u \<Longrightarrow> user_live_roles d' x = user_live_roles d x"
    by (simp add: user_live_roles_def update_user_Inr [OF upd] in_replace_links)
qed

text \<open>C31: a caller without \<open>users:manage_admin\<close> cannot change who is an admin or an owner through a
  user update.  Whatever role set the request resolves to and whatever account it targets, after the
  update every account holds exactly the elevated roles it held before.\<close>

theorem update_user_keeps_elevated_roles:
  assumes "\<not> has_permission USERS_MANAGE_ADMIN (su_permissions caller)"
    and "resolve_assignable_roles d caller role_ids (user_live_roles d (row_id u)) = Inr rs"
    and "update_user d u ch = Inr (u', d')" and "uc_roles ch = Some rs"
    and "distinct (map row_id (roles d))"
    and "r_name r = ''admin'' \<or> r_name r = ''owner''"
  shows "r \<in> set (user_live_roles d' x) \<longleftrightarrow> r \<in> set (user_live_roles d x)"
proof -
  from assms(2) have get: "get_roles_by_ids d role_ids = Inr rs"
    and new: "r \<notin> set rs" and old: "r \<notin> set (user_live_roles d (row_id u))"
    using assms(1,6) by (auto simp: resolve_assignable_roles_def svc_simps elevation_missing_iff)
  have "set rs \<subseteq> set (live_select (roles d))"
    using get_roles_by_ids_Inr(2) [OF get] by auto
  note live = user_live_roles_update_user [OF assms(3,4,5) this]
  show ?thesis
  proof (cases "x = row_id u")
    case True
    then show ?thesis using live(1) new old by auto
  next
    case False
    then show ?thesis using live(2) by simp
  qed
qed

end
