(* ===== verification/Object_Roles.thy ===== *)
theory Object_Roles
  imports User_Service
begin

section \<open>Per-object roles\<close>

text \<open>
  \<open>app/core/auth/object_roles/registry.py\<close> and \<open>service.py\<close>: who holds which role on one object, what
  that grants there, and the membership operations with their guard that an object never loses the
  last live holder of its protected role.  Joins are written as filters over the joined tables, the
  partial unique index of the assignment table as the \<open>IntegrityError\<close> of an insert.  Row locks are
  not modelled: an operation is one atomic step.
\<close>

record object_scope_spec =
  assignable_system_roles :: "system_role list"
  super_permission :: "permission option"
  protected_role :: "system_role option"
  required_permission :: "permission option"

fun OBJECT_ROLE_REGISTRY :: "object_type \<Rightarrow> object_scope_spec" where
  "OBJECT_ROLE_REGISTRY EVALUATION_GROUP =
     \<lparr>assignable_system_roles = [OWNER, RED_TEAMER, ANNOTATOR, VIEWER],
      super_permission = Some EVALUATION_GROUPS_MANAGE,
      protected_role = Some OWNER,
      required_permission = Some EVALUATION_GROUPS_READ\<rparr>"

definition all_object_types :: "object_type list" where
  "all_object_types = [EVALUATION_GROUP]"

definition OBJECT_ASSIGNABLE_SYSTEM_ROLES :: "system_role list" where
  "OBJECT_ASSIGNABLE_SYSTEM_ROLES =
     remdups (concat (map (\<lambda>t. assignable_system_roles (OBJECT_ROLE_REGISTRY t)) all_object_types))"

record object_member =
  om_user :: user
  om_roles :: "role list"

record object_access_context =
  oc_object_type :: object_type
  oc_object_id :: uuid
  oc_permissions :: "string list"
  oc_is_member :: bool
  oc_has_super :: bool

definition access_has :: "object_access_context \<Rightarrow> permission \<Rightarrow> bool" where
  "access_has access p \<longleftrightarrow> oc_has_super access \<or> has_permission p (oc_permissions access)"

text \<open>\<open>_live_assignments\<close> and \<open>held_roles\<close>: the live assignment rows of a user on an object, and the
  live roles they name.\<close>

definition live_assignments :: "db \<Rightarrow> object_type \<Rightarrow> uuid \<Rightarrow> uuid \<Rightarrow> object_role_assignment list" where
  "live_assignments d object_type object_id user_id =
     filter (\<lambda>a. a_object_type a = object_type \<and> a_object_id a = object_id \<and> a_user_id a = user_id)
       (live_select (assignments d))"

definition held_roles :: "db \<Rightarrow> object_type \<Rightarrow> uuid \<Rightarrow> uuid \<Rightarrow> role list" where
  "held_roles d object_type object_id user_id =
     List.map_filter (\<lambda>a. live_by_id (a_role_id a) (roles d)) (live_assignments d object_type object_id user_id)"

definition holds_permission_anywhere :: "db \<Rightarrow> uuid \<Rightarrow> object_type \<Rightarrow> permission \<Rightarrow> bool" where
  "holds_permission_anywhere d user_id object_type p \<longleftrightarrow>
     (\<exists>a\<in>set (live_select (assignments d)). a_object_type a = object_type \<and> a_user_id a = user_id \<and>
        (case live_by_id (a_role_id a) (roles d) of None \<Rightarrow> False
         | Some r \<Rightarrow> r_is_active r \<and> has_permission p (r_permissions r)))"

definition resolve_object_access :: "db \<Rightarrow> session_user \<Rightarrow> object_type \<Rightarrow> uuid \<Rightarrow> object_access_context" where
  "resolve_object_access d caller object_type object_id =
     (let held = held_roles d object_type object_id (su_id caller) in
      \<lparr>oc_object_type = object_type, oc_object_id = object_id,
       oc_permissions = concat (map r_permissions (filter r_is_active held)),
       oc_is_member = (held \<noteq> []),
       oc_has_super = (case super_permission (OBJECT_ROLE_REGISTRY object_type) of
                         None \<Rightarrow> False | Some p \<Rightarrow> has_permission p (su_permissions caller))\<rparr>)"

definition assert_object_permission ::
  "db \<Rightarrow> session_user \<Rightarrow> object_type \<Rightarrow> uuid option \<Rightarrow> permission \<Rightarrow> unit result" where
  "assert_object_permission d caller object_type object_id p =
     (let forbidden = ForbiddenError (Msg ''Caller lacks the {} permission.'' [AStr (permission_value p)]) in
      bindE (the_or forbidden object_id) (\<lambda>i.
      ensure (has_permission p (oc_permissions (resolve_object_access d caller object_type i))) forbidden))"

definition effective_object_permissions :: "object_access_context \<Rightarrow> string list" where
  "effective_object_permissions access =
     (if \<not> oc_has_super access then oc_permissions access
      else let sc = OBJECT_ROLE_REGISTRY (oc_object_type access) in
           concat (map ROLE_PERMISSIONS (assignable_system_roles sc))
           @ (case super_permission sc of None \<Rightarrow> [] | Some p \<Rightarrow> [permission_value p]))"

definition resolve_object_assignable_roles :: "db \<Rightarrow> object_scope_spec \<Rightarrow> uuid list \<Rightarrow> role list result" where
  "resolve_object_assignable_roles d sc role_ids =
     bindE (get_roles_by_ids d role_ids) (\<lambda>rs.
     let invalid = sort (map r_name (filter (\<lambda>r. \<not> r_is_object_assignable r) rs)) in
     bindE (ensure (invalid = [])
       (BadRequestError (Msg ''Role(s) not assignable for this object: {}.'' [AStrs invalid]))) (\<lambda>_.
     case required_permission sc of None \<Rightarrow> Inr rs
     | Some p \<Rightarrow>
         let lacking = sort (map r_name (filter (\<lambda>r. \<not> has_permission p (r_permissions r)) rs)) in
         bindE (ensure (lacking = [])
           (BadRequestError (Msg ''Role(s) must grant {} to be assignable here: {}.''
              [AStr (permission_value p), AStrs lacking]))) (\<lambda>_.
         Inr rs)))"

subsection \<open>The protected role\<close>

definition protected_role_id :: "db \<Rightarrow> system_role \<Rightarrow> uuid option" where
  "protected_role_id d r =
     map_option row_id (List.find (\<lambda>x. r_name x = system_role_value r) (live_select (roles d)))"

definition is_live_user :: "db \<Rightarrow> uuid \<Rightarrow> bool" where
  "is_live_user d uid \<longleftrightarrow> live_by_id uid (users d) \<noteq> None"

definition live_protected_holder_exists ::
  "db \<Rightarrow> object_type \<Rightarrow> uuid \<Rightarrow> uuid \<Rightarrow> uuid \<Rightarrow> bool" where
  "live_protected_holder_exists d object_type object_id role_id excluding_user_id \<longleftrightarrow>
     (\<exists>a\<in>set (assignments d). a_object_type a = object_type \<and> a_object_id a = object_id \<and>
        a_role_id a = role_id \<and> a_user_id a \<noteq> excluding_user_id \<and> deleted_at a = None \<and>
        is_live_user d (a_user_id a))"

definition assert_protected_role_survives ::
  "db \<Rightarrow> object_type \<Rightarrow> uuid \<Rightarrow> uuid \<Rightarrow> object_role_assignment list \<Rightarrow> unit result" where
  "assert_protected_role_survives d object_type object_id user_id dropped =
     (case protected_role (OBJECT_ROLE_REGISTRY object_type) of None \<Rightarrow> Inr ()
      | Some protected \<Rightarrow>
          (case protected_role_id d protected of None \<Rightarrow> Inr ()
           | Some rid \<Rightarrow>
               if \<forall>a\<in>set dropped. a_role_id a \<noteq> rid then Inr ()
               else ensure (live_protected_holder_exists d object_type object_id rid user_id)
                      (ConflictError (Msg ''Cannot remove the last {}; assign another holder first.''
                         [AStr (system_role_value protected)]))))"

definition objects_solely_held_by :: "db \<Rightarrow> uuid \<Rightarrow> (object_type \<times> uuid) list" where
  "objects_solely_held_by d user_id =
     concat (map (\<lambda>object_type.
       case protected_role (OBJECT_ROLE_REGISTRY object_type) of None \<Rightarrow> []
       | Some protected \<Rightarrow>
           (case protected_role_id d protected of None \<Rightarrow> []
            | Some rid \<Rightarrow>
                let held_ids = map a_object_id (filter (\<lambda>a. a_object_type a = object_type \<and> a_role_id a = rid \<and>
                                 a_user_id a = user_id \<and> deleted_at a = None) (assignments d));
                    covered = map a_object_id (filter (\<lambda>a. a_object_type a = object_type \<and> a_role_id a = rid \<and>
                                a_user_id a \<noteq> user_id \<and> deleted_at a = None \<and> is_live_user d (a_user_id a) \<and>
                                a_object_id a \<in> set held_ids) (assignments d))
                in map (\<lambda>i. (object_type, i)) (py_sorted_set (filter (\<lambda>i. i \<notin> set covered) held_ids))))
       all_object_types)"

definition count_members_holding :: "db \<Rightarrow> uuid \<Rightarrow> nat" where
  "count_members_holding d role_id =
     length (filter (\<lambda>a. a_role_id a = role_id \<and> deleted_at a = None \<and> is_live_user d (a_user_id a)) (assignments d))"

text \<open>The rows of the join behind \<open>count_members_solely_holding\<close>, and its group-by key.\<close>

definition active_membership_rows :: "db \<Rightarrow> object_role_assignment list" where
  "active_membership_rows d =
     filter (\<lambda>a. deleted_at a = None \<and> is_live_user d (a_user_id a) \<and>
       (case live_by_id (a_role_id a) (roles d) of None \<Rightarrow> False | Some r \<Rightarrow> r_is_active r)) (assignments d)"

definition membership_key :: "object_role_assignment \<Rightarrow> uuid \<times> object_type \<times> uuid" where
  "membership_key a = (a_user_id a, a_object_type a, a_object_id a)"

definition count_members_solely_holding :: "db \<Rightarrow> uuid \<Rightarrow> nat" where
  "count_members_solely_holding d role_id =
     count_sole_groups membership_key a_role_id role_id (active_membership_rows d)"

subsection \<open>Membership operations\<close>

definition new_assignment :: "db \<Rightarrow> object_type \<Rightarrow> uuid \<Rightarrow> uuid \<Rightarrow> uuid \<Rightarrow> object_role_assignment" where
  "new_assignment d object_type object_id user_id role_id =
     \<lparr>row_id = next_id d, created_at = now d, deleted_at = None, deleted_by_id = None,
      a_object_type = object_type, a_object_id = object_id, a_user_id = user_id, a_role_id = role_id\<rparr>"

fun grant_roles :: "db \<Rightarrow> object_type \<Rightarrow> uuid \<Rightarrow> uuid \<Rightarrow> role list \<Rightarrow> db result" where
  "grant_roles d object_type object_id user_id [] = Inr d"
| "grant_roles d object_type object_id user_id (r # rs) =
     bindE (ensure (\<forall>a\<in>set (live_assignments d object_type object_id user_id). a_role_id a \<noteq> row_id r) IntegrityError) (\<lambda>_.
     grant_roles (d\<lparr>assignments := assignments d @ [new_assignment d object_type object_id user_id (row_id r)],
                    next_id := Suc (next_id d)\<rparr>) object_type object_id user_id rs)"

text \<open>\<open>list_members\<close>; \<open>ilike\<close> is the database's case-insensitive substring match of the search text.\<close>

definition member_ids ::
  "(string \<Rightarrow> string option \<Rightarrow> bool) \<Rightarrow> db \<Rightarrow> object_type \<Rightarrow> uuid \<Rightarrow> uuid option \<Rightarrow> string option \<Rightarrow> uuid list" where
  "member_ids ilike d object_type object_id role_id search =
     py_sorted_set (map a_user_id (filter (\<lambda>a.
       a_object_type a = object_type \<and> a_object_id a = object_id \<and> deleted_at a = None \<and>
       (case live_by_id (a_user_id a) (users d) of None \<Rightarrow> False
        | Some u \<Rightarrow> (case search of None \<Rightarrow> True
                    | Some s \<Rightarrow> s = '''' \<or> ilike s (Some (u_email u)) \<or> ilike s (u_first_name u) \<or> ilike s (u_last_name u))) \<and>
       (case role_id of None \<Rightarrow> True | Some r \<Rightarrow> a_role_id a = r)) (assignments d)))"

definition list_members ::
  "(string \<Rightarrow> string option \<Rightarrow> bool) \<Rightarrow> db \<Rightarrow> object_type \<Rightarrow> uuid \<Rightarrow> uuid option \<Rightarrow> string option \<Rightarrow> nat \<Rightarrow> nat
     \<Rightarrow> object_member list \<times> nat" where
  "list_members ilike d object_type object_id role_id search limit offset =
     (let ids = member_ids ilike d object_type object_id role_id search;
          page_ids = take limit (drop offset ids)
      in (List.map_filter (\<lambda>uid. map_option (\<lambda>u. \<lparr>om_user = u, om_roles = held_roles d object_type object_id uid\<rparr>)
            (live_by_id uid (users d))) page_ids, length ids))"

definition add_member ::
  "db \<Rightarrow> object_type \<Rightarrow> uuid \<Rightarrow> user \<Rightarrow> role list \<Rightarrow> (object_member \<times> db) result" where
  "add_member d object_type object_id u rs =
     (let conflict = ConflictError (Msg ''User already has a role on this object.'' []) in
      bindE (ensure (live_assignments d object_type object_id (row_id u) = []) conflict) (\<lambda>_.
      case grant_roles d object_type object_id (row_id u) rs of
        Inl e \<Rightarrow> Inl (if e = IntegrityError then conflict else e)
      | Inr d' \<Rightarrow> Inr (\<lparr>om_user = u, om_roles = rs\<rparr>, d')))"

definition hidden_object_roles :: "db \<Rightarrow> uuid list \<Rightarrow> role list" where
  "hidden_object_roles d role_ids =
     filter (\<lambda>r. row_id r \<in> set role_ids \<and> (\<not> r_is_active r \<or> deleted_at r \<noteq> None)) (roles d)"

definition set_member_roles ::
  "db \<Rightarrow> object_type \<Rightarrow> uuid \<Rightarrow> user \<Rightarrow> role list \<Rightarrow> uuid \<Rightarrow> (object_member \<times> db) result" where
  "set_member_roles d object_type object_id u rs by_id =
     (let current = live_assignments d object_type object_id (row_id u) in
      bindE (ensure (current \<noteq> []) (NotFoundError (Msg ''User has no role on this object.'' []))) (\<lambda>_.
      let requested = map row_id rs;
          hidden = hidden_object_roles d (filter (\<lambda>i. i \<notin> set requested) (map a_role_id current));
          target_ids = requested @ map row_id hidden;
          dropped = filter (\<lambda>a. a_role_id a \<notin> set target_ids) current
      in bindE (assert_protected_role_survives d object_type object_id (row_id u) dropped) (\<lambda>_.
         let d1 = d\<lparr>assignments := soft_delete_rows (now d) (Some by_id) dropped (assignments d)\<rparr>;
             new_roles = filter (\<lambda>r. row_id r \<notin> set (map a_role_id current)) rs
         in bindE (grant_roles d1 object_type object_id (row_id u) new_roles) (\<lambda>d2.
            Inr (\<lparr>om_user = u, om_roles = rs @ hidden\<rparr>, d2)))))"

definition remove_member :: "db \<Rightarrow> object_type \<Rightarrow> uuid \<Rightarrow> uuid \<Rightarrow> uuid \<Rightarrow> db result" where
  "remove_member d object_type object_id user_id by_id =
     (let current = live_assignments d object_type object_id user_id in
      bindE (ensure (current \<noteq> []) (NotFoundError (Msg ''User has no role on this object.'' []))) (\<lambda>_.
      bindE (assert_protected_role_survives d object_type object_id user_id current) (\<lambda>_.
      Inr (d\<lparr>assignments := soft_delete_rows (now d) (Some by_id) current (assignments d)\<rparr>))))"

definition soft_delete_object_assignments :: "db \<Rightarrow> object_type \<Rightarrow> uuid \<Rightarrow> uuid \<Rightarrow> db" where
  "soft_delete_object_assignments d object_type object_id by_id =
     d\<lparr>assignments := soft_delete_rows (now d) (Some by_id)
         (filter (\<lambda>a. a_object_type a = object_type \<and> a_object_id a = object_id) (live_select (assignments d)))
         (assignments d)\<rparr>"

subsection \<open>Facts about assignments\<close>

lemma in_live_assignments [row_simps]:
  "a \<in> set (live_assignments d t i u) \<longleftrightarrow>
     a \<in> set (assignments d) \<and> deleted_at a = None \<and> a_object_type a = t \<and> a_object_id a = i \<and> a_user_id a = u"
  by (auto simp: live_assignments_def)

lemma in_held_roles [row_simps]:
  "r \<in> set (held_roles d t i u) \<longleftrightarrow>
     (\<exists>a\<in>set (live_assignments d t i u). live_by_id (a_role_id a) (roles d) = Some r)"
  by (auto simp: held_roles_def List.map_filter_def) force

lemma grant_roles_Inr:
  "grant_roles d t i u rs = Inr d' \<Longrightarrow>
     users d' = users d \<and> roles d' = roles d \<and>
     map a_role_id (live_assignments d' t i u) = map a_role_id (live_assignments d t i u) @ map row_id rs \<and>
     set (live_assignments d t i u) \<subseteq> set (live_assignments d' t i u) \<and>
     ((t', i', u') \<noteq> (t, i, u) \<longrightarrow> live_assignments d' t' i' u' = live_assignments d t' i' u')"
proof (induction d t i u rs rule: grant_roles.induct)
  case (1 d t i u)
  then show ?case by simp
next
  case (2 d t i u r rs)
  let ?a = "new_assignment d t i u (row_id r)"
  let ?d = "d\<lparr>assignments := assignments d @ [?a], next_id := Suc (next_id d)\<rparr>"
  have step: "live_assignments ?d t' i' u' =
      live_assignments d t' i' u' @ (if (t', i', u') = (t, i, u) then [?a] else [])" for t' i' u'
    by (simp add: live_assignments_def live_select_def new_assignment_def)
  from 2(2) have "grant_roles ?d t i u rs = Inr d'" by (auto simp: svc_simps)
  with 2(1) 2(2) have IH: "users d' = users ?d \<and> roles d' = roles ?d \<and>
     map a_role_id (live_assignments d' t i u) = map a_role_id (live_assignments ?d t i u) @ map row_id rs \<and>
     set (live_assignments ?d t i u) \<subseteq> set (live_assignments d' t i u) \<and>
     ((t', i', u') \<noteq> (t, i, u) \<longrightarrow> live_assignments d' t' i' u' = live_assignments ?d t' i' u')"
    by (auto simp: svc_simps)
  moreover have "a_role_id ?a = row_id r" by (simp add: new_assignment_def)
  ultimately show ?case by (auto simp: step)
qed

lemma live_assignments_soft_delete_rows:
  "live_assignments (d\<lparr>assignments := soft_delete_rows n b rows (assignments d)\<rparr>) t i u =
     filter (\<lambda>a. a \<notin> set rows) (live_assignments d t i u)"
proof -
  have "live_select (soft_delete_rows n b rows xs) = filter (\<lambda>a. a \<notin> set rows) (live_select xs)"
    for xs :: "object_role_assignment list"
    by (induction xs) (auto simp: live_select_def soft_delete_rows_def)
  then show ?thesis by (auto simp: live_assignments_def intro: filter_cong)
qed

lemma assert_protected_role_survives_Inr:
  assumes "assert_protected_role_survives d t i u dropped = Inr x"
    and "protected_role (OBJECT_ROLE_REGISTRY t) = Some p" "protected_role_id d p = Some rid"
    and "a \<in> set dropped" "a_role_id a = rid"
  shows "live_protected_holder_exists d t i rid u"
  using assms by (auto simp: assert_protected_role_survives_def split: if_splits)

subsection \<open>The contract of a membership operation\<close>

text \<open>Every object type with a protected role keeps a live user holding it: \<open>protected_held\<close>.\<close>

definition protected_held :: "db \<Rightarrow> object_type \<Rightarrow> uuid \<Rightarrow> bool" where
  "protected_held d t i =
     (case protected_role (OBJECT_ROLE_REGISTRY t) of None \<Rightarrow> True
      | Some p \<Rightarrow> (case protected_role_id d p of None \<Rightarrow> False
          | Some rid \<Rightarrow> \<exists>a\<in>set (assignments d). a_object_type a = t \<and> a_object_id a = i \<and> a_role_id a = rid \<and>
               deleted_at a = None \<and> is_live_user d (a_user_id a)))"

lemma protected_role_id_cong: "roles d' = roles d \<Longrightarrow> protected_role_id d' = protected_role_id d"
  by (simp add: protected_role_id_def fun_eq_iff)

lemma is_live_user_cong: "users d' = users d \<Longrightarrow> is_live_user d' = is_live_user d"
  by (simp add: is_live_user_def fun_eq_iff)

lemma protected_heldI:
  "protected_role (OBJECT_ROLE_REGISTRY t) = Some p \<Longrightarrow> protected_role_id d p = Some rid \<Longrightarrow>
   a \<in> set (live_assignments d t i u) \<Longrightarrow> a_role_id a = rid \<Longrightarrow> is_live_user d u \<Longrightarrow> protected_held d t i"
  by (auto simp: protected_held_def in_live_assignments)

text \<open>
  \<open>member_operation\<close> is what the routes rely on of every operation that edits one user's roles on one
  object: it touches no other membership, no account and no role, and it takes the protected role
  away from the user only when another live user holds it.
\<close>

locale member_operation =
  fixes step :: "db \<Rightarrow> object_type \<Rightarrow> uuid \<Rightarrow> uuid \<Rightarrow> db \<Rightarrow> bool"
  assumes users_kept: "step d t i u d' \<Longrightarrow> users d' = users d"
    and roles_kept: "step d t i u d' \<Longrightarrow> roles d' = roles d"
    and others_kept: "step d t i u d' \<Longrightarrow> (t', i', u') \<noteq> (t, i, u) \<Longrightarrow>
          live_assignments d' t' i' u' = live_assignments d t' i' u'"
    and protected_guard: "step d t i u d' \<Longrightarrow> protected_role (OBJECT_ROLE_REGISTRY t) = Some p \<Longrightarrow>
          protected_role_id d p = Some rid \<Longrightarrow>
          a \<in> set (live_assignments d t i u) \<Longrightarrow> a_role_id a = rid \<Longrightarrow>
          (\<exists>b\<in>set (live_assignments d' t i u). a_role_id b = rid) \<or> live_protected_holder_exists d t i rid u"
begin

lemma held_roles_others:
  "step d t i u d' \<Longrightarrow> (t', i', u') \<noteq> (t, i, u) \<Longrightarrow> held_roles d' t' i' u' = held_roles d t' i' u'"
  using others_kept roles_kept by (simp add: held_roles_def)

lemma access_others:
  "step d t i u d' \<Longrightarrow> (t', i', su_id caller) \<noteq> (t, i, u) \<Longrightarrow>
     resolve_object_access d' caller t' i' = resolve_object_access d caller t' i'"
  using held_roles_others by (simp add: resolve_object_access_def)

lemma keeps_protected:
  assumes "step d t i u d'" and "protected_held d t' i'"
  shows "protected_held d' t' i'"
proof (cases "protected_role (OBJECT_ROLE_REGISTRY t')")
  case None
  then show ?thesis by (simp add: protected_held_def)
next
  case (Some p)
  with assms(2) obtain rid where pid: "protected_role_id d p = Some rid"
    by (auto simp: protected_held_def split: option.splits)
  with assms(2) Some obtain a where "a \<in> set (assignments d)" "a_object_type a = t'" "a_object_id a = i'"
    "deleted_at a = None" and a2: "a_role_id a = rid" "is_live_user d (a_user_id a)"
    by (auto simp: protected_held_def)
  then have a: "a \<in> set (live_assignments d t' i' (a_user_id a))" "a_role_id a = rid" "is_live_user d (a_user_id a)"
    by (simp_all add: in_live_assignments)
  have pid': "protected_role_id d' p = Some rid"
    using pid by (simp add: protected_role_id_cong [OF roles_kept [OF assms(1)]])
  have liv: "is_live_user d' = is_live_user d" using users_kept [OF assms(1)] by (rule is_live_user_cong)
  have other: "protected_held d' t' i'" if "b \<in> set (live_assignments d t' i' v)" "a_role_id b = rid"
    "is_live_user d v" "(t', i', v) \<noteq> (t, i, u)" for b v
    using that others_kept [OF assms(1) that(4)] liv by (intro protected_heldI [OF Some pid', of b i' v]) auto
  show ?thesis
  proof (cases "(t', i', a_user_id a) = (t, i, u)")
    case False
    with a other show ?thesis by blast
  next
    case True
    then consider b where "b \<in> set (live_assignments d' t' i' u)" "a_role_id b = rid"
      | "live_protected_holder_exists d t' i' rid u"
      using protected_guard [OF assms(1), of p rid a] Some pid a by auto
    then show ?thesis
    proof cases
      case 1
      then show ?thesis using True a(3) liv by (intro protected_heldI [OF Some pid', of b i' u]) auto
    next
      case 2
      then obtain b where "b \<in> set (live_assignments d t' i' (a_user_id b))" "a_role_id b = rid"
        "is_live_user d (a_user_id b)" "a_user_id b \<noteq> u"
        by (auto simp: live_protected_holder_exists_def in_live_assignments)
      then show ?thesis using other True by blast
    qed
  qed
qed

end

lemma add_member_Inr:
  "add_member d t i u rs = Inr (m, d') \<Longrightarrow> live_assignments d t i (row_id u) = [] \<and> grant_roles d t i (row_id u) rs = Inr d'"
  by (auto simp: add_member_def Let_def svc_simps split: sum.splits)

interpretation add_member: member_operation
  "\<lambda>d t i uid d'. \<exists>u rs m. row_id u = uid \<and> add_member d t i u rs = Inr (m, d')"
proof (unfold_locales, goal_cases)
  case (3 d t i u d' t' i' u')
  then show ?case by (auto dest!: add_member_Inr dest: grant_roles_Inr [where t' = t' and i' = i' and u' = u'])
qed (auto dest!: add_member_Inr dest: grant_roles_Inr)

lemma remove_member_Inr:
  assumes "remove_member d t i u b = Inr d'"
  shows "assert_protected_role_survives d t i u (live_assignments d t i u) = Inr ()"
    and "d' = d\<lparr>assignments := soft_delete_rows (now d) (Some b) (live_assignments d t i u) (assignments d)\<rparr>"
  using assms by (auto simp: remove_member_def Let_def svc_simps)

interpretation remove_member: member_operation "\<lambda>d t i u d'. \<exists>b. remove_member d t i u b = Inr d'"
proof (unfold_locales, goal_cases)
  case (3 d t i u d' t' i' u')
  then show ?case
    by (auto dest!: remove_member_Inr(2) simp: live_assignments_soft_delete_rows in_live_assignments filter_id_conv)
next
  case (4 d t i u d' p rid a)
  then show ?case by (blast dest: remove_member_Inr(1) assert_protected_role_survives_Inr)
qed (auto dest: remove_member_Inr(2))

text \<open>The rows \<open>set_member_roles\<close> tombstones: those of roles neither requested nor hidden.\<close>

definition dropped_assignments :: "db \<Rightarrow> object_type \<Rightarrow> uuid \<Rightarrow> uuid \<Rightarrow> role list \<Rightarrow> object_role_assignment list" where
  "dropped_assignments d t i uid rs =
     filter (\<lambda>a. a_role_id a \<notin> row_id ` set rs \<and>
       (\<forall>r\<in>set (roles d). row_id r = a_role_id a \<longrightarrow> r_is_active r \<and> deleted_at r = None)) (live_assignments d t i uid)"

lemma hidden_object_roles_key:
  "j \<in> row_id ` set (hidden_object_roles d ids) \<longleftrightarrow>
     j \<in> set ids \<and> (\<exists>r\<in>set (roles d). row_id r = j \<and> (\<not> r_is_active r \<or> deleted_at r \<noteq> None))"
  by (auto simp: hidden_object_roles_def image_iff)

lemma set_member_roles_Inr:
  assumes "set_member_roles d t i u rs b = Inr (m, d')"
  obtains d1 new where
    "d1 = d\<lparr>assignments := soft_delete_rows (now d) (Some b) (dropped_assignments d t i (row_id u) rs) (assignments d)\<rparr>"
    "assert_protected_role_survives d t i (row_id u) (dropped_assignments d t i (row_id u) rs) = Inr ()"
    "new = filter (\<lambda>r. row_id r \<notin> a_role_id ` set (live_assignments d t i (row_id u))) rs"
    "grant_roles d1 t i (row_id u) new = Inr d'"
    "om_roles m = rs @ hidden_object_roles d
       (filter (\<lambda>j. j \<notin> row_id ` set rs) (map a_role_id (live_assignments d t i (row_id u))))"
proof -
  let ?cur = "live_assignments d t i (row_id u)"
  let ?hid = "hidden_object_roles d (filter (\<lambda>j. j \<notin> set (map row_id rs)) (map a_role_id ?cur))"
  have "filter (\<lambda>a. a_role_id a \<notin> set (map row_id rs @ map row_id ?hid)) ?cur = dropped_assignments d t i (row_id u) rs"
    unfolding dropped_assignments_def
    by (rule filter_cong) (auto simp: hidden_object_roles_key)
  with assms that show thesis
    by (auto simp: set_member_roles_def Let_def svc_simps simp del: filter_filter)
qed

interpretation set_member_roles: member_operation
  "\<lambda>d t i uid d'. \<exists>u rs b m. row_id u = uid \<and> set_member_roles d t i u rs b = Inr (m, d')"
proof (unfold_locales, goal_cases)
  case (1 d t i u d')
  then show ?case by (auto elim!: set_member_roles_Inr dest!: grant_roles_Inr)
next
  case (2 d t i u d')
  then show ?case by (auto elim!: set_member_roles_Inr dest!: grant_roles_Inr)
next
  case (3 d t i uid d' t' i' u')
  then obtain u rs b m where u: "row_id u = uid" and s: "set_member_roles d t i u rs b = Inr (m, d')" by blast
  let ?drop = "dropped_assignments d t i uid rs"
  from s obtain d1 new where d1: "d1 = d\<lparr>assignments := soft_delete_rows (now d) (Some b) ?drop (assignments d)\<rparr>"
    and g: "grant_roles d1 t i uid new = Inr d'"
    unfolding u [symmetric] by (rule set_member_roles_Inr)
  have "live_assignments d' t' i' u' = live_assignments d1 t' i' u'"
    using grant_roles_Inr [OF g, where t' = t' and i' = i' and u' = u'] 3(2) by blast
  also have "\<dots> = live_assignments d t' i' u'"
    using 3(2) by (auto simp: d1 live_assignments_soft_delete_rows dropped_assignments_def in_live_assignments filter_id_conv)
  finally show ?case .
next
  case (4 d t i uid d' p rid a)
  then obtain u rs b m where u: "row_id u = uid" and s: "set_member_roles d t i u rs b = Inr (m, d')" by blast
  let ?drop = "dropped_assignments d t i uid rs"
  from s obtain d1 new where d1: "d1 = d\<lparr>assignments := soft_delete_rows (now d) (Some b) ?drop (assignments d)\<rparr>"
    and pr: "assert_protected_role_survives d t i uid ?drop = Inr ()"
    and g: "grant_roles d1 t i uid new = Inr d'"
    unfolding u [symmetric] by (rule set_member_roles_Inr)
  show ?case
  proof (cases "a \<in> set ?drop")
    case True
    then show ?thesis using assert_protected_role_survives_Inr [OF pr] 4 by blast
  next
    case False
    then have "a \<in> set (live_assignments d1 t i uid)"
      using 4(4) by (simp add: d1 live_assignments_soft_delete_rows)
    then show ?thesis using grant_roles_Inr [OF g] 4(5) by blast
  qed
qed

subsection \<open>Sequences of membership edits\<close>

text \<open>One request of the member-management routes, and any sequence of them.\<close>

inductive member_step :: "db \<Rightarrow> db \<Rightarrow> bool" where
  add: "add_member d t i u rs = Inr (m, d') \<Longrightarrow> member_step d d'"
| set: "set_member_roles d t i u rs b = Inr (m, d') \<Longrightarrow> member_step d d'"
| remove: "remove_member d t i uid b = Inr d' \<Longrightarrow> member_step d d'"

inductive_cases member_stepE: "member_step d d'"

interpretation membership: step_invariant member_step "\<lambda>d. protected_held d t i"
proof
  fix d d' assume "member_step d d'" "protected_held d t i"
  then show "protected_held d' t i"
    by (cases rule: member_step.cases)
      (blast intro: add_member.keeps_protected set_member_roles.keeps_protected remove_member.keeps_protected)+
qed

text \<open>C2: no sequence of member additions, role replacements and removals, by any callers and in any
  order, leaves an object without a live holder of its protected role: a group that has a live owner
  keeps one.\<close>

theorem members_never_orphan_object:
  assumes "member_step\<^sup>*\<^sup>* d d'" and "protected_held d t i"
  shows "protected_held d' t i"
  using assms by (rule membership.reachable_keeps)

subsection \<open>Replacing a member's role set\<close>

lemma in_held_roles_key:
  "distinct (map row_id (roles d)) \<Longrightarrow>
     r \<in> set (held_roles d t i u) \<longleftrightarrow>
       r \<in> set (roles d) \<and> deleted_at r = None \<and> row_id r \<in> a_role_id ` set (live_assignments d t i u)"
  by (auto simp: in_held_roles live_by_id_iff image_iff)

lemma set_member_roles_ids:
  assumes "set_member_roles d t i u rs b = Inr (m, d')"
  shows "a_role_id ` set (live_assignments d' t i (row_id u)) =
           row_id ` set rs \<union> row_id ` set (hidden_object_roles d
             (filter (\<lambda>j. j \<notin> row_id ` set rs) (map a_role_id (live_assignments d t i (row_id u)))))"
    (is "?L = ?R")
proof -
  let ?cur = "live_assignments d t i (row_id u)"
  from assms obtain d1 new where
    d1: "d1 = d\<lparr>assignments := soft_delete_rows (now d) (Some b) (dropped_assignments d t i (row_id u) rs) (assignments d)\<rparr>"
    and new: "new = filter (\<lambda>r. row_id r \<notin> a_role_id ` set ?cur) rs"
    and g: "grant_roles d1 t i (row_id u) new = Inr d'"
    by (rule set_member_roles_Inr)
  have "set (map a_role_id (live_assignments d' t i (row_id u))) =
      set (map a_role_id (live_assignments d1 t i (row_id u)) @ map row_id new)"
    using grant_roles_Inr [OF g] by metis
  then have "?L = a_role_id ` {a \<in> set ?cur. a \<notin> set (dropped_assignments d t i (row_id u) rs)} \<union> row_id ` set new"
    by (simp add: d1 live_assignments_soft_delete_rows)
  moreover have "a_role_id ` {a \<in> set ?cur. a \<notin> set (dropped_assignments d t i (row_id u) rs)} =
      {j \<in> a_role_id ` set ?cur. j \<in> row_id ` set rs \<or>
         (\<exists>r\<in>set (roles d). row_id r = j \<and> (\<not> r_is_active r \<or> deleted_at r \<noteq> None))}"
    by (auto simp: dropped_assignments_def)
  moreover have "row_id ` set new = row_id ` set rs - a_role_id ` set ?cur"
    unfolding new by auto
  ultimately show ?thesis
    by (intro set_eqI) (simp only: Un_iff mem_Collect_eq Diff_iff hidden_object_roles_key set_filter set_map, blast)
qed

text \<open>C32: replacing a member's roles does exactly what the request says.  After
  \<open>set_member_roles\<close> with live, active roles, the active roles the user holds on the object are the
  requested ones, every role held after it is in the returned member, and an inactive role the user
  held before is still held.\<close>

theorem set_member_roles_exact:
  assumes keys: "distinct (map row_id (roles d))"
    and rs: "\<forall>r\<in>set rs. r \<in> set (roles d) \<and> deleted_at r = None \<and> r_is_active r"
    and s: "set_member_roles d t i u rs b = Inr (m, d')"
  shows "set (filter r_is_active (held_roles d' t i (row_id u))) = set rs \<and>
         set (held_roles d' t i (row_id u)) \<subseteq> set (om_roles m) \<and>
         (\<forall>r\<in>set (held_roles d t i (row_id u)). \<not> r_is_active r \<longrightarrow> r \<in> set (held_roles d' t i (row_id u)))"
proof -
  let ?cur = "live_assignments d t i (row_id u)"
  let ?hid = "hidden_object_roles d (filter (\<lambda>j. j \<notin> row_id ` set rs) (map a_role_id ?cur))"
  have roles: "roles d' = roles d" using s set_member_roles.roles_kept by blast
  have m: "om_roles m = rs @ ?hid" using s by (rule set_member_roles_Inr)
  have hid: "set ?hid \<subseteq> set (roles d)" by (auto simp: hidden_object_roles_def)
  have rs': "set rs \<subseteq> set (roles d)" using rs by blast
  have held: "r \<in> set (held_roles d' t i (row_id u)) \<longleftrightarrow>
      r \<in> set (roles d) \<and> deleted_at r = None \<and> (r \<in> set rs \<or> r \<in> set ?hid)" for r
  proof (cases "r \<in> set (roles d)")
    case True
    note key = key_in_image [OF keys rs' True] key_in_image [OF keys hid True]
    show ?thesis
      using keys by (simp add: in_held_roles_key roles set_member_roles_ids [OF s] key)
  next
    case False
    then show ?thesis using keys by (simp add: in_held_roles_key roles)
  qed
  have inact: "r \<in> set ?hid" if "r \<in> set (held_roles d t i (row_id u))" "\<not> r_is_active r" for r
  proof -
    have "r \<in> set (roles d)" "row_id r \<in> a_role_id ` set ?cur"
      using that(1) in_held_roles_key [OF keys] by blast+
    moreover have "row_id r \<notin> row_id ` set rs"
      using key_in_image [OF keys rs' calculation(1)] rs that(2) by blast
    ultimately show ?thesis using that(2) by (simp add: hidden_object_roles_def)
  qed
  have "deleted_at r = None" if "r \<in> set (held_roles d t i (row_id u))" for r
    using that in_held_roles_key [OF keys] by blast
  with inact hid have c3: "\<forall>r\<in>set (held_roles d t i (row_id u)). \<not> r_is_active r \<longrightarrow> r \<in> set (held_roles d' t i (row_id u))"
    using held by blast
  have "r \<notin> set ?hid" if "r_is_active r" "deleted_at r = None" for r
    using that by (simp add: hidden_object_roles_def)
  then have "set (filter r_is_active (held_roles d' t i (row_id u))) = set rs"
    using held rs by auto
  with held m c3 show ?thesis by auto
qed

subsection \<open>Deleting an account\<close>

lemma all_object_types_complete [simp]: "set all_object_types = UNIV"
proof -
  have "t \<in> set all_object_types" for t by (cases t) (simp add: all_object_types_def)
  then show ?thesis by blast
qed

lemma in_objects_solely_held_by:
  "(t, i) \<in> set (objects_solely_held_by d u) \<longleftrightarrow>
     (\<exists>p rid. protected_role (OBJECT_ROLE_REGISTRY t) = Some p \<and> protected_role_id d p = Some rid \<and>
        (\<exists>a\<in>set (live_assignments d t i u). a_role_id a = rid) \<and> \<not> live_protected_holder_exists d t i rid u)"
proof (cases "protected_role (OBJECT_ROLE_REGISTRY t)")
  case None
  then show ?thesis by (auto simp: objects_solely_held_by_def split: option.splits)
next
  case (Some p)
  show ?thesis
  proof (cases "protected_role_id d p")
    case None
    with Some show ?thesis by (auto simp: objects_solely_held_by_def split: option.splits)
  next
    case (Some rid)
    with \<open>protected_role (OBJECT_ROLE_REGISTRY t) = Some p\<close> show ?thesis
      by (cases t)
        (simp add: objects_solely_held_by_def all_object_types_def Let_def in_live_assignments
          live_protected_holder_exists_def image_iff Bex_def, blast)
  qed
qed

lemma is_live_user_soft_delete:
  "is_live_user d v \<Longrightarrow> v \<noteq> row_id u \<Longrightarrow> is_live_user (snd (soft_delete_user d u b)) v"
  by (simp add: is_live_user_def soft_delete_user_def Let_def)

text \<open>the guard on account deletion is enough.  When \<open>objects_solely_held_by\<close> reports nothing for
  a user, soft-deleting that user leaves every object that had a live holder of its protected role
  with one.\<close>

lemma soft_delete_user_keeps_protected:
  assumes "objects_solely_held_by d (row_id u) = []" and "protected_held d t i"
  shows "protected_held (snd (soft_delete_user d u b)) t i"
proof (cases "protected_role (OBJECT_ROLE_REGISTRY t)")
  case None
  then show ?thesis by (simp add: protected_held_def)
next
  case (Some p)
  let ?d = "snd (soft_delete_user d u b)"
  have d: "assignments ?d = assignments d" "roles ?d = roles d"
    by (simp_all add: soft_delete_user_def Let_def)
  have la: "live_assignments ?d = live_assignments d" using d by (simp add: live_assignments_def fun_eq_iff)
  from assms(2) Some obtain rid where pid: "protected_role_id d p = Some rid"
    by (auto simp: protected_held_def split: option.splits)
  have pid': "protected_role_id ?d p = Some rid" using pid protected_role_id_cong [OF d(2)] by simp
  have held: "protected_held ?d t i" if "a \<in> set (live_assignments d t i v)" "a_role_id a = rid" "is_live_user d v"
    "v \<noteq> row_id u" for a v
    using that la is_live_user_soft_delete by (intro protected_heldI [OF Some pid', of a i v]) auto
  from assms(2) Some pid obtain a where "a \<in> set (assignments d)" "a_object_type a = t" "a_object_id a = i"
    "a_role_id a = rid" "deleted_at a = None" "is_live_user d (a_user_id a)"
    by (auto simp: protected_held_def)
  then have a: "a \<in> set (live_assignments d t i (a_user_id a))" "a_role_id a = rid" "is_live_user d (a_user_id a)"
    by (simp_all add: in_live_assignments)
  show ?thesis
  proof (cases "a_user_id a = row_id u")
    case False
    then show ?thesis using held a by blast
  next
    case True
    have "(t, i) \<notin> set (objects_solely_held_by d (row_id u))" using assms(1) by simp
    with Some pid a True have "live_protected_holder_exists d t i rid (row_id u)"
      by (auto simp: in_objects_solely_held_by)
    then obtain c where "c \<in> set (live_assignments d t i (a_user_id c))" "a_role_id c = rid"
      "is_live_user d (a_user_id c)" "a_user_id c \<noteq> row_id u"
      by (auto simp: live_protected_holder_exists_def in_live_assignments)
    then show ?thesis using held by blast
  qed
qed

end
