(* ===== verification/Session_Revocation.thy ===== *)
theory Session_Revocation
  imports Db
begin

section \<open>Session revocation markers\<close>

text \<open>
  \<open>app/core/auth/services/session_revocation.py\<close>.  A force-logout stores the current epoch under the
  user's key with a time to live; a token not minted strictly after the marker is revoked.  \<open>redis_up\<close>
  says whether the store answers the read; a write that fails propagates and is a failed request.
  \<open>ttl\<close> is \<open>refresh_absolute_max_lifetime_seconds\<close>.
\<close>

definition revoke_user_sessions :: "db \<Rightarrow> uuid \<Rightarrow> db" where
  "revoke_user_sessions d user_id = d\<lparr>revoked := (revoked d)(user_id \<mapsto> now d)\<rparr>"

text \<open>\<open>GET key\<close>: the store drops a key once its time to live has run out.\<close>

definition marker :: "int \<Rightarrow> db \<Rightarrow> uuid \<Rightarrow> timestamp option" where
  "marker ttl d user_id =
     (case revoked d user_id of None \<Rightarrow> None | Some m \<Rightarrow> if now d < m + ttl then Some m else None)"

definition is_revoked :: "int \<Rightarrow> bool \<Rightarrow> db \<Rightarrow> uuid \<Rightarrow> timestamp option \<Rightarrow> bool \<Rightarrow> bool result" where
  "is_revoked ttl redis_up d user_id issued_at fail_open =
     (case issued_at of None \<Rightarrow> Inr False
      | Some iat \<Rightarrow>
          if redis_up then Inr (case marker ttl d user_id of None \<Rightarrow> False | Some m \<Rightarrow> iat \<le> m)
          else if fail_open then Inr False
          else Inl RedisError)"

definition revoke_all :: "db \<Rightarrow> uuid list \<Rightarrow> db" where
  "revoke_all d user_ids = foldl revoke_user_sessions d user_ids"

lemma now_revoke_all [simp]: "now (revoke_all d us) = now d"
  by (induction us arbitrary: d) (auto simp: revoke_all_def revoke_user_sessions_def)

lemma revoke_all_eq: "revoke_all d us = d\<lparr>revoked := (\<lambda>u. if u \<in> set us then Some (now d) else revoked d u)\<rparr>"
proof (induction us arbitrary: d)
  case Nil
  then show ?case by (simp add: revoke_all_def)
next
  case (Cons u us)
  have "revoke_all d (u # us) = revoke_all (revoke_user_sessions d u) us" by (simp add: revoke_all_def)
  then show ?case by (auto simp: Cons revoke_user_sessions_def fun_eq_iff)
qed

text \<open>Between the revocation and the marker's expiry, every token minted up to it reads as revoked.\<close>

lemma is_revoked_after_revoke:
  assumes "revoked d u = Some m" and "iat \<le> m" and "now d < m + ttl"
  shows "is_revoked ttl True d u (Some iat) fail_open = Inr True"
  using assms by (simp add: is_revoked_def marker_def)

end
