(* ===== verification/Role_Service.thy ===== *)
theory Role_Service
  imports Object_Roles Session_Revocation
begin

section \<open>The role catalog\<close>

text \<open>
  \<open>app/core/auth/services/roles.py\<close> and the PATCH route of \<open>app/api/v1/roles.py\<close>: reading, creating,
  editing, deleting, restoring, (de)activating roles, moving the two default flags, and the deploy
  step that projects the code-owned system roles.  An operation takes the role row its route
  fetched and returns the changed row and the database.  Session revocations are part of the
  database, so a request that fails after one is treated as not having revoked anything; the source
  documents that in that case the holders are signed out all the same.  Logging and auditing are
  left out.
\<close>

definition DEFAULT_PARTICIPANT_ROLE :: system_role where
  "DEFAULT_PARTICIPANT_ROLE = RED_TEAMER"

subsection \<open>Reads\<close>

text \<open>\<open>list_roles\<close>: the catalog by name, or the restorable tombstones, newest first.\<close>

definition list_roles ::
  "db \<Rightarrow> bool \<Rightarrow> bool option \<Rightarrow> bool \<Rightarrow> timestamp \<Rightarrow> nat \<Rightarrow> nat \<Rightarrow> role list \<times> nat" where
  "list_roles d include_inactive is_object_assignable deleted deleted_cutoff limit offset =
     (let rows = (if deleted then deleted_select deleted_cutoff None (roles d) else live_select (roles d));
          rows = (if include_inactive then rows else filter r_is_active rows);
          rows = (case is_object_assignable of None \<Rightarrow> rows
                  | Some b \<Rightarrow> filter (\<lambda>r. r_is_object_assignable r = b) rows);
          rows = (if deleted then sort_key (\<lambda>r. - the (deleted_at r)) (sort_key row_id rows)
                  else sort_key r_name rows)
      in paginate limit offset rows)"

definition get_role :: "db \<Rightarrow> uuid \<Rightarrow> role result" where
  "get_role d role_id =
     the_or (NotFoundError (Msg ''Role {} does not exist.'' [AId role_id])) (live_by_id role_id (roles d))"

definition effective_permissions :: "role list \<Rightarrow> string list" where
  "effective_permissions user_roles_loaded =
     py_sorted_set (concat (map r_permissions
       (filter (\<lambda>r. deleted_at r = None \<and> r_is_active r) user_roles_loaded)))"

definition get_role_by_name :: "db \<Rightarrow> string \<Rightarrow> role result" where
  "get_role_by_name d name =
     the_or RuntimeError (List.find (\<lambda>r. r_name r = name) (live_select (roles d)))"

definition get_default_role :: "db \<Rightarrow> role result" where
  "get_default_role d =
     the_or RuntimeError (List.find (\<lambda>r. r_is_default r \<and> r_is_active r) (live_select (roles d)))"

definition get_participant_default_role :: "db \<Rightarrow> role result" where
  "get_participant_default_role d =
     the_or RuntimeError (List.find (\<lambda>r. r_is_participant_default r \<and> r_is_active r) (live_select (roles d)))"

subsection \<open>Guards\<close>

definition validate_custom_permissions :: "string list \<Rightarrow> unit result" where
  "validate_custom_permissions ps =
     (let unknown = py_sorted_set (filter (\<lambda>p. p \<notin> set (map permission_value all_permissions)) ps);
          non_delegable = sort (map permission_value (filter (\<lambda>p. has_permission p ps) NON_DELEGABLE_PERMISSIONS))
      in bindE (ensure (unknown = []) (BadRequestError (Msg ''Unknown permission(s): {}.'' [AStrs unknown]))) (\<lambda>_.
         ensure (non_delegable = [])
           (BadRequestError (Msg ''Permission(s) cannot be granted to a custom role: {}.'' [AStrs non_delegable]))))"

definition assert_name_available :: "db \<Rightarrow> string \<Rightarrow> unit result" where
  "assert_name_available d name =
     bindE (ensure (name \<notin> set RESERVED_ROLE_NAMES)
       (ConflictError (Msg ''Role name {} is reserved for a system role.'' [AStr name]))) (\<lambda>_.
     ensure (\<forall>r\<in>set (live_select (roles d)). r_name r \<noteq> name)
       (ConflictError (Msg ''A role named {} already exists.'' [AStr name])))"

definition is_privileged_system_role :: "role \<Rightarrow> bool" where
  "is_privileged_system_role r \<longleftrightarrow>
     r_is_system r \<and> r_name r \<in> set (map system_role_value NON_DEACTIVATABLE_SYSTEM_ROLES)"

definition assert_deactivatable :: "role \<Rightarrow> unit result" where
  "assert_deactivatable r =
     bindE (ensure (\<not> is_privileged_system_role r)
       (ConflictError (Msg ''System role {} cannot be deactivated.'' [AStr (r_name r)]))) (\<lambda>_.
     bindE (ensure (\<not> r_is_default r)
       (ConflictError (Msg ''The default role {} cannot be deactivated; assign a new default first.'' [AStr (r_name r)]))) (\<lambda>_.
     ensure (\<not> r_is_participant_default r)
       (ConflictError (Msg ''The participant default role {} cannot be deactivated; assign a new participant default first.''
          [AStr (r_name r)]))))"

text \<open>The join behind \<open>_count_users_solely_holding\<close>.\<close>

definition active_role_links :: "db \<Rightarrow> (uuid \<times> uuid) list" where
  "active_role_links d =
     filter (\<lambda>(u, r). is_live_user d u \<and>
       (case live_by_id r (roles d) of None \<Rightarrow> False | Some x \<Rightarrow> r_is_active x)) (user_roles d)"

definition count_users_solely_holding :: "db \<Rightarrow> uuid \<Rightarrow> nat" where
  "count_users_solely_holding d role_id = count_sole_groups fst snd role_id (active_role_links d)"

definition assert_no_group_holders :: "db \<Rightarrow> role \<Rightarrow> unit result" where
  "assert_no_group_holders d r =
     (let members = count_members_holding d (row_id r) in
      ensure (members = 0)
        (ConflictError (Msg ''Cannot make role {} unassignable in groups: it is still held by {} group member(s); remove it from them first.''
           [AStr (r_name r), ANat members])))"

definition assert_role_not_sole :: "db \<Rightarrow> role \<Rightarrow> string \<Rightarrow> unit result" where
  "assert_role_not_sole d r action =
     (let n_users = count_users_solely_holding d (row_id r);
          n_members = count_members_solely_holding d (row_id r)
      in ensure (n_users = 0 \<and> n_members = 0)
           (ConflictError (Msg ''Cannot {} role {}: it is the only active role for {} user(s) and {} group member(s); reassign them first.''
              [AStr action, AStr (r_name r), ANat n_users, ANat n_members])))"

definition role_holder_ids :: "db \<Rightarrow> role \<Rightarrow> uuid list" where
  "role_holder_ids d r = map fst (filter (\<lambda>(u, x). x = row_id r \<and> is_live_user d u) (user_roles d))"

definition revoke_role_holders_sessions :: "db \<Rightarrow> role \<Rightarrow> db" where
  "revoke_role_holders_sessions d r = revoke_all d (role_holder_ids d r)"

definition assert_can_be_default :: "role \<Rightarrow> unit result" where
  "assert_can_be_default r =
     ensure (\<not> is_privileged_system_role r)
       (ConflictError (Msg ''Role {} cannot be made a default role.'' [AStr (r_name r)]))"

definition assert_grantable_in_group :: "role \<Rightarrow> unit result" where
  "assert_grantable_in_group r =
     bindE (ensure (r_is_object_assignable r)
       (ConflictError (Msg ''Role {} is not assignable in an evaluation group.'' [AStr (r_name r)]))) (\<lambda>_.
     case required_permission (OBJECT_ROLE_REGISTRY EVALUATION_GROUP) of None \<Rightarrow> Inr ()
     | Some p \<Rightarrow> ensure (has_permission p (r_permissions r))
         (ConflictError (Msg ''Role {} must grant {} to be assignable in an evaluation group.''
            [AStr (r_name r), AStr (permission_value p)])))"

subsection \<open>Operations\<close>

abbreviation save_role :: "role \<Rightarrow> db \<Rightarrow> db" where
  "save_role r d \<equiv> d\<lparr>roles := save_row r (roles d)\<rparr>"

definition create_role ::
  "db \<Rightarrow> string \<Rightarrow> string \<Rightarrow> string option \<Rightarrow> string list \<Rightarrow> (role \<times> db) result" where
  "create_role d name display_name description permissions =
     bindE (validate_custom_permissions permissions) (\<lambda>_.
     bindE (assert_name_available d name) (\<lambda>_.
     let r = \<lparr>row_id = next_id d, created_at = now d, deleted_at = None, deleted_by_id = None,
              r_name = name, r_display_name = Some display_name, r_description = description,
              r_permissions = py_sorted_set permissions, r_is_system = False, r_is_active = True,
              r_is_default = False, r_is_participant_default = False, r_is_object_assignable = False\<rparr>
     in Inr (r, d\<lparr>roles := roles d @ [r], next_id := Suc (next_id d)\<rparr>)))"

text \<open>\<open>update_role\<close> in its steps: the permission strings that disappear, the plain field edits, and the
  guarded edit of the object-assignability flag.\<close>

definition removed_permissions :: "role \<Rightarrow> string list option \<Rightarrow> string list" where
  "removed_permissions r permissions =
     (case permissions of None \<Rightarrow> [] | Some ps \<Rightarrow> filter (\<lambda>p. p \<notin> set ps) (r_permissions r))"

definition edit_role_fields :: "role \<Rightarrow> string option \<Rightarrow> string option option \<Rightarrow> string list option \<Rightarrow> role" where
  "edit_role_fields r display_name description permissions =
     r\<lparr>r_permissions := (case permissions of None \<Rightarrow> r_permissions r | Some ps \<Rightarrow> py_sorted_set ps),
       r_display_name := (case display_name of None \<Rightarrow> r_display_name r | Some n \<Rightarrow> Some n),
       r_description := (case description of None \<Rightarrow> r_description r | Some n \<Rightarrow> n)\<rparr>"

definition edit_object_assignable :: "db \<Rightarrow> role \<Rightarrow> bool option \<Rightarrow> role result" where
  "edit_object_assignable d r is_object_assignable =
     (case is_object_assignable of None \<Rightarrow> Inr r
      | Some b \<Rightarrow>
          bindE (if \<not> b \<and> r_is_object_assignable r then
                   bindE (ensure (\<not> r_is_participant_default r)
                     (ConflictError (Msg ''Role {} is the group self-join default; assign a new participant default before making it unassignable in groups.''
                        [AStr (r_name r)]))) (\<lambda>_.
                   assert_no_group_holders d r)
                 else Inr ()) (\<lambda>_.
          Inr (r\<lparr>r_is_object_assignable := b\<rparr>)))"

definition update_role ::
  "db \<Rightarrow> role \<Rightarrow> string option \<Rightarrow> string option option \<Rightarrow> string list option \<Rightarrow> bool option \<Rightarrow> (role \<times> db) result" where
  "update_role d r display_name description permissions is_object_assignable =
     bindE (ensure (\<not> r_is_system r)
       (BadRequestError (Msg ''System role {} is code-managed; only its activation and default flags are editable.''
          [AStr (r_name r)]))) (\<lambda>_.
     bindE (case permissions of None \<Rightarrow> Inr () | Some ps \<Rightarrow> validate_custom_permissions ps) (\<lambda>_.
     bindE (edit_object_assignable d (edit_role_fields r display_name description permissions) is_object_assignable) (\<lambda>r'.
     bindE (if r_is_object_assignable r' then assert_grantable_in_group r' else Inr ()) (\<lambda>_.
     let d1 = save_role r' d in
     Inr (r', if removed_permissions r permissions \<noteq> [] then revoke_role_holders_sessions d1 r' else d1)))))"

definition delete_role :: "db \<Rightarrow> role \<Rightarrow> uuid \<Rightarrow> db result" where
  "delete_role d r by_id =
     bindE (ensure (\<not> r_is_system r)
       (BadRequestError (Msg ''System role {} cannot be deleted.'' [AStr (r_name r)]))) (\<lambda>_.
     bindE (ensure (\<not> r_is_default r)
       (ConflictError (Msg ''The default role {} cannot be deleted; assign a new default first.'' [AStr (r_name r)]))) (\<lambda>_.
     bindE (ensure (\<not> r_is_participant_default r)
       (ConflictError (Msg ''The participant default role {} cannot be deleted; assign a new participant default first.''
          [AStr (r_name r)]))) (\<lambda>_.
     bindE (assert_role_not_sole d r ''delete'') (\<lambda>_.
     let r' = soft_delete (now d) (Some by_id) r in
     Inr (revoke_role_holders_sessions (save_role r' d) r')))))"

definition get_restorable_role :: "db \<Rightarrow> uuid \<Rightarrow> timestamp \<Rightarrow> role result" where
  "get_restorable_role d role_id deleted_cutoff =
     the_or (NotFoundError (Msg ''No restorable role {} was deleted within the restore window.'' [AId role_id]))
       (List.find (\<lambda>r. row_id r = role_id) (deleted_select deleted_cutoff None (roles d)))"

text \<open>The partial unique indexes of the table: the name and the two default flags.\<close>

definition role_clash :: "role \<Rightarrow> role \<Rightarrow> bool" where
  "role_clash x y \<longleftrightarrow> r_name x = r_name y \<or> (r_is_default x \<and> r_is_default y) \<or>
     (r_is_participant_default x \<and> r_is_participant_default y)"

definition restore_role :: "db \<Rightarrow> role \<Rightarrow> (role \<times> db) result" where
  "restore_role d r =
     bindE (ensure (\<not> r_is_system r)
       (BadRequestError (Msg ''System role {} cannot be restored; it is code-managed.'' [AStr (r_name r)]))) (\<lambda>_.
     bindE (restore_row role_clash (Msg ''A role named {} already exists.'' [AStr (r_name r)]) r (roles d)) (\<lambda>(r', t').
     Inr (r', d\<lparr>roles := t'\<rparr>)))"

definition set_role_active :: "db \<Rightarrow> role \<Rightarrow> bool \<Rightarrow> (role \<times> db) result" where
  "set_role_active d r is_active =
     (if r_is_active r = is_active then Inr (r, d)
      else bindE (if \<not> is_active then bindE (assert_deactivatable r) (\<lambda>_. assert_role_not_sole d r ''deactivate'')
                  else Inr ()) (\<lambda>_.
           let r' = r\<lparr>r_is_active := is_active\<rparr>;
               d1 = save_role r' d
           in Inr (r', if \<not> is_active then revoke_role_holders_sessions d1 r' else d1)))"

definition set_default_role :: "db \<Rightarrow> role \<Rightarrow> (role \<times> db) result" where
  "set_default_role d r =
     bindE (assert_can_be_default r) (\<lambda>_.
     bindE (ensure (r_is_active r)
       (ConflictError (Msg ''Cannot make inactive role {} the default; activate it first.'' [AStr (r_name r)]))) (\<lambda>_.
     if r_is_default r then Inr (r, d)
     else let d1 = (case List.find r_is_default (live_select (roles d)) of None \<Rightarrow> d
                    | Some current \<Rightarrow> save_role (current\<lparr>r_is_default := False\<rparr>) d);
              r' = r\<lparr>r_is_default := True\<rparr>
          in Inr (r', save_role r' d1)))"

definition set_participant_default_role :: "db \<Rightarrow> role \<Rightarrow> (role \<times> db) result" where
  "set_participant_default_role d r =
     bindE (assert_can_be_default r) (\<lambda>_.
     bindE (ensure (r_is_active r)
       (ConflictError (Msg ''Cannot make inactive role {} the participant default; activate it first.'' [AStr (r_name r)]))) (\<lambda>_.
     bindE (assert_grantable_in_group r) (\<lambda>_.
     if r_is_participant_default r then Inr (r, d)
     else let d1 = (case List.find r_is_participant_default (live_select (roles d)) of None \<Rightarrow> d
                    | Some current \<Rightarrow> save_role (current\<lparr>r_is_participant_default := False\<rparr>) d);
              r' = r\<lparr>r_is_participant_default := True\<rparr>
          in Inr (r', save_role r' d1))))"

text \<open>\<open>update_role_endpoint\<close>: one PATCH applies its fields in a fixed order.\<close>

record role_update =
  ru_display_name :: "string option"
  ru_description :: "string option option"
  ru_permissions :: "string list option"
  ru_is_active :: "bool option"
  ru_is_default :: "bool option"
  ru_is_participant_default :: "bool option"
  ru_is_object_assignable :: "bool option"

definition update_role_endpoint :: "db \<Rightarrow> session_user \<Rightarrow> uuid \<Rightarrow> role_update \<Rightarrow> (role \<times> db) result" where
  "update_role_endpoint d caller role_id payload =
     bindE (require_permission ROLES_MANAGE caller) (\<lambda>_.
     bindE (get_role d role_id) (\<lambda>r.
     bindE (if ru_display_name payload \<noteq> None \<or> ru_description payload \<noteq> None \<or>
               ru_permissions payload \<noteq> None \<or> ru_is_object_assignable payload \<noteq> None
            then update_role d r (ru_display_name payload) (ru_description payload) (ru_permissions payload)
                   (ru_is_object_assignable payload)
            else Inr (r, d)) (\<lambda>(r, d).
     bindE (case ru_is_active payload of None \<Rightarrow> Inr (r, d) | Some b \<Rightarrow> set_role_active d r b) (\<lambda>(r, d).
     bindE (case ru_is_default payload of None \<Rightarrow> Inr (r, d)
            | Some b \<Rightarrow> if b then set_default_role d r
                else bindE (ensure (\<not> r_is_default r)
                       (ConflictError (Msg ''Cannot clear the default flag directly; make another role the default instead.'' []))) (\<lambda>_.
                     Inr (r, d))) (\<lambda>(r, d).
     case ru_is_participant_default payload of None \<Rightarrow> Inr (r, d)
     | Some b \<Rightarrow> if b then set_participant_default_role d r
         else bindE (ensure (\<not> r_is_participant_default r)
                (ConflictError (Msg ''Cannot clear the participant default flag directly; make another role the participant default instead.'' []))) (\<lambda>_.
              Inr (r, d)))))))"

subsection \<open>The deploy step\<close>

definition sync_system_role :: "db \<Rightarrow> system_role \<Rightarrow> db result" where
  "sync_system_role d s =
     (let name = system_role_value s;
          permissions = sort (ROLE_PERMISSIONS s);
          assignable = s \<in> set OBJECT_ASSIGNABLE_SYSTEM_ROLES
      in case List.find (\<lambda>r. r_name r = name) (live_select (roles d)) of
           None \<Rightarrow>
             let r = \<lparr>row_id = next_id d, created_at = now d, deleted_at = None, deleted_by_id = None,
                      r_name = name, r_display_name = Some (rs_display_name (spec s)),
                      r_description = Some (rs_description (spec s)), r_permissions = permissions,
                      r_is_system = True, r_is_active = True,
                      r_is_default = (s = DEFAULT_PARTICIPANT_ROLE),
                      r_is_participant_default = (s = DEFAULT_PARTICIPANT_ROLE),
                      r_is_object_assignable = assignable\<rparr>
             in bindE (ensure (\<forall>x\<in>set (live_select (roles d)). \<not> role_clash x r) IntegrityError) (\<lambda>_.
                Inr (d\<lparr>roles := roles d @ [r], next_id := Suc (next_id d)\<rparr>))
         | Some r \<Rightarrow>
             Inr (save_role (r\<lparr>r_display_name := Some (rs_display_name (spec s)),
                              r_description := Some (rs_description (spec s)), r_permissions := permissions,
                              r_is_system := True, r_is_object_assignable := assignable\<rparr>) d))"

fun sync_roles_from :: "system_role list \<Rightarrow> db \<Rightarrow> db result" where
  "sync_roles_from [] d = Inr d"
| "sync_roles_from (s # ss) d = bindE (sync_system_role d s) (sync_roles_from ss)"

definition sync_system_roles :: "db \<Rightarrow> db result" where
  "sync_system_roles d = sync_roles_from all_system_roles d"

end
