(* ===== verification/Role_Invariants.thy ===== *)
theory Role_Invariants
  imports Role_Service
begin

section \<open>The role catalog keeps its invariants\<close>

text \<open>
  \<open>role_inv\<close> is what the rest of the platform relies on of the \<open>roles\<close> table, whoever edits it and in
  whatever order: keys and live names are unique, at most one live role is the new-user default and
  at most one the self-join default, a default is live, active and never \<open>admin\<close>/\<open>owner\<close>, the
  self-join default may be held in a group and grants reading it, and an operator-defined role never
  carries a non-delegable permission.  \<open>operator_step\<close> collects the operations that write
  the table on a request, \<open>role_step\<close> adds the deploy step.
\<close>

definition role_row_ok :: "role \<Rightarrow> bool" where
  "role_row_ok r \<longleftrightarrow>
     (\<not> r_is_system r \<longrightarrow> (\<forall>p\<in>set NON_DELEGABLE_PERMISSIONS. \<not> has_permission p (r_permissions r))) \<and>
     (r_is_system r \<longleftrightarrow> r_name r \<in> set RESERVED_ROLE_NAMES) \<and>
     (r_is_object_assignable r \<longrightarrow> has_permission EVALUATION_GROUPS_READ (r_permissions r)) \<and>
     (r_is_default r \<or> r_is_participant_default r \<longrightarrow>
        r_is_active r \<and> deleted_at r = None \<and> \<not> is_privileged_system_role r) \<and>
     (r_is_participant_default r \<longrightarrow> r_is_object_assignable r)"

definition no_role_clash :: "role list \<Rightarrow> bool" where
  "no_role_clash t \<longleftrightarrow>
     (\<forall>x\<in>set (live_select t). \<forall>y\<in>set (live_select t). row_id x \<noteq> row_id y \<longrightarrow> \<not> role_clash x y)"

definition role_inv :: "db \<Rightarrow> bool" where
  "role_inv d \<longleftrightarrow> keys_ok (next_id d) (roles d) \<and> (\<forall>r\<in>set (roles d). role_row_ok r) \<and> no_role_clash (roles d)"

inductive operator_step :: "db \<Rightarrow> db \<Rightarrow> bool" where
  create: "create_role d name display_name description ps = Inr (r, d') \<Longrightarrow> operator_step d d'"
| update: "get_role d rid = Inr r \<Longrightarrow> update_role d r dn desc ps ass = Inr (r', d') \<Longrightarrow> operator_step d d'"
| delete: "get_role d rid = Inr r \<Longrightarrow> delete_role d r by_id = Inr d' \<Longrightarrow> operator_step d d'"
| restore: "get_restorable_role d rid cutoff = Inr r \<Longrightarrow> restore_role d r = Inr (r', d') \<Longrightarrow> operator_step d d'"
| activate: "get_role d rid = Inr r \<Longrightarrow> set_role_active d r b = Inr (r', d') \<Longrightarrow> operator_step d d'"
| default: "get_role d rid = Inr r \<Longrightarrow> set_default_role d r = Inr (r', d') \<Longrightarrow> operator_step d d'"
| participant_default:
    "get_role d rid = Inr r \<Longrightarrow> set_participant_default_role d r = Inr (r', d') \<Longrightarrow> operator_step d d'"

inductive role_step :: "db \<Rightarrow> db \<Rightarrow> bool" where
  operator: "operator_step d d' \<Longrightarrow> role_step d d'"
| sync: "sync_system_role d s = Inr d' \<Longrightarrow> role_step d d'"

inductive_cases operator_stepE: "operator_step d d'"

inductive_simps role_step_iff: "role_step d d'"

subsection \<open>Saving and inserting rows\<close>

lemma role_inv_cong: "roles d' = roles d \<Longrightarrow> next_id d' = next_id d \<Longrightarrow> role_inv d' \<longleftrightarrow> role_inv d"
  by (simp add: role_inv_def)

lemma role_clash_sym: "role_clash x y \<longleftrightarrow> role_clash y x"
  by (auto simp: role_clash_def)

lemma no_role_clash_save:
  assumes "no_role_clash t"
    and "deleted_at r = None \<Longrightarrow> \<forall>x\<in>set (live_select t). row_id x \<noteq> row_id r \<longrightarrow> \<not> role_clash x r"
  shows "no_role_clash (save_row r t)"
proof (unfold no_role_clash_def, intro ballI impI)
  fix x y assume x: "x \<in> set (live_select (save_row r t))" and y: "y \<in> set (live_select (save_row r t))"
    and ne: "row_id x \<noteq> row_id y"
  have cases: "(z = r \<and> deleted_at r = None) \<or> (z \<in> set (live_select t) \<and> row_id z \<noteq> row_id r)"
    if "z \<in> set (live_select (save_row r t))" for z using that by (auto simp: in_save_row)
  show "\<not> role_clash x y"
    using cases [OF x] cases [OF y] assms ne role_clash_sym [of x y] unfolding no_role_clash_def by blast
qed

lemma role_inv_save:
  assumes "role_inv d" "row_id r \<in> row_id ` set (roles d)" "role_row_ok r"
    and "deleted_at r = None \<Longrightarrow> \<forall>x\<in>set (live_select (roles d)). row_id x \<noteq> row_id r \<longrightarrow> \<not> role_clash x r"
  shows "role_inv (save_role r d)"
proof -
  have "row_id r < next_id d" using assms(1,2) by (auto simp: role_inv_def keys_ok_def)
  then show ?thesis
    using assms no_role_clash_save [of "roles d" r] by (auto simp: role_inv_def in_save_row)
qed

lemma role_inv_append:
  assumes "role_inv d" "row_id r = next_id d" "role_row_ok r"
    and "\<forall>x\<in>set (live_select (roles d)). \<not> role_clash x r"
  shows "role_inv (d\<lparr>roles := roles d @ [r], next_id := Suc (next_id d)\<rparr>)"
proof -
  have "no_role_clash (roles d @ [r])"
    using assms(1,4) role_clash_sym by (auto simp: role_inv_def no_role_clash_def)
  then show ?thesis using assms by (auto simp: role_inv_def keys_ok_append)
qed

lemma role_inv_no_clash:
  "role_inv d \<Longrightarrow> r \<in> set (live_select (roles d)) \<Longrightarrow> x \<in> set (live_select (roles d)) \<Longrightarrow>
     row_id x \<noteq> row_id r \<Longrightarrow> \<not> role_clash x r"
  by (auto simp: role_inv_def no_role_clash_def)

lemma get_role_Inr: "get_role d i = Inr r \<Longrightarrow> r \<in> set (live_select (roles d)) \<and> row_id r = i"
  by (auto simp: get_role_def dest: live_by_id_SomeD)

lemma role_inv_row: "role_inv d \<Longrightarrow> r \<in> set (live_select (roles d)) \<Longrightarrow> role_row_ok r"
  by (auto simp: role_inv_def)

lemma get_role_image: "get_role d i = Inr r \<Longrightarrow> row_id r \<in> row_id ` set (roles d)"
  by (auto dest!: get_role_Inr)

text \<open>A live row rewritten without new claims on the unique columns.\<close>

lemma role_inv_rewrite:
  assumes "role_inv d" "r \<in> set (live_select (roles d))" "row_id r' = row_id r" "role_row_ok r'"
    and "r_name r' = r_name r" "r_is_default r' \<Longrightarrow> r_is_default r"
    "r_is_participant_default r' \<Longrightarrow> r_is_participant_default r"
  shows "role_inv (save_role r' d)"
proof (rule role_inv_save)
  show "row_id r' \<in> row_id ` set (roles d)" using assms(2,3) by auto
  show "\<forall>x\<in>set (live_select (roles d)). row_id x \<noteq> row_id r' \<longrightarrow> \<not> role_clash x r'"
    using role_inv_no_clash [OF assms(1,2)] assms(3,5-7) by (auto simp: role_clash_def)
qed (use assms in auto)

subsection \<open>Each operation preserves the invariant\<close>

lemma validate_custom_permissions_Inr:
  "validate_custom_permissions ps = Inr u \<longleftrightarrow>
     (\<forall>p\<in>set ps. \<exists>q. p = permission_value q) \<and> (\<forall>p\<in>set NON_DELEGABLE_PERMISSIONS. \<not> has_permission p ps)"
  by (auto simp: validate_custom_permissions_def Let_def svc_simps filter_empty_conv image_iff simp flip: set_empty2)

lemma has_permission_sorted [simp]: "has_permission p (py_sorted_set ps) \<longleftrightarrow> has_permission p ps"
  by (simp add: has_permission_def)

lemma has_permission_sort [simp]: "has_permission p (sort ps) \<longleftrightarrow> has_permission p ps"
  by (simp add: has_permission_def)

lemma privileged_cong:
  "r_is_system r' = r_is_system r \<Longrightarrow> r_name r' = r_name r \<Longrightarrow> is_privileged_system_role r' = is_privileged_system_role r"
  by (simp add: is_privileged_system_role_def)

lemma create_role_inv:
  assumes "role_inv d" "create_role d n dn desc ps = Inr (r, d')"
  shows "role_inv d'"
proof -
  from assms(2) have v: "validate_custom_permissions ps = Inr ()"
    and n: "n \<notin> set RESERVED_ROLE_NAMES" "\<forall>x\<in>set (live_select (roles d)). r_name x \<noteq> n"
    and d': "d' = d\<lparr>roles := roles d @ [r], next_id := Suc (next_id d)\<rparr>"
    and r: "row_id r = next_id d" "r_name r = n" "r_permissions r = py_sorted_set ps" "\<not> r_is_system r"
      "\<not> r_is_default r" "\<not> r_is_participant_default r" "\<not> r_is_object_assignable r"
    by (auto simp: create_role_def Let_def svc_simps assert_name_available_def)
  show ?thesis unfolding d'
    using n r v validate_custom_permissions_Inr by (intro role_inv_append assms(1)) (auto simp: role_row_ok_def role_clash_def)
qed

lemma assert_grantable_in_group_Inr:
  "assert_grantable_in_group r = Inr u \<longleftrightarrow>
     r_is_object_assignable r \<and> has_permission EVALUATION_GROUPS_READ (r_permissions r)"
  by (auto simp: assert_grantable_in_group_def svc_simps)

lemma role_inv_revoke [simp]: "role_inv (revoke_role_holders_sessions d r) \<longleftrightarrow> role_inv d"
  by (rule role_inv_cong) (simp_all add: revoke_role_holders_sessions_def revoke_all_eq)

lemma edit_role_fields_sel [simp]:
  "row_id (edit_role_fields r dn de ps) = row_id r" "r_name (edit_role_fields r dn de ps) = r_name r"
  "r_is_system (edit_role_fields r dn de ps) = r_is_system r" "r_is_active (edit_role_fields r dn de ps) = r_is_active r"
  "r_is_default (edit_role_fields r dn de ps) = r_is_default r" "deleted_at (edit_role_fields r dn de ps) = deleted_at r"
  "r_is_participant_default (edit_role_fields r dn de ps) = r_is_participant_default r"
  "r_is_object_assignable (edit_role_fields r dn de ps) = r_is_object_assignable r"
  "r_permissions (edit_role_fields r dn de ps) = (case ps of None \<Rightarrow> r_permissions r | Some q \<Rightarrow> py_sorted_set q)"
  by (simp_all add: edit_role_fields_def)

lemma edit_object_assignable_Inr:
  assumes "edit_object_assignable d r ass = Inr r'"
  obtains b where "r' = r\<lparr>r_is_object_assignable := b\<rparr>"
    "r_is_participant_default r \<Longrightarrow> r_is_object_assignable r \<Longrightarrow> b"
proof (cases ass)
  case None
  with assms have "r' = r\<lparr>r_is_object_assignable := r_is_object_assignable r\<rparr>"
    by (simp add: edit_object_assignable_def)
  then show thesis by (rule that) simp
next
  case (Some b)
  with assms have "r' = r\<lparr>r_is_object_assignable := b\<rparr>" "r_is_participant_default r \<Longrightarrow> r_is_object_assignable r \<Longrightarrow> b"
    by (auto simp: edit_object_assignable_def svc_simps split: if_splits)
  then show thesis using that by simp
qed

text \<open>What a successful \<open>update_role\<close> has done: the new row, and whether sessions were revoked.\<close>

lemma update_role_Inr:
  assumes "update_role d r dn de ps ass = Inr (r', d')"
  obtains b where "\<not> r_is_system r"
    "\<forall>q. ps = Some q \<longrightarrow> validate_custom_permissions q = Inr ()"
    "r' = (edit_role_fields r dn de ps)\<lparr>r_is_object_assignable := b\<rparr>"
    "b \<longrightarrow> has_permission EVALUATION_GROUPS_READ (r_permissions r')"
    "r_is_participant_default r \<and> r_is_object_assignable r \<longrightarrow> b"
    "d' = (if removed_permissions r ps \<noteq> [] then revoke_role_holders_sessions (save_role r' d) r' else save_role r' d)"
proof -
  from assms have edit: "edit_object_assignable d (edit_role_fields r dn de ps) ass = Inr r'"
    and sys: "\<not> r_is_system r" and val: "\<forall>q. ps = Some q \<longrightarrow> validate_custom_permissions q = Inr ()"
    and grant: "r_is_object_assignable r' \<Longrightarrow> assert_grantable_in_group r' = Inr ()"
    and d': "d' = (if removed_permissions r ps \<noteq> [] then revoke_role_holders_sessions (save_role r' d) r' else save_role r' d)"
    by (auto simp: update_role_def Let_def svc_simps)
  from edit show thesis
  proof (rule edit_object_assignable_Inr)
    fix b assume b: "r' = (edit_role_fields r dn de ps)\<lparr>r_is_object_assignable := b\<rparr>"
      "r_is_participant_default (edit_role_fields r dn de ps) \<Longrightarrow> r_is_object_assignable (edit_role_fields r dn de ps) \<Longrightarrow> b"
    show thesis
      by (rule that [OF sys val b(1) _ _ d']) (use b grant in \<open>auto simp: assert_grantable_in_group_Inr\<close>)
  qed
qed

lemma update_role_inv:
  assumes "role_inv d" "get_role d i = Inr r" "update_role d r dn desc ps ass = Inr (r', d')"
  shows "role_inv d'"
proof -
  from assms(3) obtain b where sys: "\<not> r_is_system r"
    and val: "\<forall>q. ps = Some q \<longrightarrow> validate_custom_permissions q = Inr ()"
    and r': "r' = (edit_role_fields r dn desc ps)\<lparr>r_is_object_assignable := b\<rparr>"
    and ass: "b \<longrightarrow> has_permission EVALUATION_GROUPS_READ (r_permissions r')"
      "r_is_participant_default r \<and> r_is_object_assignable r \<longrightarrow> b"
    and d': "d' = (if removed_permissions r ps \<noteq> [] then revoke_role_holders_sessions (save_role r' d) r' else save_role r' d)"
    by (rule update_role_Inr)
  have r: "r \<in> set (live_select (roles d))" using get_role_Inr [OF assms(2)] by blast
  note ok = role_inv_row [OF assms(1) r]
  have nd: "\<not> has_permission p (r_permissions r')" if "p \<in> set NON_DELEGABLE_PERMISSIONS" for p
    using ok sys val that by (cases ps) (auto simp: r' role_row_ok_def validate_custom_permissions_Inr)
  have "role_row_ok r'"
    using ok sys ass nd privileged_cong [of r' r] by (auto simp: role_row_ok_def r')
  then have "role_inv (save_role r' d)"
    by (intro role_inv_rewrite [OF assms(1) r]) (auto simp: r')
  then show ?thesis by (simp add: d')
qed

lemma delete_role_inv:
  assumes "role_inv d" "get_role d i = Inr r" "delete_role d r b = Inr d'"
  shows "role_inv d'"
proof -
  let ?r = "soft_delete (now d) (Some b) r"
  have r: "r \<in> set (live_select (roles d))" using get_role_Inr [OF assms(2)] by blast
  from assms(3) have g: "\<not> r_is_default r" "\<not> r_is_participant_default r"
    and d': "d' = revoke_role_holders_sessions (save_role ?r d) ?r"
    by (auto simp: delete_role_def Let_def svc_simps)
  have "role_row_ok ?r"
    using role_inv_row [OF assms(1) r] g by (auto simp: role_row_ok_def soft_delete_def)
  then have "role_inv (save_role ?r d)"
    using r by (intro role_inv_save assms(1)) auto
  then show ?thesis by (simp add: d')
qed

lemma restore_role_inv:
  assumes "role_inv d" "get_restorable_role d i c = Inr r" "restore_role d r = Inr (r', d')"
  shows "role_inv d'"
proof -
  have r: "r \<in> set (roles d)" "deleted_at r \<noteq> None"
    using assms(2) by (auto simp: get_restorable_role_def dest!: find_SomeD dest: in_window_deleted)
  then have ok: "role_row_ok r" using assms(1) by (auto simp: role_inv_def)
  from assms(3) have d': "d' = save_role (restore r) d"
    and cl: "\<forall>x\<in>set (live_select (roles d)). row_id x \<noteq> row_id r \<longrightarrow> \<not> role_clash x r"
    by (auto simp: restore_role_def svc_simps restore_row_Inr)
  have "role_row_ok (restore r)"
    using ok r(2) by (auto simp: role_row_ok_def restore_def)
  then show ?thesis unfolding d'
    using r cl by (intro role_inv_save assms(1)) (auto simp: role_clash_def restore_def)
qed

lemma set_role_active_inv:
  assumes "role_inv d" "get_role d i = Inr r" "set_role_active d r b = Inr (r', d')"
  shows "role_inv d'"
proof (cases "r_is_active r = b")
  case True
  then show ?thesis using assms by (simp add: set_role_active_def)
next
  case False
  let ?r = "r\<lparr>r_is_active := b\<rparr>"
  have r: "r \<in> set (live_select (roles d))" using get_role_Inr [OF assms(2)] by blast
  from assms(3) False have g: "b \<or> (\<not> r_is_default r \<and> \<not> r_is_participant_default r)"
    and d': "d' = (if \<not> b then revoke_role_holders_sessions (save_role ?r d) ?r else save_role ?r d)"
    by (auto simp: set_role_active_def Let_def svc_simps assert_deactivatable_def split: if_splits)
  have "role_row_ok ?r"
    using role_inv_row [OF assms(1) r] g privileged_cong [of ?r r] by (auto simp: role_row_ok_def)
  then have "role_inv (save_role ?r d)"
    by (intro role_inv_rewrite [OF assms(1) r]) auto
  then show ?thesis by (cases b) (simp_all add: d')
qed

lemma clear_default:
  assumes "role_inv d" and "r \<in> set (live_select (roles d))" and "\<not> r_is_default r"
    and d1: "d1 = (case List.find r_is_default (live_select (roles d)) of None \<Rightarrow> d
                   | Some current \<Rightarrow> save_role (current\<lparr>r_is_default := False\<rparr>) d)"
  shows "role_inv d1 \<and> r \<in> set (live_select (roles d1)) \<and> (\<forall>x\<in>set (live_select (roles d1)). \<not> r_is_default x)"
proof (cases "List.find r_is_default (live_select (roles d))")
  case None
  then have "d1 = d" by (simp add: d1)
  then show ?thesis using None assms(1-3) by (auto simp: find_None_iff_all)
next
  case (Some c)
  let ?c = "c\<lparr>r_is_default := False\<rparr>"
  have c: "c \<in> set (live_select (roles d))" "r_is_default c" using find_SomeD [OF Some] by auto
  have "role_row_ok ?c"
    using role_inv_row [OF assms(1) c(1)] privileged_cong [of ?c c] by (auto simp: role_row_ok_def)
  then have inv: "role_inv (save_role ?c d)" by (intro role_inv_rewrite [OF assms(1) c(1)]) auto
  have "row_id r \<noteq> row_id c"
  proof
    assume "row_id r = row_id c"
    then have "r = c" using assms(1,2) c by (auto simp: role_inv_def keys_ok_def dest: distinct_map_same)
    then show False using c assms(3) by simp
  qed
  moreover have "\<not> r_is_default x" if "x \<in> set (live_select (roles d))" "row_id x \<noteq> row_id c" for x
    using role_inv_no_clash [OF assms(1) c(1) that] c(2) by (auto simp: role_clash_def)
  ultimately show ?thesis using Some inv assms(2) by (auto simp: d1 in_save_row)
qed

lemma set_default_role_inv:
  assumes "role_inv d" "get_role d i = Inr r" "set_default_role d r = Inr (r', d')"
  shows "role_inv d'"
proof (cases "r_is_default r")
  case True
  then show ?thesis using assms by (auto simp: set_default_role_def svc_simps)
next
  case False
  let ?r = "r\<lparr>r_is_default := True\<rparr>"
  define d1 where "d1 = (case List.find r_is_default (live_select (roles d)) of None \<Rightarrow> d
                   | Some current \<Rightarrow> save_role (current\<lparr>r_is_default := False\<rparr>) d)"
  have r: "r \<in> set (live_select (roles d))" using get_role_Inr [OF assms(2)] by blast
  from assms(3) False have g: "\<not> is_privileged_system_role r" "r_is_active r" and d': "d' = save_role ?r d1"
    by (auto simp: set_default_role_def svc_simps assert_can_be_default_def Let_def d1_def)
  have c: "role_inv d1" "r \<in> set (live_select (roles d1))" "\<forall>x\<in>set (live_select (roles d1)). \<not> r_is_default x"
    using clear_default [OF assms(1) r False d1_def] by auto
  have "role_row_ok ?r"
    using role_inv_row [OF assms(1) r] g r privileged_cong [of ?r r] by (auto simp: role_row_ok_def)
  then show ?thesis unfolding d'
    using c role_inv_no_clash [OF c(1,2)] by (intro role_inv_save) (auto simp: role_clash_def)
qed

lemma clear_participant_default:
  assumes "role_inv d" and "r \<in> set (live_select (roles d))" and "\<not> r_is_participant_default r"
    and d1: "d1 = (case List.find r_is_participant_default (live_select (roles d)) of None \<Rightarrow> d
                   | Some current \<Rightarrow> save_role (current\<lparr>r_is_participant_default := False\<rparr>) d)"
  shows "role_inv d1 \<and> r \<in> set (live_select (roles d1)) \<and>
         (\<forall>x\<in>set (live_select (roles d1)). \<not> r_is_participant_default x)"
proof (cases "List.find r_is_participant_default (live_select (roles d))")
  case None
  then have "d1 = d" by (simp add: d1)
  then show ?thesis using None assms(1-3) by (auto simp: find_None_iff_all)
next
  case (Some c)
  let ?c = "c\<lparr>r_is_participant_default := False\<rparr>"
  have c: "c \<in> set (live_select (roles d))" "r_is_participant_default c" using find_SomeD [OF Some] by auto
  have "role_row_ok ?c"
    using role_inv_row [OF assms(1) c(1)] privileged_cong [of ?c c] by (auto simp: role_row_ok_def)
  then have inv: "role_inv (save_role ?c d)" by (intro role_inv_rewrite [OF assms(1) c(1)]) auto
  have "row_id r \<noteq> row_id c"
  proof
    assume "row_id r = row_id c"
    then have "r = c" using assms(1,2) c by (auto simp: role_inv_def keys_ok_def dest: distinct_map_same)
    then show False using c assms(3) by simp
  qed
  moreover have "\<not> r_is_participant_default x" if "x \<in> set (live_select (roles d))" "row_id x \<noteq> row_id c" for x
    using role_inv_no_clash [OF assms(1) c(1) that] c(2) by (auto simp: role_clash_def)
  ultimately show ?thesis using Some inv assms(2) by (auto simp: d1 in_save_row)
qed

lemma set_participant_default_role_inv:
  assumes "role_inv d" "get_role d i = Inr r" "set_participant_default_role d r = Inr (r', d')"
  shows "role_inv d'"
proof (cases "r_is_participant_default r")
  case True
  then show ?thesis using assms by (auto simp: set_participant_default_role_def svc_simps)
next
  case False
  let ?r = "r\<lparr>r_is_participant_default := True\<rparr>"
  define d1 where "d1 = (case List.find r_is_participant_default (live_select (roles d)) of None \<Rightarrow> d
                   | Some current \<Rightarrow> save_role (current\<lparr>r_is_participant_default := False\<rparr>) d)"
  have r: "r \<in> set (live_select (roles d))" using get_role_Inr [OF assms(2)] by blast
  from assms(3) False have g: "\<not> is_privileged_system_role r" "r_is_active r" "r_is_object_assignable r"
    and d': "d' = save_role ?r d1"
    by (auto simp: set_participant_default_role_def svc_simps assert_can_be_default_def assert_grantable_in_group_Inr Let_def d1_def)
  have c: "role_inv d1" "r \<in> set (live_select (roles d1))"
    "\<forall>x\<in>set (live_select (roles d1)). \<not> r_is_participant_default x"
    using clear_participant_default [OF assms(1) r False d1_def] by auto
  have "role_row_ok ?r"
    using role_inv_row [OF assms(1) r] g r privileged_cong [of ?r r] by (auto simp: role_row_ok_def)
  then show ?thesis unfolding d'
    using c role_inv_no_clash [OF c(1,2)] by (intro role_inv_save) (auto simp: role_clash_def)
qed

text \<open>The code-owned roles that may be held on an object all grant reading it.\<close>

lemma assignable_system_role_reads:
  "s \<in> set OBJECT_ASSIGNABLE_SYSTEM_ROLES \<Longrightarrow> has_permission EVALUATION_GROUPS_READ (ROLE_PERMISSIONS s)"
  by (cases s) (simp_all add: OBJECT_ASSIGNABLE_SYSTEM_ROLES_def all_object_types_def owner_permissions_def
      red_teamer_permissions_def annotator_permissions_def viewer_permissions_def)

lemma unprivileged_system_role_assignable:
  "system_role_value s \<notin> set (map system_role_value NON_DEACTIVATABLE_SYSTEM_ROLES) \<Longrightarrow>
     s \<in> set OBJECT_ASSIGNABLE_SYSTEM_ROLES"
  by (cases s) (simp_all add: OBJECT_ASSIGNABLE_SYSTEM_ROLES_def all_object_types_def NON_DEACTIVATABLE_SYSTEM_ROLES_def)

lemma sync_system_role_inv:
  assumes "role_inv d" "sync_system_role d s = Inr d'"
  shows "role_inv d'"
proof (cases "List.find (\<lambda>r. r_name r = system_role_value s) (live_select (roles d))")
  case None
  with assms(2) show ?thesis
    by (auto simp: sync_system_role_def Let_def svc_simps role_row_ok_def is_privileged_system_role_def
        DEFAULT_PARTICIPANT_ROLE_def NON_DEACTIVATABLE_SYSTEM_ROLES_def OBJECT_ASSIGNABLE_SYSTEM_ROLES_def
        all_object_types_def assignable_system_role_reads
        intro!: role_inv_append [OF assms(1)] simp del: ROLE_PERMISSIONS_has)
next
  case (Some r)
  let ?r = "r\<lparr>r_display_name := Some (rs_display_name (spec s)), r_description := Some (rs_description (spec s)),
     r_permissions := sort (ROLE_PERMISSIONS s), r_is_system := True,
     r_is_object_assignable := s \<in> set OBJECT_ASSIGNABLE_SYSTEM_ROLES\<rparr>"
  have r: "r \<in> set (live_select (roles d))" "r_name r = system_role_value s" using find_SomeD [OF Some] by auto
  note ok = role_inv_row [OF assms(1) r(1)]
  then have sys: "r_is_system r" using r(2) by (auto simp: role_row_ok_def)
  have d': "d' = save_role ?r d" using assms(2) Some by (simp add: sync_system_role_def Let_def)
  have "r_is_participant_default r \<Longrightarrow> s \<in> set OBJECT_ASSIGNABLE_SYSTEM_ROLES"
    using ok sys r(2) by (intro unprivileged_system_role_assignable) (auto simp: role_row_ok_def is_privileged_system_role_def)
  then have "role_row_ok ?r"
    using ok sys r(2) privileged_cong [of ?r r] assignable_system_role_reads [of s]
    by (auto simp: role_row_ok_def simp del: ROLE_PERMISSIONS_has)
  then show ?thesis unfolding d' by (intro role_inv_rewrite [OF assms(1) r(1)]) auto
qed

lemmas role_operation_inv =
  create_role_inv update_role_inv delete_role_inv restore_role_inv set_role_active_inv set_default_role_inv
  set_participant_default_role_inv

interpretation role_catalog: step_invariant role_step role_inv
proof
  fix d d' assume "role_step d d'" "role_inv d"
  then show "role_inv d'"
    by (auto simp: role_step_iff sync_system_role_inv elim!: operator_stepE intro: role_operation_inv)
qed

text \<open>C3: whatever sequence of catalog operations and deploys runs from a database in order (the empty
  one, for instance), no operator-defined role ever carries \<open>roles:manage\<close>, \<open>users:manage_admin\<close> or
  \<open>users:update\<close>, tombstoned roles included.\<close>

theorem custom_roles_never_elevated:
  assumes "role_step\<^sup>*\<^sup>* d d'" and "role_inv d"
    and "r \<in> set (roles d')" and "\<not> r_is_system r"
    and "p \<in> {ROLES_MANAGE, USERS_MANAGE_ADMIN, USERS_UPDATE}"
  shows "\<not> has_permission p (r_permissions r)"
proof -
  have "role_inv d'" using assms(1,2) by (rule role_catalog.reachable_keeps)
  then show ?thesis using assms(3-5) by (auto simp: role_inv_def role_row_ok_def NON_DELEGABLE_PERMISSIONS_def)
qed

text \<open>C10: in every database so reached the default roles are usable: at most one live role is the
  new-user default and at most one the self-join default, each is active and is not \<open>admin\<close> or
  \<open>owner\<close>, and the self-join default can be held in a group and grants reading it.\<close>

theorem default_roles_sound:
  assumes "role_step\<^sup>*\<^sup>* d d'" and "role_inv d"
    and "x \<in> set (live_select (roles d'))" and "r_is_default x \<or> r_is_participant_default x"
  shows "r_is_active x \<and> \<not> is_privileged_system_role x \<and>
         (r_is_participant_default x \<longrightarrow>
            r_is_object_assignable x \<and> has_permission EVALUATION_GROUPS_READ (r_permissions x)) \<and>
         (\<forall>y\<in>set (live_select (roles d')).
            (r_is_default x \<and> r_is_default y) \<or> (r_is_participant_default x \<and> r_is_participant_default y) \<longrightarrow> y = x)"
proof -
  have inv: "role_inv d'" using assms(1,2) by (rule role_catalog.reachable_keeps)
  have ok: "role_row_ok x" using role_inv_row [OF inv assms(3)] .
  have "y = x" if "y \<in> set (live_select (roles d'))" "role_clash y x" for y
  proof -
    have "row_id y = row_id x" using role_inv_no_clash [OF inv assms(3) that(1)] that(2) by blast
    then show ?thesis using inv assms(3) that(1) by (auto simp: role_inv_def keys_ok_def dest: distinct_map_same)
  qed
  then show ?thesis using ok assms(4) by (auto simp: role_row_ok_def role_clash_def)
qed

end
