(* ===== verification/Role_Guards.thy ===== *)
theory Role_Guards
  imports Role_Invariants
begin

section \<open>Withdrawing a role: nobody is stranded, no token outlives it\<close>

text \<open>
  The two promises the catalog makes to the holders of a role that is deleted, deactivated or loses
  a permission: the sole-role guard (\<open>_assert_role_not_sole\<close>) leaves every principal an active role,
  and the revocation (\<open>_revoke_role_holders_sessions\<close>) signs out every account that lost a permission.
\<close>

subsection \<open>Nobody is stranded\<close>

definition user_has_active_role :: "db \<Rightarrow> uuid \<Rightarrow> bool" where
  "user_has_active_role d u \<longleftrightarrow> (\<exists>r\<in>set (user_live_roles d u). r_is_active r)"

definition member_has_active_role :: "db \<Rightarrow> object_type \<Rightarrow> uuid \<Rightarrow> uuid \<Rightarrow> bool" where
  "member_has_active_role d t i u \<longleftrightarrow> (\<exists>r\<in>set (held_roles d t i u). r_is_active r)"

text \<open>The primary key of \<open>user_roles\<close> and the partial unique index of the assignment table.\<close>

definition holdings_unique :: "db \<Rightarrow> bool" where
  "holdings_unique d \<longleftrightarrow> distinct (user_roles d) \<and> distinct (assignments d) \<and>
     (\<forall>a\<in>set (live_select (assignments d)). \<forall>b\<in>set (live_select (assignments d)).
        membership_key a = membership_key b \<and> a_role_id a = a_role_id b \<longrightarrow> a = b)"

text \<open>\<open>d'\<close> is \<open>d\<close> with role \<open>i\<close> changed in some way and nothing else of the holdings.\<close>

definition only_role_changed :: "db \<Rightarrow> uuid \<Rightarrow> db \<Rightarrow> bool" where
  "only_role_changed d i d' \<longleftrightarrow> users d' = users d \<and> user_roles d' = user_roles d \<and> assignments d' = assignments d \<and>
     map row_id (roles d') = map row_id (roles d) \<and> (\<forall>r. row_id r \<noteq> i \<longrightarrow> r \<in> set (roles d') \<longleftrightarrow> r \<in> set (roles d))"

lemma only_role_changed_save:
  "row_id r = i \<Longrightarrow> only_role_changed d i (save_role r d)"
  "row_id r = i \<Longrightarrow> only_role_changed d i (revoke_role_holders_sessions (save_role r d) x)"
  by (auto simp: only_role_changed_def in_save_row revoke_role_holders_sessions_def revoke_all_eq)

lemma sole_guard_user:
  assumes inv: "role_inv d" "holdings_unique d" and ch: "only_role_changed d (row_id r) d'"
    and guard: "count_users_solely_holding d (row_id r) = 0"
    and u: "is_live_user d u" "user_has_active_role d u"
  shows "user_has_active_role d' u"
proof -
  have keys: "distinct (map row_id (roles d))" using inv(1) by (simp add: role_inv_def keys_ok_def)
  have link: "(u, j) \<in> set (active_role_links d) \<longleftrightarrow>
      (u, j) \<in> set (user_roles d) \<and> (\<exists>x\<in>set (roles d). row_id x = j \<and> deleted_at x = None \<and> r_is_active x)" for j
    using u(1) by (auto simp: active_role_links_def live_by_id_iff [OF keys] split: option.splits)
      (metis live_by_id_iff [OF keys] option.distinct(1) option.sel)+
  have keep: "user_has_active_role d' u" if "(u, j) \<in> set (active_role_links d)" "j \<noteq> row_id r" for j
    using that ch by (auto simp: link user_has_active_role_def in_user_live_roles only_role_changed_def)
  obtain x where x: "x \<in> set (roles d)" "deleted_at x = None" "r_is_active x" "(u, row_id x) \<in> set (user_roles d)"
    using u(2) by (auto simp: user_has_active_role_def in_user_live_roles)
  then have x_link: "(u, row_id x) \<in> set (active_role_links d)" by (auto simp: link)
  show ?thesis
  proof (cases "row_id x = row_id r")
    case False
    then show ?thesis using keep x_link by blast
  next
    case True
    have "distinct (active_role_links d)" using inv(2) by (simp add: holdings_unique_def active_role_links_def)
    then obtain b where "b \<in> set (active_role_links d)" "fst b = u" "b \<noteq> (u, row_id x)"
      using count_sole_groups_zero [OF guard [unfolded count_users_solely_holding_def] _ x_link] True by auto
    then show ?thesis using keep [of "snd b"] True by (metis prod.collapse)
  qed
qed

lemma sole_guard_member:
  assumes inv: "role_inv d" "holdings_unique d" and ch: "only_role_changed d (row_id r) d'"
    and guard: "count_members_solely_holding d (row_id r) = 0"
    and u: "is_live_user d u" "member_has_active_role d t i u"
  shows "member_has_active_role d' t i u"
proof -
  have keys: "distinct (map row_id (roles d))" using inv(1) by (simp add: role_inv_def keys_ok_def)
  have keys': "distinct (map row_id (roles d'))" using keys ch by (simp add: only_role_changed_def)
  have la: "live_assignments d' t i u = live_assignments d t i u"
    using ch by (simp add: live_assignments_def only_role_changed_def)
  have row: "a \<in> set (active_membership_rows d) \<longleftrightarrow>
      (\<exists>x\<in>set (roles d). row_id x = a_role_id a \<and> deleted_at x = None \<and> r_is_active x)"
    if "a \<in> set (live_assignments d t i u)" for a
    using that u(1) by (auto simp: active_membership_rows_def in_live_assignments live_by_id_iff [OF keys] split: option.splits)
      (metis live_by_id_iff [OF keys] option.distinct(1) option.sel)+
  have keep: "member_has_active_role d' t i u"
    if h: "a \<in> set (live_assignments d t i u)" "a \<in> set (active_membership_rows d)" "a_role_id a \<noteq> row_id r" for a
  proof -
    obtain x where "x \<in> set (roles d)" "row_id x = a_role_id a" "deleted_at x = None" "r_is_active x"
      using row h(1,2) by blast
    then show ?thesis
      using h ch la by (auto simp: member_has_active_role_def in_held_roles_key [OF keys'] only_role_changed_def)
  qed
  obtain x a where a: "a \<in> set (live_assignments d t i u)" "row_id x = a_role_id a" "x \<in> set (roles d)"
    "deleted_at x = None" "r_is_active x"
    using u(2) by (auto simp: member_has_active_role_def in_held_roles_key [OF keys])
  then have a_row: "a \<in> set (active_membership_rows d)" using row by blast
  show ?thesis
  proof (cases "a_role_id a = row_id r")
    case False
    then show ?thesis using keep a(1) a_row by blast
  next
    case True
    have "distinct (active_membership_rows d)" using inv(2) by (simp add: holdings_unique_def active_membership_rows_def)
    then obtain b where b: "b \<in> set (active_membership_rows d)" "membership_key b = membership_key a" "b \<noteq> a"
      using count_sole_groups_zero [OF guard [unfolded count_members_solely_holding_def] _ a_row True] by auto
    have "b \<in> set (live_assignments d t i u)"
      using b(1,2) a(1) by (auto simp: active_membership_rows_def in_live_assignments membership_key_def)
    moreover have "a_role_id b \<noteq> row_id r"
      using inv(2) a(1) b(2,3) True calculation by (auto simp: holdings_unique_def in_live_assignments)
    ultimately show ?thesis using keep b(1) by blast
  qed
qed

lemma assert_role_not_sole_Inr:
  "assert_role_not_sole d r act = Inr x \<longleftrightarrow>
     count_users_solely_holding d (row_id r) = 0 \<and> count_members_solely_holding d (row_id r) = 0"
  by (simp add: assert_role_not_sole_def Let_def)

lemma delete_role_Inr:
  "delete_role d r b = Inr d' \<Longrightarrow>
     assert_role_not_sole d r ''delete'' = Inr () \<and>
     d' = revoke_role_holders_sessions (save_role (soft_delete (now d) (Some b) r) d) (soft_delete (now d) (Some b) r)"
  by (auto simp: delete_role_def Let_def svc_simps)

lemma deactivate_role_Inr:
  "set_role_active d r False = Inr (r', d') \<Longrightarrow> r_is_active r \<Longrightarrow>
     assert_role_not_sole d r ''deactivate'' = Inr () \<and>
     d' = revoke_role_holders_sessions (save_role (r\<lparr>r_is_active := False\<rparr>) d) (r\<lparr>r_is_active := False\<rparr>)"
  by (auto simp: set_role_active_def Let_def svc_simps)

text \<open>C21: deleting or deactivating a role strands nobody.  If the operation succeeds, every live user
  who had an active role still has one, and every live member of an object who had an active role on
  it still has one there.\<close>

theorem withdrawing_role_strands_nobody:
  assumes "role_inv d" and "holdings_unique d" and "get_role d rid = Inr r"
    and "delete_role d r by_id = Inr d' \<or> set_role_active d r False = Inr (r', d')"
    and "is_live_user d u"
  shows "(user_has_active_role d u \<longrightarrow> user_has_active_role d' u) \<and>
         (member_has_active_role d t i u \<longrightarrow> member_has_active_role d' t i u)"
proof (cases "d' = d")
  case True
  then show ?thesis by simp
next
  case False
  have "only_role_changed d (row_id r) d' \<and> (\<exists>act. assert_role_not_sole d r act = Inr ())"
  proof (cases "delete_role d r by_id = Inr d'")
    case True
    then show ?thesis by (auto dest!: delete_role_Inr intro: only_role_changed_save)
  next
    case no_delete: False
    with assms(4) have s: "set_role_active d r False = Inr (r', d')" by blast
    then have "r_is_active r" using False by (auto simp: set_role_active_def split: if_splits)
    then show ?thesis using s by (auto dest!: deactivate_role_Inr intro: only_role_changed_save)
  qed
  then show ?thesis
    using sole_guard_user [OF assms(1,2)] sole_guard_member [OF assms(1,2)] assms(5)
    by (auto simp: assert_role_not_sole_Inr)
qed

subsection \<open>No token outlives a lost permission\<close>

abbreviation user_permissions :: "db \<Rightarrow> uuid \<Rightarrow> string list" where
  "user_permissions d u \<equiv> effective_permissions (user_live_roles d u)"

lemma in_user_permissions:
  "p \<in> set (user_permissions d u) \<longleftrightarrow>
     (\<exists>r\<in>set (live_select (roles d)). (u, row_id r) \<in> set (user_roles d) \<and> r_is_active r \<and> p \<in> set (r_permissions r))"
  by (auto simp: effective_permissions_def in_user_live_roles)

lemma kept_by_superset:
  assumes "user_roles d' = user_roles d" "set (live_select (roles d)) \<subseteq> set (live_select (roles d'))"
  shows "set (user_permissions d u) \<subseteq> set (user_permissions d' u)"
  using assms unfolding in_user_permissions subset_iff by metis

text \<open>Rewriting one live role takes a permission only from its holders, and only when the new row
  no longer grants it.\<close>

lemma lost_by_save:
  assumes inv: "role_inv d" and r: "r \<in> set (live_select (roles d))" and r': "row_id r' = row_id r"
    and p: "p \<in> set (user_permissions d u)" "p \<notin> set (user_permissions (save_role r' d) u)"
  shows "(u, row_id r) \<in> set (user_roles d) \<and> p \<in> set (r_permissions r) \<and>
         \<not> (deleted_at r' = None \<and> (r_is_active r \<longrightarrow> r_is_active r') \<and> p \<in> set (r_permissions r'))"
proof -
  obtain x where x: "x \<in> set (live_select (roles d))" "(u, row_id x) \<in> set (user_roles d)" "r_is_active x"
    "p \<in> set (r_permissions x)"
    using p(1) by (auto simp: in_user_permissions)
  have "row_id x = row_id r"
  proof (rule ccontr)
    assume "row_id x \<noteq> row_id r"
    then have "x \<in> set (live_select (save_row r' (roles d)))" using x(1) r' by (auto simp: in_save_row)
    then show False using p(2) x by (auto simp: in_user_permissions)
  qed
  moreover from this have "x = r"
    using inv x(1) r by (auto simp: role_inv_def keys_ok_def dest: distinct_map_same)
  moreover have "r' \<in> set (live_select (save_row r' (roles d)))" if "deleted_at r' = None"
    using r r' that by (auto simp: in_save_row)
  ultimately show ?thesis using p(2) x r' by (auto simp: in_user_permissions)
qed

lemma revoked_holder:
  "(u, row_id r) \<in> set (user_roles d) \<Longrightarrow> is_live_user d u \<Longrightarrow> revoked (revoke_role_holders_sessions d r) u = Some (now d)"
  by (force simp: revoke_role_holders_sessions_def revoke_all_eq role_holder_ids_def)

lemma user_permissions_revoke [simp]: "user_permissions (revoke_role_holders_sessions d r) u = user_permissions d u"
  by (simp add: revoke_role_holders_sessions_def revoke_all_eq user_live_roles_def)

lemma is_live_user_save_role [simp]: "is_live_user (save_role r d) u = is_live_user d u"
  by (simp add: is_live_user_def)

lemma set_default_role_keeps_permissions:
  assumes "role_inv d" "get_role d i = Inr r" "set_default_role d r = Inr (r', d')"
  shows "set (user_permissions d u) \<subseteq> set (user_permissions d' u)"
proof (cases "r_is_default r")
  case True
  then show ?thesis using assms by (auto simp: set_default_role_def svc_simps)
next
  case False
  define d1 where "d1 = (case List.find r_is_default (live_select (roles d)) of None \<Rightarrow> d
                   | Some current \<Rightarrow> save_role (current\<lparr>r_is_default := False\<rparr>) d)"
  have r: "r \<in> set (live_select (roles d))" using get_role_Inr [OF assms(2)] by blast
  have d': "d' = save_role (r\<lparr>r_is_default := True\<rparr>) d1"
    using assms(3) False by (auto simp: set_default_role_def svc_simps Let_def d1_def)
  have c: "role_inv d1" "r \<in> set (live_select (roles d1))"
    using clear_default [OF assms(1) r False d1_def] by auto
  have "set (user_permissions d u) \<subseteq> set (user_permissions d1 u)"
  proof (cases "List.find r_is_default (live_select (roles d))")
    case None
    then show ?thesis by (simp add: d1_def)
  next
    case (Some x)
    then show ?thesis
      using lost_by_save [OF assms(1), of x "x\<lparr>r_is_default := False\<rparr>"] find_SomeD [OF Some] by (auto simp: d1_def)
  qed
  moreover have "set (user_permissions d1 u) \<subseteq> set (user_permissions d' u)"
    using lost_by_save [OF c, of "r\<lparr>r_is_default := True\<rparr>"] r by (auto simp: d')
  ultimately show ?thesis by blast
qed

lemma set_participant_default_role_keeps_permissions:
  assumes "role_inv d" "get_role d i = Inr r" "set_participant_default_role d r = Inr (r', d')"
  shows "set (user_permissions d u) \<subseteq> set (user_permissions d' u)"
proof (cases "r_is_participant_default r")
  case True
  then show ?thesis using assms by (auto simp: set_participant_default_role_def svc_simps)
next
  case False
  define d1 where "d1 = (case List.find r_is_participant_default (live_select (roles d)) of None \<Rightarrow> d
                   | Some current \<Rightarrow> save_role (current\<lparr>r_is_participant_default := False\<rparr>) d)"
  have r: "r \<in> set (live_select (roles d))" using get_role_Inr [OF assms(2)] by blast
  have d': "d' = save_role (r\<lparr>r_is_participant_default := True\<rparr>) d1"
    using assms(3) False by (auto simp: set_participant_default_role_def svc_simps Let_def d1_def)
  have c: "role_inv d1" "r \<in> set (live_select (roles d1))"
    using clear_participant_default [OF assms(1) r False d1_def] by auto
  have "set (user_permissions d u) \<subseteq> set (user_permissions d1 u)"
  proof (cases "List.find r_is_participant_default (live_select (roles d))")
    case None
    then show ?thesis by (simp add: d1_def)
  next
    case (Some x)
    then show ?thesis
      using lost_by_save [OF assms(1), of x "x\<lparr>r_is_participant_default := False\<rparr>"] find_SomeD [OF Some]
      by (auto simp: d1_def)
  qed
  moreover have "set (user_permissions d1 u) \<subseteq> set (user_permissions d' u)"
    using lost_by_save [OF c, of "r\<lparr>r_is_participant_default := True\<rparr>"] r by (auto simp: d')
  ultimately show ?thesis by blast
qed

text \<open>C22: a permission an account loses through a change of the role catalog is lost at once.  If a
  catalog request takes permission \<open>p\<close> from a live user's effective set, that user's sessions are
  revoked as of the change, so every token that still claims \<open>p\<close> reads as revoked.\<close>

theorem lost_permission_revokes_sessions:
  assumes "role_inv d" and "operator_step d d'" and "is_live_user d u"
    and "p \<in> set (user_permissions d u)" and "p \<notin> set (user_permissions d' u)"
  shows "revoked d' u = Some (now d)"
  using assms(2)
proof (cases rule: operator_step.cases)
  case (create n dn de ps r)
  then have "set (user_permissions d u) \<subseteq> set (user_permissions d' u)"
    by (intro kept_by_superset) (auto simp: create_role_def Let_def svc_simps)
  then show ?thesis using assms by blast
next
  case (update i r dn de ps ass r')
  then obtain b where r': "r' = (edit_role_fields r dn de ps)\<lparr>r_is_object_assignable := b\<rparr>"
    and d': "d' = (if removed_permissions r ps \<noteq> [] then revoke_role_holders_sessions (save_role r' d) r' else save_role r' d)"
    by (blast elim: update_role_Inr)
  have r: "r \<in> set (live_select (roles d))" using update get_role_Inr by blast
  have "p \<notin> set (user_permissions (save_role r' d) u)"
    using assms(5) by (auto simp: d' split: if_splits)
  then have l: "(u, row_id r) \<in> set (user_roles d)" "p \<in> set (r_permissions r)" "p \<notin> set (r_permissions r')"
    using lost_by_save [OF assms(1) r, of r' p u] assms(4) r r' by auto
  then have "removed_permissions r ps \<noteq> []"
    by (auto simp: r' removed_permissions_def filter_empty_conv split: option.splits)
  then show ?thesis using l assms(3) by (auto simp: d' r' intro: revoked_holder [THEN trans])
next
  case (delete i r b)
  let ?r = "soft_delete (now d) (Some b) r"
  have r: "r \<in> set (live_select (roles d))" and d': "d' = revoke_role_holders_sessions (save_role ?r d) ?r"
    using delete get_role_Inr delete_role_Inr by blast+
  have "(u, row_id r) \<in> set (user_roles d)"
    using lost_by_save [OF assms(1) r, of ?r p u] assms(4,5) by (auto simp: d')
  then show ?thesis using assms(3) by (auto simp: d' intro: revoked_holder [THEN trans])
next
  case (restore i c r r')
  have r: "r \<in> set (roles d)" "deleted_at r \<noteq> None"
    using restore by (auto simp: get_restorable_role_def dest!: find_SomeD dest: in_window_deleted)
  have "d' = save_role (restore r) d"
    using restore by (auto simp: restore_role_def svc_simps restore_row_Inr)
  moreover have "row_id x \<noteq> row_id r" if "x \<in> set (live_select (roles d))" for x
    using that r assms(1) by (auto simp: role_inv_def keys_ok_def dest: distinct_map_same)
  ultimately have "set (user_permissions d u) \<subseteq> set (user_permissions d' u)"
    by (intro kept_by_superset) (auto simp: in_save_row)
  then show ?thesis using assms by blast
next
  case (activate i r b r')
  let ?r = "r\<lparr>r_is_active := b\<rparr>"
  have r: "r \<in> set (live_select (roles d))" using activate get_role_Inr by blast
  have ne: "r_is_active r \<noteq> b" using activate assms(4,5) by (auto simp: set_role_active_def split: if_splits)
  then have d': "d' = (if \<not> b then revoke_role_holders_sessions (save_role ?r d) ?r else save_role ?r d)"
    using activate by (auto simp: set_role_active_def Let_def svc_simps split: if_splits)
  have "p \<notin> set (user_permissions (save_role ?r d) u)" using assms(5) by (auto simp: d' split: if_splits)
  then have "(u, row_id r) \<in> set (user_roles d)" "\<not> b"
    using lost_by_save [OF assms(1) r, of ?r p u] assms(4) r by auto
  then show ?thesis using assms(3) by (auto simp: d' intro: revoked_holder [THEN trans])
next
  case (default i r r')
  then show ?thesis using set_default_role_keeps_permissions [OF assms(1)] assms(4,5) by blast
next
  case (participant_default i r r')
  then show ?thesis using set_participant_default_role_keeps_permissions [OF assms(1)] assms(4,5) by blast
qed

end
