(* ===== verification/Role_Sync.thy ===== *)
theory Role_Sync
  imports Role_Invariants
begin

section \<open>The deploy step projects the code-owned roles\<close>

text \<open>
  What \<open>sync_system_roles\<close> establishes: every canonical role has a live row carrying exactly what
  \<open>app/core/auth/roles.py\<close> and the object-role registry say, operator-defined roles and the flags an
  operator moved are left alone, and a second run changes nothing.
\<close>

definition role_synced :: "role \<Rightarrow> system_role \<Rightarrow> bool" where
  "role_synced r s \<longleftrightarrow> r_name r = system_role_value s \<and> r_is_system r \<and>
     r_display_name r = Some (rs_display_name (spec s)) \<and> r_description r = Some (rs_description (spec s)) \<and>
     r_permissions r = sort (ROLE_PERMISSIONS s) \<and>
     r_is_object_assignable r = (s \<in> set OBJECT_ASSIGNABLE_SYSTEM_ROLES)"

definition synced :: "db \<Rightarrow> system_role \<Rightarrow> bool" where
  "synced d s \<longleftrightarrow> (\<exists>r\<in>set (live_select (roles d)). role_synced r s)"

lemma syncedI: "r \<in> set (roles d) \<Longrightarrow> deleted_at r = None \<Longrightarrow> role_synced r s \<Longrightarrow> synced d s"
  by (auto simp: synced_def)

lemma sync_system_role_synced:
  assumes "sync_system_role d s = Inr d'"
  shows "synced d' s"
proof (cases "List.find (\<lambda>r. r_name r = system_role_value s) (live_select (roles d))")
  case None
  with assms show ?thesis
    by (simp add: sync_system_role_def Let_def svc_simps)
      (elim conjE, hypsubst, rule syncedI, simp, rule disjI1, rule refl, simp_all add: role_synced_def)
next
  case (Some r)
  have r: "r \<in> set (roles d)" "r_name r = system_role_value s" "deleted_at r = None" using find_SomeD [OF Some] by auto
  let ?r = "r\<lparr>r_display_name := Some (rs_display_name (spec s)), r_description := Some (rs_description (spec s)),
     r_permissions := sort (ROLE_PERMISSIONS s), r_is_system := True,
     r_is_object_assignable := s \<in> set OBJECT_ASSIGNABLE_SYSTEM_ROLES\<rparr>"
  have "d' = save_role ?r d" using assms Some by (simp add: sync_system_role_def Let_def)
  then show ?thesis using r by (intro syncedI [of ?r]) (auto simp: in_save_row role_synced_def)
qed

lemma sync_system_role_frame:
  assumes "role_inv d" "sync_system_role d s = Inr d'" "r \<in> set (roles d)"
    and "r_name r \<noteq> system_role_value s \<or> deleted_at r \<noteq> None"
  shows "r \<in> set (roles d')"
proof (cases "List.find (\<lambda>r. r_name r = system_role_value s) (live_select (roles d))")
  case None
  then show ?thesis using assms(2,3) by (auto simp: sync_system_role_def Let_def svc_simps)
next
  case (Some x)
  have x: "x \<in> set (roles d)" "r_name x = system_role_value s" "deleted_at x = None" using find_SomeD [OF Some] by auto
  have "row_id r \<noteq> row_id x"
  proof
    assume "row_id r = row_id x"
    then have "r = x" using assms(1,3) x(1) by (auto simp: role_inv_def keys_ok_def dest: distinct_map_same)
    then show False using assms(4) x by auto
  qed
  then show ?thesis using assms(2,3) Some by (auto simp: sync_system_role_def Let_def in_save_row)
qed

lemma sync_system_role_other:
  assumes "role_inv d" "sync_system_role d s = Inr d'" "synced d s'" "s' \<noteq> s"
  shows "synced d' s'"
proof -
  obtain r where r: "r \<in> set (live_select (roles d))" "role_synced r s'" using assms(3) by (auto simp: synced_def)
  then have "r \<in> set (roles d')"
    using assms(4) by (intro sync_system_role_frame [OF assms(1,2)]) (auto simp: role_synced_def)
  then show ?thesis using r by (auto simp: synced_def)
qed

lemma sync_system_role_idem:
  assumes "role_inv d" "synced d s"
  shows "sync_system_role d s = Inr d"
proof -
  obtain r where r: "r \<in> set (live_select (roles d))" "role_synced r s" using assms(2) by (auto simp: synced_def)
  have "x = r" if "x \<in> set (live_select (roles d))" "r_name x = system_role_value s" for x
  proof -
    have "row_id x = row_id r"
      using role_inv_no_clash [OF assms(1) r(1) that(1)] that(2) r(2) by (auto simp: role_clash_def role_synced_def)
    then show ?thesis using assms(1) r(1) that(1) by (auto simp: role_inv_def keys_ok_def dest: distinct_map_same)
  qed
  moreover obtain x where x: "List.find (\<lambda>r. r_name r = system_role_value s) (live_select (roles d)) = Some x"
    using find_ex [OF r(1), of "\<lambda>r. r_name r = system_role_value s"] r(2) by (auto simp: role_synced_def)
  ultimately have "x = r" using find_SomeD [OF x] by blast
  with x have "List.find (\<lambda>r. r_name r = system_role_value s) (live_select (roles d)) = Some r" by simp
  moreover have "r\<lparr>r_display_name := Some (rs_display_name (spec s)), r_description := Some (rs_description (spec s)),
      r_permissions := sort (ROLE_PERMISSIONS s), r_is_system := True,
      r_is_object_assignable := s \<in> set OBJECT_ASSIGNABLE_SYSTEM_ROLES\<rparr> = r"
    using r(2) by (simp add: role_synced_def)
  moreover have "save_role r d = d"
    using assms(1) r(1) by (simp add: save_row_same role_inv_def keys_ok_def)
  ultimately show ?thesis by (simp add: sync_system_role_def Let_def)
qed

lemma sync_roles_from_synced:
  assumes "sync_roles_from ss d = Inr d'" "role_inv d" "distinct ss" "\<forall>s\<in>S. synced d s" "S \<inter> set ss = {}"
  shows "role_inv d' \<and> (\<forall>s\<in>S \<union> set ss. synced d' s)"
  using assms
proof (induction ss arbitrary: d S)
  case Nil
  then show ?case by simp
next
  case (Cons s ss)
  then obtain d1 where d1: "sync_system_role d s = Inr d1" "sync_roles_from ss d1 = Inr d'" by (auto simp: svc_simps)
  have inv: "role_inv d1" using sync_system_role_inv [OF Cons.prems(2) d1(1)] .
  have "\<forall>x\<in>insert s S. synced d1 x"
    using sync_system_role_synced [OF d1(1)] sync_system_role_other [OF Cons.prems(2) d1(1)] Cons.prems(4,5) by auto
  then show ?case using Cons.IH [OF d1(2) inv, of "insert s S"] Cons.prems(3,5) by auto
qed

lemma sync_roles_from_idem: "role_inv d \<Longrightarrow> \<forall>s\<in>set ss. synced d s \<Longrightarrow> sync_roles_from ss d = Inr d"
  by (induction ss) (auto simp: sync_system_role_idem)

lemma sync_roles_from_frame:
  "sync_roles_from ss d = Inr d' \<Longrightarrow> role_inv d \<Longrightarrow> r \<in> set (roles d) \<Longrightarrow> \<not> r_is_system r \<Longrightarrow> r \<in> set (roles d')"
proof (induction ss arbitrary: d)
  case Nil
  then show ?case by simp
next
  case (Cons s ss)
  then obtain d1 where d1: "sync_system_role d s = Inr d1" "sync_roles_from ss d1 = Inr d'" by (auto simp: svc_simps)
  have "r_name r \<noteq> system_role_value s"
    using Cons.prems(2-4) by (auto simp: role_inv_def role_row_ok_def)
  then have "r \<in> set (roles d1)" using sync_system_role_frame [OF Cons.prems(2) d1(1) Cons.prems(3)] by blast
  then show ?case using Cons.IH [OF d1(2)] sync_system_role_inv [OF Cons.prems(2) d1(1)] Cons.prems(4) by blast
qed

text \<open>C33: a deploy makes the catalog agree with the code.  After \<open>sync_system_roles\<close> every canonical
  role has a live row with the name, label, description, permission set and assignability the code
  declares, every operator-defined role is exactly as it was, and running it again changes nothing.\<close>

theorem sync_system_roles_projects:
  assumes "role_inv d" and "sync_system_roles d = Inr d'"
  shows "(\<forall>s. synced d' s) \<and> (\<forall>r\<in>set (roles d). \<not> r_is_system r \<longrightarrow> r \<in> set (roles d')) \<and>
         sync_system_roles d' = Inr d'"
proof -
  have d: "distinct all_system_roles" by (simp add: all_system_roles_def)
  have s: "role_inv d' \<and> (\<forall>s. synced d' s)"
    using sync_roles_from_synced [of all_system_roles d d' "{}"] assms d by (simp add: sync_system_roles_def)
  then show ?thesis
    using sync_roles_from_frame assms sync_roles_from_idem [of d' all_system_roles] unfolding sync_system_roles_def by blast
qed

end
