(* ===== verification/Group_Access.thy ===== *)
theory Group_Access
  imports Object_Roles
begin

section \<open>Who may see and change an evaluation group\<close>

text \<open>
  \<open>app/core/evaluations/access.py\<close>, the route gates of \<open>evaluations/dependencies.py\<close>, and the reads and
  write gate of \<open>services/evaluation_groups.py\<close>.  \<open>group_visible_to\<close> is the SQL predicate list and get
  queries filter with, \<open>group_is_visible\<close> its in-Python mirror used by the gates;
  \<open>resolve_metrics_scope\<close> is the metrics policy on top of it.  \<open>can_manage\<close> is the break-glass permission
  \<open>evaluation_groups:manage\<close> of the caller's token.  The conversation-scoped join is modelled next to the
  tables it reads, in \<open>Annotation_Models\<close>.
\<close>

definition caller_live_organization :: "db \<Rightarrow> uuid \<Rightarrow> uuid option" where
  "caller_live_organization d caller_id =
     (case live_by_id caller_id (users d) of None \<Rightarrow> None
      | Some u \<Rightarrow> (case u_organization_id u of None \<Rightarrow> None
          | Some i \<Rightarrow> map_option row_id (live_by_id i (organizations d))))"

definition has_live_assignment :: "db \<Rightarrow> uuid \<Rightarrow> uuid \<Rightarrow> bool" where
  "has_live_assignment d group_id user_id \<longleftrightarrow> live_assignments d EVALUATION_GROUP group_id user_id \<noteq> []"

definition group_visible_to :: "db \<Rightarrow> uuid \<Rightarrow> evaluation_group \<Rightarrow> bool" where
  "group_visible_to d caller_id g \<longleftrightarrow>
     (g_access_level g = PUBLIC \<and> g_status g \<noteq> PS_DRAFT) \<or>
     has_live_assignment d (row_id g) caller_id \<or>
     (g_access_level g = ORGANIZATION \<and>
        (case (g_organization_id g, caller_live_organization d caller_id) of
           (Some i, Some j) \<Rightarrow> i = j | _ \<Rightarrow> False))"

definition groups_granting :: "db \<Rightarrow> permission \<Rightarrow> uuid \<Rightarrow> uuid list" where
  "groups_granting d p caller_id =
     map a_object_id (filter (\<lambda>a. a_object_type a = EVALUATION_GROUP \<and> a_user_id a = caller_id \<and> deleted_at a = None \<and>
       (case live_by_id (a_role_id a) (roles d) of None \<Rightarrow> False
        | Some r \<Rightarrow> r_is_active r \<and> has_permission p (r_permissions r))) (assignments d))"

text \<open>\<open>join_visible_evaluation_group\<close>: whether a child of evaluation \<open>evaluation_id\<close> is in scope.\<close>

definition visible_evaluation_group :: "db \<Rightarrow> uuid \<Rightarrow> uuid \<Rightarrow> bool \<Rightarrow> bool" where
  "visible_evaluation_group d evaluation_id caller_id can_manage \<longleftrightarrow>
     (case live_by_id evaluation_id (evaluations d) of None \<Rightarrow> False
      | Some e \<Rightarrow> (case live_by_id (e_evaluation_group_id e) (groups d) of None \<Rightarrow> False
          | Some g \<Rightarrow> can_manage \<or> group_visible_to d caller_id g))"

definition caller_can_manage_groups :: "session_user \<Rightarrow> bool" where
  "caller_can_manage_groups caller \<longleftrightarrow> has_permission EVALUATION_GROUPS_MANAGE (su_permissions caller)"

definition group_is_visible :: "db \<Rightarrow> evaluation_group \<Rightarrow> session_user \<Rightarrow> bool \<Rightarrow> uuid option \<Rightarrow> bool" where
  "group_is_visible d g caller is_member caller_org_id =
     (if has_permission EVALUATION_GROUPS_MANAGE (su_permissions caller) then True
      else if is_member then True
      else case g_access_level g of
        PUBLIC \<Rightarrow> g_status g \<noteq> PS_DRAFT
      | ORGANIZATION \<Rightarrow>
          (case g_organization_id g of None \<Rightarrow> False
           | Some i \<Rightarrow> (case live_by_id i (organizations d) of None \<Rightarrow> False
               | Some live_org \<Rightarrow> caller_org_id = Some (row_id live_org)))
      | INVITATION_ONLY \<Rightarrow> False)"

definition resolve_metrics_scope :: "evaluation_group \<Rightarrow> object_access_context \<Rightarrow> metrics_scope option" where
  "resolve_metrics_scope g access =
     (if access_has access EVALUATION_GROUPS_VIEW_METRICS then Some FULL
      else case (if g_status g = PS_INACTIVE then g_metrics_access_after g else g_metrics_access_during g) of
        INHERIT_GROUP_ACCESS \<Rightarrow> Some FULL
      | ALL_MEMBERS \<Rightarrow> if oc_is_member access then Some FULL else None
      | MEMBERS_PERSONAL_METRICS \<Rightarrow>
          if oc_is_member access \<and> access_has access EVALUATION_GROUPS_VIEW_PERSONAL_METRICS then Some PERSONAL else None
      | OWNER_ONLY \<Rightarrow> None)"

subsection \<open>Reads\<close>

record group_filters =
  gf_status :: "publication_status option"
  gf_accepts_evaluations :: "bool option"
  gf_access_level :: "evaluation_group_access_level option"
  gf_search :: "string option"

definition apply_evaluation_group_filters ::
  "(string \<Rightarrow> string option \<Rightarrow> bool) \<Rightarrow> group_filters \<Rightarrow> evaluation_group \<Rightarrow> bool" where
  "apply_evaluation_group_filters ilike f g \<longleftrightarrow>
     (case gf_status f of None \<Rightarrow> True | Some s \<Rightarrow> g_status g = s) \<and>
     (case gf_accepts_evaluations f of None \<Rightarrow> True
      | Some b \<Rightarrow> (g_status g \<in> set GROUP_STATUSES_ACCEPTING_EVALUATIONS) = b) \<and>
     (case gf_access_level f of None \<Rightarrow> True | Some l \<Rightarrow> g_access_level g = l) \<and>
     (case gf_search f of None \<Rightarrow> True | Some s \<Rightarrow> ilike s (g_title g) \<or> ilike s (g_description g))"

text \<open>\<open>list_evaluation_groups\<close>; \<open>order_key\<close> is the whitelisted column of the request, with the id as tie-break.\<close>

definition list_evaluation_groups ::
  "(string \<Rightarrow> string option \<Rightarrow> bool) \<Rightarrow> (evaluation_group \<Rightarrow> 'k::linorder) \<Rightarrow> db \<Rightarrow> uuid \<Rightarrow> bool \<Rightarrow> group_filters
     \<Rightarrow> nat \<Rightarrow> nat \<Rightarrow> evaluation_group list \<times> nat" where
  "list_evaluation_groups ilike order_key d caller_id show_all filters limit offset =
     (let rows = live_select (groups d);
          rows = (if show_all then rows else filter (group_visible_to d caller_id) rows);
          rows = filter (apply_evaluation_group_filters ilike filters) rows
      in paginate limit offset (sort_key order_key (sort_key row_id rows)))"

definition group_not_found :: "uuid \<Rightarrow> error" where
  "group_not_found group_id = NotFoundError (Msg ''Evaluation group {} not found.'' [AId group_id])"

definition get_evaluation_group :: "db \<Rightarrow> uuid \<Rightarrow> uuid \<Rightarrow> bool \<Rightarrow> evaluation_group result" where
  "get_evaluation_group d group_id caller_id can_manage =
     the_or (group_not_found group_id)
       (List.find (\<lambda>g. row_id g = group_id \<and> (can_manage \<or> group_visible_to d caller_id g)) (live_select (groups d)))"

record group_context =
  gc_group :: evaluation_group
  gc_access :: object_access_context
  gc_caller_org_id :: "uuid option"

definition resolve_group_context :: "db \<Rightarrow> session_user \<Rightarrow> uuid \<Rightarrow> group_context result" where
  "resolve_group_context d caller group_id =
     bindE (get_evaluation_group d group_id (su_id caller) True) (\<lambda>g.
     Inr \<lparr>gc_group = g,
          gc_access = resolve_object_access d caller EVALUATION_GROUP group_id,
          gc_caller_org_id = (if g_access_level g = ORGANIZATION
                              then caller_live_organization d (su_id caller) else None)\<rparr>)"

definition resolve_group_user_permissions :: "db \<Rightarrow> session_user \<Rightarrow> evaluation_group \<Rightarrow> string list" where
  "resolve_group_user_permissions d caller g =
     (let access = resolve_object_access d caller EVALUATION_GROUP (row_id g);
          permissions = effective_object_permissions access
      in py_sorted_set (if resolve_metrics_scope g access \<noteq> None
           then permission_value EVALUATION_GROUPS_VIEW_METRICS # permissions else permissions))"

subsection \<open>The write gate\<close>

definition assert_group_write_access ::
  "db \<Rightarrow> uuid \<Rightarrow> uuid \<Rightarrow> bool \<Rightarrow> permission \<Rightarrow> detail \<Rightarrow> unit result" where
  "assert_group_write_access d group_id caller_id can_manage p missing_message =
     (if can_manage then Inr ()
      else let held = held_roles d EVALUATION_GROUP group_id caller_id;
               granted = concat (map r_permissions (filter r_is_active held))
           in if held \<noteq> [] \<and> has_permission p granted then Inr ()
              else if List.find (\<lambda>g. row_id g = group_id \<and> group_visible_to d caller_id g) (live_select (groups d)) \<noteq> None
              then Inl (ForbiddenError (Msg ''Caller lacks the {} permission for this group.'' [AStr (permission_value p)]))
              else Inl (NotFoundError missing_message))"

subsection \<open>Route gates\<close>

definition gate_visible :: "db \<Rightarrow> group_context \<Rightarrow> session_user \<Rightarrow> bool" where
  "gate_visible d context caller =
     group_is_visible d (gc_group context) caller (oc_is_member (gc_access context)) (gc_caller_org_id context)"

definition require_global_read :: "session_user \<Rightarrow> unit result" where
  "require_global_read caller =
     ensure (has_permission EVALUATION_GROUPS_READ (su_permissions caller))
       (ForbiddenError (Msg ''Caller lacks the {} permission.'' [AStr (permission_value EVALUATION_GROUPS_READ)]))"

definition require_group_read :: "db \<Rightarrow> session_user \<Rightarrow> uuid \<Rightarrow> group_context result" where
  "require_group_read d caller group_id =
     bindE (require_global_read caller) (\<lambda>_.
     bindE (resolve_group_context d caller group_id) (\<lambda>context.
     bindE (ensure (gate_visible d context caller) (group_not_found group_id)) (\<lambda>_.
     Inr context)))"

definition require_group_permission :: "permission \<Rightarrow> db \<Rightarrow> session_user \<Rightarrow> uuid \<Rightarrow> group_context result" where
  "require_group_permission p d caller group_id =
     bindE (resolve_group_context d caller group_id) (\<lambda>context.
     bindE (ensure (gate_visible d context caller) (group_not_found group_id)) (\<lambda>_.
     bindE (ensure (access_has (gc_access context) p)
       (ForbiddenError (Msg ''Caller lacks the {} permission for this group.'' [AStr (permission_value p)]))) (\<lambda>_.
     Inr context)))"

text \<open>\<open>require_object_or_global\<close>; \<open>lookup\<close> is the group the request names, if any.\<close>

definition require_object_or_global :: "permission \<Rightarrow> db \<Rightarrow> session_user \<Rightarrow> uuid option \<Rightarrow> session_user result" where
  "require_object_or_global p d caller lookup =
     (if has_permission p (su_permissions caller) then Inr caller
      else bindE (assert_object_permission d caller EVALUATION_GROUP lookup p) (\<lambda>_. Inr caller))"

record group_metrics_view =
  gv_context :: group_context
  gv_viewer_id :: "uuid option"
  gv_full_model_access :: bool

definition require_group_metrics_access :: "db \<Rightarrow> session_user \<Rightarrow> uuid \<Rightarrow> group_metrics_view result" where
  "require_group_metrics_access d caller group_id =
     bindE (require_global_read caller) (\<lambda>_.
     bindE (resolve_group_context d caller group_id) (\<lambda>context.
     bindE (ensure (gate_visible d context caller) (group_not_found group_id)) (\<lambda>_.
     bindE (the_or (ForbiddenError (Msg ''Caller lacks metrics access for this group.'' []))
       (resolve_metrics_scope (gc_group context) (gc_access context))) (\<lambda>scope.
     Inr \<lparr>gv_context = context,
          gv_viewer_id = (if scope = PERSONAL then Some (su_id caller) else None),
          gv_full_model_access = access_has (gc_access context) EVALUATION_GROUPS_VIEW_METRICS\<rparr>))))"

record evaluation_metrics_view =
  ev_evaluation :: evaluation
  ev_context :: group_context
  ev_viewer_id :: "uuid option"
  ev_mask_model_names :: bool

definition require_evaluation_metrics :: "db \<Rightarrow> session_user \<Rightarrow> uuid \<Rightarrow> evaluation_metrics_view result" where
  "require_evaluation_metrics d caller evaluation_id =
     (let missing = NotFoundError (Msg ''Evaluation {} not found.'' [AId evaluation_id]) in
      bindE (require_global_read caller) (\<lambda>_.
      bindE (the_or missing (live_by_id evaluation_id (evaluations d))) (\<lambda>e.
      bindE (resolve_group_context d caller (e_evaluation_group_id e)) (\<lambda>context.
      bindE (ensure (gate_visible d context caller) missing) (\<lambda>_.
      bindE (the_or (ForbiddenError (Msg ''Caller lacks metrics access for this evaluation.'' []))
        (resolve_metrics_scope (gc_group context) (gc_access context))) (\<lambda>scope.
      Inr \<lparr>ev_evaluation = e, ev_context = context,
           ev_viewer_id = (if scope = PERSONAL then Some (su_id caller) else None),
           ev_mask_model_names = (e_mask_models_enabled e \<and>
             \<not> access_has (gc_access context) EVALUATION_GROUPS_VIEW_METRICS)\<rparr>))))))"

subsection \<open>The two visibility rules agree\<close>

lemma caller_live_organization_live:
  "caller_live_organization d c = Some i \<Longrightarrow> \<exists>x. live_by_id i (organizations d) = Some x \<and> row_id x = i"
  by (auto simp: caller_live_organization_def split: option.splits dest: live_by_id_SomeD)

lemma org_arm:
  "(case g_organization_id g of None \<Rightarrow> False
    | Some i \<Rightarrow> (case live_by_id i (organizations d) of None \<Rightarrow> False
        | Some live_org \<Rightarrow> caller_live_organization d c = Some (row_id live_org))) \<longleftrightarrow>
   (case (g_organization_id g, caller_live_organization d c) of (Some i, Some j) \<Rightarrow> i = j | _ \<Rightarrow> False)"
  by (auto split: option.splits dest!: caller_live_organization_live dest: live_by_id_SomeD)

lemma get_evaluation_group_Inr:
  "get_evaluation_group d i c m = Inr g \<Longrightarrow>
     g \<in> set (live_select (groups d)) \<and> row_id g = i \<and> (m \<or> group_visible_to d c g)"
  by (auto simp: get_evaluation_group_def dest!: find_SomeD)

lemma get_evaluation_group_Inl:
  "get_evaluation_group d i c m = Inl e \<longleftrightarrow>
     e = group_not_found i \<and>
     (\<forall>g\<in>set (live_select (groups d)). row_id g = i \<longrightarrow> \<not> m \<and> \<not> group_visible_to d c g)"
  by (auto simp: get_evaluation_group_def find_None_iff_all)

lemma resolve_group_context_Inr:
  assumes "resolve_group_context d caller i = Inr ctx"
  shows "gc_group ctx \<in> set (live_select (groups d))" "row_id (gc_group ctx) = i"
    and "gc_access ctx = resolve_object_access d caller EVALUATION_GROUP i"
    and "gc_caller_org_id ctx = (if g_access_level (gc_group ctx) = ORGANIZATION
           then caller_live_organization d (su_id caller) else None)"
  using assms by (auto simp: resolve_group_context_def svc_simps dest!: get_evaluation_group_Inr)

lemma held_roles_member: "held_roles d EVALUATION_GROUP i u \<noteq> [] \<Longrightarrow> has_live_assignment d i u"
  by (auto simp: has_live_assignment_def held_roles_def List.map_filter_simps)

lemma gate_visible_iff:
  assumes ctx: "resolve_group_context d caller i = Inr ctx" and m: "\<not> caller_can_manage_groups caller"
  shows "gate_visible d ctx caller \<longleftrightarrow>
     (g_access_level (gc_group ctx) = PUBLIC \<and> g_status (gc_group ctx) \<noteq> PS_DRAFT) \<or>
     held_roles d EVALUATION_GROUP i (su_id caller) \<noteq> [] \<or>
     (g_access_level (gc_group ctx) = ORGANIZATION \<and>
        (case (g_organization_id (gc_group ctx), caller_live_organization d (su_id caller)) of
           (Some i, Some j) \<Rightarrow> i = j | _ \<Rightarrow> False))"
  using m org_arm [where g = "gc_group ctx" and d = d and c = "su_id caller"]
  by (simp add: gate_visible_def group_is_visible_def caller_can_manage_groups_def resolve_object_access_def Let_def
      resolve_group_context_Inr(3,4) [OF ctx] split: evaluation_group_access_level.splits)


text \<open>a group the caller cannot see is indistinguishable from one that does not exist.  The read,
  the read gate, the object-permission gate and the metrics gate all answer as they would on a
  database from which the group was erased.\<close>

lemma invisible_group_reads_as_missing:
  assumes "\<not> caller_can_manage_groups caller"
    and "\<forall>g\<in>set (live_select (groups d)). row_id g = i \<longrightarrow> \<not> group_visible_to d (su_id caller) g"
    and "d0 = d\<lparr>groups := filter (\<lambda>g. row_id g \<noteq> i) (groups d)\<rparr>"
  shows "get_evaluation_group d i (su_id caller) False = get_evaluation_group d0 i (su_id caller) False \<and>
         require_group_read d caller i = require_group_read d0 caller i \<and>
         require_group_permission p d caller i = require_group_permission p d0 caller i \<and>
         require_group_metrics_access d caller i = require_group_metrics_access d0 caller i"
proof -
  have none: "get_evaluation_group d0 i c m = Inl (group_not_found i)" for c m
    by (simp add: get_evaluation_group_Inl assms(3))
  have get: "get_evaluation_group d i (su_id caller) False = Inl (group_not_found i)"
    using assms(2) by (simp add: get_evaluation_group_Inl)
  have ctx0: "resolve_group_context d0 caller i = Inl (group_not_found i)"
    by (simp add: resolve_group_context_def none)
  have gate: "resolve_group_context d caller i = Inl (group_not_found i) \<or>
      (\<exists>ctx. resolve_group_context d caller i = Inr ctx \<and> \<not> gate_visible d ctx caller)"
  proof (cases "resolve_group_context d caller i")
    case (Inl e)
    then show ?thesis by (auto simp: resolve_group_context_def svc_simps get_evaluation_group_Inl)
  next
    case (Inr ctx)
    have "\<not> group_visible_to d (su_id caller) (gc_group ctx)"
      using assms(2) resolve_group_context_Inr(1,2) [OF Inr] by blast
    then have "\<not> gate_visible d ctx caller"
      using held_roles_member [of d i "su_id caller"] resolve_group_context_Inr(2) [OF Inr]
      unfolding gate_visible_iff [OF Inr assms(1)] group_visible_to_def by blast
    then show ?thesis using Inr by blast
  qed
  have "bindE (resolve_group_context d caller i) (\<lambda>context. bindE (ensure (gate_visible d context caller) (group_not_found i)) (\<lambda>_. k context)) =
      Inl (group_not_found i)" for k :: "group_context \<Rightarrow> group_context result"
    using gate by auto
  moreover have "bindE (resolve_group_context d caller i) (\<lambda>context. bindE (ensure (gate_visible d context caller) (group_not_found i)) (\<lambda>_. k context)) =
      Inl (group_not_found i)" for k :: "group_context \<Rightarrow> group_metrics_view result"
    using gate by auto
  ultimately show ?thesis
    by (simp add: none get ctx0 require_group_read_def require_group_permission_def require_group_metrics_access_def)
qed


text \<open>the console's metrics key is honest.  For a group the caller may read, the permission list of
  the group detail carries \<open>evaluation_groups:view_metrics\<close> exactly when the metrics endpoint answers,
  and the endpoint narrows the dashboards to the caller's own data exactly when the granted scope is
  personal.\<close>

lemma metrics_key_iff_metrics_access:
  assumes "require_group_read d caller i = Inr ctx"
  shows "(permission_value EVALUATION_GROUPS_VIEW_METRICS \<in> set (resolve_group_user_permissions d caller (gc_group ctx))
            \<longleftrightarrow> (\<exists>v. require_group_metrics_access d caller i = Inr v)) \<and>
         (\<forall>v. require_group_metrics_access d caller i = Inr v \<longrightarrow>
            gv_viewer_id v = (if resolve_metrics_scope (gc_group ctx) (gc_access ctx) = Some PERSONAL
                              then Some (su_id caller) else None))"
proof -
  from assms have g: "require_global_read caller = Inr ()" "resolve_group_context d caller i = Inr ctx" "gate_visible d ctx caller"
    by (auto simp: require_group_read_def svc_simps)
  have acc: "resolve_object_access d caller EVALUATION_GROUP (row_id (gc_group ctx)) = gc_access ctx"
    using resolve_group_context_Inr(2,3) [OF g(2)] by simp
  have "permission_value EVALUATION_GROUPS_VIEW_METRICS \<in> set (effective_object_permissions (gc_access ctx)) \<Longrightarrow>
      resolve_metrics_scope (gc_group ctx) (gc_access ctx) \<noteq> None"
    by (auto simp: effective_object_permissions_def resolve_metrics_scope_def access_has_def has_permission_def
        split: if_splits)
  then have "permission_value EVALUATION_GROUPS_VIEW_METRICS \<in> set (resolve_group_user_permissions d caller (gc_group ctx))
      \<longleftrightarrow> resolve_metrics_scope (gc_group ctx) (gc_access ctx) \<noteq> None"
    by (auto simp: resolve_group_user_permissions_def acc Let_def)
  then show ?thesis using g by (auto simp: require_group_metrics_access_def svc_simps)
qed

end
