(* ===== verification/Demo.thy ===== *)
theory Demo
  imports Role_Guards Role_Sync Group_Access
begin

section \<open>A small database\<close>

text \<open>
  A concrete database the examples of the later theories evaluate: three accounts (1 \<open>alice\<close>, an
  admin; 2 \<open>bob\<close>, a red teamer; 3 \<open>carol\<close>, who also holds a custom role), the system roles owner and
  red teamer, a custom \<open>auditor\<close> role, one organization, and one published organization group that
  \<open>alice\<close> owns and \<open>bob\<close> takes part in.
\<close>

definition mk_user :: "uuid \<Rightarrow> string \<Rightarrow> uuid option \<Rightarrow> user" where
  "mk_user i email org = \<lparr>row_id = i, created_at = 0, deleted_at = None, deleted_by_id = None, u_email = email,
     u_email_verified_at = None, u_first_name = None, u_last_name = None, u_password = None,
     u_organization_id = org, u_status = USER_ACTIVE, u_consent_emails = False,
     u_password_cleared_at = None, u_accepted_terms_id = None, u_terms_accepted_at = None\<rparr>"

definition mk_role :: "uuid \<Rightarrow> string \<Rightarrow> permission list \<Rightarrow> bool \<Rightarrow> bool \<Rightarrow> bool \<Rightarrow> role" where
  "mk_role i name ps is_system is_default assignable = \<lparr>row_id = i, created_at = 0, deleted_at = None,
     deleted_by_id = None, r_name = name, r_display_name = None, r_description = None,
     r_permissions = map permission_value ps, r_is_system = is_system, r_is_active = True, r_is_default = is_default,
     r_is_participant_default = is_default, r_is_object_assignable = assignable\<rparr>"

definition mk_assignment :: "uuid \<Rightarrow> uuid \<Rightarrow> uuid \<Rightarrow> uuid \<Rightarrow> object_role_assignment" where
  "mk_assignment i g u r = \<lparr>row_id = i, created_at = 0, deleted_at = None, deleted_by_id = None,
     a_object_type = EVALUATION_GROUP, a_object_id = g, a_user_id = u, a_role_id = r\<rparr>"

definition mk_group :: "uuid \<Rightarrow> uuid \<Rightarrow> publication_status \<Rightarrow> evaluation_group_access_level \<Rightarrow> uuid option \<Rightarrow> evaluation_group" where
  "mk_group i creator status level org = \<lparr>row_id = i, created_at = 0, deleted_at = None, deleted_by_id = None,
     g_title = Some ''Spring'', g_description = Some ''A challenge'', g_created_by_id = creator, g_status = status,
     g_rejection_reason = None, g_access_level = level, g_metrics_access_during = MEMBERS_PERSONAL_METRICS,
     g_metrics_access_after = MEMBERS_PERSONAL_METRICS, g_organization_id = org, g_start_date = Some 2,
     g_end_date = None, g_data_license_id = None\<rparr>"

definition alice :: user where "alice = mk_user 1 ''alice'' (Some 30)"
definition bob :: user where "bob = mk_user 2 ''bob'' None"
definition carol :: user where "carol = mk_user 3 ''carol'' None"

definition admin_role :: role where "admin_role = mk_role 10 ''admin'' [ROLES_MANAGE, USERS_MANAGE_ADMIN] True False False"
definition owner_role :: role where
  "owner_role = mk_role 11 ''owner'' [EVALUATION_GROUPS_READ, EVALUATION_GROUPS_UPDATE, EVALUATION_GROUPS_VIEW_METRICS] True False True"
definition red_teamer_role :: role where
  "red_teamer_role = mk_role 12 ''red_teamer'' [EVALUATION_GROUPS_READ, EVALUATION_GROUPS_VIEW_PERSONAL_METRICS] True True True"
definition auditor_role :: role where "auditor_role = mk_role 13 ''auditor'' [AUDIT_READ] False False False"

definition demo_org :: organization where
  "demo_org = \<lparr>row_id = 30, created_at = 0, deleted_at = None, deleted_by_id = None, o_name = ''Acme''\<rparr>"

definition demo_group :: evaluation_group where
  "demo_group = mk_group 20 1 PS_PUBLISHED ORGANIZATION (Some 30)"

definition demo :: db where
  "demo = empty_db\<lparr>users := [alice, bob, carol], roles := [admin_role, owner_role, red_teamer_role, auditor_role],
     user_roles := [(1, 10), (2, 12), (3, 12), (3, 13)], organizations := [demo_org],
     assignments := [mk_assignment 40 20 1 11, mk_assignment 41 20 2 12], groups := [demo_group],
     next_id := 100, now := 86400\<rparr>"

definition caller_of :: "uuid \<Rightarrow> permission list \<Rightarrow> session_user" where
  "caller_of i ps = \<lparr>su_id = i, su_permissions = map permission_value ps, su_email = ''caller'', su_email_verified = True,
     su_first_name = None, su_last_name = None, su_provider = ''local'', su_auth_time = None, su_issued_at = None\<rparr>"

lemma Inr_of_not_isl: "\<not> isl x \<Longrightarrow> x = Inr (projr x)"
  by (cases x) auto

lemma Inr_pair_of_not_isl: "\<not> isl x \<Longrightarrow> x = Inr (fst (projr x), snd (projr x))"
  by (cases x) auto

lemma demo_role_inv: "role_inv demo"
  by code_simp

lemma demo_holdings_unique: "holdings_unique demo"
  by code_simp

end
