(* ===== verification/Witnesses.thy ===== *)
theory Witnesses
  imports Demo
begin

section \<open>The properties at work on the small database\<close>

text \<open>
  For each property with hypotheses, one concrete situation in which they hold, evaluated on the
  database of \<open>Demo\<close>, with what the property says there.
\<close>

subsection \<open>Accounts and object roles\<close>

definition w_changes :: user_update_changes where
  "w_changes = \<lparr>uc_first_name = None, uc_last_name = None, uc_roles = Some [auditor_role], uc_consent_emails = None\<rparr>"

theorem update_user_keeps_elevated_roles_witness:
  "admin_role \<in> set (user_live_roles (snd (projr (update_user demo bob w_changes))) 1)"
proof -
  let ?caller = "caller_of 3 [USERS_UPDATE]"
  have h1: "\<not> has_permission USERS_MANAGE_ADMIN (su_permissions ?caller)" by code_simp
  have h2: "resolve_assignable_roles demo ?caller [13] (user_live_roles demo (row_id bob)) = Inr [auditor_role]" by code_simp
  have h3: "update_user demo bob w_changes =
      Inr (fst (projr (update_user demo bob w_changes)), snd (projr (update_user demo bob w_changes)))"
    by (rule Inr_pair_of_not_isl) code_simp
  have h4: "uc_roles w_changes = Some [auditor_role]" by (simp add: w_changes_def)
  have h5: "distinct (map row_id (roles demo))" by code_simp
  have h6: "r_name admin_role = ''admin'' \<or> r_name admin_role = ''owner''" by code_simp
  have "admin_role \<in> set (user_live_roles demo 1)" by code_simp
  with update_user_keeps_elevated_roles [OF h1 h2 h3 h4 h5 h6, of 1] show ?thesis by blast
qed

definition w_members :: db where
  "w_members = projr (remove_member demo EVALUATION_GROUP 20 2 1)"

theorem members_never_orphan_object_witness: "protected_held w_members EVALUATION_GROUP 20"
proof -
  have "remove_member demo EVALUATION_GROUP 20 2 1 = Inr w_members"
    unfolding w_members_def by (rule Inr_of_not_isl) code_simp
  then have "member_step demo w_members" by (rule member_step.remove)
  then have "member_step\<^sup>*\<^sup>* demo w_members" by (rule r_into_rtranclp)
  moreover have "protected_held demo EVALUATION_GROUP 20" by code_simp
  ultimately show ?thesis by (rule members_never_orphan_object)
qed

theorem set_member_roles_exact_witness:
  "set (filter r_is_active (held_roles (snd (projr (set_member_roles demo EVALUATION_GROUP 20 bob [owner_role] 1)))
     EVALUATION_GROUP 20 2)) = {owner_role}"
proof -
  let ?s = "set_member_roles demo EVALUATION_GROUP 20 bob [owner_role] 1"
  have h1: "distinct (map row_id (roles demo))" by code_simp
  have h2: "\<forall>r\<in>set [owner_role]. r \<in> set (roles demo) \<and> deleted_at r = None \<and> r_is_active r" by code_simp
  have h3: "?s = Inr (fst (projr ?s), snd (projr ?s))" by (rule Inr_pair_of_not_isl) code_simp
  have "row_id bob = 2" by code_simp
  with set_member_roles_exact [OF h1 h2 h3] show ?thesis by simp
qed

lemma soft_delete_user_keeps_protected_example:
  "protected_held (snd (soft_delete_user demo bob 1)) EVALUATION_GROUP 20"
proof -
  have "objects_solely_held_by demo (row_id bob) = []" by code_simp
  moreover have "protected_held demo EVALUATION_GROUP 20" by code_simp
  ultimately show ?thesis by (rule soft_delete_user_keeps_protected)
qed

subsection \<open>The role catalog\<close>

definition w_catalog :: db where
  "w_catalog = snd (projr (create_role demo ''helper'' ''Helper'' None [''audit:read'']))"

lemma w_catalog_reached: "role_step\<^sup>*\<^sup>* demo w_catalog"
proof -
  let ?c = "create_role demo ''helper'' ''Helper'' None [''audit:read'']"
  have "?c = Inr (fst (projr ?c), w_catalog)"
    unfolding w_catalog_def by (rule Inr_pair_of_not_isl) code_simp
  then have "role_step demo w_catalog" by (intro role_step.operator operator_step.create)
  then show ?thesis by (rule r_into_rtranclp)
qed

theorem custom_roles_never_elevated_witness: "\<not> has_permission USERS_UPDATE (r_permissions auditor_role)"
proof (rule custom_roles_never_elevated [OF w_catalog_reached demo_role_inv])
  show "auditor_role \<in> set (roles w_catalog)" unfolding w_catalog_def by code_simp
  show "\<not> r_is_system auditor_role" by code_simp
qed simp

theorem default_roles_sound_witness: "r_is_active red_teamer_role \<and> \<not> is_privileged_system_role red_teamer_role"
proof -
  have "red_teamer_role \<in> set (live_select (roles w_catalog))" unfolding w_catalog_def by code_simp
  moreover have "r_is_default red_teamer_role \<or> r_is_participant_default red_teamer_role" by code_simp
  ultimately show ?thesis
    using default_roles_sound [OF w_catalog_reached demo_role_inv] by blast
qed

definition w_deleted :: db where "w_deleted = projr (delete_role demo auditor_role 1)"

lemma w_deleted_eq: "delete_role demo auditor_role 1 = Inr w_deleted"
  unfolding w_deleted_def by (rule Inr_of_not_isl) code_simp

theorem withdrawing_role_strands_nobody_witness: "user_has_active_role w_deleted 3"
proof -
  have g: "get_role demo 13 = Inr auditor_role" by code_simp
  have l: "is_live_user demo 3" by code_simp
  have "user_has_active_role demo 3" by code_simp
  then show ?thesis
    using withdrawing_role_strands_nobody [OF demo_role_inv demo_holdings_unique g disjI1 [OF w_deleted_eq] l] by blast
qed

theorem lost_permission_revokes_sessions_witness: "revoked w_deleted 3 = Some 86400"
proof -
  have g: "get_role demo 13 = Inr auditor_role" by code_simp
  have s: "operator_step demo w_deleted" using g w_deleted_eq by (rule operator_step.delete)
  have l: "is_live_user demo 3" by code_simp
  have p: "''audit:read'' \<in> set (user_permissions demo 3)" by code_simp
  have n: "''audit:read'' \<notin> set (user_permissions w_deleted 3)" unfolding w_deleted_def by code_simp
  have "now demo = 86400" by code_simp
  then show ?thesis using lost_permission_revokes_sessions [OF demo_role_inv s l p n] by simp
qed

definition w_synced :: db where "w_synced = projr (sync_system_roles demo)"

theorem sync_system_roles_projects_witness: "synced w_synced VIEWER \<and> auditor_role \<in> set (roles w_synced)"
proof -
  have "sync_system_roles demo = Inr w_synced"
    unfolding w_synced_def by (rule Inr_of_not_isl) code_simp
  moreover have "auditor_role \<in> set (roles demo)" "\<not> r_is_system auditor_role" by code_simp+
  ultimately show ?thesis using sync_system_roles_projects [OF demo_role_inv] by blast
qed

subsection \<open>Visibility\<close>

definition w_bob :: session_user where "w_bob = caller_of 2 [EVALUATION_GROUPS_READ]"
definition w_carol :: session_user where "w_carol = caller_of 3 [EVALUATION_GROUPS_READ]"


lemma invisible_group_reads_as_missing_example:
  "require_group_read demo w_carol 20 =
     require_group_read (demo\<lparr>groups := filter (\<lambda>g. row_id g \<noteq> 20) (groups demo)\<rparr>) w_carol 20"
proof -
  have h1: "\<not> caller_can_manage_groups w_carol" by code_simp
  have h2: "\<forall>g\<in>set (live_select (groups demo)). row_id g = 20 \<longrightarrow> \<not> group_visible_to demo (su_id w_carol) g" by code_simp
  show ?thesis using invisible_group_reads_as_missing [OF h1 h2 refl] by blast
qed

lemma metrics_key_iff_metrics_access_example:
  "permission_value EVALUATION_GROUPS_VIEW_METRICS \<in>
     set (resolve_group_user_permissions demo w_bob (gc_group (projr (require_group_read demo w_bob 20))))"
proof -
  have h: "require_group_read demo w_bob 20 = Inr (projr (require_group_read demo w_bob 20))"
    by (rule Inr_of_not_isl) code_simp
  have "require_group_metrics_access demo w_bob 20 = Inr (projr (require_group_metrics_access demo w_bob 20))"
    by (rule Inr_of_not_isl) code_simp
  then show ?thesis using metrics_key_iff_metrics_access [OF h] by blast
qed

end
