(* ===== verification/Group_Models.thy ===== *)
theory Group_Models
  imports Db
begin

section \<open>A group's allowed models\<close>

text \<open>
  \<open>app/core/evaluations/services/group_models.py\<close>: the subset of models the evaluations of a group may be
  assigned.  \<open>allowed_models d gid\<close> are the live subset rows, \<open>assigned_models d gid\<close> the models assigned to
  the live evaluations of the group; that the second stays inside the first is \<open>subset_inv\<close>.
\<close>

definition allowed_rows :: "db \<Rightarrow> uuid \<Rightarrow> evaluation_group_ai_model list" where
  "allowed_rows d group_id = filter (\<lambda>r. gm_evaluation_group_id r = group_id) (live_select (group_models d))"

definition live_model :: "db \<Rightarrow> uuid \<Rightarrow> bool" where
  "live_model d model_id \<longleftrightarrow> live_by_id model_id (ai_models d) \<noteq> None"

definition model_used_by_group_evaluations :: "db \<Rightarrow> uuid \<Rightarrow> uuid \<Rightarrow> bool" where
  "model_used_by_group_evaluations d group_id model_id \<longleftrightarrow>
     (\<exists>a\<in>set (live_select (eval_models d)). em_model_id a = model_id \<and>
        (\<exists>e\<in>set (live_select (evaluations d)). row_id e = em_evaluation_id a \<and> e_evaluation_group_id e = group_id))"

definition assert_models_live :: "db \<Rightarrow> uuid list \<Rightarrow> unit result" where
  "assert_models_live d model_ids =
     (let missing = py_sorted_set (filter (\<lambda>i. \<not> live_model d i) model_ids) in
      ensure (missing = [])
        (BadRequestError (Msg ''allowed_model_ids contains unknown model id(s): {}.'' [AIds missing])))"

text \<open>The rows a replacement adds, one per model that was not in the subset.\<close>

fun add_group_models :: "db \<Rightarrow> uuid \<Rightarrow> uuid list \<Rightarrow> db" where
  "add_group_models d group_id [] = d"
| "add_group_models d group_id (m # ms) =
     add_group_models (d\<lparr>group_models := group_models d @
        [\<lparr>row_id = next_id d, created_at = now d, deleted_at = None, deleted_by_id = None,
          gm_evaluation_group_id = group_id, gm_model_id = m\<rparr>], next_id := Suc (next_id d)\<rparr>) group_id ms"

definition sync_group_models :: "db \<Rightarrow> uuid \<Rightarrow> uuid list \<Rightarrow> uuid \<Rightarrow> ((uuid list \<times> uuid list) \<times> db) result" where
  "sync_group_models d group_id model_ids by_id =
     bindE (assert_models_live d model_ids) (\<lambda>_.
     let target = py_sorted_set model_ids;
         current_rows = allowed_rows d group_id;
         previous = py_sorted_set (map gm_model_id current_rows);
         removed = filter (\<lambda>r. gm_model_id r \<notin> set target) current_rows
     in bindE (ensure (\<forall>r\<in>set removed. \<not> model_used_by_group_evaluations d group_id (gm_model_id r))
          (ConflictError (Msg ''Cannot remove a model that is assigned to an evaluation in this group.'' []))) (\<lambda>_.
        let d1 = d\<lparr>group_models := soft_delete_rows (now d) (Some by_id) removed (group_models d)\<rparr> in
        Inr ((previous, target), add_group_models d1 group_id (filter (\<lambda>m. m \<notin> set previous) target))))"

definition unassign_group_models_for_model :: "db \<Rightarrow> uuid \<Rightarrow> uuid \<Rightarrow> nat \<times> db" where
  "unassign_group_models_for_model d model_id by_id =
     (length (filter (\<lambda>r. gm_model_id r = model_id) (live_select (group_models d))),
      d\<lparr>group_models := live_update (\<lambda>r. gm_model_id r = model_id) (soft_delete (now d) (Some by_id)) (group_models d)\<rparr>)"

definition assert_model_assignable_to_group :: "db \<Rightarrow> uuid \<Rightarrow> uuid \<Rightarrow> unit result" where
  "assert_model_assignable_to_group d group_id model_id =
     (let rows = allowed_rows d group_id in
      bindE (ensure (rows \<noteq> []) (BadRequestError (Msg ''The evaluation group has no allowed models configured.'' []))) (\<lambda>_.
      ensure (\<exists>r\<in>set rows. gm_model_id r = model_id)
        (BadRequestError (Msg ''Model is not in the evaluation group allowed-model subset.'' []))))"

definition assignable_model_conditions :: "db \<Rightarrow> evaluation \<Rightarrow> ai_model \<Rightarrow> bool" where
  "assignable_model_conditions d e m \<longleftrightarrow>
     row_id m \<in> set (map gm_model_id (allowed_rows d (e_evaluation_group_id e))) \<and>
     row_id m \<notin> set (map em_model_id (filter (\<lambda>a. em_evaluation_id a = row_id e) (live_select (eval_models d))))"

subsection \<open>The subset as a set\<close>

definition allowed_models :: "db \<Rightarrow> uuid \<Rightarrow> uuid set" where
  "allowed_models d group_id = gm_model_id ` set (allowed_rows d group_id)"

definition assigned_models :: "db \<Rightarrow> uuid \<Rightarrow> uuid set" where
  "assigned_models d group_id = {m. model_used_by_group_evaluations d group_id m}"

definition subset_inv :: "db \<Rightarrow> bool" where
  "subset_inv d \<longleftrightarrow> (\<forall>group_id. assigned_models d group_id \<subseteq> allowed_models d group_id)"

lemma in_allowed_models:
  "m \<in> allowed_models d g \<longleftrightarrow>
     (\<exists>r\<in>set (group_models d). deleted_at r = None \<and> gm_evaluation_group_id r = g \<and> gm_model_id r = m)"
  by (auto simp: allowed_models_def allowed_rows_def)

lemma add_group_models_frame:
  "evaluations (add_group_models d g ms) = evaluations d" "eval_models (add_group_models d g ms) = eval_models d"
  "groups (add_group_models d g ms) = groups d" "assignments (add_group_models d g ms) = assignments d"
  "roles (add_group_models d g ms) = roles d" "users (add_group_models d g ms) = users d"
  by (induction d g ms rule: add_group_models.induct) simp_all

lemma allowed_models_add:
  "allowed_models (add_group_models d g ms) g' = allowed_models d g' \<union> (if g' = g then set ms else {})"
  by (induction d g ms rule: add_group_models.induct) (auto simp: in_allowed_models)

lemma assigned_models_cong:
  "evaluations d' = evaluations d \<Longrightarrow> eval_models d' = eval_models d \<Longrightarrow> assigned_models d' = assigned_models d"
  by (simp add: assigned_models_def model_used_by_group_evaluations_def fun_eq_iff)

lemma sync_group_models_Inr:
  assumes "sync_group_models d g ms by_id = Inr (pc, d')"
  shows "evaluations d' = evaluations d" "eval_models d' = eval_models d" "groups d' = groups d"
    "assignments d' = assignments d" "roles d' = roles d" "users d' = users d"
    and "\<forall>m\<in>set ms. live_model d m"
    and "assigned_models d g \<inter> allowed_models d g \<subseteq> set ms"
    and "allowed_models d' g' = (if g' = g then set ms else allowed_models d g')"
proof -
  let ?removed = "filter (\<lambda>r. gm_model_id r \<notin> set (py_sorted_set ms)) (allowed_rows d g)"
  let ?d1 = "d\<lparr>group_models := soft_delete_rows (now d) (Some by_id) ?removed (group_models d)\<rparr>"
  from assms have d': "d' = add_group_models ?d1 g
      (filter (\<lambda>m. m \<notin> set (py_sorted_set (map gm_model_id (allowed_rows d g)))) (py_sorted_set ms))"
    and used: "\<forall>r\<in>set ?removed. \<not> model_used_by_group_evaluations d g (gm_model_id r)"
    and live: "\<forall>m\<in>set ms. live_model d m"
    by (auto simp: sync_group_models_def Let_def svc_simps assert_models_live_def filter_empty_conv)
  show "evaluations d' = evaluations d" "eval_models d' = eval_models d" "groups d' = groups d"
    "assignments d' = assignments d" "roles d' = roles d" "users d' = users d"
    by (simp_all add: d' add_group_models_frame)
  show "\<forall>m\<in>set ms. live_model d m" using live .
  show "assigned_models d g \<inter> allowed_models d g \<subseteq> set ms"
    using used by (auto simp: assigned_models_def allowed_models_def)
  have "allowed_models ?d1 g' = (if g' = g then allowed_models d g \<inter> set ms else allowed_models d g')"
    by (auto simp: in_allowed_models live_soft_delete_rows allowed_rows_def) (auto simp: live_soft_delete_rows)
  then show "allowed_models d' g' = (if g' = g then set ms else allowed_models d g')"
    by (auto simp: d' allowed_models_add) (auto simp: allowed_models_def)
qed

lemma sync_group_models_subset:
  assumes "sync_group_models d g ms by_id = Inr (pc, d')" "subset_inv d"
  shows "subset_inv d'"
  using assms(2) sync_group_models_Inr [OF assms(1)]
  unfolding subset_inv_def assigned_models_cong [OF sync_group_models_Inr(1,2) [OF assms(1)]]
  by (metis Int_absorb2)

text \<open>Replacing a group's allowed models is exact and safe.  On success the subset is the requested
  set, every model in it is live, the subset of every other group is untouched, and no model still
  assigned to a live evaluation of the group has left it.\<close>

lemma sync_group_models_exact:
  assumes "sync_group_models d g ms by_id = Inr (pc, d')"
  shows "allowed_models d' g = set ms \<and> (\<forall>m\<in>set ms. live_model d m) \<and>
         (\<forall>g'. g' \<noteq> g \<longrightarrow> allowed_models d' g' = allowed_models d g') \<and>
         (\<forall>m. model_used_by_group_evaluations d g m \<and> m \<in> allowed_models d g \<longrightarrow> m \<in> allowed_models d' g)"
proof -
  have "assigned_models d g \<inter> allowed_models d g \<subseteq> set ms" using sync_group_models_Inr(8) [OF assms] .
  then show ?thesis
    using sync_group_models_Inr(7,9) [OF assms] by (auto simp: assigned_models_def)
qed

end
