(* ===== verification/Licenses.thy ===== *)
theory Licenses
  imports Db
begin

section \<open>Data licenses\<close>

text \<open>
  \<open>app/core/licenses/service.py\<close> and \<open>catalog.py\<close>: the license rows, who may edit them, the resync of
  the curated catalog, and the inheritance rule \<open>effective_license\<close>.  \<open>cid\<close> is \<open>curated_license_id\<close>, the
  deterministic row id of a catalog key (a name-based UUID); the theorems only assume it injective on
  the catalog.  The catalog itself (\<open>CURATED_LICENSES\<close>, reference data) is an argument.
\<close>

record curated_license =
  cl_spdx_id :: string
  cl_name :: string
  cl_short_description :: string
  cl_version :: "string option"
  cl_reference_url :: "string option"
  cl_content :: string
  cl_publishes_spdx :: bool
  cl_protects_conversation_data :: bool

definition NO_LICENSE_SPDX_ID :: string where
  "NO_LICENSE_SPDX_ID = ''NONE''"

definition is_curated_spdx :: "curated_license list \<Rightarrow> string \<Rightarrow> bool" where
  "is_curated_spdx catalog spdx_id \<longleftrightarrow> spdx_id \<in> set (map cl_spdx_id catalog)"

definition curated_ships_content :: "(string \<Rightarrow> uuid) \<Rightarrow> curated_license list \<Rightarrow> uuid \<Rightarrow> bool" where
  "curated_ships_content cid catalog license_id =
     (case List.find (\<lambda>c. cid (cl_spdx_id c) = license_id) (rev catalog) of None \<Rightarrow> False
      | Some entry \<Rightarrow> cl_content entry \<noteq> '''')"

definition is_selectable_platform_default :: "curated_license list \<Rightarrow> string \<Rightarrow> bool" where
  "is_selectable_platform_default catalog spdx_id \<longleftrightarrow>
     is_curated_spdx catalog spdx_id \<and> spdx_id \<noteq> NO_LICENSE_SPDX_ID"

fun effective_license :: "'a option list \<Rightarrow> 'a \<Rightarrow> 'a" where
  "effective_license [] dflt = dflt"
| "effective_license (Some x # overrides) dflt = x"
| "effective_license (None # overrides) dflt = effective_license overrides dflt"

subsection \<open>Reads\<close>

text \<open>The platform default: the settings row, or the environment's curated license.\<close>

definition platform_default_license_id :: "uuid \<Rightarrow> db \<Rightarrow> uuid" where
  "platform_default_license_id env_default d =
     (case settings_row d of None \<Rightarrow> env_default | Some p \<Rightarrow> ps_default_license_id p)"

definition license_by_id :: "db \<Rightarrow> uuid \<Rightarrow> data_license option" where
  "license_by_id d license_id = List.find (\<lambda>l. row_id l = license_id) (licenses d)"

definition get_default_license :: "uuid \<Rightarrow> db \<Rightarrow> data_license result" where
  "get_default_license env_default d =
     the_or RuntimeError (license_by_id d (platform_default_license_id env_default d))"

definition list_data_licenses ::
  "(string \<Rightarrow> string option \<Rightarrow> bool) \<Rightarrow> db \<Rightarrow> string option \<Rightarrow> bool \<Rightarrow> uuid option \<Rightarrow> timestamp \<Rightarrow> nat \<Rightarrow> nat
     \<Rightarrow> data_license list \<times> nat" where
  "list_data_licenses ilike d name deleted authored_by deleted_cutoff limit offset =
     (let rows = (if deleted then filter (\<lambda>l. case authored_by of None \<Rightarrow> True | Some u \<Rightarrow> l_created_by_id l = Some u)
                                   (deleted_select deleted_cutoff None (licenses d))
                  else live_select (licenses d));
          rows = (case name of None \<Rightarrow> rows
                  | Some n \<Rightarrow> if n = '''' then rows else filter (\<lambda>l. ilike n (Some (l_name l))) rows);
          rows = (if deleted then sort_key (\<lambda>l. - the (deleted_at l)) (sort_key row_id rows)
                  else sort_key l_name (sort_key row_id rows))
      in paginate limit offset rows)"

definition get_data_license :: "db \<Rightarrow> uuid \<Rightarrow> bool \<Rightarrow> data_license result" where
  "get_data_license d license_id include_deleted =
     the_or (NotFoundError (Msg ''Data license {} not found.'' [AId license_id]))
       (if include_deleted then license_by_id d license_id else live_by_id license_id (licenses d))"

definition license_is_live :: "db \<Rightarrow> uuid \<Rightarrow> bool" where
  "license_is_live d license_id \<longleftrightarrow> live_by_id license_id (licenses d) \<noteq> None"

definition validate_license_ref :: "db \<Rightarrow> uuid \<Rightarrow> unit result" where
  "validate_license_ref d license_id =
     ensure (license_is_live d license_id) (BadRequestError (Msg ''Unknown data license id {}.'' [AId license_id]))"

definition assert_curated_license_synced :: "db \<Rightarrow> uuid \<Rightarrow> unit result" where
  "assert_curated_license_synced d license_id = ensure (license_is_live d license_id) RuntimeError"

subsection \<open>Gates\<close>

text \<open>\<open>LicenseUpdate\<close>: \<open>None\<close> is an omitted field; only \<open>version\<close> and \<open>reference_url\<close> take an explicit null.\<close>

record license_update =
  lu_name :: "string option"
  lu_version :: "string option option"
  lu_short_description :: "string option"
  lu_content :: "string option"
  lu_reference_url :: "string option option"
  lu_protects_conversation_data :: "bool option"

text \<open>\<open>model_fields_set\<close>, in the order of the sorted field names.\<close>

definition fields_set :: "license_update \<Rightarrow> string list" where
  "fields_set ch =
     (if lu_content ch \<noteq> None then [''content''] else []) @ (if lu_name ch \<noteq> None then [''name''] else []) @
     (if lu_protects_conversation_data ch \<noteq> None then [''protects_conversation_data''] else []) @
     (if lu_reference_url ch \<noteq> None then [''reference_url''] else []) @
     (if lu_short_description ch \<noteq> None then [''short_description''] else []) @
     (if lu_version ch \<noteq> None then [''version''] else [])"

definition CURATED_EDITABLE_FIELDS :: "string list" where
  "CURATED_EDITABLE_FIELDS = [''content'']"

definition assert_may_manage_license :: "data_license \<Rightarrow> uuid \<Rightarrow> bool \<Rightarrow> unit result" where
  "assert_may_manage_license lic caller_id can_manage =
     bindE (ensure (l_created_by_id lic \<noteq> None)
       (ForbiddenError (Msg ''Curated licenses are managed in code and cannot be deleted or restored via the API.'' []))) (\<lambda>_.
     ensure (can_manage \<or> l_created_by_id lic = Some caller_id)
       (ForbiddenError (Msg ''You may only edit licenses you created.'' [])))"

definition assert_may_update_license ::
  "(string \<Rightarrow> uuid) \<Rightarrow> curated_license list \<Rightarrow> data_license \<Rightarrow> license_update \<Rightarrow> uuid \<Rightarrow> bool \<Rightarrow> unit result" where
  "assert_may_update_license cid catalog lic changes caller_id can_manage =
     (if l_created_by_id lic \<noteq> None then assert_may_manage_license lic caller_id can_manage
      else bindE (ensure (fields_set changes \<noteq> [])
             (BadRequestError (Msg ''Nothing to update; content is the only editable field of a curated license.'' []))) (\<lambda>_.
           let code_owned = filter (\<lambda>f. f \<notin> set CURATED_EDITABLE_FIELDS) (fields_set changes) in
           bindE (ensure (code_owned = [])
             (ForbiddenError (Msg ''Curated licenses are managed in code; only content is editable (not {}).'' [AStrs code_owned]))) (\<lambda>_.
           bindE (ensure (\<not> curated_ships_content cid catalog (row_id lic))
             (ForbiddenError (Msg ''This license text is shipped in the catalog; change it in the catalog instead.'' []))) (\<lambda>_.
           ensure can_manage
             (ForbiddenError (Msg ''Only licenses:manage holders may edit a curated license text.'' []))))))"

subsection \<open>Operations\<close>

definition create_data_license ::
  "db \<Rightarrow> uuid \<Rightarrow> string \<Rightarrow> string option \<Rightarrow> string \<Rightarrow> string \<Rightarrow> string option \<Rightarrow> bool \<Rightarrow> data_license \<times> db" where
  "create_data_license d caller_id name version short_description content reference_url protects =
     (let l = \<lparr>row_id = next_id d, created_at = now d, deleted_at = None, deleted_by_id = None, l_name = name,
               l_version = version, l_short_description = short_description, l_content = content,
               l_reference_url = reference_url, l_protects_conversation_data = protects, l_spdx_id = None,
               l_created_by_id = Some caller_id\<rparr>
      in (l, d\<lparr>licenses := licenses d @ [l], next_id := Suc (next_id d)\<rparr>))"

definition edit_license_fields :: "data_license \<Rightarrow> license_update \<Rightarrow> data_license" where
  "edit_license_fields l ch =
     l\<lparr>l_name := (case lu_name ch of None \<Rightarrow> l_name l | Some x \<Rightarrow> x),
       l_version := (case lu_version ch of None \<Rightarrow> l_version l | Some x \<Rightarrow> x),
       l_short_description := (case lu_short_description ch of None \<Rightarrow> l_short_description l | Some x \<Rightarrow> x),
       l_content := (case lu_content ch of None \<Rightarrow> l_content l | Some x \<Rightarrow> x),
       l_reference_url := (case lu_reference_url ch of None \<Rightarrow> l_reference_url l | Some x \<Rightarrow> x),
       l_protects_conversation_data :=
         (case lu_protects_conversation_data ch of None \<Rightarrow> l_protects_conversation_data l | Some x \<Rightarrow> x)\<rparr>"

definition update_data_license ::
  "(string \<Rightarrow> uuid) \<Rightarrow> curated_license list \<Rightarrow> db \<Rightarrow> data_license \<Rightarrow> license_update \<Rightarrow> uuid \<Rightarrow> bool
     \<Rightarrow> (data_license \<times> db) result" where
  "update_data_license cid catalog d lic changes caller_id can_manage =
     bindE (assert_may_update_license cid catalog lic changes caller_id can_manage) (\<lambda>_.
     let l = edit_license_fields lic changes in
     Inr (l, d\<lparr>licenses := save_row l (licenses d)\<rparr>))"

definition soft_delete_data_license :: "uuid \<Rightarrow> db \<Rightarrow> data_license \<Rightarrow> uuid \<Rightarrow> bool \<Rightarrow> db result" where
  "soft_delete_data_license env_default d lic caller_id can_manage =
     bindE (assert_may_manage_license lic caller_id can_manage) (\<lambda>_.
     bindE (ensure (row_id lic \<noteq> platform_default_license_id env_default d)
       (ConflictError (Msg ''Cannot delete the platform default license; set another default first.'' []))) (\<lambda>_.
     Inr (d\<lparr>licenses := save_row (soft_delete (now d) (Some caller_id) lic) (licenses d)\<rparr>)))"

definition get_restorable_data_license :: "db \<Rightarrow> uuid \<Rightarrow> timestamp \<Rightarrow> data_license result" where
  "get_restorable_data_license d license_id deleted_cutoff =
     the_or (NotFoundError (Msg ''No restorable data license {} was deleted within the restore window.'' [AId license_id]))
       (List.find (\<lambda>l. row_id l = license_id) (deleted_select deleted_cutoff None (licenses d)))"

text \<open>The only unique index of the table is on \<open>spdx_id\<close>; NULLs never clash.\<close>

definition license_clash :: "data_license \<Rightarrow> data_license \<Rightarrow> bool" where
  "license_clash x y \<longleftrightarrow> l_spdx_id x \<noteq> None \<and> l_spdx_id x = l_spdx_id y"

definition restore_data_license :: "db \<Rightarrow> data_license \<Rightarrow> uuid \<Rightarrow> bool \<Rightarrow> (data_license \<times> db) result" where
  "restore_data_license d lic caller_id can_manage =
     bindE (assert_may_manage_license lic caller_id can_manage) (\<lambda>_.
     bindE (restore_row license_clash (Msg ''Data license cannot be restored.'' []) lic (licenses d)) (\<lambda>(l, t).
     Inr (l, d\<lparr>licenses := t\<rparr>)))"

subsection \<open>The catalog resync\<close>

text \<open>One \<open>INSERT ... ON CONFLICT (id) DO UPDATE\<close>: an entry that ships no text leaves the column alone.\<close>

definition curated_values :: "(string \<Rightarrow> uuid) \<Rightarrow> timestamp \<Rightarrow> curated_license \<Rightarrow> data_license" where
  "curated_values cid t c =
     \<lparr>row_id = cid (cl_spdx_id c), created_at = t, deleted_at = None, deleted_by_id = None, l_name = cl_name c,
      l_version = cl_version c, l_short_description = cl_short_description c, l_content = cl_content c,
      l_reference_url = cl_reference_url c, l_protects_conversation_data = cl_protects_conversation_data c,
      l_spdx_id = (if cl_publishes_spdx c then Some (cl_spdx_id c) else None), l_created_by_id = None\<rparr>"

definition sync_license :: "(string \<Rightarrow> uuid) \<Rightarrow> db \<Rightarrow> curated_license \<Rightarrow> db" where
  "sync_license cid d c =
     (let v = curated_values cid (now d) c in
      case license_by_id d (row_id v) of
        None \<Rightarrow> d\<lparr>licenses := licenses d @ [v]\<rparr>
      | Some l \<Rightarrow> d\<lparr>licenses := save_row (v\<lparr>created_at := created_at l,
                      l_content := (if cl_content c = '''' then l_content l else cl_content c)\<rparr>) (licenses d)\<rparr>)"

definition sync_licenses :: "(string \<Rightarrow> uuid) \<Rightarrow> curated_license list \<Rightarrow> db \<Rightarrow> db" where
  "sync_licenses cid catalog d = foldl (sync_license cid) d catalog"

subsection \<open>The catalog stays in force\<close>

text \<open>\<open>in_force\<close>: the row of a catalog entry is live, curated, and carries what the entry says; its text is
  the entry's wherever the entry ships one.\<close>

definition carries :: "(string \<Rightarrow> uuid) \<Rightarrow> curated_license \<Rightarrow> data_license \<Rightarrow> bool" where
  "carries cid c l \<longleftrightarrow> row_id l = cid (cl_spdx_id c) \<and> deleted_at l = None \<and> l_created_by_id l = None \<and>
     l_name l = cl_name c \<and> l_version l = cl_version c \<and> l_short_description l = cl_short_description c \<and>
     l_reference_url l = cl_reference_url c \<and> l_protects_conversation_data l = cl_protects_conversation_data c \<and>
     l_spdx_id l = (if cl_publishes_spdx c then Some (cl_spdx_id c) else None) \<and>
     (cl_content c \<noteq> '''' \<longrightarrow> l_content l = cl_content c)"

definition in_force :: "(string \<Rightarrow> uuid) \<Rightarrow> curated_license list \<Rightarrow> db \<Rightarrow> bool" where
  "in_force cid catalog d \<longleftrightarrow>
     keys_ok (next_id d) (licenses d) \<and> (\<forall>c\<in>set catalog. \<exists>l\<in>set (licenses d). carries cid c l)"

text \<open>The license requests of the API.\<close>

inductive license_step :: "(string \<Rightarrow> uuid) \<Rightarrow> curated_license list \<Rightarrow> db \<Rightarrow> db \<Rightarrow> bool"
  for cid catalog where
  create: "create_data_license d c n v sd ct ru pr = (l, d') \<Longrightarrow> license_step cid catalog d d'"
| update: "get_data_license d i False = Inr l \<Longrightarrow> update_data_license cid catalog d l ch c m = Inr (l', d') \<Longrightarrow>
    license_step cid catalog d d'"
| delete: "get_data_license d i False = Inr l \<Longrightarrow> soft_delete_data_license env d l c m = Inr d' \<Longrightarrow> license_step cid catalog d d'"
| restore: "get_restorable_data_license d i cutoff = Inr l \<Longrightarrow> restore_data_license d l c m = Inr (l', d') \<Longrightarrow>
    license_step cid catalog d d'"

lemma in_force_save:
  assumes "in_force cid catalog d" "l \<in> set (licenses d)" "row_id l' = row_id l"
    and "\<And>c. c \<in> set catalog \<Longrightarrow> carries cid c l \<Longrightarrow> carries cid c l'"
  shows "in_force cid catalog (d\<lparr>licenses := save_row l' (licenses d)\<rparr>)"
proof -
  have "\<exists>x\<in>set (save_row l' (licenses d)). carries cid c x" if c: "c \<in> set catalog" for c
  proof -
    obtain x where x: "x \<in> set (licenses d)" "carries cid c x" using assms(1) c by (auto simp: in_force_def)
    show ?thesis
    proof (cases "row_id x = row_id l")
      case True
      then have "x = l" using assms(1,2) x(1) by (auto simp: in_force_def keys_ok_def dest: distinct_map_same)
      then have "carries cid c l'" using assms(4) c x(2) by blast
      moreover have "l' \<in> set (save_row l' (licenses d))" using assms(2,3) by (auto simp: in_save_row)
      ultimately show ?thesis by blast
    next
      case False
      then have "x \<in> set (save_row l' (licenses d))" using x(1) assms(3) by (simp add: in_save_row)
      then show ?thesis using x(2) by blast
    qed
  qed
  moreover have "row_id l' < next_id d" using assms(1-3) by (auto simp: in_force_def keys_ok_def)
  ultimately show ?thesis using assms(1) by (auto simp: in_force_def)
qed

lemma authored_not_curated: "l_created_by_id l \<noteq> None \<Longrightarrow> \<not> carries cid c l"
  by (simp add: carries_def)

lemma assert_may_manage_license_Inr:
  "assert_may_manage_license l c m = Inr u \<longleftrightarrow> l_created_by_id l \<noteq> None \<and> (m \<or> l_created_by_id l = Some c)"
  by (auto simp: assert_may_manage_license_def svc_simps)

lemma edit_content_carries:
  assumes "fields_set ch \<noteq> []" "filter (\<lambda>f. f \<notin> set CURATED_EDITABLE_FIELDS) (fields_set ch) = []"
    and "carries cid c l" "cl_content c = ''''"
  shows "carries cid c (edit_license_fields l ch)"
  using assms by (auto simp: fields_set_def CURATED_EDITABLE_FIELDS_def carries_def edit_license_fields_def
      split: if_splits)

lemma curated_ships_content_iff:
  assumes "inj_on (\<lambda>c. cid (cl_spdx_id c)) (set catalog)" "c \<in> set catalog"
  shows "curated_ships_content cid catalog (cid (cl_spdx_id c)) \<longleftrightarrow> cl_content c \<noteq> ''''"
proof -
  obtain x where x: "List.find (\<lambda>x. cid (cl_spdx_id x) = cid (cl_spdx_id c)) (rev catalog) = Some x"
    using find_ex [of c "rev catalog" "\<lambda>x. cid (cl_spdx_id x) = cid (cl_spdx_id c)"] assms(2) by auto
  then have "x = c" using find_SomeD [OF x] assms by (auto dest: inj_onD)
  with x show ?thesis by (simp add: curated_ships_content_def)
qed

lemma update_data_license_in_force:
  assumes "in_force cid catalog d" "inj_on (\<lambda>c. cid (cl_spdx_id c)) (set catalog)"
    and l: "get_data_license d i False = Inr l" and u: "update_data_license cid catalog d l ch c m = Inr (l', d')"
  shows "in_force cid catalog d'"
proof -
  have lm: "l \<in> set (licenses d)" using l by (auto simp: get_data_license_def dest: live_by_id_SomeD)
  have d': "d' = d\<lparr>licenses := save_row (edit_license_fields l ch) (licenses d)\<rparr>"
    and g: "assert_may_update_license cid catalog l ch c m = Inr ()"
    using u by (auto simp: update_data_license_def svc_simps Let_def)
  have "carries cid x (edit_license_fields l ch)" if x: "x \<in> set catalog" "carries cid x l" for x
  proof -
    have "l_created_by_id l = None" "row_id l = cid (cl_spdx_id x)" using x(2) by (auto simp: carries_def)
    with g curated_ships_content_iff [OF assms(2) x(1)] show ?thesis
      using x(2) by (intro edit_content_carries) (auto simp: assert_may_update_license_def svc_simps Let_def)
  qed
  then show ?thesis unfolding d' by (intro in_force_save [OF assms(1) lm]) (auto simp: edit_license_fields_def)
qed

lemma license_step_in_force:
  assumes "license_step cid catalog d d'" "in_force cid catalog d" "inj_on (\<lambda>c. cid (cl_spdx_id c)) (set catalog)"
  shows "in_force cid catalog d'"
  using assms(1)
proof cases
  case (create c n v sd ct ru pr l)
  then have "licenses d' = licenses d @ [l]" "next_id d' = Suc (next_id d)" "row_id l = next_id d"
    by (auto simp: create_data_license_def Let_def)
  then show ?thesis using assms(2) by (auto simp: in_force_def keys_ok_append)
next
  case (update i l ch c m l')
  then show ?thesis using update_data_license_in_force assms(2,3) by blast
next
  case (delete i l env c m)
  then have "l \<in> set (licenses d)" "l_created_by_id l \<noteq> None"
    and d': "d' = d\<lparr>licenses := save_row (soft_delete (now d) (Some c) l) (licenses d)\<rparr>"
    by (auto simp: get_data_license_def soft_delete_data_license_def svc_simps assert_may_manage_license_Inr
        dest: live_by_id_SomeD)
  then show ?thesis unfolding d'
    using authored_not_curated by (intro in_force_save [OF assms(2), of l]) auto
next
  case (restore i cutoff l c m l')
  then have "l \<in> set (licenses d)" "l_created_by_id l \<noteq> None"
    and d': "d' = d\<lparr>licenses := save_row (Base_Model.restore l) (licenses d)\<rparr>"
    by (auto simp: get_restorable_data_license_def restore_data_license_def svc_simps assert_may_manage_license_Inr
        restore_row_Inr dest!: find_SomeD)
  then show ?thesis unfolding d'
    using authored_not_curated by (intro in_force_save [OF assms(2), of l]) auto
qed

interpretation license_catalog: step_invariant "license_step cid catalog"
  "\<lambda>d. in_force cid catalog d \<and> inj_on (\<lambda>c. cid (cl_spdx_id c)) (set catalog)"
  by unfold_locales (blast intro: license_step_in_force)


subsection \<open>The resync\<close>

lemma sync_license_carries: "\<exists>l\<in>set (licenses (sync_license cid d c)). carries cid c l"
proof (cases "license_by_id d (cid (cl_spdx_id c))")
  case None
  then show ?thesis by (auto simp: sync_license_def Let_def curated_values_def carries_def)
next
  case (Some l)
  let ?l = "(curated_values cid (now d) c)\<lparr>created_at := created_at l,
     l_content := (if cl_content c = '''' then l_content l else cl_content c)\<rparr>"
  have "l \<in> set (licenses d)" "row_id l = cid (cl_spdx_id c)"
    using Some by (auto simp: license_by_id_def dest: find_SomeD)
  then have "?l \<in> set (save_row ?l (licenses d))" by (intro saved_row_mem [of l]) (auto simp: curated_values_def)
  moreover have "carries cid c ?l" by (simp add: carries_def curated_values_def)
  moreover have "licenses (sync_license cid d c) = save_row ?l (licenses d)"
    using Some by (simp add: sync_license_def Let_def curated_values_def)
  ultimately show ?thesis by metis
qed

lemma sync_license_other:
  assumes "l \<in> set (licenses d)" "row_id l \<noteq> cid (cl_spdx_id c)"
  shows "l \<in> set (licenses (sync_license cid d c))"
  using assms by (auto simp: sync_license_def Let_def curated_values_def in_save_row split: option.splits)

lemma sync_license_keys:
  assumes "keys_ok (next_id d) (licenses d)" "cid (cl_spdx_id c) < next_id d"
  shows "keys_ok (next_id d) (licenses (sync_license cid d c))" "next_id (sync_license cid d c) = next_id d"
  using assms
  by (auto simp: sync_license_def Let_def curated_values_def keys_ok_def license_by_id_def find_None_iff_all
      in_save_row split: option.splits)

lemma sync_license_content:
  assumes "keys_ok n (licenses d)" "l \<in> set (licenses d)" "row_id l = cid (cl_spdx_id c)" "cl_content c = ''''"
  shows "\<exists>l'\<in>set (licenses (sync_license cid d c)). row_id l' = row_id l \<and> l_content l' = l_content l"
proof -
  have "license_by_id d (cid (cl_spdx_id c)) = Some l"
    unfolding license_by_id_def using assms by (intro find_unique [where k = row_id]) (auto simp: keys_ok_def)
  then have "licenses (sync_license cid d c) =
      save_row ((curated_values cid (now d) c)\<lparr>created_at := created_at l, l_content := l_content l\<rparr>) (licenses d)"
    using assms(4) by (simp add: sync_license_def Let_def curated_values_def)
  then show ?thesis
    using assms(3) saved_row_mem [OF assms(2), of "(curated_values cid (now d) c)\<lparr>created_at := created_at l, l_content := l_content l\<rparr>"]
    by (intro bexI) (auto simp: curated_values_def)
qed

lemma sync_licenses_frame:
  assumes "l \<in> set (licenses d)" "row_id l \<notin> (\<lambda>c. cid (cl_spdx_id c)) ` set catalog"
  shows "l \<in> set (licenses (sync_licenses cid catalog d))"
  using assms unfolding sync_licenses_def
  by (induction catalog arbitrary: d) (auto simp: sync_license_other)

lemma sync_licenses_carries:
  assumes "keys_ok (next_id d) (licenses d)" "\<forall>c\<in>set catalog. cid (cl_spdx_id c) < next_id d"
    and "distinct (map (\<lambda>c. cid (cl_spdx_id c)) catalog)"
    and "\<forall>c\<in>S. \<exists>l\<in>set (licenses d). carries cid c l"
    and "\<forall>c\<in>S. cid (cl_spdx_id c) \<notin> (\<lambda>c. cid (cl_spdx_id c)) ` set catalog"
  shows "keys_ok (next_id d) (licenses (sync_licenses cid catalog d)) \<and>
    next_id (sync_licenses cid catalog d) = next_id d \<and>
    (\<forall>c\<in>S \<union> set catalog. \<exists>l\<in>set (licenses (sync_licenses cid catalog d)). carries cid c l)"
  using assms
proof (induction catalog arbitrary: d S)
  case Nil
  then show ?case by (simp add: sync_licenses_def)
next
  case (Cons c cs)
  let ?d = "sync_license cid d c"
  have k: "keys_ok (next_id ?d) (licenses ?d)" "next_id ?d = next_id d"
    using sync_license_keys [of d cid c] Cons.prems(1,2) by auto
  have "\<exists>l\<in>set (licenses ?d). carries cid x l" if "x \<in> insert c S" for x
  proof (cases "x = c")
    case True
    then show ?thesis using sync_license_carries by blast
  next
    case False
    then have x: "x \<in> S" using that by simp
    then obtain l where "l \<in> set (licenses d)" "carries cid x l" using Cons.prems(4) by auto
    moreover from this have "row_id l \<noteq> cid (cl_spdx_id c)"
      using Cons.prems(5) x by (auto simp: carries_def)
    ultimately show ?thesis using sync_license_other by blast
  qed
  moreover have "\<forall>x\<in>insert c S. cid (cl_spdx_id x) \<notin> (\<lambda>c. cid (cl_spdx_id c)) ` set cs"
    using Cons.prems(3,5) by auto
  ultimately have "keys_ok (next_id ?d) (licenses (sync_licenses cid cs ?d)) \<and> next_id (sync_licenses cid cs ?d) = next_id ?d \<and>
      (\<forall>c\<in>insert c S \<union> set cs. \<exists>l\<in>set (licenses (sync_licenses cid cs ?d)). carries cid c l)"
    using Cons.prems(2,3) k by (intro Cons.IH) auto
  then show ?case by (auto simp: sync_licenses_def k)
qed

lemma sync_licenses_content:
  assumes "keys_ok (next_id d) (licenses d)" "\<forall>c\<in>set catalog. cid (cl_spdx_id c) < next_id d"
    and "distinct (map (\<lambda>c. cid (cl_spdx_id c)) catalog)"
    and "c \<in> set catalog" "cl_content c = ''''" "l \<in> set (licenses d)" "row_id l = cid (cl_spdx_id c)"
  shows "\<exists>l'\<in>set (licenses (sync_licenses cid catalog d)). row_id l' = row_id l \<and> l_content l' = l_content l"
  using assms
proof (induction catalog arbitrary: d l)
  case Nil
  then show ?case by simp
next
  case (Cons x xs)
  let ?d = "sync_license cid d x"
  have k: "keys_ok (next_id ?d) (licenses ?d)" "next_id ?d = next_id d"
    using sync_license_keys [of d cid x] Cons.prems(1,2) by auto
  show ?case
  proof (cases "c = x")
    case True
    then obtain l' where l': "l' \<in> set (licenses ?d)" "row_id l' = row_id l" "l_content l' = l_content l"
      using sync_license_content [OF Cons.prems(1,6), of cid x] Cons.prems(5,7) by auto
    then have "l' \<in> set (licenses (sync_licenses cid xs ?d))"
      using Cons.prems(3,7) True by (intro sync_licenses_frame) auto
    then show ?thesis using l' by (auto simp: sync_licenses_def)
  next
    case False
    then have c: "c \<in> set xs" using Cons.prems(4) by simp
    then have "cid (cl_spdx_id c) \<noteq> cid (cl_spdx_id x)" using Cons.prems(3) by (auto simp: image_iff)
    then have "l \<in> set (licenses ?d)" using Cons.prems(6,7) sync_license_other [of l d cid x] by simp
    then have "\<exists>l'\<in>set (licenses (sync_licenses cid xs ?d)). row_id l' = row_id l \<and> l_content l' = l_content l"
      using Cons.prems k c by (intro Cons.IH) auto
    then show ?thesis by (auto simp: sync_licenses_def)
  qed
qed

text \<open>a resync puts the catalog in force and loses nothing.  Afterwards every catalog entry has its
  live row with the fields the catalog declares, a text filled in through the API for an entry that
  ships none is still there, and every other license is untouched.\<close>

lemma sync_licenses_reconciles:
  assumes "keys_ok (next_id d) (licenses d)" and "\<forall>c\<in>set catalog. cid (cl_spdx_id c) < next_id d"
    and "distinct (map (\<lambda>c. cid (cl_spdx_id c)) catalog)"
  shows "in_force cid catalog (sync_licenses cid catalog d) \<and>
    (\<forall>c\<in>set catalog. \<forall>l\<in>set (licenses d). cl_content c = '''' \<and> row_id l = cid (cl_spdx_id c) \<longrightarrow>
       (\<exists>l'\<in>set (licenses (sync_licenses cid catalog d)). row_id l' = row_id l \<and> l_content l' = l_content l)) \<and>
    (\<forall>l\<in>set (licenses d). row_id l \<notin> (\<lambda>c. cid (cl_spdx_id c)) ` set catalog \<longrightarrow>
       l \<in> set (licenses (sync_licenses cid catalog d)))"
  using sync_licenses_carries [OF assms, of "{}"] sync_licenses_content [OF assms] sync_licenses_frame
  unfolding in_force_def by auto

end
