(* ===== verification/Evaluation_Groups.thy ===== *)
theory Evaluation_Groups
  imports Group_Access Group_Models Licenses Role_Service
begin

section \<open>Evaluation groups: blockers, create, draft, update\<close>

text \<open>
  The writes of \<open>app/core/evaluations/services/evaluation_groups.py\<close> and the self-join of
  \<open>services/membership.py\<close>.  \<open>can_manage\<close> is the break-glass flag the routes take from the caller's token;
  \<open>cid\<close> derives a curated licence's primary key from its SPDX id (UUID version 5).  The keyword arguments
  every creator shares are the record \<open>group_fields\<close>.  The row locks the code takes have no counterpart: a
  request is one step.
\<close>

definition dates_out_of_order :: "day \<Rightarrow> day option \<Rightarrow> bool" where
  "dates_out_of_order start_date end_date \<longleftrightarrow>
     (case end_date of None \<Rightarrow> False | Some e \<Rightarrow> e \<le> start_date)"

definition live_org :: "db \<Rightarrow> uuid \<Rightarrow> bool" where
  "live_org d organization_id \<longleftrightarrow> live_by_id organization_id (organizations d) \<noteq> None"

definition validate_group_org :: "db \<Rightarrow> evaluation_group_access_level \<Rightarrow> uuid option \<Rightarrow> unit result" where
  "validate_group_org d access_level organization_id =
     bindE (ensure (access_level = ORGANIZATION \<longrightarrow> organization_id \<noteq> None)
       (BadRequestError (Msg ''organization_id is required when access_level is 'organization'.'' []))) (\<lambda>_.
     case organization_id of None \<Rightarrow> Inr ()
     | Some i \<Rightarrow> ensure (live_org d i)
         (BadRequestError (Msg ''organization_id {} does not reference a live organization.'' [AId i])))"

definition assert_caller_may_assign_org :: "db \<Rightarrow> uuid \<Rightarrow> uuid \<Rightarrow> bool \<Rightarrow> unit result" where
  "assert_caller_may_assign_org d caller_id organization_id can_manage =
     (if can_manage then Inr ()
      else ensure (caller_live_organization d caller_id = Some organization_id)
        (ForbiddenError (Msg ''You may only assign a group to your own organization.'' [])))"

subsection \<open>Blockers of the next lifecycle step\<close>

definition evaluations_of :: "db \<Rightarrow> uuid \<Rightarrow> evaluation list" where
  "evaluations_of d group_id = filter (\<lambda>e. e_evaluation_group_id e = group_id) (live_select (evaluations d))"

definition has_scenario :: "db \<Rightarrow> uuid \<Rightarrow> bool" where
  "has_scenario d evaluation_id \<longleftrightarrow> (\<exists>s\<in>set (live_select (scenarios d)). s_evaluation_id s = evaluation_id)"

definition missing_scenario_blocker :: "db \<Rightarrow> uuid \<Rightarrow> detail option" where
  "missing_scenario_blocker d group_id =
     (let titles = sort (map e_title (filter (\<lambda>e. \<not> has_scenario d (row_id e)) (evaluations_of d group_id))) in
      if titles = [] then None
      else Some (Msg ''Every evaluation needs at least one scenario; add one to: {}.'' [AStrs titles]))"

definition blank :: "string option \<Rightarrow> bool" where
  "blank x \<longleftrightarrow> x = None \<or> x = Some ''''"

definition missing_fields :: "evaluation_group \<Rightarrow> string list" where
  "missing_fields g =
     (if blank (g_title g) then [''title''] else []) @ (if blank (g_description g) then [''description''] else []) @
     (if g_start_date g = None then [''start date''] else [])"

definition date_blockers :: "db \<Rightarrow> evaluation_group \<Rightarrow> detail list" where
  "date_blockers d g =
     (case g_start_date g of None \<Rightarrow> []
      | Some s \<Rightarrow> (if s < today d then [Msg ''The start date must not be before today.'' []] else []) @
          (if dates_out_of_order s (g_end_date g) then [Msg ''The end date must be after the start date.'' []] else []))"

definition collect_submit_blockers :: "db \<Rightarrow> evaluation_group \<Rightarrow> detail list" where
  "collect_submit_blockers d g =
     (if missing_fields g \<noteq> [] then [Msg ''Fill in the required fields: {}.'' [AStrs (missing_fields g)]] else []) @
     date_blockers d g @
     (case validate_group_org d (g_access_level g) (g_organization_id g) of
        Inl (BadRequestError m) \<Rightarrow> [m] | _ \<Rightarrow> []) @
     (if allowed_rows d (row_id g) = [] then [Msg ''Assign at least one allowed model.'' []] else []) @
     (case missing_scenario_blocker d (row_id g) of None \<Rightarrow> [] | Some m \<Rightarrow> [m])"

definition collect_publish_blockers :: "db \<Rightarrow> evaluation_group \<Rightarrow> detail list" where
  "collect_publish_blockers d g =
     (if evaluations_of d (row_id g) = [] then [Msg ''Add at least one evaluation to the group.'' []] else []) @
     (case missing_scenario_blocker d (row_id g) of None \<Rightarrow> [] | Some m \<Rightarrow> [m])"

definition collect_publication_blockers :: "db \<Rightarrow> evaluation_group \<Rightarrow> detail list" where
  "collect_publication_blockers d g =
     (if g_status g \<in> {PS_DRAFT, CHANGES_REQUESTED} then collect_submit_blockers d g
      else if g_status g = PS_APPROVED then collect_publish_blockers d g else [])"

definition assert_group_submittable :: "db \<Rightarrow> evaluation_group \<Rightarrow> unit result" where
  "assert_group_submittable d g =
     (let blockers = collect_submit_blockers d g in
      ensure (blockers = []) (BadRequestError (Msg ''Cannot submit an incomplete group: {}'' [ADetails blockers])))"

definition assert_group_publishable :: "db \<Rightarrow> evaluation_group \<Rightarrow> unit result" where
  "assert_group_publishable d g =
     (let blockers = collect_publish_blockers d g in
      ensure (blockers = []) (BadRequestError (Msg ''Cannot publish an incomplete group: {}'' [ADetails blockers])))"

subsection \<open>The licence of a new group\<close>

fun default_license_for_access :: "(string \<Rightarrow> uuid) \<Rightarrow> evaluation_group_access_level \<Rightarrow> uuid option" where
  "default_license_for_access cid INVITATION_ONLY = Some (cid NO_LICENSE_SPDX_ID)"
| "default_license_for_access cid PUBLIC = None"
| "default_license_for_access cid ORGANIZATION = None"

definition assert_synced_opt :: "db \<Rightarrow> uuid option \<Rightarrow> unit result" where
  "assert_synced_opt d derived =
     (case derived of None \<Rightarrow> Inr () | Some i \<Rightarrow> assert_curated_license_synced d i)"

definition resolve_new_group_license ::
  "(string \<Rightarrow> uuid) \<Rightarrow> db \<Rightarrow> uuid option \<Rightarrow> bool \<Rightarrow> evaluation_group_access_level \<Rightarrow> uuid option result" where
  "resolve_new_group_license cid d data_license_id data_license_set access_level =
     (if data_license_id = None \<and> \<not> data_license_set
      then let derived = default_license_for_access cid access_level in
           bindE (assert_synced_opt d derived) (\<lambda>_. Inr derived)
      else bindE (case data_license_id of None \<Rightarrow> Inr () | Some i \<Rightarrow> validate_license_ref d i) (\<lambda>_.
           Inr data_license_id))"

subsection \<open>Creating\<close>

record group_fields =
  gf_title :: "string option"
  gf_description :: "string option"
  gf_access :: evaluation_group_access_level
  gf_during :: metrics_access_level
  gf_after :: metrics_access_level
  gf_organization_id :: "uuid option"
  gf_start_date :: "day option"
  gf_end_date :: "day option"

definition grant_owner :: "db \<Rightarrow> uuid \<Rightarrow> uuid \<Rightarrow> db result" where
  "grant_owner d group_id caller_id =
     bindE (get_role_by_name d (system_role_value OWNER)) (\<lambda>owner_role.
     grant_roles d EVALUATION_GROUP group_id caller_id [owner_role])"

definition new_group :: "db \<Rightarrow> uuid \<Rightarrow> group_fields \<Rightarrow> uuid option \<Rightarrow> publication_status \<Rightarrow> evaluation_group" where
  "new_group d caller_id f data_license_id status =
     \<lparr>row_id = next_id d, created_at = now d, deleted_at = None, deleted_by_id = None,
      g_title = gf_title f, g_description = gf_description f, g_created_by_id = caller_id, g_status = status,
      g_rejection_reason = None, g_access_level = gf_access f, g_metrics_access_during = gf_during f,
      g_metrics_access_after = gf_after f, g_organization_id = gf_organization_id f,
      g_start_date = gf_start_date f, g_end_date = gf_end_date f, g_data_license_id = data_license_id\<rparr>"

definition persist_new_group ::
  "db \<Rightarrow> uuid \<Rightarrow> group_fields \<Rightarrow> uuid option \<Rightarrow> publication_status \<Rightarrow> (evaluation_group \<times> db) result" where
  "persist_new_group d caller_id f data_license_id status =
     (let g = new_group d caller_id f data_license_id status in
      bindE (grant_owner (d\<lparr>groups := groups d @ [g], next_id := Suc (next_id d)\<rparr>) (row_id g) caller_id) (\<lambda>d'.
      Inr (g, d')))"

text \<open>\<open>title\<close>, \<open>description\<close> and \<open>start_date\<close> are mandatory arguments of the full create.\<close>

definition create_evaluation_group ::
  "(string \<Rightarrow> uuid) \<Rightarrow> db \<Rightarrow> uuid \<Rightarrow> string \<Rightarrow> string \<Rightarrow> evaluation_group_access_level \<Rightarrow> metrics_access_level \<Rightarrow>
     metrics_access_level \<Rightarrow> uuid option \<Rightarrow> bool \<Rightarrow> day \<Rightarrow> day option \<Rightarrow> uuid option \<Rightarrow> bool \<Rightarrow> uuid list \<Rightarrow>
     publication_status \<Rightarrow> (evaluation_group \<times> db) result" where
  "create_evaluation_group cid d caller_id title description access_level during after organization_id can_manage
     start_date end_date data_license_id data_license_set allowed_model_ids status =
     bindE (ensure (\<not> start_date < today d) (BadRequestError (Msg ''start_date must not be before today.'' []))) (\<lambda>_.
     bindE (ensure (\<not> dates_out_of_order start_date end_date)
       (BadRequestError (Msg ''end_date must be after start_date.'' []))) (\<lambda>_.
     bindE (validate_group_org d access_level organization_id) (\<lambda>_.
     bindE (case organization_id of None \<Rightarrow> Inr () | Some i \<Rightarrow> assert_caller_may_assign_org d caller_id i can_manage) (\<lambda>_.
     bindE (resolve_new_group_license cid d data_license_id data_license_set access_level) (\<lambda>license_id.
     bindE (persist_new_group d caller_id
       \<lparr>gf_title = Some title, gf_description = Some description, gf_access = access_level, gf_during = during,
        gf_after = after, gf_organization_id = organization_id, gf_start_date = Some start_date,
        gf_end_date = end_date\<rparr> license_id status) (\<lambda>(g, d1).
     bindE (sync_group_models d1 (row_id g) allowed_model_ids caller_id) (\<lambda>(_, d2). Inr (g, d2))))))))"

definition create_evaluation_group_draft ::
  "(string \<Rightarrow> uuid) \<Rightarrow> db \<Rightarrow> uuid \<Rightarrow> group_fields \<Rightarrow> bool \<Rightarrow> uuid option \<Rightarrow> bool \<Rightarrow> uuid list \<Rightarrow>
     (evaluation_group \<times> db) result" where
  "create_evaluation_group_draft cid d caller_id f can_manage data_license_id data_license_set allowed_model_ids =
     bindE (ensure (\<not> (case (gf_start_date f, gf_end_date f) of (Some s, Some e) \<Rightarrow> dates_out_of_order s (Some e) | _ \<Rightarrow> False))
       (BadRequestError (Msg ''end_date must be after start_date.'' []))) (\<lambda>_.
     bindE (case gf_organization_id f of None \<Rightarrow> Inr () | Some i \<Rightarrow> assert_caller_may_assign_org d caller_id i can_manage) (\<lambda>_.
     bindE (resolve_new_group_license cid d data_license_id data_license_set (gf_access f)) (\<lambda>license_id.
     bindE (persist_new_group d caller_id f license_id PS_DRAFT) (\<lambda>(g, d1).
     bindE (sync_group_models d1 (row_id g) allowed_model_ids caller_id) (\<lambda>(_, d2). Inr (g, d2))))))"

subsection \<open>Updating\<close>

text \<open>
  \<open>EvaluationGroupUpdateChanges\<close>: \<open>None\<close> is a field outside \<open>model_fields_set\<close>; for the nullable columns
  \<open>Some None\<close> is an explicit null.  An explicit null on the other fields is refused at the edge.
\<close>

record group_update_changes =
  gu_title :: "string option"
  gu_description :: "string option option"
  gu_access_level :: "evaluation_group_access_level option"
  gu_metrics_access_during :: "metrics_access_level option"
  gu_metrics_access_after :: "metrics_access_level option"
  gu_organization_id :: "uuid option option"
  gu_start_date :: "day option option"
  gu_end_date :: "day option option"
  gu_data_license_id :: "uuid option option"
  gu_allowed_model_ids :: "uuid list option"

definition set_or :: "'a \<Rightarrow> 'a option \<Rightarrow> 'a" where
  "set_or old x = (case x of None \<Rightarrow> old | Some y \<Rightarrow> y)"

definition set_group_fields :: "evaluation_group \<Rightarrow> group_update_changes \<Rightarrow> evaluation_group" where
  "set_group_fields g ch =
     g\<lparr>g_title := (case gu_title ch of None \<Rightarrow> g_title g | Some t \<Rightarrow> Some t),
       g_description := set_or (g_description g) (gu_description ch),
       g_access_level := set_or (g_access_level g) (gu_access_level ch),
       g_metrics_access_during := set_or (g_metrics_access_during g) (gu_metrics_access_during ch),
       g_metrics_access_after := set_or (g_metrics_access_after g) (gu_metrics_access_after ch),
       g_organization_id := set_or (g_organization_id g) (gu_organization_id ch),
       g_start_date := set_or (g_start_date g) (gu_start_date ch),
       g_end_date := set_or (g_end_date g) (gu_end_date ch),
       g_data_license_id := set_or (g_data_license_id g) (gu_data_license_id ch)\<rparr>"

definition derived_update_license ::
  "(string \<Rightarrow> uuid) \<Rightarrow> evaluation_group \<Rightarrow> evaluation_group \<Rightarrow> group_update_changes \<Rightarrow> uuid option" where
  "derived_update_license cid original g ch =
     (if g_access_level g \<noteq> g_access_level original \<and> g_data_license_id g = None \<and> gu_data_license_id ch = None
      then default_license_for_access cid (g_access_level g) else None)"

text \<open>The row the \<open>setattr\<close> loop and the licence derivation leave in memory, before the checks.\<close>

definition merged_group :: "(string \<Rightarrow> uuid) \<Rightarrow> evaluation_group \<Rightarrow> group_update_changes \<Rightarrow> evaluation_group" where
  "merged_group cid g ch =
     (let g1 = set_group_fields g ch in
      case derived_update_license cid g g1 ch of None \<Rightarrow> g1 | Some i \<Rightarrow> g1\<lparr>g_data_license_id := Some i\<rparr>)"

definition update_evaluation_group ::
  "(string \<Rightarrow> uuid) \<Rightarrow> db \<Rightarrow> evaluation_group \<Rightarrow> uuid \<Rightarrow> bool \<Rightarrow> group_update_changes \<Rightarrow> (evaluation_group \<times> db) result" where
  "update_evaluation_group cid d g caller_id can_manage ch =
     bindE (assert_group_write_access d (row_id g) caller_id can_manage EVALUATION_GROUPS_UPDATE
       (Msg ''Evaluation group {} not found.'' [AId (row_id g)])) (\<lambda>_.
     bindE (case gu_data_license_id ch of Some (Some i) \<Rightarrow> validate_license_ref d i | _ \<Rightarrow> Inr ()) (\<lambda>_.
     let g2 = merged_group cid g ch in
     bindE (assert_synced_opt d (derived_update_license cid g (set_group_fields g ch) ch)) (\<lambda>_.
     bindE (case gu_allowed_model_ids ch of None \<Rightarrow> Inr d
            | Some ms \<Rightarrow> bindE (sync_group_models d (row_id g) ms caller_id) (\<lambda>(_, d'). Inr d')) (\<lambda>d1.
     bindE (ensure (\<not> (case g_start_date g2 of None \<Rightarrow> False | Some s \<Rightarrow> dates_out_of_order s (g_end_date g2)))
       (BadRequestError (Msg ''end_date must be after start_date.'' []))) (\<lambda>_.
     bindE (validate_group_org d1 (g_access_level g2) (g_organization_id g2)) (\<lambda>_.
     bindE (case g_organization_id g2 of None \<Rightarrow> Inr ()
            | Some i \<Rightarrow> if g_organization_id g2 \<noteq> g_organization_id g
                       then assert_caller_may_assign_org d1 caller_id i can_manage else Inr ()) (\<lambda>_.
     Inr (g2, d1\<lparr>groups := save_row g2 (groups d1)\<rparr>))))))))"

subsection \<open>Joining\<close>

definition join_evaluation_group :: "db \<Rightarrow> evaluation_group \<Rightarrow> uuid \<Rightarrow> (object_member \<times> db) result" where
  "join_evaluation_group d g caller_id =
     bindE (ensure (g_access_level g \<noteq> INVITATION_ONLY)
       (ForbiddenError (Msg ''Invitation-only groups cannot be joined directly.'' []))) (\<lambda>_.
     bindE (ensure (g_status g = PS_PUBLISHED) (ConflictError (Msg ''Only published groups can be joined.'' []))) (\<lambda>_.
     bindE (get_user d caller_id) (\<lambda>u.
     bindE (get_participant_default_role d) (\<lambda>r.
     add_member d EVALUATION_GROUP (row_id g) u [r]))))"

subsection \<open>What the operations change\<close>

lemma add_group_models_shape:
  "\<exists>gm n. add_group_models d g ms = d\<lparr>group_models := gm, next_id := n\<rparr> \<and> next_id d \<le> n"
proof (induction d g ms rule: add_group_models.induct)
  case (1 d g)
  have "d = d\<lparr>group_models := group_models d, next_id := next_id d\<rparr>" by simp
  then show ?case unfolding add_group_models.simps by blast
next
  case (2 d g m ms)
  then show ?case by force
qed

lemma sync_group_models_shape:
  assumes "sync_group_models d g ms u = Inr (pc, d')"
  shows "\<exists>gm n. d' = d\<lparr>group_models := gm, next_id := n\<rparr> \<and> next_id d \<le> n"
proof -
  let ?d1 = "d\<lparr>group_models := soft_delete_rows (now d) (Some u)
      (filter (\<lambda>r. gm_model_id r \<notin> set (py_sorted_set ms)) (allowed_rows d g)) (group_models d)\<rparr>"
  obtain xs where "d' = add_group_models ?d1 g xs"
    using assms by (auto simp: sync_group_models_def Let_def svc_simps)
  then show ?thesis using add_group_models_shape [of ?d1 g xs] by auto
qed

lemma grant_roles_shape:
  "grant_roles d t i u rs = Inr d' \<Longrightarrow> \<exists>as n. d' = d\<lparr>assignments := as, next_id := n\<rparr> \<and> next_id d \<le> n"
proof (induction d t i u rs rule: grant_roles.induct)
  case (1 d t i u)
  then have "d' = d\<lparr>assignments := assignments d, next_id := next_id d\<rparr>" by simp
  then show ?case by blast
next
  case (2 d t i u r rs)
  then show ?case by (fastforce simp: svc_simps)
qed

lemma grant_owner_Inr:
  assumes "grant_owner d i c = Inr d'"
  obtains r as n where "get_role_by_name d ''owner'' = Inr r" "next_id d \<le> n"
    "d' = d\<lparr>assignments := as, next_id := n\<rparr>" "row_id r \<in> set (map a_role_id (live_assignments d' EVALUATION_GROUP i c))"
proof -
  from assms obtain r where r: "get_role_by_name d ''owner'' = Inr r" and gr: "grant_roles d EVALUATION_GROUP i c [r] = Inr d'"
    by (auto simp: grant_owner_def svc_simps)
  have "map a_role_id (live_assignments d' EVALUATION_GROUP i c) =
      map a_role_id (live_assignments d EVALUATION_GROUP i c) @ map row_id [r]"
    using grant_roles_Inr [OF gr] by blast
  then have m: "row_id r \<in> set (map a_role_id (live_assignments d' EVALUATION_GROUP i c))" by simp
  obtain as n where sh: "d' = d\<lparr>assignments := as, next_id := n\<rparr>" "next_id d \<le> n"
    using grant_roles_shape [OF gr] by blast
  show thesis using that [OF r sh(2,1) m] .
qed

lemma persist_new_group_Inr:
  assumes "persist_new_group d c f l st = Inr (g, d')"
  obtains r as n where "g = new_group d c f l st" "get_role_by_name d ''owner'' = Inr r" "next_id d < n"
    "d' = d\<lparr>groups := groups d @ [g], assignments := as, next_id := n\<rparr>"
    "row_id r \<in> set (map a_role_id (live_assignments d' EVALUATION_GROUP (row_id g) c))"
proof -
  let ?g = "new_group d c f l st"
  let ?d = "d\<lparr>groups := groups d @ [?g], next_id := Suc (next_id d)\<rparr>"
  from assms have g: "g = ?g" and go: "grant_owner ?d (row_id ?g) c = Inr d'"
    by (auto simp: persist_new_group_def Let_def svc_simps)
  from go obtain r as n where "get_role_by_name ?d ''owner'' = Inr r" "next_id ?d \<le> n"
    "d' = ?d\<lparr>assignments := as, next_id := n\<rparr>" "row_id r \<in> set (map a_role_id (live_assignments d' EVALUATION_GROUP (row_id ?g) c))"
    by (rule grant_owner_Inr)
  then show thesis using that [of r n as] g by (simp add: get_role_by_name_def)
qed

lemma assert_caller_may_assign_org_Inr:
  "assert_caller_may_assign_org d c i m = Inr u \<longleftrightarrow> m \<or> caller_live_organization d c = Some i"
  by (auto simp: assert_caller_may_assign_org_def)

lemma validate_group_org_Inr:
  "validate_group_org d lv org = Inr u \<longleftrightarrow>
     (lv = ORGANIZATION \<longrightarrow> org \<noteq> None) \<and> (case org of None \<Rightarrow> True | Some i \<Rightarrow> live_org d i)"
  by (auto simp: validate_group_org_def svc_simps split: option.splits)

lemma validate_group_org_Inl:
  "validate_group_org d lv org = Inl e \<Longrightarrow> \<exists>m. e = BadRequestError m"
  by (auto simp: validate_group_org_def svc_simps split: option.splits)

lemma create_evaluation_group_Inr:
  assumes "create_evaluation_group cid d c ti de lv du af org m s e l ls ms st = Inr (g, d')"
  obtains l' d1 pc where "\<not> dates_out_of_order s e" "today d \<le> s" "validate_group_org d lv org = Inr ()"
    "case org of None \<Rightarrow> True | Some i \<Rightarrow> m \<or> caller_live_organization d c = Some i"
    "resolve_new_group_license cid d l ls lv = Inr l'"
    "persist_new_group d c \<lparr>gf_title = Some ti, gf_description = Some de, gf_access = lv, gf_during = du, gf_after = af,
        gf_organization_id = org, gf_start_date = Some s, gf_end_date = e\<rparr> l' st = Inr (g, d1)"
    "sync_group_models d1 (row_id g) ms c = Inr (pc, d')"
  using assms that
  by (auto simp: create_evaluation_group_def svc_simps assert_caller_may_assign_org_Inr not_less split: option.splits)

lemma create_evaluation_group_draft_Inr:
  assumes "create_evaluation_group_draft cid d c f m l ls ms = Inr (g, d')"
  obtains l' d1 pc where
    "case gf_organization_id f of None \<Rightarrow> True | Some i \<Rightarrow> m \<or> caller_live_organization d c = Some i"
    "resolve_new_group_license cid d l ls (gf_access f) = Inr l'" "persist_new_group d c f l' PS_DRAFT = Inr (g, d1)"
    "sync_group_models d1 (row_id g) ms c = Inr (pc, d')"
  using assms that
  by (auto simp: create_evaluation_group_draft_def svc_simps assert_caller_may_assign_org_Inr split: option.splits)

lemma update_evaluation_group_Inr:
  assumes "update_evaluation_group cid d g c m ch = Inr (g', d')"
  obtains d1 where "assert_group_write_access d (row_id g) c m EVALUATION_GROUPS_UPDATE
      (Msg ''Evaluation group {} not found.'' [AId (row_id g)]) = Inr ()"
    "\<forall>i. gu_data_license_id ch = Some (Some i) \<longrightarrow> license_is_live d i"
    "g' = merged_group cid g ch"
    "\<forall>i. derived_update_license cid g (set_group_fields g ch) ch = Some i \<longrightarrow> license_is_live d i"
    "case gu_allowed_model_ids ch of None \<Rightarrow> d1 = d | Some ms \<Rightarrow> (\<exists>pc. sync_group_models d (row_id g) ms c = Inr (pc, d1))"
    "\<forall>s. g_start_date g' = Some s \<longrightarrow> \<not> dates_out_of_order s (g_end_date g')"
    "validate_group_org d1 (g_access_level g') (g_organization_id g') = Inr ()"
    "case g_organization_id g' of None \<Rightarrow> True
     | Some i \<Rightarrow> g_organization_id g' = g_organization_id g \<or> m \<or> caller_live_organization d1 c = Some i"
    "d' = d1\<lparr>groups := save_row g' (groups d1)\<rparr>"
proof -
  let ?g2 = "merged_group cid g ch"
  from assms obtain d1 where
    a: "assert_group_write_access d (row_id g) c m EVALUATION_GROUPS_UPDATE
      (Msg ''Evaluation group {} not found.'' [AId (row_id g)]) = Inr ()"
    and b: "(case gu_data_license_id ch of Some (Some i) \<Rightarrow> validate_license_ref d i | _ \<Rightarrow> Inr ()) = Inr ()"
    and s: "assert_synced_opt d (derived_update_license cid g (set_group_fields g ch) ch) = Inr ()"
    and e: "(case gu_allowed_model_ids ch of None \<Rightarrow> Inr d
             | Some ms \<Rightarrow> bindE (sync_group_models d (row_id g) ms c) (\<lambda>(_, d'). Inr d')) = Inr d1"
    and f: "\<not> (case g_start_date ?g2 of None \<Rightarrow> False | Some s \<Rightarrow> dates_out_of_order s (g_end_date ?g2))"
    and v: "validate_group_org d1 (g_access_level ?g2) (g_organization_id ?g2) = Inr ()"
    and o: "(case g_organization_id ?g2 of None \<Rightarrow> Inr ()
               | Some i \<Rightarrow> if g_organization_id ?g2 \<noteq> g_organization_id g
                          then assert_caller_may_assign_org d1 c i m else Inr ()) = Inr ()"
    and r: "g' = ?g2" "d' = d1\<lparr>groups := save_row ?g2 (groups d1)\<rparr>"
    by (auto simp: update_evaluation_group_def Let_def bindE_eq_Inr)
  show thesis
  proof (rule that [OF a _ r(1)])
    show "\<forall>i. gu_data_license_id ch = Some (Some i) \<longrightarrow> license_is_live d i"
      using b by (auto simp: validate_license_ref_def)
    show "\<forall>i. derived_update_license cid g (set_group_fields g ch) ch = Some i \<longrightarrow> license_is_live d i"
      using s by (auto simp: assert_synced_opt_def assert_curated_license_synced_def)
    show "case gu_allowed_model_ids ch of None \<Rightarrow> d1 = d | Some ms \<Rightarrow> (\<exists>pc. sync_group_models d (row_id g) ms c = Inr (pc, d1))"
      using e by (auto simp: svc_simps split: option.splits)
    show "\<forall>s. g_start_date g' = Some s \<longrightarrow> \<not> dates_out_of_order s (g_end_date g')" using f r by auto
    show "validate_group_org d1 (g_access_level g') (g_organization_id g') = Inr ()" using v r by simp
    show "case g_organization_id g' of None \<Rightarrow> True
     | Some i \<Rightarrow> g_organization_id g' = g_organization_id g \<or> m \<or> caller_live_organization d1 c = Some i"
      using o unfolding r(1) by (auto simp: assert_caller_may_assign_org_Inr split: option.splits if_splits)
    show "d' = d1\<lparr>groups := save_row g' (groups d1)\<rparr>" using r by simp
  qed
qed

subsection \<open>Placement and merged state\<close>

lemma caller_live_organization_shape [simp]:
  "caller_live_organization (d\<lparr>group_models := gm, next_id := n\<rparr>) = caller_live_organization d"
  by (rule ext) (simp add: caller_live_organization_def split: option.split)

lemma update_only_models:
  assumes "case gu_allowed_model_ids ch of None \<Rightarrow> d1 = d | Some ms \<Rightarrow> (\<exists>pc. sync_group_models d i ms c = Inr (pc, d1))"
  shows "\<exists>gm n. d1 = d\<lparr>group_models := gm, next_id := n\<rparr> \<and> next_id d \<le> n"
proof (cases "gu_allowed_model_ids ch")
  case None
  then have "d1 = d\<lparr>group_models := group_models d, next_id := next_id d\<rparr>" using assms by simp
  then show ?thesis by (metis order_refl)
next
  case (Some ms)
  then show ?thesis using assms sync_group_models_shape by fastforce
qed

lemma new_group_org [simp]: "g_organization_id (new_group d c f l st) = gf_organization_id f"
  "row_id (new_group d c f l st) = next_id d" "deleted_at (new_group d c f l st) = None"
  "g_status (new_group d c f l st) = st" "g_created_by_id (new_group d c f l st) = c"
  by (simp_all add: new_group_def)

text \<open>without break-glass, a group can only be put into the caller's own live organization: whatever
  create, draft or update leaves in \<open>organization_id\<close>, if it was not there before, is the
  organization the caller belongs to.\<close>

lemma non_manager_places_group_at_home:
  assumes "create_evaluation_group cid d c ti de lv du af org False s e l ls ms st = Inr (g, d') \<or>
    create_evaluation_group_draft cid d c f False l ls ms = Inr (g, d') \<or>
    (\<exists>g0 ch. update_evaluation_group cid d g0 c False ch = Inr (g, d') \<and> g_organization_id g \<noteq> g_organization_id g0)"
    and "g_organization_id g = Some i"
  shows "caller_live_organization d c = Some i"
  using assms(1)
proof (elim disjE exE conjE)
  assume "create_evaluation_group cid d c ti de lv du af org False s e l ls ms st = Inr (g, d')"
  then show ?thesis
    by (rule create_evaluation_group_Inr) (use assms(2) in \<open>auto elim!: persist_new_group_Inr split: option.splits\<close>)
next
  assume "create_evaluation_group_draft cid d c f False l ls ms = Inr (g, d')"
  then show ?thesis
    by (rule create_evaluation_group_draft_Inr) (use assms(2) in \<open>auto elim!: persist_new_group_Inr split: option.splits\<close>)
next
  fix g0 ch assume u: "update_evaluation_group cid d g0 c False ch = Inr (g, d')" and n: "g_organization_id g \<noteq> g_organization_id g0"
  from u show ?thesis
  proof (rule update_evaluation_group_Inr)
    fix d1
    assume "case gu_allowed_model_ids ch of None \<Rightarrow> d1 = d | Some ms \<Rightarrow> (\<exists>pc. sync_group_models d (row_id g0) ms c = Inr (pc, d1))"
      and o: "case g_organization_id g of None \<Rightarrow> True
         | Some i \<Rightarrow> g_organization_id g = g_organization_id g0 \<or> False \<or> caller_live_organization d1 c = Some i"
    then obtain gm k where "d1 = d\<lparr>group_models := gm, next_id := k\<rparr>" using update_only_models by blast
    then show ?thesis using o n assms(2) by simp
  qed
qed

lemma merged_group_fields:
  "row_id (merged_group cid g ch) = row_id g" "deleted_at (merged_group cid g ch) = deleted_at g"
  "g_status (merged_group cid g ch) = g_status g" "g_rejection_reason (merged_group cid g ch) = g_rejection_reason g"
  "g_created_by_id (merged_group cid g ch) = g_created_by_id g"
  "g_access_level (merged_group cid g ch) = set_or (g_access_level g) (gu_access_level ch)"
  "g_data_license_id (merged_group cid g ch) =
     (case gu_data_license_id ch of Some x \<Rightarrow> x
      | None \<Rightarrow> (case g_data_license_id g of Some x \<Rightarrow> Some x
          | None \<Rightarrow> if set_or (g_access_level g) (gu_access_level ch) = g_access_level g then None
                   else default_license_for_access cid (set_or (g_access_level g) (gu_access_level ch))))"
proof -
  have f: "row_id (set_group_fields g ch) = row_id g" "deleted_at (set_group_fields g ch) = deleted_at g"
    "g_status (set_group_fields g ch) = g_status g" "g_rejection_reason (set_group_fields g ch) = g_rejection_reason g"
    "g_created_by_id (set_group_fields g ch) = g_created_by_id g"
    "g_access_level (set_group_fields g ch) = set_or (g_access_level g) (gu_access_level ch)"
    "g_data_license_id (set_group_fields g ch) = set_or (g_data_license_id g) (gu_data_license_id ch)"
    unfolding set_group_fields_def by simp_all
  note m = merged_group_def Let_def f
  show "row_id (merged_group cid g ch) = row_id g" "deleted_at (merged_group cid g ch) = deleted_at g"
    "g_status (merged_group cid g ch) = g_status g" "g_rejection_reason (merged_group cid g ch) = g_rejection_reason g"
    "g_created_by_id (merged_group cid g ch) = g_created_by_id g"
    "g_access_level (merged_group cid g ch) = set_or (g_access_level g) (gu_access_level ch)"
    by (simp_all add: m split: option.split)
  show "g_data_license_id (merged_group cid g ch) =
     (case gu_data_license_id ch of Some x \<Rightarrow> x
      | None \<Rightarrow> (case g_data_license_id g of Some x \<Rightarrow> Some x
          | None \<Rightarrow> if set_or (g_access_level g) (gu_access_level ch) = g_access_level g then None
                   else default_license_for_access cid (set_or (g_access_level g) (gu_access_level ch))))"
    by (cases "gu_data_license_id ch"; cases "g_data_license_id g")
      (simp_all add: m derived_update_license_def set_or_def split: option.splits)
qed

lemma merged_group_license_live:
  assumes "\<forall>i. gu_data_license_id ch = Some (Some i) \<longrightarrow> license_is_live d i"
    and "\<forall>i. derived_update_license cid g (set_group_fields g ch) ch = Some i \<longrightarrow> license_is_live d i"
    and "g_data_license_id (merged_group cid g ch) = Some l" "g_data_license_id g \<noteq> Some l"
  shows "license_is_live d l"
  using assms
  by (auto simp: merged_group_def set_group_fields_def Let_def set_or_def split: option.splits)

lemma merged_group_invitation_only:
  assumes "set_or (g_access_level g) (gu_access_level ch) = INVITATION_ONLY" "g_access_level g \<noteq> INVITATION_ONLY"
    and "gu_data_license_id ch = None" "g_data_license_id g = None"
  shows "g_data_license_id (merged_group cid g ch) = Some (cid NO_LICENSE_SPDX_ID)"
  using assms by (simp add: merged_group_fields)

text \<open>an accepted edit leaves the group in a valid merged state.  Its dates are in order, its organization
  (required by organization access) is live; the lifecycle status and the creator are untouched; a new
  licence is a live one, a stored licence is never replaced unless the payload names one, and a group
  that turns invitation-only with no licence of its own gets the no-license sentinel; no other
  group's row changes.\<close>

lemma update_group_sound:
  assumes "get_evaluation_group d i c m = Inr g" and "distinct (map row_id (groups d))"
    and u: "update_evaluation_group cid d g c m ch = Inr (g', d')"
  shows "(\<forall>s e. g_start_date g' = Some s \<and> g_end_date g' = Some e \<longrightarrow> s < e) \<and>
    (g_access_level g' = ORGANIZATION \<longrightarrow> g_organization_id g' \<noteq> None) \<and>
    (\<forall>j. g_organization_id g' = Some j \<longrightarrow> live_org d j) \<and>
    g_status g' = g_status g \<and> g_rejection_reason g' = g_rejection_reason g \<and> g_created_by_id g' = g_created_by_id g \<and>
    (\<forall>l. g_data_license_id g' = Some l \<and> g_data_license_id g \<noteq> Some l \<longrightarrow> license_is_live d l) \<and>
    (\<forall>l. g_data_license_id g = Some l \<and> gu_data_license_id ch = None \<longrightarrow> g_data_license_id g' = Some l) \<and>
    (g_access_level g' = INVITATION_ONLY \<and> g_access_level g \<noteq> INVITATION_ONLY \<and> gu_data_license_id ch = None \<longrightarrow>
       g_data_license_id g' = (case g_data_license_id g of Some l \<Rightarrow> Some l | None \<Rightarrow> Some (cid NO_LICENSE_SPDX_ID))) \<and>
    live_by_id i (groups d') = Some g' \<and> (\<forall>j. j \<noteq> i \<longrightarrow> live_by_id j (groups d') = live_by_id j (groups d))"
  using u
proof (rule update_evaluation_group_Inr)
  fix d1
  assume lic: "\<forall>i. gu_data_license_id ch = Some (Some i) \<longrightarrow> license_is_live d i"
    "\<forall>i. derived_update_license cid g (set_group_fields g ch) ch = Some i \<longrightarrow> license_is_live d i"
    and g': "g' = merged_group cid g ch"
    and m1: "case gu_allowed_model_ids ch of None \<Rightarrow> d1 = d | Some ms \<Rightarrow> (\<exists>pc. sync_group_models d (row_id g) ms c = Inr (pc, d1))"
    and dates: "\<forall>s. g_start_date g' = Some s \<longrightarrow> \<not> dates_out_of_order s (g_end_date g')"
    and org: "validate_group_org d1 (g_access_level g') (g_organization_id g') = Inr ()"
    and d': "d' = d1\<lparr>groups := save_row g' (groups d1)\<rparr>"
  obtain gm k where d1: "d1 = d\<lparr>group_models := gm, next_id := k\<rparr>" using update_only_models [OF m1] by blast
  have live: "g \<in> set (groups d)" "deleted_at g = None" "row_id g = i"
    using get_evaluation_group_Inr [OF assms(1)] by auto
  have "\<forall>s e. g_start_date g' = Some s \<and> g_end_date g' = Some e \<longrightarrow> s < e"
    using dates by (auto simp: dates_out_of_order_def split: option.splits)
  moreover have "(g_access_level g' = ORGANIZATION \<longrightarrow> g_organization_id g' \<noteq> None) \<and>
      (\<forall>j. g_organization_id g' = Some j \<longrightarrow> live_org d j)"
    using org d1 by (auto simp: validate_group_org_Inr live_org_def)
  moreover have "\<forall>l. g_data_license_id g' = Some l \<and> g_data_license_id g \<noteq> Some l \<longrightarrow> license_is_live d l"
    using merged_group_license_live [OF lic] g' by blast
  moreover have "live_by_id i (groups d') = Some g'"
    using live_by_id_save_row_same [of g' "groups d"] live d' d1 g' by (auto simp: merged_group_fields)
  moreover have "\<forall>j. j \<noteq> i \<longrightarrow> live_by_id j (groups d') = live_by_id j (groups d)"
    using live d' d1 g' by (simp add: merged_group_fields)
  ultimately show ?thesis using live
    by (simp add: g' merged_group_fields split: option.splits)
qed

end
