(* ===== verification/Duplicate.thy ===== *)
theory Duplicate
  imports Evaluation_Groups "HOL-Library.Multiset"
begin

section \<open>Duplicating a group\<close>

text \<open>
  \<open>duplicate_evaluation_group\<close> of \<open>app/core/evaluations/services/evaluation_groups.py\<close>: a fresh draft with the
  source's fields and allowed models and, on request, a deep copy of its evaluations with their tag keys,
  model assignments, scenarios and tasks.  The code loads the whole source graph before it adds a row;
  the copying functions take that database as \<open>d0\<close> and the growing one as \<open>d\<close>.  The
  clones share one creation time, so only the order of scenarios, which carry a position, is meaningful:
  what a copy must reproduce is stated with multisets.
\<close>

definition tag_keys_of :: "db \<Rightarrow> uuid \<Rightarrow> evaluation_tag_key list" where
  "tag_keys_of d evaluation_id = filter (\<lambda>k. tk_evaluation_id k = evaluation_id) (live_select (tag_keys d))"

definition models_of :: "db \<Rightarrow> uuid \<Rightarrow> evaluation_ai_model list" where
  "models_of d evaluation_id = filter (\<lambda>a. em_evaluation_id a = evaluation_id) (live_select (eval_models d))"

definition scenarios_of :: "db \<Rightarrow> uuid \<Rightarrow> scenario list" where
  "scenarios_of d evaluation_id =
     sort_key s_position (filter (\<lambda>s. s_evaluation_id s = evaluation_id) (live_select (scenarios d)))"

definition tasks_of :: "db \<Rightarrow> uuid \<Rightarrow> task list" where
  "tasks_of d scenario_id = filter (\<lambda>t. t_scenario_id t = scenario_id) (live_select (tasks d))"

text \<open>\<open>not (row.ai_model is not None and row.ai_model.deleted_at is not None)\<close>.\<close>

definition model_kept :: "db \<Rightarrow> uuid \<Rightarrow> bool" where
  "model_kept d model_id =
     (case List.find (\<lambda>m. row_id m = model_id) (ai_models d) of None \<Rightarrow> True | Some m \<Rightarrow> deleted_at m = None)"

text \<open>\<open>EVALUATION_DEFAULT_ORDER\<close>: by creation time, then by key.\<close>

definition ordered_evaluations_of :: "db \<Rightarrow> uuid \<Rightarrow> evaluation list" where
  "ordered_evaluations_of d group_id = sort_key created_at (sort_key row_id (evaluations_of d group_id))"

fun copy_tasks :: "db \<Rightarrow> uuid \<Rightarrow> task list \<Rightarrow> db" where
  "copy_tasks d scenario_id [] = d"
| "copy_tasks d scenario_id (t # ts) =
     copy_tasks (d\<lparr>tasks := tasks d @ [\<lparr>row_id = next_id d, created_at = now d, deleted_at = None, deleted_by_id = None,
        t_name = t_name t, t_description = t_description t, t_scenario_id = scenario_id\<rparr>],
        next_id := Suc (next_id d)\<rparr>) scenario_id ts"

fun copy_tag_keys :: "db \<Rightarrow> uuid \<Rightarrow> evaluation_tag_key list \<Rightarrow> db" where
  "copy_tag_keys d evaluation_id [] = d"
| "copy_tag_keys d evaluation_id (k # ks) =
     copy_tag_keys (d\<lparr>tag_keys := tag_keys d @ [\<lparr>row_id = next_id d, created_at = now d, deleted_at = None,
        deleted_by_id = None, tk_evaluation_id = evaluation_id, tk_key = tk_key k\<rparr>],
        next_id := Suc (next_id d)\<rparr>) evaluation_id ks"

fun copy_models :: "db \<Rightarrow> uuid \<Rightarrow> evaluation_ai_model list \<Rightarrow> db" where
  "copy_models d evaluation_id [] = d"
| "copy_models d evaluation_id (a # as) =
     copy_models (d\<lparr>eval_models := eval_models d @ [\<lparr>row_id = next_id d, created_at = now d, deleted_at = None,
        deleted_by_id = None, em_model_id = em_model_id a, em_evaluation_id = evaluation_id,
        em_model_display_mask = em_model_display_mask a, em_parameters = em_parameters a\<rparr>],
        next_id := Suc (next_id d)\<rparr>) evaluation_id as"

definition copy_scenario :: "db \<Rightarrow> db \<Rightarrow> uuid \<Rightarrow> scenario \<Rightarrow> db" where
  "copy_scenario d0 d evaluation_id s =
     copy_tasks (d\<lparr>scenarios := scenarios d @ [\<lparr>row_id = next_id d, created_at = now d, deleted_at = None,
        deleted_by_id = None, s_name = s_name s, s_description = s_description s, s_evaluation_id = evaluation_id,
        s_position = s_position s, s_required_reviews = s_required_reviews s\<rparr>],
        next_id := Suc (next_id d)\<rparr>) (next_id d) (tasks_of d0 (row_id s))"

definition copy_scenarios :: "db \<Rightarrow> db \<Rightarrow> uuid \<Rightarrow> scenario list \<Rightarrow> db" where
  "copy_scenarios d0 d evaluation_id ss = foldl (\<lambda>d s. copy_scenario d0 d evaluation_id s) d ss"

definition new_evaluation_copy :: "db \<Rightarrow> uuid \<Rightarrow> uuid \<Rightarrow> evaluation \<Rightarrow> evaluation" where
  "new_evaluation_copy d caller_id group_id e =
     \<lparr>row_id = next_id d, created_at = now d, deleted_at = None, deleted_by_id = None, e_title = e_title e,
      e_description = e_description e, e_mask_models_enabled = e_mask_models_enabled e, e_tags_enabled = e_tags_enabled e,
      e_tags_restricted = e_tags_restricted e, e_cover_image = e_cover_image e, e_data_license_id = e_data_license_id e,
      e_status = ES_NEW, e_rejection_reason = None, e_created_by_id = caller_id, e_evaluation_group_id = group_id\<rparr>"

definition copy_evaluation :: "db \<Rightarrow> uuid \<Rightarrow> uuid \<Rightarrow> db \<Rightarrow> evaluation \<Rightarrow> db" where
  "copy_evaluation d0 caller_id group_id d e =
     (let n = next_id d;
          d1 = d\<lparr>evaluations := evaluations d @ [new_evaluation_copy d caller_id group_id e], next_id := Suc n\<rparr>;
          d2 = copy_tag_keys d1 n (tag_keys_of d0 (row_id e));
          d3 = copy_models d2 n (filter (\<lambda>a. model_kept d0 (em_model_id a)) (models_of d0 (row_id e)))
      in copy_scenarios d0 d3 n (scenarios_of d0 (row_id e)))"

definition duplicate_evaluation_group ::
  "db \<Rightarrow> uuid \<Rightarrow> uuid \<Rightarrow> bool \<Rightarrow> bool \<Rightarrow> (evaluation_group \<times> db) result" where
  "duplicate_evaluation_group d source_group_id caller_id can_manage include_children =
     bindE (get_evaluation_group d source_group_id caller_id can_manage) (\<lambda>source.
     bindE (assert_group_write_access d (row_id source) caller_id can_manage EVALUATION_GROUPS_UPDATE
       (Msg ''Evaluation group {} not found.'' [AId source_group_id])) (\<lambda>_.
     let organization_id = (case g_organization_id source of None \<Rightarrow> None
           | Some i \<Rightarrow> if live_org d i then Some i else None)
     in bindE (persist_new_group d caller_id
          \<lparr>gf_title = g_title source, gf_description = g_description source, gf_access = g_access_level source,
           gf_during = g_metrics_access_during source, gf_after = g_metrics_access_after source,
           gf_organization_id = organization_id, gf_start_date = g_start_date source,
           gf_end_date = g_end_date source\<rparr> (g_data_license_id source) PS_DRAFT) (\<lambda>(copy, d1).
        let d2 = add_group_models d1 (row_id copy)
              (filter (model_kept d) (map gm_model_id (allowed_rows d (row_id source))))
        in Inr (copy, if include_children
             then foldl (copy_evaluation d caller_id (row_id copy)) d2 (ordered_evaluations_of d (row_id source))
             else d2))))"

subsection \<open>What a copy must reproduce\<close>

type_synonym scenario_content = "string \<times> string \<times> nat \<times> int \<times> (string \<times> string) multiset"
type_synonym evaluation_content =
  "(string \<times> string option \<times> bool \<times> bool \<times> bool \<times> string option \<times> uuid option) \<times> string multiset \<times>
   (uuid \<times> string option \<times> (string \<times> string) list) multiset \<times> scenario_content multiset"

definition scenario_view :: "db \<Rightarrow> scenario \<Rightarrow> scenario_content" where
  "scenario_view d s = (s_name s, s_description s, s_position s, s_required_reviews s,
     mset (map (\<lambda>t. (t_name t, t_description t)) (tasks_of d (row_id s))))"

definition model_view :: "evaluation_ai_model \<Rightarrow> uuid \<times> string option \<times> (string \<times> string) list" where
  "model_view a = (em_model_id a, em_model_display_mask a, em_parameters a)"

definition evaluation_view :: "db \<Rightarrow> evaluation \<Rightarrow> evaluation_content" where
  "evaluation_view d e = ((e_title e, e_description e, e_mask_models_enabled e, e_tags_enabled e, e_tags_restricted e,
       e_cover_image e, e_data_license_id e),
     mset (map tk_key (tag_keys_of d (row_id e))),
     mset (map model_view (filter (\<lambda>a. model_kept d (em_model_id a)) (models_of d (row_id e)))),
     mset (map (scenario_view d) (scenarios_of d (row_id e))))"

text \<open>References point below the key supply, as foreign keys to existing rows do.\<close>

definition refs_ok :: "db \<Rightarrow> bool" where
  "refs_ok d \<longleftrightarrow>
     (\<forall>t\<in>set (tasks d). t_scenario_id t < next_id d) \<and>
     (\<forall>s\<in>set (scenarios d). row_id s < next_id d \<and> s_evaluation_id s < next_id d) \<and>
     (\<forall>k\<in>set (tag_keys d). tk_evaluation_id k < next_id d) \<and>
     (\<forall>a\<in>set (eval_models d). em_evaluation_id a < next_id d) \<and>
     (\<forall>e\<in>set (evaluations d). row_id e < next_id d \<and> e_evaluation_group_id e < next_id d) \<and>
     (\<forall>r\<in>set (group_models d). gm_evaluation_group_id r < next_id d)"

text \<open>\<open>d'\<close> extends \<open>d\<close>: rows are only appended, tasks only under scenarios from \<open>a\<close> on, and the other
  children only under evaluations from \<open>b\<close> on.\<close>

definition extends :: "uuid \<Rightarrow> uuid \<Rightarrow> db \<Rightarrow> db \<Rightarrow> bool" where
  "extends a b d d' \<longleftrightarrow> next_id d \<le> next_id d' \<and> now d' = now d \<and> ai_models d' = ai_models d \<and>
     groups d' = groups d \<and> group_models d' = group_models d \<and> assignments d' = assignments d \<and>
     roles d' = roles d \<and> users d' = users d \<and>
     (\<exists>ts. tasks d' = tasks d @ ts \<and> (\<forall>t\<in>set ts. a \<le> t_scenario_id t)) \<and>
     (\<exists>ss. scenarios d' = scenarios d @ ss \<and> (\<forall>s\<in>set ss. b \<le> s_evaluation_id s)) \<and>
     (\<exists>ks. tag_keys d' = tag_keys d @ ks \<and> (\<forall>k\<in>set ks. b \<le> tk_evaluation_id k)) \<and>
     (\<exists>ms. eval_models d' = eval_models d @ ms \<and> (\<forall>m\<in>set ms. b \<le> em_evaluation_id m))"

lemma extends_refl: "extends a b d d"
  by (simp add: extends_def)

lemma extends_trans:
  "extends a b d d' \<Longrightarrow> extends a' b' d' d'' \<Longrightarrow> a \<le> a' \<Longrightarrow> b \<le> b' \<Longrightarrow> extends a b d d''"
  by (force simp: extends_def)

lemma extends_weaken: "extends a' b' d d' \<Longrightarrow> a \<le> a' \<Longrightarrow> b \<le> b' \<Longrightarrow> extends a b d d'"
  using extends_trans [OF _ extends_refl] by (force simp: extends_def)

lemma live_select_append [simp]: "live_select (xs @ ys) = live_select xs @ live_select ys"
  by (simp add: live_select_def)

lemma filter_key_new:
  "\<forall>x\<in>set new. a \<le> k x \<Longrightarrow> i < (a::nat) \<Longrightarrow>
     filter (\<lambda>x. k x = i) (live_select (old @ new)) = filter (\<lambda>x. k x = i) (live_select old)"
  by (force simp: filter_empty_conv)

lemma extends_children:
  assumes "extends a b d d'"
  shows "i < a \<Longrightarrow> tasks_of d' i = tasks_of d i" "j < b \<Longrightarrow> tag_keys_of d' j = tag_keys_of d j"
    "j < b \<Longrightarrow> models_of d' j = models_of d j" "j < b \<Longrightarrow> scenarios_of d' j = scenarios_of d j"
    "model_kept d' = model_kept d"
proof -
  from assms obtain ts ss ks ms where
    "tasks d' = tasks d @ ts" "\<forall>t\<in>set ts. a \<le> t_scenario_id t"
    "scenarios d' = scenarios d @ ss" "\<forall>s\<in>set ss. b \<le> s_evaluation_id s"
    "tag_keys d' = tag_keys d @ ks" "\<forall>k\<in>set ks. b \<le> tk_evaluation_id k"
    "eval_models d' = eval_models d @ ms" "\<forall>m\<in>set ms. b \<le> em_evaluation_id m"
    by (auto simp: extends_def)
  note e = this
  show "i < a \<Longrightarrow> tasks_of d' i = tasks_of d i"
    unfolding tasks_of_def e(1) using e(2) by (rule filter_key_new)
  show "j < b \<Longrightarrow> tag_keys_of d' j = tag_keys_of d j"
    unfolding tag_keys_of_def e(5) using e(6) by (rule filter_key_new)
  show "j < b \<Longrightarrow> models_of d' j = models_of d j"
    unfolding models_of_def e(7) using e(8) by (rule filter_key_new)
  show "j < b \<Longrightarrow> scenarios_of d' j = scenarios_of d j"
    unfolding scenarios_of_def e(3) using filter_key_new [OF e(4)] by simp
  show "model_kept d' = model_kept d" using assms by (simp add: model_kept_def extends_def fun_eq_iff)
qed

lemma extends_view:
  assumes "refs_ok d" "extends (next_id d) (next_id d) d d'" "row_id e < next_id d"
  shows "evaluation_view d' e = evaluation_view d e"
proof -
  have "scenario_view d' s = scenario_view d s" if "s \<in> set (scenarios_of d (row_id e))" for s
  proof -
    have "row_id s < next_id d" using that assms(1) by (auto simp: scenarios_of_def refs_ok_def)
    then show ?thesis by (simp add: scenario_view_def extends_children(1) [OF assms(2)])
  qed
  then show ?thesis
    by (simp add: evaluation_view_def extends_children(2-5) [OF assms(2)] assms(3) cong: map_cong)
qed

subsection \<open>The copying loops\<close>

lemma filter_key_fresh: "\<forall>x\<in>set t. k x < n \<Longrightarrow> filter (\<lambda>x. k x = (n::nat)) (live_select t) = []"
  by (force simp: filter_empty_conv)

lemma refs_fresh:
  assumes "refs_ok d"
  shows "tasks_of d (next_id d) = []" "tag_keys_of d (next_id d) = []" "models_of d (next_id d) = []"
    "filter (\<lambda>s. s_evaluation_id s = next_id d) (live_select (scenarios d)) = []" "evaluations_of d (next_id d) = []"
  using assms unfolding refs_ok_def tasks_of_def tag_keys_of_def models_of_def evaluations_of_def
  by (simp_all add: filter_key_fresh)

lemma copy_tasks_grow:
  fixes d i ts defines "d' \<equiv> copy_tasks d i ts"
  assumes "i < next_id d" "refs_ok d"
  shows "extends i b d d' \<and> refs_ok d' \<and> evaluations d' = evaluations d \<and> scenarios d' = scenarios d \<and>
    tag_keys d' = tag_keys d \<and> eval_models d' = eval_models d \<and>
    map (\<lambda>t. (t_name t, t_description t)) (tasks_of d' i) =
      map (\<lambda>t. (t_name t, t_description t)) (tasks_of d i) @ map (\<lambda>t. (t_name t, t_description t)) ts"
  using assms(2-) unfolding d'_def
proof (induction d i ts rule: copy_tasks.induct)
  case (1 d i)
  then show ?case by (simp add: extends_refl)
next
  case (2 d i t ts)
  let ?t = "\<lparr>row_id = next_id d, created_at = now d, deleted_at = None, deleted_by_id = None,
        t_name = t_name t, t_description = t_description t, t_scenario_id = i\<rparr>"
  let ?d = "d\<lparr>tasks := tasks d @ [?t], next_id := Suc (next_id d)\<rparr>"
  have r: "refs_ok ?d" using 2(2,3) by (fastforce simp: refs_ok_def)
  have e: "extends i b d ?d" by (simp add: extends_def)
  have t: "tasks_of ?d i = tasks_of d i @ [?t]" by (simp add: tasks_of_def live_select_def)
  have IH: "extends i b ?d (copy_tasks ?d i ts)" using 2 r by simp
  show ?case using 2 r t extends_trans [OF e IH] by simp
qed

lemma copy_tag_keys_grow:
  fixes d i ks defines "d' \<equiv> copy_tag_keys d i ks"
  assumes "i < next_id d" "refs_ok d"
  shows "extends a i d d' \<and> refs_ok d' \<and> evaluations d' = evaluations d \<and> scenarios d' = scenarios d \<and>
    eval_models d' = eval_models d \<and> map tk_key (tag_keys_of d' i) = map tk_key (tag_keys_of d i) @ map tk_key ks"
  using assms(2-) unfolding d'_def
proof (induction d i ks rule: copy_tag_keys.induct)
  case (1 d i)
  then show ?case by (simp add: extends_refl)
next
  case (2 d i k ks)
  let ?k = "\<lparr>row_id = next_id d, created_at = now d, deleted_at = None, deleted_by_id = None,
        tk_evaluation_id = i, tk_key = tk_key k\<rparr>"
  let ?d = "d\<lparr>tag_keys := tag_keys d @ [?k], next_id := Suc (next_id d)\<rparr>"
  have r: "refs_ok ?d" using 2(2,3) by (fastforce simp: refs_ok_def)
  have e: "extends a i d ?d" by (simp add: extends_def)
  have t: "tag_keys_of ?d i = tag_keys_of d i @ [?k]" by (simp add: tag_keys_of_def live_select_def)
  have IH: "extends a i ?d (copy_tag_keys ?d i ks)" using 2 r by simp
  show ?case using 2 r t extends_trans [OF e IH] by simp
qed

lemma copy_models_grow:
  fixes d i as defines "d' \<equiv> copy_models d i as"
  assumes "i < next_id d" "refs_ok d"
  shows "extends a i d d' \<and> refs_ok d' \<and> evaluations d' = evaluations d \<and> scenarios d' = scenarios d \<and>
    tag_keys d' = tag_keys d \<and> map model_view (models_of d' i) = map model_view (models_of d i) @ map model_view as"
  using assms(2-) unfolding d'_def
proof (induction d i as rule: copy_models.induct)
  case (1 d i)
  then show ?case by (simp add: extends_refl)
next
  case (2 d i m ms)
  let ?m = "\<lparr>row_id = next_id d, created_at = now d, deleted_at = None, deleted_by_id = None, em_model_id = em_model_id m,
        em_evaluation_id = i, em_model_display_mask = em_model_display_mask m, em_parameters = em_parameters m\<rparr>"
  let ?d = "d\<lparr>eval_models := eval_models d @ [?m], next_id := Suc (next_id d)\<rparr>"
  have r: "refs_ok ?d" using 2(2,3) by (fastforce simp: refs_ok_def)
  have e: "extends a i d ?d" by (simp add: extends_def)
  have t: "models_of ?d i = models_of d i @ [?m]" by (simp add: models_of_def live_select_def)
  have IH: "extends a i ?d (copy_models ?d i ms)" using 2 r by simp
  show ?case using 2 r t extends_trans [OF e IH] by (simp add: model_view_def)
qed

lemma copy_scenario_grow:
  fixes d0 d i s defines "d' \<equiv> copy_scenario d0 d i s"
  assumes "i < next_id d" "refs_ok d"
  shows "extends (next_id d) i d d' \<and> refs_ok d' \<and> evaluations d' = evaluations d \<and> tag_keys d' = tag_keys d \<and>
    eval_models d' = eval_models d \<and>
    (\<exists>s'. scenarios d' = scenarios d @ [s'] \<and> row_id s' = next_id d \<and> next_id d < next_id d' \<and>
       s_evaluation_id s' = i \<and> deleted_at s' = None \<and> scenario_view d' s' = scenario_view d0 s)"
proof -
  let ?s = "\<lparr>row_id = next_id d, created_at = now d, deleted_at = None, deleted_by_id = None, s_name = s_name s,
      s_description = s_description s, s_evaluation_id = i, s_position = s_position s, s_required_reviews = s_required_reviews s\<rparr>"
  let ?d = "d\<lparr>scenarios := scenarios d @ [?s], next_id := Suc (next_id d)\<rparr>"
  have d': "d' = copy_tasks ?d (next_id d) (tasks_of d0 (row_id s))" by (simp add: d'_def copy_scenario_def)
  have r: "refs_ok ?d" using assms(2,3) by (fastforce simp: refs_ok_def)
  have e: "extends (next_id d) i d ?d" by (simp add: extends_def)
  have none: "tasks_of ?d (next_id d) = []"
    using refs_fresh(1) [OF assms(3)] by (simp add: tasks_of_def)
  have g: "extends (next_id d) i ?d d' \<and> refs_ok d' \<and> evaluations d' = evaluations ?d \<and> scenarios d' = scenarios ?d \<and>
      tag_keys d' = tag_keys ?d \<and> eval_models d' = eval_models ?d \<and>
      map (\<lambda>t. (t_name t, t_description t)) (tasks_of d' (next_id d)) =
        map (\<lambda>t. (t_name t, t_description t)) (tasks_of d0 (row_id s))"
    using copy_tasks_grow [OF _ r, of "next_id d" i] none by (simp add: d')
  have "scenario_view d' ?s = scenario_view d0 s" using g by (simp add: scenario_view_def del: mset_map)
  moreover have "next_id ?d \<le> next_id d'" using g by (simp add: extends_def)
  moreover have "extends (next_id d) i d d'" using extends_trans [OF e] g by blast
  ultimately show ?thesis using g by auto
qed

lemma copy_scenarios_grow:
  fixes d0 d i ss defines "d' \<equiv> copy_scenarios d0 d i ss"
  assumes "i < next_id d" "refs_ok d"
  shows "extends (next_id d) i d d' \<and> refs_ok d' \<and> evaluations d' = evaluations d \<and> tag_keys d' = tag_keys d \<and>
    eval_models d' = eval_models d \<and>
    (\<exists>ns. scenarios d' = scenarios d @ ns \<and> (\<forall>s\<in>set ns. s_evaluation_id s = i \<and> deleted_at s = None) \<and>
       map (scenario_view d') ns = map (scenario_view d0) ss)"
  using assms(2-) unfolding d'_def
proof (induction ss arbitrary: d)
  case Nil
  then show ?case by (simp add: copy_scenarios_def extends_refl)
next
  case (Cons s ss)
  let ?d = "copy_scenario d0 d i s" and ?d' = "copy_scenarios d0 d i (s # ss)"
  have d': "?d' = copy_scenarios d0 ?d i ss" by (simp add: copy_scenarios_def)
  obtain s' where h: "extends (next_id d) i d ?d" "refs_ok ?d" "evaluations ?d = evaluations d" "tag_keys ?d = tag_keys d"
    "eval_models ?d = eval_models d" "scenarios ?d = scenarios d @ [s']" "row_id s' = next_id d" "next_id d < next_id ?d"
    "s_evaluation_id s' = i" "deleted_at s' = None" "scenario_view ?d s' = scenario_view d0 s"
    using copy_scenario_grow [OF Cons(2,3), of d0 s] by blast
  have "i < next_id ?d" using Cons(2) h(8) by simp
  from Cons(1) [OF this h(2)] obtain ns where
    t: "extends (next_id ?d) i ?d ?d'" "refs_ok ?d'" "evaluations ?d' = evaluations ?d" "tag_keys ?d' = tag_keys ?d"
    "eval_models ?d' = eval_models ?d" "scenarios ?d' = scenarios ?d @ ns"
    "\<forall>s\<in>set ns. s_evaluation_id s = i \<and> deleted_at s = None" "map (scenario_view ?d') ns = map (scenario_view d0) ss"
    unfolding d' by blast
  have "scenario_view ?d' s' = scenario_view ?d s'"
    using extends_children(1) [OF t(1)] h(7,8) by (simp add: scenario_view_def)
  moreover have "extends (next_id d) i d ?d'" using extends_trans [OF h(1) t(1)] h(8) by simp
  ultimately show ?case
    using h t by (intro conjI exI [of _ "s' # ns"]) simp_all
qed

lemma kept_models:
  assumes "map model_view xs = map model_view (filter (\<lambda>a. P (em_model_id a)) ys)"
  shows "filter (\<lambda>a. P (em_model_id a)) xs = xs"
proof (rule filter_True, rule ballI)
  fix a assume "a \<in> set xs"
  then have "model_view a \<in> set (map model_view xs)" by simp
  then have "model_view a \<in> set (map model_view (filter (\<lambda>a. P (em_model_id a)) ys))" using assms by simp
  then show "P (em_model_id a)" by (auto simp: model_view_def)
qed

lemma copy_evaluation_grow:
  fixes d0 c g d e defines "d' \<equiv> copy_evaluation d0 c g d e"
  assumes "g < next_id d" "refs_ok d" "ai_models d = ai_models d0"
  shows "extends (next_id d) (next_id d) d d' \<and> refs_ok d' \<and>
    evaluations d' = evaluations d @ [new_evaluation_copy d c g e] \<and> next_id d < next_id d' \<and>
    evaluation_view d' (new_evaluation_copy d c g e) = evaluation_view d0 e"
proof -
  let ?n = "next_id d" and ?e = "new_evaluation_copy d c g e"
  let ?keep = "filter (\<lambda>a. model_kept d0 (em_model_id a)) (models_of d0 (row_id e))"
  define d1 where "d1 = d\<lparr>evaluations := evaluations d @ [?e], next_id := Suc ?n\<rparr>"
  define d2 where "d2 = copy_tag_keys d1 ?n (tag_keys_of d0 (row_id e))"
  define d3 where "d3 = copy_models d2 ?n ?keep"
  have d': "d' = copy_scenarios d0 d3 ?n (scenarios_of d0 (row_id e))"
    by (simp add: d'_def copy_evaluation_def Let_def d1_def d2_def d3_def)
  have r1: "refs_ok d1" using assms(2,3) by (fastforce simp: refs_ok_def d1_def new_evaluation_copy_def)
  have n1: "?n < next_id d1" by (simp add: d1_def)
  have x1: "extends ?n ?n d d1" by (simp add: extends_def d1_def)
  note k = copy_tag_keys_grow [OF n1 r1, of ?n "tag_keys_of d0 (row_id e)", folded d2_def]
  have n2: "?n < next_id d2" using k n1 by (simp add: extends_def)
  note m = copy_models_grow [OF n2, of ?n ?keep, folded d3_def]
  have m: "extends ?n ?n d2 d3 \<and> refs_ok d3 \<and> evaluations d3 = evaluations d2 \<and> scenarios d3 = scenarios d2 \<and>
    tag_keys d3 = tag_keys d2 \<and> map model_view (models_of d3 ?n) = map model_view (models_of d2 ?n) @ map model_view ?keep"
    using m k by blast
  have n3: "?n < next_id d3" using m n2 by (simp add: extends_def)
  obtain ns where s: "extends (next_id d3) ?n d3 d'" "refs_ok d'" "evaluations d' = evaluations d3" "tag_keys d' = tag_keys d3"
    "eval_models d' = eval_models d3" "scenarios d' = scenarios d3 @ ns" "\<forall>s\<in>set ns. s_evaluation_id s = ?n \<and> deleted_at s = None"
    "map (scenario_view d') ns = map (scenario_view d0) (scenarios_of d0 (row_id e))"
    using copy_scenarios_grow [OF n3, of d0 "scenarios_of d0 (row_id e)", folded d'] m by blast
  have x: "extends ?n ?n d d'"
  proof -
    have "extends ?n ?n d3 d'" using s(1) n3 by (auto intro: extends_weaken)
    then show ?thesis using x1 k m extends_trans by (meson order_refl)
  qed
  have tags: "map tk_key (tag_keys_of d' ?n) = map tk_key (tag_keys_of d0 (row_id e))"
    using k m s(4) refs_fresh(2) [OF assms(3)] by (simp add: tag_keys_of_def d1_def)
  have "models_of d2 ?n = []" using k refs_fresh(3) [OF assms(3)] by (simp add: models_of_def d1_def)
  then have mods: "map model_view (models_of d' ?n) = map model_view ?keep"
    using m s(5) by (simp add: models_of_def)
  have kept: "model_kept d' = model_kept d0"
    using x assms(4) by (simp add: model_kept_def extends_def fun_eq_iff)
  have "filter (\<lambda>s. s_evaluation_id s = ?n) (live_select (scenarios d3)) = []"
    using k m refs_fresh(4) [OF assms(3)] by (simp add: d1_def)
  then have "filter (\<lambda>s. s_evaluation_id s = ?n) (live_select (scenarios d')) = ns"
    using s(6,7) by (simp add: live_select_def)
  then have "mset (map (scenario_view d') (scenarios_of d' ?n)) = mset (map (scenario_view d') ns)"
    by (simp add: scenarios_of_def)
  then have scen: "mset (map (scenario_view d') (scenarios_of d' ?n)) = mset (map (scenario_view d0) (scenarios_of d0 (row_id e)))"
    using s(8) by simp
  have n: "row_id ?e = ?n" by (simp add: new_evaluation_copy_def)
  have "evaluation_view d' ?e = evaluation_view d0 e"
    unfolding evaluation_view_def n kept kept_models [OF mods] mods tags scen
    by (simp add: new_evaluation_copy_def)
  moreover have "next_id d3 \<le> next_id d'" using s(1) by (simp add: extends_def)
  ultimately show ?thesis using x s n3 m k by (auto simp: d1_def)
qed

lemma copy_evaluations_grow:
  fixes d0 c g d es defines "d' \<equiv> foldl (copy_evaluation d0 c g) d es"
  assumes "g < next_id d" "refs_ok d" "ai_models d = ai_models d0"
  shows "extends (next_id d) (next_id d) d d' \<and> refs_ok d' \<and>
    (\<exists>es'. evaluations d' = evaluations d @ es' \<and>
       (\<forall>e\<in>set es'. deleted_at e = None \<and> e_evaluation_group_id e = g \<and> e_status e = ES_NEW \<and> e_created_by_id e = c) \<and>
       map (evaluation_view d') es' = map (evaluation_view d0) es)"
  using assms(2-) unfolding d'_def
proof (induction es arbitrary: d)
  case Nil
  then show ?case by (simp add: extends_refl)
next
  case (Cons e es)
  let ?d = "copy_evaluation d0 c g d e" and ?e = "new_evaluation_copy d c g e"
  let ?d' = "foldl (copy_evaluation d0 c g) d (e # es)"
  have h: "extends (next_id d) (next_id d) d ?d" "refs_ok ?d" "evaluations ?d = evaluations d @ [?e]" "next_id d < next_id ?d"
    "evaluation_view ?d ?e = evaluation_view d0 e"
    using copy_evaluation_grow [OF Cons(2-4), of c e] by blast+
  have "ai_models ?d = ai_models d0" using h(1) Cons(4) by (simp add: extends_def)
  with Cons(1) [of ?d] Cons(2) h obtain es' where
    t: "extends (next_id ?d) (next_id ?d) ?d ?d'" "refs_ok ?d'" "evaluations ?d' = evaluations ?d @ es'"
    "\<forall>e\<in>set es'. deleted_at e = None \<and> e_evaluation_group_id e = g \<and> e_status e = ES_NEW \<and> e_created_by_id e = c"
    "map (evaluation_view ?d') es' = map (evaluation_view d0) es" by auto
  have "row_id ?e < next_id ?d" using h(4) by (simp add: new_evaluation_copy_def)
  then have v: "evaluation_view ?d' ?e = evaluation_view d0 e" using extends_view [OF h(2) t(1)] h(5) by simp
  have x: "extends (next_id d) (next_id d) d ?d'" using extends_trans [OF h(1) t(1)] h(4) by simp
  show ?case
    using h t v x by (intro conjI exI [of _ "?e # es'"]) (simp_all add: new_evaluation_copy_def)
qed

subsection \<open>The copy of a group\<close>

lemma duplicate_Inr:
  assumes "duplicate_evaluation_group d i c m ch = Inr (copy, d')"
  obtains source d1 where "get_evaluation_group d i c m = Inr source"
    "assert_group_write_access d i c m EVALUATION_GROUPS_UPDATE (Msg ''Evaluation group {} not found.'' [AId i]) = Inr ()"
    "persist_new_group d c
       \<lparr>gf_title = g_title source, gf_description = g_description source, gf_access = g_access_level source,
        gf_during = g_metrics_access_during source, gf_after = g_metrics_access_after source,
        gf_organization_id = (case g_organization_id source of None \<Rightarrow> None | Some i \<Rightarrow> if live_org d i then Some i else None),
        gf_start_date = g_start_date source, gf_end_date = g_end_date source\<rparr>
       (g_data_license_id source) PS_DRAFT = Inr (copy, d1)"
    "d' = (let d2 = add_group_models d1 (row_id copy) (filter (model_kept d) (map gm_model_id (allowed_rows d i))) in
       if ch then foldl (copy_evaluation d c (row_id copy)) d2 (ordered_evaluations_of d i) else d2)"
proof -
  from assms obtain source where s: "get_evaluation_group d i c m = Inr source" by (auto simp: duplicate_evaluation_group_def svc_simps)
  then have i: "row_id source = i" using get_evaluation_group_Inr by blast
  show thesis
    using assms s i that by (auto simp: duplicate_evaluation_group_def svc_simps Let_def)
qed

lemma add_group_models_refs: "refs_ok d \<Longrightarrow> g < next_id d \<Longrightarrow> refs_ok (add_group_models d g ms)"
proof (induction d g ms rule: add_group_models.induct)
  case (2 d g m ms)
  then show ?case by (fastforce simp: refs_ok_def)
qed simp

text \<open>The database right before the children are copied.\<close>

lemma duplicate_shell:
  assumes p: "persist_new_group d c f l PS_DRAFT = Inr (copy, d1)" and "refs_ok d"
    and d2: "d2 = add_group_models d1 (row_id copy) ms"
  shows "refs_ok d2 \<and> row_id copy = next_id d \<and> row_id copy < next_id d2 \<and> groups d2 = groups d @ [copy] \<and>
    evaluations d2 = evaluations d \<and> extends 0 0 (d\<lparr>groups := groups d2, group_models := group_models d2,
      assignments := assignments d2\<rparr>) d2 \<and> tasks d2 = tasks d \<and> scenarios d2 = scenarios d \<and> tag_keys d2 = tag_keys d \<and>
    eval_models d2 = eval_models d \<and> ai_models d2 = ai_models d \<and> allowed_models d2 (row_id copy) = set ms"
  using p
proof (rule persist_new_group_Inr)
  fix r as n assume g: "copy = new_group d c f l PS_DRAFT" and n: "next_id d < n"
    and d1: "d1 = d\<lparr>groups := groups d @ [copy], assignments := as, next_id := n\<rparr>"
  obtain gm k where sh: "d2 = d1\<lparr>group_models := gm, next_id := k\<rparr>" "next_id d1 \<le> k"
    using add_group_models_shape [of d1 "row_id copy" ms] d2 by blast
  have "refs_ok d1" using assms(2) n by (fastforce simp: refs_ok_def d1)
  then have "refs_ok d2" using add_group_models_refs [of d1 "row_id copy" ms] n d2 g d1 by simp
  moreover have "allowed_models d1 (row_id copy) = {}"
    using assms(2) g d1 by (fastforce simp: in_allowed_models refs_ok_def)
  then have "allowed_models d2 (row_id copy) = set ms" by (simp add: d2 allowed_models_add)
  ultimately show ?thesis using g n d1 sh by (simp add: extends_def)
qed

lemma evaluation_view_cong:
  assumes "tasks d' = tasks d" "scenarios d' = scenarios d" "tag_keys d' = tag_keys d" "eval_models d' = eval_models d"
    "ai_models d' = ai_models d"
  shows "evaluation_view d' = evaluation_view d"
  using assms
  by (simp add: fun_eq_iff evaluation_view_def scenario_view_def [abs_def] tasks_of_def scenarios_of_def tag_keys_of_def
      models_of_def model_kept_def)

lemma mset_ordered_evaluations [simp]: "mset (ordered_evaluations_of d i) = mset (evaluations_of d i)"
  by (simp add: ordered_evaluations_of_def)

text \<open>C12: a deep copy reproduces the source.  The evaluations of the copy have, as multisets, the content
  of the source's live evaluations, down to tag keys, live model assignments, scenarios with their
  positions and tasks; they start as new and belong to the caller; the copy is a draft whose allowed models are the
  source's live ones; and no existing evaluation changes.\<close>

theorem duplicate_copies_content:
  assumes "refs_ok d" and dup: "duplicate_evaluation_group d i c m True = Inr (copy, d')"
  shows "image_mset (evaluation_view d') (mset (evaluations_of d' (row_id copy))) =
      image_mset (evaluation_view d) (mset (evaluations_of d i)) \<and>
    (\<forall>e\<in>set (evaluations_of d' (row_id copy)). e_status e = ES_NEW \<and> e_created_by_id e = c) \<and>
    groups d' = groups d @ [copy] \<and> g_status copy = PS_DRAFT \<and>
    allowed_models d' (row_id copy) = {x \<in> allowed_models d i. model_kept d x} \<and>
    (\<forall>e\<in>set (evaluations d). e \<in> set (evaluations d') \<and> evaluation_view d' e = evaluation_view d e)"
  using dup
proof (rule duplicate_Inr)
  fix source d1
  let ?ms = "filter (model_kept d) (map gm_model_id (allowed_rows d i))"
  define d2 where "d2 = add_group_models d1 (row_id copy) ?ms"
  assume p: "persist_new_group d c
       \<lparr>gf_title = g_title source, gf_description = g_description source, gf_access = g_access_level source,
        gf_during = g_metrics_access_during source, gf_after = g_metrics_access_after source,
        gf_organization_id = (case g_organization_id source of None \<Rightarrow> None | Some i \<Rightarrow> if live_org d i then Some i else None),
        gf_start_date = g_start_date source, gf_end_date = g_end_date source\<rparr>
       (g_data_license_id source) PS_DRAFT = Inr (copy, d1)"
    and "d' = (let d2 = add_group_models d1 (row_id copy) ?ms in
       if True then foldl (copy_evaluation d c (row_id copy)) d2 (ordered_evaluations_of d i) else d2)"
  then have d': "d' = foldl (copy_evaluation d c (row_id copy)) d2 (ordered_evaluations_of d i)" by (simp add: d2_def)
  note sh = duplicate_shell [OF p assms(1) d2_def]
  obtain es where x: "extends (next_id d2) (next_id d2) d2 d'" and es: "evaluations d' = evaluations d2 @ es"
    "\<forall>e\<in>set es. deleted_at e = None \<and> e_evaluation_group_id e = row_id copy \<and> e_status e = ES_NEW \<and> e_created_by_id e = c"
    "map (evaluation_view d') es = map (evaluation_view d) (ordered_evaluations_of d i)"
    using copy_evaluations_grow [of "row_id copy" d2 d c "ordered_evaluations_of d i", folded d'] sh by blast
  have of_copy: "evaluations_of d' (row_id copy) = es"
    using es refs_fresh(5) [OF assms(1)] sh by (simp add: evaluations_of_def live_select_def)
  have v2: "evaluation_view d2 = evaluation_view d" using sh by (intro evaluation_view_cong) auto
  have "image_mset (evaluation_view d') (mset es) = image_mset (evaluation_view d) (mset (evaluations_of d i))"
    using arg_cong [OF es(3), of mset] by simp
  moreover have "\<forall>e\<in>set (evaluations d). evaluation_view d' e = evaluation_view d e"
  proof
    fix e assume "e \<in> set (evaluations d)"
    then have "row_id e < next_id d2" using sh by (auto simp: refs_ok_def)
    then show "evaluation_view d' e = evaluation_view d e" using extends_view [of d2 d' e] x sh v2 by simp
  qed
  moreover have "g_status copy = PS_DRAFT" using p by (auto elim!: persist_new_group_Inr)
  moreover have "group_models d' = group_models d2" "groups d' = groups d2" using x by (auto simp: extends_def)
  moreover from this have "allowed_models d' (row_id copy) = {x \<in> allowed_models d i. model_kept d x}"
    using sh by (auto simp: allowed_models_def allowed_rows_def)
  ultimately show ?thesis using of_copy es sh by auto
qed

subsection \<open>Ownership of new groups\<close>

lemma owner_granted:
  assumes "distinct (map row_id (roles d))" "get_role_by_name d ''owner'' = Inr r" "roles d' = roles d" "users d' = users d"
    "row_id r \<in> set (map a_role_id (live_assignments d' EVALUATION_GROUP i c))"
  shows "r \<in> set (held_roles d' EVALUATION_GROUP i c) \<and> r_name r = ''owner'' \<and>
    (is_live_user d c \<longrightarrow> protected_held d' EVALUATION_GROUP i)"
proof -
  have f: "List.find (\<lambda>x. r_name x = ''owner'') (live_select (roles d)) = Some r"
    using assms(2) by (simp add: get_role_by_name_def)
  have r: "r \<in> set (roles d)" "deleted_at r = None" "r_name r = ''owner''" using find_SomeD [OF f] by auto
  have "r \<in> set (held_roles d' EVALUATION_GROUP i c)"
    using in_held_roles_key [of d'] assms(1,3,5) r by auto
  moreover have "is_live_user d c \<longrightarrow> protected_held d' EVALUATION_GROUP i"
  proof
    assume "is_live_user d c"
    then have "is_live_user d' c" using assms(4) by (simp add: is_live_user_def)
    moreover have "protected_role_id d' OWNER = Some (row_id r)" using f assms(3) by (simp add: protected_role_id_def)
    moreover obtain a where "a \<in> set (live_assignments d' EVALUATION_GROUP i c)" "a_role_id a = row_id r"
      using assms(5) by auto
    ultimately show "protected_held d' EVALUATION_GROUP i"
      by (auto simp: protected_held_def in_live_assignments)
  qed
  ultimately show ?thesis using r by blast
qed

text \<open>The copying loops leave groups, accounts, roles and memberships alone.\<close>

definition same_members :: "db \<Rightarrow> db \<Rightarrow> bool" where
  "same_members d d' \<longleftrightarrow> roles d' = roles d \<and> users d' = users d \<and> groups d' = groups d \<and>
     assignments d' = assignments d \<and> next_id d \<le> next_id d'"

lemma same_members_trans: "same_members d d' \<Longrightarrow> same_members d' d'' \<Longrightarrow> same_members d d''"
  by (simp add: same_members_def)

lemma same_members_copy_tasks: "same_members d (copy_tasks d i ts)"
  by (induction d i ts rule: copy_tasks.induct) (auto simp: same_members_def)

lemma same_members_copy_tag_keys: "same_members d (copy_tag_keys d i ks)"
  by (induction d i ks rule: copy_tag_keys.induct) (auto simp: same_members_def)

lemma same_members_copy_models: "same_members d (copy_models d i as)"
  by (induction d i as rule: copy_models.induct) (auto simp: same_members_def)

lemmas same_members_copy = same_members_copy_tasks same_members_copy_tag_keys same_members_copy_models

lemma same_members_foldl: "(\<And>d x. same_members d (f d x)) \<Longrightarrow> same_members d (foldl f d xs)"
proof (induction xs arbitrary: d)
  case Nil
  then show ?case by (simp add: same_members_def)
next
  case (Cons x xs)
  then show ?case using same_members_trans by (metis foldl_Cons)
qed

lemma same_members_copy_scenario: "same_members d (copy_scenario d0 d i s)"
  unfolding copy_scenario_def by (rule same_members_trans [OF _ same_members_copy(1)]) (simp add: same_members_def)

lemma same_members_copy_evaluation: "same_members d (copy_evaluation d0 c g d e)"
  unfolding copy_evaluation_def copy_scenarios_def Let_def
  by (intro same_members_trans [OF _ same_members_foldl] same_members_copy_scenario
      same_members_trans [OF _ same_members_copy(3)] same_members_trans [OF _ same_members_copy(2)])
    (simp add: same_members_def)

lemma duplicate_same_members:
  assumes "d' = (let d2 = add_group_models d1 i ms in
       if ch then foldl (copy_evaluation d c i) d2 es else d2)"
  shows "same_members d1 d'"
proof -
  have "same_members d1 (add_group_models d1 i ms)"
    using add_group_models_shape [of d1 i ms] by (auto simp: same_members_def)
  moreover have "same_members d2 (foldl (copy_evaluation d c i) d2 es)" for d2
    by (rule same_members_foldl) (rule same_members_copy_evaluation)
  ultimately show ?thesis unfolding assms Let_def using same_members_trans by auto
qed

lemma write_gate_held:
  assumes "r \<in> set (held_roles d EVALUATION_GROUP i c)" "r_is_active r" "has_permission p (r_permissions r)"
  shows "assert_group_write_access d i c m p msg = Inr ()"
  using assms by (auto simp: assert_group_write_access_def Let_def has_permission_def)

lemma owner_of_persisted:
  assumes "distinct (map row_id (roles d))" "persist_new_group d c f l st = Inr (g, d1)" "same_members d1 d'"
  shows "live_by_id (row_id g) (groups d') \<noteq> None \<and> g \<in> set (live_select (groups d')) \<and> g_created_by_id g = c \<and>
    (\<exists>r\<in>set (held_roles d' EVALUATION_GROUP (row_id g) c). r_name r = ''owner'' \<and>
       (r_is_active r \<longrightarrow> (\<forall>p msg. has_permission p (r_permissions r) \<longrightarrow>
          assert_group_write_access d' (row_id g) c False p msg = Inr ()))) \<and>
    (is_live_user d c \<longrightarrow> protected_held d' EVALUATION_GROUP (row_id g))"
  using assms(2)
proof (rule persist_new_group_Inr)
  fix r as n assume g: "g = new_group d c f l st" and r: "get_role_by_name d ''owner'' = Inr r"
    and d1: "d1 = d\<lparr>groups := groups d @ [g], assignments := as, next_id := n\<rparr>"
    and a: "row_id r \<in> set (map a_role_id (live_assignments d1 EVALUATION_GROUP (row_id g) c))"
  have "live_assignments d' EVALUATION_GROUP (row_id g) c = live_assignments d1 EVALUATION_GROUP (row_id g) c"
    using assms(3) by (simp add: same_members_def live_assignments_def)
  then have o: "r \<in> set (held_roles d' EVALUATION_GROUP (row_id g) c) \<and> r_name r = ''owner'' \<and>
      (is_live_user d c \<longrightarrow> protected_held d' EVALUATION_GROUP (row_id g))"
    using owner_granted [OF assms(1) r, of d' "row_id g" c] a assms(3) d1 by (simp add: same_members_def)
  have "assert_group_write_access d' (row_id g) c False p msg = Inr ()"
    if "r_is_active r" "has_permission p (r_permissions r)" for p msg
    using write_gate_held o that by blast
  moreover have l: "g \<in> set (live_select (groups d'))" using g d1 assms(3) by (simp add: same_members_def)
  moreover have "live_by_id (row_id g) (groups d') \<noteq> None" using l by (auto simp: live_by_id_None)
  ultimately show ?thesis using o g by auto
qed

text \<open>Whoever creates a group, in full, as a draft or as a duplicate, owns it: the new group is live, records
  the caller as creator, and the caller holds the owner role on it, so passes the write gate for
  every permission an active owner role grants; a live caller is the live owner the membership
  operations then preserve.\<close>

lemma creator_owns_new_group:
  assumes "distinct (map row_id (roles d))"
    and "create_evaluation_group cid d c ti de lv du af org m s e l ls ms st = Inr (g, d') \<or>
      create_evaluation_group_draft cid d c f m l ls ms = Inr (g, d') \<or> duplicate_evaluation_group d i c m ch = Inr (g, d')"
  shows "g \<in> set (live_select (groups d')) \<and> g_created_by_id g = c \<and>
    (\<exists>r\<in>set (held_roles d' EVALUATION_GROUP (row_id g) c). r_name r = ''owner'' \<and>
       (r_is_active r \<longrightarrow> (\<forall>p msg. has_permission p (r_permissions r) \<longrightarrow>
          assert_group_write_access d' (row_id g) c False p msg = Inr ()))) \<and>
    (is_live_user d c \<longrightarrow> protected_held d' EVALUATION_GROUP (row_id g))"
proof -
  have sync: "same_members d1 d'" if "sync_group_models d1 j ms c = Inr (pc, d')" for d1 j pc
    using sync_group_models_shape [OF that] by (auto simp: same_members_def)
  have "\<exists>d1 f l st. persist_new_group d c f l st = Inr (g, d1) \<and> same_members d1 d'"
    using assms(2)
  proof (elim disjE)
    assume "create_evaluation_group cid d c ti de lv du af org m s e l ls ms st = Inr (g, d')"
    then show ?thesis by (rule create_evaluation_group_Inr) (use sync in blast)
  next
    assume "create_evaluation_group_draft cid d c f m l ls ms = Inr (g, d')"
    then show ?thesis by (rule create_evaluation_group_draft_Inr) (use sync in blast)
  next
    assume "duplicate_evaluation_group d i c m ch = Inr (g, d')"
    then show ?thesis by (rule duplicate_Inr) (use duplicate_same_members in blast)
  qed
  then show ?thesis using owner_of_persisted [OF assms(1)] by blast
qed

end
