(* ===== verification/Notifications.thy ===== *)
theory Notifications
  imports Db
begin

section \<open>Notifications\<close>

text \<open>
  \<open>app/core/notifications/services/notifications.py\<close>: rows other services mint for a user, read and marked
  by that user alone.
\<close>

definition get_notification :: "db \<Rightarrow> uuid \<Rightarrow> uuid \<Rightarrow> notification result" where
  "get_notification d notification_id user_id =
     the_or (NotFoundError (Msg ''Notification {} not found.'' [AId notification_id]))
       (List.find (\<lambda>n. row_id n = notification_id \<and> n_user_id n = user_id) (live_select (notifications d)))"

definition list_notifications ::
  "(notification \<Rightarrow> 'k::linorder) \<Rightarrow> db \<Rightarrow> uuid \<Rightarrow> bool option \<Rightarrow> notification_object_type option \<Rightarrow> nat \<Rightarrow> nat
     \<Rightarrow> notification list \<times> nat" where
  "list_notifications order_key d user_id read object_type limit offset =
     paginate limit offset (sort_key order_key (sort_key row_id (filter (\<lambda>n. n_user_id n = user_id \<and>
       (case read of None \<Rightarrow> True | Some b \<Rightarrow> (n_read_at n \<noteq> None) = b) \<and>
       (case object_type of None \<Rightarrow> True | Some t \<Rightarrow> n_object_type n = Some t)) (live_select (notifications d)))))"

text \<open>The rows \<open>mark_notifications\<close> touches: the caller's, in the opposite state, among \<open>ids\<close> unless empty.\<close>

definition marked :: "uuid \<Rightarrow> uuid list \<Rightarrow> bool \<Rightarrow> notification \<Rightarrow> bool" where
  "marked user_id ids read n \<longleftrightarrow> deleted_at n = None \<and> n_user_id n = user_id \<and> (n_read_at n = None) = read \<and>
     (ids = [] \<or> row_id n \<in> set ids)"

definition mark_notifications :: "db \<Rightarrow> uuid \<Rightarrow> uuid list \<Rightarrow> bool \<Rightarrow> nat \<times> db" where
  "mark_notifications d user_id ids read =
     (length (filter (marked user_id ids read) (notifications d)),
      d\<lparr>notifications := live_update (marked user_id ids read)
          (\<lambda>n. n\<lparr>n_read_at := if read then Some (now d) else None\<rparr>) (notifications d)\<rparr>)"

definition create_notification ::
  "db \<Rightarrow> uuid \<Rightarrow> string \<Rightarrow> detail option \<Rightarrow> notification_object_type option \<Rightarrow> uuid option \<Rightarrow> notification \<times> db" where
  "create_notification d user_id name description object_type object_id =
     (let n = \<lparr>row_id = next_id d, created_at = now d, deleted_at = None, deleted_by_id = None, n_user_id = user_id,
               n_name = name, n_description = description, n_read_at = None, n_object_type = object_type,
               n_object_id = object_id\<rparr>
      in (n, d\<lparr>notifications := notifications d @ [n], next_id := Suc (next_id d)\<rparr>))"

lemma create_notification_frame:
  assumes "create_notification d u n t ot oi = (x, d')"
  shows "d' = d\<lparr>notifications := notifications d @ [x], next_id := Suc (next_id d)\<rparr>" "n_user_id x = u" "deleted_at x = None"
    "n_name x = n" "n_object_id x = oi"
  using assms by (auto simp: create_notification_def Let_def)

text \<open>Marking notifications is the caller's own, counted and idempotent.  No other user's row
  changes, the count is the number of rows that flipped, and marking the same set again flips none.\<close>

lemma mark_notifications_own_and_counted:
  assumes "mark_notifications d u ids b = (k, d')"
  shows "(\<forall>n\<in>set (notifications d). n_user_id n \<noteq> u \<longrightarrow> n \<in> set (notifications d')) \<and>
         map row_id (notifications d') = map row_id (notifications d) \<and>
         k = length (filter (\<lambda>(n, n'). (n_read_at n = None) \<noteq> (n_read_at n' = None)) (zip (notifications d) (notifications d'))) \<and>
         fst (mark_notifications d' u ids b) = 0"
proof -
  let ?f = "\<lambda>n. n\<lparr>n_read_at := if b then Some (now d) else None\<rparr>"
  have k: "k = length (filter (marked u ids b) (notifications d))"
    and d': "notifications d' = map (\<lambda>n. if marked u ids b n then ?f n else n) (notifications d)"
    using assms by (auto simp: mark_notifications_def live_update_def marked_def)
  have count: "length (filter (\<lambda>(n, n'). (n_read_at n = None) \<noteq> (n_read_at n' = None))
      (zip xs (map (\<lambda>n. if marked u ids b n then ?f n else n) xs))) = length (filter (marked u ids b) xs)" for xs
    by (induction xs) (auto simp: marked_def)
  have "\<not> marked u ids b (?f n)" for n by (simp add: marked_def)
  then have again: "filter (marked u ids b) (notifications d') = []"
    by (auto simp: d' filter_empty_conv)
  have "\<forall>n\<in>set (notifications d). n_user_id n \<noteq> u \<longrightarrow> n \<in> set (notifications d')"
    by (auto simp: d' marked_def)
  moreover have "map row_id (notifications d') = map row_id (notifications d)" by (simp add: d')
  moreover have "k = length (filter (\<lambda>(n, n'). (n_read_at n = None) \<noteq> (n_read_at n' = None))
      (zip (notifications d) (notifications d')))"
    unfolding k d' count ..
  moreover have "fst (mark_notifications d' u ids b) = 0"
    using again by (simp add: mark_notifications_def)
  ultimately show ?thesis by blast
qed

end
