(* ===== verification/Publication.thy ===== *)
theory Publication
  imports Duplicate Notifications
begin

section \<open>The publication lifecycle of a group\<close>

text \<open>
  \<open>app/core/evaluations/services/publication.py\<close>: submit, publish, finish, and the moderation verdicts approve,
  request changes and reject.  A verdict notifies the group's creator unless they are the actor.
  \<open>group_step\<close> is every request that writes a group's row.
\<close>

fun PUBLICATION_TRANSITIONS :: "publication_status \<Rightarrow> publication_status list" where
  "PUBLICATION_TRANSITIONS PS_DRAFT = [PENDING_APPROVAL]"
| "PUBLICATION_TRANSITIONS CHANGES_REQUESTED = [PENDING_APPROVAL]"
| "PUBLICATION_TRANSITIONS PENDING_APPROVAL = [PS_APPROVED, NOT_APPROVED, CHANGES_REQUESTED]"
| "PUBLICATION_TRANSITIONS PS_APPROVED = [PS_PUBLISHED]"
| "PUBLICATION_TRANSITIONS PS_PUBLISHED = [PS_INACTIVE]"
| "PUBLICATION_TRANSITIONS NOT_APPROVED = []"
| "PUBLICATION_TRANSITIONS PS_INACTIVE = []"

definition assert_transition :: "evaluation_group \<Rightarrow> publication_status \<Rightarrow> unit result" where
  "assert_transition g target =
     ensure (target \<in> set (PUBLICATION_TRANSITIONS (g_status g)))
       (ConflictError (Msg ''Cannot move evaluation group {} from {} to {}.''
          [AId (row_id g), AStr (publication_status_value (g_status g)), AStr (publication_status_value target)]))"

definition save_group :: "db \<Rightarrow> evaluation_group \<Rightarrow> db" where
  "save_group d g = d\<lparr>groups := save_row g (groups d)\<rparr>"

definition notify_owner :: "db \<Rightarrow> evaluation_group \<Rightarrow> uuid \<Rightarrow> string \<Rightarrow> detail \<Rightarrow> db" where
  "notify_owner d g actor_id name description =
     (if actor_id = g_created_by_id g then d
      else snd (create_notification d (g_created_by_id g) name (Some description) (Some NOT_EVALUATION_GROUP) (Some (row_id g))))"

text \<open>The shared head of the owner-or-manager transitions: the visibility-scoped read and the write gate.\<close>

definition group_for_write :: "db \<Rightarrow> uuid \<Rightarrow> uuid \<Rightarrow> bool \<Rightarrow> evaluation_group result" where
  "group_for_write d group_id caller_id can_manage =
     bindE (get_evaluation_group d group_id caller_id can_manage) (\<lambda>g.
     bindE (assert_group_write_access d (row_id g) caller_id can_manage EVALUATION_GROUPS_UPDATE
       (Msg ''Evaluation group {} not found.'' [AId (row_id g)])) (\<lambda>_. Inr g))"

type_synonym transition_result = "((evaluation_group \<times> publication_status) \<times> db) result"

definition submit_evaluation_group :: "db \<Rightarrow> uuid \<Rightarrow> uuid \<Rightarrow> bool \<Rightarrow> transition_result" where
  "submit_evaluation_group d group_id caller_id can_manage =
     bindE (group_for_write d group_id caller_id can_manage) (\<lambda>g.
     bindE (assert_transition g PENDING_APPROVAL) (\<lambda>_.
     bindE (assert_group_submittable d g) (\<lambda>_.
     let g' = g\<lparr>g_status := PENDING_APPROVAL\<rparr> in Inr ((g', g_status g), save_group d g'))))"

definition publish_evaluation_group :: "db \<Rightarrow> uuid \<Rightarrow> uuid \<Rightarrow> bool \<Rightarrow> transition_result" where
  "publish_evaluation_group d group_id caller_id can_manage =
     bindE (group_for_write d group_id caller_id can_manage) (\<lambda>g.
     bindE (assert_transition g PS_PUBLISHED) (\<lambda>_.
     bindE (assert_group_publishable d g) (\<lambda>_.
     let g' = g\<lparr>g_status := PS_PUBLISHED\<rparr> in Inr ((g', g_status g), save_group d g'))))"

definition finish_evaluation_group :: "db \<Rightarrow> uuid \<Rightarrow> uuid \<Rightarrow> bool \<Rightarrow> transition_result" where
  "finish_evaluation_group d group_id caller_id can_manage =
     bindE (group_for_write d group_id caller_id can_manage) (\<lambda>g.
     bindE (assert_transition g PS_INACTIVE) (\<lambda>_.
     let g' = g\<lparr>g_status := PS_INACTIVE\<rparr> in Inr ((g', g_status g), save_group d g')))"

definition approve_evaluation_group :: "db \<Rightarrow> uuid \<Rightarrow> uuid \<Rightarrow> bool \<Rightarrow> transition_result" where
  "approve_evaluation_group d group_id caller_id can_manage =
     bindE (group_for_write d group_id caller_id can_manage) (\<lambda>g.
     bindE (assert_transition g PS_APPROVED) (\<lambda>_.
     let g' = g\<lparr>g_status := PS_APPROVED, g_rejection_reason := None\<rparr> in
     Inr ((g', g_status g), notify_owner (save_group d g') g' caller_id ''Evaluation group approved''
       (Msg ''Your evaluation group '{}' was approved.'' [AOpt (g_title g')]))))"

definition request_changes_for_evaluation_group :: "db \<Rightarrow> uuid \<Rightarrow> uuid \<Rightarrow> transition_result" where
  "request_changes_for_evaluation_group d group_id caller_id =
     bindE (get_evaluation_group d group_id caller_id True) (\<lambda>g.
     bindE (assert_transition g CHANGES_REQUESTED) (\<lambda>_.
     let g' = g\<lparr>g_status := CHANGES_REQUESTED, g_rejection_reason := None\<rparr> in
     Inr ((g', g_status g), notify_owner (save_group d g') g' caller_id ''Evaluation group changes requested''
       (Msg ''Changes were requested on your evaluation group '{}'.'' [AOpt (g_title g')]))))"

definition reject_evaluation_group :: "db \<Rightarrow> uuid \<Rightarrow> uuid \<Rightarrow> string \<Rightarrow> transition_result" where
  "reject_evaluation_group d group_id caller_id rejection_reason =
     bindE (get_evaluation_group d group_id caller_id True) (\<lambda>g.
     bindE (assert_transition g NOT_APPROVED) (\<lambda>_.
     let g' = g\<lparr>g_status := NOT_APPROVED, g_rejection_reason := Some rejection_reason\<rparr> in
     Inr ((g', g_status g), notify_owner (save_group d g') g' caller_id ''Evaluation group rejected''
       (Msg ''Your evaluation group '{}' was rejected: {}'' [AOpt (g_title g'), AStr rejection_reason]))))"

subsection \<open>Steps\<close>

text \<open>\<open>moderation_step\<close>: a transition request on the group \<open>i\<close>; \<open>group_step\<close>: any request that writes group rows.
  The public create passes \<open>pending_approval\<close>, seeding \<open>draft\<close>.\<close>

inductive moderation_step :: "db \<Rightarrow> db \<Rightarrow> bool" where
  submit: "submit_evaluation_group d i c m = Inr (r, d') \<Longrightarrow> moderation_step d d'"
| publish: "publish_evaluation_group d i c m = Inr (r, d') \<Longrightarrow> moderation_step d d'"
| finish: "finish_evaluation_group d i c m = Inr (r, d') \<Longrightarrow> moderation_step d d'"
| approve: "approve_evaluation_group d i c m = Inr (r, d') \<Longrightarrow> moderation_step d d'"
| request: "request_changes_for_evaluation_group d i c = Inr (r, d') \<Longrightarrow> moderation_step d d'"
| reject: "reject_evaluation_group d i c why = Inr (r, d') \<Longrightarrow> moderation_step d d'"

inductive group_step :: "(string \<Rightarrow> uuid) \<Rightarrow> db \<Rightarrow> db \<Rightarrow> bool" for cid where
  create: "create_evaluation_group cid d c ti de lv du af org m s e l ls ms st = Inr (g, d') \<Longrightarrow>
     st = PS_DRAFT \<or> st = PENDING_APPROVAL \<Longrightarrow> group_step cid d d'"
| draft: "create_evaluation_group_draft cid d c f m l ls ms = Inr (g, d') \<Longrightarrow> group_step cid d d'"
| duplicate: "duplicate_evaluation_group d i c m ch = Inr (g, d') \<Longrightarrow> group_step cid d d'"
| update: "get_evaluation_group d i c m = Inr g \<Longrightarrow> update_evaluation_group cid d g c m chg = Inr (g', d') \<Longrightarrow> group_step cid d d'"
| moderate: "moderation_step d d' \<Longrightarrow> group_step cid d d'"

subsection \<open>What a step does to the group rows\<close>

text \<open>An edited row: the same identity, and either the same status and reason, or a status the table allows,
  the reason being set exactly by a rejection.\<close>

definition group_edit :: "evaluation_group \<Rightarrow> evaluation_group \<Rightarrow> bool" where
  "group_edit g g' \<longleftrightarrow> row_id g' = row_id g \<and> deleted_at g' = deleted_at g \<and> g_created_by_id g' = g_created_by_id g \<and>
     (g_status g' = g_status g \<and> g_rejection_reason g' = g_rejection_reason g \<or>
      g_status g' \<in> set (PUBLICATION_TRANSITIONS (g_status g)) \<and>
        (if g_status g' = NOT_APPROVED then g_rejection_reason g' \<noteq> None
         else g_rejection_reason g' = None \<or> g_rejection_reason g' = g_rejection_reason g))"

lemma groups_notify_owner [simp]: "groups (notify_owner d g a n t) = groups d"
  by (simp add: notify_owner_def create_notification_def Let_def)

lemma next_id_notify_owner: "next_id d \<le> next_id (notify_owner d g a n t)"
  by (simp add: notify_owner_def create_notification_def Let_def)

lemma group_for_write_Inr:
  "group_for_write d i c m = Inr g \<longleftrightarrow> get_evaluation_group d i c m = Inr g \<and>
     assert_group_write_access d i c m EVALUATION_GROUPS_UPDATE (Msg ''Evaluation group {} not found.'' [AId i]) = Inr ()"
  using get_evaluation_group_Inr by (fastforce simp: group_for_write_def svc_simps)

lemmas moderation_defs = submit_evaluation_group_def publish_evaluation_group_def finish_evaluation_group_def
  approve_evaluation_group_def request_changes_for_evaluation_group_def reject_evaluation_group_def

text \<open>What every transition has in common, and from it what a step does.\<close>

definition moderated :: "db \<Rightarrow> db \<Rightarrow> bool" where
  "moderated d d' \<longleftrightarrow> (\<exists>g\<in>set (live_select (groups d)). \<exists>g'. group_edit g g' \<and> groups d' = save_row g' (groups d) \<and>
     next_id d \<le> next_id d')"

lemma moderatedI:
  assumes "get_evaluation_group d i c m = Inr g" "st \<in> set (PUBLICATION_TRANSITIONS (g_status g))"
    and "g' = g\<lparr>g_status := st, g_rejection_reason := why\<rparr>"
    and "if st = NOT_APPROVED then why \<noteq> None else why = None \<or> why = g_rejection_reason g"
    and "groups d' = groups (save_group d g')" "next_id d \<le> next_id d'"
  shows "moderated d d'"
proof -
  have "group_edit g g'" using assms(2-4) by (simp add: group_edit_def)
  then show ?thesis
    using get_evaluation_group_Inr [OF assms(1)] assms(5,6) by (auto simp: moderated_def save_group_def)
qed

lemma moderation_step_moderated: "moderation_step d d' \<Longrightarrow> moderated d d'"
proof (induction rule: moderation_step.induct)
  case (submit d i c m r d')
  then obtain g where "get_evaluation_group d i c m = Inr g" "PENDING_APPROVAL \<in> set (PUBLICATION_TRANSITIONS (g_status g))"
    "d' = save_group d (g\<lparr>g_status := PENDING_APPROVAL, g_rejection_reason := g_rejection_reason g\<rparr>)"
    by (auto simp: moderation_defs svc_simps group_for_write_Inr assert_transition_def Let_def)
  then show ?case by (intro moderatedI [where why = "g_rejection_reason g", OF _ _ refl]) (auto simp: save_group_def)
next
  case (publish d i c m r d')
  then obtain g where "get_evaluation_group d i c m = Inr g" "PS_PUBLISHED \<in> set (PUBLICATION_TRANSITIONS (g_status g))"
    "d' = save_group d (g\<lparr>g_status := PS_PUBLISHED, g_rejection_reason := g_rejection_reason g\<rparr>)"
    by (auto simp: moderation_defs svc_simps group_for_write_Inr assert_transition_def Let_def)
  then show ?case by (intro moderatedI [where why = "g_rejection_reason g", OF _ _ refl]) (auto simp: save_group_def)
next
  case (finish d i c m r d')
  then obtain g where "get_evaluation_group d i c m = Inr g" "PS_INACTIVE \<in> set (PUBLICATION_TRANSITIONS (g_status g))"
    "d' = save_group d (g\<lparr>g_status := PS_INACTIVE, g_rejection_reason := g_rejection_reason g\<rparr>)"
    by (auto simp: moderation_defs svc_simps group_for_write_Inr assert_transition_def Let_def)
  then show ?case by (intro moderatedI [where why = "g_rejection_reason g", OF _ _ refl]) (auto simp: save_group_def)
next
  case (approve d i c m r d')
  then obtain g n t where "get_evaluation_group d i c m = Inr g" "PS_APPROVED \<in> set (PUBLICATION_TRANSITIONS (g_status g))"
    "d' = notify_owner (save_group d (g\<lparr>g_status := PS_APPROVED, g_rejection_reason := None\<rparr>))
       (g\<lparr>g_status := PS_APPROVED, g_rejection_reason := None\<rparr>) c n t"
    by (auto simp: moderation_defs svc_simps group_for_write_Inr assert_transition_def Let_def)
  then show ?case
    by (intro moderatedI [OF _ _ refl]) (auto simp: save_group_def intro: order_trans [OF _ next_id_notify_owner])
next
  case (request d i c r d')
  then obtain g n t where "get_evaluation_group d i c True = Inr g" "CHANGES_REQUESTED \<in> set (PUBLICATION_TRANSITIONS (g_status g))"
    "d' = notify_owner (save_group d (g\<lparr>g_status := CHANGES_REQUESTED, g_rejection_reason := None\<rparr>))
       (g\<lparr>g_status := CHANGES_REQUESTED, g_rejection_reason := None\<rparr>) c n t"
    by (auto simp: moderation_defs svc_simps assert_transition_def Let_def)
  then show ?case
    by (intro moderatedI [OF _ _ refl]) (auto simp: save_group_def intro: order_trans [OF _ next_id_notify_owner])
next
  case (reject d i c why r d')
  then obtain g n t where "get_evaluation_group d i c True = Inr g" "NOT_APPROVED \<in> set (PUBLICATION_TRANSITIONS (g_status g))"
    "d' = notify_owner (save_group d (g\<lparr>g_status := NOT_APPROVED, g_rejection_reason := Some why\<rparr>))
       (g\<lparr>g_status := NOT_APPROVED, g_rejection_reason := Some why\<rparr>) c n t"
    by (auto simp: moderation_defs svc_simps assert_transition_def Let_def)
  then show ?case
    by (intro moderatedI [OF _ _ refl]) (auto simp: save_group_def intro: order_trans [OF _ next_id_notify_owner])
qed

subsection \<open>Invariant of the group table\<close>

definition group_inv :: "db \<Rightarrow> bool" where
  "group_inv d \<longleftrightarrow> keys_ok (next_id d) (groups d) \<and>
     (\<forall>g\<in>set (groups d). g_rejection_reason g \<noteq> None \<longleftrightarrow> g_status g = NOT_APPROVED)"

text \<open>A step either appends a group that starts its lifecycle, or edits one row.\<close>

definition starts :: "db \<Rightarrow> db \<Rightarrow> bool" where
  "starts d d' \<longleftrightarrow> (\<exists>g. groups d' = groups d @ [g] \<and> row_id g = next_id d \<and> deleted_at g = None \<and> g_rejection_reason g = None \<and>
     (g_status g = PS_DRAFT \<or> g_status g = PENDING_APPROVAL) \<and> next_id d < next_id d')"

lemma persisted_starts:
  assumes "persist_new_group d c f l st = Inr (g, d1)" "st = PS_DRAFT \<or> st = PENDING_APPROVAL" "same_members d1 d'"
  shows "starts d d'"
  using assms(1)
proof (rule persist_new_group_Inr)
  fix r as n assume "g = new_group d c f l st" "next_id d < n"
    "d1 = d\<lparr>groups := groups d @ [g], assignments := as, next_id := n\<rparr>"
  then show ?thesis
    using assms(2,3) by (auto simp: starts_def same_members_def new_group_def)
qed

lemma synced_same_members: "sync_group_models d i ms c = Inr (pc, d') \<Longrightarrow> same_members d d'"
  using sync_group_models_shape by (fastforce simp: same_members_def)

lemma merged_group_edit: "group_edit g (merged_group cid g ch)"
  by (simp add: group_edit_def merged_group_fields)

lemma group_step_cases:
  assumes "group_step cid d d'"
  shows "starts d d' \<or> moderated d d'"
  using assms
proof cases
  case (create c ti de lv du af org m s e l ls ms st g)
  from create(1) show ?thesis
    by (rule create_evaluation_group_Inr) (use persisted_starts synced_same_members create(2) in blast)
next
  case (draft c f m l ls ms g)
  then show ?thesis
    by (rule create_evaluation_group_draft_Inr) (use persisted_starts synced_same_members in blast)
next
  case (duplicate i c m ch g)
  then show ?thesis by (rule duplicate_Inr) (use persisted_starts duplicate_same_members in blast)
next
  case (update i c m g chg g')
  from update(2) show ?thesis
  proof (rule update_evaluation_group_Inr)
    fix d1
    assume g': "g' = merged_group cid g chg"
      and m1: "case gu_allowed_model_ids chg of None \<Rightarrow> d1 = d | Some ms \<Rightarrow> (\<exists>pc. sync_group_models d (row_id g) ms c = Inr (pc, d1))"
      and d': "d' = d1\<lparr>groups := save_row g' (groups d1)\<rparr>"
    obtain gm n where "d1 = d\<lparr>group_models := gm, next_id := n\<rparr>" "next_id d \<le> n" using update_only_models [OF m1] by blast
    moreover have "g \<in> set (live_select (groups d))" using get_evaluation_group_Inr [OF update(1)] by blast
    ultimately have "moderated d d'"
      unfolding moderated_def using merged_group_edit [of g cid chg] d' g' by (intro bexI [of _ g] exI [of _ g']) simp_all
    then show ?thesis ..
  qed
next
  case moderate
  then show ?thesis using moderation_step_moderated by blast
qed

lemma edit_keeps_reason:
  assumes "group_edit g g'" "g_rejection_reason g \<noteq> None \<longleftrightarrow> g_status g = NOT_APPROVED"
  shows "g_rejection_reason g' \<noteq> None \<longleftrightarrow> g_status g' = NOT_APPROVED"
  using assms by (cases "g_status g") (auto simp: group_edit_def split: if_splits)

interpretation lifecycle: step_invariant "group_step cid" group_inv for cid
proof
  fix d d' assume s: "group_step cid d d'" and inv: "group_inv d"
  from group_step_cases [OF s] show "group_inv d'"
  proof
    assume "starts d d'"
    then show ?thesis using inv
      by (auto simp: starts_def group_inv_def intro!: keys_ok_mono [OF keys_ok_append, of "next_id d"])
  next
    assume "moderated d d'"
    then obtain g g' where g: "g \<in> set (groups d)" "group_edit g g'" "groups d' = save_row g' (groups d)" "next_id d \<le> next_id d'"
      by (auto simp: moderated_def)
    have "row_id g' < next_id d" using g inv by (auto simp: group_edit_def group_inv_def keys_ok_def)
    then have "keys_ok (next_id d) (groups d')" using g inv by (simp add: group_inv_def)
    then have "keys_ok (next_id d') (groups d')" using g(4) by (rule keys_ok_mono)
    moreover have "\<forall>x\<in>set (groups d'). g_rejection_reason x \<noteq> None \<longleftrightarrow> g_status x = NOT_APPROVED"
      using inv edit_keeps_reason [OF g(2)] g(1,3) by (auto simp: group_inv_def in_save_row)
    ultimately show ?thesis by (simp add: group_inv_def)
  qed
qed

subsection \<open>The lifecycle\<close>

definition group_status_of :: "db \<Rightarrow> uuid \<Rightarrow> publication_status option" where
  "group_status_of d i = map_option g_status (live_by_id i (groups d))"

lemma group_step_row:
  assumes "group_step cid d d'" "group_inv d" "live_by_id i (groups d) = Some g"
  shows "\<exists>g'. live_by_id i (groups d') = Some g' \<and> (g' = g \<or> group_edit g g')"
  using group_step_cases [OF assms(1)]
proof
  assume "starts d d'"
  then obtain x where x: "groups d' = groups d @ [x]" "row_id x = next_id d" by (auto simp: starts_def)
  have "i < next_id d"
    using live_by_id_SomeD [OF assms(3)] assms(2) by (auto simp: group_inv_def keys_ok_def)
  then show ?thesis using x assms(3) by simp
next
  assume "moderated d d'"
  then obtain h h' where h: "h \<in> set (live_select (groups d))" "group_edit h h'" "groups d' = save_row h' (groups d)"
    by (auto simp: moderated_def)
  have r: "row_id h' = row_id h" "deleted_at h' = None" using h by (auto simp: group_edit_def)
  show ?thesis
  proof (cases "row_id h = i")
    case True
    then have "h = g"
      using live_by_id_SomeD [OF assms(3)] h(1) assms(2) distinct_map_same [of row_id "groups d" h g]
      by (auto simp: group_inv_def keys_ok_def)
    moreover have "row_id h' \<in> row_id ` set (groups d)" using r(1) h(1) by (metis image_eqI in_live_select)
    then have "live_by_id i (groups d') = Some h'"
      using live_by_id_save_row_same [of h' "groups d"] r h(3) True by simp
    ultimately show ?thesis using h(2) by blast
  next
    case False
    then show ?thesis using assms(3) h(3) r by simp
  qed
qed

interpretation publication: status_machine "group_step cid" group_inv group_status_of PUBLICATION_TRANSITIONS for cid
proof
  fix d d' i a assume "group_step cid d d'" "group_inv d" "group_status_of d i = Some a"
  then show "\<exists>b. group_status_of d' i = Some b \<and> (b = a \<or> b \<in> set (PUBLICATION_TRANSITIONS a))"
    using group_step_row by (fastforce simp: group_status_of_def group_edit_def)
qed

text \<open>C9: the publication lifecycle.  Through any sequence of requests a group stays, its status moves only along
  the transition table, a rejected or finished group never changes status again, and a group carries a
  rejection reason exactly while it is rejected.\<close>

theorem publication_lifecycle:
  assumes "(group_step cid)\<^sup>*\<^sup>* d d'" "group_inv d" "group_status_of d i = Some a"
  shows "(\<exists>b. group_status_of d' i = Some b \<and> (\<lambda>x y. y \<in> set (PUBLICATION_TRANSITIONS x))\<^sup>*\<^sup>* a b) \<and>
    (a \<in> {NOT_APPROVED, PS_INACTIVE} \<longrightarrow> group_status_of d' i = Some a) \<and>
    (\<forall>g\<in>set (groups d'). g_rejection_reason g \<noteq> None \<longleftrightarrow> g_status g = NOT_APPROVED)"
proof -
  have "group_inv d'" using lifecycle.reachable_keeps [OF assms(1,2)] .
  then show ?thesis
    using publication.status_path [OF assms] publication.terminal_stays [OF assms] by (auto simp: group_inv_def)
qed

subsection \<open>The advertised blockers\<close>

text \<open>What it takes to submit and to publish, said without the messages.\<close>

definition playable :: "db \<Rightarrow> uuid \<Rightarrow> bool" where
  "playable d i \<longleftrightarrow> (\<forall>e\<in>set (evaluations_of d i). has_scenario d (row_id e))"

definition submit_ready :: "db \<Rightarrow> evaluation_group \<Rightarrow> bool" where
  "submit_ready d g \<longleftrightarrow> \<not> blank (g_title g) \<and> \<not> blank (g_description g) \<and>
     (\<exists>s. g_start_date g = Some s \<and> today d \<le> s \<and> (\<forall>e. g_end_date g = Some e \<longrightarrow> s < e)) \<and>
     (g_access_level g = ORGANIZATION \<longrightarrow> g_organization_id g \<noteq> None) \<and>
     (\<forall>j. g_organization_id g = Some j \<longrightarrow> live_org d j) \<and>
     allowed_models d (row_id g) \<noteq> {} \<and> playable d (row_id g)"

definition publish_ready :: "db \<Rightarrow> evaluation_group \<Rightarrow> bool" where
  "publish_ready d g \<longleftrightarrow> evaluations_of d (row_id g) \<noteq> [] \<and> playable d (row_id g)"

lemma sort_eq_Nil [simp]: "sort_key k xs = [] \<longleftrightarrow> xs = []"
  by (metis set_empty2 set_sort)

lemma missing_scenario_None: "missing_scenario_blocker d i = None \<longleftrightarrow> playable d i"
  by (auto simp: missing_scenario_blocker_def Let_def playable_def filter_empty_conv)

lemma org_blocker_Nil:
  "(case validate_group_org d lv org of Inl (BadRequestError m) \<Rightarrow> [m] | _ \<Rightarrow> []) = [] \<longleftrightarrow> validate_group_org d lv org = Inr ()"
  using validate_group_org_Inl [of d lv org] by (auto split: sum.splits error.splits)

lemma submit_blockers_Nil: "collect_submit_blockers d g = [] \<longleftrightarrow> submit_ready d g"
proof -
  have "missing_fields g = [] \<and> date_blockers d g = [] \<longleftrightarrow> \<not> blank (g_title g) \<and> \<not> blank (g_description g) \<and>
     (\<exists>s. g_start_date g = Some s \<and> today d \<le> s \<and> (\<forall>e. g_end_date g = Some e \<longrightarrow> s < e))"
    by (auto simp: missing_fields_def date_blockers_def dates_out_of_order_def not_less not_le split: option.splits)
  moreover have "validate_group_org d (g_access_level g) (g_organization_id g) = Inr () \<longleftrightarrow>
     (g_access_level g = ORGANIZATION \<longrightarrow> g_organization_id g \<noteq> None) \<and> (\<forall>j. g_organization_id g = Some j \<longrightarrow> live_org d j)"
    by (auto simp: validate_group_org_Inr split: option.splits)
  moreover have "allowed_rows d (row_id g) = [] \<longleftrightarrow> allowed_models d (row_id g) = {}"
    by (simp add: allowed_models_def)
  moreover have "collect_submit_blockers d g = [] \<longleftrightarrow> (missing_fields g = [] \<and> date_blockers d g = []) \<and>
      validate_group_org d (g_access_level g) (g_organization_id g) = Inr () \<and> allowed_rows d (row_id g) \<noteq> [] \<and>
      playable d (row_id g)"
    by (simp add: collect_submit_blockers_def org_blocker_Nil missing_scenario_None option.case_eq_if)
  ultimately show ?thesis unfolding submit_ready_def by blast
qed

lemma publish_blockers_Nil: "collect_publish_blockers d g = [] \<longleftrightarrow> publish_ready d g"
  by (simp add: collect_publish_blockers_def missing_scenario_None publish_ready_def option.case_eq_if)

text \<open>the detail view advertises exactly what the next transition would refuse.  For a caller who may write
  the group, submitting (or, once approved, publishing) it succeeds iff the advertised list is empty, which is
  iff the group is complete; otherwise the transition is a 400 naming the advertised list.\<close>

lemma blockers_decide_transition:
  assumes "group_for_write d i c m = Inr g"
  shows "(g_status g \<in> {PS_DRAFT, CHANGES_REQUESTED} \<longrightarrow>
      (collect_publication_blockers d g = [] \<longleftrightarrow> submit_ready d g) \<and>
      submit_evaluation_group d i c m =
        (if submit_ready d g
         then Inr ((g\<lparr>g_status := PENDING_APPROVAL\<rparr>, g_status g), save_group d (g\<lparr>g_status := PENDING_APPROVAL\<rparr>))
         else Inl (BadRequestError (Msg ''Cannot submit an incomplete group: {}'' [ADetails (collect_publication_blockers d g)])))) \<and>
    (g_status g = PS_APPROVED \<longrightarrow>
      (collect_publication_blockers d g = [] \<longleftrightarrow> publish_ready d g) \<and>
      publish_evaluation_group d i c m =
        (if publish_ready d g
         then Inr ((g\<lparr>g_status := PS_PUBLISHED\<rparr>, g_status g), save_group d (g\<lparr>g_status := PS_PUBLISHED\<rparr>))
         else Inl (BadRequestError (Msg ''Cannot publish an incomplete group: {}'' [ADetails (collect_publication_blockers d g)])))) \<and>
    (g_status g \<notin> {PS_DRAFT, CHANGES_REQUESTED, PS_APPROVED} \<longrightarrow> collect_publication_blockers d g = [])"
  using assms
  by (auto simp: submit_evaluation_group_def publish_evaluation_group_def assert_transition_def assert_group_submittable_def
      assert_group_publishable_def collect_publication_blockers_def submit_blockers_Nil publish_blockers_Nil Let_def ensure_def)

subsection \<open>Verdicts reach the owner\<close>

lemma notify_owner_notifications:
  "notifications (notify_owner d g a n t) = notifications d @
     (if a = g_created_by_id g then [] else [fst (create_notification d (g_created_by_id g) n (Some t)
        (Some NOT_EVALUATION_GROUP) (Some (row_id g)))])"
  by (simp add: notify_owner_def create_notification_def Let_def)

text \<open>Every moderation verdict tells the group's creator, unless the creator is the one acting: exactly one
  unread notification about the group is added for the creator, and nothing for anybody else.\<close>

lemma verdict_notifies_creator:
  assumes "approve_evaluation_group d i c m = Inr ((g, p), d') \<or> request_changes_for_evaluation_group d i c = Inr ((g, p), d') \<or>
    reject_evaluation_group d i c why = Inr ((g, p), d')"
  shows "p = PENDING_APPROVAL \<and> (if c = g_created_by_id g then notifications d' = notifications d
     else \<exists>n. notifications d' = notifications d @ [n] \<and> n_user_id n = g_created_by_id g \<and> n_read_at n = None \<and>
       n_object_type n = Some NOT_EVALUATION_GROUP \<and> n_object_id n = Some i)"
proof -
  have from_pending: "g_status x = PENDING_APPROVAL"
    if "st \<in> set (PUBLICATION_TRANSITIONS (g_status x))" "st \<in> {PS_APPROVED, CHANGES_REQUESTED, NOT_APPROVED}" for x :: evaluation_group and st
    using that by (cases "g_status x") auto
  have told: "if c = g_created_by_id x then notifications (notify_owner (save_group d x) x c n t) = notifications d
     else \<exists>k. notifications (notify_owner (save_group d x) x c n t) = notifications d @ [k] \<and> n_user_id k = g_created_by_id x \<and>
       n_read_at k = None \<and> n_object_type k = Some NOT_EVALUATION_GROUP \<and> n_object_id k = Some (row_id x)" for x n t
    by (simp add: notify_owner_notifications save_group_def create_notification_def Let_def)
  have verdict: "p = PENDING_APPROVAL \<and> (if c = g_created_by_id g then notifications d' = notifications d
     else \<exists>n. notifications d' = notifications d @ [n] \<and> n_user_id n = g_created_by_id g \<and> n_read_at n = None \<and>
       n_object_type n = Some NOT_EVALUATION_GROUP \<and> n_object_id n = Some i)"
    if "get_evaluation_group d i c k = Inr x" "st \<in> set (PUBLICATION_TRANSITIONS (g_status x))"
      "st \<in> {PS_APPROVED, CHANGES_REQUESTED, NOT_APPROVED}" "p = g_status x" "row_id g = row_id x"
      "d' = notify_owner (save_group d g) g c n t" for k x st n t
    using told [of g n t] from_pending [OF that(2,3)] get_evaluation_group_Inr [OF that(1)] that(4-6) by (auto split: if_splits)
  from assms show ?thesis
  proof (elim disjE)
    assume "approve_evaluation_group d i c m = Inr ((g, p), d')"
    then obtain x n t where "get_evaluation_group d i c m = Inr x" "PS_APPROVED \<in> set (PUBLICATION_TRANSITIONS (g_status x))"
      "p = g_status x" "g = x\<lparr>g_status := PS_APPROVED, g_rejection_reason := None\<rparr>" "d' = notify_owner (save_group d g) g c n t"
      by (auto simp: approve_evaluation_group_def svc_simps group_for_write_Inr assert_transition_def Let_def)
    then show ?thesis by (intro verdict [of m x PS_APPROVED n t]) simp_all
  next
    assume "request_changes_for_evaluation_group d i c = Inr ((g, p), d')"
    then obtain x n t where "get_evaluation_group d i c True = Inr x" "CHANGES_REQUESTED \<in> set (PUBLICATION_TRANSITIONS (g_status x))"
      "p = g_status x" "g = x\<lparr>g_status := CHANGES_REQUESTED, g_rejection_reason := None\<rparr>" "d' = notify_owner (save_group d g) g c n t"
      by (auto simp: request_changes_for_evaluation_group_def svc_simps assert_transition_def Let_def)
    then show ?thesis by (intro verdict [of True x CHANGES_REQUESTED n t]) simp_all
  next
    assume "reject_evaluation_group d i c why = Inr ((g, p), d')"
    then obtain x n t where "get_evaluation_group d i c True = Inr x" "NOT_APPROVED \<in> set (PUBLICATION_TRANSITIONS (g_status x))"
      "p = g_status x" "g = x\<lparr>g_status := NOT_APPROVED, g_rejection_reason := Some why\<rparr>" "d' = notify_owner (save_group d g) g c n t"
      by (auto simp: reject_evaluation_group_def svc_simps assert_transition_def Let_def)
    then show ?thesis by (intro verdict [of True x NOT_APPROVED n t]) simp_all
  qed
qed

end
