(* ===== verification/Group_Witnesses.thy ===== *)
theory Group_Witnesses
  imports Demo Publication
begin

section \<open>Groups, licences and notifications at work\<close>

text \<open>
  The database of \<open>Demo\<close> with a model, a played evaluation in group 20, a draft group 21 that \<open>alice\<close> owns, a
  group 22 of \<open>bob\<close> waiting for approval, two curated licences and a notification; and on it, the
  properties of the group, licence and notification services.
\<close>

definition demo_cid :: "string \<Rightarrow> uuid" where "demo_cid s = 80 + length s"

definition no_license :: curated_license where
  "no_license = \<lparr>cl_spdx_id = ''NONE'', cl_name = ''No licence'', cl_short_description = ''none'', cl_version = None,
     cl_reference_url = None, cl_content = ''All rights reserved'', cl_publishes_spdx = False,
     cl_protects_conversation_data = True\<rparr>"

definition mit_license :: curated_license where
  "mit_license = \<lparr>cl_spdx_id = ''MIT'', cl_name = ''MIT'', cl_short_description = ''permissive'', cl_version = None,
     cl_reference_url = None, cl_content = '''', cl_publishes_spdx = True, cl_protects_conversation_data = False\<rparr>"

definition demo_catalog :: "curated_license list" where "demo_catalog = [no_license, mit_license]"

definition demo_evaluation :: evaluation where
  "demo_evaluation = \<lparr>row_id = 60, created_at = 0, deleted_at = None, deleted_by_id = None, e_title = ''Round 1'',
     e_description = None, e_mask_models_enabled = True, e_tags_enabled = False, e_tags_restricted = False,
     e_cover_image = None, e_data_license_id = None, e_status = ES_PUBLISHED, e_rejection_reason = None,
     e_created_by_id = 1, e_evaluation_group_id = 20\<rparr>"

definition gdemo :: db where
  "gdemo = demo\<lparr>groups := [demo_group, mk_group 21 1 PS_DRAFT PUBLIC None, mk_group 22 2 PENDING_APPROVAL PUBLIC None],
     assignments := [mk_assignment 40 20 1 11, mk_assignment 41 20 2 12, mk_assignment 42 21 1 11, mk_assignment 43 22 2 11],
     ai_models := [\<lparr>row_id = 50, created_at = 0, deleted_at = None, deleted_by_id = None, m_name = ''gpt''\<rparr>],
     group_models := [\<lparr>row_id = 51, created_at = 0, deleted_at = None, deleted_by_id = None, gm_evaluation_group_id = 20,
       gm_model_id = 50\<rparr>],
     evaluations := [demo_evaluation],
     eval_models := [\<lparr>row_id = 61, created_at = 0, deleted_at = None, deleted_by_id = None, em_model_id = 50,
       em_evaluation_id = 60, em_model_display_mask = Some ''Model A'', em_parameters = []\<rparr>],
     scenarios := [\<lparr>row_id = 62, created_at = 0, deleted_at = None, deleted_by_id = None, s_name = ''Injection'',
       s_description = ''d'', s_evaluation_id = 60, s_position = 0, s_required_reviews = 1\<rparr>],
     tasks := [\<lparr>row_id = 63, created_at = 0, deleted_at = None, deleted_by_id = None, t_name = ''Try'', t_description = ''d'',
       t_scenario_id = 62\<rparr>],
     notifications := [\<lparr>row_id = 70, created_at = 0, deleted_at = None, deleted_by_id = None, n_user_id = 2, n_name = ''Hi'',
       n_description = None, n_read_at = None, n_object_type = None, n_object_id = None\<rparr>]\<rparr>"

subsection \<open>Licences and notifications\<close>

definition w_licensed :: db where "w_licensed = sync_licenses demo_cid demo_catalog demo"


lemma sync_licenses_reconciles_example: "in_force demo_cid demo_catalog (sync_licenses demo_cid demo_catalog demo)"
proof -
  have "keys_ok (next_id demo) (licenses demo)" by code_simp
  moreover have "\<forall>c\<in>set demo_catalog. demo_cid (cl_spdx_id c) < next_id demo" by code_simp
  moreover have "distinct (map (\<lambda>c. demo_cid (cl_spdx_id c)) demo_catalog)" by code_simp
  ultimately show ?thesis using sync_licenses_reconciles by blast
qed

lemma mark_notifications_own_and_counted_example:
  "fst (mark_notifications (snd (mark_notifications gdemo 2 [] True)) 2 [] True) = 0"
proof -
  have "mark_notifications gdemo 2 [] True = (fst (mark_notifications gdemo 2 [] True), snd (mark_notifications gdemo 2 [] True))"
    by simp
  from mark_notifications_own_and_counted [OF this] show ?thesis by blast
qed

subsection \<open>Allowed models and groups\<close>

lemma sync_group_models_exact_example: "allowed_models (snd (projr (sync_group_models gdemo 20 [50] 1))) 20 = {50}"
proof -
  let ?s = "sync_group_models gdemo 20 [50] 1"
  have "?s = Inr (fst (projr ?s), snd (projr ?s))" by (rule Inr_pair_of_not_isl) code_simp
  from sync_group_models_exact [OF this] show ?thesis by simp
qed

definition w_fields :: group_fields where
  "w_fields = \<lparr>gf_title = Some ''New'', gf_description = None, gf_access = ORGANIZATION, gf_during = ALL_MEMBERS,
     gf_after = OWNER_ONLY, gf_organization_id = Some 30, gf_start_date = None, gf_end_date = None\<rparr>"

definition w_draft :: "(evaluation_group \<times> db) result" where
  "w_draft = create_evaluation_group_draft demo_cid gdemo 1 w_fields False None False [50]"

lemma w_draft_eq: "create_evaluation_group_draft demo_cid gdemo 1 w_fields False None False [50] = Inr (fst (projr w_draft), snd (projr w_draft))"
  unfolding w_draft_def [symmetric] by (rule Inr_pair_of_not_isl) code_simp

lemma non_manager_places_group_at_home_example: "caller_live_organization gdemo 1 = Some 30"
proof -
  have "g_organization_id (fst (projr w_draft)) = Some 30" by code_simp
  with non_manager_places_group_at_home [OF disjI2 [OF disjI1 [OF w_draft_eq]]] show ?thesis by blast
qed

definition w_edit :: group_update_changes where
  "w_edit = \<lparr>gu_title = Some ''Renamed'', gu_description = None, gu_access_level = Some PUBLIC, gu_metrics_access_during = None,
     gu_metrics_access_after = None, gu_organization_id = Some None, gu_start_date = None, gu_end_date = Some (Some 9),
     gu_data_license_id = None, gu_allowed_model_ids = None\<rparr>"

lemma update_group_sound_example:
  "g_status (fst (projr (update_evaluation_group demo_cid gdemo demo_group 1 False w_edit))) = PS_PUBLISHED"
proof -
  let ?s = "update_evaluation_group demo_cid gdemo demo_group 1 False w_edit"
  have h1: "get_evaluation_group gdemo 20 1 False = Inr demo_group" by code_simp
  have h2: "distinct (map row_id (groups gdemo))" by code_simp
  have h3: "?s = Inr (fst (projr ?s), snd (projr ?s))" by (rule Inr_pair_of_not_isl) code_simp
  have "g_status demo_group = PS_PUBLISHED" by code_simp
  with update_group_sound [OF h1 h2 h3] show ?thesis by simp
qed

definition w_copy :: "(evaluation_group \<times> db) result" where "w_copy = duplicate_evaluation_group gdemo 20 1 False True"

lemma w_copy_eq: "duplicate_evaluation_group gdemo 20 1 False True = Inr (fst (projr w_copy), snd (projr w_copy))"
  unfolding w_copy_def [symmetric] by (rule Inr_pair_of_not_isl) code_simp

theorem duplicate_copies_content_witness:
  "image_mset (evaluation_view (snd (projr w_copy))) (mset (evaluations_of (snd (projr w_copy)) (row_id (fst (projr w_copy))))) =
     image_mset (evaluation_view gdemo) {#demo_evaluation#}"
proof -
  have "refs_ok gdemo" by code_simp
  from duplicate_copies_content [OF this w_copy_eq]
  have "image_mset (evaluation_view (snd (projr w_copy))) (mset (evaluations_of (snd (projr w_copy)) (row_id (fst (projr w_copy))))) =
     image_mset (evaluation_view gdemo) (mset (evaluations_of gdemo 20))" by blast
  moreover have "evaluations_of gdemo 20 = [demo_evaluation]" by code_simp
  ultimately show ?thesis by simp
qed

lemma creator_owns_new_group_example: "protected_held (snd (projr w_copy)) EVALUATION_GROUP (row_id (fst (projr w_copy)))"
proof -
  have "distinct (map row_id (roles gdemo))" by code_simp
  moreover have "is_live_user gdemo 1" by code_simp
  ultimately show ?thesis using creator_owns_new_group [OF _ disjI2 [OF disjI2 [OF w_copy_eq]]] by blast
qed

subsection \<open>Publication\<close>

definition w_finished :: db where "w_finished = snd (projr (finish_evaluation_group gdemo 20 1 False))"

theorem publication_lifecycle_witness: "\<exists>b. group_status_of w_finished 20 = Some b \<and>
    (\<lambda>x y. y \<in> set (PUBLICATION_TRANSITIONS x))\<^sup>*\<^sup>* PS_PUBLISHED b"
proof -
  have "finish_evaluation_group gdemo 20 1 False =
      Inr (fst (projr (finish_evaluation_group gdemo 20 1 False)), w_finished)"
    unfolding w_finished_def by (rule Inr_pair_of_not_isl) code_simp
  then have "moderation_step gdemo w_finished" by (rule moderation_step.finish)
  then have "group_step demo_cid gdemo w_finished" by (rule group_step.moderate)
  then have h: "(group_step demo_cid)\<^sup>*\<^sup>* gdemo w_finished" by (rule r_into_rtranclp)
  have i: "group_inv gdemo" by code_simp
  have "group_status_of gdemo 20 = Some PS_PUBLISHED" by code_simp
  from publication_lifecycle [OF h i this] show ?thesis by blast
qed

lemma blockers_decide_transition_example:
  "submit_evaluation_group gdemo 21 1 False =
     Inl (BadRequestError (Msg ''Cannot submit an incomplete group: {}'' [ADetails [Msg ''Assign at least one allowed model.'' []]]))"
proof -
  let ?g = "mk_group 21 1 PS_DRAFT PUBLIC None"
  have h: "group_for_write gdemo 21 1 False = Inr ?g" by code_simp
  have s: "g_status ?g \<in> {PS_DRAFT, CHANGES_REQUESTED}" by code_simp
  have b: "collect_publication_blockers gdemo ?g = [Msg ''Assign at least one allowed model.'' []]" by code_simp
  from blockers_decide_transition [OF h] s b show ?thesis by auto
qed

lemma verdict_notifies_creator_example:
  "\<exists>n. notifications (snd (projr (approve_evaluation_group gdemo 22 1 True))) = notifications gdemo @ [n] \<and> n_user_id n = 2"
proof -
  let ?s = "approve_evaluation_group gdemo 22 1 True"
  let ?g = "fst (fst (projr ?s))"
  have n: "\<not> isl ?s" by code_simp
  have h: "?s = Inr ((?g, snd (fst (projr ?s))), snd (projr ?s))"
    using Inr_of_not_isl [OF n] by simp
  have "g_created_by_id ?g = 2" by code_simp
  then show ?thesis using verdict_notifies_creator [OF disjI1 [OF h]] by auto
qed

end
