(* ===== verification/Evaluations.thy ===== *)
theory Evaluations
  imports Publication
begin

section \<open>Evaluations and their model assignments\<close>

text \<open>
  \<open>app/core/evaluations/services/evaluations.py\<close>, \<open>assignments.py\<close> and \<open>approval.py\<close>.  Authority over an evaluation is
  inherited from its group: reads join the live parent group and its visibility, writes pass
  \<open>authorize_evaluation_mutation\<close>.  \<open>get_model\<close> of the model gateway is the live lookup the assignment does.
  Eager loading of relationships has no counterpart; \<open>order_key\<close> is the sort the client asked for.
\<close>

subsection \<open>Reads and the write gate\<close>

definition assert_group_accepts_evaluations :: "uuid \<Rightarrow> publication_status \<Rightarrow> unit result" where
  "assert_group_accepts_evaluations group_id group_status =
     ensure (group_status \<in> set GROUP_STATUSES_ACCEPTING_EVALUATIONS)
       (ConflictError (Msg ''Evaluation group {} is {}; evaluations can be added only to an approved or published group.''
          [AId group_id, AStr (publication_status_value group_status)]))"

definition evaluation_not_found :: "uuid \<Rightarrow> detail" where
  "evaluation_not_found evaluation_id = Msg ''Evaluation {} not found.'' [AId evaluation_id]"

definition scope_to_groups :: "db \<Rightarrow> uuid \<Rightarrow> bool \<Rightarrow> evaluation \<Rightarrow> bool" where
  "scope_to_groups d caller_id can_manage e \<longleftrightarrow>
     (case live_by_id (e_evaluation_group_id e) (groups d) of None \<Rightarrow> False
      | Some g \<Rightarrow> can_manage \<or> group_visible_to d caller_id g)"

definition authorize_evaluation_mutation ::
  "db \<Rightarrow> uuid \<Rightarrow> uuid \<Rightarrow> bool \<Rightarrow> permission \<Rightarrow> bool \<Rightarrow> (uuid \<times> publication_status) result" where
  "authorize_evaluation_mutation d evaluation_id caller_id can_manage p allow_deleted =
     bindE (the_or (NotFoundError (evaluation_not_found evaluation_id))
       (List.find (\<lambda>e. row_id e = evaluation_id \<and> (allow_deleted \<or> deleted_at e = None)) (evaluations d))) (\<lambda>e.
     bindE (the_or (NotFoundError (evaluation_not_found evaluation_id)) (live_by_id (e_evaluation_group_id e) (groups d))) (\<lambda>g.
     bindE (assert_group_write_access d (row_id g) caller_id can_manage p (evaluation_not_found evaluation_id)) (\<lambda>_.
     Inr (row_id g, g_status g))))"

definition get_evaluation :: "db \<Rightarrow> uuid \<Rightarrow> uuid option \<Rightarrow> bool \<Rightarrow> evaluation result" where
  "get_evaluation d evaluation_id caller_id can_manage =
     the_or (NotFoundError (evaluation_not_found evaluation_id))
       (List.find (\<lambda>e. row_id e = evaluation_id \<and>
          (case caller_id of None \<Rightarrow> True | Some c \<Rightarrow> scope_to_groups d c can_manage e)) (live_select (evaluations d)))"

record evaluation_filters =
  ef_evaluation_group_id :: "uuid option"
  ef_status :: "evaluation_status option"
  ef_search :: "string option"
  ef_deleted :: bool

definition apply_evaluation_filters ::
  "(string \<Rightarrow> string option \<Rightarrow> bool) \<Rightarrow> evaluation_filters \<Rightarrow> evaluation \<Rightarrow> bool" where
  "apply_evaluation_filters ilike f e \<longleftrightarrow>
     (case ef_evaluation_group_id f of None \<Rightarrow> True | Some i \<Rightarrow> e_evaluation_group_id e = i) \<and>
     (case ef_status f of None \<Rightarrow> True | Some s \<Rightarrow> e_status e = s) \<and>
     (case ef_search f of None \<Rightarrow> True | Some s \<Rightarrow> ilike s (Some (e_title e)) \<or> ilike s (e_description e))"

definition list_evaluations ::
  "(string \<Rightarrow> string option \<Rightarrow> bool) \<Rightarrow> (evaluation \<Rightarrow> 'k::linorder) \<Rightarrow> db \<Rightarrow> uuid \<Rightarrow> bool \<Rightarrow> evaluation_filters \<Rightarrow>
     nat \<Rightarrow> nat \<Rightarrow> timestamp \<Rightarrow> evaluation list \<times> nat" where
  "list_evaluations ilike order_key d caller_id can_manage filters limit offset deleted_cutoff =
     (let base = (if ef_deleted filters
                  then deleted_select deleted_cutoff (if can_manage then None else Some caller_id) (evaluations d)
                  else live_select (evaluations d));
          rows = filter (apply_evaluation_filters ilike filters) (filter (scope_to_groups d caller_id can_manage) base)
      in paginate limit offset (sort_key order_key (sort_key row_id rows)))"

subsection \<open>Writes\<close>

definition new_evaluation ::
  "db \<Rightarrow> string \<Rightarrow> string option \<Rightarrow> uuid \<Rightarrow> uuid \<Rightarrow> string option \<Rightarrow> bool \<Rightarrow> bool \<Rightarrow> bool \<Rightarrow> uuid option \<Rightarrow> evaluation" where
  "new_evaluation d title description group_id created_by_id cover_image mask_models tags_enabled tags_restricted license_id =
     \<lparr>row_id = next_id d, created_at = now d, deleted_at = None, deleted_by_id = None, e_title = title,
      e_description = description, e_mask_models_enabled = mask_models, e_tags_enabled = tags_enabled,
      e_tags_restricted = tags_restricted, e_cover_image = cover_image, e_data_license_id = license_id,
      e_status = ES_NEW, e_rejection_reason = None, e_created_by_id = created_by_id, e_evaluation_group_id = group_id\<rparr>"

definition create_evaluation ::
  "db \<Rightarrow> string \<Rightarrow> string option \<Rightarrow> uuid \<Rightarrow> uuid \<Rightarrow> bool \<Rightarrow> string option \<Rightarrow> bool \<Rightarrow> bool \<Rightarrow> bool \<Rightarrow> uuid option \<Rightarrow>
     (evaluation \<times> db) result" where
  "create_evaluation d title description group_id created_by_id can_manage cover_image mask_models tags_enabled tags_restricted license_id =
     bindE (the_or (group_not_found group_id) (live_by_id group_id (groups d))) (\<lambda>g.
     bindE (assert_group_write_access d (row_id g) created_by_id can_manage EVALUATIONS_CREATE
       (Msg ''Evaluation group {} not found.'' [AId group_id])) (\<lambda>_.
     bindE (assert_group_accepts_evaluations (row_id g) (g_status g)) (\<lambda>_.
     bindE (case license_id of None \<Rightarrow> Inr () | Some i \<Rightarrow> validate_license_ref d i) (\<lambda>_.
     let e = new_evaluation d title description group_id created_by_id cover_image mask_models tags_enabled tags_restricted license_id
     in Inr (e, d\<lparr>evaluations := evaluations d @ [e], next_id := Suc (next_id d)\<rparr>)))))"

definition duplicate_evaluation :: "db \<Rightarrow> uuid \<Rightarrow> uuid \<Rightarrow> bool \<Rightarrow> bool \<Rightarrow> (evaluation \<times> db) result" where
  "duplicate_evaluation d source_evaluation_id caller_id can_manage include_children =
     bindE (authorize_evaluation_mutation d source_evaluation_id caller_id can_manage EVALUATIONS_CREATE False) (\<lambda>(_, group_status).
     bindE (get_evaluation d source_evaluation_id None False) (\<lambda>source.
     bindE (assert_group_accepts_evaluations (e_evaluation_group_id source) group_status) (\<lambda>_.
     let n = next_id d;
         copy = new_evaluation_copy d caller_id (e_evaluation_group_id source) source;
         d1 = d\<lparr>evaluations := evaluations d @ [copy], next_id := Suc n\<rparr>;
         d2 = (if include_children
               then copy_scenarios d (copy_models d1 n (filter (\<lambda>a. model_kept d (em_model_id a)) (models_of d (row_id source)))) n
                      (scenarios_of d (row_id source))
               else d1);
         d3 = copy_tag_keys d2 n (tag_keys_of d (row_id source))
     in bindE (get_evaluation d3 n None False) (\<lambda>e. Inr (e, d3)))))"

record evaluation_update =
  eu_title :: "string option"
  eu_description :: "string option option"
  eu_cover_image :: "string option option"
  eu_mask_models_enabled :: "bool option"
  eu_tags_enabled :: "bool option"
  eu_tags_restricted :: "bool option"
  eu_data_license_id :: "uuid option option"

definition set_evaluation_fields :: "evaluation \<Rightarrow> evaluation_update \<Rightarrow> evaluation" where
  "set_evaluation_fields e ch =
     e\<lparr>e_title := set_or (e_title e) (eu_title ch), e_description := set_or (e_description e) (eu_description ch),
       e_cover_image := set_or (e_cover_image e) (eu_cover_image ch),
       e_mask_models_enabled := set_or (e_mask_models_enabled e) (eu_mask_models_enabled ch),
       e_tags_enabled := set_or (e_tags_enabled e) (eu_tags_enabled ch),
       e_tags_restricted := set_or (e_tags_restricted e) (eu_tags_restricted ch),
       e_data_license_id := set_or (e_data_license_id e) (eu_data_license_id ch)\<rparr>"

definition save_evaluation :: "db \<Rightarrow> evaluation \<Rightarrow> db" where
  "save_evaluation d e = d\<lparr>evaluations := save_row e (evaluations d)\<rparr>"

definition update_evaluation :: "db \<Rightarrow> evaluation \<Rightarrow> evaluation_update \<Rightarrow> (evaluation \<times> db) result" where
  "update_evaluation d e ch =
     bindE (case eu_data_license_id ch of Some (Some i) \<Rightarrow> validate_license_ref d i | _ \<Rightarrow> Inr ()) (\<lambda>_.
     let e' = set_evaluation_fields e ch in Inr (e', save_evaluation d e'))"

definition soft_delete_evaluation :: "db \<Rightarrow> evaluation \<Rightarrow> uuid \<Rightarrow> evaluation \<times> db" where
  "soft_delete_evaluation d e by_id =
     (let e' = soft_delete (now d) (Some by_id) e in (e', save_evaluation d e'))"

definition get_restorable_evaluation :: "db \<Rightarrow> uuid \<Rightarrow> uuid \<Rightarrow> bool \<Rightarrow> timestamp \<Rightarrow> evaluation result" where
  "get_restorable_evaluation d evaluation_id caller_id can_manage deleted_cutoff =
     the_or (NotFoundError (Msg ''No restorable evaluation {} was deleted within the restore window.'' [AId evaluation_id]))
       (List.find (\<lambda>e. row_id e = evaluation_id \<and> live_by_id (e_evaluation_group_id e) (groups d) \<noteq> None)
          (deleted_select deleted_cutoff (if can_manage then None else Some caller_id) (evaluations d)))"

definition restore_evaluation :: "db \<Rightarrow> evaluation \<Rightarrow> (evaluation \<times> db) result" where
  "restore_evaluation d e =
     bindE (restore_row (\<lambda>_ _. False) (Msg ''Evaluation cannot be restored.'' []) e (evaluations d)) (\<lambda>(e', t).
     Inr (e', d\<lparr>evaluations := t\<rparr>))"

subsection \<open>The licence cascade of evaluations\<close>

text \<open>\<open>resolve_effective_licenses\<close>: the dict from evaluation id to licence row, as an association list over the
  distinct ids; \<open>env_default\<close> is the default of a platform that stored none.\<close>

definition license_overrides :: "db \<Rightarrow> uuid \<Rightarrow> uuid option list" where
  "license_overrides d evaluation_id =
     (case live_by_id evaluation_id (evaluations d) of None \<Rightarrow> [None, None]
      | Some e \<Rightarrow> (case List.find (\<lambda>g. row_id g = e_evaluation_group_id e) (groups d) of None \<Rightarrow> [None, None]
          | Some g \<Rightarrow> [e_data_license_id e, g_data_license_id g]))"

fun resolve_each :: "db \<Rightarrow> (uuid \<times> uuid) list \<Rightarrow> (uuid \<times> data_license) list result" where
  "resolve_each d [] = Inr []"
| "resolve_each d ((evaluation_id, license_id) # rest) =
     bindE (the_or RuntimeError (license_by_id d license_id)) (\<lambda>lic.
     bindE (resolve_each d rest) (\<lambda>resolved. Inr ((evaluation_id, lic) # resolved)))"

definition resolve_effective_licenses :: "uuid \<Rightarrow> db \<Rightarrow> uuid list \<Rightarrow> (uuid \<times> data_license) list result" where
  "resolve_effective_licenses env_default d evaluation_ids =
     (let ids = py_sorted_set evaluation_ids;
          default_id = platform_default_license_id env_default d
      in if ids = [] then Inr []
         else resolve_each d (map (\<lambda>i. (i, effective_license (license_overrides d i) default_id)) ids))"

definition resolve_effective_license :: "uuid \<Rightarrow> db \<Rightarrow> uuid \<Rightarrow> data_license result" where
  "resolve_effective_license env_default d evaluation_id =
     bindE (resolve_effective_licenses env_default d [evaluation_id]) (\<lambda>r.
     the_or RuntimeError (map_of r evaluation_id))"

subsection \<open>Model assignments\<close>

definition get_model :: "db \<Rightarrow> uuid \<Rightarrow> ai_model result" where
  "get_model d model_id =
     the_or (NotFoundError (Msg ''Model {} not found.'' [AId model_id])) (live_by_id model_id (ai_models d))"

definition get_assignment :: "db \<Rightarrow> uuid \<Rightarrow> uuid \<Rightarrow> uuid option \<Rightarrow> bool \<Rightarrow> evaluation_ai_model result" where
  "get_assignment d evaluation_id assignment_id caller_id can_manage =
     the_or (NotFoundError (Msg ''Assignment {} not found in evaluation {}.'' [AId assignment_id, AId evaluation_id]))
       (List.find (\<lambda>a. em_evaluation_id a = evaluation_id \<and> row_id a = assignment_id \<and>
          (case caller_id of None \<Rightarrow> True
           | Some c \<Rightarrow> (case live_by_id (em_evaluation_id a) (evaluations d) of None \<Rightarrow> False
               | Some e \<Rightarrow> scope_to_groups d c can_manage e))) (live_select (eval_models d)))"

definition assignment_name :: "db \<Rightarrow> bool \<Rightarrow> evaluation_ai_model \<Rightarrow> string option" where
  "assignment_name d masked a =
     (if masked then em_model_display_mask a else map_option m_name (live_by_id (em_model_id a) (ai_models d)))"

definition list_evaluation_models ::
  "(string \<Rightarrow> string option \<Rightarrow> bool) \<Rightarrow> (bool \<Rightarrow> evaluation_ai_model \<Rightarrow> 'k::linorder) \<Rightarrow> db \<Rightarrow> uuid \<Rightarrow> uuid \<Rightarrow> bool \<Rightarrow>
     string option \<Rightarrow> nat \<Rightarrow> nat \<Rightarrow> timestamp \<Rightarrow> (evaluation_ai_model list \<times> nat \<times> bool) result" where
  "list_evaluation_models ilike order_key d evaluation_id caller_id deleted search limit offset deleted_cutoff =
     bindE (get_evaluation d evaluation_id (Some caller_id) False) (\<lambda>e.
     let masked = e_mask_models_enabled e;
         base = (if deleted then deleted_select deleted_cutoff None (eval_models d) else live_select (eval_models d));
         rows = filter (\<lambda>a. em_evaluation_id a = evaluation_id \<and> live_by_id (em_model_id a) (ai_models d) \<noteq> None \<and>
                  (case search of None \<Rightarrow> True | Some s \<Rightarrow> ilike s (assignment_name d masked a))) base;
         page = paginate limit offset (sort_key (order_key masked) (sort_key row_id rows))
     in Inr (fst page, snd page, masked))"

definition new_eval_model :: "db \<Rightarrow> uuid \<Rightarrow> uuid \<Rightarrow> string option \<Rightarrow> (string \<times> string) list \<Rightarrow> evaluation_ai_model" where
  "new_eval_model d evaluation_id model_id mask_models parameters =
     \<lparr>row_id = next_id d, created_at = now d, deleted_at = None, deleted_by_id = None, em_model_id = model_id,
      em_evaluation_id = evaluation_id, em_model_display_mask = mask_models, em_parameters = parameters\<rparr>"

definition assignment_clash :: "evaluation_ai_model \<Rightarrow> evaluation_ai_model \<Rightarrow> bool" where
  "assignment_clash x y \<longleftrightarrow> em_model_id x = em_model_id y \<and> em_evaluation_id x = em_evaluation_id y"

definition assign_model ::
  "db \<Rightarrow> uuid \<Rightarrow> uuid \<Rightarrow> string option \<Rightarrow> (string \<times> string) list option \<Rightarrow> (evaluation_ai_model \<times> db) result" where
  "assign_model d evaluation_id model_id mask_models parameters =
     bindE (get_evaluation d evaluation_id None False) (\<lambda>_.
     bindE (get_model d model_id) (\<lambda>_.
     let a = new_eval_model d evaluation_id model_id mask_models (case parameters of None \<Rightarrow> [] | Some p \<Rightarrow> p) in
     bindE (ensure (\<not> (\<exists>x\<in>set (live_select (eval_models d)). assignment_clash x a))
       (ConflictError (Msg ''Model is already assigned to this evaluation.'' []))) (\<lambda>_.
     Inr (a, d\<lparr>eval_models := eval_models d @ [a], next_id := Suc (next_id d)\<rparr>))))"

record assignment_update =
  au_model_display_mask :: "string option option"
  au_parameters :: "(string \<times> string) list option"

definition update_assignment :: "db \<Rightarrow> evaluation_ai_model \<Rightarrow> assignment_update \<Rightarrow> evaluation_ai_model \<times> db" where
  "update_assignment d a ch =
     (let a' = a\<lparr>em_model_display_mask := set_or (em_model_display_mask a) (au_model_display_mask ch),
                 em_parameters := set_or (em_parameters a) (au_parameters ch)\<rparr>
      in (a', d\<lparr>eval_models := save_row a' (eval_models d)\<rparr>))"

definition soft_delete_assignment :: "db \<Rightarrow> evaluation_ai_model \<Rightarrow> uuid \<Rightarrow> evaluation_ai_model \<times> db" where
  "soft_delete_assignment d a by_id =
     (let a' = soft_delete (now d) (Some by_id) a in (a', d\<lparr>eval_models := save_row a' (eval_models d)\<rparr>))"

definition get_restorable_assignment :: "db \<Rightarrow> uuid \<Rightarrow> uuid \<Rightarrow> timestamp \<Rightarrow> evaluation_ai_model result" where
  "get_restorable_assignment d evaluation_id assignment_id deleted_cutoff =
     the_or (NotFoundError (Msg ''No restorable assignment {} was unassigned from evaluation {} within the restore window.''
         [AId assignment_id, AId evaluation_id]))
       (List.find (\<lambda>a. em_evaluation_id a = evaluation_id \<and> row_id a = assignment_id \<and>
          live_by_id (em_model_id a) (ai_models d) \<noteq> None) (deleted_select deleted_cutoff None (eval_models d)))"

definition restore_assignment :: "db \<Rightarrow> evaluation_ai_model \<Rightarrow> (evaluation_ai_model \<times> db) result" where
  "restore_assignment d a =
     bindE (ensure (\<not> (\<exists>x\<in>set (live_select (eval_models d)). assignment_clash x a))
       (ConflictError (Msg ''This model is already assigned to the evaluation; remove the newer assignment first.'' []))) (\<lambda>_.
     bindE (restore_row assignment_clash (Msg ''Assignment cannot be restored.'' []) a (eval_models d)) (\<lambda>(a', t).
     Inr (a', d\<lparr>eval_models := t\<rparr>)))"

definition unassign_models_for_model :: "db \<Rightarrow> uuid \<Rightarrow> uuid \<Rightarrow> nat \<times> db" where
  "unassign_models_for_model d model_id by_id =
     (length (filter (\<lambda>a. em_model_id a = model_id) (live_select (eval_models d))),
      d\<lparr>eval_models := live_update (\<lambda>a. em_model_id a = model_id) (soft_delete (now d) (Some by_id)) (eval_models d)\<rparr>)"

subsection \<open>Approval\<close>

fun APPROVAL_TRANSITIONS :: "evaluation_status \<Rightarrow> evaluation_status list" where
  "APPROVAL_TRANSITIONS UNDER_REVIEW = [ES_APPROVED, REJECTED]"
| "APPROVAL_TRANSITIONS _ = []"

definition assert_approval_transition :: "evaluation \<Rightarrow> evaluation_status \<Rightarrow> unit result" where
  "assert_approval_transition e target =
     ensure (target \<in> set (APPROVAL_TRANSITIONS (e_status e)))
       (ConflictError (Msg ''Cannot move evaluation {} from {} to {}.''
          [AId (row_id e), AStr (evaluation_status_value (e_status e)), AStr (evaluation_status_value target)]))"

definition notify_evaluation_owner :: "db \<Rightarrow> evaluation \<Rightarrow> uuid \<Rightarrow> string \<Rightarrow> detail \<Rightarrow> db" where
  "notify_evaluation_owner d e caller_id name description =
     (if caller_id = e_created_by_id e then d
      else snd (create_notification d (e_created_by_id e) name (Some description) (Some NOT_EVALUATION) (Some (row_id e))))"

definition approve_evaluation :: "db \<Rightarrow> uuid \<Rightarrow> uuid \<Rightarrow> ((evaluation \<times> evaluation_status) \<times> db) result" where
  "approve_evaluation d evaluation_id caller_id =
     bindE (get_evaluation d evaluation_id None False) (\<lambda>e.
     bindE (assert_approval_transition e ES_APPROVED) (\<lambda>_.
     let e' = e\<lparr>e_status := ES_APPROVED, e_rejection_reason := None\<rparr> in
     Inr ((e', e_status e), notify_evaluation_owner (save_evaluation d e') e' caller_id ''Evaluation approved''
       (Msg ''Your evaluation '{}' was approved.'' [AStr (e_title e')]))))"

definition reject_evaluation :: "db \<Rightarrow> uuid \<Rightarrow> uuid \<Rightarrow> string \<Rightarrow> ((evaluation \<times> evaluation_status) \<times> db) result" where
  "reject_evaluation d evaluation_id caller_id rejection_reason =
     bindE (get_evaluation d evaluation_id None False) (\<lambda>e.
     bindE (assert_approval_transition e REJECTED) (\<lambda>_.
     let e' = e\<lparr>e_status := REJECTED, e_rejection_reason := Some rejection_reason\<rparr> in
     Inr ((e', e_status e), notify_evaluation_owner (save_evaluation d e') e' caller_id ''Evaluation rejected''
       (Msg ''Your evaluation '{}' was rejected: {}'' [AStr (e_title e'), AStr rejection_reason]))))"

end
