(* ===== verification/Scenarios.thy ===== *)
theory Scenarios
  imports Evaluations
begin

section \<open>Scenarios and tasks\<close>

text \<open>
  \<open>app/core/evaluations/services/scenarios.py\<close> and \<open>tasks.py\<close>: the ordered scenarios of an evaluation and the unordered
  tasks of a scenario.  Reads inherit the visibility of the parent group; writes are authorized by the
  routes through \<open>authorize_evaluation_mutation\<close> and \<open>authorize_scenario_mutation\<close>.  Only this service writes
  \<open>position\<close>, so it is a natural number.
\<close>

subsection \<open>Reading scenarios\<close>

definition scenario_visible :: "db \<Rightarrow> uuid \<Rightarrow> bool \<Rightarrow> scenario \<Rightarrow> bool" where
  "scenario_visible d caller_id can_manage s \<longleftrightarrow> visible_evaluation_group d (s_evaluation_id s) caller_id can_manage"

definition get_scenario :: "db \<Rightarrow> uuid \<Rightarrow> uuid \<Rightarrow> uuid option \<Rightarrow> bool \<Rightarrow> scenario result" where
  "get_scenario d evaluation_id scenario_id caller_id can_manage =
     the_or (NotFoundError (Msg ''Scenario {} not found in evaluation {}.'' [AId scenario_id, AId evaluation_id]))
       (List.find (\<lambda>s. s_evaluation_id s = evaluation_id \<and> row_id s = scenario_id \<and>
          (case caller_id of None \<Rightarrow> True | Some c \<Rightarrow> scenario_visible d c can_manage s)) (live_select (scenarios d)))"

definition get_scenario_by_id :: "db \<Rightarrow> uuid \<Rightarrow> uuid \<Rightarrow> bool \<Rightarrow> scenario result" where
  "get_scenario_by_id d scenario_id caller_id can_manage =
     the_or (NotFoundError (Msg ''Scenario {} not found.'' [AId scenario_id]))
       (List.find (\<lambda>s. row_id s = scenario_id \<and> scenario_visible d caller_id can_manage s) (live_select (scenarios d)))"

definition authorize_scenario_mutation :: "db \<Rightarrow> uuid \<Rightarrow> uuid \<Rightarrow> bool \<Rightarrow> unit result" where
  "authorize_scenario_mutation d scenario_id caller_id can_manage =
     (let missing_message = Msg ''Scenario {} not found.'' [AId scenario_id];
          group_id = (case live_by_id scenario_id (scenarios d) of None \<Rightarrow> None
            | Some s \<Rightarrow> (case live_by_id (s_evaluation_id s) (evaluations d) of None \<Rightarrow> None
                | Some e \<Rightarrow> map_option row_id (live_by_id (e_evaluation_group_id e) (groups d))))
      in bindE (the_or (NotFoundError missing_message) group_id) (\<lambda>i.
         assert_group_write_access d i caller_id can_manage EVALUATIONS_UPDATE missing_message))"

definition list_scenarios ::
  "(string \<Rightarrow> string option \<Rightarrow> bool) \<Rightarrow> (scenario \<Rightarrow> 'k::linorder) \<Rightarrow> db \<Rightarrow> uuid \<Rightarrow> bool \<Rightarrow> bool \<Rightarrow> uuid option \<Rightarrow>
     string option \<Rightarrow> nat \<Rightarrow> nat \<Rightarrow> timestamp \<Rightarrow> scenario list \<times> nat" where
  "list_scenarios ilike order_key d caller_id can_manage deleted evaluation_id search limit offset deleted_cutoff =
     (let base = (if deleted then deleted_select deleted_cutoff (if can_manage then None else Some caller_id) (scenarios d)
                  else live_select (scenarios d));
          rows = filter (scenario_visible d caller_id can_manage) base;
          rows = filter (\<lambda>s. (case evaluation_id of None \<Rightarrow> True | Some i \<Rightarrow> s_evaluation_id s = i) \<and>
                   (case search of None \<Rightarrow> True
                    | Some x \<Rightarrow> ilike x (Some (s_name s)) \<or> ilike x (Some (s_description s)))) rows
      in paginate limit offset (sort_key order_key (sort_key row_id rows)))"

subsection \<open>Writing scenarios\<close>

definition live_scenarios :: "db \<Rightarrow> uuid \<Rightarrow> scenario list" where
  "live_scenarios d evaluation_id = filter (\<lambda>s. s_evaluation_id s = evaluation_id) (live_select (scenarios d))"

definition next_position :: "db \<Rightarrow> uuid \<Rightarrow> nat" where
  "next_position d evaluation_id =
     (let ps = map s_position (live_scenarios d evaluation_id) in if ps = [] then 0 else Max (set ps) + 1)"

definition create_scenario :: "db \<Rightarrow> uuid \<Rightarrow> string \<Rightarrow> string \<Rightarrow> int \<Rightarrow> (scenario \<times> db) result" where
  "create_scenario d evaluation_id name description required_reviews =
     bindE (get_evaluation d evaluation_id None False) (\<lambda>_.
     bindE (ensure (1 \<le> required_reviews) IntegrityError) (\<lambda>_.
     let s = \<lparr>row_id = next_id d, created_at = now d, deleted_at = None, deleted_by_id = None, s_name = name,
              s_description = description, s_evaluation_id = evaluation_id, s_position = next_position d evaluation_id,
              s_required_reviews = required_reviews\<rparr>
     in Inr (s, d\<lparr>scenarios := scenarios d @ [s], next_id := Suc (next_id d)\<rparr>)))"

record scenario_update =
  su_name :: "string option"
  su_description :: "string option"
  su_required_reviews :: "int option"

definition save_scenario :: "db \<Rightarrow> scenario \<Rightarrow> db" where
  "save_scenario d s = d\<lparr>scenarios := save_row s (scenarios d)\<rparr>"

text \<open>The table's check constraint (\<open>required_reviews >= 1\<close>) stands behind both writes.\<close>

definition update_scenario :: "db \<Rightarrow> scenario \<Rightarrow> scenario_update \<Rightarrow> (scenario \<times> db) result" where
  "update_scenario d s ch =
     (let s' = s\<lparr>s_name := set_or (s_name s) (su_name ch), s_description := set_or (s_description s) (su_description ch),
                 s_required_reviews := set_or (s_required_reviews s) (su_required_reviews ch)\<rparr>
      in bindE (ensure (1 \<le> s_required_reviews s') IntegrityError) (\<lambda>_. Inr (s', save_scenario d s')))"

definition soft_delete_scenario :: "db \<Rightarrow> scenario \<Rightarrow> uuid \<Rightarrow> scenario \<times> db" where
  "soft_delete_scenario d s by_id = (let s' = soft_delete (now d) (Some by_id) s in (s', save_scenario d s'))"

definition get_restorable_scenario :: "db \<Rightarrow> uuid \<Rightarrow> uuid \<Rightarrow> uuid \<Rightarrow> bool \<Rightarrow> timestamp \<Rightarrow> scenario result" where
  "get_restorable_scenario d evaluation_id scenario_id caller_id can_manage deleted_cutoff =
     the_or (NotFoundError (Msg ''No restorable scenario {} was deleted from evaluation {} within the restore window.''
         [AId scenario_id, AId evaluation_id]))
       (List.find (\<lambda>s. s_evaluation_id s = evaluation_id \<and> row_id s = scenario_id \<and>
          (case live_by_id (s_evaluation_id s) (evaluations d) of None \<Rightarrow> False
           | Some e \<Rightarrow> live_by_id (e_evaluation_group_id e) (groups d) \<noteq> None))
          (deleted_select deleted_cutoff (if can_manage then None else Some caller_id) (scenarios d)))"

definition restore_scenario :: "db \<Rightarrow> scenario \<Rightarrow> (scenario \<times> db) result" where
  "restore_scenario d s =
     bindE (get_evaluation d (s_evaluation_id s) None False) (\<lambda>_.
     let s1 = s\<lparr>s_position := next_position d (s_evaluation_id s)\<rparr> in
     bindE (restore_row (\<lambda>_ _. False) (Msg ''Scenario cannot be restored.'' []) s1 (scenarios d)) (\<lambda>(s', t).
     Inr (s', d\<lparr>scenarios := t\<rparr>)))"

text \<open>The loop \<open>for position, scenario_id in enumerate(scenario_ids): by_id[scenario_id].position = position\<close>.\<close>

fun set_positions :: "nat \<Rightarrow> uuid list \<Rightarrow> uuid \<Rightarrow> scenario list \<Rightarrow> scenario list" where
  "set_positions p [] evaluation_id t = t"
| "set_positions p (i # ids) evaluation_id t =
     set_positions (Suc p) ids evaluation_id
       (live_update (\<lambda>s. s_evaluation_id s = evaluation_id \<and> row_id s = i) (\<lambda>s. s\<lparr>s_position := p\<rparr>) t)"

definition reorder_scenarios :: "db \<Rightarrow> uuid \<Rightarrow> uuid list \<Rightarrow> (scenario list \<times> db) result" where
  "reorder_scenarios d evaluation_id scenario_ids =
     (let known = map row_id (live_scenarios d evaluation_id);
          unknown = py_sorted_set (filter (\<lambda>i. i \<notin> set known) scenario_ids)
      in bindE (ensure (unknown = [])
           (NotFoundError (Msg ''Scenarios not found in evaluation {}: {}.'' [AId evaluation_id, AIds unknown]))) (\<lambda>_.
         bindE (ensure (set known \<subseteq> set scenario_ids)
           (ConflictError (Msg ''scenario_ids must list every scenario in the evaluation exactly once.'' []))) (\<lambda>_.
         let d' = d\<lparr>scenarios := set_positions 0 scenario_ids evaluation_id (scenarios d)\<rparr>
         in Inr (sort_key s_position (live_scenarios d' evaluation_id), d'))))"

subsection \<open>Tasks\<close>

definition task_visible :: "db \<Rightarrow> uuid \<Rightarrow> bool \<Rightarrow> task \<Rightarrow> bool" where
  "task_visible d caller_id can_manage t \<longleftrightarrow>
     (case live_by_id (t_scenario_id t) (scenarios d) of None \<Rightarrow> False
      | Some s \<Rightarrow> visible_evaluation_group d (s_evaluation_id s) caller_id can_manage)"

definition get_task :: "db \<Rightarrow> uuid \<Rightarrow> uuid \<Rightarrow> uuid option \<Rightarrow> bool \<Rightarrow> task result" where
  "get_task d scenario_id task_id caller_id can_manage =
     the_or (NotFoundError (Msg ''Task {} not found in scenario {}.'' [AId task_id, AId scenario_id]))
       (List.find (\<lambda>t. t_scenario_id t = scenario_id \<and> row_id t = task_id \<and>
          (case caller_id of None \<Rightarrow> True | Some c \<Rightarrow> task_visible d c can_manage t)) (live_select (tasks d)))"

definition newest_deleted_first :: "'a base_scheme \<Rightarrow> int" where
  "newest_deleted_first r = (case deleted_at r of None \<Rightarrow> 0 | Some t \<Rightarrow> - t)"

definition list_tasks ::
  "db \<Rightarrow> uuid \<Rightarrow> uuid \<Rightarrow> bool \<Rightarrow> bool \<Rightarrow> nat \<Rightarrow> nat \<Rightarrow> timestamp \<Rightarrow> task list \<times> nat" where
  "list_tasks d scenario_id caller_id can_manage deleted limit offset deleted_cutoff =
     (let base = (if deleted then deleted_select deleted_cutoff (if can_manage then None else Some caller_id) (tasks d)
                  else live_select (tasks d));
          rows = filter (\<lambda>t. t_scenario_id t = scenario_id) (filter (task_visible d caller_id can_manage) base)
      in paginate limit offset
           (sort_key (if deleted then newest_deleted_first else created_at) (sort_key row_id rows)))"

definition create_task :: "db \<Rightarrow> uuid \<Rightarrow> string \<Rightarrow> string \<Rightarrow> task \<times> db" where
  "create_task d scenario_id name description =
     (let t = \<lparr>row_id = next_id d, created_at = now d, deleted_at = None, deleted_by_id = None, t_name = name,
               t_description = description, t_scenario_id = scenario_id\<rparr>
      in (t, d\<lparr>tasks := tasks d @ [t], next_id := Suc (next_id d)\<rparr>))"

definition update_task :: "db \<Rightarrow> task \<Rightarrow> string option \<Rightarrow> string option \<Rightarrow> task \<times> db" where
  "update_task d t name description =
     (let t' = t\<lparr>t_name := set_or (t_name t) name, t_description := set_or (t_description t) description\<rparr>
      in (t', d\<lparr>tasks := save_row t' (tasks d)\<rparr>))"

definition get_restorable_task :: "db \<Rightarrow> uuid \<Rightarrow> uuid \<Rightarrow> uuid \<Rightarrow> bool \<Rightarrow> timestamp \<Rightarrow> task result" where
  "get_restorable_task d scenario_id task_id caller_id can_manage deleted_cutoff =
     the_or (NotFoundError (Msg ''No restorable task {} was deleted from scenario {} within the restore window.''
         [AId task_id, AId scenario_id]))
       (List.find (\<lambda>t. t_scenario_id t = scenario_id \<and> row_id t = task_id \<and>
          live_by_id (t_scenario_id t) (scenarios d) \<noteq> None)
          (deleted_select deleted_cutoff (if can_manage then None else Some caller_id) (tasks d)))"

definition restore_task :: "db \<Rightarrow> task \<Rightarrow> (task \<times> db) result" where
  "restore_task d t =
     bindE (restore_row (\<lambda>_ _. False) (Msg ''Task cannot be restored.'' []) t (tasks d)) (\<lambda>(t', ts).
     Inr (t', d\<lparr>tasks := ts\<rparr>))"

definition soft_delete_task :: "db \<Rightarrow> task \<Rightarrow> uuid \<Rightarrow> task \<times> db" where
  "soft_delete_task d t by_id = (let t' = soft_delete (now d) (Some by_id) t in (t', d\<lparr>tasks := save_row t' (tasks d)\<rparr>))"

end
