(* ===== verification/Model_Subset.thy ===== *)
theory Model_Subset
  imports Evaluations
begin

section \<open>Evaluations only use allowed models\<close>

text \<open>
  Every request that can change which models a group allows or which models its evaluations are assigned,
  as a step relation over the services of groups, evaluations and assignments.  The assignment step is the
  route \<open>assign_model_endpoint\<close>: authorize, check the group's subset, assign; the deletion of a model is the
  cascade that clears its assignments and its subset rows.  Restores are not among the steps; what they can do
  is stated at the end.
\<close>

inductive assign_step :: "(string \<Rightarrow> uuid) \<Rightarrow> db \<Rightarrow> db \<Rightarrow> bool" for cid where
  group: "group_step cid d d' \<Longrightarrow> assign_step cid d d'"
| create: "create_evaluation d ti de g c m ci mm te tr l = Inr (e, d') \<Longrightarrow> assign_step cid d d'"
| duplicate: "duplicate_evaluation d i c m ch = Inr (e, d') \<Longrightarrow> assign_step cid d d'"
| update: "get_evaluation d i None False = Inr e \<Longrightarrow> update_evaluation d e chg = Inr (e', d') \<Longrightarrow> assign_step cid d d'"
| delete: "get_evaluation d i None False = Inr e \<Longrightarrow> soft_delete_evaluation d e c = (e', d') \<Longrightarrow> assign_step cid d d'"
| assign: "authorize_evaluation_mutation d i c m EVALUATIONS_UPDATE False = Inr (g, st) \<Longrightarrow>
    assert_model_assignable_to_group d g x = Inr () \<Longrightarrow> assign_model d i x dm ps = Inr (a, d') \<Longrightarrow> assign_step cid d d'"
| edit: "get_assignment d i j None False = Inr a \<Longrightarrow> update_assignment d a ach = (a', d') \<Longrightarrow> assign_step cid d d'"
| unassign: "get_assignment d i j None False = Inr a \<Longrightarrow> soft_delete_assignment d a c = (a', d') \<Longrightarrow> assign_step cid d d'"
| drop_model: "d' = snd (unassign_group_models_for_model (snd (unassign_models_for_model d x c)) x c) \<Longrightarrow> assign_step cid d d'"

subsection \<open>The two relations behind the invariant\<close>

definition assigned_pairs :: "db \<Rightarrow> (uuid \<times> uuid) set" where
  "assigned_pairs d = {(em_model_id a, em_evaluation_id a) | a. a \<in> set (eval_models d) \<and> deleted_at a = None}"

definition evaluation_groups_of :: "db \<Rightarrow> (uuid \<times> uuid) set" where
  "evaluation_groups_of d = {(row_id e, e_evaluation_group_id e) | e. e \<in> set (evaluations d) \<and> deleted_at e = None}"

lemma assigned_models_pairs: "assigned_models d g = {m. \<exists>i. (m, i) \<in> assigned_pairs d \<and> (i, g) \<in> evaluation_groups_of d}"
  by (force simp: assigned_models_def model_used_by_group_evaluations_def assigned_pairs_def evaluation_groups_of_def)

lemma subset_inv_pairs:
  "subset_inv d \<longleftrightarrow> (\<forall>m i g. (m, i) \<in> assigned_pairs d \<longrightarrow> (i, g) \<in> evaluation_groups_of d \<longrightarrow> m \<in> allowed_models d g)"
  unfolding subset_inv_def assigned_models_pairs by blast

lemma subset_inv_shrink:
  assumes "subset_inv d" "assigned_pairs d' \<subseteq> assigned_pairs d" "evaluation_groups_of d' \<subseteq> evaluation_groups_of d"
    and "\<And>g. allowed_models d g \<subseteq> allowed_models d' g"
  shows "subset_inv d'"
  using assms unfolding subset_inv_pairs by blast

lemma pairs_cong: "eval_models d' = eval_models d \<Longrightarrow> assigned_pairs d' = assigned_pairs d"
  by (simp add: assigned_pairs_def)

lemma groups_of_cong: "evaluations d' = evaluations d \<Longrightarrow> evaluation_groups_of d' = evaluation_groups_of d"
  by (simp add: evaluation_groups_of_def)

lemma pairs_append:
  "eval_models d' = eval_models d @ [a] \<Longrightarrow> deleted_at a = None \<Longrightarrow>
     assigned_pairs d' = insert (em_model_id a, em_evaluation_id a) (assigned_pairs d)"
  by (force simp: assigned_pairs_def)

lemma groups_of_append:
  "evaluations d' = evaluations d @ [e] \<Longrightarrow> deleted_at e = None \<Longrightarrow>
     evaluation_groups_of d' = insert (row_id e, e_evaluation_group_id e) (evaluation_groups_of d)"
  by (force simp: evaluation_groups_of_def)

lemma allowed_cong: "group_models d' = group_models d \<Longrightarrow> allowed_models d' = allowed_models d"
  by (simp add: fun_eq_iff allowed_models_def allowed_rows_def)

lemma refs_ok_mono:
  assumes "refs_ok d" "next_id d \<le> next_id d'" "tasks d' = tasks d" "scenarios d' = scenarios d" "tag_keys d' = tag_keys d"
    "eval_models d' = eval_models d" "evaluations d' = evaluations d" "group_models d' = group_models d"
  shows "refs_ok d'"
  using assms by (fastforce simp: refs_ok_def)

lemma subset_inv_frame:
  "subset_inv d \<Longrightarrow> eval_models d' = eval_models d \<Longrightarrow> evaluations d' = evaluations d \<Longrightarrow> group_models d' = group_models d \<Longrightarrow>
     subset_inv d'"
  by (erule subset_inv_shrink) (auto simp: assigned_pairs_def evaluation_groups_of_def allowed_models_def allowed_rows_def)

text \<open>The state invariant: references and keys are in range, and only allowed models are assigned.\<close>

definition assign_inv :: "db \<Rightarrow> bool" where
  "assign_inv d \<longleftrightarrow> refs_ok d \<and> group_inv d \<and> distinct (map row_id (evaluations d)) \<and> subset_inv d"

lemma assign_invD:
  assumes "assign_inv d"
  shows "refs_ok d" "group_inv d" "distinct (map row_id (evaluations d))" "subset_inv d"
  using assms by (auto simp: assign_inv_def)

lemma evaluation_group_unique:
  assumes "distinct (map row_id (evaluations d))" "(i, g) \<in> evaluation_groups_of d" "(i, g') \<in> evaluation_groups_of d"
  shows "g = g'"
  using assms distinct_map_same [of row_id "evaluations d"] by (auto simp: evaluation_groups_of_def)

subsection \<open>Group requests\<close>

lemma persisted_inv:
  assumes "persist_new_group d c f l st = Inr (g, d1)" "assign_inv d"
  shows "refs_ok d1 \<and> subset_inv d1 \<and> evaluations d1 = evaluations d \<and> row_id g < next_id d1"
  using assms(1)
proof (rule persist_new_group_Inr)
  fix r as n assume g: "g = new_group d c f l st" and n: "next_id d < n"
    and d1: "d1 = d\<lparr>groups := groups d @ [g], assignments := as, next_id := n\<rparr>"
  have "refs_ok d1" using refs_ok_mono [of d d1] assign_invD(1) [OF assms(2)] n d1 by simp
  moreover have "subset_inv d1"
    by (rule subset_inv_frame [OF assign_invD(4) [OF assms(2)]]) (simp_all add: d1)
  ultimately show ?thesis using g n d1 by simp
qed

lemma sync_refs:
  assumes "sync_group_models d g ms u = Inr (pc, d')" "refs_ok d" "g < next_id d"
  shows "refs_ok d'"
proof -
  let ?d1 = "d\<lparr>group_models := soft_delete_rows (now d) (Some u)
      (filter (\<lambda>r. gm_model_id r \<notin> set (py_sorted_set ms)) (allowed_rows d g)) (group_models d)\<rparr>"
  obtain xs where d': "d' = add_group_models ?d1 g xs"
    using assms(1) by (auto simp: sync_group_models_def Let_def svc_simps)
  have "gm_evaluation_group_id (soft_delete t u r) = gm_evaluation_group_id r" for t u and r :: evaluation_group_ai_model
    by (simp add: soft_delete_def)
  then have "refs_ok ?d1" using assms(2) by (auto simp: refs_ok_def soft_delete_rows_def)
  then show ?thesis using add_group_models_refs [of ?d1 g xs] assms(3) d' by simp
qed

lemma created_inv:
  assumes "persist_new_group d c f l st = Inr (g, d1)" "assign_inv d" "sync_group_models d1 (row_id g) ms c = Inr (pc, d')"
  shows "refs_ok d' \<and> subset_inv d' \<and> evaluations d' = evaluations d"
  using persisted_inv [OF assms(1,2)] sync_refs [OF assms(3)] sync_group_models_subset [OF assms(3)]
    sync_group_models_Inr(1) [OF assms(3)] by simp

lemma updated_inv:
  assumes "get_evaluation_group d i c m = Inr g" "update_evaluation_group cid d g c m ch = Inr (g', d')" "assign_inv d"
  shows "refs_ok d' \<and> subset_inv d' \<and> evaluations d' = evaluations d"
  using assms(2)
proof (rule update_evaluation_group_Inr)
  fix d1
  assume m1: "case gu_allowed_model_ids ch of None \<Rightarrow> d1 = d | Some ms \<Rightarrow> (\<exists>pc. sync_group_models d (row_id g) ms c = Inr (pc, d1))"
    and d': "d' = d1\<lparr>groups := save_row g' (groups d1)\<rparr>"
  have "row_id g < next_id d"
    using get_evaluation_group_Inr [OF assms(1)] assign_invD(2) [OF assms(3)] by (auto simp: group_inv_def keys_ok_def)
  then have "refs_ok d1 \<and> subset_inv d1 \<and> evaluations d1 = evaluations d"
    using m1 assign_invD(1,4) [OF assms(3)] sync_refs [of d "row_id g" _ c] sync_group_models_subset [of d "row_id g" _ c]
      sync_group_models_Inr(1) [of d "row_id g" _ c] by (fastforce split: option.splits)
  then show ?thesis
    using d' refs_ok_mono [of d1 d'] subset_inv_frame [of d1 d'] by simp
qed

definition content_kept :: "db \<Rightarrow> db \<Rightarrow> bool" where
  "content_kept d d' \<longleftrightarrow> next_id d \<le> next_id d' \<and> tasks d' = tasks d \<and> scenarios d' = scenarios d \<and> tag_keys d' = tag_keys d \<and>
     eval_models d' = eval_models d \<and> evaluations d' = evaluations d \<and> group_models d' = group_models d"

lemma content_kept_moderated [simp]:
  "content_kept d (save_group d g)" "content_kept d (notify_owner (save_group d g) g a n t)"
  by (simp_all add: content_kept_def save_group_def notify_owner_def create_notification_def Let_def)

lemma moderation_frame: "moderation_step d d' \<Longrightarrow> content_kept d d'"
  by (induction rule: moderation_step.induct) (auto simp: moderation_defs svc_simps Let_def)

subsection \<open>Copies\<close>

lemma copy_frames:
  "eval_models (copy_tasks d i ts) = eval_models d" "evaluations (copy_tasks d i ts) = evaluations d"
  "group_models (copy_tasks d i ts) = group_models d" "scenarios (copy_tasks d i ts) = scenarios d"
  by (induction d i ts rule: copy_tasks.induct) simp_all

lemma copy_tag_keys_frames:
  "eval_models (copy_tag_keys d i ks) = eval_models d" "evaluations (copy_tag_keys d i ks) = evaluations d"
  "group_models (copy_tag_keys d i ks) = group_models d"
  by (induction d i ks rule: copy_tag_keys.induct) simp_all

lemma copy_scenarios_frames:
  "eval_models (copy_scenarios d0 d i ss) = eval_models d" "evaluations (copy_scenarios d0 d i ss) = evaluations d"
  "group_models (copy_scenarios d0 d i ss) = group_models d"
  unfolding copy_scenarios_def by (induction ss arbitrary: d) (simp_all add: copy_scenario_def copy_frames)

lemma copy_models_frames:
  "assigned_pairs (copy_models d i as) = assigned_pairs d \<union> (\<lambda>a. (em_model_id a, i)) ` set as"
  "evaluations (copy_models d i as) = evaluations d" "group_models (copy_models d i as) = group_models d"
proof (induction d i as rule: copy_models.induct)
  case (2 d i a as)
  let ?a = "\<lparr>row_id = next_id d, created_at = now d, deleted_at = None, deleted_by_id = None, em_model_id = em_model_id a,
      em_evaluation_id = i, em_model_display_mask = em_model_display_mask a, em_parameters = em_parameters a\<rparr>"
  let ?d = "d\<lparr>eval_models := eval_models d @ [?a], next_id := Suc (next_id d)\<rparr>"
  have "assigned_pairs ?d = insert (em_model_id a, i) (assigned_pairs d)" using pairs_append [of ?d d ?a] by simp
  then show "assigned_pairs (copy_models d i (a # as)) = assigned_pairs d \<union> (\<lambda>a. (em_model_id a, i)) ` set (a # as)"
    using 2 by simp
  show "evaluations (copy_models d i (a # as)) = evaluations d" "group_models (copy_models d i (a # as)) = group_models d"
    using 2 by simp_all
qed simp_all

lemma subset_inv_copied:
  assumes "subset_inv d" "refs_ok d" "assigned_pairs d' = assigned_pairs d \<union> M \<times> {next_id d}"
    "evaluation_groups_of d' = evaluation_groups_of d \<union> {(next_id d, g)}" "allowed_models d' = allowed_models d"
    "M \<subseteq> allowed_models d g"
  shows "subset_inv d'"
proof -
  have "i < next_id d" if "(m, i) \<in> assigned_pairs d" for m i
    using that assms(2) by (auto simp: assigned_pairs_def refs_ok_def)
  moreover have "i < next_id d" if "(i, h) \<in> evaluation_groups_of d" for i h
    using that assms(2) by (auto simp: evaluation_groups_of_def refs_ok_def)
  ultimately show ?thesis
    using assms(1,6) unfolding subset_inv_pairs assms(3-5) by blast
qed

definition kept_models_of :: "db \<Rightarrow> uuid \<Rightarrow> uuid set" where
  "kept_models_of d i = {em_model_id a | a. a \<in> set (models_of d i) \<and> model_kept d (em_model_id a)}"

lemma copy_evaluation_subset:
  assumes "subset_inv d" "refs_ok d" "kept_models_of d0 (row_id e) \<subseteq> allowed_models d g"
  shows "subset_inv (copy_evaluation d0 c g d e)"
proof (rule subset_inv_copied [OF assms(1,2) _ _ _ assms(3)])
  let ?d' = "copy_evaluation d0 c g d e"
  show "assigned_pairs ?d' = assigned_pairs d \<union> kept_models_of d0 (row_id e) \<times> {next_id d}"
    unfolding copy_evaluation_def Let_def pairs_cong [OF copy_scenarios_frames(1)] copy_models_frames(1)
      pairs_cong [OF copy_tag_keys_frames(1)]
    by (auto simp: kept_models_of_def assigned_pairs_def)
  show "evaluation_groups_of ?d' = evaluation_groups_of d \<union> {(next_id d, g)}"
    using groups_of_append [of ?d' d "new_evaluation_copy d c g e"]
    by (auto simp: copy_evaluation_def Let_def copy_scenarios_frames copy_models_frames copy_tag_keys_frames new_evaluation_copy_def)
  show "allowed_models ?d' = allowed_models d"
    by (rule allowed_cong) (simp add: copy_evaluation_def Let_def copy_scenarios_frames copy_models_frames copy_tag_keys_frames)
qed

lemma copy_evaluations_subset:
  assumes "subset_inv d" "refs_ok d" "g < next_id d" "ai_models d = ai_models d0"
    "\<forall>e\<in>set es. kept_models_of d0 (row_id e) \<subseteq> allowed_models d g" "distinct (map row_id (evaluations d))"
  shows "subset_inv (foldl (copy_evaluation d0 c g) d es) \<and> distinct (map row_id (evaluations (foldl (copy_evaluation d0 c g) d es)))"
  using assms
proof (induction es arbitrary: d)
  case (Cons e es)
  let ?d = "copy_evaluation d0 c g d e"
  have h: "extends (next_id d) (next_id d) d ?d" "refs_ok ?d" "evaluations ?d = evaluations d @ [new_evaluation_copy d c g e]"
    "next_id d < next_id ?d" using copy_evaluation_grow [OF Cons(4,3,5), of c e] by blast+
  have s: "subset_inv ?d" using copy_evaluation_subset Cons(2,3,6) by simp
  have a: "allowed_models ?d = allowed_models d" using allowed_cong [of ?d d] h(1) by (simp add: extends_def)
  have "next_id d \<notin> row_id ` set (evaluations d)" using Cons(3) by (auto simp: refs_ok_def)
  then have k: "distinct (map row_id (evaluations ?d))" using h(3) Cons(7) by (simp add: new_evaluation_copy_def)
  have "ai_models ?d = ai_models d0" using h(1) Cons(5) by (simp add: extends_def)
  then show ?case using Cons(1) [of ?d] s h k a Cons(4,6) by simp
qed simp

lemma source_models_allowed:
  assumes "subset_inv d" "e \<in> set (evaluations_of d i)"
  shows "kept_models_of d (row_id e) \<subseteq> {x \<in> allowed_models d i. model_kept d x}"
proof -
  have "(row_id e, i) \<in> evaluation_groups_of d" using assms(2) by (auto simp: evaluations_of_def evaluation_groups_of_def)
  then have "em_model_id a \<in> allowed_models d i" if "a \<in> set (models_of d (row_id e))" for a
  proof -
    have "(em_model_id a, row_id e) \<in> assigned_pairs d" using that by (force simp: models_of_def assigned_pairs_def)
    then show ?thesis using \<open>(row_id e, i) \<in> evaluation_groups_of d\<close> assms(1) unfolding subset_inv_pairs by blast
  qed
  then show ?thesis by (auto simp: kept_models_of_def)
qed

lemma duplicated_group_inv:
  assumes "duplicate_evaluation_group d i c m ch = Inr (copy, d')" "assign_inv d"
  shows "refs_ok d' \<and> subset_inv d' \<and> distinct (map row_id (evaluations d'))"
  using assms(1)
proof (rule duplicate_Inr)
  fix source d1
  let ?ms = "filter (model_kept d) (map gm_model_id (allowed_rows d i))"
  let ?f = "\<lparr>gf_title = g_title source, gf_description = g_description source, gf_access = g_access_level source,
        gf_during = g_metrics_access_during source, gf_after = g_metrics_access_after source,
        gf_organization_id = (case g_organization_id source of None \<Rightarrow> None | Some i \<Rightarrow> if live_org d i then Some i else None),
        gf_start_date = g_start_date source, gf_end_date = g_end_date source\<rparr>"
  define d2 where "d2 = add_group_models d1 (row_id copy) ?ms"
  assume p: "persist_new_group d c ?f (g_data_license_id source) PS_DRAFT = Inr (copy, d1)"
    and d': "d' = (let d2 = add_group_models d1 (row_id copy) ?ms in
       if ch then foldl (copy_evaluation d c (row_id copy)) d2 (ordered_evaluations_of d i) else d2)"
  note inv = assign_invD [OF assms(2)]
  note sh = duplicate_shell [OF p inv(1) d2_def]
  have s1: "subset_inv d1" using persisted_inv [OF p assms(2)] by blast
  have s2: "subset_inv d2"
    by (rule subset_inv_shrink [OF s1])
      (simp_all add: d2_def pairs_cong [OF add_group_models_frame(2)] groups_of_cong [OF add_group_models_frame(1)] allowed_models_add)
  have allowed: "{x \<in> allowed_models d i. model_kept d x} \<subseteq> allowed_models d2 (row_id copy)"
    using sh by (auto simp: allowed_models_def)
  have k: "distinct (map row_id (evaluations d2))" using inv(3) sh by simp
  have "\<forall>e\<in>set (ordered_evaluations_of d i). kept_models_of d (row_id e) \<subseteq> allowed_models d2 (row_id copy)"
    using source_models_allowed [OF inv(4)] allowed by (fastforce simp: ordered_evaluations_of_def)
  then have "subset_inv (foldl (copy_evaluation d c (row_id copy)) d2 (ordered_evaluations_of d i)) \<and>
      distinct (map row_id (evaluations (foldl (copy_evaluation d c (row_id copy)) d2 (ordered_evaluations_of d i))))"
    using copy_evaluations_subset [OF s2] sh k by simp
  moreover have "refs_ok (foldl (copy_evaluation d c (row_id copy)) d2 (ordered_evaluations_of d i))"
    using copy_evaluations_grow [of "row_id copy" d2 d c] sh by blast
  moreover have "d' = (if ch then foldl (copy_evaluation d c (row_id copy)) d2 (ordered_evaluations_of d i) else d2)"
    unfolding d' d2_def Let_def ..
  ultimately show ?thesis using s2 sh k by (cases ch) auto
qed

subsection \<open>Evaluation requests\<close>

lemma group_step_assign_inv:
  assumes "group_step cid d d'" "assign_inv d"
  shows "assign_inv d'"
proof -
  note inv = assign_invD [OF assms(2)]
  have "group_inv d'" using lifecycle.step_keeps [OF assms(1) inv(2)] .
  moreover have "refs_ok d' \<and> subset_inv d' \<and> distinct (map row_id (evaluations d'))"
    using assms(1)
  proof cases
    case (create c ti de lv du af org m s e l ls ms st g)
    from create(1) show ?thesis by (rule create_evaluation_group_Inr) (use created_inv assms(2) inv(3) in metis)
  next
    case (draft c f m l ls ms g)
    then show ?thesis by (rule create_evaluation_group_draft_Inr) (use created_inv assms(2) inv(3) in metis)
  next
    case (duplicate i c m ch g)
    then show ?thesis using duplicated_group_inv assms(2) by blast
  next
    case (update i c m g chg g')
    then show ?thesis using updated_inv assms(2) inv(3) by metis
  next
    case moderate
    then have "content_kept d d'" by (rule moderation_frame)
    then show ?thesis using refs_ok_mono [of d d'] subset_inv_frame [of d d'] inv by (simp add: content_kept_def)
  qed
  ultimately show ?thesis by (simp add: assign_inv_def)
qed

lemma group_inv_frame: "group_inv d \<Longrightarrow> groups d' = groups d \<Longrightarrow> next_id d \<le> next_id d' \<Longrightarrow> group_inv d'"
  using keys_ok_mono by (auto simp: group_inv_def)

lemma live_group_key: "group_inv d \<Longrightarrow> live_by_id i (groups d) = Some g \<Longrightarrow> row_id g = i \<and> i < next_id d"
  by (auto simp: group_inv_def keys_ok_def dest!: live_by_id_SomeD)

lemma get_evaluation_Inr:
  "get_evaluation d i c m = Inr e \<Longrightarrow> e \<in> set (evaluations d) \<and> row_id e = i \<and> deleted_at e = None"
  by (auto simp: get_evaluation_def dest!: find_SomeD)

lemma evaluation_fresh: "refs_ok d \<Longrightarrow> next_id d \<notin> row_id ` set (evaluations d)"
  by (auto simp: refs_ok_def)

lemma created_evaluation_inv:
  assumes "create_evaluation d ti de g c m ci mm te tr l = Inr (e, d')" "assign_inv d"
  shows "assign_inv d'"
proof -
  note inv = assign_invD [OF assms(2)]
  from assms(1) obtain x where x: "live_by_id g (groups d) = Some x" and e: "e = new_evaluation d ti de g c ci mm te tr l"
    and d': "d' = d\<lparr>evaluations := evaluations d @ [e], next_id := Suc (next_id d)\<rparr>"
    by (auto simp: create_evaluation_def svc_simps Let_def)
  have "g < next_id d" using live_group_key [OF inv(2) x] by simp
  then have "refs_ok d'" using inv(1) by (fastforce simp: refs_ok_def d' e new_evaluation_def)
  moreover have "subset_inv d'"
  proof (rule subset_inv_copied [OF inv(4,1), where M = "{}"])
    show "assigned_pairs d' = assigned_pairs d \<union> {} \<times> {next_id d}" using pairs_cong [of d' d] d' by simp
    show "evaluation_groups_of d' = evaluation_groups_of d \<union> {(next_id d, g)}"
      using groups_of_append [of d' d e] d' e by (simp add: new_evaluation_def)
    show "allowed_models d' = allowed_models d" using allowed_cong [of d' d] d' by simp
  qed simp
  moreover have "distinct (map row_id (evaluations d'))"
    using inv(3) evaluation_fresh [OF inv(1)] d' e by (simp add: new_evaluation_def)
  ultimately show ?thesis using group_inv_frame [OF inv(2), of d'] d' by (simp add: assign_inv_def)
qed

lemma saved_evaluation_inv:
  assumes "assign_inv d" "e \<in> set (evaluations d)" "deleted_at e = None" "row_id e' = row_id e"
    "e_evaluation_group_id e' = e_evaluation_group_id e" "d' = save_evaluation d e'"
  shows "assign_inv d'"
proof -
  note inv = assign_invD [OF assms(1)]
  have "refs_ok d'" using inv(1) assms(2,4-6) by (auto simp: refs_ok_def save_evaluation_def in_save_row)
  moreover have "evaluation_groups_of d' \<subseteq> evaluation_groups_of d"
    using assms(2-6) by (auto simp: evaluation_groups_of_def save_evaluation_def in_save_row)
  then have "subset_inv d'"
    using subset_inv_shrink [OF inv(4), of d'] pairs_cong [of d' d] allowed_cong [of d' d] assms(6) by (simp add: save_evaluation_def)
  ultimately show ?thesis
    using inv(3) group_inv_frame [OF inv(2), of d'] assms(6) by (simp add: assign_inv_def save_evaluation_def)
qed

lemma saved_assignment_inv:
  assumes "assign_inv d" "a \<in> set (eval_models d)" "deleted_at a = None" "em_model_id a' = em_model_id a"
    "em_evaluation_id a' = em_evaluation_id a" "d' = d\<lparr>eval_models := save_row a' (eval_models d)\<rparr>"
  shows "assign_inv d'"
proof -
  note inv = assign_invD [OF assms(1)]
  have "refs_ok d'" using inv(1) assms(2,4-6) by (auto simp: refs_ok_def in_save_row)
  moreover have "assigned_pairs d' \<subseteq> assigned_pairs d"
    using assms(2-6) by (auto simp: assigned_pairs_def in_save_row)
  then have "subset_inv d'"
    using subset_inv_shrink [OF inv(4), of d'] groups_of_cong [of d' d] allowed_cong [of d' d] assms(6) by simp
  ultimately show ?thesis
    using inv(3) group_inv_frame [OF inv(2), of d'] assms(6) by (simp add: assign_inv_def)
qed

lemma assigned_inv:
  assumes "authorize_evaluation_mutation d i c m EVALUATIONS_UPDATE False = Inr (g, st)"
    "assert_model_assignable_to_group d g x = Inr ()" "assign_model d i x dm ps = Inr (a, d')" "assign_inv d"
  shows "assign_inv d'"
proof -
  note inv = assign_invD [OF assms(4)]
  from assms(1) obtain e h where e: "e \<in> set (evaluations d)" "row_id e = i" "deleted_at e = None"
    and h: "live_by_id (e_evaluation_group_id e) (groups d) = Some h" "g = row_id h"
    by (auto simp: authorize_evaluation_mutation_def svc_simps dest!: find_SomeD)
  have g: "e_evaluation_group_id e = g" using live_group_key [OF inv(2) h(1)] h(2) by simp
  from assms(3) obtain ps' where a: "a = new_eval_model d i x dm ps'"
    and d': "d' = d\<lparr>eval_models := eval_models d @ [a], next_id := Suc (next_id d)\<rparr>"
    by (auto simp: assign_model_def svc_simps Let_def)
  have "i < next_id d" using e inv(1) by (auto simp: refs_ok_def)
  then have refs: "refs_ok d'" using inv(1) a d' by (fastforce simp: refs_ok_def new_eval_model_def)
  have x: "x \<in> allowed_models d g"
    using assms(2) by (auto simp: assert_model_assignable_to_group_def Let_def svc_simps allowed_models_def)
  have ig: "(i, g) \<in> evaluation_groups_of d" using e g by (force simp: evaluation_groups_of_def)
  have p: "assigned_pairs d' = insert (x, i) (assigned_pairs d)"
    using pairs_append [of d' d a] a d' by (simp add: new_eval_model_def)
  have f: "evaluation_groups_of d' = evaluation_groups_of d" "allowed_models d' = allowed_models d"
    using groups_of_cong [of d' d] allowed_cong [of d' d] d' by simp_all
  have "subset_inv d'"
    unfolding subset_inv_pairs p f
  proof (intro allI impI)
    fix y j h assume "(y, j) \<in> insert (x, i) (assigned_pairs d)" "(j, h) \<in> evaluation_groups_of d"
    then show "y \<in> allowed_models d h"
      using x evaluation_group_unique [OF inv(3) ig] inv(4) [unfolded subset_inv_pairs] by (cases "(y, j) = (x, i)") auto
  qed
  then show ?thesis
    using refs inv(3) group_inv_frame [OF inv(2), of d'] d' by (simp add: assign_inv_def)
qed

lemma duplicate_evaluation_Inr:
  assumes "duplicate_evaluation d i c m ch = Inr (e, d')"
  obtains src gs g d1 d2 where "get_evaluation d i None False = Inr src"
    "live_by_id (e_evaluation_group_id src) (groups d) = Some g"
    "d1 = d\<lparr>evaluations := evaluations d @ [new_evaluation_copy d c (e_evaluation_group_id src) src], next_id := Suc (next_id d)\<rparr>"
    "d2 = (if ch then copy_scenarios d (copy_models d1 (next_id d) (filter (\<lambda>a. model_kept d (em_model_id a)) (models_of d (row_id src))))
        (next_id d) (scenarios_of d (row_id src)) else d1)"
    "d' = copy_tag_keys d2 (next_id d) (tag_keys_of d (row_id src))"
proof -
  from assms obtain src x g where s: "get_evaluation d i None False = Inr src"
    and x: "List.find (\<lambda>e. row_id e = i \<and> deleted_at e = None) (evaluations d) = Some x"
      "live_by_id (e_evaluation_group_id x) (groups d) = Some g"
    by (auto simp: duplicate_evaluation_def svc_simps authorize_evaluation_mutation_def)
  have "List.find P (live_select t) = List.find (\<lambda>r. P r \<and> deleted_at r = None) t" for P and t :: "evaluation list"
    by (induction t) (auto simp: live_select_def)
  then have "src = x" using s x(1) by (simp add: get_evaluation_def)
  then show thesis using that [OF s] x(2) assms s by (auto simp: duplicate_evaluation_def svc_simps Let_def split: prod.splits)
qed

lemma duplicated_evaluation_inv:
  assumes "duplicate_evaluation d i c m ch = Inr (e, d')" "assign_inv d"
  shows "assign_inv d'"
  using assms(1)
proof (rule duplicate_evaluation_Inr)
  note inv = assign_invD [OF assms(2)]
  let ?n = "next_id d"
  fix src :: evaluation and g d1 d2
  let ?keep = "filter (\<lambda>a. model_kept d (em_model_id a)) (models_of d (row_id src))"
  define dm where "dm = copy_models d1 ?n ?keep"
  assume src: "get_evaluation d i None False = Inr src" and g: "live_by_id (e_evaluation_group_id src) (groups d) = Some g"
    and d1: "d1 = d\<lparr>evaluations := evaluations d @ [new_evaluation_copy d c (e_evaluation_group_id src) src], next_id := Suc ?n\<rparr>"
    and "d2 = (if ch then copy_scenarios d (copy_models d1 ?n ?keep) ?n (scenarios_of d (row_id src)) else d1)"
    and d': "d' = copy_tag_keys d2 ?n (tag_keys_of d (row_id src))"
  then have d2: "d2 = (if ch then copy_scenarios d dm ?n (scenarios_of d (row_id src)) else d1)" by (simp add: dm_def)
  have e: "src \<in> set (evaluations d)" "deleted_at src = None" using get_evaluation_Inr [OF src] by auto
  have "e_evaluation_group_id src < ?n" using e inv(1) by (auto simp: refs_ok_def)
  then have r1: "refs_ok d1" using inv(1) by (fastforce simp: refs_ok_def d1 new_evaluation_copy_def)
  have rm: "refs_ok dm \<and> ?n < next_id dm"
    using copy_models_grow [of ?n d1 ?n ?keep] r1 by (auto simp: dm_def d1 extends_def)
  then have r2: "refs_ok d2 \<and> ?n < next_id d2"
    using copy_scenarios_grow [of ?n dm d "scenarios_of d (row_id src)"] r1 by (auto simp: d2 d1 extends_def)
  then have refs: "refs_ok d'" "next_id d2 \<le> next_id d'"
    using copy_tag_keys_grow [of ?n d2 ?n "tag_keys_of d (row_id src)"] by (auto simp: d' extends_def)
  have ev: "evaluations d' = evaluations d @ [new_evaluation_copy d c (e_evaluation_group_id src) src]"
    by (simp add: d' d2 dm_def d1 copy_tag_keys_frames copy_scenarios_frames copy_models_frames)
  have gm: "group_models d' = group_models d"
    by (simp add: d' d2 dm_def d1 copy_tag_keys_frames copy_scenarios_frames copy_models_frames)
  have gr: "groups d' = groups d"
    using same_members_copy(2) [of d2 ?n "tag_keys_of d (row_id src)"] same_members_copy(3) [of d1 ?n ?keep]
      same_members_foldl [of "\<lambda>d' s. copy_scenario d d' ?n s" dm "scenarios_of d (row_id src)"] same_members_copy_scenario
    by (auto simp: same_members_def d' d2 dm_def d1 copy_scenarios_def)
  have "subset_inv d'"
  proof (rule subset_inv_copied [OF inv(4,1), where M = "if ch then kept_models_of d (row_id src) else {}"])
    show "assigned_pairs d' = assigned_pairs d \<union> (if ch then kept_models_of d (row_id src) else {}) \<times> {?n}"
      unfolding d' pairs_cong [OF copy_tag_keys_frames(1)] d2
      using pairs_cong [OF copy_scenarios_frames(1), of d dm ?n "scenarios_of d (row_id src)"] copy_models_frames(1) [of d1 ?n ?keep]
        pairs_cong [of d1 d] by (auto simp: d1 dm_def kept_models_of_def)
    show "evaluation_groups_of d' = evaluation_groups_of d \<union> {(?n, e_evaluation_group_id src)}"
      using groups_of_append [OF ev] by (simp add: new_evaluation_copy_def)
    show "allowed_models d' = allowed_models d" using allowed_cong [OF gm] .
    show "(if ch then kept_models_of d (row_id src) else {}) \<subseteq> allowed_models d (e_evaluation_group_id src)"
      using source_models_allowed [OF inv(4), of src "e_evaluation_group_id src"] e by (auto simp: evaluations_of_def)
  qed
  moreover have "distinct (map row_id (evaluations d'))"
    using inv(3) evaluation_fresh [OF inv(1)] ev by (simp add: new_evaluation_copy_def)
  ultimately show ?thesis
    using refs r2 group_inv_frame [OF inv(2) gr] by (simp add: assign_inv_def)
qed

lemma dropped_model_inv:
  assumes "assign_inv d" "d' = snd (unassign_group_models_for_model (snd (unassign_models_for_model d x c)) x c)"
  shows "assign_inv d'"
proof -
  note inv = assign_invD [OF assms(1)]
  have d': "d' = d\<lparr>eval_models := live_update (\<lambda>a. em_model_id a = x) (soft_delete (now d) (Some c)) (eval_models d),
      group_models := live_update (\<lambda>r. gm_model_id r = x) (soft_delete (now d) (Some c)) (group_models d)\<rparr>"
    using assms(2) by (simp add: unassign_group_models_for_model_def unassign_models_for_model_def)
  have sd [simp]: "em_evaluation_id (soft_delete t u a) = em_evaluation_id a" "gm_evaluation_group_id (soft_delete t u r) = gm_evaluation_group_id r"
    for t u and a :: evaluation_ai_model and r :: evaluation_group_ai_model by (simp_all add: soft_delete_def)
  have "refs_ok d'" using inv(1) by (auto simp: refs_ok_def d' live_update_def)
  moreover have "assigned_pairs d' = {p \<in> assigned_pairs d. fst p \<noteq> x}"
    by (auto simp: assigned_pairs_def d' live_update_def split: if_splits)
  moreover have "allowed_models d' g = allowed_models d g - {x}" for g
    by (auto simp: in_allowed_models d' live_update_def split: if_splits) force
  moreover have "evaluation_groups_of d' = evaluation_groups_of d" using groups_of_cong [of d' d] d' by simp
  ultimately have "subset_inv d'" using inv(4) unfolding subset_inv_pairs by auto
  then show ?thesis
    using \<open>refs_ok d'\<close> inv(3) group_inv_frame [OF inv(2), of d'] d' by (simp add: assign_inv_def)
qed

subsection \<open>The invariant\<close>

lemma assign_step_inv:
  assumes "assign_step cid d d'" "assign_inv d"
  shows "assign_inv d'"
  using assms(1)
proof cases
  case group
  then show ?thesis using group_step_assign_inv assms(2) by blast
next
  case (create ti de g c m ci mm te tr l e)
  then show ?thesis using created_evaluation_inv assms(2) by blast
next
  case (duplicate i c m ch e)
  then show ?thesis using duplicated_evaluation_inv assms(2) by blast
next
  case (update i e chg e')
  have "row_id (set_evaluation_fields e chg) = row_id e"
    "e_evaluation_group_id (set_evaluation_fields e chg) = e_evaluation_group_id e" by (simp_all add: set_evaluation_fields_def)
  then show ?thesis
    using update get_evaluation_Inr [OF update(1)] saved_evaluation_inv [OF assms(2), of e]
    by (auto simp: update_evaluation_def svc_simps Let_def)
next
  case (delete i e c e')
  have "e_evaluation_group_id (soft_delete (now d) (Some c) e) = e_evaluation_group_id e" by (simp add: soft_delete_def)
  then show ?thesis
    using delete get_evaluation_Inr [OF delete(1)] saved_evaluation_inv [OF assms(2), of e]
    by (auto simp: soft_delete_evaluation_def Let_def)
next
  case (assign i c m g st x dm ps a)
  then show ?thesis using assigned_inv assms(2) by blast
next
  case (edit i j a ach a')
  then have "a \<in> set (eval_models d)" "deleted_at a = None" by (auto simp: get_assignment_def dest!: find_SomeD)
  then show ?thesis using edit(2) saved_assignment_inv [OF assms(2), of a] by (auto simp: update_assignment_def Let_def)
next
  case (unassign i j a c a')
  then have "a \<in> set (eval_models d)" "deleted_at a = None" by (auto simp: get_assignment_def dest!: find_SomeD)
  moreover have "em_model_id (soft_delete (now d) (Some c) a) = em_model_id a"
    "em_evaluation_id (soft_delete (now d) (Some c) a) = em_evaluation_id a" by (simp_all add: soft_delete_def)
  ultimately show ?thesis using unassign(2) saved_assignment_inv [OF assms(2), of a] by (auto simp: soft_delete_assignment_def Let_def)
next
  case (drop_model x c)
  then show ?thesis using dropped_model_inv assms(2) by blast
qed

interpretation model_subset: step_invariant "assign_step cid" assign_inv for cid
  by unfold_locales (rule assign_step_inv)

text \<open>C25: in every state reached by group, evaluation and assignment requests (restores excepted), a live
  evaluation of a group is only assigned models of the group's allowed subset.\<close>

theorem evaluations_use_allowed_models:
  assumes "(assign_step cid)\<^sup>*\<^sup>* d d'" "assign_inv d"
    and "model_used_by_group_evaluations d' g x"
  shows "x \<in> allowed_models d' g"
  using model_subset.reachable_keeps [OF assms(1,2)] assms(3)
  by (auto simp: assign_inv_def subset_inv_def assigned_models_def)

end
