(* ===== verification/Scenario_Order.thy ===== *)
theory Scenario_Order
  imports Scenarios Model_Subset
begin

section \<open>The order of scenarios\<close>

text \<open>
  \<open>position\<close> has no unique constraint; that the live scenarios of an evaluation nevertheless have distinct
  positions is a property of the requests.  \<open>content_step\<close> adds the scenario requests (with the route's gate and
  the duplicate check of \<open>ScenarioReorderRequest\<close>) to the group, evaluation and assignment requests.
\<close>

definition scenario_reorder_request :: "uuid list \<Rightarrow> bool" where
  "scenario_reorder_request scenario_ids \<longleftrightarrow> scenario_ids \<noteq> [] \<and> length (remdups scenario_ids) = length scenario_ids"

subsection \<open>Reordering\<close>

lemma in_live_scenarios [simp]:
  "s \<in> set (live_scenarios d i) \<longleftrightarrow> s \<in> set (scenarios d) \<and> deleted_at s = None \<and> s_evaluation_id s = i"
  by (auto simp: live_scenarios_def)

text \<open>The first index at which a key occurs.\<close>

fun index_of :: "uuid \<Rightarrow> uuid list \<Rightarrow> nat option" where
  "index_of i [] = None"
| "index_of i (j # js) = (if i = j then Some 0 else map_option Suc (index_of i js))"

lemma index_of_nth: "distinct ids \<Longrightarrow> n < length ids \<Longrightarrow> index_of (ids ! n) ids = Some n"
  by (induction ids arbitrary: n) (auto simp: nth_Cons split: nat.splits)

lemma index_of_mem: "i \<in> set ids \<Longrightarrow> \<exists>n<length ids. index_of i ids = Some n \<and> ids ! n = i"
proof (induction ids)
  case (Cons j js)
  show ?case
  proof (cases "i = j")
    case False
    with Cons obtain n where "n < length js" "index_of i js = Some n" "js ! n = i" by auto
    with False show ?thesis by (intro exI [of _ "Suc n"]) simp
  qed simp
qed simp

definition placed :: "nat \<Rightarrow> uuid list \<Rightarrow> uuid \<Rightarrow> scenario \<Rightarrow> scenario" where
  "placed p ids evaluation_id s =
     (if deleted_at s = None \<and> s_evaluation_id s = evaluation_id
      then (case index_of (row_id s) ids of None \<Rightarrow> s | Some n \<Rightarrow> s\<lparr>s_position := p + n\<rparr>) else s)"

lemma placed_sel [simp]:
  "row_id (placed p ids e s) = row_id s" "deleted_at (placed p ids e s) = deleted_at s"
  "s_evaluation_id (placed p ids e s) = s_evaluation_id s" "scenario.truncate (placed p ids e s) = (placed p ids e s)"
  by (simp_all add: placed_def scenario.defs split: option.splits)

lemma set_positions_placed: "distinct ids \<Longrightarrow> set_positions p ids e t = map (placed p ids e) t"
proof (induction p ids e t rule: set_positions.induct)
  case (1 p e t)
  then show ?case by (simp add: placed_def map_idI)
next
  case (2 p i ids e t)
  have none: "index_of i ids = None" using 2(2) index_of_mem by (induction ids) auto
  have "placed (Suc p) ids e (if deleted_at s = None \<and> s_evaluation_id s = e \<and> row_id s = i then s\<lparr>s_position := p\<rparr> else s) =
      placed p (i # ids) e s" for s
    using none by (auto simp: placed_def split: option.splits)
  then show ?case using 2 by (simp add: live_update_def)
qed

lemma reorder_Inr:
  assumes "reorder_scenarios d i ids = Inr (ss, d')"
  shows "set ids = row_id ` set (live_scenarios d i)"
    and "d' = d\<lparr>scenarios := set_positions 0 ids i (scenarios d)\<rparr>" and "ss = sort_key s_position (live_scenarios d' i)"
  using assms by (auto simp: reorder_scenarios_def Let_def svc_simps filter_empty_conv simp del: in_live_scenarios)

lemma live_scenarios_placed:
  "live_scenarios (d\<lparr>scenarios := map (placed p ids i) (scenarios d)\<rparr>) j = map (placed p ids i) (live_scenarios d j)"
  by (simp add: live_scenarios_def live_select_def filter_map comp_def)

lemma placed_other: "j \<noteq> i \<Longrightarrow> s_evaluation_id s = j \<Longrightarrow> placed p ids i s = s"
  by (simp add: placed_def)

lemma placed_position:
  assumes "s \<in> set (live_scenarios d i)" "row_id s \<in> set ids"
  shows "index_of (row_id s) ids = Some (s_position (placed 0 ids i s))"
  using assms index_of_mem [OF assms(2)] by (auto simp: placed_def)

lemma sorted_by_index:
  assumes "distinct ids" "length xs = length ids" "\<And>x. x \<in> set xs \<Longrightarrow> index_of (row_id x) ids = Some (s_position x)"
    "distinct (map row_id xs)" "set ids = row_id ` set xs" "sorted (map s_position xs)"
  shows "map row_id xs = ids \<and> map s_position xs = [0..<length ids]"
proof -
  have inj: "inj_on s_position (set xs)"
  proof (rule inj_onI)
    fix x y assume xy: "x \<in> set xs" "y \<in> set xs" "s_position x = s_position y"
    then have "row_id x = ids ! s_position x" "row_id y = ids ! s_position y"
      using assms(3,5) index_of_mem [of "row_id x" ids] index_of_mem [of "row_id y" ids] by auto
    then show "x = y" using distinct_map_same [OF assms(4) xy(1,2)] xy(3) by simp
  qed
  have "s_position ` set xs = {0..<length ids}"
  proof (intro equalityI subsetI)
    fix n assume "n \<in> s_position ` set xs"
    then obtain x where "x \<in> set xs" "n = s_position x" by blast
    then show "n \<in> {0..<length ids}" using assms(3,5) index_of_mem [of "row_id x" ids] by auto
  next
    fix n assume "n \<in> {0..<length ids}"
    then have n: "n < length ids" by simp
    then obtain x where x: "x \<in> set xs" "row_id x = ids ! n" using assms(5) by (metis imageE nth_mem)
    then have "s_position x = n" using assms(3) [OF x(1)] index_of_nth [OF assms(1) n] by simp
    then show "n \<in> s_position ` set xs" using x by blast
  qed
  moreover have "distinct (map s_position xs)" using inj assms(4) by (simp add: distinct_map)
  ultimately have p: "map s_position xs = [0..<length ids]"
    using assms(6) by (intro sorted_distinct_set_unique) auto
  have "map row_id xs = ids"
  proof (rule nth_equalityI)
    fix n assume "n < length (map row_id xs)"
    then have n: "n < length xs" by simp
    then have "s_position (xs ! n) = n" using p assms(2) by (metis add_0 nth_map nth_upt)
    then have "index_of (row_id (xs ! n)) ids = Some n" using assms(3) n by (metis nth_mem)
    moreover have "row_id (xs ! n) \<in> set ids" using assms(5) n by auto
    ultimately show "map row_id xs ! n = ids ! n" using index_of_mem n by fastforce
  qed (use assms(2) in simp)
  then show ?thesis using p by simp
qed

lemma reorder_accepted:
  assumes "distinct (map row_id (scenarios d))" "distinct ids" and eq: "set ids = row_id ` set (live_scenarios d i)"
  shows "\<exists>ss d'. reorder_scenarios d i ids = Inr (ss, d') \<and>
      map row_id ss = ids \<and> map s_position ss = [0..<length ids] \<and> set ss = set (live_scenarios d' i) \<and>
      scenarios d' = map (placed 0 ids i) (scenarios d) \<and> d' = d\<lparr>scenarios := scenarios d'\<rparr> \<and>
      (\<forall>j. j \<noteq> i \<longrightarrow> live_scenarios d' j = live_scenarios d j)"
proof -
  note ids = assms(2)
  define d' where "d' = d\<lparr>scenarios := map (placed 0 ids i) (scenarios d)\<rparr>"
  define ss where "ss = sort_key s_position (live_scenarios d' i)"
  have ok: "reorder_scenarios d i ids = Inr (ss, d')"
    using eq set_positions_placed [OF ids, of 0 i "scenarios d"]
    by (simp add: reorder_scenarios_def Let_def filter_empty_conv ss_def d'_def del: in_live_scenarios)
  have live: "live_scenarios d' i = map (placed 0 ids i) (live_scenarios d i)" by (simp add: d'_def live_scenarios_placed)
  have keys: "distinct (map row_id (live_scenarios d i))"
    using assms(1) by (simp add: live_scenarios_def live_select_def distinct_map_filter)
  have perm: "mset ss = mset (map (placed 0 ids i) (live_scenarios d i))" by (simp add: ss_def live)
  have "length (live_scenarios d i) = length ids"
    using distinct_card [OF keys] distinct_card [OF ids] eq by simp
  then have len: "length ss = length ids" using perm by (metis length_map mset_eq_length)
  have "map row_id ss = ids \<and> map s_position ss = [0..<length ids]"
  proof (rule sorted_by_index [OF ids len])
    have "mset (map row_id ss) = mset (map row_id (live_scenarios d i))"
      using arg_cong [OF perm, of "image_mset row_id"] by (simp add: image_mset.compositionality comp_def)
    then show "distinct (map row_id ss)" "set ids = row_id ` set ss"
      using keys eq by (metis mset_eq_imp_distinct_iff, metis mset_eq_setD set_map)
    show "sorted (map s_position ss)" by (simp add: ss_def)
    fix s assume "s \<in> set ss"
    then obtain x where "x \<in> set (live_scenarios d i)" "s = placed 0 ids i x" by (auto simp: ss_def live)
    then show "index_of (row_id s) ids = Some (s_position s)" using placed_position eq by (metis image_eqI placed_sel(1))
  qed
  moreover have "live_scenarios d' j = live_scenarios d j" if "j \<noteq> i" for j
    unfolding d'_def live_scenarios_placed by (rule map_idI) (use placed_other that in auto)
  moreover have "set ss = set (live_scenarios d' i)" by (simp add: ss_def)
  ultimately show ?thesis using ok by (intro exI [of _ ss] exI [of _ d']) (simp add: d'_def)
qed

text \<open>C36: a reorder accepts exactly the permutations of the evaluation's live scenarios: an unknown id is a
  404, a missing one a 409, and an accepted request returns the scenarios in the requested order with positions 0, 1,
  2, \<open>\<dots>\<close>, changes nothing but those positions, and leaves other evaluations alone.\<close>

theorem reorder_scenarios_exact:
  assumes "distinct (map row_id (scenarios d))" "scenario_reorder_request ids"
  shows "((\<exists>x\<in>set ids. x \<notin> row_id ` set (live_scenarios d i)) \<longrightarrow> (\<exists>m. reorder_scenarios d i ids = Inl (NotFoundError m))) \<and>
    (set ids \<subset> row_id ` set (live_scenarios d i) \<longrightarrow> (\<exists>m. reorder_scenarios d i ids = Inl (ConflictError m))) \<and>
    (set ids = row_id ` set (live_scenarios d i) \<longrightarrow> (\<exists>ss d'. reorder_scenarios d i ids = Inr (ss, d') \<and>
      map row_id ss = ids \<and> map s_position ss = [0..<length ids] \<and> set ss = set (live_scenarios d' i) \<and>
      scenarios d' = map (placed 0 ids i) (scenarios d) \<and> d' = d\<lparr>scenarios := scenarios d'\<rparr> \<and>
      (\<forall>j. j \<noteq> i \<longrightarrow> live_scenarios d' j = live_scenarios d j)))"
proof -
  have "distinct ids" using assms(2) by (metis scenario_reorder_request_def card_distinct length_remdups_card_conv)
  note ok = reorder_accepted [OF assms(1) this, of i]
  have "\<exists>m. reorder_scenarios d i ids = Inl (NotFoundError m)" if "\<exists>x\<in>set ids. x \<notin> row_id ` set (live_scenarios d i)"
    using that by (auto simp: reorder_scenarios_def Let_def svc_simps filter_empty_conv simp del: in_live_scenarios)
  moreover have "\<exists>m. reorder_scenarios d i ids = Inl (ConflictError m)" if "set ids \<subset> row_id ` set (live_scenarios d i)"
    using that by (auto simp: reorder_scenarios_def Let_def svc_simps filter_empty_conv simp del: in_live_scenarios)
  ultimately show ?thesis using ok by blast
qed

subsection \<open>Positions stay distinct\<close>

inductive content_step :: "(string \<Rightarrow> uuid) \<Rightarrow> db \<Rightarrow> db \<Rightarrow> bool" for cid where
  other: "assign_step cid d d' \<Longrightarrow> content_step cid d d'"
| create: "create_scenario d i n t k = Inr (s, d') \<Longrightarrow> content_step cid d d'"
| update: "get_scenario d i j None False = Inr s \<Longrightarrow> update_scenario d s ch = Inr (s', d') \<Longrightarrow> content_step cid d d'"
| delete: "get_scenario d i j None False = Inr s \<Longrightarrow> soft_delete_scenario d s c = (s', d') \<Longrightarrow> content_step cid d d'"
| restore: "get_restorable_scenario d i j c m cut_off = Inr s \<Longrightarrow> restore_scenario d s = Inr (s', d') \<Longrightarrow> content_step cid d d'"
| reorder: "scenario_reorder_request ids \<Longrightarrow> reorder_scenarios d i ids = Inr (ss, d') \<Longrightarrow> content_step cid d d'"

definition order_inv :: "db \<Rightarrow> bool" where
  "order_inv d \<longleftrightarrow> keys_ok (next_id d) (scenarios d) \<and>
     (\<forall>i\<in>s_evaluation_id ` set (scenarios d). distinct (map s_position (live_scenarios d i)))"

definition content_inv :: "db \<Rightarrow> bool" where
  "content_inv d \<longleftrightarrow> assign_inv d \<and> order_inv d"

text \<open>Two live scenarios of one evaluation at the same position are the same row.\<close>

definition apart :: "scenario list \<Rightarrow> bool" where
  "apart t \<longleftrightarrow> (\<forall>x\<in>set t. \<forall>y\<in>set t. deleted_at x = None \<longrightarrow> deleted_at y = None \<longrightarrow> s_evaluation_id x = s_evaluation_id y \<longrightarrow>
     s_position x = s_position y \<longrightarrow> x = y)"

lemma order_inv_apart: "order_inv d \<longleftrightarrow> keys_ok (next_id d) (scenarios d) \<and> apart (scenarios d)"
proof (cases "keys_ok (next_id d) (scenarios d)")
  case True
  then have "distinct (scenarios d)" by (simp add: keys_ok_def distinct_map)
  then have "distinct (live_scenarios d i)" for i by (simp add: live_scenarios_def live_select_def)
  then have "distinct (map s_position (live_scenarios d i)) \<longleftrightarrow> inj_on s_position (set (live_scenarios d i))" for i
    by (simp add: distinct_map)
  then show ?thesis using True by (auto simp: order_inv_def apart_def inj_on_def)
qed (simp add: order_inv_def)

lemma order_inv_alt:
  "order_inv d \<longleftrightarrow> keys_ok (next_id d) (scenarios d) \<and> (\<forall>i. distinct (map s_position (live_scenarios d i)))"
proof -
  have "live_scenarios d i = []" if "i \<notin> s_evaluation_id ` set (scenarios d)" for i
    using that by (auto simp: live_scenarios_def filter_empty_conv)
  then have "distinct (map s_position (live_scenarios d i))" if "i \<notin> s_evaluation_id ` set (scenarios d)" for i
    using that by simp
  then show ?thesis unfolding order_inv_def by blast
qed

lemma order_inv_frame: "order_inv d \<Longrightarrow> scenarios d' = scenarios d \<Longrightarrow> next_id d \<le> next_id d' \<Longrightarrow> order_inv d'"
  using keys_ok_mono by (auto simp: order_inv_def live_scenarios_def)

text \<open>Writes of the scenario service keep the invariant of the other tables.\<close>

lemma assign_inv_scenarios:
  assumes "assign_inv d" "d' = d\<lparr>scenarios := ss, next_id := n\<rparr>" "next_id d \<le> n"
    "\<forall>s\<in>set ss. row_id s < n \<and> s_evaluation_id s < n"
  shows "assign_inv d'"
proof -
  note inv = assign_invD [OF assms(1)]
  have "refs_ok d'" using inv(1) assms(2-4) by (fastforce simp: refs_ok_def)
  moreover have "subset_inv d'" by (rule subset_inv_frame [OF inv(4)]) (simp_all add: assms(2))
  ultimately show ?thesis
    using inv(3) group_inv_frame [OF inv(2), of d'] assms(2,3) by (simp add: assign_inv_def)
qed

lemma saved_scenario_inv:
  assumes "content_inv d" "s \<in> set (scenarios d)" "row_id s' = row_id s" "s_evaluation_id s' = s_evaluation_id s"
    "deleted_at s' \<noteq> None \<or> deleted_at s = None \<and> s_position s' = s_position s \<or>
       (\<forall>x\<in>set (live_scenarios d (s_evaluation_id s)). s_position x < s_position s')"
    "d' = save_scenario d s'"
  shows "content_inv d'"
proof -
  have inv: "assign_inv d" "keys_ok (next_id d) (scenarios d)" "apart (scenarios d)"
    using assms(1) by (auto simp: content_inv_def order_inv_apart)
  have refs: "\<forall>s\<in>set (scenarios d). row_id s < next_id d \<and> s_evaluation_id s < next_id d"
    using assign_invD(1) [OF inv(1)] by (simp add: refs_ok_def)
  have "apart (save_row s' (scenarios d))"
    unfolding apart_def
  proof (intro ballI impI)
    fix x y assume xy: "x \<in> set (save_row s' (scenarios d))" "y \<in> set (save_row s' (scenarios d))"
      "deleted_at x = None" "deleted_at y = None" "s_evaluation_id x = s_evaluation_id y" "s_position x = s_position y"
    have ne: False if "z \<in> set (scenarios d)" "row_id z \<noteq> row_id s'" "deleted_at z = None" "deleted_at s' = None"
        "s_evaluation_id z = s_evaluation_id s'" "s_position z = s_position s'" for z
      using assms(5)
    proof (elim disjE conjE)
      assume "deleted_at s = None" "s_position s' = s_position s"
      then have "z = s" using inv(3) [unfolded apart_def, rule_format, of z s] that assms(2,4) by simp
      then show False using that(2) assms(3) by simp
    next
      assume "\<forall>x\<in>set (live_scenarios d (s_evaluation_id s)). s_position x < s_position s'"
      moreover have "z \<in> set (live_scenarios d (s_evaluation_id s))" using that assms(4) by simp
      ultimately show False using that(6) by fastforce
    qed (use that in simp)
    consider "x = s'" "y = s'" | "x = s'" "y \<in> set (scenarios d)" "row_id y \<noteq> row_id s'" |
      "y = s'" "x \<in> set (scenarios d)" "row_id x \<noteq> row_id s'" | "x \<in> set (scenarios d)" "y \<in> set (scenarios d)"
      using xy(1,2) by (auto simp: in_save_row)
    then show "x = y"
      using ne [of x] ne [of y] xy(3-6) inv(3) by cases (auto simp: apart_def)
  qed
  moreover have "keys_ok (next_id d) (save_row s' (scenarios d))" using inv(2) refs assms(2,3) by simp
  moreover have "assign_inv d'"
    by (rule assign_inv_scenarios [OF inv(1), where ss = "save_row s' (scenarios d)" and n = "next_id d"])
      (use refs assms(2,3,4,6) in \<open>auto simp: save_scenario_def in_save_row\<close>)
  ultimately show ?thesis using assms(6) by (simp add: content_inv_def order_inv_apart save_scenario_def)
qed

lemma next_position_above: "s \<in> set (live_scenarios d i) \<Longrightarrow> s_position s < next_position d i"
proof -
  assume s: "s \<in> set (live_scenarios d i)"
  then have "s_position s \<le> Max (s_position ` set (live_scenarios d i))" by (intro Max_ge) auto
  moreover have "live_scenarios d i \<noteq> []" using s by (metis empty_iff empty_set)
  ultimately show ?thesis by (simp add: next_position_def Let_def)
qed

lemma created_scenario_inv:
  assumes "create_scenario d i n t k = Inr (s, d')" "content_inv d"
  shows "content_inv d'"
proof -
  have inv: "assign_inv d" "keys_ok (next_id d) (scenarios d)" "apart (scenarios d)"
    using assms(2) by (auto simp: content_inv_def order_inv_apart)
  have refs: "refs_ok d" using assign_invD(1) [OF inv(1)] .
  from assms(1) obtain e where e: "get_evaluation d i None False = Inr e" and s: "row_id s = next_id d" "s_evaluation_id s = i"
      "deleted_at s = None" "s_position s = next_position d i"
    and d': "d' = d\<lparr>scenarios := scenarios d @ [s], next_id := Suc (next_id d)\<rparr>"
    by (auto simp: create_scenario_def svc_simps Let_def)
  have i: "i < next_id d" using get_evaluation_Inr [OF e] refs by (auto simp: refs_ok_def)
  have "assign_inv d'"
    by (rule assign_inv_scenarios [OF inv(1) d']) (use refs s i in \<open>auto simp: refs_ok_def less_Suc_eq\<close>)
  moreover have "apart (scenarios d @ [s])"
    using inv(3) next_position_above [of _ d i] s by (fastforce simp: apart_def)
  ultimately show ?thesis
    using keys_ok_append [OF inv(2) s(1)] d' by (simp add: content_inv_def order_inv_apart)
qed

lemma reordered_inv:
  assumes "scenario_reorder_request ids" "reorder_scenarios d i ids = Inr (ss, d')" "content_inv d"
  shows "content_inv d'"
proof -
  have inv: "assign_inv d" "keys_ok (next_id d) (scenarios d)" "apart (scenarios d)"
    using assms(3) by (auto simp: content_inv_def order_inv_apart)
  have ids: "distinct ids" using assms(1) by (metis scenario_reorder_request_def card_distinct length_remdups_card_conv)
  note r = reorder_Inr [OF assms(2)]
  have d': "d' = d\<lparr>scenarios := map (placed 0 ids i) (scenarios d), next_id := next_id d\<rparr>"
    using r(2) set_positions_placed [OF ids] by simp
  have "assign_inv d'"
    by (rule assign_inv_scenarios [OF inv(1) d']) (use assign_invD(1) [OF inv(1)] in \<open>auto simp: refs_ok_def\<close>)
  moreover have "keys_ok (next_id d) (map (placed 0 ids i) (scenarios d))"
    using inv(2) by (auto simp: keys_ok_def comp_def)
  moreover have "apart (map (placed 0 ids i) (scenarios d))"
    unfolding apart_def
  proof (intro ballI impI)
    fix x y assume "x \<in> set (map (placed 0 ids i) (scenarios d))" "y \<in> set (map (placed 0 ids i) (scenarios d))"
      and l: "deleted_at x = None" "deleted_at y = None" "s_evaluation_id x = s_evaluation_id y" "s_position x = s_position y"
    then obtain a b where ab: "a \<in> set (scenarios d)" "b \<in> set (scenarios d)" "x = placed 0 ids i a" "y = placed 0 ids i b" by auto
    show "x = y"
    proof (cases "s_evaluation_id a = i")
      case True
      then have "a \<in> set (live_scenarios d i)" "b \<in> set (live_scenarios d i)" using ab l by auto
      then have "index_of (row_id a) ids = Some (s_position x)" "index_of (row_id b) ids = Some (s_position y)"
        "row_id a \<in> set ids" "row_id b \<in> set ids" using placed_position r(1) ab(3,4) by blast+
      then have "row_id a = row_id b" using l(4) index_of_mem by (metis option.inject)
      then have "a = b" using distinct_map_same [of row_id "scenarios d"] inv(2) ab by (simp add: keys_ok_def)
      then show ?thesis using ab by simp
    next
      case False
      then have "x = a" "y = b" using ab l placed_other by auto
      then show ?thesis using inv(3) ab(1,2) l by (auto simp: apart_def)
    qed
  qed
  ultimately show ?thesis using d' by (simp add: content_inv_def order_inv_apart)
qed

subsection \<open>Copies keep the positions of their source\<close>

lemma apart_append:
  assumes "apart t" "s_position s \<notin> s_position ` {x \<in> set t. deleted_at x = None \<and> s_evaluation_id x = s_evaluation_id s}"
  shows "apart (t @ [s])"
proof -
  have "s_position x \<noteq> s_position s" if "x \<in> set t" "deleted_at x = None" "s_evaluation_id x = s_evaluation_id s" for x
    using assms(2) that by (metis (mono_tags, lifting) image_eqI mem_Collect_eq)
  then show ?thesis
    using assms(1) unfolding apart_def set_append by (metis UnE empty_iff empty_set list.set_cases set_ConsD)
qed

lemma copy_scenarios_order:
  assumes "i < next_id d" "refs_ok d" "order_inv d" "distinct (map s_position ss)"
    "\<forall>x\<in>set (live_scenarios d i). s_position x \<notin> s_position ` set ss"
  shows "order_inv (copy_scenarios d0 d i ss)"
  using assms
proof (induction ss arbitrary: d)
  case Nil
  then show ?case by (simp add: copy_scenarios_def)
next
  case (Cons s ss)
  let ?d = "copy_scenario d0 d i s"
  obtain s' where h: "refs_ok ?d" "scenarios ?d = scenarios d @ [s']" "row_id s' = next_id d" "next_id d < next_id ?d"
    "s_evaluation_id s' = i" "deleted_at s' = None" "scenario_view ?d s' = scenario_view d0 s"
    using copy_scenario_grow [OF Cons(2,3), of d0 s] by blast
  have p: "s_position s' = s_position s" using h(7) by (simp add: scenario_view_def)
  have "s_position s \<notin> s_position ` set (live_scenarios d i)" using Cons(6) by force
  then have "s_position s' \<notin> s_position ` {x \<in> set (scenarios d). deleted_at x = None \<and> s_evaluation_id x = s_evaluation_id s'}"
    using h(5) p by auto
  moreover have "apart (scenarios d)" "keys_ok (next_id d) (scenarios d)" using Cons(4) by (auto simp: order_inv_apart)
  ultimately have o: "order_inv ?d"
    using h apart_append keys_ok_mono [OF keys_ok_append [of "next_id d" "scenarios d" s'], of "next_id ?d"]
    by (simp add: order_inv_apart)
  have "set (live_scenarios ?d i) = insert s' (set (live_scenarios d i))" using h by auto
  then have "\<forall>x\<in>set (live_scenarios ?d i). s_position x \<notin> s_position ` set ss"
    using Cons(5,6) p by (simp del: in_live_scenarios)
  then show ?case
    using Cons(1) [of ?d] Cons(2,5) h(1,4) o by (simp add: copy_scenarios_def)
qed

lemma copy_frames_scenarios:
  "scenarios (copy_tag_keys d i ks) = scenarios d" "scenarios (copy_models d i as) = scenarios d"
  "next_id d \<le> next_id (copy_tag_keys d i ks)" "next_id d \<le> next_id (copy_models d i as)"
proof -
  show "scenarios (copy_tag_keys d i ks) = scenarios d" by (induction d i ks rule: copy_tag_keys.induct) simp_all
  show "scenarios (copy_models d i as) = scenarios d" by (induction d i as rule: copy_models.induct) simp_all
  show "next_id d \<le> next_id (copy_tag_keys d i ks)" "next_id d \<le> next_id (copy_models d i as)"
    using same_members_copy(2,3) by (auto simp: same_members_def)
qed

lemma scenarios_of_distinct: "order_inv d \<Longrightarrow> distinct (map s_position (scenarios_of d i))"
proof -
  assume "order_inv d"
  then have "distinct (map s_position (live_scenarios d i))" by (simp add: order_inv_alt)
  moreover have "mset (map s_position (scenarios_of d i)) = mset (map s_position (live_scenarios d i))"
    by (simp add: scenarios_of_def live_scenarios_def)
  ultimately show ?thesis by (metis mset_eq_imp_distinct_iff)
qed

text \<open>Copying scenarios under a fresh evaluation, after rows that are not scenarios.\<close>

lemma copy_fresh_order:
  assumes "order_inv d" "refs_ok d" "refs_ok d1" "scenarios d1 = scenarios d" "next_id d < next_id d1"
    "distinct (map s_position ss)"
  shows "order_inv (copy_scenarios d0 d1 (next_id d) ss)"
proof (rule copy_scenarios_order)
  show "order_inv d1" using order_inv_frame assms(1,4,5) by simp
  show "\<forall>x\<in>set (live_scenarios d1 (next_id d)). s_position x \<notin> s_position ` set ss"
    using assms(2,4) by (fastforce simp: refs_ok_def)
qed (use assms in auto)

lemma copy_evaluation_order:
  assumes "order_inv d" "refs_ok d" "g < next_id d" "distinct (map s_position (scenarios_of d0 (row_id e)))"
  shows "order_inv (copy_evaluation d0 c g d e)"
proof -
  let ?n = "next_id d" and ?e = "new_evaluation_copy d c g e"
  let ?keep = "filter (\<lambda>a. model_kept d0 (em_model_id a)) (models_of d0 (row_id e))"
  define d1 where "d1 = d\<lparr>evaluations := evaluations d @ [?e], next_id := Suc ?n\<rparr>"
  define d2 where "d2 = copy_tag_keys d1 ?n (tag_keys_of d0 (row_id e))"
  define d3 where "d3 = copy_models d2 ?n ?keep"
  have r1: "refs_ok d1" using assms(2,3) by (fastforce simp: refs_ok_def d1_def new_evaluation_copy_def)
  have n: "?n < next_id d1" "next_id d1 \<le> next_id d2" "next_id d2 \<le> next_id d3"
    unfolding d2_def d3_def using copy_frames_scenarios(3) [of d1] copy_frames_scenarios(4) by (auto simp: d1_def)
  have "refs_ok d2" using copy_tag_keys_grow [of ?n d1 0 "tag_keys_of d0 (row_id e)"] r1 n by (simp add: d2_def)
  then have r3: "refs_ok d3" using copy_models_grow [of ?n d2 0 ?keep] n by (simp add: d3_def)
  have "scenarios d3 = scenarios d" by (simp add: d3_def d2_def d1_def copy_frames_scenarios)
  then have "order_inv (copy_scenarios d0 d3 ?n (scenarios_of d0 (row_id e)))"
    using copy_fresh_order [OF assms(1,2) r3 _ _ assms(4)] n by simp
  then show ?thesis by (simp add: copy_evaluation_def Let_def d1_def d2_def d3_def)
qed

lemma copy_evaluations_order:
  assumes "order_inv d" "refs_ok d" "g < next_id d" "ai_models d = ai_models d0" "order_inv d0"
  shows "order_inv (foldl (copy_evaluation d0 c g) d es)"
  using assms
proof (induction es arbitrary: d)
  case (Cons e es)
  let ?d = "copy_evaluation d0 c g d e"
  have h: "extends (next_id d) (next_id d) d ?d" "refs_ok ?d" "next_id d < next_id ?d"
    using copy_evaluation_grow [OF Cons(4,3,5), of c e] by blast+
  have "order_inv ?d" using copy_evaluation_order Cons(2-4,6) scenarios_of_distinct by blast
  moreover have "ai_models ?d = ai_models d0" using h(1) Cons(5) by (simp add: extends_def)
  ultimately show ?case using Cons(1) [of ?d] Cons(4,6) h by simp
qed simp

lemma duplicated_group_order:
  assumes "duplicate_evaluation_group d i c m ch = Inr (g, d')" "content_inv d"
  shows "order_inv d'"
  using assms(1)
proof (rule duplicate_Inr)
  have inv: "order_inv d" "refs_ok d" using assms(2) assign_invD(1) by (auto simp: content_inv_def)
  fix source d1
  define d2 where "d2 = add_group_models d1 (row_id g) (filter (model_kept d) (map gm_model_id (allowed_rows d i)))"
  assume p: "persist_new_group d c
       \<lparr>gf_title = g_title source, gf_description = g_description source, gf_access = g_access_level source,
        gf_during = g_metrics_access_during source, gf_after = g_metrics_access_after source,
        gf_organization_id = (case g_organization_id source of None \<Rightarrow> None | Some i \<Rightarrow> if live_org d i then Some i else None),
        gf_start_date = g_start_date source, gf_end_date = g_end_date source\<rparr>
       (g_data_license_id source) PS_DRAFT = Inr (g, d1)"
    and "d' = (let d2 = add_group_models d1 (row_id g) (filter (model_kept d) (map gm_model_id (allowed_rows d i))) in
       if ch then foldl (copy_evaluation d c (row_id g)) d2 (ordered_evaluations_of d i) else d2)"
  then have d': "d' = (if ch then foldl (copy_evaluation d c (row_id g)) d2 (ordered_evaluations_of d i) else d2)"
    by (simp add: d2_def)
  note sh = duplicate_shell [OF p inv(2) d2_def]
  have o: "order_inv d2" by (rule order_inv_frame [OF inv(1)]) (use sh in auto)
  show ?thesis using d' o copy_evaluations_order [OF o, of "row_id g" d] sh inv(1) by simp
qed

lemma duplicated_evaluation_order:
  assumes "duplicate_evaluation d i c m ch = Inr (e, d')" "content_inv d"
  shows "order_inv d'"
  using assms(1)
proof (rule duplicate_evaluation_Inr)
  have inv: "order_inv d" "refs_ok d" using assms(2) assign_invD(1) by (auto simp: content_inv_def)
  let ?n = "next_id d"
  fix src :: evaluation and g d1 d2
  let ?keep = "filter (\<lambda>a. model_kept d (em_model_id a)) (models_of d (row_id src))"
  assume src: "get_evaluation d i None False = Inr src"
    and d1: "d1 = d\<lparr>evaluations := evaluations d @ [new_evaluation_copy d c (e_evaluation_group_id src) src], next_id := Suc ?n\<rparr>"
    and d2: "d2 = (if ch then copy_scenarios d (copy_models d1 ?n ?keep) ?n (scenarios_of d (row_id src)) else d1)"
    and d': "d' = copy_tag_keys d2 ?n (tag_keys_of d (row_id src))"
  have "e_evaluation_group_id src < ?n" using get_evaluation_Inr [OF src] inv(2) by (auto simp: refs_ok_def)
  then have r1: "refs_ok d1" using inv(2) by (fastforce simp: refs_ok_def d1 new_evaluation_copy_def)
  have n: "?n < next_id (copy_models d1 ?n ?keep)" using copy_frames_scenarios(4) [of d1 ?n ?keep] d1 by simp
  have "order_inv (copy_scenarios d (copy_models d1 ?n ?keep) ?n (scenarios_of d (row_id src)))"
  proof (rule copy_fresh_order [OF inv _ _ n])
    show "refs_ok (copy_models d1 ?n ?keep)" using copy_models_grow [of ?n d1 0 ?keep] r1 d1 by simp
    show "scenarios (copy_models d1 ?n ?keep) = scenarios d" by (simp add: copy_frames_scenarios d1)
  qed (rule scenarios_of_distinct [OF inv(1)])
  moreover have "order_inv d1" by (rule order_inv_frame [OF inv(1)]) (simp_all add: d1)
  ultimately have "order_inv d2" using d2 by simp
  then show ?thesis by (rule order_inv_frame) (simp_all add: d' copy_frames_scenarios)
qed

subsection \<open>The invariant\<close>

lemma persisted_scenarios: "persist_new_group d c f l st = Inr (g, d1) \<Longrightarrow> scenarios d1 = scenarios d \<and> next_id d \<le> next_id d1"
  by (erule persist_new_group_Inr) simp

lemma synced_scenarios: "sync_group_models d g ms u = Inr (pc, d') \<Longrightarrow> scenarios d' = scenarios d \<and> next_id d \<le> next_id d'"
  using sync_group_models_shape by fastforce

lemma group_step_order:
  assumes "group_step cid d d'" "content_inv d"
  shows "order_inv d'"
proof -
  have o: "order_inv d" using assms(2) by (simp add: content_inv_def)
  from assms(1) show ?thesis
  proof cases
    case (create c ti de lv du af org m s e l ls ms st g)
    then show ?thesis
      by (elim create_evaluation_group_Inr) (metis order_inv_frame [OF o] persisted_scenarios synced_scenarios order_trans)
  next
    case (draft c f m l ls ms g)
    then show ?thesis
      by (elim create_evaluation_group_draft_Inr) (metis order_inv_frame [OF o] persisted_scenarios synced_scenarios order_trans)
  next
    case (duplicate i c m ch g)
    then show ?thesis using duplicated_group_order assms(2) by blast
  next
    case (update i c m g chg g')
    from update(2) show ?thesis
    proof (rule update_evaluation_group_Inr)
      fix d1
      assume m1: "case gu_allowed_model_ids chg of None \<Rightarrow> d1 = d | Some ms \<Rightarrow> (\<exists>pc. sync_group_models d (row_id g) ms c = Inr (pc, d1))"
        and d': "d' = d1\<lparr>groups := save_row g' (groups d1)\<rparr>"
      have "scenarios d1 = scenarios d \<and> next_id d \<le> next_id d1" using m1 synced_scenarios by (fastforce split: option.splits)
      then show ?thesis using order_inv_frame [OF o, of d'] d' by simp
    qed
  next
    case moderate
    then show ?thesis using moderation_frame order_inv_frame [OF o] by (simp add: content_kept_def)
  qed
qed

lemma assign_step_order:
  assumes "assign_step cid d d'" "content_inv d"
  shows "order_inv d'"
proof -
  have o: "order_inv d" using assms(2) by (simp add: content_inv_def)
  note frame = order_inv_frame [OF o, of d']
  from assms(1) show ?thesis
  proof cases
    case group
    then show ?thesis using group_step_order assms(2) by blast
  next
    case (duplicate i c m ch e)
    then show ?thesis using duplicated_evaluation_order assms(2) by blast
  next
    case create
    then show ?thesis by (intro frame) (auto simp: create_evaluation_def svc_simps Let_def)
  next
    case update
    then show ?thesis by (intro frame) (auto simp: update_evaluation_def svc_simps Let_def save_evaluation_def)
  next
    case delete
    then show ?thesis by (intro frame) (auto simp: soft_delete_evaluation_def Let_def save_evaluation_def)
  next
    case assign
    then show ?thesis by (intro frame) (auto simp: assign_model_def svc_simps Let_def)
  next
    case edit
    then show ?thesis by (intro frame) (auto simp: update_assignment_def Let_def)
  next
    case unassign
    then show ?thesis by (intro frame) (auto simp: soft_delete_assignment_def Let_def)
  next
    case drop_model
    then show ?thesis by (intro frame) (simp_all add: unassign_group_models_for_model_def unassign_models_for_model_def)
  qed
qed

lemma get_scenario_Inr: "get_scenario d i j c m = Inr s \<Longrightarrow> s \<in> set (scenarios d) \<and> deleted_at s = None"
  by (auto simp: get_scenario_def dest!: find_SomeD)

lemma content_step_inv:
  assumes "content_step cid d d'" "content_inv d"
  shows "content_inv d'"
  using assms(1)
proof cases
  case other
  then show ?thesis using assign_step_order assign_step_inv assms(2) by (auto simp: content_inv_def)
next
  case create
  then show ?thesis using created_scenario_inv assms(2) by blast
next
  case (update i j s ch s')
  then have "s_position s' = s_position s" "row_id s' = row_id s" "s_evaluation_id s' = s_evaluation_id s" "d' = save_scenario d s'"
    by (auto simp: update_scenario_def svc_simps Let_def)
  then show ?thesis using saved_scenario_inv [OF assms(2), of s s'] get_scenario_Inr [OF update(1)] by simp
next
  case (delete i j s c s')
  then have "d' = save_scenario d s'" "row_id s' = row_id s" "s_evaluation_id s' = s_evaluation_id s" "deleted_at s' \<noteq> None"
    by (auto simp: soft_delete_scenario_def Let_def soft_delete_def)
  then show ?thesis using saved_scenario_inv [OF assms(2), of s s'] get_scenario_Inr [OF delete(1)] by simp
next
  case (restore i j c m cut_off s s')
  have s: "s \<in> set (scenarios d)" using restore(1) by (auto simp: get_restorable_scenario_def dest!: find_SomeD)
  have "s' = Base_Model.restore (s\<lparr>s_position := next_position d (s_evaluation_id s)\<rparr>) \<and> d' = save_scenario d s'"
    using restore(2) by (auto simp: restore_scenario_def svc_simps Let_def restore_row_Inr save_scenario_def)
  then have "row_id s' = row_id s" "s_evaluation_id s' = s_evaluation_id s" "s_position s' = next_position d (s_evaluation_id s)"
    "d' = save_scenario d s'" by (simp_all add: restore_def)
  then show ?thesis using saved_scenario_inv [OF assms(2) s] next_position_above by metis
next
  case reorder
  then show ?thesis using reordered_inv assms(2) by blast
qed

interpretation scenario_order: step_invariant "content_step cid" content_inv for cid
  by unfold_locales (rule content_step_inv)

text \<open>although the database does not enforce it, no sequence of group, evaluation, assignment and scenario requests
  (creations, copies, edits, deletions, restores, reorderings) puts two live scenarios of an evaluation at the same
  position, so the order the clients see is determined.\<close>

lemma live_positions_distinct:
  assumes "(content_step cid)\<^sup>*\<^sup>* d d'" "content_inv d"
  shows "distinct (map s_position (live_scenarios d' i))"
  using scenario_order.reachable_keeps [OF assms] by (simp add: content_inv_def order_inv_alt)

end
