(* ===== verification/Evaluation_Laws.thy ===== *)
theory Evaluation_Laws
  imports Scenarios Model_Subset
begin

section \<open>Deleting, restoring and licensing content\<close>

text \<open>
  Laws of the content services.  A soft delete keeps every column of the row, so a restore inside the window undoes it; the
  locale states what the delete and restore operations of a table promise, and evaluations, tasks and assignments
  provide it.  The licence of an evaluation is the first of its own, its group's and the platform's.
\<close>

subsection \<open>Soft delete and restore\<close>

text \<open>A table of the database with its delete and restore; \<open>ok\<close> is what the restore requires of the row.\<close>

locale restorable_table =
  fixes rows :: "db \<Rightarrow> 'a base_scheme list" and put :: "'a base_scheme list \<Rightarrow> db \<Rightarrow> db"
    and delete :: "db \<Rightarrow> 'a base_scheme \<Rightarrow> uuid \<Rightarrow> 'a base_scheme \<times> db"
    and undelete :: "db \<Rightarrow> 'a base_scheme \<Rightarrow> ('a base_scheme \<times> db) result"
    and ok :: "db \<Rightarrow> 'a base_scheme \<Rightarrow> bool"
  assumes rows_put: "rows (put t d) = t" and put_put: "put t (put t' d) = put t d" and put_rows: "put (rows d) d = d"
    and delete_row: "delete d r u = (soft_delete (now d) (Some u) r, put (save_row (soft_delete (now d) (Some u) r) (rows d)) d)"
    and undelete_row: "ok d r \<Longrightarrow> undelete d r = Inr (restore r, put (save_row (restore r) (rows d)) d)"
begin

lemma undelete_delete:
  assumes "distinct (map row_id (rows d))" "r \<in> set (rows d)" "deleted_at r = None" "deleted_by_id r = None"
    "delete d r u = (r', d')" "ok d' r'"
  shows "undelete d' r' = Inr (r, d)"
proof -
  let ?r = "soft_delete (now d) (Some u) r"
  have r': "r' = ?r" "d' = put (save_row ?r (rows d)) d" using delete_row assms(5) by auto
  have undo: "restore ?r = r" using restore_soft_delete assms(3,4) by blast
  have "save_row r (save_row ?r (rows d)) = save_row r (rows d)" by (simp add: save_row_def)
  also have "\<dots> = rows d" using save_row_same assms(1,2) by blast
  finally show ?thesis using undelete_row [OF assms(6)] r' undo by (simp add: rows_put put_put put_rows)
qed

lemma deleted_is_found:
  assumes "distinct (map row_id (rows d))" "r \<in> set (rows d)" "delete d r u = (r', d')" "cutoff \<le> now d"
    "who = None \<or> who = Some u" "P r'" "\<And>x. P x \<Longrightarrow> row_id x = row_id r"
  shows "List.find P (deleted_select cutoff who (rows d')) = Some r'"
proof -
  have r': "r' = soft_delete (now d) (Some u) r" "rows d' = save_row r' (rows d)" using delete_row rows_put assms(3) by auto
  have "distinct (map row_id (deleted_select cutoff who (rows d')))"
    using assms(1) r'(2) by (simp add: deleted_select_def distinct_map_filter)
  moreover have "r' \<in> set (deleted_select cutoff who (rows d'))"
    using assms(2,4,5) r' in_window_soft_delete [of cutoff "now d" who "Some u" r] saved_row_mem [of r "rows d" r'] by simp
  ultimately show ?thesis by (rule find_unique) (use assms(6,7) r' in auto)
qed

end

interpretation evaluation_table: restorable_table evaluations "\<lambda>t d. d\<lparr>evaluations := t\<rparr>" soft_delete_evaluation restore_evaluation
    "\<lambda>_ _. True"
  by unfold_locales (simp_all add: soft_delete_evaluation_def save_evaluation_def Let_def restore_evaluation_def restore_row_def)

interpretation task_table: restorable_table tasks "\<lambda>t d. d\<lparr>tasks := t\<rparr>" soft_delete_task restore_task "\<lambda>_ _. True"
  by unfold_locales (simp_all add: soft_delete_task_def Let_def restore_task_def restore_row_def)

interpretation assignment_table: restorable_table eval_models "\<lambda>t d. d\<lparr>eval_models := t\<rparr>" soft_delete_assignment restore_assignment
    "\<lambda>d a. \<not> (\<exists>x\<in>set (live_select (eval_models d)). assignment_clash x a)"
  by unfold_locales (auto simp: soft_delete_assignment_def Let_def restore_assignment_def restore_row_def)

text \<open>Live rows carry no deleter: what \<open>restore\<close> leaves and every constructor writes.\<close>

definition stamps_ok :: "'a base_scheme list \<Rightarrow> bool" where
  "stamps_ok t \<longleftrightarrow> distinct (map row_id t) \<and> (\<forall>r\<in>set t. deleted_at r = None \<longrightarrow> deleted_by_id r = None)"

lemma soft_delete_content [simp]:
  "e_evaluation_group_id (soft_delete t u e) = e_evaluation_group_id e" "t_scenario_id (soft_delete t u k) = t_scenario_id k"
  "em_model_id (soft_delete t u a) = em_model_id a" "em_evaluation_id (soft_delete t u a) = em_evaluation_id a"
  by (simp_all add: soft_delete_def)

lemma evaluation_roundtrip:
  assumes "stamps_ok (evaluations d)" "get_evaluation d i None False = Inr e" "live_by_id (e_evaluation_group_id e) (groups d) \<noteq> None"
    "cutoff \<le> now d" "soft_delete_evaluation d e u = (e', d1)"
  shows "get_restorable_evaluation d1 i u False cutoff = Inr e' \<and> restore_evaluation d1 e' = Inr (e, d)"
proof -
  have e: "e \<in> set (evaluations d)" "row_id e = i" "deleted_at e = None" "deleted_by_id e = None"
    using get_evaluation_Inr [OF assms(2)] assms(1) by (auto simp: stamps_ok_def)
  have e': "row_id e' = i" "e_evaluation_group_id e' = e_evaluation_group_id e" "groups d1 = groups d"
    using assms(5) e(2) by (auto simp: soft_delete_evaluation_def Let_def save_evaluation_def)
  have "List.find (\<lambda>x. row_id x = i \<and> live_by_id (e_evaluation_group_id x) (groups d1) \<noteq> None)
      (deleted_select cutoff (Some u) (evaluations d1)) = Some e'"
    by (rule evaluation_table.deleted_is_found [OF _ e(1) assms(5,4)]) (use assms(1,3) e e' in \<open>auto simp: stamps_ok_def\<close>)
  then show ?thesis
    using evaluation_table.undelete_delete [OF _ e(1,3,4) assms(5)] assms(1) by (simp add: get_restorable_evaluation_def stamps_ok_def)
qed

lemma task_roundtrip:
  assumes "stamps_ok (tasks d)" "get_task d s i None False = Inr t" "live_by_id s (scenarios d) \<noteq> None"
    "cutoff \<le> now d" "soft_delete_task d t u = (t', d1)"
  shows "get_restorable_task d1 s i u False cutoff = Inr t' \<and> restore_task d1 t' = Inr (t, d)"
proof -
  have t: "t \<in> set (tasks d)" "row_id t = i" "t_scenario_id t = s" "deleted_at t = None" "deleted_by_id t = None"
    using assms(1,2) by (auto simp: get_task_def stamps_ok_def dest!: find_SomeD)
  have t': "row_id t' = i" "t_scenario_id t' = s" "scenarios d1 = scenarios d"
    using assms(5) t(2,3) by (auto simp: soft_delete_task_def Let_def)
  have "List.find (\<lambda>x. t_scenario_id x = s \<and> row_id x = i \<and> live_by_id (t_scenario_id x) (scenarios d1) \<noteq> None)
      (deleted_select cutoff (Some u) (tasks d1)) = Some t'"
    by (rule task_table.deleted_is_found [OF _ t(1) assms(5,4)]) (use assms(1,3) t t' in \<open>auto simp: stamps_ok_def\<close>)
  then show ?thesis
    using task_table.undelete_delete [OF _ t(1,4,5) assms(5)] assms(1) by (simp add: get_restorable_task_def stamps_ok_def)
qed

lemma assignment_roundtrip:
  assumes "stamps_ok (eval_models d)" "get_assignment d j i None False = Inr a" "get_model d (em_model_id a) = Inr x"
    and once: "\<forall>b\<in>set (live_select (eval_models d)). assignment_clash b a \<longrightarrow> row_id b = i"
    and "cutoff \<le> now d" "soft_delete_assignment d a u = (a', d1)"
  shows "get_restorable_assignment d1 j i cutoff = Inr a' \<and> restore_assignment d1 a' = Inr (a, d)"
proof -
  have a: "a \<in> set (eval_models d)" "row_id a = i" "em_evaluation_id a = j" "deleted_at a = None" "deleted_by_id a = None"
    using assms(1,2) by (auto simp: get_assignment_def stamps_ok_def dest!: find_SomeD)
  have a': "row_id a' = i" "em_evaluation_id a' = j" "em_model_id a' = em_model_id a" "ai_models d1 = ai_models d"
    "deleted_at a' \<noteq> None" "eval_models d1 = save_row a' (eval_models d)"
    using assms(6) a(2,3) by (auto simp: soft_delete_assignment_def Let_def)
  have m: "live_by_id (em_model_id a) (ai_models d) \<noteq> None" using assms(3) by (simp add: get_model_def)
  have "List.find (\<lambda>x. em_evaluation_id x = j \<and> row_id x = i \<and> live_by_id (em_model_id x) (ai_models d1) \<noteq> None)
      (deleted_select cutoff None (eval_models d1)) = Some a'"
    by (rule assignment_table.deleted_is_found [OF _ a(1) assms(6,5)]) (use assms(1) m a a' in \<open>auto simp: stamps_ok_def\<close>)
  moreover have "\<not> assignment_clash x a'" if "x \<in> set (live_select (eval_models d1))" for x
  proof
    assume c: "assignment_clash x a'"
    have x: "x \<in> set (eval_models d)" "row_id x \<noteq> i" "deleted_at x = None" using that a' by (auto simp: in_save_row)
    have "assignment_clash x a" using c a a' by (simp add: assignment_clash_def)
    then show False using once x by simp
  qed
  then have "restore_assignment d1 a' = Inr (a, d)"
    by (intro assignment_table.undelete_delete [OF _ a(1,4,5) assms(6)]) (use assms(1) in \<open>auto simp: stamps_ok_def\<close>)
  ultimately show ?thesis by (simp add: get_restorable_assignment_def)
qed

text \<open>deleting an evaluation, a task or a model assignment and restoring it gives the database back: right after the
  delete the deleter finds exactly that row among the restorable ones, as long as the restore window reaches back to
  the delete and the parent is live, and the restore returns the row and the database from before.\<close>

lemma delete_restore_roundtrip:
  assumes "stamps_ok (evaluations d)" "stamps_ok (tasks d)" "stamps_ok (eval_models d)" "cutoff \<le> now d"
  shows "(\<forall>i e e' d1. get_evaluation d i None False = Inr e \<longrightarrow> live_by_id (e_evaluation_group_id e) (groups d) \<noteq> None \<longrightarrow>
      soft_delete_evaluation d e u = (e', d1) \<longrightarrow>
      get_restorable_evaluation d1 i u False cutoff = Inr e' \<and> restore_evaluation d1 e' = Inr (e, d)) \<and>
    (\<forall>s i t t' d1. get_task d s i None False = Inr t \<longrightarrow> live_by_id s (scenarios d) \<noteq> None \<longrightarrow>
      soft_delete_task d t u = (t', d1) \<longrightarrow>
      get_restorable_task d1 s i u False cutoff = Inr t' \<and> restore_task d1 t' = Inr (t, d)) \<and>
    (\<forall>j i a a' x d1. get_assignment d j i None False = Inr a \<longrightarrow> get_model d (em_model_id a) = Inr x \<longrightarrow>
      (\<forall>b\<in>set (live_select (eval_models d)). assignment_clash b a \<longrightarrow> row_id b = i) \<longrightarrow>
      soft_delete_assignment d a u = (a', d1) \<longrightarrow>
      get_restorable_assignment d1 j i cutoff = Inr a' \<and> restore_assignment d1 a' = Inr (a, d))"
proof (intro conjI)
  show "\<forall>i e e' d1. get_evaluation d i None False = Inr e \<longrightarrow> live_by_id (e_evaluation_group_id e) (groups d) \<noteq> None \<longrightarrow>
      soft_delete_evaluation d e u = (e', d1) \<longrightarrow>
      get_restorable_evaluation d1 i u False cutoff = Inr e' \<and> restore_evaluation d1 e' = Inr (e, d)"
    using evaluation_roundtrip [OF assms(1) _ _ assms(4)] by blast
  show "\<forall>s i t t' d1. get_task d s i None False = Inr t \<longrightarrow> live_by_id s (scenarios d) \<noteq> None \<longrightarrow>
      soft_delete_task d t u = (t', d1) \<longrightarrow>
      get_restorable_task d1 s i u False cutoff = Inr t' \<and> restore_task d1 t' = Inr (t, d)"
    using task_roundtrip [OF assms(2) _ _ assms(4)] by blast
qed (use assignment_roundtrip [OF assms(3) _ _ _ assms(4)] in blast)

subsection \<open>The licence in force\<close>

text \<open>The foreign keys of licences: every stored licence id, and the platform's default, is a row.\<close>

definition license_refs_ok :: "uuid \<Rightarrow> db \<Rightarrow> bool" where
  "license_refs_ok env_default d \<longleftrightarrow>
     license_by_id d (platform_default_license_id env_default d) \<noteq> None \<and>
     (\<forall>e\<in>set (evaluations d). \<forall>l\<in>set_option (e_data_license_id e). license_by_id d l \<noteq> None) \<and>
     (\<forall>g\<in>set (groups d). \<forall>l\<in>set_option (g_data_license_id g). license_by_id d l \<noteq> None)"

lemma effective_license_cases:
  "effective_license [a, b] dflt = (case a of Some x \<Rightarrow> x | None \<Rightarrow> (case b of Some y \<Rightarrow> y | None \<Rightarrow> dflt))"
  by (cases a; cases b) simp_all

lemma effective_license_row:
  assumes "license_refs_ok env d"
  shows "license_by_id d (effective_license (license_overrides d i) (platform_default_license_id env d)) \<noteq> None"
proof -
  have "license_by_id d (effective_license [a, b] (platform_default_license_id env d)) \<noteq> None"
    if "\<forall>l\<in>set_option a. license_by_id d l \<noteq> None" "\<forall>l\<in>set_option b. license_by_id d l \<noteq> None" for a b
    using that assms by (auto simp: effective_license_cases license_refs_ok_def split: option.splits)
  then show ?thesis
    using assms by (auto simp: license_overrides_def license_refs_ok_def split: option.splits dest!: live_by_id_SomeD find_SomeD)
qed

lemma resolve_each_total:
  assumes "\<forall>p\<in>set ps. license_by_id d (snd p) \<noteq> None"
  shows "resolve_each d ps = Inr (map (\<lambda>(i, l). (i, the (license_by_id d l))) ps)"
  using assms by (induction d ps rule: resolve_each.induct) (auto simp: the_or_def split: option.splits)

lemma resolve_licenses:
  assumes "license_refs_ok env d"
  shows "resolve_effective_licenses env d ids = Inr (map (\<lambda>i. (i, the (license_by_id d
      (effective_license (license_overrides d i) (platform_default_license_id env d))))) (py_sorted_set ids))"
  using resolve_each_total [of "map (\<lambda>i. (i, effective_license (license_overrides d i) (platform_default_license_id env d)))
      (py_sorted_set ids)" d] effective_license_row [OF assms]
  by (simp add: resolve_effective_licenses_def Let_def comp_def)

text \<open>on a database whose licence references resolve, the batched licence resolution is total and has one entry per
  requested evaluation: the evaluation's own licence if it has one, else its group's, else the platform default (which is
  also the answer for a missing or deleted evaluation); the single lookup of an evaluation gives the same row.\<close>

lemma effective_license_cascade:
  assumes "license_refs_ok env d"
  shows "\<exists>r. resolve_effective_licenses env d ids = Inr r \<and> map fst r = py_sorted_set ids \<and>
    (\<forall>i\<in>set ids. \<exists>l. map_of r i = Some l \<and> resolve_effective_license env d i = Inr l \<and> l \<in> set (licenses d) \<and>
       row_id l = (case live_by_id i (evaluations d) of None \<Rightarrow> platform_default_license_id env d
         | Some e \<Rightarrow> (case List.find (\<lambda>g. row_id g = e_evaluation_group_id e) (groups d) of None \<Rightarrow> platform_default_license_id env d
           | Some g \<Rightarrow> (case e_data_license_id e of Some x \<Rightarrow> x
             | None \<Rightarrow> (case g_data_license_id g of Some y \<Rightarrow> y | None \<Rightarrow> platform_default_license_id env d)))))"
proof -
  define lic where "lic i = the (license_by_id d (effective_license (license_overrides d i) (platform_default_license_id env d)))" for i
  let ?r = "map (\<lambda>i. (i, lic i)) (py_sorted_set ids)"
  have lic: "lic i \<in> set (licenses d) \<and> row_id (lic i) = effective_license (license_overrides d i) (platform_default_license_id env d)" for i
  proof -
    obtain l where l: "license_by_id d (effective_license (license_overrides d i) (platform_default_license_id env d)) = Some l"
      using effective_license_row [OF assms, of i] by blast
    then show ?thesis using find_SomeD [OF l [unfolded license_by_id_def]] by (simp add: lic_def)
  qed
  have one: "resolve_effective_license env d i = Inr (lic i)" for i
    by (simp add: resolve_effective_license_def resolve_licenses [OF assms] py_sorted_set_def lic_def)
  have all: "resolve_effective_licenses env d ids = Inr ?r" using resolve_licenses [OF assms] by (simp add: lic_def)
  have eff: "effective_license (license_overrides d i) (platform_default_license_id env d) =
      (case live_by_id i (evaluations d) of None \<Rightarrow> platform_default_license_id env d
         | Some e \<Rightarrow> (case List.find (\<lambda>g. row_id g = e_evaluation_group_id e) (groups d) of None \<Rightarrow> platform_default_license_id env d
           | Some g \<Rightarrow> (case e_data_license_id e of Some x \<Rightarrow> x
             | None \<Rightarrow> (case g_data_license_id g of Some y \<Rightarrow> y | None \<Rightarrow> platform_default_license_id env d))))" for i
    by (simp add: license_overrides_def effective_license_cases split: option.splits)
  have "map_of ?r i = Some (lic i)" if "i \<in> set ids" for i using that by (simp add: map_of_map_restrict)
  moreover have "map fst ?r = py_sorted_set ids" by (simp add: comp_def)
  ultimately show ?thesis using all one lic unfolding eff by blast
qed

end
