(* ===== verification/Content_Witnesses.thy ===== *)
theory Content_Witnesses
  imports Group_Witnesses Scenario_Order Evaluation_Laws
begin

section \<open>Evaluations, scenarios and assignments at work\<close>

text \<open>
  The properties of the content services on the database of \<open>Group_Witnesses\<close>, with a second scenario where order
  matters, and two sequences of requests that show what a restore and a copy do not check.
\<close>

definition rename :: evaluation_update where
  "rename = \<lparr>eu_title = Some ''Round 2'', eu_description = None, eu_cover_image = None, eu_mask_models_enabled = None,
     eu_tags_enabled = None, eu_tags_restricted = None, eu_data_license_id = None\<rparr>"

definition w_renamed :: "(evaluation \<times> db) result" where "w_renamed = update_evaluation gdemo demo_evaluation rename"

lemma gdemo_assign_inv: "assign_inv gdemo"
proof -
  have "subset_inv gdemo"
    by (auto simp: subset_inv_pairs assigned_pairs_def evaluation_groups_of_def in_allowed_models gdemo_def demo_evaluation_def)
  moreover have "refs_ok gdemo" by code_simp
  moreover have "group_inv gdemo" by code_simp
  moreover have "distinct (map row_id (evaluations gdemo))" by code_simp
  ultimately show ?thesis by (simp add: assign_inv_def)
qed

theorem evaluations_use_allowed_models_witness: "50 \<in> allowed_models (snd (projr w_renamed)) 20"
proof -
  have "get_evaluation gdemo 60 None False = Inr demo_evaluation" by code_simp
  moreover have "update_evaluation gdemo demo_evaluation rename = Inr (fst (projr w_renamed), snd (projr w_renamed))"
    unfolding w_renamed_def [symmetric] by (rule Inr_pair_of_not_isl) code_simp
  ultimately have "assign_step demo_cid gdemo (snd (projr w_renamed))" by (rule assign_step.update)
  then have h: "(assign_step demo_cid)\<^sup>*\<^sup>* gdemo (snd (projr w_renamed))" by (rule r_into_rtranclp)
  have "model_used_by_group_evaluations (snd (projr w_renamed)) 20 50" by code_simp
  with h gdemo_assign_inv show ?thesis by (rule evaluations_use_allowed_models)
qed

definition two_scenarios :: db where
  "two_scenarios = gdemo\<lparr>scenarios := scenarios gdemo @ [\<lparr>row_id = 64, created_at = 0, deleted_at = None, deleted_by_id = None,
     s_name = ''Leak'', s_description = ''d'', s_evaluation_id = 60, s_position = 1, s_required_reviews = 1\<rparr>]\<rparr>"

theorem reorder_scenarios_exact_witness:
  "\<exists>ss d'. reorder_scenarios two_scenarios 60 [64, 62] = Inr (ss, d') \<and> map row_id ss = [64, 62] \<and> map s_position ss = [0, 1]"
proof -
  have h: "distinct (map row_id (scenarios two_scenarios))" by code_simp
  have r: "scenario_reorder_request [64, 62]" by code_simp
  have "set [64, 62] = row_id ` set (live_scenarios two_scenarios 60)" by code_simp
  then show ?thesis using reorder_scenarios_exact [OF h r, of 60] by (auto simp: upt_rec)
qed

definition w_added :: "(scenario \<times> db) result" where "w_added = create_scenario gdemo 60 ''Leak'' ''d'' 1"

lemma live_positions_distinct_example: "distinct (map s_position (live_scenarios (snd (projr w_added)) 60))"
proof -
  have "create_scenario gdemo 60 ''Leak'' ''d'' 1 = Inr (fst (projr w_added), snd (projr w_added))"
    unfolding w_added_def [symmetric] by (rule Inr_pair_of_not_isl) code_simp
  then have "content_step demo_cid gdemo (snd (projr w_added))" by (rule content_step.create)
  then have h: "(content_step demo_cid)\<^sup>*\<^sup>* gdemo (snd (projr w_added))" by (rule r_into_rtranclp)
  have "order_inv gdemo" by code_simp
  then have "content_inv gdemo" using gdemo_assign_inv by (simp add: content_inv_def)
  with h show ?thesis by (rule live_positions_distinct)
qed

lemma delete_restore_roundtrip_example:
  "restore_evaluation (snd (soft_delete_evaluation gdemo demo_evaluation 1)) (fst (soft_delete_evaluation gdemo demo_evaluation 1)) =
     Inr (demo_evaluation, gdemo)"
proof -
  have h: "stamps_ok (evaluations gdemo)" "stamps_ok (tasks gdemo)" "stamps_ok (eval_models gdemo)" "0 \<le> now gdemo"
    by code_simp+
  have e: "get_evaluation gdemo 60 None False = Inr demo_evaluation" by code_simp
  have g: "live_by_id (e_evaluation_group_id demo_evaluation) (groups gdemo) \<noteq> None" by code_simp
  have "soft_delete_evaluation gdemo demo_evaluation 1 =
      (fst (soft_delete_evaluation gdemo demo_evaluation 1), snd (soft_delete_evaluation gdemo demo_evaluation 1))" by simp
  with delete_restore_roundtrip [OF h, of 1] e g show ?thesis by blast
qed

definition licensed_demo :: db where "licensed_demo = sync_licenses demo_cid demo_catalog gdemo"

lemma effective_license_cascade_example:
  "\<exists>l. resolve_effective_license (demo_cid ''NONE'') licensed_demo 60 = Inr l \<and> row_id l = demo_cid ''NONE''"
proof -
  have h: "license_refs_ok (demo_cid ''NONE'') licensed_demo" by code_simp
  have "live_by_id 60 (evaluations licensed_demo) = Some demo_evaluation" by code_simp
  moreover have "List.find (\<lambda>g. row_id g = e_evaluation_group_id demo_evaluation) (groups licensed_demo) = Some demo_group" by code_simp
  moreover have "e_data_license_id demo_evaluation = None" "g_data_license_id demo_group = None" by code_simp+
  moreover have "platform_default_license_id (demo_cid ''NONE'') licensed_demo = demo_cid ''NONE''" by code_simp
  ultimately show ?thesis using effective_license_cascade [OF h, of "[60]"] by auto
qed

subsection \<open>What a restore and a copy do not check\<close>

text \<open>
  \<open>restore_assignment\<close> does not look at the group's allowed subset: unassigning a model, dropping it from the subset and
  restoring the assignment leaves an evaluation with a model its group does not allow.
\<close>

definition w_escape :: "db result" where
  "w_escape = bindE (get_assignment gdemo 60 61 None False) (\<lambda>a.
     bindE (sync_group_models (snd (soft_delete_assignment gdemo a 1)) 20 [] 1) (\<lambda>(_, d).
     bindE (get_restorable_assignment d 60 61 0) (\<lambda>a'.
     bindE (restore_assignment d a') (\<lambda>(_, d'). Inr d'))))"

lemma restore_assignment_escapes_subset:
  "\<exists>d. w_escape = Inr d \<and> model_used_by_group_evaluations d 20 50 \<and> allowed_rows d 20 = []"
proof -
  have "\<not> isl w_escape" by code_simp
  then have "w_escape = Inr (projr w_escape)" by (rule Inr_of_not_isl)
  moreover have "model_used_by_group_evaluations (projr w_escape) 20 50" by code_simp
  moreover have "allowed_rows (projr w_escape) 20 = []" by code_simp
  ultimately show ?thesis by blast
qed

text \<open>
  \<open>duplicate_evaluation_group\<close> carries the source's organization over without the caller's-own-organization rule of
  create and update: an owner who has left the organization still gets a group in it.
\<close>

definition moved_demo :: db where "moved_demo = gdemo\<lparr>users := [mk_user 1 ''alice'' None, bob, carol]\<rparr>"

lemma duplicate_keeps_foreign_organization:
  "\<exists>g d. duplicate_evaluation_group moved_demo 20 1 False True = Inr (g, d) \<and> g_organization_id g = Some 30 \<and>
     caller_live_organization moved_demo 1 = None"
proof -
  let ?s = "duplicate_evaluation_group moved_demo 20 1 False True"
  have "?s = Inr (fst (projr ?s), snd (projr ?s))" by (rule Inr_pair_of_not_isl) code_simp
  moreover have "g_organization_id (fst (projr ?s)) = Some 30" by code_simp
  moreover have "caller_live_organization moved_demo 1 = None" by code_simp
  ultimately show ?thesis by blast
qed

end
