(* ===== verification/Platform.thy ===== *)
theory Platform
  imports User_Service "HOL-Library.Multiset"
begin

section \<open>Platform services: audit trail, settings, terms, password policy, mail\<close>

text \<open>
  What the account flows call: \<open>app/core/audit/service.py\<close>, \<open>platform_settings/service.py\<close>, \<open>terms/service.py\<close>,
  \<open>auth/password_policy.py\<close> and \<open>send_email\<close> of \<open>app/core/email\<close>.  Python strings are lists of (ASCII) characters;
  the denylist of common passwords, a data file, is an argument, and so are the environment's defaults of a platform
  whose settings row was never written.  A mail whose transaction rolls back is never delivered (the worker drops a task without its
  row), so the outbox is part of the transaction.
\<close>

subsection \<open>Audit\<close>

definition audit_get :: "(string \<times> arg) list \<Rightarrow> string \<Rightarrow> arg" where
  "audit_get s k = (case map_of s k of None \<Rightarrow> AOpt None | Some v \<Rightarrow> v)"

definition changed_fields ::
  "(string \<times> arg) list \<Rightarrow> (string \<times> arg) list \<Rightarrow> (string \<times> arg) list \<times> (string \<times> arg) list" where
  "changed_fields before after =
     (let keys = filter (\<lambda>k. audit_get before k \<noteq> audit_get after k) (py_dedup (map fst before @ map fst after))
      in (map (\<lambda>k. (k, audit_get before k)) keys, map (\<lambda>k. (k, audit_get after k)) keys))"

definition record_audit ::
  "db \<Rightarrow> uuid option \<Rightarrow> string option \<Rightarrow> string \<Rightarrow> string option \<Rightarrow> uuid option \<Rightarrow>
     (string \<times> arg) list option \<Rightarrow> (string \<times> arg) list option \<Rightarrow> db" where
  "record_audit d actor_id actor_email action object_type object_id before after =
     d\<lparr>audit_log := audit_log d @ [\<lparr>row_id = next_id d, created_at = now d, deleted_at = None, deleted_by_id = None,
         al_actor_id = actor_id, al_actor_email = actor_email, al_action = action, al_object_type = object_type,
         al_object_id = object_id, al_before = before, al_after = after\<rparr>],
       next_id := Suc (next_id d)\<rparr>"

subsection \<open>Platform settings\<close>

record env_defaults =
  env_license_id :: uuid
  env_email_verification_ttl_hours :: int
  env_invitation_ttl_hours :: int
  env_password_reset_ttl_hours :: int

definition get_platform_settings :: "env_defaults \<Rightarrow> db \<Rightarrow> platform_settings" where
  "get_platform_settings env d =
     (case settings_row d of Some p \<Rightarrow> p
      | None \<Rightarrow> \<lparr>ps_default_license_id = env_license_id env, ps_invite_only = False,
          ps_email_verification_ttl_hours = env_email_verification_ttl_hours env, ps_password_min_length = 8,
          ps_password_require_uppercase = False, ps_password_require_digit = False, ps_password_require_symbol = False,
          ps_password_reset_cooldown_seconds = 60, ps_password_reset_max_per_day = 5\<rparr>)"

record settings_changes =
  sc_default_license_id :: "uuid option"
  sc_invite_only :: "bool option"
  sc_email_verification_ttl_hours :: "int option"
  sc_password_min_length :: "nat option"
  sc_password_require_uppercase :: "bool option"
  sc_password_require_digit :: "bool option"
  sc_password_require_symbol :: "bool option"
  sc_password_reset_cooldown_seconds :: "int option"
  sc_password_reset_max_per_day :: "nat option"

definition changed_to :: "'a \<Rightarrow> 'a option \<Rightarrow> 'a" where
  "changed_to x c = (case c of None \<Rightarrow> x | Some y \<Rightarrow> y)"

definition update_platform_settings :: "env_defaults \<Rightarrow> db \<Rightarrow> settings_changes \<Rightarrow> platform_settings \<times> db" where
  "update_platform_settings env d ch =
     (let cur = get_platform_settings env d;
          new = \<lparr>ps_default_license_id = changed_to (ps_default_license_id cur) (sc_default_license_id ch),
            ps_invite_only = changed_to (ps_invite_only cur) (sc_invite_only ch),
            ps_email_verification_ttl_hours =
              changed_to (ps_email_verification_ttl_hours cur) (sc_email_verification_ttl_hours ch),
            ps_password_min_length = changed_to (ps_password_min_length cur) (sc_password_min_length ch),
            ps_password_require_uppercase = changed_to (ps_password_require_uppercase cur) (sc_password_require_uppercase ch),
            ps_password_require_digit = changed_to (ps_password_require_digit cur) (sc_password_require_digit ch),
            ps_password_require_symbol = changed_to (ps_password_require_symbol cur) (sc_password_require_symbol ch),
            ps_password_reset_cooldown_seconds =
              changed_to (ps_password_reset_cooldown_seconds cur) (sc_password_reset_cooldown_seconds ch),
            ps_password_reset_max_per_day = changed_to (ps_password_reset_max_per_day cur) (sc_password_reset_max_per_day ch)\<rparr>
      in (new, d\<lparr>settings_row := Some new\<rparr>))"

subsection \<open>Terms of service\<close>

text \<open>\<open>ORDER BY published_at DESC, id LIMIT 1\<close> over the live versions.\<close>

definition terms_order :: "terms_document list \<Rightarrow> terms_document list" where
  "terms_order t = sort_key (\<lambda>x. - td_published_at x) (sort_key row_id (live_select t))"

definition get_current_terms :: "db \<Rightarrow> terms_document option" where
  "get_current_terms d = (case terms_order (terms_documents d) of [] \<Rightarrow> None | x # _ \<Rightarrow> Some x)"

definition current_terms_id :: "db \<Rightarrow> uuid option" where
  "current_terms_id d = map_option row_id (get_current_terms d)"

definition get_terms :: "db \<Rightarrow> uuid \<Rightarrow> terms_document option" where
  "get_terms d terms_id = live_by_id terms_id (terms_documents d)"

definition acceptance_required :: "user \<Rightarrow> terms_document option \<Rightarrow> bool" where
  "acceptance_required u current = (case current of None \<Rightarrow> False | Some t \<Rightarrow> u_accepted_terms_id u \<noteq> Some (row_id t))"

definition acceptance_required_for :: "db \<Rightarrow> uuid \<Rightarrow> bool" where
  "acceptance_required_for d user_id =
     (case current_terms_id d of None \<Rightarrow> False
      | Some i \<Rightarrow> (case live_by_id user_id (users d) of None \<Rightarrow> False | Some u \<Rightarrow> u_accepted_terms_id u \<noteq> Some i))"

definition resolve_signup_consent :: "db \<Rightarrow> bool \<Rightarrow> uuid option \<Rightarrow> terms_document option result" where
  "resolve_signup_consent d consent_terms terms_id =
     (case get_current_terms d of None \<Rightarrow> Inr None
      | Some current \<Rightarrow>
          bindE (ensure consent_terms (BadRequestError (Msg ''The terms of service must be accepted.'' []))) (\<lambda>_.
          bindE (ensure (terms_id = Some (row_id current))
            (ConflictError (Msg ''Those terms are no longer the current version.'' []))) (\<lambda>_.
          Inr (Some current))))"

definition list_terms :: "db \<Rightarrow> nat \<Rightarrow> nat \<Rightarrow> terms_document list \<times> nat" where
  "list_terms d limit offset = paginate limit offset (terms_order (terms_documents d))"

definition publish_terms :: "db \<Rightarrow> string \<Rightarrow> string \<Rightarrow> (terms_document \<times> db) result" where
  "publish_terms d version content =
     bindE (ensure (\<forall>t\<in>set (live_select (terms_documents d)). td_version t \<noteq> version)
       (ConflictError (Msg ''A terms version {} already exists.'' [AStr version]))) (\<lambda>_.
     let t = \<lparr>row_id = next_id d, created_at = now d, deleted_at = None, deleted_by_id = None, td_version = version,
              td_content = content, td_published_at = now d\<rparr>
     in Inr (t, d\<lparr>terms_documents := terms_documents d @ [t], next_id := Suc (next_id d)\<rparr>))"

definition save_user :: "db \<Rightarrow> user \<Rightarrow> db" where
  "save_user d u = d\<lparr>users := save_row u (users d)\<rparr>"

definition accept_terms :: "db \<Rightarrow> user \<Rightarrow> uuid \<Rightarrow> (terms_document \<times> db) result" where
  "accept_terms d u terms_id =
     (let stale = ConflictError (Msg ''Those terms are no longer the current version.'' []) in
      bindE (the_or stale (get_current_terms d)) (\<lambda>current.
      bindE (ensure (row_id current = terms_id) stale) (\<lambda>_.
      if u_accepted_terms_id u = Some (row_id current) then Inr (current, d)
      else Inr (current, save_user d (u\<lparr>u_accepted_terms_id := Some (row_id current), u_terms_accepted_at := Some (now d)\<rparr>)))))"

definition record_signup_consent :: "user \<Rightarrow> terms_document option \<Rightarrow> bool \<Rightarrow> timestamp \<Rightarrow> user" where
  "record_signup_consent u document consent_emails t =
     (let u1 = u\<lparr>u_consent_emails := consent_emails\<rparr> in
      case document of None \<Rightarrow> u1 | Some x \<Rightarrow> u1\<lparr>u_accepted_terms_id := Some (row_id x), u_terms_accepted_at := Some t\<rparr>)"

subsection \<open>Password policy\<close>

record password_policy =
  pp_min_length :: nat
  pp_require_uppercase :: bool
  pp_require_digit :: bool
  pp_require_symbol :: bool

definition policy_from_settings :: "platform_settings \<Rightarrow> password_policy" where
  "policy_from_settings p = \<lparr>pp_min_length = ps_password_min_length p, pp_require_uppercase = ps_password_require_uppercase p,
     pp_require_digit = ps_password_require_digit p, pp_require_symbol = ps_password_require_symbol p\<rparr>"

definition MIN_PASSWORD_LENGTH :: nat where "MIN_PASSWORD_LENGTH = 8"
definition MAX_PASSWORD_LENGTH :: nat where "MAX_PASSWORD_LENGTH = 128"

definition is_upper :: "char \<Rightarrow> bool" where "is_upper c \<longleftrightarrow> CHR ''A'' \<le> c \<and> c \<le> CHR ''Z''"
definition is_lower :: "char \<Rightarrow> bool" where "is_lower c \<longleftrightarrow> CHR ''a'' \<le> c \<and> c \<le> CHR ''z''"
definition is_digit :: "char \<Rightarrow> bool" where "is_digit c \<longleftrightarrow> CHR ''0'' \<le> c \<and> c \<le> CHR ''9''"
definition is_alnum :: "char \<Rightarrow> bool" where "is_alnum c \<longleftrightarrow> is_upper c \<or> is_lower c \<or> is_digit c"

definition casefold :: "string \<Rightarrow> string" where
  "casefold s = map (\<lambda>c. if is_upper c then char_of (of_char c + (32 :: nat)) else c) s"

text \<open>The pieces of \<open>re.split(r"\W+", s)\<close>: maximal runs of word characters.\<close>

fun split_words :: "string \<Rightarrow> string \<Rightarrow> string list" where
  "split_words acc [] = [rev acc]"
| "split_words acc (c # cs) =
     (if is_alnum c \<or> c = CHR ''_'' then split_words (c # acc) cs else rev acc # split_words [] cs)"

text \<open>\<open>SequenceMatcher(a, b).quick_ratio() >= 0.7\<close>: twice the common characters over the total length, which is 1 for
  two empty strings.\<close>

definition too_similar :: "string \<Rightarrow> string \<Rightarrow> bool" where
  "too_similar a b \<longleftrightarrow> 20 * size (mset a \<inter># mset b) \<ge> 7 * (length a + length b)"

definition reject_too_short :: "string \<Rightarrow> password_policy \<Rightarrow> unit result" where
  "reject_too_short password policy =
     ensure (pp_min_length policy \<le> length password)
       (BadRequestError (Msg ''Password must be at least {} characters long.'' [ANat (pp_min_length policy)]))"

definition reject_missing_character_class :: "string \<Rightarrow> password_policy \<Rightarrow> unit result" where
  "reject_missing_character_class password policy =
     bindE (ensure (pp_require_uppercase policy \<longrightarrow> list_ex is_upper password)
       (BadRequestError (Msg ''Password must contain {}.'' [AStr ''an uppercase letter'']))) (\<lambda>_.
     bindE (ensure (pp_require_digit policy \<longrightarrow> list_ex is_digit password)
       (BadRequestError (Msg ''Password must contain {}.'' [AStr ''a digit'']))) (\<lambda>_.
     ensure (pp_require_symbol policy \<longrightarrow> list_ex (\<lambda>c. \<not> is_alnum c) password)
       (BadRequestError (Msg ''Password must contain {}.'' [AStr ''a symbol'']))))"

definition reject_common :: "string list \<Rightarrow> string \<Rightarrow> unit result" where
  "reject_common denylist password =
     ensure (casefold password \<notin> set denylist)
       (BadRequestError (Msg ''This password is too common or has appeared in a known data breach.'' []))"

definition identity_tokens :: "string \<Rightarrow> string list" where
  "identity_tokens value = casefold value # filter (\<lambda>p. 3 \<le> length p) (split_words [] (casefold value))"

definition reject_similar_to_identity :: "string \<Rightarrow> string option list \<Rightarrow> unit result" where
  "reject_similar_to_identity password identity =
     ensure (list_all (\<lambda>value. case value of None \<Rightarrow> True
          | Some v \<Rightarrow> v = [] \<or> \<not> list_ex (too_similar (casefold password)) (identity_tokens v)) identity)
       (BadRequestError (Msg ''This password is too similar to your email or name.'' []))"

definition validate_password :: "string list \<Rightarrow> string \<Rightarrow> string option list \<Rightarrow> password_policy \<Rightarrow> unit result" where
  "validate_password denylist password identity policy =
     bindE (reject_too_short password policy) (\<lambda>_.
     bindE (reject_missing_character_class password policy) (\<lambda>_.
     bindE (reject_common denylist password) (\<lambda>_.
     reject_similar_to_identity password identity)))"

subsection \<open>Mail\<close>

definition send_email :: "db \<Rightarrow> string \<Rightarrow> string \<Rightarrow> string option \<Rightarrow> db" where
  "send_email d template_name recipient raw_token =
     d\<lparr>outbox := outbox d @ [\<lparr>ml_template = template_name, ml_to = recipient, ml_raw_token = raw_token\<rparr>]\<rparr>"

definition display_name :: "session_user \<Rightarrow> string" where
  "display_name u =
     (let parts = filter (\<lambda>s. s \<noteq> []) (List.map_filter id [su_first_name u, su_last_name u])
      in case parts of [] \<Rightarrow> su_email u | [p] \<Rightarrow> p | p # q # _ \<Rightarrow> p @ '' '' @ q)"

subsection \<open>Facts\<close>

lemma record_audit_sel [simp]:
  "users (record_audit d a b c e f g h) = users d" "revoked (record_audit d a b c e f g h) = revoked d"
  "now (record_audit d a b c e f g h) = now d" "roles (record_audit d a b c e f g h) = roles d"
  "user_roles (record_audit d a b c e f g h) = user_roles d" "next_id (record_audit d a b c e f g h) = Suc (next_id d)"
  by (simp_all add: record_audit_def)

lemma validate_password_Inr:
  "validate_password denylist pw identity policy = Inr () \<Longrightarrow> pp_min_length policy \<le> length pw \<and> casefold pw \<notin> set denylist"
  by (auto simp: validate_password_def svc_simps reject_too_short_def reject_common_def)

end
