(* ===== verification/Bulk.thy ===== *)
theory Bulk
  imports Platform
begin

section \<open>Bulk requests\<close>

text \<open>
  \<open>app/core/bulk.py\<close> and the problem envelope of \<open>app/core/error_handlers.py\<close>.  A row processor is a service function;
  its savepoint makes an API error undo only its own row, while any other exception aborts the request.  A rollback gives back the
  database of the beginning, except for the revocation markers, which live in Redis: \<open>db_rollback\<close>.  \<open>items\<close> are the
  field-level entries an exception carries.
\<close>

datatype loc = LStr string | LInt nat

record problem_error_item =
  pe_loc :: "loc list"
  pe_msg :: detail
  pe_type :: string

record problem =
  pb_title :: string
  pb_status :: nat
  pb_detail :: "detail option"
  pb_errors :: "problem_error_item list option"

fun error_title :: "error \<Rightarrow> string" where
  "error_title (BadRequestError _) = ''Bad Request''"
| "error_title (UnauthorizedError _) = ''Unauthorized''"
| "error_title (ForbiddenError _) = ''Forbidden''"
| "error_title (NotFoundError _) = ''Not Found''"
| "error_title (ConflictError _) = ''Conflict''"
| "error_title (GoneError _) = ''Gone''"
| "error_title (BadGatewayError _) = ''Bad Gateway''"
| "error_title (ServiceUnavailableError _) = ''Service Unavailable''"
| "error_title _ = ''Internal Server Error''"

fun error_detail :: "error \<Rightarrow> detail option" where
  "error_detail (BadRequestError m) = Some m"
| "error_detail (UnauthorizedError m) = Some m"
| "error_detail (ForbiddenError m) = Some m"
| "error_detail (NotFoundError m) = Some m"
| "error_detail (ConflictError m) = Some m"
| "error_detail (GoneError m) = Some m"
| "error_detail (BadGatewayError m) = Some m"
| "error_detail (ServiceUnavailableError m) = Some m"
| "error_detail _ = None"

definition api_error_to_problem :: "(error \<Rightarrow> problem_error_item list option) \<Rightarrow> error \<Rightarrow> problem" where
  "api_error_to_problem items e =
     \<lparr>pb_title = error_title e, pb_status = status_code e, pb_detail = error_detail e, pb_errors = items e\<rparr>"

definition row_relative_problem :: "problem \<Rightarrow> nat \<Rightarrow> problem" where
  "row_relative_problem p index =
     (case pb_errors p of None \<Rightarrow> p
      | Some es \<Rightarrow> p\<lparr>pb_errors := Some (map (\<lambda>i. i\<lparr>pe_loc := [LStr ''body'', LStr ''rows'', LInt index, LStr ''data''] @ tl (pe_loc i)\<rparr>) es)\<rparr>)"

record 't bulk_row =
  br_row_key :: string
  br_data :: 't

record 't bulk_request =
  bq_rows :: "'t bulk_row list"
  bq_dry_run :: bool

definition valid_bulk_request :: "nat \<Rightarrow> 't bulk_request \<Rightarrow> bool" where
  "valid_bulk_request max_rows q \<longleftrightarrow>
     bq_rows q \<noteq> [] \<and> distinct (map br_row_key (bq_rows q)) \<and> length (bq_rows q) \<le> max_rows"

datatype row_status = ROW_OK | ROW_FAILED

record 'r bulk_row_result =
  rr_row_key :: string
  rr_status :: row_status
  rr_data :: "'r option"
  rr_error :: "problem option"

record 'r bulk_response =
  bs_dry_run :: bool
  bs_total :: nat
  bs_succeeded :: nat
  bs_failed :: nat
  bs_results :: "'r bulk_row_result list"

definition row_ok :: "'t bulk_row \<Rightarrow> 'r \<Rightarrow> 'r bulk_row_result" where
  "row_ok row x = \<lparr>rr_row_key = br_row_key row, rr_status = ROW_OK, rr_data = Some x, rr_error = None\<rparr>"

definition row_failed :: "(error \<Rightarrow> problem_error_item list option) \<Rightarrow> nat \<Rightarrow> 't bulk_row \<Rightarrow> error \<Rightarrow> 'r bulk_row_result" where
  "row_failed items index row e = \<lparr>rr_row_key = br_row_key row, rr_status = ROW_FAILED, rr_data = None,
     rr_error = Some (row_relative_problem (api_error_to_problem items e) index)\<rparr>"

text \<open>The loop: results so far are accumulated in order; \<open>Inl\<close> is the exception that aborts, with the state it left.\<close>

fun run_rows ::
  "(error \<Rightarrow> problem_error_item list option) \<Rightarrow> ('s \<Rightarrow> 't \<Rightarrow> ('r \<times> 's) result) \<Rightarrow> 's \<Rightarrow> nat \<Rightarrow> 't bulk_row list \<Rightarrow>
     (error \<times> 's) + ('r bulk_row_result list \<times> 's)" where
  "run_rows items processor s index [] = Inr ([], s)"
| "run_rows items processor s index (row # rows) =
     (case processor s (br_data row) of
        Inr (x, s') \<Rightarrow> (case run_rows items processor s' (Suc index) rows of
            Inl abort \<Rightarrow> Inl abort | Inr (rs, s'') \<Rightarrow> Inr (row_ok row x # rs, s''))
      | Inl e \<Rightarrow> (if is_api_error e
            then (case run_rows items processor s (Suc index) rows of
                Inl abort \<Rightarrow> Inl abort | Inr (rs, s'') \<Rightarrow> Inr (row_failed items index row e # rs, s''))
            else Inl (e, s)))"

definition bulk_response_of :: "'t bulk_request \<Rightarrow> 'r bulk_row_result list \<Rightarrow> 'r bulk_response" where
  "bulk_response_of q rs = \<lparr>bs_dry_run = bq_dry_run q, bs_total = length (bq_rows q),
     bs_succeeded = length (filter (\<lambda>r. rr_status r = ROW_OK) rs),
     bs_failed = length (filter (\<lambda>r. rr_status r = ROW_FAILED) rs), bs_results = rs\<rparr>"

definition apply_bulk ::
  "('s \<Rightarrow> 's \<Rightarrow> 's) \<Rightarrow> (error \<Rightarrow> problem_error_item list option) \<Rightarrow> ('s \<Rightarrow> 't \<Rightarrow> ('r \<times> 's) result) \<Rightarrow> 's \<Rightarrow> 't bulk_request \<Rightarrow>
     'r bulk_response result \<times> 's" where
  "apply_bulk rollback items processor s q =
     (case run_rows items processor s 0 (bq_rows q) of
        Inl (e, s') \<Rightarrow> (Inl e, rollback s s')
      | Inr (rs, s') \<Rightarrow> (Inr (bulk_response_of q rs), if bq_dry_run q then rollback s s' else s'))"

definition db_rollback :: "db \<Rightarrow> db \<Rightarrow> db" where
  "db_rollback d d' = d\<lparr>revoked := revoked d'\<rparr>"

subsection \<open>Bulk processing as single requests\<close>

text \<open>One request alone: its effect if it succeeds, nothing if it is refused.\<close>

definition single :: "('s \<Rightarrow> 't \<Rightarrow> ('r \<times> 's) result) \<Rightarrow> 's \<Rightarrow> 't \<Rightarrow> 's" where
  "single processor s x = (case processor s x of Inr (_, s') \<Rightarrow> s' | Inl _ \<Rightarrow> s)"

text \<open>What every row keeps, the loop keeps.\<close>

lemma run_rows_keeps:
  assumes "\<And>s x y s'. P s \<Longrightarrow> processor s x = Inr (y, s') \<Longrightarrow> P s'" and "P s"
  shows "case run_rows items processor s index rows of Inl (e, s') \<Rightarrow> P s' | Inr (rs, s') \<Rightarrow> P s'"
  using assms(2)
proof (induction rows arbitrary: s index)
  case (Cons row rows)
  show ?case
  proof (cases "processor s (br_data row)")
    case (Inl e)
    then show ?thesis using Cons.IH [OF Cons.prems, of "Suc index"] Cons.prems by (auto split: sum.splits)
  next
    case (Inr y)
    then have "P (snd y)" using assms(1) [OF Cons.prems, of "br_data row" "fst y" "snd y"] by simp
    then show ?thesis using Inr Cons.IH [of "snd y" "Suc index"] by (cases y) (auto split: sum.splits)
  qed
qed simp

text \<open>
  What a bulk endpoint relies on: the processor of a commit and the one of a preview agree up to what a preview leaves out
  (\<open>sim\<close>), and no row raises anything but an API error.
\<close>

locale bulk_endpoint =
  fixes processor preview :: "'s \<Rightarrow> 't \<Rightarrow> ('r \<times> 's) result" and sim :: "'s \<Rightarrow> 's \<Rightarrow> bool"
  assumes api_only: "processor s x = Inl e \<Longrightarrow> is_api_error e"
    and preview_error: "sim s t \<Longrightarrow> processor s x = Inl e \<longleftrightarrow> preview t x = Inl e"
    and preview_ok: "sim s t \<Longrightarrow> processor s x = Inr (y, s') \<Longrightarrow> \<exists>t'. preview t x = Inr (y, t') \<and> sim s' t'"
begin

lemma run_rows_commits:
  "\<exists>rs. run_rows items processor s index rows = Inr (rs, foldl (\<lambda>s row. single processor s (br_data row)) s rows) \<and>
     length rs = length rows"
proof (induction rows arbitrary: s index)
  case (Cons row rows)
  show ?case
  proof (cases "processor s (br_data row)")
    case (Inl e)
    then show ?thesis using Cons [of s "Suc index"] api_only by (fastforce simp: single_def)
  next
    case (Inr y)
    then show ?thesis using Cons [of "snd y" "Suc index"] by (cases y) (fastforce simp: single_def)
  qed
qed simp

lemma preview_same_results:
  assumes "sim s t" "run_rows items processor s index rows = Inr (rs, s')"
  shows "\<exists>t'. run_rows items preview t index rows = Inr (rs, t') \<and> sim s' t'"
  using assms
proof (induction rows arbitrary: s t index rs)
  case (Cons row rows)
  show ?case
  proof (cases "processor s (br_data row)")
    case (Inl e)
    have e: "preview t (br_data row) = Inl e" "is_api_error e" using Inl preview_error [OF Cons(2)] api_only by blast+
    obtain rs' where "run_rows items processor s (Suc index) rows = Inr (rs', s')" "rs = row_failed items index row e # rs'"
      using Cons(3) Inl e(2) by (auto split: sum.splits)
    then show ?thesis using Cons(1) [OF Cons(2), of "Suc index" rs'] e by auto
  next
    case (Inr y)
    obtain x s1 where y: "y = (x, s1)" by (cases y)
    obtain t1 where t1: "preview t (br_data row) = Inr (x, t1)" "sim s1 t1" using preview_ok [OF Cons(2)] Inr y by blast
    obtain rs' where "run_rows items processor s1 (Suc index) rows = Inr (rs', s')" "rs = row_ok row x # rs'"
      using Cons(3) Inr y by (auto split: sum.splits)
    then show ?thesis using Cons(1) [OF t1(2), of "Suc index" rs'] t1 by auto
  qed
qed auto

end

end
