(* ===== verification/User_Routes.thy ===== *)
theory User_Routes
  imports Bulk Object_Roles Session_Revocation
begin

section \<open>The account routes\<close>

text \<open>
  The handlers of \<open>app/api/v1/auth/users.py\<close> that change accounts: update, restore, delete, force-logout and status, single and
  in bulk, with their permission gate, guards, session revocation and audit row.  \<open>redis_up\<close> says whether the
  session store takes writes; when it does not, the request fails.
\<close>

definition revoke_sessions :: "bool \<Rightarrow> db \<Rightarrow> uuid \<Rightarrow> db result" where
  "revoke_sessions redis_up d user_id =
     bindE (ensure redis_up RedisError) (\<lambda>_. Inr (revoke_user_sessions d user_id))"

definition user_snapshot :: "db \<Rightarrow> user \<Rightarrow> (string \<times> arg) list" where
  "user_snapshot d u =
     [(''email'', AStr (u_email u)), (''first_name'', AOpt (u_first_name u)), (''last_name'', AOpt (u_last_name u)),
      (''status'', AStr (user_status_value (u_status u))), (''roles'', AStrs (sort (map r_name (user_live_roles d (row_id u)))))]"

definition audit_user ::
  "db \<Rightarrow> session_user \<Rightarrow> string \<Rightarrow> uuid \<Rightarrow> (string \<times> arg) list option \<Rightarrow> (string \<times> arg) list option \<Rightarrow> db" where
  "audit_user d caller action user_id before after =
     record_audit d (Some (su_id caller)) (Some (su_email caller)) action (Some ''user'') (Some user_id) before after"

record user_update =
  up_first_name :: "string option option"
  up_last_name :: "string option option"
  up_role_ids :: "uuid list option"
  up_consent_emails :: "bool option"

definition get_user_endpoint :: "db \<Rightarrow> session_user \<Rightarrow> uuid \<Rightarrow> user result" where
  "get_user_endpoint d caller user_id = bindE (require_permission USERS_READ caller) (\<lambda>_. get_user d user_id)"

definition update_user_endpoint :: "db \<Rightarrow> session_user \<Rightarrow> uuid \<Rightarrow> user_update \<Rightarrow> (user \<times> db) result" where
  "update_user_endpoint d caller user_id payload =
     bindE (require_permission USERS_UPDATE caller) (\<lambda>_.
     bindE (get_user d user_id) (\<lambda>u.
     let before = user_snapshot d u in
     bindE (case up_role_ids payload of None \<Rightarrow> Inr None
            | Some ids \<Rightarrow> bindE (resolve_assignable_roles d caller ids (user_live_roles d (row_id u))) (\<lambda>rs. Inr (Some rs))) (\<lambda>rs.
     bindE (update_user d u \<lparr>uc_first_name = up_first_name payload, uc_last_name = up_last_name payload, uc_roles = rs,
              uc_consent_emails = up_consent_emails payload\<rparr>) (\<lambda>(u', d').
     let (diff_before, diff_after) = changed_fields before (user_snapshot d' u') in
     Inr (u', audit_user d' caller ''user.update'' (row_id u') (Some diff_before) (Some diff_after))))))"

definition restore_user_endpoint :: "db \<Rightarrow> session_user \<Rightarrow> uuid \<Rightarrow> timestamp \<Rightarrow> (user \<times> db) result" where
  "restore_user_endpoint d caller user_id deleted_cutoff =
     bindE (require_permission USERS_DELETE caller) (\<lambda>_.
     bindE (get_restorable_user d user_id deleted_cutoff) (\<lambda>u.
     bindE (assert_can_restore_user d caller u) (\<lambda>_.
     bindE (restore_user d u) (\<lambda>(u', d').
     Inr (u', audit_user d' caller ''user.restore'' user_id None (Some (user_snapshot d' u')))))))"

definition protected_names :: "(object_type \<times> uuid) list \<Rightarrow> string list" where
  "protected_names orphaned =
     py_sorted_set (List.map_filter (\<lambda>(t, _). map_option system_role_value (protected_role (OBJECT_ROLE_REGISTRY t))) orphaned)"

definition delete_user_endpoint :: "db \<Rightarrow> session_user \<Rightarrow> uuid \<Rightarrow> db result" where
  "delete_user_endpoint d caller user_id =
     bindE (require_permission USERS_DELETE caller) (\<lambda>_.
     bindE (get_user d user_id) (\<lambda>u.
     bindE (ensure (su_id caller \<noteq> row_id u) (ForbiddenError (Msg ''Cannot delete your own account.'' []))) (\<lambda>_.
     bindE (assert_can_delete_user d caller u) (\<lambda>_.
     let orphaned = objects_solely_held_by d (row_id u) in
     bindE (ensure (orphaned = []) (ConflictError (Msg ''User is the sole {} of {} object(s); reassign before deleting them.''
         [AStrs (protected_names orphaned), ANat (length orphaned)]))) (\<lambda>_.
     let audited = user_snapshot d u in
     Inr (audit_user (snd (soft_delete_user d u (su_id caller))) caller ''user.delete'' user_id (Some audited) None))))))"

subsection \<open>Force-logout\<close>

definition force_logout_user_endpoint :: "bool \<Rightarrow> db \<Rightarrow> session_user \<Rightarrow> uuid \<Rightarrow> (uuid \<times> db) result" where
  "force_logout_user_endpoint redis_up d caller user_id =
     bindE (require_permission USERS_MANAGE_SESSIONS caller) (\<lambda>_.
     bindE (get_user d user_id) (\<lambda>u.
     bindE (revoke_sessions redis_up d (row_id u)) (\<lambda>d'.
     Inr (row_id u, audit_user d' caller ''user.force_logout'' (row_id u) None None))))"

definition force_logout_processor :: "bool \<Rightarrow> bool \<Rightarrow> session_user \<Rightarrow> db \<Rightarrow> uuid \<Rightarrow> (uuid \<times> db) result" where
  "force_logout_processor redis_up dry_run caller d user_id =
     bindE (get_user d user_id) (\<lambda>u.
     if dry_run then Inr (row_id u, d)
     else bindE (revoke_sessions redis_up d (row_id u)) (\<lambda>d'.
          Inr (row_id u, audit_user d' caller ''user.force_logout'' (row_id u) None None)))"

definition bulk_force_logout_endpoint ::
  "(error \<Rightarrow> problem_error_item list option) \<Rightarrow> bool \<Rightarrow> db \<Rightarrow> session_user \<Rightarrow> uuid bulk_request \<Rightarrow> uuid bulk_response result \<times> db" where
  "bulk_force_logout_endpoint items redis_up d caller payload =
     (case require_permission USERS_MANAGE_SESSIONS caller of Inl e \<Rightarrow> (Inl e, d)
      | Inr _ \<Rightarrow> apply_bulk db_rollback items (force_logout_processor redis_up (bq_dry_run payload) caller) d payload)"

subsection \<open>Account status\<close>

definition change_user_status_endpoint :: "bool \<Rightarrow> db \<Rightarrow> session_user \<Rightarrow> uuid \<Rightarrow> settable_user_status \<Rightarrow> (user \<times> db) result" where
  "change_user_status_endpoint redis_up d caller user_id status =
     bindE (require_permission USERS_UPDATE caller) (\<lambda>_.
     bindE (get_user d user_id) (\<lambda>u.
     bindE (ensure (su_id caller \<noteq> row_id u) (ForbiddenError (Msg ''Cannot change your own account status.'' []))) (\<lambda>_.
     bindE (assert_can_manage_status d caller u) (\<lambda>_.
     let before = user_snapshot d u in
     bindE (change_user_status d u status) (\<lambda>(u', d').
     let (diff_before, diff_after) = changed_fields before (user_snapshot d' u') in
     bindE (if status = SET_INACTIVE then revoke_sessions redis_up d' (row_id u') else Inr d') (\<lambda>d''.
     Inr (u', audit_user d'' caller ''user.status_change'' (row_id u') (Some diff_before) (Some diff_after))))))))"

definition status_processor ::
  "bool \<Rightarrow> bool \<Rightarrow> session_user \<Rightarrow> db \<Rightarrow> uuid \<times> settable_user_status \<Rightarrow> ((uuid \<times> settable_user_status) \<times> db) result" where
  "status_processor redis_up dry_run caller d = (\<lambda>(user_id, status).
     bindE (get_user d user_id) (\<lambda>u.
     bindE (ensure (su_id caller \<noteq> row_id u) (ForbiddenError (Msg ''Cannot change your own account status.'' []))) (\<lambda>_.
     bindE (assert_can_manage_status d caller u) (\<lambda>_.
     let before = user_snapshot d u in
     bindE (change_user_status d u status) (\<lambda>(u', d').
     if dry_run then Inr ((row_id u', status), d')
     else bindE (if status = SET_INACTIVE then revoke_sessions redis_up d' (row_id u') else Inr d') (\<lambda>d''.
          let (diff_before, diff_after) = changed_fields before (user_snapshot d'' u') in
          Inr ((row_id u', status),
            audit_user d'' caller ''user.status_change'' (row_id u') (Some diff_before) (Some diff_after))))))))"

definition bulk_change_user_status_endpoint ::
  "(error \<Rightarrow> problem_error_item list option) \<Rightarrow> bool \<Rightarrow> db \<Rightarrow> session_user \<Rightarrow> (uuid \<times> settable_user_status) bulk_request \<Rightarrow>
     (uuid \<times> settable_user_status) bulk_response result \<times> db" where
  "bulk_change_user_status_endpoint items redis_up d caller payload =
     (case require_permission USERS_UPDATE caller of Inl e \<Rightarrow> (Inl e, d)
      | Inr _ \<Rightarrow> apply_bulk db_rollback items (status_processor redis_up (bq_dry_run payload) caller) d payload)"

subsection \<open>Bulk requests and single requests\<close>

text \<open>What a preview may differ in: the audit trail, the supply of its keys, and the revocation markers.\<close>

definition same_accounts :: "db \<Rightarrow> db \<Rightarrow> bool" where
  "same_accounts d d' \<longleftrightarrow> users d' = users d \<and> roles d' = roles d \<and> user_roles d' = user_roles d \<and> now d' = now d"

lemma same_accounts_get:
  assumes "same_accounts d d'"
  shows "get_user d' = get_user d" "assert_can_manage_status d' = assert_can_manage_status d"
  using assms by (simp_all add: fun_eq_iff same_accounts_def get_user_def assert_can_manage_status_def blocked_elevated_roles_def
      user_live_roles_def)

lemma same_accounts_status:
  assumes "same_accounts d d'"
  shows "change_user_status d u s = Inl e \<longleftrightarrow> change_user_status d' u s = Inl e"
    and "change_user_status d u s = Inr (u', d1) \<Longrightarrow> \<exists>d2. change_user_status d' u s = Inr (u', d2) \<and> same_accounts d1 d2"
  using assms by (auto simp: change_user_status_def svc_simps Let_def same_accounts_def split: if_splits)

lemma same_accounts_audit [simp]:
  "same_accounts (audit_user (revoke_user_sessions d i) c a u b f) d' \<longleftrightarrow> same_accounts d d'"
  "same_accounts (audit_user d c a u b f) d' \<longleftrightarrow> same_accounts d d'"
  by (simp_all add: same_accounts_def audit_user_def revoke_user_sessions_def)

lemma status_processor_api:
  "status_processor True dry caller d x = Inl e \<Longrightarrow> is_api_error e"
  by (cases x) (auto simp: status_processor_def svc_simps get_user_def assert_can_manage_status_def Let_def
      change_user_status_def revoke_sessions_def split: if_splits prod.splits)

interpretation status_bulk: bulk_endpoint "status_processor True False caller" "status_processor True True caller" same_accounts
  for caller
proof unfold_locales
  fix s t :: db and x e assume sim: "same_accounts s t"
  show "status_processor True False caller s x = Inl e \<longleftrightarrow> status_processor True True caller t x = Inl e"
    using same_accounts_status(1) [OF sim]
    by (cases x) (auto simp: status_processor_def svc_simps same_accounts_get [OF sim] revoke_sessions_def Let_def case_prod_beta)
next
  fix s t s' :: db and x y
  assume sim: "same_accounts s t" and ok: "status_processor True False caller s x = Inr (y, s')"
  obtain i st where x: "x = (i, st)" by (cases x)
  from ok x obtain u u' d1 where u: "get_user s i = Inr u" "su_id caller \<noteq> row_id u" "assert_can_manage_status s caller u = Inr ()"
    and c: "change_user_status s u st = Inr (u', d1)" and y: "y = (row_id u', st)" and s': "same_accounts d1 s'"
    by (auto simp: status_processor_def svc_simps revoke_sessions_def Let_def same_accounts_def audit_user_def
        revoke_user_sessions_def case_prod_beta split: if_splits)
  obtain d2 where "change_user_status t u st = Inr (u', d2)" "same_accounts d1 d2"
    using same_accounts_status(2) [OF sim c] by blast
  then show "\<exists>t'. status_processor True True caller t x = Inr (y, t') \<and> same_accounts s' t'"
    using u y x s' by (auto simp: status_processor_def same_accounts_get [OF sim] same_accounts_def)
qed (rule status_processor_api)

lemma status_single:
  assumes "has_permission USERS_UPDATE (su_permissions caller)"
  shows "single (status_processor True False caller) d (i, st) =
    (case change_user_status_endpoint True d caller i st of Inr (_, d') \<Rightarrow> d' | Inl _ \<Rightarrow> d)"
proof -
  have snap: "user_snapshot (revoke_user_sessions d' j) u' = user_snapshot d' u'" for d' j u'
    by (simp add: user_snapshot_def revoke_user_sessions_def user_live_roles_def)
  show ?thesis
    using assms
    by (simp add: single_def status_processor_def change_user_status_endpoint_def require_permission_def ensure_def bindE_def
        revoke_sessions_def Let_def snap split: sum.split prod.split)
qed

lemma preview_keeps_markers:
  assumes "run_rows items (status_processor True True caller) d n rows = Inr (rs, d')"
  shows "revoked d' = revoked d"
  using assms
proof (induction rows arbitrary: d n rs)
  case (Cons row rows)
  have "revoked d1 = revoked d" if "status_processor True True caller d (br_data row) = Inr (y, d1)" for y d1
    using that by (cases "br_data row") (auto simp: status_processor_def svc_simps change_user_status_def Let_def split: if_splits)
  then show ?case using Cons by (fastforce split: sum.splits if_splits prod.splits)
qed simp

text \<open>C30: the bulk status change refines the single one.  With the session store up and a caller allowed to update accounts, a
  bulk request always answers, one outcome per row; it leaves exactly the database that sending each row to the
  single endpoint, one after the other, leaves (session revocations and audit rows included, refused rows without trace); and a dry run
  of it reports the same outcomes while the database, markers included, stays as it was.\<close>

theorem bulk_status_refines_single:
  assumes "has_permission USERS_UPDATE (su_permissions caller)"
  shows "\<exists>rs. bulk_change_user_status_endpoint items True d caller \<lparr>bq_rows = rows, bq_dry_run = False\<rparr> =
      (Inr (bulk_response_of \<lparr>bq_rows = rows, bq_dry_run = False\<rparr> rs),
       foldl (\<lambda>d row. case change_user_status_endpoint True d caller (fst (br_data row)) (snd (br_data row)) of
           Inr (_, d') \<Rightarrow> d' | Inl _ \<Rightarrow> d) d rows) \<and>
    length rs = length rows \<and>
    bulk_change_user_status_endpoint items True d caller \<lparr>bq_rows = rows, bq_dry_run = True\<rparr> =
      (Inr (bulk_response_of \<lparr>bq_rows = rows, bq_dry_run = True\<rparr> rs), d)"
proof -
  have perm: "require_permission USERS_UPDATE caller = Inr caller" using assms by (simp add: require_permission_def)
  let ?fin = "foldl (\<lambda>s row. single (status_processor True False caller) s (br_data row)) d rows"
  obtain rs where rs: "run_rows items (status_processor True False caller) d 0 rows = Inr (rs, ?fin)" "length rs = length rows"
    using status_bulk.run_rows_commits by blast
  obtain d' where d': "run_rows items (status_processor True True caller) d 0 rows = Inr (rs, d')"
    using status_bulk.preview_same_results [OF _ rs(1), of d] by (auto simp: same_accounts_def)
  have "?fin = foldl (\<lambda>d row. case change_user_status_endpoint True d caller (fst (br_data row)) (snd (br_data row)) of
      Inr (_, d') \<Rightarrow> d' | Inl _ \<Rightarrow> d) d rows"
    by (intro foldl_cong) (auto simp: status_single [OF assms, symmetric])
  moreover have "db_rollback d d' = d" using preview_keeps_markers [OF d'] by (simp add: db_rollback_def)
  ultimately show ?thesis
    using rs d' by (intro exI [of _ rs]) (simp add: bulk_change_user_status_endpoint_def perm apply_bulk_def)
qed

end
