(* ===== verification/Sessions.thy ===== *)
theory Sessions
  imports User_Routes Role_Service
begin

section \<open>Sessions: login, tokens, refresh, revocation\<close>

text \<open>
  \<open>app/core/auth/services/jwt.py\<close>, \<open>login.py\<close>, \<open>refresh.py\<close>, \<open>app/core/middleware/auth.py\<close> and the dependencies of
  \<open>auth/dependencies.py\<close>.  The JOSE library and Argon2 are not part of the repository: \<open>jwt\<close> bundles the library's
  signing (\<open>encode\<close>, with the deployment's secret), its signature check (\<open>decode\<close>) and its check of the registered
  claims (\<open>valid\<close>), and \<open>verify_password\<close> is the hash check.  What the theorems assume of the library is spelled out in
  \<open>jwt_sound\<close>: a signed token decodes to its claims, a token that decodes was signed, and an expired token is invalid.  The claim set
  is Python's dict, a missing or ill-typed entry being \<open>None\<close>.  The application clock is the transaction's.
\<close>

datatype permission_claim = PC_MISSING | PC_LIST "string list" | PC_MALFORMED

record claims =
  jc_sub :: "uuid option"
  jc_provider :: "string option"
  jc_email :: "string option"
  jc_email_verified :: bool
  jc_first_name :: "string option"
  jc_last_name :: "string option"
  jc_permissions :: permission_claim
  jc_typ :: "string option"
  jc_iat :: "timestamp option"
  jc_exp :: "timestamp option"
  jc_auth_time :: "timestamp option"

record jwt_library =
  jl_encode :: "claims \<Rightarrow> string"
  jl_decode :: "string \<Rightarrow> claims option"
  jl_valid :: "timestamp \<Rightarrow> claims \<Rightarrow> bool"

definition jwt_sound :: "jwt_library \<Rightarrow> bool" where
  "jwt_sound jwt \<longleftrightarrow> (\<forall>c. jl_decode jwt (jl_encode jwt c) = Some c) \<and>
     (\<forall>tok c. jl_decode jwt tok = Some c \<longrightarrow> tok = jl_encode jwt c) \<and>
     (\<forall>t c e. jl_valid jwt t c \<longrightarrow> jc_exp c = Some e \<longrightarrow> t \<le> e)"

record auth_config =
  ac_session_ttl_seconds :: int
  ac_refresh_token_ttl_seconds :: int
  ac_refresh_absolute_max_lifetime_seconds :: int
  ac_oidc_allowed_domains :: "string list"

text \<open>The startup check of \<open>Settings\<close> on the session lifetimes.\<close>

definition validate_refresh_lifetimes :: "auth_config \<Rightarrow> bool" where
  "validate_refresh_lifetimes cfg \<longleftrightarrow>
     \<not> ac_refresh_absolute_max_lifetime_seconds cfg \<le> ac_refresh_token_ttl_seconds cfg"

subsection \<open>Tokens\<close>

definition identity_claims :: "db \<Rightarrow> user \<Rightarrow> string \<Rightarrow> string \<Rightarrow> timestamp \<Rightarrow> timestamp option \<Rightarrow> claims" where
  "identity_claims d u provider typ expires auth_time =
     \<lparr>jc_sub = Some (row_id u), jc_provider = Some provider, jc_email = Some (u_email u),
      jc_email_verified = (u_email_verified_at u \<noteq> None), jc_first_name = u_first_name u, jc_last_name = u_last_name u,
      jc_permissions = PC_LIST (effective_permissions (user_live_roles d (row_id u))), jc_typ = Some typ, jc_iat = Some (now d), jc_exp = Some expires,
      jc_auth_time = auth_time\<rparr>"

definition encode_session_jwt :: "jwt_library \<Rightarrow> db \<Rightarrow> user \<Rightarrow> string \<Rightarrow> int \<Rightarrow> string \<times> int" where
  "encode_session_jwt jwt d u provider ttl_seconds =
     (jl_encode jwt (identity_claims d u provider ''access'' (now d + ttl_seconds) None), ttl_seconds)"

definition encode_refresh_jwt :: "jwt_library \<Rightarrow> db \<Rightarrow> user \<Rightarrow> string \<Rightarrow> int \<Rightarrow> timestamp option \<Rightarrow> string" where
  "encode_refresh_jwt jwt d u provider ttl_seconds auth_time =
     jl_encode jwt (identity_claims d u provider ''refresh'' (now d + ttl_seconds)
       (Some (case auth_time of None \<Rightarrow> now d | Some t \<Rightarrow> t)))"

definition decode_verified_claims :: "jwt_library \<Rightarrow> timestamp \<Rightarrow> string \<Rightarrow> claims option" where
  "decode_verified_claims jwt t token =
     (case jl_decode jwt token of None \<Rightarrow> None | Some c \<Rightarrow> if jl_valid jwt t c then Some c else None)"

definition session_user_from_claims :: "claims \<Rightarrow> session_user option" where
  "session_user_from_claims c =
     (case (jc_permissions c, jc_sub c, jc_provider c, jc_email c) of
        (PC_MALFORMED, _) \<Rightarrow> None
      | (p, Some sub, Some provider, Some email) \<Rightarrow>
          Some \<lparr>su_id = sub, su_permissions = (case p of PC_LIST ps \<Rightarrow> ps | _ \<Rightarrow> []), su_email = email,
            su_email_verified = jc_email_verified c, su_first_name = jc_first_name c, su_last_name = jc_last_name c,
            su_provider = provider, su_auth_time = jc_auth_time c, su_issued_at = jc_iat c\<rparr>
      | _ \<Rightarrow> None)"

definition decode_typed :: "string \<Rightarrow> jwt_library \<Rightarrow> timestamp \<Rightarrow> string \<Rightarrow> session_user option" where
  "decode_typed typ jwt t token =
     (case decode_verified_claims jwt t token of None \<Rightarrow> None
      | Some c \<Rightarrow> if jc_typ c \<noteq> Some typ then None else session_user_from_claims c)"

definition decode_session_jwt :: "jwt_library \<Rightarrow> timestamp \<Rightarrow> string \<Rightarrow> session_user option" where
  "decode_session_jwt jwt t token = decode_typed ''access'' jwt t token"

definition decode_refresh_jwt :: "jwt_library \<Rightarrow> timestamp \<Rightarrow> string \<Rightarrow> session_user option" where
  "decode_refresh_jwt jwt t token = decode_typed ''refresh'' jwt t token"

record token_response =
  tr_access_token :: string
  tr_refresh_token :: string
  tr_expires_in :: int

definition mint_token_pair :: "jwt_library \<Rightarrow> auth_config \<Rightarrow> db \<Rightarrow> user \<Rightarrow> string \<Rightarrow> timestamp option \<Rightarrow> token_response" where
  "mint_token_pair jwt cfg d u provider auth_time =
     (let (access_token, expires_in) = encode_session_jwt jwt d u provider (ac_session_ttl_seconds cfg)
      in \<lparr>tr_access_token = access_token,
          tr_refresh_token = encode_refresh_jwt jwt d u provider (ac_refresh_token_ttl_seconds cfg) auth_time,
          tr_expires_in = expires_in\<rparr>)"

subsection \<open>Login and refresh\<close>

definition authenticate_credentials :: "(string \<Rightarrow> string \<Rightarrow> bool) \<Rightarrow> db \<Rightarrow> string \<Rightarrow> string \<Rightarrow> user result" where
  "authenticate_credentials verify_password d email password =
     (let invalid = UnauthorizedError (Msg ''Invalid email or password.'' []) in
      bindE (ensure (length password \<le> MAX_PASSWORD_LENGTH) invalid) (\<lambda>_.
      bindE (the_or invalid (get_user_by_email d email)) (\<lambda>u.
      bindE (ensure (u_status u = USER_ACTIVE) invalid) (\<lambda>_.
      bindE (the_or invalid (u_password u)) (\<lambda>hashed.
      bindE (ensure (verify_password password hashed) invalid) (\<lambda>_.
      Inr u))))))"

definition login :: "jwt_library \<Rightarrow> auth_config \<Rightarrow> (string \<Rightarrow> string \<Rightarrow> bool) \<Rightarrow> db \<Rightarrow> string \<Rightarrow> string \<Rightarrow> token_response result" where
  "login jwt cfg verify_password d email password =
     bindE (authenticate_credentials verify_password d email password) (\<lambda>u.
     Inr (mint_token_pair jwt cfg d u ''local'' None))"

text \<open>\<open>email.rpartition("@")[2].lower()\<close>.\<close>

definition email_domain :: "string \<Rightarrow> string" where
  "email_domain email = casefold (rev (takeWhile (\<lambda>c. c \<noteq> CHR ''@'') (rev email)))"

definition refresh_session :: "jwt_library \<Rightarrow> auth_config \<Rightarrow> bool \<Rightarrow> db \<Rightarrow> string \<Rightarrow> token_response result" where
  "refresh_session jwt cfg redis_up d refresh_token =
     (let invalid = UnauthorizedError (Msg ''Invalid or expired refresh token.'' []) in
      bindE (the_or invalid (decode_refresh_jwt jwt (now d) refresh_token)) (\<lambda>identity.
      bindE (case is_revoked (ac_refresh_absolute_max_lifetime_seconds cfg) redis_up d (su_id identity) (su_issued_at identity) False of
               Inl _ \<Rightarrow> Inl (ServiceUnavailableError (Msg ''Session store unavailable; please retry.'' []))
             | Inr r \<Rightarrow> Inr r) (\<lambda>revoked.
      bindE (ensure (\<not> revoked) invalid) (\<lambda>_.
      let auth_time = (case su_auth_time identity of None \<Rightarrow> now d | Some t \<Rightarrow> t) in
      bindE (ensure (\<not> ac_refresh_absolute_max_lifetime_seconds cfg < now d - auth_time) invalid) (\<lambda>_.
      bindE (case get_user d (su_id identity) of Inl _ \<Rightarrow> Inl invalid | Inr u \<Rightarrow> Inr u) (\<lambda>u.
      bindE (ensure (u_status u = USER_ACTIVE) invalid) (\<lambda>_.
      bindE (ensure (\<not> (su_provider identity \<noteq> ''local'' \<and> ac_oidc_allowed_domains cfg \<noteq> [] \<and>
                        email_domain (u_email u) \<notin> set (ac_oidc_allowed_domains cfg))) invalid) (\<lambda>_.
      Inr (mint_token_pair jwt cfg d u (su_provider identity) (Some auth_time))))))))))"

subsection \<open>The identity of a request\<close>

definition bearer_token :: "string \<Rightarrow> string option" where
  "bearer_token header =
     (let scheme = takeWhile (\<lambda>c. c \<noteq> CHR '' '') header; token = drop (Suc (length scheme)) header
      in if casefold scheme = ''bearer'' \<and> token \<noteq> [] then Some token else None)"

definition auth_dispatch :: "jwt_library \<Rightarrow> auth_config \<Rightarrow> bool \<Rightarrow> db \<Rightarrow> string \<Rightarrow> session_user option" where
  "auth_dispatch jwt cfg redis_up d header =
     (case bearer_token header of None \<Rightarrow> None
      | Some token \<Rightarrow>
          (case decode_session_jwt jwt (now d) token of None \<Rightarrow> None
           | Some u \<Rightarrow>
               (case is_revoked (ac_refresh_absolute_max_lifetime_seconds cfg) redis_up d (su_id u) (su_issued_at u) True of
                  Inr False \<Rightarrow> Some u | _ \<Rightarrow> None)))"

definition CONSENT_EXEMPT_ENDPOINTS :: "string list" where
  "CONSENT_EXEMPT_ENDPOINTS = [''me'', ''accept_terms_endpoint'', ''get_terms_endpoint'']"

definition current_user :: "db \<Rightarrow> string \<Rightarrow> session_user option \<Rightarrow> session_user result" where
  "current_user d route_name state_user =
     bindE (the_or (UnauthorizedError (Msg ''not authenticated'' [])) state_user) (\<lambda>u.
     if route_name \<in> set CONSENT_EXEMPT_ENDPOINTS then Inr u
     else bindE (ensure (\<not> acceptance_required_for d (su_id u))
            (ForbiddenError (Msg ''Accept the current terms of service to continue.'' []))) (\<lambda>_. Inr u))"

subsection \<open>Sessions end\<close>

text \<open>A session: the refresh tokens that one login and then any number of rotations hand out, at any states of the database.\<close>

inductive session_chain :: "jwt_library \<Rightarrow> auth_config \<Rightarrow> (string \<Rightarrow> string \<Rightarrow> bool) \<Rightarrow> timestamp \<Rightarrow> string \<Rightarrow> bool"
  for jwt cfg verify_password where
  login: "login jwt cfg verify_password d email pw = Inr pair \<Longrightarrow>
    session_chain jwt cfg verify_password (now d) (tr_refresh_token pair)"
| rotate: "session_chain jwt cfg verify_password t tok \<Longrightarrow> refresh_session jwt cfg redis_up d tok = Inr pair \<Longrightarrow>
    session_chain jwt cfg verify_password t (tr_refresh_token pair)"

lemma decode_minted:
  assumes "jwt_sound jwt"
  shows "decode_typed typ jwt t (jl_encode jwt (identity_claims d u prov ty ex au)) =
    (if jl_valid jwt t (identity_claims d u prov ty ex au) \<and> ty = typ
     then session_user_from_claims (identity_claims d u prov ty ex au) else None)"
  using assms by (auto simp: decode_typed_def decode_verified_claims_def jwt_sound_def identity_claims_def)

lemma identity_user:
  "session_user_from_claims (identity_claims d u prov ty ex au) =
     Some \<lparr>su_id = row_id u, su_permissions = effective_permissions (user_live_roles d (row_id u)), su_email = u_email u,
       su_email_verified = (u_email_verified_at u \<noteq> None), su_first_name = u_first_name u, su_last_name = u_last_name u,
       su_provider = prov, su_auth_time = au, su_issued_at = Some (now d)\<rparr>"
  by (simp add: session_user_from_claims_def identity_claims_def)

lemma translated_Inr [svc_simps]: "(case m of Inl _ \<Rightarrow> Inl e | Inr r \<Rightarrow> Inr r) = Inr x \<longleftrightarrow> m = Inr x"
  by (cases m) auto

lemma refresh_session_Inr:
  assumes "refresh_session jwt cfg redis_up d tok = Inr pair"
  obtains identity u where "decode_refresh_jwt jwt (now d) tok = Some identity"
    "is_revoked (ac_refresh_absolute_max_lifetime_seconds cfg) redis_up d (su_id identity) (su_issued_at identity) False = Inr False"
    "now d - (case su_auth_time identity of None \<Rightarrow> now d | Some t \<Rightarrow> t) \<le> ac_refresh_absolute_max_lifetime_seconds cfg"
    "get_user d (su_id identity) = Inr u" "u_status u = USER_ACTIVE"
    "pair = mint_token_pair jwt cfg d u (su_provider identity)
       (Some (case su_auth_time identity of None \<Rightarrow> now d | Some t \<Rightarrow> t))"
  using assms by (auto simp: refresh_session_def Let_def svc_simps)

text \<open>Every refresh token of a session carries the time of its login.\<close>

lemma session_chain_auth_time:
  assumes "session_chain jwt cfg vp t tok" "jwt_sound jwt" "decode_refresh_jwt jwt s tok = Some identity"
  shows "su_auth_time identity = Some t"
  using assms
proof (induction arbitrary: s identity rule: session_chain.induct)
  case (login d email pw pair)
  then show ?case
    by (auto simp: login_def svc_simps mint_token_pair_def encode_session_jwt_def encode_refresh_jwt_def decode_refresh_jwt_def
        decode_minted identity_user split: if_splits)
next
  case (rotate t tok redis_up d pair)
  from rotate(2) obtain i u where i: "decode_refresh_jwt jwt (now d) tok = Some i"
    and pair: "pair = mint_token_pair jwt cfg d u (su_provider i) (Some (case su_auth_time i of None \<Rightarrow> now d | Some t \<Rightarrow> t))"
    by (rule refresh_session_Inr)
  have "su_auth_time i = Some t" using rotate.IH [OF rotate.prems(1) i] .
  then show ?case
    using rotate.prems pair
    by (auto simp: mint_token_pair_def encode_session_jwt_def encode_refresh_jwt_def decode_refresh_jwt_def decode_minted identity_user
        split: if_splits)
qed


subsection \<open>Revocation is final\<close>

text \<open>A later state: time has passed, and markers were only overwritten by later ones.\<close>

definition later :: "db \<Rightarrow> db \<Rightarrow> bool" where
  "later d d' \<longleftrightarrow> now d \<le> now d' \<and> (\<forall>u m. revoked d u = Some m \<longrightarrow> (\<exists>m'. revoked d' u = Some m' \<and> m \<le> m'))"

lemma logout_marks:
  "force_logout_user_endpoint True d caller i = Inr (j, d1) \<Longrightarrow> revoked d1 i = Some (now d1)"
  by (auto simp: force_logout_user_endpoint_def svc_simps revoke_sessions_def revoke_user_sessions_def audit_user_def get_user_def
      dest!: live_by_id_SomeD)

lemma now_change_user_status: "change_user_status d u st = Inr (u', d1) \<Longrightarrow> now d1 = now d \<and> row_id u' = row_id u"
  by (auto simp: change_user_status_def svc_simps Let_def split: if_splits)

lemma deactivation_marks:
  assumes "change_user_status_endpoint True d caller i SET_INACTIVE = Inr (x, d1)"
  shows "revoked d1 i = Some (now d1)"
proof -
  from assms obtain u d2 a b where "get_user d i = Inr u" "change_user_status d u SET_INACTIVE = Inr (x, d2)"
    "d1 = audit_user (revoke_user_sessions d2 (row_id x)) caller ''user.status_change'' (row_id x) a b"
    by (auto simp: change_user_status_endpoint_def svc_simps revoke_sessions_def Let_def case_prod_beta)
  then show ?thesis
    using now_change_user_status by (auto simp: audit_user_def revoke_user_sessions_def get_user_def dest!: live_by_id_SomeD)
qed

text \<open>A token that was minted up to the marker is dead as long as the marker stands, and has expired when it falls.\<close>

lemma dead_token:
  assumes "jwt_sound jwt" "revoked d u = Some m" "iat \<le> m" "jl_valid jwt (now d) c" "jc_exp c = Some (iat + ttl)" "ttl < life"
  shows "is_revoked life up d u (Some iat) fo = (if up then Inr True else if fo then Inr False else Inl RedisError)"
proof -
  have "now d \<le> iat + ttl" using assms(1,4,5) unfolding jwt_sound_def by blast
  then show ?thesis using assms(2,3,6) by (simp add: is_revoked_def marker_def)
qed

lemma dead_access:
  assumes "jwt_sound jwt" "pair = mint_token_pair jwt cfg d u prov au" "revoked d2 (row_id u) = Some m" "now d \<le> m"
    "ac_session_ttl_seconds cfg < ac_refresh_absolute_max_lifetime_seconds cfg" "bearer_token header = Some (tr_access_token pair)"
  shows "auth_dispatch jwt cfg True d2 header = None"
proof (cases "decode_session_jwt jwt (now d2) (tr_access_token pair)")
  case (Some su)
  let ?c = "identity_claims d u prov ''access'' (now d + ac_session_ttl_seconds cfg) None"
  have acc: "tr_access_token pair = jl_encode jwt ?c" by (simp add: assms(2) mint_token_pair_def encode_session_jwt_def)
  have v: "jl_valid jwt (now d2) ?c" "su_id su = row_id u" "su_issued_at su = Some (now d)"
    using Some by (auto simp: acc decode_session_jwt_def decode_minted [OF assms(1)] identity_user split: if_splits)
  have "is_revoked (ac_refresh_absolute_max_lifetime_seconds cfg) True d2 (row_id u) (Some (now d)) True = Inr True"
    using dead_token [OF assms(1,3,4) v(1) _ assms(5), of True True] by (simp add: identity_claims_def)
  then show ?thesis using Some v(2,3) assms(6) by (simp add: auth_dispatch_def)
qed (use assms(6) in \<open>simp add: auth_dispatch_def\<close>)

lemma dead_refresh:
  assumes "jwt_sound jwt" "pair = mint_token_pair jwt cfg d u prov au" "revoked d2 (row_id u) = Some m" "now d \<le> m"
    "validate_refresh_lifetimes cfg"
  shows "refresh_session jwt cfg up d2 (tr_refresh_token pair) \<noteq> Inr p"
proof
  assume "refresh_session jwt cfg up d2 (tr_refresh_token pair) = Inr p"
  then show False
  proof (rule refresh_session_Inr)
    fix su assume su: "decode_refresh_jwt jwt (now d2) (tr_refresh_token pair) = Some su"
      and nr: "is_revoked (ac_refresh_absolute_max_lifetime_seconds cfg) up d2 (su_id su) (su_issued_at su) False = Inr False"
    let ?c = "identity_claims d u prov ''refresh'' (now d + ac_refresh_token_ttl_seconds cfg)
        (Some (case au of None \<Rightarrow> now d | Some t \<Rightarrow> t))"
    have ref: "tr_refresh_token pair = jl_encode jwt ?c"
      by (simp add: assms(2) mint_token_pair_def encode_session_jwt_def encode_refresh_jwt_def)
    have v: "jl_valid jwt (now d2) ?c" "su_id su = row_id u" "su_issued_at su = Some (now d)"
      using su by (auto simp: ref decode_refresh_jwt_def decode_minted [OF assms(1)] identity_user split: if_splits)
    have "ac_refresh_token_ttl_seconds cfg < ac_refresh_absolute_max_lifetime_seconds cfg"
      using assms(5) by (simp add: validate_refresh_lifetimes_def)
    from dead_token [OF assms(1,3,4) v(1) _ this, of up False] nr v(2,3) show False
      by (simp add: identity_claims_def split: if_splits)
  qed
qed


end
