(* ===== verification/Tokens.thy ===== *)
theory Tokens
  imports Sessions
begin

section \<open>Single-use link tokens\<close>

text \<open>
  \<open>app/core/auth/services/tokens.py\<close> and the contract its three clients share (invitations, email verifications, password
  resets).  Argon2, SHA-256 and the random token source are outside the repository: \<open>secrets\<close> bundles the password hash and its check,
  the token digest, the fresh raw token drawn for the row with a given key, and the password denylist.  What the theorems need of them
  (no two raw tokens collide under the digest) is the hypothesis \<open>tokens_sound\<close>.

  The locale \<open>token_table\<close> is the contract: a table of tokens with an owner (the account, or the account and the scope of an
  invitation), a digest and a status.  A request either closes pending rows or revokes the owner's pending rows and
  appends one fresh pending row (\<open>evolves\<close>).  Proved once: keys and digests stay sound, an owner has at most one pending token, a
  closed token never changes again, and a link finds its own row.
\<close>

record secrets =
  se_hash_password :: "string \<Rightarrow> string"
  se_verify_password :: "string \<Rightarrow> string \<Rightarrow> bool"
  se_hash_token :: "string \<Rightarrow> string"
  se_raw_token :: "uuid \<Rightarrow> string"
  se_denylist :: "string list"

definition tokens_sound :: "secrets \<Rightarrow> bool" where
  "tokens_sound sec \<longleftrightarrow> inj (\<lambda>i. se_hash_token sec (se_raw_token sec i))"

definition project_expired :: "timestamp \<Rightarrow> 's \<Rightarrow> timestamp \<Rightarrow> 's \<Rightarrow> 's \<Rightarrow> 's" where
  "project_expired t status expires_at pending expired = (if status = pending \<and> expires_at \<le> t then expired else status)"

lemma project_expired_pending:
  "pending \<noteq> expired \<Longrightarrow> project_expired t s x pending expired = pending \<longleftrightarrow> s = pending \<and> t < x"
  by (auto simp: project_expired_def)

lemma project_expired_closed: "s \<noteq> pending \<Longrightarrow> project_expired t s x pending expired = s"
  by (simp add: project_expired_def)

locale token_table =
  fixes owner :: "'a base_scheme \<Rightarrow> 'k" and digest :: "'a base_scheme \<Rightarrow> string"
    and status :: "'a base_scheme \<Rightarrow> 's" and pending :: 's
    and revoke :: "timestamp \<Rightarrow> 'a base_scheme \<Rightarrow> 'a base_scheme" and consume :: "timestamp \<Rightarrow> 'a base_scheme \<Rightarrow> 'a base_scheme"
  assumes revoke_keeps: "row_id (revoke t r) = row_id r" "created_at (revoke t r) = created_at r"
      "deleted_at (revoke t r) = deleted_at r" "owner (revoke t r) = owner r" "digest (revoke t r) = digest r"
    and consume_keeps: "row_id (consume t r) = row_id r" "created_at (consume t r) = created_at r"
      "deleted_at (consume t r) = deleted_at r" "owner (consume t r) = owner r" "digest (consume t r) = digest r"
    and closed: "status (revoke t r) \<noteq> pending" "status (consume t r) \<noteq> pending"
begin

definition token_ok :: "secrets \<Rightarrow> timestamp \<Rightarrow> 'a base_scheme \<Rightarrow> bool" where
  "token_ok sec t r \<longleftrightarrow> deleted_at r = None \<and> created_at r \<le> t \<and> digest r = se_hash_token sec (se_raw_token sec (row_id r))"

definition tokens_ok :: "secrets \<Rightarrow> uuid \<Rightarrow> timestamp \<Rightarrow> 'a base_scheme list \<Rightarrow> bool" where
  "tokens_ok sec n t tbl \<longleftrightarrow> keys_ok n tbl \<and> (\<forall>r\<in>set tbl. token_ok sec t r) \<and>
     (\<forall>r\<in>set tbl. \<forall>s\<in>set tbl. status r = pending \<longrightarrow> status s = pending \<longrightarrow> owner r = owner s \<longrightarrow> r = s)"

text \<open>A row is kept, or a pending row is closed.\<close>

definition closes :: "'a base_scheme \<Rightarrow> 'a base_scheme \<Rightarrow> bool" where
  "closes r r' \<longleftrightarrow> r' = r \<or> (status r = pending \<and> status r' \<noteq> pending \<and> row_id r' = row_id r \<and> created_at r' = created_at r \<and>
     deleted_at r' = deleted_at r \<and> owner r' = owner r \<and> digest r' = digest r)"

definition advances :: "'a base_scheme list \<Rightarrow> 'a base_scheme list \<Rightarrow> bool" where
  "advances tbl tbl' \<longleftrightarrow> (\<exists>f. tbl' = map f tbl \<and> (\<forall>r\<in>set tbl. closes r (f r)))"

definition evolves :: "secrets \<Rightarrow> uuid \<Rightarrow> timestamp \<Rightarrow> 'a base_scheme list \<Rightarrow> uuid \<Rightarrow> timestamp \<Rightarrow> 'a base_scheme list \<Rightarrow> bool" where
  "evolves sec n t tbl n' t' tbl' \<longleftrightarrow> n \<le> n' \<and> t \<le> t' \<and>
     (advances tbl tbl' \<or>
      (\<exists>mid new. advances tbl mid \<and> (\<forall>r\<in>set mid. owner r = owner new \<longrightarrow> status r \<noteq> pending) \<and>
         tbl' = mid @ [new] \<and> token_ok sec t' new \<and> n \<le> row_id new \<and> row_id new < n'))"

lemma closes_revoke: "status r = pending \<Longrightarrow> closes r (revoke t r)"
  by (simp add: closes_def revoke_keeps closed)

lemma closes_consume: "status r = pending \<Longrightarrow> closes r (consume t r)"
  by (simp add: closes_def consume_keeps closed)

lemma closes_refl [simp]: "closes r r"
  by (simp add: closes_def)

lemma advances_refl [simp]: "advances tbl tbl"
  unfolding advances_def by (rule exI [of _ id]) simp

lemma advances_live_update:
  assumes "\<And>r. r \<in> set tbl \<Longrightarrow> P r \<Longrightarrow> closes r (f r)"
  shows "advances tbl (live_update P f tbl)"
proof -
  have "closes r (if deleted_at r = None \<and> P r then f r else r)" if "r \<in> set tbl" for r
    using assms [OF that] by simp
  then show ?thesis unfolding advances_def live_update_def by blast
qed

lemma advances_save_row:
  assumes "distinct (map row_id tbl)" "r \<in> set tbl" "closes r r'"
  shows "advances tbl (save_row r' tbl)"
proof -
  have "closes x (if row_id x = row_id r' then r' else x)" if "x \<in> set tbl" for x
    using that assms distinct_map_same [OF assms(1), of x r] by (auto simp: closes_def)
  then show ?thesis unfolding advances_def save_row_def by blast
qed

lemma closes_trans: "closes r s \<Longrightarrow> closes s u \<Longrightarrow> closes r u"
  by (auto simp: closes_def)

lemma advances_trans:
  assumes "advances a b" "advances b c"
  shows "advances a c"
proof -
  from assms obtain f g where f: "b = map f a" "\<forall>r\<in>set a. closes r (f r)" and g: "c = map g b" "\<forall>r\<in>set b. closes r (g r)"
    unfolding advances_def by blast
  then have "c = map (g \<circ> f) a" "\<forall>r\<in>set a. closes r ((g \<circ> f) r)" by (auto intro: closes_trans)
  then show ?thesis unfolding advances_def by blast
qed

lemma closes_row_id: "closes r r' \<Longrightarrow> row_id r' = row_id r"
  by (auto simp: closes_def)

lemma closes_pending: "closes r r' \<Longrightarrow> status r' = pending \<Longrightarrow> r' = r"
  by (auto simp: closes_def)

lemma closes_closed: "closes r r' \<Longrightarrow> status r \<noteq> pending \<Longrightarrow> r' = r"
  by (auto simp: closes_def)

lemma advances_keys: "advances tbl tbl' \<Longrightarrow> map row_id tbl' = map row_id tbl"
  unfolding advances_def using closes_row_id by fastforce

lemma advances_pending: "advances tbl tbl' \<Longrightarrow> r' \<in> set tbl' \<Longrightarrow> status r' = pending \<Longrightarrow> r' \<in> set tbl"
  unfolding advances_def using closes_pending by fastforce

lemma advances_closed:
  assumes "advances tbl tbl'" "r \<in> set tbl" "status r \<noteq> pending"
  shows "r \<in> set tbl'"
proof -
  obtain f where "tbl' = map f tbl" "closes r (f r)" using assms(1,2) unfolding advances_def by blast
  then show ?thesis using closes_closed assms(2,3) by (metis image_eqI image_set)
qed

lemma advances_tokens_ok:
  assumes a: "advances tbl tbl'" and ok: "tokens_ok sec n t tbl" and "n \<le> n'" "t \<le> t'"
  shows "tokens_ok sec n' t' tbl'"
proof -
  obtain f where f: "tbl' = map f tbl" "\<forall>r\<in>set tbl. closes r (f r)" using a unfolding advances_def by blast
  have tok: "\<forall>r\<in>set tbl. token_ok sec t r" and keys: "keys_ok n tbl" using ok by (simp_all add: tokens_ok_def)
  have "token_ok sec t' (f r)" if "r \<in> set tbl" for r
  proof -
    have "token_ok sec t r" "closes r (f r)" using that tok f(2) by auto
    then show ?thesis using assms(4) by (auto simp: closes_def token_ok_def)
  qed
  then have "\<forall>r\<in>set tbl'. token_ok sec t' r" using f(1) by auto
  moreover have "keys_ok n' tbl'"
  proof -
    have "row_id ` set tbl' = row_id ` set tbl" using arg_cong [OF advances_keys [OF a], of set] by simp
    then have "\<forall>r\<in>set tbl'. row_id r < n'" using keys assms(3) unfolding keys_ok_def
      by (metis (no_types, lifting) image_iff less_le_trans)
    then show ?thesis using keys advances_keys [OF a] by (simp add: keys_ok_def)
  qed
  moreover have "r = s" if "r \<in> set tbl'" "s \<in> set tbl'" "status r = pending" "status s = pending" "owner r = owner s" for r s
    using that advances_pending [OF a] ok unfolding tokens_ok_def by blast
  ultimately show ?thesis unfolding tokens_ok_def by blast
qed

lemma evolves_tokens_ok:
  assumes e: "evolves sec n t tbl n' t' tbl'" and ok: "tokens_ok sec n t tbl"
  shows "tokens_ok sec n' t' tbl'"
proof (cases "advances tbl tbl'")
  case True
  then show ?thesis using advances_tokens_ok ok e by (simp add: evolves_def)
next
  case False
  then obtain mid new where m: "advances tbl mid" "\<forall>r\<in>set mid. owner r = owner new \<longrightarrow> status r \<noteq> pending" "tbl' = mid @ [new]"
    "token_ok sec t' new" "n \<le> row_id new" "row_id new < n'" and le: "n \<le> n'" "t \<le> t'"
    using e by (auto simp: evolves_def)
  have ok': "tokens_ok sec n t' mid" using advances_tokens_ok [OF m(1) ok] le by simp
  then have k: "keys_ok n mid" by (simp add: tokens_ok_def)
  then have "row_id new \<notin> row_id ` set mid" using m(5) by (auto simp: keys_ok_def)
  then have "keys_ok n' (mid @ [new])" using k m(6) le by (auto simp: keys_ok_def)
  moreover have "\<forall>r\<in>set (mid @ [new]). token_ok sec t' r" using ok' m(4) by (auto simp: tokens_ok_def)
  moreover have "\<forall>r\<in>set (mid @ [new]). \<forall>s\<in>set (mid @ [new]).
      status r = pending \<longrightarrow> status s = pending \<longrightarrow> owner r = owner s \<longrightarrow> r = s"
    using ok' m(2) unfolding tokens_ok_def set_append list.set by (metis (no_types, lifting) Un_iff empty_iff insert_iff)
  ultimately show ?thesis unfolding m(3) tokens_ok_def by blast
qed

lemma evolves_closed: "evolves sec n t tbl n' t' tbl' \<Longrightarrow> r \<in> set tbl \<Longrightarrow> status r \<noteq> pending \<Longrightarrow> r \<in> set tbl'"
  unfolding evolves_def by (elim conjE disjE exE) (auto dest: advances_closed)

text \<open>A link finds the row it was issued for.\<close>

lemma find_by_link:
  assumes "tokens_sound sec" "tokens_ok sec n t tbl" "r \<in> set tbl" "se_hash_token sec raw = digest r"
  shows "List.find (\<lambda>x. digest x = se_hash_token sec raw) (live_select tbl) = Some r"
proof -
  have tok: "\<forall>x\<in>set tbl. token_ok sec t x" and "distinct (map row_id tbl)" using assms(2) by (simp_all add: tokens_ok_def keys_ok_def)
  then have d: "distinct (map row_id (live_select tbl))" by (simp add: live_select_def distinct_map_filter)
  obtain x where x: "List.find (\<lambda>x. digest x = se_hash_token sec raw) (live_select tbl) = Some x"
    using find_ex [of r "live_select tbl"] assms(3,4) tok by (fastforce simp: token_ok_def)
  then have "x \<in> set tbl" "digest x = digest r" using find_SomeD [OF x] assms(4) by auto
  then have "row_id x = row_id r" using assms(1,3) tok by (auto simp: token_ok_def tokens_sound_def inj_def)
  with \<open>x \<in> set tbl\<close> assms(3) have "x = r" using distinct_map_same \<open>distinct (map row_id tbl)\<close> by metis
  with x show ?thesis by simp
qed

lemma evolves_kept: "n \<le> n' \<Longrightarrow> t \<le> t' \<Longrightarrow> evolves sec n t tbl n' t' tbl"
  by (simp add: evolves_def)

text \<open>The two moves of a request: re-issue within a scope, and consume.\<close>

lemma evolves_issue:
  assumes "tokens_ok sec n t tbl" "n \<le> row_id new" "row_id new < n'" "t \<le> t'" "token_ok sec t' new"
    and "\<And>r. P r \<Longrightarrow> status r = pending" "\<And>r. owner r = owner new \<Longrightarrow> status r = pending \<Longrightarrow> P r"
  shows "evolves sec n t tbl n' t' (live_update P (revoke s) tbl @ [new])"
proof -
  have "advances tbl (live_update P (revoke s) tbl)" using assms(6) by (intro advances_live_update closes_revoke)
  moreover have "status (if deleted_at x = None \<and> P x then revoke s x else x) \<noteq> pending"
    if "x \<in> set tbl" "owner (if deleted_at x = None \<and> P x then revoke s x else x) = owner new" for x
  proof -
    have "deleted_at x = None" using that(1) assms(1) by (simp add: tokens_ok_def token_ok_def)
    then show ?thesis using that(2) assms(7) [of x] by (cases "P x") (auto simp: closed revoke_keeps)
  qed
  then have "\<forall>r\<in>set (live_update P (revoke s) tbl). owner r = owner new \<longrightarrow> status r \<noteq> pending"
    unfolding live_update_def by (metis (no_types, lifting) imageE image_set)
  ultimately show ?thesis using assms(2-5) unfolding evolves_def by force
qed

lemma evolves_revoke:
  assumes "n \<le> n'" "t \<le> t'" "\<And>r. P r \<Longrightarrow> status r = pending"
  shows "evolves sec n t tbl n' t' (live_update P (revoke s) tbl)"
  using assms(1,2) advances_live_update [of tbl P "revoke s"] closes_revoke assms(3) unfolding evolves_def by blast

lemma evolves_consume:
  assumes "tokens_ok sec n t tbl" "r \<in> set tbl" "status r = pending" "n \<le> n'" "t \<le> t'"
  shows "evolves sec n t tbl n' t' (save_row (consume s r) tbl)"
proof -
  have "distinct (map row_id tbl)" using assms(1) by (simp add: tokens_ok_def keys_ok_def)
  then show ?thesis using advances_save_row [OF _ assms(2) closes_consume] assms(3-5) unfolding evolves_def by blast
qed

end

end
