(* ===== verification/Onboarding.thy ===== *)
theory Onboarding
  imports Tokens
begin

section \<open>Invitations and self-signup\<close>

text \<open>
  \<open>app/core/auth/services/invitations.py\<close>, \<open>registration.py\<close>, \<open>app/core/evaluations/services/group_invitations.py\<close> and the routes
  that call them.  A request is one atomic step, so the re-reads under a row lock find what the first read found, and the race on the
  unique index of \<open>users.email\<close> (an insert after a lookup that found nothing) cannot happen; the re-checks themselves are kept.
  The scope of an invitation is the platform (\<open>None\<close>) or one object.
\<close>

subsection \<open>Invitations\<close>

definition role_label :: "role \<Rightarrow> string" where
  "role_label r = (case r_display_name r of None \<Rightarrow> r_name r | Some n \<Rightarrow> if n = [] then r_name r else n)"

definition user_display_name :: "user \<Rightarrow> string" where
  "user_display_name u =
     (let parts = filter (\<lambda>s. s \<noteq> []) (List.map_filter id [u_first_name u, u_last_name u])
      in case parts of [] \<Rightarrow> u_email u | [p] \<Rightarrow> p | p # q # _ \<Rightarrow> p @ '' '' @ q)"

fun in_scope :: "(object_type \<times> uuid) option \<Rightarrow> invitation \<Rightarrow> bool" where
  "in_scope None i \<longleftrightarrow> iv_object_type i = None"
| "in_scope (Some (t, x)) i \<longleftrightarrow> iv_object_type i = Some t \<and> iv_object_id i = Some x"

definition pending_in_scope :: "uuid \<Rightarrow> (object_type \<times> uuid) option \<Rightarrow> invitation \<Rightarrow> bool" where
  "pending_in_scope user_id scope i \<longleftrightarrow> iv_user_id i = user_id \<and> iv_status i = INV_PENDING \<and> in_scope scope i"

definition revoke_pending_invitations :: "db \<Rightarrow> uuid \<Rightarrow> (object_type \<times> uuid) option \<Rightarrow> nat \<times> db" where
  "revoke_pending_invitations d user_id scope =
     (length (filter (pending_in_scope user_id scope) (live_select (invitations d))),
      d\<lparr>invitations := live_update (pending_in_scope user_id scope)
          (\<lambda>i. i\<lparr>iv_status := INV_REVOKED, iv_revoked_at := Some (now d)\<rparr>) (invitations d)\<rparr>)"

definition revoke_platform_invitation :: "db \<Rightarrow> user \<Rightarrow> db result" where
  "revoke_platform_invitation d u =
     (let (n, d') = revoke_pending_invitations d (row_id u) None in
      bindE (ensure (n \<noteq> 0) (NotFoundError (Msg ''User has no pending invitation.'' []))) (\<lambda>_. Inr d'))"

definition accept_pending_invitations :: "db \<Rightarrow> uuid \<Rightarrow> db" where
  "accept_pending_invitations d user_id =
     d\<lparr>invitations := live_update (\<lambda>i. iv_user_id i = user_id \<and> iv_status i = INV_PENDING \<and>
            project_expired (now d) (iv_status i) (iv_expires_at i) INV_PENDING INV_EXPIRED = INV_PENDING)
          (\<lambda>i. i\<lparr>iv_status := INV_ACCEPTED, iv_accepted_at := Some (now d)\<rparr>) (invitations d)\<rparr>"

definition roles_match :: "db \<Rightarrow> user \<Rightarrow> uuid list \<Rightarrow> bool" where
  "roles_match d u role_ids \<longleftrightarrow> row_id ` set (user_live_roles d (row_id u)) = set role_ids"

definition new_invitation :: "secrets \<Rightarrow> env_defaults \<Rightarrow> db \<Rightarrow> uuid \<Rightarrow> uuid option \<Rightarrow> (object_type \<times> uuid) option \<Rightarrow> invitation" where
  "new_invitation sec env d user_id invited_by scope =
     \<lparr>row_id = next_id d, created_at = now d, deleted_at = None, deleted_by_id = None, iv_user_id = user_id,
      iv_token_hash = se_hash_token sec (se_raw_token sec (next_id d)),
      iv_expires_at = now d + env_invitation_ttl_hours env * 3600, iv_revoked_at = None, iv_invited_by_user_id = invited_by,
      iv_accepted_at = None, iv_status = INV_PENDING, iv_object_type = map_option fst scope, iv_object_id = map_option snd scope\<rparr>"

definition add_invitation :: "secrets \<Rightarrow> env_defaults \<Rightarrow> db \<Rightarrow> uuid \<Rightarrow> uuid option \<Rightarrow> (object_type \<times> uuid) option \<Rightarrow> invitation \<times> db" where
  "add_invitation sec env d user_id invited_by scope =
     (let i = new_invitation sec env d user_id invited_by scope
      in (i, d\<lparr>invitations := invitations d @ [i], next_id := Suc (next_id d)\<rparr>))"

text \<open>A fresh account with the model's defaults: \<open>User(email=..., status=...)\<close> with its roles.\<close>

definition new_user :: "db \<Rightarrow> string \<Rightarrow> user_status \<Rightarrow> user" where
  "new_user d email status = \<lparr>row_id = next_id d, created_at = now d, deleted_at = None, deleted_by_id = None,
     u_email = email, u_email_verified_at = None, u_first_name = None, u_last_name = None, u_password = None,
     u_organization_id = None, u_status = status, u_consent_emails = False,
     u_password_cleared_at = None, u_accepted_terms_id = None, u_terms_accepted_at = None\<rparr>"

definition insert_user :: "db \<Rightarrow> user \<Rightarrow> role list \<Rightarrow> db" where
  "insert_user d u rs = d\<lparr>users := users d @ [u], user_roles := user_roles d @ map (\<lambda>r. (row_id u, row_id r)) rs,
     next_id := Suc (next_id d)\<rparr>"

definition invite_to_platform ::
  "secrets \<Rightarrow> env_defaults \<Rightarrow> db \<Rightarrow> string \<Rightarrow> uuid list \<Rightarrow> session_user \<Rightarrow> bool \<Rightarrow> ((invitation \<times> user) \<times> db) result" where
  "invite_to_platform sec env d email role_ids inviter send_side_effects =
     bindE (resolve_assignable_roles d inviter role_ids []) (\<lambda>rs.
     bindE (case get_user_by_email d email of
         Some existing \<Rightarrow>
           bindE (ensure (u_status existing \<noteq> USER_ACTIVE) (ConflictError (Msg ''User already active.'' []))) (\<lambda>_.
           bindE (ensure (u_status existing \<noteq> USER_PENDING) (ConflictError (Msg ''User registration in progress.'' []))) (\<lambda>_.
           bindE (ensure (u_status existing \<noteq> USER_INACTIVE)
             (ConflictError (Msg ''User is deactivated. Reactivate via PATCH /users/{id} first.'' []))) (\<lambda>_.
           bindE (ensure (roles_match d existing (map row_id rs)) (ConflictError (Msg
               ''User has different role assignment. Use PATCH /users/{id} to change roles, then reissue invitation.'' []))) (\<lambda>_.
           Inr (existing, snd (revoke_pending_invitations d (row_id existing) None))))))
       | None \<Rightarrow> let u = new_user d email USER_INVITED in Inr (u, insert_user d u rs)) (\<lambda>(u, d1).
     let (i, d2) = add_invitation sec env d1 (row_id u) (Some (su_id inviter)) None;
         d3 = (if send_side_effects then send_email d2 ''platform_invitation'' (u_email u) (Some (se_raw_token sec (row_id i))) else d2)
     in Inr ((i, u), d3)))"

definition reissue_platform_invitation ::
  "secrets \<Rightarrow> env_defaults \<Rightarrow> db \<Rightarrow> user \<Rightarrow> session_user option \<Rightarrow> invitation \<times> db" where
  "reissue_platform_invitation sec env d u inviter =
     (let d1 = snd (revoke_pending_invitations d (row_id u) None);
          (i, d2) = add_invitation sec env d1 (row_id u) (map_option su_id inviter) None
      in (i, send_email d2 ''platform_invitation'' (u_email u) (Some (se_raw_token sec (row_id i)))))"

definition create_object_invitation ::
  "secrets \<Rightarrow> env_defaults \<Rightarrow> db \<Rightarrow> user \<Rightarrow> uuid \<Rightarrow> object_type \<Rightarrow> uuid \<Rightarrow> invitation \<times> db" where
  "create_object_invitation sec env d u inviter_id object_type object_id =
     add_invitation sec env (snd (revoke_pending_invitations d (row_id u) (Some (object_type, object_id)))) (row_id u)
       (Some inviter_id) (Some (object_type, object_id))"

definition find_invitation :: "secrets \<Rightarrow> db \<Rightarrow> string \<Rightarrow> invitation result" where
  "find_invitation sec d raw_token = the_or (NotFoundError (Msg ''Invitation not found.'' []))
     (List.find (\<lambda>i. iv_token_hash i = se_hash_token sec raw_token) (live_select (invitations d)))"

definition invitation_effective :: "db \<Rightarrow> invitation \<Rightarrow> invitation_status" where
  "invitation_effective d i = project_expired (now d) (iv_status i) (iv_expires_at i) INV_PENDING INV_EXPIRED"

definition resolve_invitation_or_raise :: "secrets \<Rightarrow> db \<Rightarrow> string \<Rightarrow> invitation result" where
  "resolve_invitation_or_raise sec d raw_token =
     bindE (find_invitation sec d raw_token) (\<lambda>i.
     bindE (ensure (invitation_effective d i = INV_PENDING)
       (GoneError (Msg ''Invitation is {}.'' [AStr (invitation_status_value (invitation_effective d i))]))) (\<lambda>_.
     Inr i))"

record invitation_preview =
  ip_email :: string
  ip_inviter_name :: "string option"
  ip_role_names :: "string list"
  ip_expires_at :: timestamp

definition get_invitation_preview :: "secrets \<Rightarrow> db \<Rightarrow> string \<Rightarrow> invitation_preview result" where
  "get_invitation_preview sec d raw_token =
     bindE (resolve_invitation_or_raise sec d raw_token) (\<lambda>i.
     bindE (case get_user d (iv_user_id i) of Inl _ \<Rightarrow> Inl (GoneError (Msg ''Invitation user is no longer available.'' []))
            | Inr u \<Rightarrow> Inr u) (\<lambda>u.
     Inr \<lparr>ip_email = u_email u,
       ip_inviter_name = (case iv_invited_by_user_id i of None \<Rightarrow> None
         | Some by \<Rightarrow> map_option user_display_name (List.find (\<lambda>x. row_id x = by) (users d))),
       ip_role_names = (case (iv_object_type i, iv_object_id i) of
           (Some t, Some x) \<Rightarrow> map role_label (held_roles d t x (row_id u))
         | _ \<Rightarrow> map role_label (user_live_roles d (row_id u))),
       ip_expires_at = iv_expires_at i\<rparr>))"

record signup_form =
  sf_first_name :: "string option"
  sf_last_name :: "string option"
  sf_consent_terms :: bool
  sf_consent_emails :: bool
  sf_terms_id :: "uuid option"

definition or_keep :: "'a option \<Rightarrow> 'a option \<Rightarrow> 'a option" where
  "or_keep new old = (case new of None \<Rightarrow> old | Some x \<Rightarrow> Some x)"

definition accept_invitation ::
  "secrets \<Rightarrow> env_defaults \<Rightarrow> db \<Rightarrow> string \<Rightarrow> string \<Rightarrow> signup_form \<Rightarrow> (user \<times> db) result" where
  "accept_invitation sec env d raw_token password form =
     bindE (resolve_signup_consent d (sf_consent_terms form) (sf_terms_id form)) (\<lambda>consent_document.
     bindE (find_invitation sec d raw_token) (\<lambda>i.
     bindE (the_or (GoneError (Msg ''Invitation user is no longer available.'' [])) (live_by_id (iv_user_id i) (users d))) (\<lambda>u.
     bindE (ensure (invitation_effective d i = INV_PENDING)
       (GoneError (Msg ''Invitation is {}.'' [AStr (invitation_status_value (invitation_effective d i))]))) (\<lambda>_.
     bindE (ensure (u_status u \<in> {USER_INVITED, USER_PENDING}) (GoneError (Msg ''Account is no longer awaiting onboarding.'' []))) (\<lambda>_.
     bindE (validate_password (se_denylist sec) password [Some (u_email u), sf_first_name form, sf_last_name form]
              (policy_from_settings (get_platform_settings env d))) (\<lambda>_.
     let u1 = u\<lparr>u_password := Some (se_hash_password sec password), u_status := USER_ACTIVE, u_email_verified_at := Some (now d),
               u_first_name := or_keep (sf_first_name form) (u_first_name u), u_last_name := or_keep (sf_last_name form) (u_last_name u)\<rparr>;
         u2 = record_signup_consent u1 consent_document (sf_consent_emails form) (now d);
         d1 = save_user d u2;
         d2 = d1\<lparr>invitations := save_row (i\<lparr>iv_status := INV_ACCEPTED, iv_accepted_at := Some (now d)\<rparr>) (invitations d1)\<rparr>;
         d3 = accept_pending_invitations d2 (row_id u2)
     in Inr (u2, send_email d3 ''account_activated'' (u_email u2) None)))))))"

subsection \<open>Registration\<close>

definition revoke_pending_verifications :: "db \<Rightarrow> uuid \<Rightarrow> db" where
  "revoke_pending_verifications d user_id =
     d\<lparr>email_verifications := live_update (\<lambda>v. ev_user_id v = user_id \<and> ev_status v = EV_PENDING)
        (\<lambda>v. v\<lparr>ev_status := EV_REVOKED, ev_revoked_at := Some (now d)\<rparr>) (email_verifications d)\<rparr>"

definition new_verification :: "secrets \<Rightarrow> db \<Rightarrow> uuid \<Rightarrow> int \<Rightarrow> email_verification" where
  "new_verification sec d user_id ttl_hours =
     \<lparr>row_id = next_id d, created_at = now d, deleted_at = None, deleted_by_id = None, ev_user_id = user_id,
      ev_token_hash = se_hash_token sec (se_raw_token sec (next_id d)), ev_expires_at = now d + ttl_hours * 3600,
      ev_revoked_at = None, ev_verified_at = None, ev_status = EV_PENDING\<rparr>"

definition issue_verification :: "secrets \<Rightarrow> db \<Rightarrow> user \<Rightarrow> int \<Rightarrow> db" where
  "issue_verification sec d u ttl_hours =
     (let v = new_verification sec d (row_id u) ttl_hours
      in send_email (d\<lparr>email_verifications := email_verifications d @ [v], next_id := Suc (next_id d)\<rparr>)
           ''email_verification'' (u_email u) (Some (se_raw_token sec (row_id v))))"

text \<open>\<open>User.invitations\<close>: the account's platform invitations by \<open>created_at\<close> descending, \<open>revoked_at\<close> ascending with nulls first,
  \<open>expires_at\<close> descending.\<close>

definition user_invitations :: "db \<Rightarrow> uuid \<Rightarrow> invitation list" where
  "user_invitations d user_id =
     sort_key (\<lambda>i. - created_at i)
      (sort_key (\<lambda>i. if iv_revoked_at i = None then 0 else 1 :: nat)
       (sort_key (\<lambda>i. case iv_revoked_at i of None \<Rightarrow> 0 | Some t \<Rightarrow> t)
        (sort_key (\<lambda>i. - iv_expires_at i)
         (filter (\<lambda>i. iv_user_id i = user_id \<and> iv_object_type i = None) (live_select (invitations d))))))"

definition register_user :: "secrets \<Rightarrow> env_defaults \<Rightarrow> db \<Rightarrow> string \<Rightarrow> string \<Rightarrow> signup_form \<Rightarrow> db result" where
  "register_user sec env d email password form =
     (let platform = get_platform_settings env d in
      bindE (ensure (\<not> ps_invite_only platform)
        (ForbiddenError (Msg ''Self-registration is disabled; the platform is invite-only.'' []))) (\<lambda>_.
      bindE (resolve_signup_consent d (sf_consent_terms form) (sf_terms_id form)) (\<lambda>consent_document.
      bindE (validate_password (se_denylist sec) password [Some email, sf_first_name form, sf_last_name form]
               (policy_from_settings platform)) (\<lambda>_.
      case get_user_by_email d email of
        None \<Rightarrow>
          bindE (get_default_role d) (\<lambda>r.
          let u = record_signup_consent ((new_user d email USER_PENDING)\<lparr>u_first_name := sf_first_name form,
                    u_last_name := sf_last_name form, u_password := Some (se_hash_password sec password)\<rparr>)
                    consent_document (sf_consent_emails form) (now d)
          in Inr (issue_verification sec (insert_user d u [r]) u (ps_email_verification_ttl_hours platform)))
      | Some existing \<Rightarrow>
          if u_status existing = USER_PENDING then
            bindE (get_user d (row_id existing)) (\<lambda>u.
            if u_status u \<noteq> USER_PENDING then Inr d
            else Inr (issue_verification sec (revoke_pending_verifications d (row_id u)) u (ps_email_verification_ttl_hours platform)))
          else if u_status existing = USER_INVITED then
            bindE (get_user d (row_id existing)) (\<lambda>u.
            if u_status u \<noteq> USER_INVITED then Inr d
            else (case user_invitations d (row_id u) of
                latest # _ \<Rightarrow> if iv_status latest = INV_REVOKED then Inr d else Inr (snd (reissue_platform_invitation sec env d u None))
              | [] \<Rightarrow> Inr (snd (reissue_platform_invitation sec env d u None))))
          else Inr d))))"

definition resend_verification :: "secrets \<Rightarrow> env_defaults \<Rightarrow> db \<Rightarrow> string \<Rightarrow> db" where
  "resend_verification sec env d email =
     (case get_user_by_email d email of None \<Rightarrow> d
      | Some existing \<Rightarrow>
          if u_status existing \<noteq> USER_PENDING then d
          else (case get_user d (row_id existing) of Inl _ \<Rightarrow> d
            | Inr u \<Rightarrow>
                if u_status u \<noteq> USER_PENDING then d
                else issue_verification sec (revoke_pending_verifications d (row_id u)) u
                       (ps_email_verification_ttl_hours (get_platform_settings env d))))"

definition verify_email :: "secrets \<Rightarrow> db \<Rightarrow> string \<Rightarrow> (user \<times> db) result" where
  "verify_email sec d raw_token =
     bindE (the_or (NotFoundError (Msg ''Verification token not found.'' []))
       (List.find (\<lambda>v. ev_token_hash v = se_hash_token sec raw_token) (live_select (email_verifications d)))) (\<lambda>v.
     let effective = project_expired (now d) (ev_status v) (ev_expires_at v) EV_PENDING EV_EXPIRED in
     bindE (ensure (effective = EV_PENDING)
       (GoneError (Msg ''Verification is {}.'' [AStr (email_verification_status_value effective)]))) (\<lambda>_.
     bindE (case get_user d (ev_user_id v) of Inl _ \<Rightarrow> Inl (GoneError (Msg ''Verification user is no longer available.'' []))
            | Inr u \<Rightarrow> Inr u) (\<lambda>u.
     let u' = u\<lparr>u_status := USER_ACTIVE, u_email_verified_at := Some (now d)\<rparr>;
         d1 = save_user d u';
         d2 = d1\<lparr>email_verifications := save_row (v\<lparr>ev_status := EV_VERIFIED, ev_verified_at := Some (now d)\<rparr>) (email_verifications d1)\<rparr>;
         d3 = accept_pending_invitations d2 (row_id u')
     in Inr (u', send_email d3 ''account_activated'' (u_email u') None))))"

subsection \<open>The invitation routes\<close>

definition resend_user_invitation_endpoint ::
  "secrets \<Rightarrow> env_defaults \<Rightarrow> db \<Rightarrow> session_user \<Rightarrow> uuid \<Rightarrow> (invitation \<times> db) result" where
  "resend_user_invitation_endpoint sec env d caller user_id =
     bindE (require_permission USERS_INVITE caller) (\<lambda>_.
     bindE (get_user d user_id) (\<lambda>u.
     bindE (assert_can_manage_invitation d caller u) (\<lambda>_.
     bindE (ensure (u_status u = USER_INVITED) (ConflictError (Msg ''User is {}; only an invited account has an invitation to resend.''
         [AStr (user_status_value (u_status u))]))) (\<lambda>_.
     let (i, d') = reissue_platform_invitation sec env d u (Some caller)
     in Inr (i, audit_user d' caller ''invitation.resend'' (row_id u) None None)))))"

definition revoke_user_invitation_endpoint :: "db \<Rightarrow> session_user \<Rightarrow> uuid \<Rightarrow> db result" where
  "revoke_user_invitation_endpoint d caller user_id =
     bindE (require_permission USERS_INVITE caller) (\<lambda>_.
     bindE (get_user d user_id) (\<lambda>u.
     bindE (assert_can_manage_invitation d caller u) (\<lambda>_.
     bindE (revoke_platform_invitation d u) (\<lambda>d'.
     Inr (audit_user d' caller ''invitation.revoke'' (row_id u) None None)))))"

definition bulk_create_invitations_endpoint ::
  "secrets \<Rightarrow> env_defaults \<Rightarrow> (error \<Rightarrow> problem_error_item list option) \<Rightarrow> db \<Rightarrow> session_user \<Rightarrow> (string \<times> uuid list) bulk_request \<Rightarrow>
     (invitation \<times> user) bulk_response result \<times> db" where
  "bulk_create_invitations_endpoint sec env items d caller payload =
     (case require_permission USERS_INVITE caller of Inl e \<Rightarrow> (Inl e, d)
      | Inr _ \<Rightarrow> apply_bulk db_rollback items
          (\<lambda>d (email, role_ids). invite_to_platform sec env d email role_ids caller (\<not> bq_dry_run payload)) d payload)"

subsection \<open>Inviting to a group\<close>

datatype invite_outcome = OUT_ASSIGNED | OUT_INVITED

record group_invitation_result =
  gr_outcome :: invite_outcome
  gr_user_id :: uuid
  gr_email :: string
  gr_roles :: "role list"
  gr_template :: string
  gr_raw_token :: "string option"
  gr_expires_at :: "timestamp option"

definition create_invited_user :: "db \<Rightarrow> string \<Rightarrow> (user \<times> db) result" where
  "create_invited_user d email =
     bindE (get_default_role d) (\<lambda>r. let u = new_user d email USER_INVITED in Inr (u, insert_user d u [r]))"

definition assign_group_roles :: "db \<Rightarrow> uuid \<Rightarrow> user \<Rightarrow> role list \<Rightarrow> uuid \<Rightarrow> db result" where
  "assign_group_roles d group_id u rs by_id =
     (if held_roles d EVALUATION_GROUP group_id (row_id u) \<noteq> []
      then bindE (set_member_roles d EVALUATION_GROUP group_id u rs by_id) (\<lambda>(_, d'). Inr d')
      else bindE (add_member d EVALUATION_GROUP group_id u rs) (\<lambda>(_, d'). Inr d'))"

definition invite_to_group ::
  "secrets \<Rightarrow> env_defaults \<Rightarrow> db \<Rightarrow> uuid \<Rightarrow> session_user \<Rightarrow> string \<Rightarrow> uuid list \<Rightarrow> (group_invitation_result \<times> db) result" where
  "invite_to_group sec env d group_id inviter email role_ids =
     bindE (resolve_object_assignable_roles d (OBJECT_ROLE_REGISTRY EVALUATION_GROUP) role_ids) (\<lambda>rs.
     let existing = get_user_by_email d email in
     bindE (ensure (case existing of None \<Rightarrow> True | Some u \<Rightarrow> u_status u \<noteq> USER_INACTIVE)
       (ConflictError (Msg ''User is deactivated. Reactivate via PATCH /users/{id} first.'' []))) (\<lambda>_.
     if (case existing of None \<Rightarrow> False | Some u \<Rightarrow> u_status u = USER_ACTIVE)
     then let u = the existing in
       bindE (assign_group_roles d group_id u rs (su_id inviter)) (\<lambda>d'.
       Inr (\<lparr>gr_outcome = OUT_ASSIGNED, gr_user_id = row_id u, gr_email = u_email u, gr_roles = rs,
             gr_template = ''evaluation_group_member_added'', gr_raw_token = None, gr_expires_at = None\<rparr>, d'))
     else
       bindE (case existing of Some u \<Rightarrow> Inr (u, d) | None \<Rightarrow> create_invited_user d email) (\<lambda>(u, d1).
       bindE (assign_group_roles d1 group_id u rs (su_id inviter)) (\<lambda>d2.
       let (i, d3) = create_object_invitation sec env d2 u (su_id inviter) EVALUATION_GROUP group_id
       in Inr (\<lparr>gr_outcome = OUT_INVITED, gr_user_id = row_id u, gr_email = u_email u, gr_roles = rs,
             gr_template = ''evaluation_group_invitation'', gr_raw_token = Some (se_raw_token sec (row_id i)),
             gr_expires_at = Some (iv_expires_at i)\<rparr>, d3)))))"

subsection \<open>The token contracts\<close>

definition invitation_owner :: "invitation \<Rightarrow> uuid \<times> (object_type \<times> uuid option) option" where
  "invitation_owner i = (iv_user_id i, map_option (\<lambda>t. (t, iv_object_id i)) (iv_object_type i))"

interpretation invites: token_table invitation_owner iv_token_hash iv_status INV_PENDING
  "\<lambda>t i. i\<lparr>iv_status := INV_REVOKED, iv_revoked_at := Some t\<rparr>" "\<lambda>t i. i\<lparr>iv_status := INV_ACCEPTED, iv_accepted_at := Some t\<rparr>"
  by unfold_locales (simp_all add: invitation_owner_def)

interpretation verifications: token_table ev_user_id ev_token_hash ev_status EV_PENDING
  "\<lambda>t v. v\<lparr>ev_status := EV_REVOKED, ev_revoked_at := Some t\<rparr>" "\<lambda>t v. v\<lparr>ev_status := EV_VERIFIED, ev_verified_at := Some t\<rparr>"
  by unfold_locales simp_all

definition invites_ok :: "secrets \<Rightarrow> db \<Rightarrow> bool" where
  "invites_ok sec d \<longleftrightarrow> invites.tokens_ok sec (next_id d) (now d) (invitations d)"

definition invites_evolve :: "secrets \<Rightarrow> db \<Rightarrow> db \<Rightarrow> bool" where
  "invites_evolve sec d d' \<longleftrightarrow> invites.evolves sec (next_id d) (now d) (invitations d) (next_id d') (now d') (invitations d')"

definition verifications_ok :: "secrets \<Rightarrow> db \<Rightarrow> bool" where
  "verifications_ok sec d \<longleftrightarrow> verifications.tokens_ok sec (next_id d) (now d) (email_verifications d)"

definition verifications_evolve :: "secrets \<Rightarrow> db \<Rightarrow> db \<Rightarrow> bool" where
  "verifications_evolve sec d d' \<longleftrightarrow>
     verifications.evolves sec (next_id d) (now d) (email_verifications d) (next_id d') (now d') (email_verifications d')"

lemma in_scope_owner:
  "invitation_owner i = invitation_owner (new_invitation sec env d uid by scope) \<longleftrightarrow> iv_user_id i = uid \<and> in_scope scope i"
  by (cases scope) (auto simp: invitation_owner_def new_invitation_def)

text \<open>A fresh link in a scope: what was pending there is revoked.  \<open>n\<close> is the key the new row gets.\<close>

lemma reissue_evolves:
  assumes "invites_ok sec d" "next_id d \<le> next_id m" "now m = now d"
  shows "invites.evolves sec (next_id d) (now d) (invitations d) (Suc (next_id m)) (now d)
    (live_update (pending_in_scope uid scope) (\<lambda>i. i\<lparr>iv_status := INV_REVOKED, iv_revoked_at := Some s\<rparr>) (invitations d) @
       [new_invitation sec env m uid by scope])"
  by (rule invites.evolves_issue [OF assms(1) [unfolded invites_ok_def]])
     (use assms(2,3) in \<open>auto simp: in_scope_owner pending_in_scope_def invites.token_ok_def, auto simp: new_invitation_def\<close>)

lemma fresh_evolves:
  assumes "invites_ok sec d" "next_id d \<le> next_id m" "now m = now d"
    and "\<forall>i\<in>set (invitations d). iv_user_id i \<noteq> uid"
  shows "invites.evolves sec (next_id d) (now d) (invitations d) (Suc (next_id m)) (now d)
    (invitations d @ [new_invitation sec env m uid by scope])"
proof -
  have "live_update (pending_in_scope uid scope) (\<lambda>i. i\<lparr>iv_status := INV_REVOKED, iv_revoked_at := Some 0\<rparr>) (invitations d) = invitations d"
    unfolding live_update_def by (rule map_idI) (use assms(4) in \<open>auto simp: pending_in_scope_def\<close>)
  then show ?thesis using reissue_evolves [OF assms(1-3), of uid scope 0 env "by"] by simp
qed

lemma verification_evolves:
  assumes "verifications_ok sec d" "next_id d \<le> next_id m" "now m = now d"
  shows "verifications.evolves sec (next_id d) (now d) (email_verifications d) (Suc (next_id m)) (now d)
    (live_update (\<lambda>v. ev_user_id v = uid \<and> ev_status v = EV_PENDING)
       (\<lambda>v. v\<lparr>ev_status := EV_REVOKED, ev_revoked_at := Some s\<rparr>) (email_verifications d) @ [new_verification sec m uid ttl])"
  by (rule verifications.evolves_issue [OF assms(1) [unfolded verifications_ok_def]])
     (use assms(2,3) in \<open>auto simp: new_verification_def verifications.token_ok_def\<close>)

end
