(* ===== verification/Password_Resets.thy ===== *)
theory Password_Resets
  imports Tokens
begin

section \<open>Password resets and changes\<close>

text \<open>
  \<open>app/core/auth/services/password_resets.py\<close>, \<open>account.py\<close> and the reset routes of \<open>api/v1/auth/users.py\<close>: issuing (self-service
  with its throttle, or by an admin), confirming, and the change of one's own password.
\<close>

subsection \<open>Issuing\<close>

definition revoke_pending_resets :: "db \<Rightarrow> uuid \<Rightarrow> db" where
  "revoke_pending_resets d user_id =
     d\<lparr>password_resets := live_update (\<lambda>r. pr_user_id r = user_id \<and> pr_status r = PR_PENDING)
        (\<lambda>r. r\<lparr>pr_status := PR_REVOKED, pr_revoked_at := Some (now d)\<rparr>) (password_resets d)\<rparr>"

definition ineligible_reason :: "user \<Rightarrow> string option" where
  "ineligible_reason u =
     (if u_status u \<noteq> USER_ACTIVE then Some ''inactive''
      else if u_password u = None \<and> u_password_cleared_at u = None then Some ''passwordless'' else None)"

definition reset_window :: "db \<Rightarrow> uuid \<Rightarrow> password_reset_token list" where
  "reset_window d user_id =
     filter (\<lambda>r. pr_user_id r = user_id \<and> now d - 86400 < created_at r) (live_select (password_resets d))"

definition throttle_reason :: "platform_settings \<Rightarrow> db \<Rightarrow> uuid \<Rightarrow> string option" where
  "throttle_reason platform d user_id =
     (let window = reset_window d user_id in
      if ps_password_reset_max_per_day platform \<le> length window then Some ''daily_cap''
      else if window \<noteq> [] \<and> now d - ps_password_reset_cooldown_seconds platform < Max (created_at ` set window)
      then Some ''cooldown'' else None)"

definition assert_password_reset_allowed :: "user \<Rightarrow> unit result" where
  "assert_password_reset_allowed u =
     bindE (ensure (u_status u = USER_ACTIVE)
       (ConflictError (Msg ''User is {}; only an active account can be sent a password reset.'' [AStr (user_status_value (u_status u))]))) (\<lambda>_.
     ensure (u_password u \<noteq> None)
       (ConflictError (Msg ''User has no password to reset; the account signs in through an identity provider.'' [])))"

definition new_reset :: "secrets \<Rightarrow> env_defaults \<Rightarrow> db \<Rightarrow> uuid \<Rightarrow> password_reset_token" where
  "new_reset sec env d user_id =
     \<lparr>row_id = next_id d, created_at = now d, deleted_at = None, deleted_by_id = None, pr_user_id = user_id,
      pr_token_hash = se_hash_token sec (se_raw_token sec (next_id d)),
      pr_expires_at = now d + env_password_reset_ttl_hours env * 3600, pr_used_at = None, pr_revoked_at = None,
      pr_status = PR_PENDING\<rparr>"

text \<open>The mail specification is the recipient and the raw token of its link.\<close>

definition issue_password_reset :: "secrets \<Rightarrow> env_defaults \<Rightarrow> db \<Rightarrow> user \<Rightarrow> (string \<times> string) \<times> db" where
  "issue_password_reset sec env d u =
     (let d1 = revoke_pending_resets d (row_id u)
      in ((u_email u, se_raw_token sec (next_id d1)),
          d1\<lparr>password_resets := password_resets d1 @ [new_reset sec env d1 (row_id u)], next_id := Suc (next_id d1)\<rparr>))"

definition request_password_reset :: "secrets \<Rightarrow> env_defaults \<Rightarrow> db \<Rightarrow> string \<Rightarrow> db" where
  "request_password_reset sec env d email =
     (case get_user_by_email d email of None \<Rightarrow> d
      | Some existing \<Rightarrow>
          if ineligible_reason existing \<noteq> None then d
          else (case get_user d (row_id existing) of Inl _ \<Rightarrow> d
            | Inr u \<Rightarrow>
                if ineligible_reason u \<noteq> None then d
                else if throttle_reason (get_platform_settings env d) d (row_id u) \<noteq> None then d
                else (let ((recipient, raw), d') = issue_password_reset sec env d u
                      in send_email d' ''password_reset'' recipient (Some raw))))"

subsection \<open>Setting a new password\<close>

definition confirm_password_reset :: "secrets \<Rightarrow> env_defaults \<Rightarrow> bool \<Rightarrow> db \<Rightarrow> string \<Rightarrow> string \<Rightarrow> db result" where
  "confirm_password_reset sec env redis_up d raw_token password =
     bindE (the_or (NotFoundError (Msg ''Password reset token not found.'' []))
       (List.find (\<lambda>r. pr_token_hash r = se_hash_token sec raw_token) (live_select (password_resets d)))) (\<lambda>reset.
     let effective = project_expired (now d) (pr_status reset) (pr_expires_at reset) PR_PENDING PR_EXPIRED;
         gone = GoneError (Msg ''Password reset is no longer available for this account.'' []) in
     bindE (ensure (effective = PR_PENDING)
       (GoneError (Msg ''Password reset token is {}.'' [AStr (password_reset_token_status_value effective)]))) (\<lambda>_.
     bindE (the_or gone (List.find (\<lambda>u. row_id u = pr_user_id reset) (users d))) (\<lambda>u.
     bindE (ensure (deleted_at u = None \<and> u_status u = USER_ACTIVE) gone) (\<lambda>_.
     bindE (validate_password (se_denylist sec) password [Some (u_email u), u_first_name u, u_last_name u]
              (policy_from_settings (get_platform_settings env d))) (\<lambda>_.
     let d1 = save_user d (u\<lparr>u_password := Some (se_hash_password sec password)\<rparr>);
         d2 = d1\<lparr>password_resets := save_row (reset\<lparr>pr_status := PR_USED, pr_used_at := Some (now d)\<rparr>) (password_resets d1)\<rparr>
     in revoke_sessions redis_up d2 (row_id u))))))"

definition change_own_password :: "secrets \<Rightarrow> env_defaults \<Rightarrow> bool \<Rightarrow> db \<Rightarrow> user \<Rightarrow> string \<Rightarrow> string \<Rightarrow> db result" where
  "change_own_password sec env redis_up d u current_password new_password =
     bindE (the_or (ConflictError (Msg ''The account has no local password; use the password-reset flow instead.'' [])) (u_password u)) (\<lambda>hashed.
     bindE (ensure (length current_password \<le> MAX_PASSWORD_LENGTH \<and> se_verify_password sec current_password hashed)
       (BadRequestError (Msg ''Current password is incorrect.'' []))) (\<lambda>_.
     bindE (validate_password (se_denylist sec) new_password [Some (u_email u), u_first_name u, u_last_name u]
              (policy_from_settings (get_platform_settings env d))) (\<lambda>_.
     revoke_sessions redis_up (save_user d (u\<lparr>u_password := Some (se_hash_password sec new_password)\<rparr>)) (row_id u))))"

definition send_user_password_reset_endpoint :: "secrets \<Rightarrow> env_defaults \<Rightarrow> db \<Rightarrow> session_user \<Rightarrow> uuid \<Rightarrow> db result" where
  "send_user_password_reset_endpoint sec env d caller user_id =
     bindE (require_permission USERS_UPDATE caller) (\<lambda>_.
     bindE (get_user d user_id) (\<lambda>u.
     bindE (assert_password_reset_allowed u) (\<lambda>_.
     let ((recipient, raw), d1) = issue_password_reset sec env d u;
         d2 = send_email d1 ''password_reset'' recipient (Some raw)
     in Inr (audit_user d2 caller ''user.credential_reset'' (row_id u) None None))))"

subsection \<open>The token contract\<close>

interpretation resets: token_table pr_user_id pr_token_hash pr_status PR_PENDING
  "\<lambda>t r. r\<lparr>pr_status := PR_REVOKED, pr_revoked_at := Some t\<rparr>" "\<lambda>t r. r\<lparr>pr_status := PR_USED, pr_used_at := Some t\<rparr>"
  by unfold_locales simp_all

text \<open>The shape of the table: keys below the supply, every digest that of the row's own raw token, at most one pending token per
  account.\<close>

definition resets_ok :: "secrets \<Rightarrow> db \<Rightarrow> bool" where
  "resets_ok sec d \<longleftrightarrow> resets.tokens_ok sec (next_id d) (now d) (password_resets d)"

definition resets_evolve :: "secrets \<Rightarrow> db \<Rightarrow> db \<Rightarrow> bool" where
  "resets_evolve sec d d' \<longleftrightarrow> resets.evolves sec (next_id d) (now d) (password_resets d) (next_id d') (now d') (password_resets d')"

lemma issue_evolves:
  assumes "resets_ok sec d" "issue_password_reset sec env d u = (mail, d')"
  shows "resets_evolve sec d d'"
  using assms resets.evolves_issue [of sec "next_id d" "now d" "password_resets d" "new_reset sec env d (row_id u)" "Suc (next_id d)" "now d"
      "\<lambda>r. pr_user_id r = row_id u \<and> pr_status r = PR_PENDING" "now d"]
  by (auto simp: issue_password_reset_def revoke_pending_resets_def resets_ok_def resets_evolve_def new_reset_def resets.token_ok_def Let_def)

lemma confirm_Inr:
  assumes "confirm_password_reset sec env up d raw pw = Inr d'"
  obtains r u where "List.find (\<lambda>r. pr_token_hash r = se_hash_token sec raw) (live_select (password_resets d)) = Some r"
    "pr_status r = PR_PENDING" "now d < pr_expires_at r" "List.find (\<lambda>u. row_id u = pr_user_id r) (users d) = Some u"
    "deleted_at u = None" "u_status u = USER_ACTIVE"
    "d' = revoke_user_sessions (d\<lparr>users := save_row (u\<lparr>u_password := Some (se_hash_password sec pw)\<rparr>) (users d),
        password_resets := save_row (r\<lparr>pr_status := PR_USED, pr_used_at := Some (now d)\<rparr>) (password_resets d)\<rparr>) (row_id u)"
  using assms
  by (auto simp: confirm_password_reset_def svc_simps Let_def project_expired_pending revoke_sessions_def save_user_def)

lemma confirm_evolves:
  assumes "resets_ok sec d" "confirm_password_reset sec env up d raw pw = Inr d'"
  shows "resets_evolve sec d d'"
  using assms(2)
proof (rule confirm_Inr)
  fix r u assume f: "List.find (\<lambda>r. pr_token_hash r = se_hash_token sec raw) (live_select (password_resets d)) = Some r"
    and p: "pr_status r = PR_PENDING"
    and d': "d' = revoke_user_sessions (d\<lparr>users := save_row (u\<lparr>u_password := Some (se_hash_password sec pw)\<rparr>) (users d),
        password_resets := save_row (r\<lparr>pr_status := PR_USED, pr_used_at := Some (now d)\<rparr>) (password_resets d)\<rparr>) (row_id u)"
  have "r \<in> set (password_resets d)" using find_SomeD [OF f] by simp
  then show ?thesis using resets.evolves_consume [of sec "next_id d" "now d" "password_resets d" r "next_id d" "now d" "now d"] assms(1) p
    by (simp add: d' resets_evolve_def resets_ok_def revoke_user_sessions_def)
qed

end
