(* ===== verification/Account_Flows.thy ===== *)
theory Account_Flows
  imports Onboarding Password_Resets
begin

section \<open>Credentials and links across the account flows\<close>

text \<open>
  Registration, invitations, verification, password resets and administration work on one database.  This theory puts their
  requests into one step relation, labelled with what the requester proves, and shows what no sequence of them can do.
\<close>

text \<open>The requester: nobody (an email address is all there is), the holder of a raw token, a signed-in account that names its
  current password, or a member of staff.\<close>

datatype requester = ANONYMOUS | LINK string | OWN uuid string | STAFF session_user

inductive account_step :: "secrets \<Rightarrow> env_defaults \<Rightarrow> requester \<Rightarrow> db \<Rightarrow> db \<Rightarrow> bool" for sec env where
  register: "register_user sec env d email pw form = Inr d' \<Longrightarrow> account_step sec env ANONYMOUS d d'"
| resend: "account_step sec env ANONYMOUS d (resend_verification sec env d email)"
| request: "account_step sec env ANONYMOUS d (request_password_reset sec env d email)"
| tick: "0 \<le> s \<Longrightarrow> account_step sec env ANONYMOUS d (d\<lparr>now := now d + s\<rparr>)"
| verify: "verify_email sec d raw = Inr (u, d') \<Longrightarrow> account_step sec env (LINK raw) d d'"
| accept: "accept_invitation sec env d raw pw form = Inr (u, d') \<Longrightarrow> account_step sec env (LINK raw) d d'"
| confirm: "confirm_password_reset sec env up d raw pw = Inr d' \<Longrightarrow> account_step sec env (LINK raw) d d'"
| change: "get_user d i = Inr u \<Longrightarrow> change_own_password sec env up d u old new = Inr d' \<Longrightarrow> account_step sec env (OWN i old) d d'"
| invite: "invite_to_platform sec env d email ids caller True = Inr (x, d') \<Longrightarrow> account_step sec env (STAFF caller) d d'"
| invite_group: "invite_to_group sec env d g caller email ids = Inr (y, d') \<Longrightarrow> account_step sec env (STAFF caller) d d'"
| reinvite: "resend_user_invitation_endpoint sec env d caller i = Inr (v, d') \<Longrightarrow> account_step sec env (STAFF caller) d d'"
| uninvite: "revoke_user_invitation_endpoint d caller i = Inr d' \<Longrightarrow> account_step sec env (STAFF caller) d d'"
| send: "send_user_password_reset_endpoint sec env d caller i = Inr d' \<Longrightarrow> account_step sec env (STAFF caller) d d'"
| status: "change_user_status_endpoint up d caller i st = Inr (w, d') \<Longrightarrow> account_step sec env (STAFF caller) d d'"
| logout: "force_logout_user_endpoint up d caller i = Inr (j, d') \<Longrightarrow> account_step sec env (STAFF caller) d d'"

definition owners_ok :: "db \<Rightarrow> bool" where
  "owners_ok d \<longleftrightarrow> (\<forall>i\<in>set (invitations d). iv_user_id i < next_id d) \<and> (\<forall>v\<in>set (email_verifications d). ev_user_id v < next_id d)"

definition account_inv :: "secrets \<Rightarrow> db \<Rightarrow> bool" where
  "account_inv sec d \<longleftrightarrow> keys_ok (next_id d) (users d) \<and> owners_ok d \<and> invites_ok sec d \<and> verifications_ok sec d \<and> resets_ok sec d"

definition flows :: "secrets \<Rightarrow> db \<Rightarrow> db \<Rightarrow> bool" where
  "flows sec d d' \<longleftrightarrow> keys_ok (next_id d') (users d') \<and> owners_ok d' \<and>
     invites_evolve sec d d' \<and> verifications_evolve sec d d' \<and> resets_evolve sec d d'"

lemma evolve_ok:
  "invites_ok sec d \<Longrightarrow> invites_evolve sec d d' \<Longrightarrow> invites_ok sec d'"
  "verifications_ok sec d \<Longrightarrow> verifications_evolve sec d d' \<Longrightarrow> verifications_ok sec d'"
  "resets_ok sec d \<Longrightarrow> resets_evolve sec d d' \<Longrightarrow> resets_ok sec d'"
  unfolding invites_ok_def invites_evolve_def verifications_ok_def verifications_evolve_def resets_ok_def resets_evolve_def
  by (rule invites.evolves_tokens_ok verifications.evolves_tokens_ok resets.evolves_tokens_ok; assumption)+

lemma flows_inv: "account_inv sec d \<Longrightarrow> flows sec d d' \<Longrightarrow> account_inv sec d'"
  unfolding account_inv_def flows_def using evolve_ok by blast

named_theorems flow_defs \<open>what a request leaves of the tables\<close>

lemma audit_user_sel [flow_defs]:
  "users (audit_user d c a i b f) = users d" "next_id (audit_user d c a i b f) = Suc (next_id d)" "now (audit_user d c a i b f) = now d"
  "invitations (audit_user d c a i b f) = invitations d" "email_verifications (audit_user d c a i b f) = email_verifications d"
  "password_resets (audit_user d c a i b f) = password_resets d" "settings_row (audit_user d c a i b f) = settings_row d"
  "revoked (audit_user d c a i b f) = revoked d"
  by (simp_all add: audit_user_def record_audit_def)

lemma send_email_sel [flow_defs]:
  "users (send_email d a b c) = users d" "next_id (send_email d a b c) = next_id d" "now (send_email d a b c) = now d"
  "invitations (send_email d a b c) = invitations d" "email_verifications (send_email d a b c) = email_verifications d"
  "password_resets (send_email d a b c) = password_resets d" "settings_row (send_email d a b c) = settings_row d"
  "revoked (send_email d a b c) = revoked d"
  by (simp_all add: send_email_def)

lemma insert_user_sel [flow_defs]:
  "users (insert_user d u rs) = users d @ [u]" "next_id (insert_user d u rs) = Suc (next_id d)" "now (insert_user d u rs) = now d"
  "invitations (insert_user d u rs) = invitations d" "email_verifications (insert_user d u rs) = email_verifications d"
  "password_resets (insert_user d u rs) = password_resets d" "settings_row (insert_user d u rs) = settings_row d"
  by (simp_all add: insert_user_def)

lemma issue_verification_sel [flow_defs]:
  "users (issue_verification sec d u t) = users d" "next_id (issue_verification sec d u t) = Suc (next_id d)"
  "now (issue_verification sec d u t) = now d" "invitations (issue_verification sec d u t) = invitations d"
  "email_verifications (issue_verification sec d u t) = email_verifications d @ [new_verification sec d (row_id u) t]"
  "password_resets (issue_verification sec d u t) = password_resets d" "settings_row (issue_verification sec d u t) = settings_row d"
  by (simp_all add: issue_verification_def flow_defs Let_def)

lemma reissue_sel [flow_defs]:
  "users (snd (reissue_platform_invitation sec env d u c)) = users d"
  "next_id (snd (reissue_platform_invitation sec env d u c)) = Suc (next_id d)"
  "now (snd (reissue_platform_invitation sec env d u c)) = now d"
  "email_verifications (snd (reissue_platform_invitation sec env d u c)) = email_verifications d"
  "password_resets (snd (reissue_platform_invitation sec env d u c)) = password_resets d"
  "settings_row (snd (reissue_platform_invitation sec env d u c)) = settings_row d"
  "invitations (snd (reissue_platform_invitation sec env d u c)) =
     live_update (pending_in_scope (row_id u) None) (\<lambda>i. i\<lparr>iv_status := INV_REVOKED, iv_revoked_at := Some (now d)\<rparr>) (invitations d) @
       [new_invitation sec env d (row_id u) (map_option su_id c) None]"
  by (simp_all add: reissue_platform_invitation_def add_invitation_def revoke_pending_invitations_def flow_defs Let_def new_invitation_def)

lemma live_update_all:
  assumes "\<And>x. Q (f x) = Q x"
  shows "(\<forall>x\<in>set (live_update P f t). Q x) \<longleftrightarrow> (\<forall>x\<in>set t. Q x)"
  by (induction t) (simp_all add: live_update_def assms)

lemma kept_evolves:
  "next_id d \<le> next_id d' \<Longrightarrow> now d \<le> now d' \<Longrightarrow> invitations d' = invitations d \<Longrightarrow> invites_evolve sec d d'"
  "next_id d \<le> next_id d' \<Longrightarrow> now d \<le> now d' \<Longrightarrow> email_verifications d' = email_verifications d \<Longrightarrow> verifications_evolve sec d d'"
  "next_id d \<le> next_id d' \<Longrightarrow> now d \<le> now d' \<Longrightarrow> password_resets d' = password_resets d \<Longrightarrow> resets_evolve sec d d'"
  unfolding invites_evolve_def verifications_evolve_def resets_evolve_def
  by (simp_all add: invites.evolves_kept verifications.evolves_kept resets.evolves_kept)

lemma owners_kept:
  "owners_ok d \<Longrightarrow> next_id d \<le> next_id d' \<Longrightarrow> invitations d' = invitations d \<Longrightarrow> email_verifications d' = email_verifications d \<Longrightarrow> owners_ok d'"
  by (auto simp: owners_ok_def intro: less_le_trans)

lemma user_below: "account_inv sec d \<Longrightarrow> get_user d i = Inr u \<Longrightarrow> u \<in> set (users d) \<and> row_id u < next_id d \<and> row_id u = i"
  by (auto simp: account_inv_def keys_ok_def get_user_def dest!: live_by_id_SomeD)

subsection \<open>Anonymous requests\<close>

lemma register_cases:
  assumes "register_user sec env d email pw form = Inr d'"
  obtains (none) "d' = d"
  | (fresh) u r where "get_user_by_email d email = None" "row_id u = next_id d" "u_status u = USER_PENDING" "u_email u = email"
      "d' = issue_verification sec (insert_user d u [r]) u (ps_email_verification_ttl_hours (get_platform_settings env d))"
  | (pending) u where "get_user d (row_id u) = Inr u"
      "d' = issue_verification sec (revoke_pending_verifications d (row_id u)) u (ps_email_verification_ttl_hours (get_platform_settings env d))"
  | (invited) u where "get_user d (row_id u) = Inr u" "d' = snd (reissue_platform_invitation sec env d u None)"
proof -
  let ?ttl = "ps_email_verification_ttl_hours (get_platform_settings env d)"
  have "d' = d \<or> (\<exists>u r. get_user_by_email d email = None \<and> row_id u = next_id d \<and> u_status u = USER_PENDING \<and> u_email u = email \<and>
        d' = issue_verification sec (insert_user d u [r]) u ?ttl) \<or>
      (\<exists>u. get_user d (row_id u) = Inr u \<and> d' = issue_verification sec (revoke_pending_verifications d (row_id u)) u ?ttl) \<or>
      (\<exists>u. get_user d (row_id u) = Inr u \<and> d' = snd (reissue_platform_invitation sec env d u None))"
  proof (cases "get_user_by_email d email")
    case None
    with assms obtain r doc where r: "d' = issue_verification sec (insert_user d (record_signup_consent ((new_user d email USER_PENDING)\<lparr>
          u_first_name := sf_first_name form, u_last_name := sf_last_name form, u_password := Some (se_hash_password sec pw)\<rparr>)
          doc (sf_consent_emails form) (now d)) [r]) (record_signup_consent ((new_user d email USER_PENDING)\<lparr>
          u_first_name := sf_first_name form, u_last_name := sf_last_name form, u_password := Some (se_hash_password sec pw)\<rparr>)
          doc (sf_consent_emails form) (now d)) ?ttl"
      by (auto simp: register_user_def Let_def svc_simps)
    show ?thesis
      by (rule disjI2, rule disjI1, intro exI, intro conjI, rule None, rule_tac [4] r)
         (simp_all add: record_signup_consent_def new_user_def Let_def split: option.split)
  next
    case (Some e)
    have id: "get_user d i = Inr u \<Longrightarrow> row_id u = i" for i u by (auto simp: get_user_def dest!: live_by_id_SomeD)
    show ?thesis using assms Some
      by (auto simp: register_user_def Let_def svc_simps split: if_splits list.splits) (metis id)+
  qed
  then show ?thesis using that by blast
qed

lemma flows_refl: "account_inv sec d \<Longrightarrow> flows sec d d"
  by (simp add: flows_def account_inv_def kept_evolves)

lemma flows_reissue:
  assumes inv: "account_inv sec d" and u: "get_user d (row_id u) = Inr u"
  shows "flows sec d (snd (reissue_platform_invitation sec env d u c))"
proof -
  have k: "row_id u < next_id d" using user_below [OF inv u] by simp
  have "keys_ok (Suc (next_id d)) (users d)" using inv keys_ok_mono unfolding account_inv_def by (metis le_SucI order_refl)
  moreover have "owners_ok (snd (reissue_platform_invitation sec env d u c))"
    using inv k unfolding account_inv_def owners_ok_def
    by (auto simp: flow_defs live_update_all less_SucI) (auto simp: new_invitation_def)
  moreover have "invites.evolves sec (next_id d) (now d) (invitations d) (Suc (next_id d)) (now d)
      (live_update (pending_in_scope (row_id u) None) (\<lambda>i. i\<lparr>iv_status := INV_REVOKED, iv_revoked_at := Some (now d)\<rparr>) (invitations d) @
         [new_invitation sec env d (row_id u) (map_option su_id c) None])"
    using inv by (intro reissue_evolves) (simp_all add: account_inv_def)
  ultimately show ?thesis by (simp add: flows_def kept_evolves flow_defs invites_evolve_def)
qed

lemma revoke_verifications_sel [flow_defs]:
  "users (revoke_pending_verifications d i) = users d" "next_id (revoke_pending_verifications d i) = next_id d"
  "now (revoke_pending_verifications d i) = now d" "invitations (revoke_pending_verifications d i) = invitations d"
  "password_resets (revoke_pending_verifications d i) = password_resets d" "settings_row (revoke_pending_verifications d i) = settings_row d"
  "email_verifications (revoke_pending_verifications d i) = live_update (\<lambda>v. ev_user_id v = i \<and> ev_status v = EV_PENDING)
     (\<lambda>v. v\<lparr>ev_status := EV_REVOKED, ev_revoked_at := Some (now d)\<rparr>) (email_verifications d)"
  by (simp_all add: revoke_pending_verifications_def)

lemma new_verification_cong: "next_id m = next_id d \<Longrightarrow> now m = now d \<Longrightarrow> new_verification sec m i t = new_verification sec d i t"
  by (simp add: new_verification_def)

lemma flows_reverify:
  assumes inv: "account_inv sec d" and u: "get_user d (row_id u) = Inr u"
  shows "flows sec d (issue_verification sec (revoke_pending_verifications d (row_id u)) u t)"
proof -
  have k: "row_id u < next_id d" using user_below [OF inv u] by simp
  have "keys_ok (Suc (next_id d)) (users d)" using inv keys_ok_mono unfolding account_inv_def by (metis le_SucI order_refl)
  moreover have "owners_ok (issue_verification sec (revoke_pending_verifications d (row_id u)) u t)"
    using inv k unfolding account_inv_def owners_ok_def
    by (auto simp: flow_defs live_update_all less_SucI) (auto simp: new_verification_def)
  moreover have "verifications.evolves sec (next_id d) (now d) (email_verifications d) (Suc (next_id d)) (now d)
      (live_update (\<lambda>v. ev_user_id v = row_id u \<and> ev_status v = EV_PENDING)
         (\<lambda>v. v\<lparr>ev_status := EV_REVOKED, ev_revoked_at := Some (now d)\<rparr>) (email_verifications d) @ [new_verification sec d (row_id u) t])"
    using inv by (intro verification_evolves) (simp_all add: account_inv_def)
  moreover have "new_verification sec (revoke_pending_verifications d (row_id u)) (row_id u) t = new_verification sec d (row_id u) t"
    by (rule new_verification_cong) (simp_all add: flow_defs)
  ultimately show ?thesis by (simp add: flows_def kept_evolves flow_defs verifications_evolve_def)
qed

lemma flows_signup:
  assumes inv: "account_inv sec d" and u: "row_id u = next_id d"
  shows "flows sec d (issue_verification sec (insert_user d u rs) u t)"
proof -
  have o: "\<forall>v\<in>set (email_verifications d). ev_user_id v < next_id d" using inv by (simp add: account_inv_def owners_ok_def)
  have "keys_ok (Suc (next_id d)) (users d @ [u])" using inv keys_ok_append u by (auto simp: account_inv_def)
  then have "keys_ok (Suc (Suc (next_id d))) (users d @ [u])" by (rule keys_ok_mono) simp
  moreover have "owners_ok (issue_verification sec (insert_user d u rs) u t)"
    using inv u unfolding account_inv_def owners_ok_def
    by (auto simp: flow_defs less_SucI) (auto simp: new_verification_def)
  moreover have "live_update (\<lambda>v. ev_user_id v = row_id u \<and> ev_status v = EV_PENDING)
         (\<lambda>v. v\<lparr>ev_status := EV_REVOKED, ev_revoked_at := Some 0\<rparr>) (email_verifications d) = email_verifications d"
    unfolding live_update_def by (rule map_idI) (use o u in auto)
  moreover have "verifications.evolves sec (next_id d) (now d) (email_verifications d) (Suc (next_id (insert_user d u rs))) (now d)
      (live_update (\<lambda>v. ev_user_id v = row_id u \<and> ev_status v = EV_PENDING)
         (\<lambda>v. v\<lparr>ev_status := EV_REVOKED, ev_revoked_at := Some 0\<rparr>) (email_verifications d) @
         [new_verification sec (insert_user d u rs) (row_id u) t])"
    using inv by (intro verification_evolves) (simp_all add: account_inv_def flow_defs)
  ultimately show ?thesis by (simp add: flows_def kept_evolves flow_defs verifications_evolve_def)
qed

lemma flows_register:
  assumes "account_inv sec d" "register_user sec env d email pw form = Inr d'"
  shows "flows sec d d'"
  using assms(2) by (cases rule: register_cases)
     (use assms(1) flows_refl flows_signup flows_reverify flows_reissue in \<open>blast+\<close>)

lemma get_user_row_id: "get_user d i = Inr u \<Longrightarrow> row_id u = i"
  by (auto simp: get_user_def dest!: live_by_id_SomeD)

text \<open>Resending a verification either does nothing or re-issues the link of a pending account.\<close>

lemma resend_cases:
  obtains (none) "resend_verification sec env d email = d"
  | (pending) u where "get_user d (row_id u) = Inr u"
      "resend_verification sec env d email = issue_verification sec (revoke_pending_verifications d (row_id u)) u
         (ps_email_verification_ttl_hours (get_platform_settings env d))"
proof (cases "get_user_by_email d email")
  case None
  then show ?thesis using none by (simp add: resend_verification_def)
next
  case (Some e)
  show ?thesis
  proof (cases "u_status e = USER_PENDING \<and> (\<exists>u. get_user d (row_id e) = Inr u \<and> u_status u = USER_PENDING)")
    case True
    then obtain u where "u_status e = USER_PENDING" and u: "get_user d (row_id e) = Inr u" "u_status u = USER_PENDING" by blast
    moreover from u(1) have "row_id u = row_id e" by (rule get_user_row_id)
    ultimately show ?thesis using pending [of u] Some by (simp add: resend_verification_def)
  next
    case False
    then show ?thesis using none Some by (auto simp: resend_verification_def split: sum.splits)
  qed
qed

lemma flows_resend: "account_inv sec d \<Longrightarrow> flows sec d (resend_verification sec env d email)"
  by (cases rule: resend_cases [of sec env d email]) (simp_all add: flows_refl flows_reverify)

lemma issue_reset_sel:
  assumes "issue_password_reset sec env d u = (mail, d')"
  shows "users d' = users d" "next_id d' = Suc (next_id d)" "now d' = now d" "invitations d' = invitations d"
    "email_verifications d' = email_verifications d" "settings_row d' = settings_row d"
    "password_resets d' = live_update (\<lambda>r. pr_user_id r = row_id u \<and> pr_status r = PR_PENDING)
        (\<lambda>r. r\<lparr>pr_status := PR_REVOKED, pr_revoked_at := Some (now d)\<rparr>) (password_resets d) @ [new_reset sec env d (row_id u)]"
  using assms by (auto simp: issue_password_reset_def revoke_pending_resets_def Let_def new_reset_def)

lemma flows_issue_reset:
  assumes inv: "account_inv sec d" and i: "issue_password_reset sec env d u = (mail, d')" and "users d2 = users d'"
    "next_id d' \<le> next_id d2" "now d2 = now d'" "invitations d2 = invitations d'" "email_verifications d2 = email_verifications d'"
    "password_resets d2 = password_resets d'"
  shows "flows sec d d2"
proof -
  have r: "resets_evolve sec d d'" using inv issue_evolves [OF _ i] by (simp add: account_inv_def)
  moreover have "resets.evolves sec n t a m s b \<Longrightarrow> m \<le> m' \<Longrightarrow> resets.evolves sec n t a m' s b" for n t a m s b m'
    by (fastforce simp: resets.evolves_def)
  ultimately have "resets_evolve sec d d2" using assms(3-) unfolding resets_evolve_def by metis
  moreover have "keys_ok (next_id d2) (users d2)"
    using inv keys_ok_mono [of "next_id d" "users d" "next_id d2"] assms(3,4) issue_reset_sel [OF i] by (simp add: account_inv_def)
  ultimately show ?thesis
    using inv issue_reset_sel [OF i] assms(3-) owners_kept [of d d2] unfolding flows_def account_inv_def
    by (simp add: kept_evolves)
qed

text \<open>A self-service reset request does nothing, or issues one link to an account whose window allows it.\<close>

lemma request_cases:
  obtains (none) "request_password_reset sec env d email = d"
  | (issued) u mail d1 where "get_user d (row_id u) = Inr u"
      "throttle_reason (get_platform_settings env d) d (row_id u) = None" "issue_password_reset sec env d u = (mail, d1)"
      "request_password_reset sec env d email = send_email d1 ''password_reset'' (fst mail) (Some (snd mail))"
proof (cases "request_password_reset sec env d email = d")
  case False
  then obtain e u where "get_user_by_email d email = Some e" "ineligible_reason e = None" and u: "get_user d (row_id e) = Inr u"
      and i: "ineligible_reason u = None" and t: "throttle_reason (get_platform_settings env d) d (row_id u) = None"
    by (auto simp: request_password_reset_def split: option.splits sum.splits if_splits)
  moreover have "row_id u = row_id e" using u by (rule get_user_row_id)
  moreover obtain mail d1 where "issue_password_reset sec env d u = (mail, d1)" by (cases "issue_password_reset sec env d u")
  ultimately show ?thesis using issued [of u mail d1] by (cases mail) (simp add: request_password_reset_def)
qed (rule none)

lemma flows_request:
  assumes inv: "account_inv sec d"
  shows "flows sec d (request_password_reset sec env d email)"
proof (cases rule: request_cases [of sec env d email])
  case (issued u mail d1)
  then show ?thesis using flows_issue_reset [OF inv issued(3)] by (simp add: flow_defs)
qed (simp add: flows_refl inv)

subsection \<open>Requests with a link\<close>

lemma verify_Inr:
  assumes "verify_email sec d raw = Inr (u', d')"
  obtains v u where "List.find (\<lambda>v. ev_token_hash v = se_hash_token sec raw) (live_select (email_verifications d)) = Some v"
    "ev_status v = EV_PENDING" "now d < ev_expires_at v" "get_user d (ev_user_id v) = Inr u"
    "u' = u\<lparr>u_status := USER_ACTIVE, u_email_verified_at := Some (now d)\<rparr>"
    "users d' = save_row u' (users d)" "next_id d' = next_id d" "now d' = now d"
    "email_verifications d' = save_row (v\<lparr>ev_status := EV_VERIFIED, ev_verified_at := Some (now d)\<rparr>) (email_verifications d)"
    "invitations d' = invitations (accept_pending_invitations d (row_id u))" "password_resets d' = password_resets d"
    "settings_row d' = settings_row d"
  using assms
  by (auto simp: verify_email_def svc_simps Let_def project_expired_pending save_user_def accept_pending_invitations_def flow_defs)

lemma accept_Inr:
  assumes "accept_invitation sec env d raw pw form = Inr (u', d')"
  obtains i u where "find_invitation sec d raw = Inr i" "iv_status i = INV_PENDING" "now d < iv_expires_at i"
    "live_by_id (iv_user_id i) (users d) = Some u" "u_status u \<in> {USER_INVITED, USER_PENDING}"
    "row_id u' = row_id u" "u_password u' = Some (se_hash_password sec pw)" "u_status u' = USER_ACTIVE"
    "users d' = save_row u' (users d)" "next_id d' = next_id d" "now d' = now d"
    "email_verifications d' = email_verifications d" "password_resets d' = password_resets d" "settings_row d' = settings_row d"
    "invitations d' = invitations (accept_pending_invitations
       (d\<lparr>invitations := save_row (i\<lparr>iv_status := INV_ACCEPTED, iv_accepted_at := Some (now d)\<rparr>) (invitations d)\<rparr>) (row_id u))"
proof -
  have c: "row_id (record_signup_consent x doc e t) = row_id x" "u_password (record_signup_consent x doc e t) = u_password x"
    "u_status (record_signup_consent x doc e t) = u_status x" for x doc e t
    by (auto simp: record_signup_consent_def Let_def split: option.split)
  show ?thesis using assms that
    by (auto simp: accept_invitation_def svc_simps Let_def invitation_effective_def project_expired_pending save_user_def
        accept_pending_invitations_def flow_defs c)
qed

lemma sweep_advances: "invites.advances t (live_update (\<lambda>i. iv_user_id i = uid \<and> iv_status i = INV_PENDING \<and> Q i)
    (\<lambda>i. i\<lparr>iv_status := INV_ACCEPTED, iv_accepted_at := Some s\<rparr>) t)"
  by (rule invites.advances_live_update) (simp add: invites.closes_consume)

lemma sweep_evolves: "next_id d' = next_id d \<Longrightarrow> now d' = now d \<Longrightarrow>
    invitations d' = invitations (accept_pending_invitations d uid) \<Longrightarrow> invites_evolve sec d d'"
  using sweep_advances unfolding invites_evolve_def invites.evolves_def accept_pending_invitations_def by auto

lemma owners_sweep: "(\<forall>i\<in>set (invitations (accept_pending_invitations d uid)). iv_user_id i < n) \<longleftrightarrow> (\<forall>i\<in>set (invitations d). iv_user_id i < n)"
  by (simp add: accept_pending_invitations_def live_update_all)

lemma flows_verify:
  assumes inv: "account_inv sec d" and s: "verify_email sec d raw = Inr (u', d')"
  shows "flows sec d d'"
  using s
proof (rule verify_Inr)
  fix v u assume f: "List.find (\<lambda>v. ev_token_hash v = se_hash_token sec raw) (live_select (email_verifications d)) = Some v"
    and p: "ev_status v = EV_PENDING" and u: "get_user d (ev_user_id v) = Inr u"
    and u': "u' = u\<lparr>u_status := USER_ACTIVE, u_email_verified_at := Some (now d)\<rparr>" and us: "users d' = save_row u' (users d)"
    and same: "next_id d' = next_id d" "now d' = now d" "password_resets d' = password_resets d"
    and ev: "email_verifications d' = save_row (v\<lparr>ev_status := EV_VERIFIED, ev_verified_at := Some (now d)\<rparr>) (email_verifications d)"
    and iv: "invitations d' = invitations (accept_pending_invitations d (row_id u))"
  have v: "v \<in> set (email_verifications d)" using find_SomeD [OF f] by simp
  have "verifications_evolve sec d d'"
    unfolding verifications_evolve_def same ev
    by (rule verifications.evolves_consume [OF _ v p]) (use inv in \<open>simp_all add: account_inv_def verifications_ok_def\<close>)
  moreover have "invites_evolve sec d d'" using sweep_evolves same(1,2) iv by blast
  moreover have "keys_ok (next_id d') (users d')" using inv user_below [OF inv u] by (simp add: us same u' account_inv_def)
  moreover have "owners_ok d'"
    unfolding owners_ok_def same iv ev owners_sweep using inv v by (auto simp: account_inv_def owners_ok_def save_row_def)
  ultimately show ?thesis using same by (simp add: flows_def kept_evolves)
qed

lemma find_invitation_member: "find_invitation sec d raw = Inr i \<Longrightarrow>
    i \<in> set (invitations d) \<and> iv_token_hash i = se_hash_token sec raw"
  by (auto simp: find_invitation_def dest!: find_SomeD)

lemma flows_accept:
  assumes inv: "account_inv sec d" and s: "accept_invitation sec env d raw pw form = Inr (u', d')"
  shows "flows sec d d'"
  using s
proof (rule accept_Inr)
  fix i u assume f: "find_invitation sec d raw = Inr i" and p: "iv_status i = INV_PENDING"
    and u: "live_by_id (iv_user_id i) (users d) = Some u" "row_id u' = row_id u" and us: "users d' = save_row u' (users d)"
    and same: "next_id d' = next_id d" "now d' = now d" "email_verifications d' = email_verifications d" "password_resets d' = password_resets d"
    and iv: "invitations d' = invitations (accept_pending_invitations
       (d\<lparr>invitations := save_row (i\<lparr>iv_status := INV_ACCEPTED, iv_accepted_at := Some (now d)\<rparr>) (invitations d)\<rparr>) (row_id u))"
  have i: "i \<in> set (invitations d)" using find_invitation_member [OF f] by simp
  have "distinct (map row_id (invitations d))"
    using inv by (simp add: account_inv_def invites_ok_def invites.tokens_ok_def keys_ok_def)
  then have "invites.advances (invitations d) (save_row (i\<lparr>iv_status := INV_ACCEPTED, iv_accepted_at := Some (now d)\<rparr>) (invitations d))"
    using invites.advances_save_row i invites.closes_consume [OF p] by blast
  then have "invites.advances (invitations d) (invitations d')"
    unfolding iv accept_pending_invitations_def using invites.advances_trans sweep_advances by simp
  then have "invites_evolve sec d d'" using same by (simp add: invites_evolve_def invites.evolves_def)
  moreover have "get_user d (row_id u) = Inr u" using u(1) live_by_id_SomeD [OF u(1)] by (simp add: get_user_def)
  then have "row_id u < next_id d" using user_below [OF inv] by blast
  then have "keys_ok (next_id d') (users d')" using inv u by (simp add: us same account_inv_def)
  moreover have "owners_ok d'"
    unfolding owners_ok_def same iv owners_sweep using inv i by (auto simp: account_inv_def owners_ok_def save_row_def)
  ultimately show ?thesis using same by (simp add: flows_def kept_evolves)
qed

lemma flows_users_only:
  assumes inv: "account_inv sec d" and "row_id u < next_id d" "users d' = save_row u (users d)" "next_id d \<le> next_id d'" "now d' = now d"
    "invitations d' = invitations d" "email_verifications d' = email_verifications d" "password_resets d' = password_resets d"
  shows "flows sec d d'"
proof -
  have "keys_ok (next_id d) (users d')" using inv assms(2,3) by (simp add: account_inv_def)
  then have "keys_ok (next_id d') (users d')" using assms(4) by (rule keys_ok_mono)
  then show ?thesis using assms(4-) inv owners_kept [of d d'] by (simp add: flows_def kept_evolves account_inv_def)
qed

lemma flows_confirm:
  assumes inv: "account_inv sec d" and s: "confirm_password_reset sec env up d raw pw = Inr d'"
  shows "flows sec d d'"
proof -
  have "resets_evolve sec d d'" using confirm_evolves [OF _ s] inv by (simp add: account_inv_def)
  moreover have "keys_ok (next_id d') (users d') \<and> owners_ok d' \<and> next_id d' = next_id d \<and> now d' = now d \<and>
      invitations d' = invitations d \<and> email_verifications d' = email_verifications d"
    using s
  proof (rule confirm_Inr)
    fix r u assume u: "List.find (\<lambda>u. row_id u = pr_user_id r) (users d) = Some u"
      and d': "d' = revoke_user_sessions (d\<lparr>users := save_row (u\<lparr>u_password := Some (se_hash_password sec pw)\<rparr>) (users d),
        password_resets := save_row (r\<lparr>pr_status := PR_USED, pr_used_at := Some (now d)\<rparr>) (password_resets d)\<rparr>) (row_id u)"
    have "u \<in> set (users d)" using find_SomeD [OF u] by simp
    then have "row_id u < next_id d" using inv by (simp add: account_inv_def keys_ok_def)
    then show ?thesis using inv by (simp add: d' account_inv_def revoke_user_sessions_def owners_ok_def)
  qed
  ultimately show ?thesis by (auto simp: flows_def kept_evolves)
qed

lemma change_Inr:
  assumes "change_own_password sec env up d u old new = Inr d'"
  obtains h where "u_password u = Some h" "se_verify_password sec old h"
    "d' = revoke_user_sessions (d\<lparr>users := save_row (u\<lparr>u_password := Some (se_hash_password sec new)\<rparr>) (users d)\<rparr>) (row_id u)"
  using assms by (auto simp: change_own_password_def svc_simps revoke_sessions_def save_user_def)

lemma flows_change:
  assumes inv: "account_inv sec d" and u: "get_user d i = Inr u" and s: "change_own_password sec env up d u old new = Inr d'"
  shows "flows sec d d'"
  using s
proof (rule change_Inr)
  assume "d' = revoke_user_sessions (d\<lparr>users := save_row (u\<lparr>u_password := Some (se_hash_password sec new)\<rparr>) (users d)\<rparr>) (row_id u)"
  then show ?thesis
    using flows_users_only [OF inv, of "u\<lparr>u_password := Some (se_hash_password sec new)\<rparr>" d'] user_below [OF inv u]
    by (simp add: revoke_user_sessions_def)
qed


subsection \<open>Requests by staff\<close>

lemma grant_roles_keeps:
  "grant_roles d t i u rs = Inr d' \<Longrightarrow> users d' = users d \<and> now d' = now d \<and> next_id d \<le> next_id d' \<and> invitations d' = invitations d \<and>
     email_verifications d' = email_verifications d \<and> password_resets d' = password_resets d \<and> settings_row d' = settings_row d"
  by (induction d t i u rs rule: grant_roles.induct) (auto simp: Let_def svc_simps split: if_splits)

lemma assign_group_roles_keeps:
  assumes "assign_group_roles d g u rs b = Inr d'"
  shows "users d' = users d \<and> now d' = now d \<and> next_id d \<le> next_id d' \<and> invitations d' = invitations d \<and>
     email_verifications d' = email_verifications d \<and> password_resets d' = password_resets d \<and> settings_row d' = settings_row d"
proof -
  have "(\<exists>m. set_member_roles d EVALUATION_GROUP g u rs b = Inr (m, d')) \<or> (\<exists>m. add_member d EVALUATION_GROUP g u rs = Inr (m, d'))"
    using assms by (auto simp: assign_group_roles_def svc_simps case_prod_beta split: if_splits)
  then show ?thesis
  proof (elim disjE exE)
    fix m assume "set_member_roles d EVALUATION_GROUP g u rs b = Inr (m, d')"
    then show ?thesis by (rule set_member_roles_Inr) (auto dest!: grant_roles_keeps)
  next
    fix m assume "add_member d EVALUATION_GROUP g u rs = Inr (m, d')"
    then show ?thesis using grant_roles_keeps add_member_Inr by blast
  qed
qed

lemma invites_evolves_mono: "invites.evolves sec n t a m s b \<Longrightarrow> m \<le> m' \<Longrightarrow> invites.evolves sec n t a m' s b"
  by (fastforce simp: invites.evolves_def)

lemma flows_invitation:
  assumes inv: "account_inv sec d" and m: "next_id d \<le> next_id m" "now m = now d" "keys_ok (next_id m) (users m)" "uid < next_id m"
    and d': "users d' = users m" "Suc (next_id m) \<le> next_id d'" "now d' = now d" "email_verifications d' = email_verifications d"
      "password_resets d' = password_resets d"
    and iv: "invitations d' = live_update (pending_in_scope uid scope)
        (\<lambda>i. i\<lparr>iv_status := INV_REVOKED, iv_revoked_at := Some s\<rparr>) (invitations d) @ [new_invitation sec env m uid inviter scope]"
  shows "flows sec d d'"
proof -
  have le: "next_id d \<le> next_id d'" using m(1) d'(2) by simp
  have "invites_evolve sec d d'"
    unfolding invites_evolve_def iv d'(3)
    by (rule invites_evolves_mono [OF reissue_evolves [OF _ m(1,2)] d'(2)]) (use inv in \<open>simp add: account_inv_def\<close>)
  moreover have "keys_ok (next_id d') (users d')" unfolding d'(1) by (rule keys_ok_mono [OF m(3)]) (use d'(2) in simp)
  moreover have "owners_ok d'"
    using inv le m(4) d'(2) unfolding account_inv_def owners_ok_def iv d'(4)
    by (auto simp: live_update_all) (auto simp: new_invitation_def intro: less_le_trans)
  ultimately show ?thesis using le d' by (simp add: flows_def kept_evolves)
qed

text \<open>A fresh account has nothing to revoke.\<close>

lemma fresh_account_scope:
  assumes "account_inv sec d"
  shows "live_update (pending_in_scope (next_id d) scope) f (invitations d) = invitations d"
  unfolding live_update_def by (rule map_idI) (use assms in \<open>auto simp: account_inv_def owners_ok_def pending_in_scope_def\<close>)

lemma get_user_by_email_member:
  assumes "account_inv sec d" "get_user_by_email d email = Some u"
  shows "get_user d (row_id u) = Inr u"
proof -
  have "u \<in> set (users d)" "deleted_at u = None" using assms(2) by (auto simp: get_user_by_email_def dest!: find_SomeD)
  then show ?thesis using live_by_id_member assms(1) by (fastforce simp: get_user_def account_inv_def keys_ok_def)
qed

lemma add_invitation_sel [flow_defs]:
  "add_invitation sec env d uid by scope = (new_invitation sec env d uid by scope,
     d\<lparr>invitations := invitations d @ [new_invitation sec env d uid by scope], next_id := Suc (next_id d)\<rparr>)"
  by (simp add: add_invitation_def Let_def)

lemma new_invitation_cong: "next_id m = next_id d \<Longrightarrow> now m = now d \<Longrightarrow>
    new_invitation sec env m uid by scope = new_invitation sec env d uid by scope"
  by (simp add: new_invitation_def)

lemma invite_cases:
  assumes "invite_to_platform sec env d email ids c True = Inr (x, d')"
  obtains u m where "(get_user_by_email d email = Some u \<and> u_status u = USER_INVITED \<and> m = snd (revoke_pending_invitations d (row_id u) None)) \<or>
      (get_user_by_email d email = None \<and> u = new_user d email USER_INVITED \<and> (\<exists>rs. m = insert_user d u rs))"
    "d' = send_email (snd (add_invitation sec env m (row_id u) (Some (su_id c)) None)) ''platform_invitation'' (u_email u)
       (Some (se_raw_token sec (next_id m)))"
proof -
  obtain rs u m where r: "(case get_user_by_email d email of
         Some existing \<Rightarrow>
           bindE (ensure (u_status existing \<noteq> USER_ACTIVE) (ConflictError (Msg ''User already active.'' []))) (\<lambda>_.
           bindE (ensure (u_status existing \<noteq> USER_PENDING) (ConflictError (Msg ''User registration in progress.'' []))) (\<lambda>_.
           bindE (ensure (u_status existing \<noteq> USER_INACTIVE)
             (ConflictError (Msg ''User is deactivated. Reactivate via PATCH /users/{id} first.'' []))) (\<lambda>_.
           bindE (ensure (roles_match d existing (map row_id rs)) (ConflictError (Msg
               ''User has different role assignment. Use PATCH /users/{id} to change roles, then reissue invitation.'' []))) (\<lambda>_.
           Inr (existing, snd (revoke_pending_invitations d (row_id existing) None))))))
       | None \<Rightarrow> let u = new_user d email USER_INVITED in Inr (u, insert_user d u rs)) = Inr (u, m)"
    and d': "d' = send_email (snd (add_invitation sec env m (row_id u) (Some (su_id c)) None)) ''platform_invitation'' (u_email u)
       (Some (se_raw_token sec (next_id m)))"
    using assms by (auto simp: invite_to_platform_def svc_simps Let_def case_prod_beta add_invitation_sel new_invitation_def)
  have "(get_user_by_email d email = Some u \<and> u_status u = USER_INVITED \<and> m = snd (revoke_pending_invitations d (row_id u) None)) \<or>
      (get_user_by_email d email = None \<and> u = new_user d email USER_INVITED \<and> (\<exists>rs. m = insert_user d u rs))"
  proof (cases "get_user_by_email d email")
    case (Some e)
    with r show ?thesis by (cases "u_status e") (auto simp: svc_simps)
  qed (use r in \<open>auto simp: Let_def\<close>)
  then show ?thesis using that d' by blast
qed

lemma flows_invite:
  assumes inv: "account_inv sec d" and s: "invite_to_platform sec env d email ids c True = Inr (x, d')"
  shows "flows sec d d'"
  using s
proof (rule invite_cases)
  fix u m
  assume d': "d' = send_email (snd (add_invitation sec env m (row_id u) (Some (su_id c)) None)) ''platform_invitation'' (u_email u)
       (Some (se_raw_token sec (next_id m)))"
    and "(get_user_by_email d email = Some u \<and> u_status u = USER_INVITED \<and> m = snd (revoke_pending_invitations d (row_id u) None)) \<or>
      (get_user_by_email d email = None \<and> u = new_user d email USER_INVITED \<and> (\<exists>rs. m = insert_user d u rs))"
  then consider (old) "get_user_by_email d email = Some u" "m = snd (revoke_pending_invitations d (row_id u) None)"
    | (new) rs where "u = new_user d email USER_INVITED" "m = insert_user d u rs" by blast
  then show ?thesis
  proof cases
    case old
    have b: "row_id u < next_id d" using user_below [OF inv get_user_by_email_member [OF inv old(1)]] by simp
    show ?thesis
      by (rule flows_invitation [OF inv, where m = m and uid = "row_id u" and scope = None and s = "now d" and env = env and inviter = "Some (su_id c)"])
        (use b inv in \<open>simp_all add: d' flow_defs old(2) revoke_pending_invitations_def account_inv_def\<close>)
  next
    case new
    have id: "row_id u = next_id d" by (simp add: new(1) new_user_def)
    then have k: "keys_ok (Suc (next_id d)) (users d @ [u])" using inv keys_ok_append by (auto simp: account_inv_def)
    show ?thesis
      by (rule flows_invitation [OF inv, where m = m and uid = "row_id u" and scope = None and s = "now d" and env = env and inviter = "Some (su_id c)"])
        (use k in \<open>simp_all add: d' flow_defs new(2) id fresh_account_scope [OF inv]\<close>)
  qed
qed


lemma group_cases:
  assumes "invite_to_group sec env d g c email ids = Inr (y, d')"
  obtains (assigned) u rs where "assign_group_roles d g u rs (su_id c) = Inr d'"
  | (invited) u m rs d2 where "(get_user_by_email d email = Some u \<and> m = d) \<or>
        (get_user_by_email d email = None \<and> u = new_user d email USER_INVITED \<and> (\<exists>r. m = insert_user d u [r]))"
      "assign_group_roles m g u rs (su_id c) = Inr d2" "d' = snd (create_object_invitation sec env d2 u (su_id c) EVALUATION_GROUP g)"
proof (cases "get_user_by_email d email")
  case None
  with assms obtain rs r d2 where "assign_group_roles (insert_user d (new_user d email USER_INVITED) [r]) g
        (new_user d email USER_INVITED) rs (su_id c) = Inr d2"
      "d' = snd (create_object_invitation sec env d2 (new_user d email USER_INVITED) (su_id c) EVALUATION_GROUP g)"
    by (auto simp: invite_to_group_def svc_simps Let_def create_invited_user_def create_object_invitation_def add_invitation_sel)
  then show ?thesis using invited None by blast
next
  case (Some u)
  show ?thesis
  proof (cases "u_status u = USER_ACTIVE")
    case True
    with Some assms show ?thesis using assigned by (auto simp: invite_to_group_def svc_simps Let_def)
  next
    case False
    with Some assms obtain rs d2 where "assign_group_roles d g u rs (su_id c) = Inr d2"
        "d' = snd (create_object_invitation sec env d2 u (su_id c) EVALUATION_GROUP g)"
      by (auto simp: invite_to_group_def svc_simps Let_def create_object_invitation_def add_invitation_sel)
    then show ?thesis using invited Some by blast
  qed
qed

lemma create_object_invitation_sel:
  assumes "d' = snd (create_object_invitation sec env d u b t x)"
  shows "users d' = users d" "next_id d' = Suc (next_id d)" "now d' = now d" "email_verifications d' = email_verifications d"
    "password_resets d' = password_resets d" "settings_row d' = settings_row d"
    "invitations d' = live_update (pending_in_scope (row_id u) (Some (t, x)))
        (\<lambda>i. i\<lparr>iv_status := INV_REVOKED, iv_revoked_at := Some (now d)\<rparr>) (invitations d) @
        [new_invitation sec env d (row_id u) (Some b) (Some (t, x))]"
  using assms by (simp_all add: create_object_invitation_def add_invitation_sel revoke_pending_invitations_def new_invitation_def)

lemma flows_kept:
  assumes inv: "account_inv sec d" and "users d' = users d" "now d \<le> now d'" "next_id d \<le> next_id d'" "invitations d' = invitations d"
     "email_verifications d' = email_verifications d" "password_resets d' = password_resets d"
  shows "flows sec d d'"
  using assms owners_kept [of d d'] keys_ok_mono [of "next_id d" "users d" "next_id d'"] by (simp add: flows_def kept_evolves account_inv_def)

lemma flows_invite_group:
  assumes inv: "account_inv sec d" and s: "invite_to_group sec env d g c email ids = Inr (y, d')"
  shows "flows sec d d'"
  using s
proof (cases rule: group_cases)
  case (assigned u rs)
  then show ?thesis using flows_kept [OF inv, of d'] assign_group_roles_keeps [OF assigned] by simp
next
  case (invited u m rs d2)
  have m: "next_id d \<le> next_id m \<and> now m = now d \<and> keys_ok (next_id m) (users m) \<and> row_id u < next_id m \<and> invitations m = invitations d \<and>
      email_verifications m = email_verifications d \<and> password_resets m = password_resets d"
    using invited(1)
  proof (elim disjE conjE exE)
    assume "get_user_by_email d email = Some u" "m = d"
    then show ?thesis using inv user_below [OF inv get_user_by_email_member [OF inv]] by (simp add: account_inv_def)
  next
    fix r assume u: "u = new_user d email USER_INVITED" and m: "m = insert_user d u [r]"
    have id: "row_id u = next_id d" by (simp add: u new_user_def)
    then have "keys_ok (Suc (next_id d)) (users d @ [u])" using inv keys_ok_append by (auto simp: account_inv_def)
    then show ?thesis by (simp add: m flow_defs id)
  qed
  note a = assign_group_roles_keeps [OF invited(2)] and c = create_object_invitation_sel [OF invited(3)]
  have k: "keys_ok (next_id d2) (users d2)" using m a keys_ok_mono [of "next_id m" "users m" "next_id d2"] by simp
  show ?thesis
    by (rule flows_invitation [OF inv, where m = d2 and uid = "row_id u" and scope = "Some (EVALUATION_GROUP, g)" and s = "now d"
        and env = env and inviter = "Some (su_id c)"]) (use m a c k in simp_all)
qed

lemma status_Inr:
  assumes "change_user_status_endpoint up d c i st = Inr (w, d')"
  obtains u d1 d2 a b where "get_user d i = Inr u" "change_user_status d u st = Inr (w, d1)"
    "d2 = d1 \<or> d2 = revoke_user_sessions d1 (row_id w)" "d' = audit_user d2 c ''user.status_change'' (row_id w) a b"
    "has_permission USERS_UPDATE (su_permissions c)"
  using assms
  by (auto simp: change_user_status_endpoint_def require_permission_def svc_simps revoke_sessions_def Let_def case_prod_beta split: if_splits)
     (metis (no_types))+

lemma flows_staff:
  assumes inv: "account_inv sec d"
  shows "resend_user_invitation_endpoint sec env d c i = Inr (v, d') \<Longrightarrow> flows sec d d'"
    and "revoke_user_invitation_endpoint d c i = Inr d' \<Longrightarrow> flows sec d d'"
    and "send_user_password_reset_endpoint sec env d c i = Inr d' \<Longrightarrow> flows sec d d'"
    and "change_user_status_endpoint up d c i st = Inr (w, d') \<Longrightarrow> flows sec d d'"
    and "force_logout_user_endpoint up d c i = Inr (j, d') \<Longrightarrow> flows sec d d'"
proof -
  assume "resend_user_invitation_endpoint sec env d c i = Inr (v, d')"
  then obtain u where u: "get_user d i = Inr u"
    and d': "d' = audit_user (snd (reissue_platform_invitation sec env d u (Some c))) c ''invitation.resend'' (row_id u) None None"
    by (auto simp: resend_user_invitation_endpoint_def svc_simps case_prod_beta Let_def)
  have f: "flows sec d (snd (reissue_platform_invitation sec env d u (Some c)))"
    using flows_reissue [OF inv] u get_user_row_id [OF u] by simp
  have "flows sec (snd (reissue_platform_invitation sec env d u (Some c))) d'"
    by (rule flows_kept [OF flows_inv [OF inv f]]) (simp_all add: d' flow_defs)
  then show "flows sec d d'"
    using f invites_evolves_mono unfolding flows_def invites_evolve_def verifications_evolve_def resets_evolve_def
    by (fastforce simp: d' flow_defs verifications.evolves_kept resets.evolves_kept)
next
  assume "revoke_user_invitation_endpoint d c i = Inr d'"
  then obtain u where "get_user d i = Inr u"
    and d': "d' = audit_user (snd (revoke_pending_invitations d (row_id u) None)) c ''invitation.revoke'' (row_id u) None None"
    by (auto simp: revoke_user_invitation_endpoint_def revoke_platform_invitation_def svc_simps case_prod_beta Let_def)
  have "invites.evolves sec (next_id d) (now d) (invitations d) (Suc (next_id d)) (now d) (live_update (pending_in_scope (row_id u) None)
      (\<lambda>i. i\<lparr>iv_status := INV_REVOKED, iv_revoked_at := Some (now d)\<rparr>) (invitations d))"
    by (rule invites.evolves_revoke) (simp_all add: pending_in_scope_def)
  moreover have "keys_ok (Suc (next_id d)) (users d)" using inv keys_ok_mono unfolding account_inv_def by (metis le_SucI order_refl)
  moreover have "owners_ok d'"
    using inv by (auto simp: account_inv_def owners_ok_def d' flow_defs revoke_pending_invitations_def live_update_all less_SucI)
  ultimately show "flows sec d d'"
    by (simp add: flows_def kept_evolves d' flow_defs revoke_pending_invitations_def invites_evolve_def)
next
  assume "send_user_password_reset_endpoint sec env d c i = Inr d'"
  then obtain u where "get_user d i = Inr u" and d': "d' = audit_user (send_email (snd (issue_password_reset sec env d u)) ''password_reset''
        (fst (fst (issue_password_reset sec env d u))) (Some (snd (fst (issue_password_reset sec env d u))))) c
        ''user.credential_reset'' (row_id u) None None"
    by (auto simp: send_user_password_reset_endpoint_def svc_simps case_prod_beta Let_def)
  moreover obtain mail d1 where m: "issue_password_reset sec env d u = (mail, d1)" by (cases "issue_password_reset sec env d u")
  ultimately have d': "d' = audit_user (send_email d1 ''password_reset'' (fst mail) (Some (snd mail))) c ''user.credential_reset'' (row_id u) None None"
    by simp
  show "flows sec d d'" by (rule flows_issue_reset [OF inv m]) (simp_all add: d' flow_defs)
next
  assume "force_logout_user_endpoint up d c i = Inr (j, d')"
  then show "flows sec d d'"
    by (intro flows_kept [OF inv]) (auto simp: force_logout_user_endpoint_def svc_simps revoke_sessions_def revoke_user_sessions_def flow_defs)
next
  assume "change_user_status_endpoint up d c i st = Inr (w, d')"
  then obtain u d1 d2 a b where u: "get_user d i = Inr u" and s: "change_user_status d u st = Inr (w, d1)"
    and d2: "d2 = d1 \<or> d2 = revoke_user_sessions d1 (row_id w)" and d': "d' = audit_user d2 c ''user.status_change'' (row_id w) a b"
    by (rule status_Inr)
  have w: "row_id w = i" "users d1 = save_row w (users d)" "d1 = d\<lparr>users := users d1\<rparr>"
    using s user_below [OF inv u] inv save_row_same [of "users d" u]
    by (auto simp: change_user_status_def svc_simps Let_def account_inv_def keys_ok_def split: if_splits)
  show "flows sec d d'"
    by (rule flows_users_only [OF inv, of w])
      (use w d2 user_below [OF inv u] in \<open>auto simp: d' flow_defs revoke_user_sessions_def\<close>)
qed


subsection \<open>Every step keeps the tables sound\<close>

lemma step_flows: "account_step sec env l d d' \<Longrightarrow> account_inv sec d \<Longrightarrow> flows sec d d'"
proof (induction rule: account_step.induct)
  case (tick s d)
  then show ?case by (intro flows_kept) simp_all
qed (blast intro: flows_register flows_resend flows_request flows_verify flows_accept flows_confirm flows_change flows_invite
      flows_invite_group flows_staff)+

definition account_steps :: "secrets \<Rightarrow> env_defaults \<Rightarrow> db \<Rightarrow> db \<Rightarrow> bool" where
  "account_steps sec env d d' \<longleftrightarrow> (\<exists>l. account_step sec env l d d')"

interpretation account: step_invariant "account_steps sec env" "account_inv sec" for sec env
  by unfold_locales (use step_flows flows_inv in \<open>auto simp: account_steps_def\<close>)

text \<open>A closed link stays closed.\<close>

lemma invites_closed:
  assumes "flows sec d d'" "i \<in> set (invitations d)" "iv_status i \<noteq> INV_PENDING"
  shows "i \<in> set (invitations d')"
proof -
  have "invites_evolve sec d d'" using assms(1) by (simp add: flows_def)
  then show ?thesis unfolding invites_evolve_def using assms(2,3) by (rule invites.evolves_closed)
qed

lemma verifications_closed:
  assumes "flows sec d d'" "v \<in> set (email_verifications d)" "ev_status v \<noteq> EV_PENDING"
  shows "v \<in> set (email_verifications d')"
proof -
  have "verifications_evolve sec d d'" using assms(1) by (simp add: flows_def)
  then show ?thesis unfolding verifications_evolve_def using assms(2,3) by (rule verifications.evolves_closed)
qed

lemma resets_closed:
  assumes "flows sec d d'" "r \<in> set (password_resets d)" "pr_status r \<noteq> PR_PENDING"
  shows "r \<in> set (password_resets d')"
proof -
  have "resets_evolve sec d d'" using assms(1) by (simp add: flows_def)
  then show ?thesis unfolding resets_evolve_def using assms(2,3) by (rule resets.evolves_closed)
qed

lemma closed_links_stay:
  assumes "(account_steps sec env)\<^sup>*\<^sup>* d d'" "account_inv sec d"
  shows "(\<forall>i\<in>set (invitations d). iv_status i \<noteq> INV_PENDING \<longrightarrow> i \<in> set (invitations d')) \<and>
    (\<forall>v\<in>set (email_verifications d). ev_status v \<noteq> EV_PENDING \<longrightarrow> v \<in> set (email_verifications d')) \<and>
    (\<forall>r\<in>set (password_resets d). pr_status r \<noteq> PR_PENDING \<longrightarrow> r \<in> set (password_resets d'))"
  using assms(1)
proof (induction rule: rtranclp_induct)
  case (step d1 d2)
  have f: "flows sec d1 d2"
    using step(2) account.reachable_keeps [OF step(1) assms(2)] step_flows by (auto simp: account_steps_def)
  with step.IH show ?case using invites_closed [OF f] verifications_closed [OF f] resets_closed [OF f] by blast
qed simp

lemma saved_member: "r \<in> set t \<Longrightarrow> row_id r' = row_id r \<Longrightarrow> r' \<in> set (save_row r' t)"
  by (auto simp: in_save_row image_iff)


end
