(* ===== verification/Account_Laws.thy ===== *)
theory Account_Laws
  imports Account_Flows
begin

section \<open>What the account flows guarantee\<close>

text \<open>
  Three laws over the steps of \<open>Account_Flows\<close>: a link works once, a credential is bound only against proof, and the
  self-service reset mails of an account are bounded in every 24 hours.
\<close>

subsection \<open>A link works once\<close>

lemma gone_reset:
  assumes "tokens_sound sec" "resets_ok sec d" "r \<in> set (password_resets d)" "pr_status r \<noteq> PR_PENDING"
    "se_hash_token sec raw = pr_token_hash r"
  shows "\<exists>m. confirm_password_reset sec env up d raw pw = Inl (GoneError m)"
proof -
  have "List.find (\<lambda>x. pr_token_hash x = se_hash_token sec raw) (live_select (password_resets d)) = Some r"
    using resets.find_by_link [OF assms(1) assms(2) [unfolded resets_ok_def] assms(3,5)] .
  then show ?thesis using assms(4) by (simp add: confirm_password_reset_def project_expired_closed Let_def ensure_def)
qed

lemma gone_verification:
  assumes "tokens_sound sec" "verifications_ok sec d" "v \<in> set (email_verifications d)" "ev_status v \<noteq> EV_PENDING"
    "se_hash_token sec raw = ev_token_hash v"
  shows "\<exists>m. verify_email sec d raw = Inl (GoneError m)"
proof -
  have "List.find (\<lambda>x. ev_token_hash x = se_hash_token sec raw) (live_select (email_verifications d)) = Some v"
    using verifications.find_by_link [OF assms(1) assms(2) [unfolded verifications_ok_def] assms(3,5)] .
  then show ?thesis using assms(4) by (simp add: verify_email_def project_expired_closed Let_def ensure_def)
qed

lemma gone_invitation:
  assumes "tokens_sound sec" "invites_ok sec d" "i \<in> set (invitations d)" "iv_status i \<noteq> INV_PENDING"
    "se_hash_token sec raw = iv_token_hash i"
  shows "(\<exists>m. resolve_invitation_or_raise sec d raw = Inl (GoneError m)) \<and> accept_invitation sec env d raw pw form \<noteq> Inr x"
proof -
  have f: "find_invitation sec d raw = Inr i"
    using invites.find_by_link [OF assms(1) assms(2) [unfolded invites_ok_def] assms(3,5)] by (simp add: find_invitation_def)
  have "accept_invitation sec env d raw pw form \<noteq> Inr x"
    using f assms(4) by (cases x) (auto elim!: accept_Inr)
  then show ?thesis using f assms(4)
    by (simp add: resolve_invitation_or_raise_def invitation_effective_def project_expired_closed ensure_def)
qed

text \<open>C26: single use.  A reset, verification or invitation link that was honoured once is answered with 410 Gone ever after, whatever
  requests of any requester come in between.\<close>

theorem link_single_use:
  assumes "tokens_sound sec" "account_inv sec d" "(account_steps sec env)\<^sup>*\<^sup>* d1 d2"
  shows "(confirm_password_reset sec env up d raw pw = Inr d1 \<longrightarrow>
      (\<exists>m. confirm_password_reset sec env up' d2 raw pw' = Inl (GoneError m))) \<and>
    (verify_email sec d raw = Inr (u, d1) \<longrightarrow> (\<exists>m. verify_email sec d2 raw = Inl (GoneError m))) \<and>
    (accept_invitation sec env d raw pw form = Inr (u, d1) \<longrightarrow>
      (\<exists>m. resolve_invitation_or_raise sec d2 raw = Inl (GoneError m)) \<and> accept_invitation sec env d2 raw pw' form' \<noteq> Inr x)"
proof (intro conjI impI)
  assume s: "confirm_password_reset sec env up d raw pw = Inr d1"
  then have i: "account_inv sec d1" using flows_inv [OF assms(2)] flows_confirm [OF assms(2)] by blast
  from s show "\<exists>m. confirm_password_reset sec env up' d2 raw pw' = Inl (GoneError m)"
  proof (rule confirm_Inr)
    fix r u' assume f: "List.find (\<lambda>r. pr_token_hash r = se_hash_token sec raw) (live_select (password_resets d)) = Some r"
      and d1: "d1 = revoke_user_sessions (d\<lparr>users := save_row (u'\<lparr>u_password := Some (se_hash_password sec pw)\<rparr>) (users d),
        password_resets := save_row (r\<lparr>pr_status := PR_USED, pr_used_at := Some (now d)\<rparr>) (password_resets d)\<rparr>) (row_id u')"
    let ?r = "r\<lparr>pr_status := PR_USED, pr_used_at := Some (now d)\<rparr>"
    have r: "r \<in> set (password_resets d)" "pr_token_hash r = se_hash_token sec raw" using find_SomeD [OF f] by simp_all
    have "?r \<in> set (password_resets d1)" using saved_member [OF r(1), of ?r] by (simp add: d1 revoke_user_sessions_def)
    then have "?r \<in> set (password_resets d2)" using closed_links_stay [OF assms(3) i] by simp
    moreover have "resets_ok sec d2" using account.reachable_keeps [OF assms(3) i] by (simp add: account_inv_def)
    ultimately show ?thesis using gone_reset [OF assms(1), of d2 ?r raw env up' pw'] r(2) by simp
  qed
next
  assume s: "verify_email sec d raw = Inr (u, d1)"
  then have i: "account_inv sec d1" using flows_inv [OF assms(2)] flows_verify [OF assms(2)] by blast
  from s show "\<exists>m. verify_email sec d2 raw = Inl (GoneError m)"
  proof (rule verify_Inr)
    fix v u' assume f: "List.find (\<lambda>v. ev_token_hash v = se_hash_token sec raw) (live_select (email_verifications d)) = Some v"
      and e: "email_verifications d1 = save_row (v\<lparr>ev_status := EV_VERIFIED, ev_verified_at := Some (now d)\<rparr>) (email_verifications d)"
    let ?v = "v\<lparr>ev_status := EV_VERIFIED, ev_verified_at := Some (now d)\<rparr>"
    have v: "v \<in> set (email_verifications d)" "ev_token_hash v = se_hash_token sec raw" using find_SomeD [OF f] by simp_all
    have "?v \<in> set (email_verifications d1)" using saved_member [OF v(1), of ?v] by (simp add: e)
    then have "?v \<in> set (email_verifications d2)" using closed_links_stay [OF assms(3) i] by simp
    moreover have "verifications_ok sec d2" using account.reachable_keeps [OF assms(3) i] by (simp add: account_inv_def)
    ultimately show ?thesis using gone_verification [OF assms(1), of d2 ?v raw] v(2) by simp
  qed
next
  assume s: "accept_invitation sec env d raw pw form = Inr (u, d1)"
  then have i: "account_inv sec d1" using flows_inv [OF assms(2)] flows_accept [OF assms(2)] by blast
  have g: "(\<exists>m. resolve_invitation_or_raise sec d2 raw = Inl (GoneError m)) \<and> accept_invitation sec env d2 raw pw' form' \<noteq> Inr x"
    using s
  proof (rule accept_Inr)
    fix j u' assume f: "find_invitation sec d raw = Inr j"
      and e: "invitations d1 = invitations (accept_pending_invitations
       (d\<lparr>invitations := save_row (j\<lparr>iv_status := INV_ACCEPTED, iv_accepted_at := Some (now d)\<rparr>) (invitations d)\<rparr>) (row_id u'))"
    let ?j = "j\<lparr>iv_status := INV_ACCEPTED, iv_accepted_at := Some (now d)\<rparr>"
    have j: "j \<in> set (invitations d)" "iv_token_hash j = se_hash_token sec raw" using find_invitation_member [OF f] by simp_all
    have "?j \<in> set (save_row ?j (invitations d))" using saved_member [OF j(1), of ?j] by simp
    then have "?j \<in> set (invitations d1)" unfolding e accept_pending_invitations_def live_update_def by (force simp: image_iff)
    then have "?j \<in> set (invitations d2)" using closed_links_stay [OF assms(3) i] by simp
    moreover have "invites_ok sec d2" using account.reachable_keeps [OF assms(3) i] by (simp add: account_inv_def)
    ultimately show ?thesis using gone_invitation [OF assms(1), of d2 ?j raw env pw' form' x] j(2) by simp
  qed
  then show "\<exists>m. resolve_invitation_or_raise sec d2 raw = Inl (GoneError m)" "accept_invitation sec env d2 raw pw' form' \<noteq> Inr x"
    by blast+
qed

subsection \<open>A credential is bound only against proof\<close>

definition mailed_proof :: "secrets \<Rightarrow> db \<Rightarrow> string \<Rightarrow> user \<Rightarrow> bool" where
  "mailed_proof sec d raw u \<longleftrightarrow>
     (\<exists>r\<in>set (password_resets d). pr_user_id r = row_id u \<and> pr_status r = PR_PENDING \<and> now d < pr_expires_at r \<and>
        pr_token_hash r = se_hash_token sec raw) \<or>
     (\<exists>i\<in>set (invitations d). iv_user_id i = row_id u \<and> iv_status i = INV_PENDING \<and> now d < iv_expires_at i \<and>
        iv_token_hash i = se_hash_token sec raw)"

definition verification_proof :: "secrets \<Rightarrow> db \<Rightarrow> string \<Rightarrow> user \<Rightarrow> bool" where
  "verification_proof sec d raw u \<longleftrightarrow>
     (\<exists>v\<in>set (email_verifications d). ev_user_id v = row_id u \<and> ev_status v = EV_PENDING \<and> now d < ev_expires_at v \<and>
        ev_token_hash v = se_hash_token sec raw)"

text \<open>What justifies a new password, and what justifies becoming active.\<close>

fun may_set_password :: "secrets \<Rightarrow> db \<Rightarrow> requester \<Rightarrow> user \<Rightarrow> bool" where
  "may_set_password sec d ANONYMOUS u = False"
| "may_set_password sec d (LINK raw) u = mailed_proof sec d raw u"
| "may_set_password sec d (OWN i old) u \<longleftrightarrow> i = row_id u \<and> (\<exists>h. u_password u = Some h \<and> se_verify_password sec old h)"
| "may_set_password sec d (STAFF c) u = False"

fun may_activate :: "secrets \<Rightarrow> db \<Rightarrow> requester \<Rightarrow> user \<Rightarrow> bool" where
  "may_activate sec d ANONYMOUS u = False"
| "may_activate sec d (LINK raw) u \<longleftrightarrow> mailed_proof sec d raw u \<or> verification_proof sec d raw u"
| "may_activate sec d (OWN i old) u = False"
| "may_activate sec d (STAFF c) u \<longleftrightarrow> has_permission USERS_UPDATE (su_permissions c) \<and> u_status u = USER_INACTIVE"

definition justified :: "secrets \<Rightarrow> db \<Rightarrow> requester \<Rightarrow> db \<Rightarrow> user \<Rightarrow> user \<Rightarrow> bool" where
  "justified sec d l d' u u' \<longleftrightarrow>
     (u_password u' \<noteq> u_password u \<longrightarrow> may_set_password sec d l u \<and>
        (u_status u \<in> {USER_INVITED, USER_PENDING} \<or> revoked d' (row_id u) = Some (now d'))) \<and>
     (u_status u' = USER_ACTIVE \<longrightarrow> u_status u = USER_ACTIVE \<or> may_activate sec d l u)"

lemma justified_refl [simp]: "justified sec d l d' u u"
  by (simp add: justified_def)

lemma get_user_users: "users d' = users d \<Longrightarrow> get_user d' i = get_user d i"
  by (simp add: get_user_def)

lemma get_user_append: "users d' = users d @ xs \<Longrightarrow> get_user d i = Inr u \<Longrightarrow> get_user d' i = Inr u"
  by (auto simp: get_user_def live_by_id_def find_append split: option.split)

lemma get_user_saved:
  assumes "users d' = save_row w (users d)" "distinct (map row_id (users d))" "get_user d i = Inr u" "get_user d' i = Inr u'"
    and "get_user d (row_id w) = Inr u0"
  shows "u' = u \<or> (u' = w \<and> u = u0)"
proof -
  have m: "u \<in> set (users d)" "row_id u = i" "u' \<in> set (users d')" "row_id u' = i" "deleted_at u' = None"
    using assms(3,4) by (auto simp: get_user_def dest!: live_by_id_SomeD)
  show ?thesis
  proof (cases "row_id w = i")
    case True
    then have "u' = w" using m by (auto simp: assms(1) in_save_row)
    then show ?thesis using True assms(3,5) by simp
  next
    case False
    then have "u' \<in> set (users d)" using m by (auto simp: assms(1) in_save_row)
    then show ?thesis using m(1,2,4) assms(2) distinct_map_same by metis
  qed
qed

lemma justified_saved:
  assumes "users d' = save_row w (users d)" "account_inv sec d" "get_user d i = Inr u" "get_user d' i = Inr u'"
    and "get_user d (row_id w) = Inr u0" "justified sec d l d' u0 w"
  shows "justified sec d l d' u u'"
  using get_user_saved [OF assms(1) _ assms(3,4,5)] assms(2,6) by (auto simp: account_inv_def keys_ok_def)

lemma justified_kept:
  assumes "users d' = users d \<or> (\<exists>x. users d' = users d @ [x])" "get_user d i = Inr u" "get_user d' i = Inr u'"
  shows "justified sec d l d' u u'"
proof -
  have "u' = u" using assms get_user_append [of d' d _ i u] get_user_users [of d' d i] by auto
  then show ?thesis by simp
qed


lemma anonymous_users:
  assumes "account_step sec env ANONYMOUS d d'"
  shows "users d' = users d \<or> (\<exists>x. users d' = users d @ [x])"
  using assms
proof cases
  case (register email pw form)
  then show ?thesis by (cases rule: register_cases) (auto simp: flow_defs)
next
  case (resend email)
  then show ?thesis by (cases rule: resend_cases [of sec env d email]) (auto simp: flow_defs)
next
  case (request email)
  then show ?thesis by (cases rule: request_cases [of sec env d email]) (auto simp: flow_defs dest: issue_reset_sel)
qed simp

lemma staff_users:
  assumes "account_step sec env (STAFF c) d d'"
  shows "users d' = users d \<or> (\<exists>x. users d' = users d @ [x]) \<or> (\<exists>up i st w. change_user_status_endpoint up d c i st = Inr (w, d'))"
  using assms
proof cases
  case (invite email ids x)
  then show ?thesis by (elim invite_cases) (auto simp: flow_defs revoke_pending_invitations_def)
next
  case (invite_group g email ids y)
  then show ?thesis
  proof (cases rule: group_cases)
    case (invited u m rs d2)
    then have "users d' = users m" using assign_group_roles_keeps create_object_invitation_sel(1) by metis
    then show ?thesis using invited(1) by (auto simp: flow_defs)
  qed (use assign_group_roles_keeps in blast)
next
  case (reinvite i v)
  then show ?thesis
    by (auto simp: resend_user_invitation_endpoint_def svc_simps case_prod_beta Let_def flow_defs)
next
  case (uninvite i)
  then show ?thesis
    by (auto simp: revoke_user_invitation_endpoint_def revoke_platform_invitation_def revoke_pending_invitations_def svc_simps Let_def flow_defs)
next
  case (send i)
  then show ?thesis
    by (auto simp: send_user_password_reset_endpoint_def issue_password_reset_def revoke_pending_resets_def svc_simps Let_def flow_defs)
next
  case (logout up i j)
  then show ?thesis
    by (auto simp: force_logout_user_endpoint_def svc_simps revoke_sessions_def revoke_user_sessions_def flow_defs)
qed blast

lemma verify_justified:
  assumes inv: "account_inv sec d" and s: "verify_email sec d raw = Inr (w, d')" and u: "get_user d i = Inr u" "get_user d' i = Inr u'"
  shows "justified sec d (LINK raw) d' u u'"
  using s
proof (rule verify_Inr)
  fix v u0 assume f: "List.find (\<lambda>v. ev_token_hash v = se_hash_token sec raw) (live_select (email_verifications d)) = Some v"
    and v: "ev_status v = EV_PENDING" "now d < ev_expires_at v" and g: "get_user d (ev_user_id v) = Inr u0"
    and w: "w = u0\<lparr>u_status := USER_ACTIVE, u_email_verified_at := Some (now d)\<rparr>" and us: "users d' = save_row w (users d)"
  have id: "row_id u0 = ev_user_id v" by (rule get_user_row_id [OF g])
  then have "verification_proof sec d raw u0" using find_SomeD [OF f] v by (auto simp: verification_proof_def)
  then have "justified sec d (LINK raw) d' u0 w" by (simp add: justified_def w)
  moreover have "get_user d (row_id w) = Inr u0" using g id by (simp add: w)
  ultimately show ?thesis using justified_saved [OF us inv u] by blast
qed

lemma accept_justified:
  assumes inv: "account_inv sec d" and s: "accept_invitation sec env d raw pw form = Inr (w, d')"
    and u: "get_user d i = Inr u" "get_user d' i = Inr u'"
  shows "justified sec d (LINK raw) d' u u'"
  using s
proof (rule accept_Inr)
  fix j u0 assume f: "find_invitation sec d raw = Inr j" and j: "iv_status j = INV_PENDING" "now d < iv_expires_at j"
    and l: "live_by_id (iv_user_id j) (users d) = Some u0" and st: "u_status u0 \<in> {USER_INVITED, USER_PENDING}"
    and w: "row_id w = row_id u0" and us: "users d' = save_row w (users d)"
  have id: "row_id u0 = iv_user_id j" using live_by_id_SomeD [OF l] by simp
  then have "mailed_proof sec d raw u0" using find_invitation_member [OF f] j unfolding mailed_proof_def by metis
  then have "justified sec d (LINK raw) d' u0 w" using st by (simp add: justified_def)
  moreover have "get_user d (row_id w) = Inr u0" using l id w by (simp add: get_user_def)
  ultimately show ?thesis using justified_saved [OF us inv u] by blast
qed

lemma confirm_justified:
  assumes inv: "account_inv sec d" and s: "confirm_password_reset sec env up d raw pw = Inr d'"
    and u: "get_user d i = Inr u" "get_user d' i = Inr u'"
  shows "justified sec d (LINK raw) d' u u'"
  using s
proof (rule confirm_Inr)
  fix r u0 assume f: "List.find (\<lambda>r. pr_token_hash r = se_hash_token sec raw) (live_select (password_resets d)) = Some r"
    and r: "pr_status r = PR_PENDING" "now d < pr_expires_at r" and g: "List.find (\<lambda>u. row_id u = pr_user_id r) (users d) = Some u0"
    and a: "deleted_at u0 = None" "u_status u0 = USER_ACTIVE"
    and d': "d' = revoke_user_sessions (d\<lparr>users := save_row (u0\<lparr>u_password := Some (se_hash_password sec pw)\<rparr>) (users d),
        password_resets := save_row (r\<lparr>pr_status := PR_USED, pr_used_at := Some (now d)\<rparr>) (password_resets d)\<rparr>) (row_id u0)"
  let ?w = "u0\<lparr>u_password := Some (se_hash_password sec pw)\<rparr>"
  have us: "users d' = save_row ?w (users d)" by (simp add: d' revoke_user_sessions_def)
  have id: "u0 \<in> set (users d)" "row_id u0 = pr_user_id r" using find_SomeD [OF g] by simp_all
  then have "mailed_proof sec d raw u0" using find_SomeD [OF f] r unfolding mailed_proof_def by auto
  then have "justified sec d (LINK raw) d' u0 ?w" using a by (simp add: justified_def d' revoke_user_sessions_def)
  moreover have "get_user d (row_id ?w) = Inr u0"
    using live_by_id_member [of "users d" u0] id(1) a(1) inv by (simp add: get_user_def account_inv_def keys_ok_def)
  ultimately show ?thesis using justified_saved [OF us inv u] by blast
qed

lemma change_justified:
  assumes inv: "account_inv sec d" and g: "get_user d j = Inr u0" and s: "change_own_password sec env up d u0 old new = Inr d'"
    and u: "get_user d i = Inr u" "get_user d' i = Inr u'"
  shows "justified sec d (OWN j old) d' u u'"
  using s
proof (rule change_Inr)
  fix h assume h: "u_password u0 = Some h" "se_verify_password sec old h"
    and d': "d' = revoke_user_sessions (d\<lparr>users := save_row (u0\<lparr>u_password := Some (se_hash_password sec new)\<rparr>) (users d)\<rparr>) (row_id u0)"
  let ?w = "u0\<lparr>u_password := Some (se_hash_password sec new)\<rparr>"
  have us: "users d' = save_row ?w (users d)" by (simp add: d' revoke_user_sessions_def)
  have id: "row_id u0 = j" by (rule get_user_row_id [OF g])
  then have "justified sec d (OWN j old) d' u0 ?w" using h by (simp add: justified_def d' revoke_user_sessions_def)
  moreover have "get_user d (row_id ?w) = Inr u0" using g id by simp
  ultimately show ?thesis using justified_saved [OF us inv u] by blast
qed

lemma status_justified:
  assumes inv: "account_inv sec d" and s: "change_user_status_endpoint up d c j st = Inr (w, d')"
    and u: "get_user d i = Inr u" "get_user d' i = Inr u'"
  shows "justified sec d (STAFF c) d' u u'"
  using s
proof (rule status_Inr)
  fix u0 d1 d2 a b assume g: "get_user d j = Inr u0" and s: "change_user_status d u0 st = Inr (w, d1)"
    and d2: "d2 = d1 \<or> d2 = revoke_user_sessions d1 (row_id w)" and d': "d' = audit_user d2 c ''user.status_change'' (row_id w) a b"
    and p: "has_permission USERS_UPDATE (su_permissions c)"
  have id: "row_id u0 = j" by (rule get_user_row_id [OF g])
  have "u0 \<in> set (users d)" using user_below [OF inv g] by simp
  then have w: "users d1 = save_row w (users d)" "row_id w = j" "u_password w = u_password u0"
      "u_status w = USER_ACTIVE \<longrightarrow> u_status u0 = USER_ACTIVE \<or> u_status u0 = USER_INACTIVE"
    using s id inv save_row_same [of "users d" u0]
    by (auto simp: change_user_status_def svc_simps Let_def account_inv_def keys_ok_def split: if_splits)
  have us: "users d' = save_row w (users d)" using d2 w(1) by (auto simp: d' flow_defs revoke_user_sessions_def)
  have "justified sec d (STAFF c) d' u0 w" using w(3,4) p by (auto simp: justified_def)
  then show ?thesis using justified_saved [OF us inv u] g w(2) by blast
qed



subsection \<open>Self-service resets are throttled\<close>

text \<open>The links issued to account \<open>i\<close> in the 24 hours up to \<open>t\<close>.\<close>

definition issued_within :: "db \<Rightarrow> uuid \<Rightarrow> timestamp \<Rightarrow> nat" where
  "issued_within d i t =
     length (filter (\<lambda>r. pr_user_id r = i \<and> t - 86400 < created_at r \<and> created_at r \<le> t) (password_resets d))"

definition self_service :: "secrets \<Rightarrow> env_defaults \<Rightarrow> db \<Rightarrow> db \<Rightarrow> bool" where
  "self_service sec env d d' \<longleftrightarrow> (\<exists>l. (\<forall>c. l \<noteq> STAFF c) \<and> account_step sec env l d d')"

definition spaced :: "int \<Rightarrow> password_reset_token list \<Rightarrow> bool" where
  "spaced gap t \<longleftrightarrow> (\<forall>r\<in>set t. \<forall>s\<in>set t. pr_user_id r = pr_user_id s \<longrightarrow> row_id r \<noteq> row_id s \<longrightarrow>
     gap \<le> \<bar>created_at r - created_at s\<bar>)"

definition throttled :: "env_defaults \<Rightarrow> platform_settings option \<Rightarrow> db \<Rightarrow> bool" where
  "throttled env p d \<longleftrightarrow> settings_row d = p \<and>
     (\<forall>i t. issued_within d i t \<le> ps_password_reset_max_per_day (get_platform_settings env d)) \<and>
     spaced (min (ps_password_reset_cooldown_seconds (get_platform_settings env d)) 86400) (password_resets d)"

lemma settings_cong: "settings_row d' = settings_row d \<Longrightarrow> get_platform_settings env d' = get_platform_settings env d"
  by (simp add: get_platform_settings_def)

text \<open>Closing tokens changes neither owners nor times.\<close>

definition same_times :: "password_reset_token list \<Rightarrow> password_reset_token list \<Rightarrow> bool" where
  "same_times t t' \<longleftrightarrow> map (\<lambda>r. (row_id r, pr_user_id r, created_at r)) t' = map (\<lambda>r. (row_id r, pr_user_id r, created_at r)) t"

lemma issued_within_times:
  assumes "same_times t t'"
  shows "length (filter (\<lambda>r. pr_user_id r = i \<and> a < created_at r \<and> created_at r \<le> b) t') =
     length (filter (\<lambda>r. pr_user_id r = i \<and> a < created_at r \<and> created_at r \<le> b) t)"
proof -
  have "length (filter (\<lambda>r. pr_user_id r = i \<and> a < created_at r \<and> created_at r \<le> b) s) =
      length (filter (\<lambda>(k, j, c). j = i \<and> a < c \<and> c \<le> b) (map (\<lambda>r. (row_id r, pr_user_id r, created_at r)) s))" for s :: "password_reset_token list"
    by (simp add: filter_map o_def)
  then show ?thesis by (simp only: assms [unfolded same_times_def])
qed

lemma spaced_times:
  assumes "same_times t t'"
  shows "spaced gap t' \<longleftrightarrow> spaced gap t"
proof -
  have "spaced gap s \<longleftrightarrow> (\<forall>(k, j, c)\<in>set (map (\<lambda>r. (row_id r, pr_user_id r, created_at r)) s).
      \<forall>(k', j', c')\<in>set (map (\<lambda>r. (row_id r, pr_user_id r, created_at r)) s). j = j' \<longrightarrow> k \<noteq> k' \<longrightarrow> gap \<le> \<bar>c - c'\<bar>)" for s
    by (simp add: spaced_def)
  then show ?thesis by (simp only: assms [unfolded same_times_def])
qed

lemma throttled_times:
  "throttled env p d \<Longrightarrow> settings_row d' = settings_row d \<Longrightarrow> same_times (password_resets d) (password_resets d') \<Longrightarrow> throttled env p d'"
  by (simp add: throttled_def issued_within_def settings_cong [of d' d] issued_within_times spaced_times)

lemma same_times_revoke: "same_times t (live_update P (\<lambda>r. r\<lparr>pr_status := x, pr_revoked_at := y\<rparr>) t)"
  by (simp add: same_times_def live_update_def)

lemma same_times_use: "distinct (map row_id t) \<Longrightarrow> r \<in> set t \<Longrightarrow> same_times t (save_row (r\<lparr>pr_status := x, pr_used_at := y\<rparr>) t)"
  unfolding same_times_def save_row_def by (auto dest: distinct_map_same)

text \<open>A request that passes the throttle: the window is below the cap, and its newest link is old enough.\<close>

lemma throttle_passed:
  assumes "throttle_reason p d i = None" "r \<in> set (password_resets d)" "deleted_at r = None" "pr_user_id r = i"
  shows "min (ps_password_reset_cooldown_seconds p) 86400 \<le> now d - created_at r"
proof (cases "now d - 86400 < created_at r")
  case True
  then have r: "r \<in> set (reset_window d i)" using assms(2-4) by (simp add: reset_window_def)
  then have "created_at r \<le> Max (created_at ` set (reset_window d i))" by (intro Max_ge) auto
  moreover have "\<not> now d - ps_password_reset_cooldown_seconds p < Max (created_at ` set (reset_window d i))"
    using assms(1) r by (auto simp: throttle_reason_def Let_def split: if_splits)
  ultimately show ?thesis by simp
qed simp

lemma window_passed:
  assumes "throttle_reason p d i = None" "resets_ok sec d"
  shows "issued_within d i (now d) < ps_password_reset_max_per_day p"
proof -
  have "reset_window d i = filter (\<lambda>r. pr_user_id r = i \<and> now d - 86400 < created_at r \<and> created_at r \<le> now d) (password_resets d)"
    using assms(2) unfolding reset_window_def live_select_def filter_filter
    by (intro filter_cong) (auto simp: resets_ok_def resets.tokens_ok_def resets.token_ok_def)
  then show ?thesis using assms(1) by (simp add: throttle_reason_def issued_within_def Let_def split: if_splits)
qed

lemma throttled_issue:
  assumes t: "throttled env p d" and inv: "resets_ok sec d" and ok: "throttle_reason (get_platform_settings env d) d (row_id u) = None"
    and i: "issue_password_reset sec env d u = (mail, d')"
  shows "throttled env p d'"
proof -
  let ?new = "new_reset sec env d (row_id u)" and ?cap = "ps_password_reset_max_per_day (get_platform_settings env d)"
  let ?gap = "min (ps_password_reset_cooldown_seconds (get_platform_settings env d)) 86400"
  define mid where "mid = live_update (\<lambda>r. pr_user_id r = row_id u \<and> pr_status r = PR_PENDING)
        (\<lambda>r. r\<lparr>pr_status := PR_REVOKED, pr_revoked_at := Some (now d)\<rparr>) (password_resets d)"
  have pr: "password_resets d' = mid @ [?new]" and set: "settings_row d' = settings_row d"
    using issue_reset_sel [OF i] by (simp_all add: mid_def)
  have times: "same_times (password_resets d) mid" unfolding mid_def by (rule same_times_revoke)
  have new: "pr_user_id ?new = row_id u" "created_at ?new = now d" by (simp_all add: new_reset_def)
  have le: "\<And>r. r \<in> set (password_resets d) \<Longrightarrow> created_at r \<le> now d \<and> deleted_at r = None"
    using inv by (simp add: resets_ok_def resets.tokens_ok_def resets.token_ok_def)
  have "issued_within d' j t' \<le> ?cap" for j t'
  proof (cases "j = row_id u \<and> t' - 86400 < now d \<and> now d \<le> t'")
    case True
    have "filter (\<lambda>r. pr_user_id r = j \<and> t' - 86400 < created_at r \<and> created_at r \<le> t') (password_resets d) =
        filter (\<lambda>r. t' - 86400 < created_at r)
          (filter (\<lambda>r. pr_user_id r = j \<and> now d - 86400 < created_at r \<and> created_at r \<le> now d) (password_resets d))"
      unfolding filter_filter by (rule filter_cong [OF refl]) (use True in \<open>auto dest: le\<close>)
    then have "issued_within d j t' \<le> issued_within d j (now d)"
      unfolding issued_within_def by (simp del: filter_filter)
    moreover have "issued_within d j (now d) < ?cap" using window_passed [OF ok inv] True by simp
    moreover have "issued_within d' j t' = Suc (issued_within d j t')"
      using True new by (simp add: issued_within_def pr issued_within_times [OF times])
    ultimately show ?thesis by simp
  next
    case False
    then have "issued_within d' j t' = issued_within d j t'"
      using new by (auto simp: issued_within_def pr issued_within_times [OF times])
    then show ?thesis using t by (simp add: throttled_def)
  qed
  moreover have "spaced ?gap (mid @ [?new])"
  proof -
    have "spaced ?gap mid" using t spaced_times [OF times] by (simp add: throttled_def)
    moreover have "?gap \<le> now d - created_at r" if "r \<in> set mid" "pr_user_id r = row_id u" for r
    proof -
      have "(row_id r, pr_user_id r, created_at r) \<in> set (map (\<lambda>r. (row_id r, pr_user_id r, created_at r)) mid)"
        using that(1) by simp
      then have "(row_id r, pr_user_id r, created_at r) \<in> set (map (\<lambda>r. (row_id r, pr_user_id r, created_at r)) (password_resets d))"
        using times by (simp only: same_times_def)
      then obtain s where "s \<in> set (password_resets d)" "pr_user_id s = pr_user_id r" "created_at s = created_at r" by auto
      then show ?thesis using throttle_passed [OF ok] le that(2) by metis
    qed
    ultimately show ?thesis using new unfolding spaced_def set_append by (force simp: abs_le_iff)
  qed
  ultimately show ?thesis using t by (simp add: throttled_def pr set settings_cong [of d' d])
qed


lemma self_service_throttled:
  assumes inv: "account_inv sec d" and t: "throttled env p d" and s: "self_service sec env d d'"
  shows "throttled env p d'"
proof -
  have keep: "throttled env p e" if "settings_row e = settings_row d" "password_resets e = password_resets d" for e
    using throttled_times [OF t that(1)] that(2) by (simp add: same_times_def)
  obtain l where l: "account_step sec env l d d'" "\<And>c. l \<noteq> STAFF c" using s by (auto simp: self_service_def)
  from l(1) show ?thesis
  proof cases
    case (register email pw form)
    from register(2) show ?thesis by (cases rule: register_cases) (auto intro!: keep simp: flow_defs t)
  next
    case (resend email)
    then show ?thesis by (cases rule: resend_cases [of sec env d email]) (auto intro!: keep simp: flow_defs t)
  next
    case (request email)
    show ?thesis
    proof (cases rule: request_cases [of sec env d email])
      case none
      then show ?thesis using t request by simp
    next
      case (issued u mail d1)
      have "throttled env p d1" using throttled_issue [OF t _ issued(2,3)] inv by (simp add: account_inv_def)
      then show ?thesis
        by (rule throttled_times) (simp_all add: request issued(4) flow_defs same_times_def)
    qed
  next
    case (verify raw u)
    from verify(2) show ?thesis by (rule verify_Inr) (auto intro: keep)
  next
    case (accept raw pw form u)
    from accept(2) show ?thesis by (rule accept_Inr) (auto intro: keep)
  next
    case (confirm up raw pw)
    from confirm(2) show ?thesis
    proof (rule confirm_Inr)
      fix r u assume f: "List.find (\<lambda>r. pr_token_hash r = se_hash_token sec raw) (live_select (password_resets d)) = Some r"
        and d': "d' = revoke_user_sessions (d\<lparr>users := save_row (u\<lparr>u_password := Some (se_hash_password sec pw)\<rparr>) (users d),
        password_resets := save_row (r\<lparr>pr_status := PR_USED, pr_used_at := Some (now d)\<rparr>) (password_resets d)\<rparr>) (row_id u)"
      have "r \<in> set (password_resets d)" using find_SomeD [OF f] by simp
      moreover have "distinct (map row_id (password_resets d))"
        using inv by (simp add: account_inv_def resets_ok_def resets.tokens_ok_def keys_ok_def)
      ultimately show ?thesis
        by (intro throttled_times [OF t]) (simp_all add: d' revoke_user_sessions_def same_times_use)
    qed
  next
    case (change i u up old new)
    from change(3) show ?thesis by (rule change_Inr) (auto intro!: keep simp: revoke_user_sessions_def)
  next
    case (tick s)
    then show ?thesis by (intro keep) simp_all
  qed (use l(2) in blast)+
qed

text \<open>C37: the self-service throttle is a hard bound.  From a database that has issued no reset link, through any sequence of self-service
  requests (registrations, resends, reset requests, confirmed links, password changes) spread over time, no account is ever
  mailed more reset links in any 24 hours than the configured daily cap, and any two of its links are at least the cooldown
  (at most a day) apart.\<close>

theorem self_service_resets_bounded:
  assumes "account_inv sec d" "password_resets d = []" "(self_service sec env)\<^sup>*\<^sup>* d d'"
  shows "issued_within d' i t \<le> ps_password_reset_max_per_day (get_platform_settings env d) \<and>
    (\<forall>r\<in>set (password_resets d'). \<forall>s\<in>set (password_resets d'). pr_user_id r = pr_user_id s \<longrightarrow> row_id r \<noteq> row_id s \<longrightarrow>
       min (ps_password_reset_cooldown_seconds (get_platform_settings env d)) 86400 \<le> \<bar>created_at r - created_at s\<bar>)"
proof -
  have "account_inv sec d' \<and> throttled env (settings_row d) d'"
    using assms(3)
  proof (induction rule: rtranclp_induct)
    case base
    then show ?case using assms(1,2) by (simp add: throttled_def issued_within_def spaced_def)
  next
    case (step d1 d2)
    then have "account_inv sec d1" "throttled env (settings_row d) d1" by simp_all
    moreover have "account_inv sec d2"
      using step(2) step_flows flows_inv calculation(1) unfolding self_service_def by blast
    ultimately show ?case using self_service_throttled step(2) by blast
  qed
  moreover from this have "get_platform_settings env d' = get_platform_settings env d"
    by (intro settings_cong) (simp add: throttled_def)
  ultimately show ?thesis by (simp add: throttled_def spaced_def)
qed


end
