(* ===== verification/Account_Witnesses.thy ===== *)
theory Account_Witnesses
  imports Account_Recovery Demo
begin

section \<open>The account flows at work\<close>

text \<open>
  Concrete instances of the parameters (a token library whose signed token spells its claims out, hashes that tag their
  argument) and a small database, on which the properties of the account theories are applied.
\<close>

subsection \<open>A token library\<close>

definition put_nat :: "nat \<Rightarrow> string" where "put_nat n = replicate n CHR ''1'' @ ''0''"
definition get_nat :: "string \<Rightarrow> nat \<times> string" where
  "get_nat s = (length (takeWhile (\<lambda>c. c = CHR ''1'') s), tl (dropWhile (\<lambda>c. c = CHR ''1'') s))"
definition put_int :: "int \<Rightarrow> string" where "put_int i = put_nat (nat i) @ put_nat (nat (- i))"
definition get_int :: "string \<Rightarrow> int \<times> string" where
  "get_int s = (let (a, r) = get_nat s; (b, r') = get_nat r in (int a - int b, r'))"
definition put_str :: "string \<Rightarrow> string" where "put_str s = put_nat (length s) @ s"
definition get_str :: "string \<Rightarrow> string \<times> string" where
  "get_str s = (let (n, r) = get_nat s in (take n r, drop n r))"
definition put_opt :: "('a \<Rightarrow> string) \<Rightarrow> 'a option \<Rightarrow> string" where
  "put_opt f x = (case x of None \<Rightarrow> ''0'' | Some y \<Rightarrow> CHR ''1'' # f y)"
definition get_opt :: "(string \<Rightarrow> 'a \<times> string) \<Rightarrow> string \<Rightarrow> 'a option \<times> string" where
  "get_opt g s = (if s \<noteq> [] \<and> hd s = CHR ''1'' then map_prod Some id (g (tl s)) else (None, tl s))"
definition put_bool :: "bool \<Rightarrow> string" where "put_bool b = (if b then ''1'' else ''0'')"
definition get_bool :: "string \<Rightarrow> bool \<times> string" where "get_bool s = (s \<noteq> [] \<and> hd s = CHR ''1'', tl s)"

fun get_strs :: "nat \<Rightarrow> string \<Rightarrow> string list \<times> string" where
  "get_strs 0 s = ([], s)"
| "get_strs (Suc n) s = (let (x, r) = get_str s; (xs, r') = get_strs n r in (x # xs, r'))"

fun put_perms :: "permission_claim \<Rightarrow> string" where
  "put_perms PC_MISSING = ''a''"
| "put_perms PC_MALFORMED = ''b''"
| "put_perms (PC_LIST xs) = CHR ''c'' # put_nat (length xs) @ concat (map put_str xs)"

definition get_perms :: "string \<Rightarrow> permission_claim \<times> string" where
  "get_perms s = (if s \<noteq> [] \<and> hd s = CHR ''c'' then (let (n, r) = get_nat (tl s) in map_prod PC_LIST id (get_strs n r))
     else (if s \<noteq> [] \<and> hd s = CHR ''b'' then PC_MALFORMED else PC_MISSING, tl s))"

lemma get_put [simp]:
  "get_nat (put_nat n @ s) = (n, s)" "get_int (put_int i @ s) = (i, s)" "get_str (put_str x @ s) = (x, s)"
  "get_bool (put_bool b @ s) = (b, s)"
proof -
  show g: "get_nat (put_nat n @ s) = (n, s)" for n s by (induction n) (auto simp: get_nat_def put_nat_def)
  show "get_int (put_int i @ s) = (i, s)" by (simp add: get_int_def put_int_def g)
  show "get_str (put_str x @ s) = (x, s)" by (simp add: get_str_def put_str_def g)
  show "get_bool (put_bool b @ s) = (b, s)" by (simp add: get_bool_def put_bool_def)
qed

lemma get_put_opt: "(\<And>y t. g (f y @ t) = (y, t)) \<Longrightarrow> get_opt g (put_opt f x @ s) = (x, s)"
  by (cases x) (simp_all add: get_opt_def put_opt_def)

lemma get_put_strs: "get_strs (length xs) (concat (map put_str xs) @ s) = (xs, s)"
  by (induction xs) simp_all

lemma get_put_perms: "get_perms (put_perms p @ s) = (p, s)"
  by (cases p) (simp_all add: get_perms_def get_put_strs)

definition put_claims :: "claims \<Rightarrow> string" where
  "put_claims c = put_opt put_nat (jc_sub c) @ put_opt put_str (jc_provider c) @ put_opt put_str (jc_email c) @
     put_bool (jc_email_verified c) @ put_opt put_str (jc_first_name c) @ put_opt put_str (jc_last_name c) @
     put_perms (jc_permissions c) @ put_opt put_str (jc_typ c) @ put_opt put_int (jc_iat c) @ put_opt put_int (jc_exp c) @
     put_opt put_int (jc_auth_time c)"

definition get_claims :: "string \<Rightarrow> claims" where
  "get_claims s =
     (let (sub, s) = get_opt get_nat s; (prov, s) = get_opt get_str s; (email, s) = get_opt get_str s; (ver, s) = get_bool s;
          (fn, s) = get_opt get_str s; (ln, s) = get_opt get_str s; (ps, s) = get_perms s; (typ, s) = get_opt get_str s;
          (iat, s) = get_opt get_int s; (e, s) = get_opt get_int s; (au, s) = get_opt get_int s
      in \<lparr>jc_sub = sub, jc_provider = prov, jc_email = email, jc_email_verified = ver, jc_first_name = fn, jc_last_name = ln,
          jc_permissions = ps, jc_typ = typ, jc_iat = iat, jc_exp = e, jc_auth_time = au\<rparr>)"

lemma get_put_claims: "get_claims (put_claims c) = c"
  unfolding get_claims_def put_claims_def
  by (simp add: get_put_opt get_put_perms get_put_opt [of get_int put_int _ "[]", simplified])

definition demo_jwt :: jwt_library where
  "demo_jwt = \<lparr>jl_encode = put_claims,
     jl_decode = (\<lambda>tok. let c = get_claims tok in if put_claims c = tok then Some c else None),
     jl_valid = (\<lambda>t c. case jc_exp c of None \<Rightarrow> False | Some e \<Rightarrow> t \<le> e)\<rparr>"

lemma demo_jwt_sound: "jwt_sound demo_jwt"
  by (auto simp: jwt_sound_def demo_jwt_def get_put_claims Let_def split: if_splits option.splits)

subsection \<open>Sessions\<close>

definition demo_secrets :: secrets where
  "demo_secrets = \<lparr>se_hash_password = (\<lambda>p. CHR ''#'' # p), se_verify_password = (\<lambda>p h. h = CHR ''#'' # p),
     se_hash_token = (\<lambda>t. CHR ''h'' # t), se_raw_token = (\<lambda>i. replicate i CHR ''t''), se_denylist = [''password'']\<rparr>"

lemma demo_tokens_sound: "tokens_sound demo_secrets"
  unfolding tokens_sound_def demo_secrets_def by (rule injI) (auto dest: arg_cong [of _ _ length])

definition demo_env :: env_defaults where
  "demo_env = \<lparr>env_license_id = 0, env_email_verification_ttl_hours = 24, env_invitation_ttl_hours = 72, env_password_reset_ttl_hours = 1\<rparr>"

definition demo_config :: auth_config where
  "demo_config = \<lparr>ac_session_ttl_seconds = 900, ac_refresh_token_ttl_seconds = 3600, ac_refresh_absolute_max_lifetime_seconds = 86400,
     ac_oidc_allowed_domains = []\<rparr>"

text \<open>\<open>bob\<close> has a password, \<open>dave\<close> is a self-signup that also holds a group invitation; both of his links are pending.\<close>

definition bob_pw :: user where "bob_pw = bob\<lparr>u_password := Some ''#correct horse''\<rparr>"
definition dave :: user where
  "dave = (mk_user 4 ''dave'' None)\<lparr>u_status := USER_PENDING, u_password := Some ''#battery staple''\<rparr>"

definition dave_verification :: email_verification where
  "dave_verification = \<lparr>row_id = 70, created_at = 86000, deleted_at = None, deleted_by_id = None, ev_user_id = 4,
     ev_token_hash = se_hash_token demo_secrets (se_raw_token demo_secrets 70), ev_expires_at = 90000, ev_revoked_at = None,
     ev_verified_at = None, ev_status = EV_PENDING\<rparr>"

definition dave_invitation :: invitation where
  "dave_invitation = \<lparr>row_id = 71, created_at = 86000, deleted_at = None, deleted_by_id = None, iv_user_id = 4,
     iv_token_hash = se_hash_token demo_secrets (se_raw_token demo_secrets 71), iv_expires_at = 90000, iv_revoked_at = None,
     iv_invited_by_user_id = Some 1, iv_accepted_at = None, iv_status = INV_PENDING, iv_object_type = Some EVALUATION_GROUP,
     iv_object_id = Some 20\<rparr>"

definition adb :: db where
  "adb = demo\<lparr>users := [alice, bob_pw, carol, dave], email_verifications := [dave_verification], invitations := [dave_invitation]\<rparr>"

definition raw_of :: "uuid \<Rightarrow> string" where "raw_of i = se_raw_token demo_secrets i"

lemma adb_inv: "account_inv demo_secrets adb"
proof -
  have "keys_ok (next_id adb) (users adb)" by code_simp
  moreover have "owners_ok adb" by code_simp
  moreover have "invites_ok demo_secrets adb" unfolding invites_ok_def invites.tokens_ok_def invites.token_ok_def by code_simp
  moreover have "verifications_ok demo_secrets adb"
    unfolding verifications_ok_def verifications.tokens_ok_def verifications.token_ok_def by code_simp
  moreover have "resets_ok demo_secrets adb" unfolding resets_ok_def resets.tokens_ok_def resets.token_ok_def by code_simp
  ultimately show ?thesis by (simp add: account_inv_def)
qed

definition signup :: signup_form where
  "signup = \<lparr>sf_first_name = None, sf_last_name = None, sf_consent_terms = False, sf_consent_emails = False, sf_terms_id = None\<rparr>"

definition vp :: "string \<Rightarrow> string \<Rightarrow> bool" where "vp = se_verify_password demo_secrets"

lemma bob_authenticates: "authenticate_credentials vp adb ''bob'' ''correct horse'' = Inr bob_pw"
  by code_simp

definition bob_pair :: "token_response" where "bob_pair = mint_token_pair demo_jwt demo_config adb bob_pw ''local'' None"

lemma bob_session: "session_chain demo_jwt demo_config vp (now adb) (tr_refresh_token bob_pair)"
  by (rule session_chain.login [of _ _ _ adb "''bob''" "''correct horse''"]) (simp add: login_def bob_authenticates bob_pair_def)

lemma demo_valid: "jl_valid demo_jwt t (identity_claims d u prov ty ex au) \<longleftrightarrow> t \<le> ex"
  by (simp add: demo_jwt_def identity_claims_def)

definition bob_refreshed :: token_response where
  "bob_refreshed = mint_token_pair demo_jwt demo_config adb bob_pw ''local'' (Some (now adb))"

lemma bob_refreshes: "refresh_session demo_jwt demo_config True adb (tr_refresh_token bob_pair) = Inr bob_refreshed"
proof -
  have u: "get_user adb 2 = Inr bob_pw" "u_status bob_pw = USER_ACTIVE" "row_id bob_pw = 2" "revoked adb 2 = None" by code_simp+
  have "decode_refresh_jwt demo_jwt (now adb) (tr_refresh_token bob_pair) =
      session_user_from_claims (identity_claims adb bob_pw ''local'' ''refresh'' (now adb + 3600) (Some (now adb)))"
    by (simp add: bob_pair_def mint_token_pair_def encode_session_jwt_def encode_refresh_jwt_def decode_refresh_jwt_def
        decode_minted [OF demo_jwt_sound] demo_valid demo_config_def)
  then show ?thesis
    by (simp add: refresh_session_def Let_def identity_user u is_revoked_def marker_def demo_config_def bob_refreshed_def)
qed


text \<open>\<open>bob\<close> is logged out by force; the pair he was given before stays dead.\<close>

definition logged_out :: "(uuid \<times> db) result" where
  "logged_out = force_logout_user_endpoint True adb (caller_of 1 [USERS_MANAGE_SESSIONS]) 2"


subsection \<open>Bulk status changes\<close>

definition status_manager :: session_user where "status_manager = caller_of 1 [USERS_UPDATE]"

definition two_rows :: "(uuid \<times> settable_user_status) bulk_row list" where
  "two_rows = [\<lparr>br_row_key = ''a'', br_data = (2, SET_INACTIVE)\<rparr>, \<lparr>br_row_key = ''b'', br_data = (4, SET_INACTIVE)\<rparr>]"

theorem bulk_status_refines_single_witness:
  "\<exists>rs. bulk_change_user_status_endpoint (\<lambda>_. None) True adb status_manager \<lparr>bq_rows = two_rows, bq_dry_run = True\<rparr> =
      (Inr (bulk_response_of \<lparr>bq_rows = two_rows, bq_dry_run = True\<rparr> rs), adb) \<and> length rs = 2"
proof -
  have h: "has_permission USERS_UPDATE (su_permissions status_manager)" by code_simp
  have "length two_rows = 2" by (simp add: two_rows_def)
  with bulk_status_refines_single [OF h, of "\<lambda>_. None" adb two_rows] show ?thesis by metis
qed

subsection \<open>Links, credentials, throttle\<close>

definition dave_verified :: "(user \<times> db) result" where "dave_verified = verify_email demo_secrets adb (raw_of 70)"

definition dave_accepted :: "(user \<times> db) result" where
  "dave_accepted = accept_invitation demo_secrets demo_env adb (raw_of 71) ''tr0ub4dor and 3'' signup"

theorem link_single_use_witness: "\<exists>m. verify_email demo_secrets (snd (projr dave_verified)) (raw_of 70) = Inl (GoneError m)"
proof -
  have "verify_email demo_secrets adb (raw_of 70) = Inr (fst (projr dave_verified), snd (projr dave_verified))"
    unfolding dave_verified_def [symmetric] by (rule Inr_pair_of_not_isl) code_simp
  moreover have "(account_steps demo_secrets demo_env)\<^sup>*\<^sup>* (snd (projr dave_verified)) (snd (projr dave_verified))" by simp
  ultimately show ?thesis using link_single_use [OF demo_tokens_sound adb_inv] by blast
qed


theorem self_service_resets_bounded_witness: "issued_within (request_password_reset demo_secrets demo_env adb ''bob'') 2 86400 \<le> 5"
proof -
  have "self_service demo_secrets demo_env adb (request_password_reset demo_secrets demo_env adb ''bob'')"
    unfolding self_service_def using account_step.request by blast
  then have s: "(self_service demo_secrets demo_env)\<^sup>*\<^sup>* adb (request_password_reset demo_secrets demo_env adb ''bob'')" by (rule r_into_rtranclp)
  have e: "password_resets adb = []" by code_simp
  have "ps_password_reset_max_per_day (get_platform_settings demo_env adb) = 5" by code_simp
  with self_service_resets_bounded [OF adb_inv e s] show ?thesis by metis
qed

subsection \<open>What a verification link does not check\<close>

text \<open>
  \<open>verify_email\<close> looks at the link only, not at the status of the account, and accepting an invitation leaves the account's
  verification link pending.  So a self-signup that was invited to a group, accepted that invitation and was later deactivated by
  staff comes back to life with its old verification link.
\<close>

definition dave_returns :: "(user \<times> db) result" where
  "dave_returns = bindE dave_accepted (\<lambda>(_, d1). bindE (change_user_status_endpoint True d1 status_manager 4 SET_INACTIVE) (\<lambda>(_, d2).
     bindE (get_user d2 4) (\<lambda>u. bindE (ensure (u_status u = USER_INACTIVE) RuntimeError) (\<lambda>_.
     verify_email demo_secrets d2 (raw_of 70)))))"

lemma verification_revives_deactivated_account:
  "\<exists>u d. dave_returns = Inr (u, d) \<and> row_id u = 4 \<and> u_status u = USER_ACTIVE"
proof -
  have "dave_returns = Inr (fst (projr dave_returns), snd (projr dave_returns))" by (rule Inr_pair_of_not_isl) code_simp
  moreover have "row_id (fst (projr dave_returns)) = 4" by code_simp
  moreover have "u_status (fst (projr dave_returns)) = USER_ACTIVE" by code_simp
  ultimately show ?thesis by blast
qed


end
