(* ===== verification/Conversation_Models.thy ===== *)
theory Conversation_Models
  imports Scenarios
begin

section \<open>The conversation tables\<close>

text \<open>
  \<open>app/core/conversations/models.py\<close> and \<open>enums.py\<close>: groups of conversations, conversations, their turns and messages,
  the images attached to a message, and the columns of \<open>media_assets\<close> the attachment check reads.  The record \<open>chat_db\<close>
  holds these tables next to the database \<open>core\<close> of the other components, which supplies the primary keys and the clock;
  \<open>draws\<close> counts the calls of \<open>os.urandom\<close>.  Inference parameters and tags are dicts, kept as association
  lists; \<open>Message.extra\<close> is a JSON object.
\<close>

type_synonym tag_map = "(string \<times> string) list"
type_synonym params = "(string \<times> string) list"

datatype json = JNull | JBool bool | JInt int | JStr string | JObj "(string \<times> json) list"

datatype message_role = MR_USER | MR_ASSISTANT | MR_SYSTEM

datatype message_status = MS_STREAMING | MS_COMPLETE | MS_INTERRUPTED | MS_ERROR

fun message_role_value :: "message_role \<Rightarrow> string" where
  "message_role_value MR_USER = ''user''"
| "message_role_value MR_ASSISTANT = ''assistant''"
| "message_role_value MR_SYSTEM = ''system''"

fun message_status_value :: "message_status \<Rightarrow> string" where
  "message_status_value MS_STREAMING = ''streaming''"
| "message_status_value MS_COMPLETE = ''complete''"
| "message_status_value MS_INTERRUPTED = ''interrupted''"
| "message_status_value MS_ERROR = ''error''"

record conversation_group = base +
  cg_user_id :: uuid
  cg_evaluation_id :: uuid
  cg_scenario_id :: uuid
  cg_name :: string

record conversation = base +
  c_user_id :: uuid
  c_evaluation_id :: uuid
  c_evaluation_ai_model_id :: uuid
  c_conversation_group_id :: uuid
  c_scenario_id :: uuid
  c_title :: "string option"
  c_tags :: tag_map
  c_content_protected :: bool
  c_parameters :: params

record turn = base +
  tn_conversation_id :: uuid
  tn_turn_index :: nat

record message = base +
  ms_turn_id :: uuid
  ms_role :: message_role
  ms_status :: message_status
  ms_content :: string
  ms_content_encrypted :: bool
  ms_slot :: "string option"
  ms_client_message_id :: "uuid option"
  ms_replaces_message_id :: "uuid option"
  ms_extra :: "(string \<times> json) list"
  ms_tags :: tag_map

record message_image =
  mi_message_id :: uuid
  mi_position :: nat
  mi_image_key :: string

record media_asset = base +
  ma_key :: string
  ma_is_private :: bool
  ma_created_by_id :: uuid

text \<open>\<open>MESSAGE_ROLE_ORDER\<close>: the prompt sorts before the reply.\<close>

fun MESSAGE_ROLE_ORDER :: "message_role \<Rightarrow> nat" where
  "MESSAGE_ROLE_ORDER MR_USER = 0"
| "MESSAGE_ROLE_ORDER MR_SYSTEM = 1"
| "MESSAGE_ROLE_ORDER MR_ASSISTANT = 2"

definition TAG_CONTEXT_EXTRA_KEY :: string where
  "TAG_CONTEXT_EXTRA_KEY = ''tag_context''"

definition TAG_CONTEXT_PARTIAL_EXTRA_KEY :: string where
  "TAG_CONTEXT_PARTIAL_EXTRA_KEY = ''tag_context_partial''"

text \<open>\<open>dict(record)\<close> of the recorded map; the writer stores strings only.\<close>

fun json_str :: "json \<Rightarrow> string" where
  "json_str (JStr s) = s"
| "json_str _ = ''''"

definition recorded_tag_context :: "message \<Rightarrow> tag_map option" where
  "recorded_tag_context m =
     (case map_of (ms_extra m) TAG_CONTEXT_EXTRA_KEY of
        Some (JObj kvs) \<Rightarrow> Some (map (\<lambda>(k, v). (k, json_str v)) kvs)
      | _ \<Rightarrow> None)"

record chat_db =
  core :: db
  conversation_groups :: "conversation_group list"
  conversations :: "conversation list"
  turns :: "turn list"
  messages :: "message list"
  message_images :: "message_image list"
  media_assets :: "media_asset list"
  draws :: nat

definition empty_chat_db :: chat_db where
  "empty_chat_db = \<lparr>core = empty_db, conversation_groups = [], conversations = [], turns = [], messages = [],
     message_images = [], media_assets = [], draws = 0\<rparr>"

text \<open>Taking \<open>n\<close> fresh primary keys, and the clock.\<close>

definition take_ids :: "nat \<Rightarrow> chat_db \<Rightarrow> chat_db" where
  "take_ids n c = c\<lparr>core := (core c)\<lparr>next_id := next_id (core c) + n\<rparr>\<rparr>"

abbreviation clock :: "chat_db \<Rightarrow> timestamp" where
  "clock c \<equiv> now (core c)"

abbreviation fresh :: "chat_db \<Rightarrow> uuid" where
  "fresh c \<equiv> next_id (core c)"

lemma take_ids_sel [simp]:
  "conversation_groups (take_ids n c) = conversation_groups c" "conversations (take_ids n c) = conversations c"
  "turns (take_ids n c) = turns c" "messages (take_ids n c) = messages c"
  "message_images (take_ids n c) = message_images c" "media_assets (take_ids n c) = media_assets c"
  "draws (take_ids n c) = draws c" "clock (take_ids n c) = clock c" "fresh (take_ids n c) = fresh c + n"
  by (simp_all add: take_ids_def)

text \<open>\<open>{**base, **over}\<close>: the right operand wins per key.\<close>

definition dict_merge :: "(string \<times> 'v) list \<Rightarrow> (string \<times> 'v) list \<Rightarrow> (string \<times> 'v) list" where
  "dict_merge lower upper =
     map (\<lambda>(k, v). (k, case map_of upper k of Some w \<Rightarrow> w | None \<Rightarrow> v)) lower @
     filter (\<lambda>(k, v). k \<notin> fst ` set lower) upper"

lemma map_of_filter_fst: "map_of (filter (\<lambda>(k, v). P k) xs) k = (if P k then map_of xs k else None)"
  by (induction xs) auto

lemma map_of_dict_merge [simp]:
  "map_of (dict_merge lower upper) k = (case map_of upper k of Some w \<Rightarrow> Some w | None \<Rightarrow> map_of lower k)"
proof -
  have *: "map_of (map (\<lambda>(k, v). (k, f k v)) xs) k = map_option (f k) (map_of xs k)" for f and xs :: "(string \<times> 'v) list"
    by (induction xs) auto
  show ?thesis
  proof (cases "map_of lower k")
    case None
    then have "k \<notin> fst ` set lower" by (simp add: map_of_eq_None_iff)
    then show ?thesis using None by (simp add: dict_merge_def map_add_def * map_of_filter_fst split: option.splits)
  next
    case (Some v)
    then have "k \<in> fst ` set lower" by (metis map_of_eq_None_iff option.distinct(1))
    then show ?thesis using Some by (simp add: dict_merge_def map_add_def * map_of_filter_fst split: option.splits)
  qed
qed

lemma map_key_map_snd: "map fst (map (\<lambda>(k, v). (k, f k v)) xs) = map fst xs"
  by (induction xs) auto

lemma filter_same_keys:
  "map fst xs = map fst ys \<Longrightarrow> filter (\<lambda>(k, v). k \<notin> fst ` set xs) zs = filter (\<lambda>(k, v). k \<notin> fst ` set ys) zs"
  by (metis list.set_map)

lemma distinct_dict_merge:
  assumes "distinct (map fst lower)" and "distinct (map fst upper)"
  shows "distinct (map fst (dict_merge lower upper))"
proof -
  have "distinct (map fst (filter Q upper))" for Q
    using assms(2) by (simp add: distinct_map_filter)
  moreover have "k \<notin> fst ` set lower" if "k \<in> set (map fst (filter (\<lambda>(k, v). k \<notin> fst ` set lower) upper))" for k
    using that by force
  moreover have "set (map fst (map (\<lambda>(k, v). (k, case map_of upper k of Some w \<Rightarrow> w | None \<Rightarrow> v)) lower)) = fst ` set lower"
    by (simp only: map_key_map_snd list.set_map)
  ultimately show ?thesis
    using assms(1) unfolding dict_merge_def map_append distinct_append by (auto simp only: map_key_map_snd list.set_map)
qed

end
