(* ===== verification/Conversation_Groups.thy ===== *)
theory Conversation_Groups
  imports Conversation_Models
begin

section \<open>Conversation groups\<close>

text \<open>
  \<open>app/core/conversations/services/groups.py\<close>: the bucket every conversation lives in.  Reads join the live
  parent evaluation and evaluation group and its visibility, and are owner-scoped unless break-glass (\<open>can_manage\<close>) or, for
  reads, an in-group \<open>conversations:read_any\<close> widens the owner predicate.  \<open>max_size\<close> is the setting
  \<open>max_conversation_group_size\<close>; the row locks have no counterpart, a request being one atomic step.
\<close>

definition caller_in_scope :: "db \<Rightarrow> uuid \<Rightarrow> bool \<Rightarrow> bool \<Rightarrow> uuid \<Rightarrow> uuid \<Rightarrow> bool" where
  "caller_in_scope d caller_id can_manage read_any evaluation_id user_id \<longleftrightarrow>
     visible_evaluation_group d evaluation_id caller_id can_manage \<and>
     (can_manage \<or> user_id = caller_id \<or>
      read_any \<and> (case live_by_id evaluation_id (evaluations d) of None \<Rightarrow> False
         | Some e \<Rightarrow> e_evaluation_group_id e \<in> set (groups_granting d CONVERSATIONS_READ_ANY caller_id)))"

definition get_conversation_group ::
  "chat_db \<Rightarrow> uuid \<Rightarrow> uuid \<Rightarrow> uuid \<Rightarrow> bool \<Rightarrow> bool \<Rightarrow> conversation_group result" where
  "get_conversation_group c evaluation_id conversation_group_id caller_id can_manage read_any =
     the_or (NotFoundError (Msg ''Conversation group {} not found in evaluation {}.''
         [AId conversation_group_id, AId evaluation_id]))
       (List.find (\<lambda>g. cg_evaluation_id g = evaluation_id \<and> row_id g = conversation_group_id \<and>
          caller_in_scope (core c) caller_id can_manage read_any (cg_evaluation_id g) (cg_user_id g))
         (live_select (conversation_groups c)))"

text \<open>The live members, in the order of the relationship (\<open>created_at\<close>, then \<open>id\<close>).\<close>

definition members :: "chat_db \<Rightarrow> uuid \<Rightarrow> conversation list" where
  "members c conversation_group_id =
     filter (\<lambda>x. c_conversation_group_id x = conversation_group_id) (live_select (conversations c))"

definition with_conversations :: "chat_db \<Rightarrow> uuid \<Rightarrow> conversation list" where
  "with_conversations c conversation_group_id =
     sort_key created_at (sort_key row_id (members c conversation_group_id))"

definition count_live_conversations :: "chat_db \<Rightarrow> uuid \<Rightarrow> nat" where
  "count_live_conversations c conversation_group_id = length (members c conversation_group_id)"

definition group_full :: "uuid \<Rightarrow> nat \<Rightarrow> error" where
  "group_full conversation_group_id max_size =
     ConflictError (Msg ''Conversation group {} already holds the maximum of {} conversations.''
       [AId conversation_group_id, ANat max_size])"

definition acquire_group_for_conversation ::
  "nat \<Rightarrow> chat_db \<Rightarrow> uuid \<Rightarrow> uuid \<Rightarrow> uuid \<Rightarrow> bool \<Rightarrow> conversation_group result" where
  "acquire_group_for_conversation max_size c evaluation_id conversation_group_id caller_id can_manage =
     bindE (get_conversation_group c evaluation_id conversation_group_id caller_id can_manage False) (\<lambda>g.
     bindE (ensure (count_live_conversations c conversation_group_id < max_size)
       (group_full conversation_group_id max_size)) (\<lambda>_.
     Inr g))"

record conversation_group_filters =
  cgf_evaluation_id :: "uuid option"
  cgf_scenario_id :: "uuid option"
  cgf_user_id :: "uuid option"
  cgf_created_from :: "timestamp option"
  cgf_created_to :: "timestamp option"

definition group_filters_ok :: "conversation_group_filters \<Rightarrow> conversation_group \<Rightarrow> bool" where
  "group_filters_ok f g \<longleftrightarrow>
     (case cgf_evaluation_id f of None \<Rightarrow> True | Some i \<Rightarrow> cg_evaluation_id g = i) \<and>
     (case cgf_scenario_id f of None \<Rightarrow> True | Some i \<Rightarrow> cg_scenario_id g = i) \<and>
     (case cgf_user_id f of None \<Rightarrow> True | Some i \<Rightarrow> cg_user_id g = i) \<and>
     (case cgf_created_from f of None \<Rightarrow> True | Some t \<Rightarrow> t \<le> created_at g) \<and>
     (case cgf_created_to f of None \<Rightarrow> True | Some t \<Rightarrow> created_at g \<le> t)"

definition list_conversation_groups ::
  "(conversation_group \<Rightarrow> 'k::linorder) \<Rightarrow> chat_db \<Rightarrow> uuid \<Rightarrow> bool \<Rightarrow> bool \<Rightarrow> conversation_group_filters \<Rightarrow> nat \<Rightarrow> nat \<Rightarrow>
     (conversation_group \<times> conversation list) list \<times> nat" where
  "list_conversation_groups order_key c caller_id can_manage read_any filters limit offset =
     (let rows = filter (group_filters_ok filters)
            (filter (\<lambda>g. caller_in_scope (core c) caller_id can_manage read_any (cg_evaluation_id g) (cg_user_id g))
              (live_select (conversation_groups c)));
          page = paginate limit offset (sort_key order_key (sort_key row_id rows))
      in (map (\<lambda>g. (g, with_conversations c (row_id g))) (fst page), snd page))"

record conversation_spec =
  sp_assignment_id :: uuid
  sp_parameters :: params
  sp_title :: "string option"

fun check_assignments :: "db \<Rightarrow> uuid \<Rightarrow> conversation_spec list \<Rightarrow> unit result" where
  "check_assignments d evaluation_id [] = Inr ()"
| "check_assignments d evaluation_id (sp # sps) =
     bindE (get_assignment d evaluation_id (sp_assignment_id sp) None False) (\<lambda>_. check_assignments d evaluation_id sps)"

definition new_conversation ::
  "uuid \<Rightarrow> timestamp \<Rightarrow> uuid \<Rightarrow> uuid \<Rightarrow> uuid \<Rightarrow> uuid \<Rightarrow> uuid \<Rightarrow> string option \<Rightarrow> params \<Rightarrow> tag_map \<Rightarrow> bool \<Rightarrow> conversation" where
  "new_conversation i t user_id evaluation_id assignment_id scenario_id group_id title parameters tags protected =
     \<lparr>row_id = i, created_at = t, deleted_at = None, deleted_by_id = None, c_user_id = user_id,
      c_evaluation_id = evaluation_id, c_evaluation_ai_model_id = assignment_id, c_conversation_group_id = group_id,
      c_scenario_id = scenario_id, c_title = title, c_tags = tags, c_content_protected = protected,
      c_parameters = parameters\<rparr>"

definition batch_rows ::
  "chat_db \<Rightarrow> uuid \<Rightarrow> uuid \<Rightarrow> uuid \<Rightarrow> conversation_spec list \<Rightarrow> data_license \<Rightarrow> conversation list" where
  "batch_rows c user_id evaluation_id scenario_id models licence =
     map (\<lambda>(k, sp). new_conversation (Suc (fresh c + k)) (clock c) user_id evaluation_id (sp_assignment_id sp)
            scenario_id (fresh c) (sp_title sp) (sp_parameters sp) [] (l_protects_conversation_data licence))
       (enumerate 0 models)"

definition create_conversation_group ::
  "uuid \<Rightarrow> chat_db \<Rightarrow> uuid \<Rightarrow> uuid \<Rightarrow> uuid \<Rightarrow> string \<Rightarrow> conversation_spec list \<Rightarrow> bool \<Rightarrow>
     ((conversation_group \<times> conversation list) \<times> chat_db) result" where
  "create_conversation_group env_license c user_id evaluation_id scenario_id name models can_manage =
     bindE (get_evaluation (core c) evaluation_id (Some user_id) can_manage) (\<lambda>_.
     bindE (get_scenario (core c) evaluation_id scenario_id None False) (\<lambda>_.
     bindE (check_assignments (core c) evaluation_id models) (\<lambda>_.
     bindE (resolve_effective_license env_license (core c) evaluation_id) (\<lambda>licence.
     let g = \<lparr>row_id = fresh c, created_at = clock c, deleted_at = None, deleted_by_id = None, cg_user_id = user_id,
              cg_evaluation_id = evaluation_id, cg_scenario_id = scenario_id, cg_name = name\<rparr>;
         rows = batch_rows c user_id evaluation_id scenario_id models licence
     in Inr ((g, rows), take_ids (Suc (length models))
          (c\<lparr>conversation_groups := conversation_groups c @ [g], conversations := conversations c @ rows\<rparr>))))))"

definition rename_conversation_group :: "chat_db \<Rightarrow> conversation_group \<Rightarrow> string \<Rightarrow> conversation_group \<times> chat_db" where
  "rename_conversation_group c g name =
     (let g' = g\<lparr>cg_name := name\<rparr> in (g', c\<lparr>conversation_groups := save_row g' (conversation_groups c)\<rparr>))"

definition soft_delete_conversation_group ::
  "chat_db \<Rightarrow> conversation_group \<Rightarrow> uuid \<Rightarrow> conversation_group \<times> chat_db" where
  "soft_delete_conversation_group c g by_id =
     (let g' = soft_delete (clock c) (Some by_id) g in
      (g', c\<lparr>conversations := live_update (\<lambda>x. c_conversation_group_id x = row_id g)
               (soft_delete (clock c) (Some by_id)) (conversations c),
             conversation_groups := save_row g' (conversation_groups c)\<rparr>))"

definition assert_group_has_room :: "nat \<Rightarrow> chat_db \<Rightarrow> uuid \<Rightarrow> unit result" where
  "assert_group_has_room max_size c group_id =
     ensure (count_live_conversations c group_id < max_size) (group_full group_id max_size)"

definition revive_pruned_group :: "chat_db \<Rightarrow> uuid \<Rightarrow> chat_db" where
  "revive_pruned_group c group_id =
     c\<lparr>conversation_groups :=
         map (\<lambda>g. if row_id g = group_id \<and> deleted_at g \<noteq> None then restore g else g) (conversation_groups c)\<rparr>"

definition has_live_conversation :: "chat_db \<Rightarrow> uuid \<Rightarrow> bool" where
  "has_live_conversation c group_id \<longleftrightarrow> list_ex (\<lambda>x. c_conversation_group_id x = group_id \<and> deleted_at x = None) (conversations c)"

definition soft_delete_empty_groups :: "chat_db \<Rightarrow> uuid list \<Rightarrow> uuid \<Rightarrow> chat_db" where
  "soft_delete_empty_groups c group_ids by_id =
     (if group_ids = [] then c
      else c\<lparr>conversation_groups :=
        live_update (\<lambda>g. row_id g \<in> set group_ids \<and> \<not> has_live_conversation c (row_id g))
          (soft_delete (clock c) (Some by_id)) (conversation_groups c)\<rparr>)"

subsection \<open>What the bookkeeping operations do\<close>

lemma has_live_members: "has_live_conversation c i \<longleftrightarrow> members c i \<noteq> []"
  by (auto simp: has_live_conversation_def members_def list_ex_iff filter_empty_conv)

lemma prune_sel [simp]:
  "conversations (soft_delete_empty_groups c is u) = conversations c" "core (soft_delete_empty_groups c is u) = core c"
  "turns (soft_delete_empty_groups c is u) = turns c" "messages (soft_delete_empty_groups c is u) = messages c"
  "members (soft_delete_empty_groups c is u) i = members c i"
  by (simp_all add: soft_delete_empty_groups_def members_def)

lemma prune_groups:
  "conversation_groups (soft_delete_empty_groups c is u) =
     live_update (\<lambda>g. row_id g \<in> set is \<and> members c (row_id g) = [])
       (soft_delete (clock c) (Some u)) (conversation_groups c)"
  by (cases "is = []") (auto simp: soft_delete_empty_groups_def has_live_members live_update_def map_idI)

lemma revive_sel [simp]:
  "conversations (revive_pruned_group c i) = conversations c" "core (revive_pruned_group c i) = core c"
  "turns (revive_pruned_group c i) = turns c" "messages (revive_pruned_group c i) = messages c"
  "members (revive_pruned_group c i) j = members c j"
  by (simp_all add: revive_pruned_group_def members_def)

end
