(* ===== verification/Tag_Policy.thy ===== *)
theory Tag_Policy
  imports Conversation_Models
begin

section \<open>Conversation tags: keys, policy, and the prompt they reach\<close>

text \<open>
  \<open>app/core/evaluations/services/tag_keys.py\<close>, \<open>conversations/tags.py\<close>, the tag validator of
  \<open>conversations/schemas.py\<close> and \<open>sanitise_single_line\<close> of \<open>helpers.py\<close>.  Authoring a tag is checked
  (\<open>assert_tags_allowed\<close>), replaying a stored one is filtered (\<open>allowed_tags_only\<close>), and a reader asks afterwards which
  stored tags were not sent (\<open>unsent\<close>).  Text is ASCII (the em dash of the preamble is written \<open>--\<close>): of the invisible categories only \<open>Cc\<close> occurs, and
  the white space is that of \<open>str.isspace\<close>.  The JSON size bound and the published schema are left out: under the count
  and length bounds ASCII text cannot reach it.
\<close>

subsection \<open>Text\<close>

definition py_isspace :: "char \<Rightarrow> bool" where
  "py_isspace ch = (let n = of_char ch :: nat in (9 \<le> n \<and> n \<le> 13) \<or> (28 \<le> n \<and> n \<le> 32))"

definition is_control :: "char \<Rightarrow> bool" where
  "is_control ch = (let n = of_char ch :: nat in n < 32 \<or> n = 127)"

text \<open>\<open>text.split()\<close>: the words between runs of white space.\<close>

fun py_words :: "string \<Rightarrow> string \<Rightarrow> string list" where
  "py_words w [] = (if w = [] then [] else [rev w])"
| "py_words w (ch # s) =
     (if py_isspace ch then (if w = [] then py_words [] s else rev w # py_words [] s) else py_words (ch # w) s)"

fun py_join :: "string \<Rightarrow> string list \<Rightarrow> string" where
  "py_join sep [] = ''''"
| "py_join sep [x] = x"
| "py_join sep (x # xs) = x @ sep @ py_join sep xs"

definition sanitise_single_line :: "string \<Rightarrow> string" where
  "sanitise_single_line s = py_join '' '' (py_words [] (filter (\<lambda>ch. py_isspace ch \<or> \<not> is_control ch) s))"

definition is_tag_char :: "char \<Rightarrow> bool" where
  "is_tag_char ch =
     (let n = of_char ch :: nat in
      (48 \<le> n \<and> n \<le> 57) \<or> (65 \<le> n \<and> n \<le> 90) \<or> (97 \<le> n \<and> n \<le> 122) \<or> n = 95 \<or> n = 46 \<or> n = 45)"

definition is_valid_tag_key :: "string \<Rightarrow> bool" where
  "is_valid_tag_key key \<longleftrightarrow>
     1 \<le> length key \<and> length key \<le> 64 \<and> list_all is_tag_char key \<and> (\<exists>ch\<in>set key. ch \<noteq> CHR ''.'')"

definition MAX_TAGS :: nat where "MAX_TAGS = 16"
definition MAX_TAG_VALUE_LEN :: nat where "MAX_TAG_VALUE_LEN = 512"

text \<open>\<open>_validate_tags\<close>: \<open>None\<close> is the 422.\<close>

definition validate_tags :: "tag_map \<Rightarrow> tag_map option" where
  "validate_tags tags =
     (if length tags > MAX_TAGS then None
      else if list_all (\<lambda>(k, v). is_valid_tag_key k \<and> length v \<le> MAX_TAG_VALUE_LEN \<and>
                (list_all py_isspace v \<or> sanitise_single_line v \<noteq> '''')) tags
      then Some (map (\<lambda>(k, v). (k, sanitise_single_line v)) tags) else None)"

subsection \<open>Allowed keys of an evaluation\<close>

definition list_tag_keys :: "db \<Rightarrow> uuid \<Rightarrow> evaluation_tag_key list" where
  "list_tag_keys d evaluation_id =
     sort_key tk_key (filter (\<lambda>k. tk_evaluation_id k = evaluation_id) (live_select (tag_keys d)))"

definition allowed_tag_keys :: "db \<Rightarrow> uuid \<Rightarrow> string list" where
  "allowed_tag_keys d evaluation_id =
     remdups (map tk_key (filter (\<lambda>k. tk_evaluation_id k = evaluation_id) (live_select (tag_keys d))))"

definition tagging_policy :: "db \<Rightarrow> uuid \<Rightarrow> (bool \<times> bool) result" where
  "tagging_policy d evaluation_id =
     (case live_by_id evaluation_id (evaluations d) of
        None \<Rightarrow> Inl (NotFoundError (Msg ''Evaluation not found.'' []))
      | Some e \<Rightarrow> Inr (e_tags_enabled e, e_tags_restricted e))"

record tag_fold_policy =
  fp_enabled :: bool
  fp_restricted :: bool
  fp_allowed :: "string list"

definition load_tag_fold_policy :: "db \<Rightarrow> uuid \<Rightarrow> tag_fold_policy result" where
  "load_tag_fold_policy d evaluation_id =
     bindE (tagging_policy d evaluation_id) (\<lambda>(enabled, restricted).
     Inr \<lparr>fp_enabled = enabled, fp_restricted = restricted,
          fp_allowed = (if restricted then allowed_tag_keys d evaluation_id else [])\<rparr>)"

definition unsent :: "tag_fold_policy \<Rightarrow> tag_map \<Rightarrow> string list" where
  "unsent p tags =
     (if tags = [] then []
      else if \<not> fp_enabled p then sort (map fst tags)
      else sort (map fst (filter (\<lambda>(k, v). sanitise_single_line v = '''' \<or> fp_restricted p \<and> k \<notin> set (fp_allowed p)) tags)))"

definition unsent_for_message :: "tag_fold_policy \<Rightarrow> message \<Rightarrow> tag_map \<Rightarrow> string list" where
  "unsent_for_message p m tags =
     (case recorded_tag_context m of
        None \<Rightarrow> unsent p tags
      | Some record \<Rightarrow>
          sort (map fst (filter (\<lambda>(k, v). sanitise_single_line k \<notin> set (map (sanitise_single_line \<circ> fst) record)) tags)))"

definition allowed_tags_only :: "db \<Rightarrow> uuid \<Rightarrow> tag_map \<Rightarrow> tag_map result" where
  "allowed_tags_only d evaluation_id tags =
     (if tags = [] then Inr []
      else bindE (tagging_policy d evaluation_id) (\<lambda>(enabled, restricted).
        if \<not> enabled then Inr []
        else if restricted then Inr (filter (\<lambda>(k, v). k \<in> set (allowed_tag_keys d evaluation_id)) tags)
        else Inr tags))"

definition assert_tags_allowed :: "db \<Rightarrow> uuid \<Rightarrow> tag_map \<Rightarrow> unit result" where
  "assert_tags_allowed d evaluation_id tags =
     (if tags = [] then Inr ()
      else bindE (tagging_policy d evaluation_id) (\<lambda>(enabled, restricted).
        bindE (ensure enabled (BadRequestError (Msg ''Tagging is disabled for this evaluation.'' []))) (\<lambda>_.
        if \<not> restricted then Inr ()
        else let disallowed = py_sorted_set (filter (\<lambda>k. k \<notin> set (allowed_tag_keys d evaluation_id)) (map fst tags))
             in ensure (disallowed = [])
                  (BadRequestError (Msg ''Tag key(s) not allowed for this evaluation: {}.'' [AStrs disallowed])))))"

definition add_tag_key :: "db \<Rightarrow> uuid \<Rightarrow> string \<Rightarrow> (evaluation_tag_key \<times> db) result" where
  "add_tag_key d evaluation_id key =
     (let live = allowed_tag_keys d evaluation_id in
      bindE (ensure (key \<notin> set live)
        (ConflictError (Msg ''Tag key {} is already allowed for this evaluation.'' [AStr key]))) (\<lambda>_.
      bindE (ensure (length live < MAX_TAGS)
        (ConflictError (Msg ''Evaluation already allows the maximum of {} tag keys.'' [ANat MAX_TAGS]))) (\<lambda>_.
      let row = \<lparr>row_id = next_id d, created_at = now d, deleted_at = None, deleted_by_id = None,
                 tk_evaluation_id = evaluation_id, tk_key = key\<rparr>
      in Inr (row, d\<lparr>tag_keys := tag_keys d @ [row], next_id := Suc (next_id d)\<rparr>))))"

definition remove_tag_key :: "db \<Rightarrow> uuid \<Rightarrow> string \<Rightarrow> uuid \<Rightarrow> (evaluation_tag_key \<times> db) result" where
  "remove_tag_key d evaluation_id key by_id =
     bindE (the_or (NotFoundError (Msg ''Tag key {} is not defined for this evaluation.'' [AStr key]))
       (List.find (\<lambda>k. tk_evaluation_id k = evaluation_id \<and> tk_key k = key) (live_select (tag_keys d)))) (\<lambda>row.
     let row' = soft_delete (now d) (Some by_id) row
     in Inr (row', d\<lparr>tag_keys := save_row row' (tag_keys d)\<rparr>))"

subsection \<open>The block folded into the prompt\<close>

definition TAG_CONTEXT_PREAMBLE :: string where
  "TAG_CONTEXT_PREAMBLE = ''Context tags for this request -- take them into account when responding:''"

text \<open>\<open>sent[k] = v\<close> on a dict keeps the position of a key it already holds.\<close>

definition dict_set :: "(string \<times> 'v) list \<Rightarrow> string \<Rightarrow> 'v \<Rightarrow> (string \<times> 'v) list" where
  "dict_set xs k v = dict_merge xs [(k, v)]"

definition sent_tag_context :: "tag_map \<Rightarrow> tag_map" where
  "sent_tag_context tags =
     fold (\<lambda>(k, v) sent. let value = sanitise_single_line v
             in if value = '''' then sent else dict_set sent (sanitise_single_line k) value)
       (sort_key fst tags) []"

definition render_pairs :: "tag_map \<Rightarrow> string" where
  "render_pairs sent = py_join [CHR 0x0A] (TAG_CONTEXT_PREAMBLE # map (\<lambda>(k, v). k @ '': '' @ v) sent)"

definition fold_tag_context :: "tag_map \<Rightarrow> tag_map \<times> string option" where
  "fold_tag_context tags =
     (let sent = sent_tag_context tags in (sent, if sent = [] then None else Some (render_pairs sent)))"

definition render_tag_context :: "tag_map \<Rightarrow> string option" where
  "render_tag_context tags = snd (fold_tag_context tags)"

end
