(* ===== verification/Conversations.thy ===== *)
theory Conversations
  imports Conversation_Groups Tag_Policy Platform
begin

section \<open>Conversations\<close>

text \<open>
  \<open>app/core/conversations/services/conversations.py\<close> and the write routes of \<open>api/v1/conversations.py\<close>,
  \<open>conversation_groups.py\<close>, the unassign route of \<open>evaluations.py\<close> and the delete route of \<open>ai_models.py\<close> that cascade
  into conversations.  \<open>dump_inference_params\<close> has run: overrides arrive as the dict that is stored.  A route returns the
  database it commits; response bodies are left out, except that resolving the licence of the response can fail.
\<close>

subsection \<open>Reads\<close>

definition conversation_not_found :: "uuid \<Rightarrow> uuid \<Rightarrow> error" where
  "conversation_not_found conversation_id evaluation_id =
     NotFoundError (Msg ''Conversation {} not found in evaluation {}.'' [AId conversation_id, AId evaluation_id])"

definition get_conversation :: "chat_db \<Rightarrow> uuid \<Rightarrow> uuid \<Rightarrow> uuid \<Rightarrow> bool \<Rightarrow> bool \<Rightarrow> conversation result" where
  "get_conversation c evaluation_id conversation_id caller_id can_manage read_any =
     the_or (conversation_not_found conversation_id evaluation_id)
       (List.find (\<lambda>x. c_evaluation_id x = evaluation_id \<and> row_id x = conversation_id \<and>
          caller_in_scope (core c) caller_id can_manage read_any (c_evaluation_id x) (c_user_id x))
         (live_select (conversations c)))"

definition join_live_assignment :: "db \<Rightarrow> conversation \<Rightarrow> bool" where
  "join_live_assignment d x \<longleftrightarrow> live_by_id (c_evaluation_ai_model_id x) (eval_models d) \<noteq> None"

record conversation_filters =
  cf_evaluation_id :: "uuid option"
  cf_scenario_id :: "uuid option"
  cf_conversation_group_id :: "uuid option"
  cf_title :: "string option"
  cf_user_id :: "uuid option"
  cf_created_from :: "timestamp option"
  cf_created_to :: "timestamp option"
  cf_deleted :: bool

definition conversation_filters_ok ::
  "(string \<Rightarrow> string option \<Rightarrow> bool) \<Rightarrow> conversation_filters \<Rightarrow> conversation \<Rightarrow> bool" where
  "conversation_filters_ok ilike f x \<longleftrightarrow>
     (case cf_evaluation_id f of None \<Rightarrow> True | Some i \<Rightarrow> c_evaluation_id x = i) \<and>
     (case cf_scenario_id f of None \<Rightarrow> True | Some i \<Rightarrow> c_scenario_id x = i) \<and>
     (case cf_conversation_group_id f of None \<Rightarrow> True | Some i \<Rightarrow> c_conversation_group_id x = i) \<and>
     (case cf_title f of None \<Rightarrow> True | Some s \<Rightarrow> ilike s (c_title x)) \<and>
     (case cf_user_id f of None \<Rightarrow> True | Some i \<Rightarrow> c_user_id x = i) \<and>
     (case cf_created_from f of None \<Rightarrow> True | Some t \<Rightarrow> t \<le> created_at x) \<and>
     (case cf_created_to f of None \<Rightarrow> True | Some t \<Rightarrow> created_at x \<le> t)"

definition list_conversations ::
  "(string \<Rightarrow> string option \<Rightarrow> bool) \<Rightarrow> (conversation \<Rightarrow> 'k::linorder) \<Rightarrow> chat_db \<Rightarrow> uuid \<Rightarrow> bool \<Rightarrow> bool \<Rightarrow>
     conversation_filters \<Rightarrow> nat \<Rightarrow> nat \<Rightarrow> timestamp \<Rightarrow> conversation list \<times> nat" where
  "list_conversations ilike order_key c caller_id can_manage read_any filters limit offset deleted_cutoff =
     (let rows = (if cf_deleted filters
            then filter (\<lambda>x. caller_in_scope (core c) caller_id can_manage False (c_evaluation_id x) (c_user_id x) \<and>
                             join_live_assignment (core c) x)
                   (deleted_select deleted_cutoff (if can_manage then None else Some caller_id) (conversations c))
            else filter (\<lambda>x. caller_in_scope (core c) caller_id can_manage read_any (c_evaluation_id x) (c_user_id x))
                   (live_select (conversations c)))
      in paginate limit offset
           (sort_key order_key (sort_key row_id (filter (conversation_filters_ok ilike filters) rows))))"

definition get_restorable_conversation ::
  "chat_db \<Rightarrow> uuid \<Rightarrow> uuid \<Rightarrow> uuid \<Rightarrow> bool \<Rightarrow> timestamp \<Rightarrow> conversation result" where
  "get_restorable_conversation c evaluation_id conversation_id caller_id can_manage deleted_cutoff =
     the_or (NotFoundError (Msg ''No restorable conversation {} was deleted within the restore window in evaluation {}.''
         [AId conversation_id, AId evaluation_id]))
       (List.find (\<lambda>x. c_evaluation_id x = evaluation_id \<and> row_id x = conversation_id \<and>
          caller_in_scope (core c) caller_id can_manage False (c_evaluation_id x) (c_user_id x) \<and> join_live_assignment (core c) x)
         (deleted_select deleted_cutoff (if can_manage then None else Some caller_id) (conversations c)))"

subsection \<open>Writes\<close>

definition create_conversation ::
  "uuid \<Rightarrow> nat \<Rightarrow> chat_db \<Rightarrow> uuid \<Rightarrow> uuid \<Rightarrow> uuid \<Rightarrow> uuid \<Rightarrow> params \<Rightarrow> uuid \<Rightarrow> string option \<Rightarrow> tag_map option \<Rightarrow> bool \<Rightarrow>
     (conversation \<times> chat_db) result" where
  "create_conversation env_license max_size c user_id evaluation_id evaluation_ai_model_id scenario_id parameters
       conversation_group_id title tags can_manage =
     bindE (get_evaluation (core c) evaluation_id (Some user_id) can_manage) (\<lambda>_.
     bindE (get_assignment (core c) evaluation_id evaluation_ai_model_id None False) (\<lambda>_.
     bindE (get_scenario (core c) evaluation_id scenario_id None False) (\<lambda>_.
     bindE (acquire_group_for_conversation max_size c evaluation_id conversation_group_id user_id can_manage) (\<lambda>g.
     bindE (ensure (scenario_id = cg_scenario_id g)
       (ConflictError (Msg ''Scenario {} is not the scenario of conversation group {}; a group's conversations all share its scenario.''
          [AId scenario_id, AId conversation_group_id]))) (\<lambda>_.
     bindE (assert_tags_allowed (core c) evaluation_id (case tags of None \<Rightarrow> [] | Some t \<Rightarrow> t)) (\<lambda>_.
     bindE (resolve_effective_license env_license (core c) evaluation_id) (\<lambda>licence.
     let x = new_conversation (fresh c) (clock c) user_id evaluation_id evaluation_ai_model_id scenario_id
               conversation_group_id title parameters (case tags of None \<Rightarrow> [] | Some t \<Rightarrow> t)
               (l_protects_conversation_data licence)
     in Inr (x, take_ids 1 (c\<lparr>conversations := conversations c @ [x]\<rparr>)))))))))"

definition save_conversation :: "chat_db \<Rightarrow> conversation \<Rightarrow> chat_db" where
  "save_conversation c x = c\<lparr>conversations := save_row x (conversations c)\<rparr>"

record conversation_update =
  cu_parameters :: "params option"
  cu_tags :: "tag_map option"
  cu_conversation_group_id :: "uuid option"
  cu_title :: "string option option"

definition update_conversation ::
  "chat_db \<Rightarrow> conversation \<Rightarrow> uuid \<Rightarrow> params option \<Rightarrow> tag_map option \<Rightarrow> uuid option \<Rightarrow> string option option \<Rightarrow>
     (conversation \<times> chat_db) result" where
  "update_conversation c x by_id parameters tags new_group_id title =
     bindE (case tags of None \<Rightarrow> Inr () | Some t \<Rightarrow> assert_tags_allowed (core c) (c_evaluation_id x) t) (\<lambda>_.
     let x' = x\<lparr>c_parameters := set_or (c_parameters x) parameters, c_tags := set_or (c_tags x) tags,
                c_conversation_group_id := set_or (c_conversation_group_id x) new_group_id,
                c_title := set_or (c_title x) title\<rparr>;
         c' = save_conversation c x'
     in Inr (x', if c_conversation_group_id x' \<noteq> c_conversation_group_id x
                 then soft_delete_empty_groups c' [c_conversation_group_id x] by_id else c'))"

definition soft_delete_conversation :: "chat_db \<Rightarrow> conversation \<Rightarrow> uuid \<Rightarrow> conversation \<times> chat_db" where
  "soft_delete_conversation c x by_id =
     (let x' = soft_delete (clock c) (Some by_id) x
      in (x', soft_delete_empty_groups (save_conversation c x') [c_conversation_group_id x] by_id))"

definition restore_conversation :: "nat \<Rightarrow> chat_db \<Rightarrow> conversation \<Rightarrow> (conversation \<times> chat_db) result" where
  "restore_conversation max_size c x =
     bindE (assert_group_has_room max_size c (c_conversation_group_id x)) (\<lambda>_.
     bindE (restore_row (\<lambda>_ _. False) (Msg ''Conversation cannot be restored.'' []) x (conversations c)) (\<lambda>(x', t).
     Inr (x', revive_pruned_group (c\<lparr>conversations := t\<rparr>) (c_conversation_group_id x))))"

text \<open>\<open>affected\<close> is the distinct group ids of every conversation of the assignments, tombstones included.\<close>

definition soft_delete_conversations_of :: "chat_db \<Rightarrow> (uuid \<Rightarrow> bool) \<Rightarrow> uuid \<Rightarrow> nat \<times> chat_db" where
  "soft_delete_conversations_of c P by_id =
     (let affected = remdups (map c_conversation_group_id (filter (\<lambda>x. P (c_evaluation_ai_model_id x)) (conversations c)));
          c' = c\<lparr>conversations := live_update (\<lambda>x. P (c_evaluation_ai_model_id x)) (soft_delete (clock c) (Some by_id))
                 (conversations c)\<rparr>
      in (length (filter (\<lambda>x. P (c_evaluation_ai_model_id x)) (live_select (conversations c))),
          soft_delete_empty_groups c' affected by_id))"

definition soft_delete_conversations_for_assignment :: "chat_db \<Rightarrow> uuid \<Rightarrow> uuid \<Rightarrow> nat \<times> chat_db" where
  "soft_delete_conversations_for_assignment c evaluation_ai_model_id by_id =
     soft_delete_conversations_of c (\<lambda>i. i = evaluation_ai_model_id) by_id"

definition soft_delete_conversations_for_model :: "chat_db \<Rightarrow> uuid \<Rightarrow> uuid \<Rightarrow> nat \<times> chat_db" where
  "soft_delete_conversations_for_model c model_id by_id =
     (let assignment_ids = map row_id (filter (\<lambda>a. em_model_id a = model_id) (eval_models (core c)))
      in soft_delete_conversations_of c (\<lambda>i. i \<in> set assignment_ids) by_id)"

subsection \<open>Routes\<close>

text \<open>\<open>require_conversation_permission\<close> and the gate of the create routes: the permission globally, or in the group that
  the path resolves to under the caller's visibility.\<close>

definition group_of_path_evaluation :: "chat_db \<Rightarrow> session_user \<Rightarrow> uuid \<Rightarrow> uuid result" where
  "group_of_path_evaluation c caller evaluation_id =
     bindE (get_evaluation (core c) evaluation_id (Some (su_id caller)) (caller_can_manage_groups caller)) (\<lambda>e.
     Inr (e_evaluation_group_id e))"

definition group_of_path_scenario :: "chat_db \<Rightarrow> session_user \<Rightarrow> uuid \<Rightarrow> uuid option result" where
  "group_of_path_scenario c caller scenario_id =
     bindE (get_scenario_by_id (core c) scenario_id (su_id caller) (caller_can_manage_groups caller)) (\<lambda>s.
     Inr (map_option e_evaluation_group_id (List.find (\<lambda>e. row_id e = s_evaluation_id s) (evaluations (core c)))))"

definition require_conversation_permission :: "permission \<Rightarrow> chat_db \<Rightarrow> session_user \<Rightarrow> uuid \<Rightarrow> session_user result" where
  "require_conversation_permission p c caller evaluation_id =
     (if has_permission p (su_permissions caller) then Inr caller
      else bindE (group_of_path_evaluation c caller evaluation_id) (\<lambda>i.
        require_object_or_global p (core c) caller (Some i)))"

definition require_create :: "chat_db \<Rightarrow> session_user \<Rightarrow> uuid \<Rightarrow> session_user result" where
  "require_create c caller scenario_id =
     (if has_permission CONVERSATIONS_CREATE (su_permissions caller) then Inr caller
      else bindE (group_of_path_scenario c caller scenario_id) (\<lambda>i.
        require_object_or_global CONVERSATIONS_CREATE (core c) caller i))"

definition create_conversation_group_endpoint ::
  "uuid \<Rightarrow> nat \<Rightarrow> chat_db \<Rightarrow> session_user \<Rightarrow> uuid \<Rightarrow> string \<Rightarrow> conversation_spec list \<Rightarrow> chat_db result" where
  "create_conversation_group_endpoint env_license max_size c caller scenario_id name models =
     bindE (require_create c caller scenario_id) (\<lambda>_.
     let can_manage = caller_can_manage_groups caller in
     bindE (get_scenario_by_id (core c) scenario_id (su_id caller) can_manage) (\<lambda>s.
     bindE (create_conversation_group env_license c (su_id caller) (s_evaluation_id s) scenario_id name models can_manage)
       (\<lambda>(_, c'). bindE (resolve_effective_license env_license (core c') (s_evaluation_id s)) (\<lambda>_. Inr c'))))"

definition update_conversation_group_endpoint ::
  "chat_db \<Rightarrow> session_user \<Rightarrow> uuid \<Rightarrow> uuid \<Rightarrow> string \<Rightarrow> chat_db result" where
  "update_conversation_group_endpoint c caller evaluation_id conversation_group_id name =
     bindE (require_conversation_permission CONVERSATIONS_UPDATE c caller evaluation_id) (\<lambda>_.
     bindE (get_conversation_group c evaluation_id conversation_group_id (su_id caller) (caller_can_manage_groups caller)
       False) (\<lambda>g. Inr (snd (rename_conversation_group c g name))))"

definition delete_conversation_group_endpoint :: "chat_db \<Rightarrow> session_user \<Rightarrow> uuid \<Rightarrow> uuid \<Rightarrow> chat_db result" where
  "delete_conversation_group_endpoint c caller evaluation_id conversation_group_id =
     bindE (require_conversation_permission CONVERSATIONS_DELETE c caller evaluation_id) (\<lambda>_.
     bindE (get_conversation_group c evaluation_id conversation_group_id (su_id caller) (caller_can_manage_groups caller)
       False) (\<lambda>g. Inr (snd (soft_delete_conversation_group c g (su_id caller)))))"

definition create_conversation_endpoint ::
  "uuid \<Rightarrow> nat \<Rightarrow> chat_db \<Rightarrow> session_user \<Rightarrow> uuid \<Rightarrow> uuid \<Rightarrow> params \<Rightarrow> uuid \<Rightarrow> string option \<Rightarrow> tag_map \<Rightarrow> chat_db result" where
  "create_conversation_endpoint env_license max_size c caller scenario_id evaluation_ai_model_id parameters
       conversation_group_id title tags =
     bindE (require_create c caller scenario_id) (\<lambda>_.
     let can_manage = caller_can_manage_groups caller in
     bindE (get_scenario_by_id (core c) scenario_id (su_id caller) can_manage) (\<lambda>s.
     bindE (create_conversation env_license max_size c (su_id caller) (s_evaluation_id s) evaluation_ai_model_id scenario_id
       parameters conversation_group_id title (Some tags) can_manage) (\<lambda>(_, c').
     bindE (resolve_effective_license env_license (core c') (s_evaluation_id s)) (\<lambda>_. Inr c'))))"

definition move_target ::
  "nat \<Rightarrow> chat_db \<Rightarrow> session_user \<Rightarrow> uuid \<Rightarrow> conversation \<Rightarrow> uuid option \<Rightarrow> uuid option result" where
  "move_target max_size c caller evaluation_id x target =
     (case target of None \<Rightarrow> Inr None
      | Some i \<Rightarrow> if i = c_conversation_group_id x then Inr None
          else bindE (acquire_group_for_conversation max_size c evaluation_id i (su_id caller)
                 (caller_can_manage_groups caller)) (\<lambda>g.
               bindE (ensure (cg_scenario_id g = c_scenario_id x)
                 (ConflictError (Msg ''Conversation group {} targets a different scenario; a conversation only moves between groups of its own scenario.''
                   [AId i]))) (\<lambda>_. Inr (Some i))))"

definition audit_tags :: "chat_db \<Rightarrow> session_user \<Rightarrow> uuid \<Rightarrow> tag_map \<Rightarrow> tag_map \<Rightarrow> chat_db" where
  "audit_tags c caller conversation_id before after =
     c\<lparr>core := record_audit (core c) (Some (su_id caller)) (Some (su_email caller)) ''conversation.tags_update''
         (Some ''conversation'') (Some conversation_id)
         (Some (map (\<lambda>(k, v). (k, AStr v)) before)) (Some (map (\<lambda>(k, v). (k, AStr v)) after))\<rparr>"

definition update_conversation_endpoint ::
  "uuid \<Rightarrow> nat \<Rightarrow> chat_db \<Rightarrow> session_user \<Rightarrow> uuid \<Rightarrow> uuid \<Rightarrow> conversation_update \<Rightarrow> chat_db result" where
  "update_conversation_endpoint env_license max_size c caller evaluation_id conversation_id ch =
     bindE (require_conversation_permission CONVERSATIONS_UPDATE c caller evaluation_id) (\<lambda>_.
     bindE (get_conversation c evaluation_id conversation_id (su_id caller) (caller_can_manage_groups caller) False) (\<lambda>x.
     bindE (move_target max_size c caller evaluation_id x (cu_conversation_group_id ch)) (\<lambda>new_group_id.
     bindE (if cu_parameters ch \<noteq> None \<or> cu_tags ch \<noteq> None \<or> new_group_id \<noteq> None \<or> cu_title ch \<noteq> None
            then update_conversation c x (su_id caller) (cu_parameters ch) (cu_tags ch) new_group_id (cu_title ch)
            else Inr (x, c)) (\<lambda>(x', c').
     let c'' = (if cu_tags ch \<noteq> None \<and> map_of (c_tags x') \<noteq> map_of (c_tags x)
                then audit_tags c' caller conversation_id (c_tags x) (c_tags x') else c')
     in bindE (resolve_effective_license env_license (core c'') evaluation_id) (\<lambda>_. Inr c'')))))"

definition delete_conversation_endpoint :: "chat_db \<Rightarrow> session_user \<Rightarrow> uuid \<Rightarrow> uuid \<Rightarrow> chat_db result" where
  "delete_conversation_endpoint c caller evaluation_id conversation_id =
     bindE (require_conversation_permission CONVERSATIONS_DELETE c caller evaluation_id) (\<lambda>_.
     bindE (get_conversation c evaluation_id conversation_id (su_id caller) (caller_can_manage_groups caller) False) (\<lambda>x.
     Inr (snd (soft_delete_conversation c x (su_id caller)))))"

definition restore_conversation_endpoint ::
  "uuid \<Rightarrow> nat \<Rightarrow> int \<Rightarrow> chat_db \<Rightarrow> session_user \<Rightarrow> uuid \<Rightarrow> uuid \<Rightarrow> chat_db result" where
  "restore_conversation_endpoint env_license max_size window_days c caller evaluation_id conversation_id =
     bindE (require_conversation_permission CONVERSATIONS_DELETE c caller evaluation_id) (\<lambda>_.
     bindE (get_restorable_conversation c evaluation_id conversation_id (su_id caller) (caller_can_manage_groups caller)
       (restore_cutoff window_days (clock c))) (\<lambda>x.
     bindE (restore_conversation max_size c x) (\<lambda>(x', c').
     bindE (resolve_effective_license env_license (core c') (c_evaluation_id x')) (\<lambda>_. Inr c'))))"

text \<open>\<open>snapshot\<close> is the curated snapshot the route takes of the row for the audit trail.\<close>

definition unassign_model_endpoint ::
  "(evaluation_ai_model \<Rightarrow> (string \<times> arg) list) \<Rightarrow> chat_db \<Rightarrow> session_user \<Rightarrow> uuid \<Rightarrow> uuid \<Rightarrow> chat_db result" where
  "unassign_model_endpoint snapshot c caller evaluation_id assignment_id =
     bindE (ensure (has_permission EVALUATIONS_UPDATE (su_permissions caller))
       (ForbiddenError (Msg ''Caller lacks the {} permission.'' [AStr (permission_value EVALUATIONS_UPDATE)]))) (\<lambda>_.
     bindE (authorize_evaluation_mutation (core c) evaluation_id (su_id caller) (caller_can_manage_groups caller)
       EVALUATIONS_UPDATE False) (\<lambda>_.
     bindE (get_assignment (core c) evaluation_id assignment_id None False) (\<lambda>a.
     let c1 = c\<lparr>core := snd (soft_delete_assignment (core c) a (su_id caller))\<rparr>;
         c2 = snd (soft_delete_conversations_for_assignment c1 assignment_id (su_id caller))
     in Inr (c2\<lparr>core := record_audit (core c2) (Some (su_id caller)) (Some (su_email caller)) ''evaluation.model_unassign''
          (Some ''evaluation_ai_model'') (Some assignment_id) (Some (snapshot a)) None\<rparr>))))"

definition delete_model_endpoint :: "(ai_model \<Rightarrow> (string \<times> arg) list) \<Rightarrow> chat_db \<Rightarrow> session_user \<Rightarrow> uuid \<Rightarrow> chat_db result" where
  "delete_model_endpoint snapshot c caller model_id =
     bindE (ensure (has_permission MODELS_DELETE (su_permissions caller))
       (ForbiddenError (Msg ''Caller lacks the {} permission.'' [AStr (permission_value MODELS_DELETE)]))) (\<lambda>_.
     bindE (get_model (core c) model_id) (\<lambda>m.
     let d1 = (core c)\<lparr>ai_models := save_row (soft_delete (clock c) (Some (su_id caller)) m) (ai_models (core c))\<rparr>;
         d2 = snd (unassign_models_for_model d1 model_id (su_id caller));
         d3 = snd (unassign_group_models_for_model d2 model_id (su_id caller));
         c' = snd (soft_delete_conversations_for_model (c\<lparr>core := d3\<rparr>) model_id (su_id caller))
     in Inr (c'\<lparr>core := record_audit (core c') (Some (su_id caller)) (Some (su_email caller)) ''ai_model.delete''
          (Some ''ai_model'') (Some model_id) (Some (snapshot m)) None\<rparr>)))"

end
