(* ===== verification/Conversation_Laws.thy ===== *)
theory Conversation_Laws
  imports Conversations
begin

section \<open>No conversation under a dead group, no live group without one\<close>

text \<open>
  The invariant the conversation services are written around: every live conversation sits under a live group
  of its evaluation and scenario and has a live model assignment, every live group holds at least one live conversation and
  at most \<open>max_size\<close>.  \<open>almost is\<close> is the invariant while the groups \<open>is\<close> wait to be pruned;
  \<open>soft_delete_empty_groups\<close> turns it into the invariant, so each write is shown to reach \<open>almost\<close> and then pruned.
  \<open>chat_step\<close> is one request.
\<close>

definition homed :: "chat_db \<Rightarrow> bool" where
  "homed c \<longleftrightarrow> (\<forall>x\<in>set (conversations c). \<exists>g\<in>set (conversation_groups c).
     row_id g = c_conversation_group_id x \<and> cg_evaluation_id g = c_evaluation_id x \<and> cg_scenario_id g = c_scenario_id x \<and>
     (deleted_at x = None \<longrightarrow> deleted_at g = None))"

definition runnable :: "chat_db \<Rightarrow> bool" where
  "runnable c \<longleftrightarrow> (\<forall>x\<in>set (conversations c). deleted_at x = None \<longrightarrow>
     live_by_id (c_evaluation_ai_model_id x) (eval_models (core c)) \<noteq> None)"

definition almost :: "uuid set \<Rightarrow> nat \<Rightarrow> chat_db \<Rightarrow> bool" where
  "almost is max_size c \<longleftrightarrow>
     keys_ok (fresh c) (conversation_groups c) \<and> keys_ok (fresh c) (conversations c) \<and> homed c \<and>
     (\<forall>g\<in>set (conversation_groups c). deleted_at g = None \<longrightarrow> row_id g \<in> is \<or> members c (row_id g) \<noteq> []) \<and>
     (\<forall>i. length (members c i) \<le> max_size)"

definition chat_inv :: "nat \<Rightarrow> chat_db \<Rightarrow> bool" where
  "chat_inv max_size c \<longleftrightarrow> almost {} max_size c \<and> runnable c"

subsection \<open>Counting members\<close>

lemma members_filter:
  "members c i = filter (\<lambda>x. deleted_at x = None \<and> c_conversation_group_id x = i) (conversations c)"
  by (simp add: members_def live_select_def conj_commute)

lemma in_members: "x \<in> set (members c i) \<longleftrightarrow> x \<in> set (conversations c) \<and> deleted_at x = None \<and> c_conversation_group_id x = i"
  by (auto simp: members_filter)

lemma members_cong: "conversations c = conversations c' \<Longrightarrow> members c i = members c' i"
  by (simp add: members_filter)

lemma filter_save_row_same:
  "(\<And>y. y \<in> set t \<Longrightarrow> row_id y = row_id r \<Longrightarrow> P r \<Longrightarrow> P y) \<Longrightarrow>
     length (filter P (save_row r t)) \<le> length (filter P t)"
proof (induction t)
  case (Cons y t)
  then have "length (filter P (save_row r t)) \<le> length (filter P t)" by simp
  with Cons.prems [of y] show ?case by (auto simp: save_row_def)
qed (simp add: save_row_def)

lemma filter_save_row_one:
  "distinct (map row_id t) \<Longrightarrow> length (filter P (save_row r t)) \<le> Suc (length (filter P t))"
proof (induction t)
  case (Cons y t)
  show ?case
  proof (cases "row_id y = row_id r")
    case True
    then have "save_row r t = t" using Cons.prems by (metis distinct.simps(2) list.map(2) list.set_map save_row_fresh)
    with True show ?thesis by (simp add: save_row_def)
  next
    case False
    with Cons show ?thesis by (auto simp: save_row_def)
  qed
qed (simp add: save_row_def)

lemma filter_live_update_le:
  "(\<And>y. deleted_at y = None \<Longrightarrow> Q y \<Longrightarrow> P (f y) \<Longrightarrow> P y) \<Longrightarrow>
     length (filter P (live_update Q f t)) \<le> length (filter P t)"
  by (induction t) (auto simp: live_update_def le_SucI)

subsection \<open>Pruning completes a write\<close>

lemma in_live_update_delete:
  "x \<in> set (live_update P (soft_delete t u) tb) \<longleftrightarrow>
     (\<exists>y\<in>set tb. x = (if deleted_at y = None \<and> P y then soft_delete t u y else y))"
  unfolding live_update_def set_map image_iff ..

lemma live_after_delete:
  assumes "deleted_at x = None"
  shows "x \<in> set (live_update P (soft_delete t u) tb) \<longleftrightarrow> x \<in> set tb \<and> \<not> P x"
proof
  assume "x \<in> set (live_update P (soft_delete t u) tb)"
  then obtain y where "y \<in> set tb" "x = (if deleted_at y = None \<and> P y then soft_delete t u y else y)"
    by (auto simp: in_live_update_delete)
  with assms show "x \<in> set tb \<and> \<not> P x" by (cases "deleted_at y = None \<and> P y") auto
next
  assume "x \<in> set tb \<and> \<not> P x"
  then show "x \<in> set (live_update P (soft_delete t u) tb)"
    unfolding in_live_update_delete by (intro bexI [of _ x]) auto
qed

lemma prune_inv:
  assumes "almost (set is) max_size c"
  shows "almost {} max_size (soft_delete_empty_groups c is u)"
proof -
  let ?c = "soft_delete_empty_groups c is u"
  have k: "keys_ok (fresh c) (conversation_groups c)" "keys_ok (fresh c) (conversations c)" and h: "homed c"
    and p: "\<And>g. g \<in> set (conversation_groups c) \<Longrightarrow> deleted_at g = None \<Longrightarrow> row_id g \<in> set is \<or> members c (row_id g) \<noteq> []"
    and m: "\<And>i. length (members c i) \<le> max_size"
    using assms by (auto simp: almost_def)
  have "homed ?c"
    unfolding homed_def
  proof (rule ballI)
    fix x assume "x \<in> set (conversations ?c)"
    then have x: "x \<in> set (conversations c)" by simp
    with h obtain g where g: "g \<in> set (conversation_groups c)" "row_id g = c_conversation_group_id x"
      "cg_evaluation_id g = c_evaluation_id x" "cg_scenario_id g = c_scenario_id x"
      "deleted_at x = None \<longrightarrow> deleted_at g = None" by (auto simp: homed_def)
    let ?g = "if deleted_at g = None \<and> row_id g \<in> set is \<and> members c (row_id g) = [] then soft_delete (clock c) (Some u) g else g"
    have "?g \<in> set (conversation_groups ?c)"
      unfolding prune_groups in_live_update_delete using g(1) by (rule bexI [rotated]) simp
    moreover have "deleted_at x = None \<Longrightarrow> members c (row_id g) \<noteq> []"
      using x g(2) in_members [of x c "row_id g"] by auto
    ultimately show "\<exists>g\<in>set (conversation_groups ?c). row_id g = c_conversation_group_id x \<and>
        cg_evaluation_id g = c_evaluation_id x \<and> cg_scenario_id g = c_scenario_id x \<and>
        (deleted_at x = None \<longrightarrow> deleted_at g = None)"
      using g(2-5) by (intro bexI [of _ ?g]) (auto simp: soft_delete_def)
  qed
  moreover have "\<forall>g\<in>set (conversation_groups ?c). deleted_at g = None \<longrightarrow> members c (row_id g) \<noteq> []"
  proof (intro ballI impI)
    fix g assume "g \<in> set (conversation_groups ?c)" and live: "deleted_at g = None"
    then have "g \<in> set (conversation_groups c) \<and> \<not> (row_id g \<in> set is \<and> members c (row_id g) = [])"
      by (simp add: prune_groups live_after_delete [OF live])
    with p [of g] live show "members c (row_id g) \<noteq> []" by auto
  qed
  moreover have "keys_ok (fresh c) (conversation_groups ?c)"
    using k(1) by (auto simp: prune_groups intro: keys_ok_live_update)
  ultimately show ?thesis using k(2) m by (simp add: almost_def)
qed

lemma almost_mono: "almost is m c \<Longrightarrow> is \<subseteq> js \<Longrightarrow> almost js m c"
  by (auto simp: almost_def)

lemma homedD:
  "homed c \<Longrightarrow> x \<in> set (conversations c) \<Longrightarrow> \<exists>g\<in>set (conversation_groups c).
     row_id g = c_conversation_group_id x \<and> cg_evaluation_id g = c_evaluation_id x \<and> cg_scenario_id g = c_scenario_id x \<and>
     (deleted_at x = None \<longrightarrow> deleted_at g = None)"
  by (simp add: homed_def)

subsection \<open>Writing one conversation back\<close>

lemma save_almost:
  assumes a: "almost {} max_size c" and x: "x \<in> set (conversations c)"
    and same: "row_id x' = row_id x" "c_evaluation_id x' = c_evaluation_id x" "c_scenario_id x' = c_scenario_id x"
    and home: "g \<in> set (conversation_groups c)" "row_id g = c_conversation_group_id x'"
      "cg_evaluation_id g = c_evaluation_id x'" "cg_scenario_id g = c_scenario_id x'"
      "deleted_at x' = None \<Longrightarrow> deleted_at g = None"
    and room: "deleted_at x' = None \<Longrightarrow> c_conversation_group_id x' \<noteq> c_conversation_group_id x \<or> deleted_at x \<noteq> None \<Longrightarrow>
      length (members c (c_conversation_group_id x')) < max_size"
    and stays: "c_conversation_group_id x' = c_conversation_group_id x \<Longrightarrow> deleted_at x = None \<Longrightarrow> deleted_at x' = None \<or>
      c_conversation_group_id x \<in> is"
    and moved: "c_conversation_group_id x' \<noteq> c_conversation_group_id x \<Longrightarrow> c_conversation_group_id x \<in> is"
  shows "almost is max_size (save_conversation c x')"
proof -
  let ?c = "save_conversation c x'" and ?P = "\<lambda>i x. deleted_at x = None \<and> c_conversation_group_id x = i"
  have k: "keys_ok (fresh c) (conversation_groups c)" "keys_ok (fresh c) (conversations c)" and h: "homed c"
    and p: "\<And>g. g \<in> set (conversation_groups c) \<Longrightarrow> deleted_at g = None \<Longrightarrow> members c (row_id g) \<noteq> []"
    and m: "\<And>i. length (members c i) \<le> max_size"
    using a by (auto simp: almost_def)
  have d: "distinct (map row_id (conversations c))" using k(2) by (simp add: keys_ok_def)
  have convs: "conversations ?c = save_row x' (conversations c)" by (simp add: save_conversation_def)
  have self: "y = x" if "y \<in> set (conversations c)" "row_id y = row_id x'" for y
    using distinct_map_same [OF d that(1) x] that(2) same(1) by simp
  have "length (members ?c i) \<le> max_size" for i
  proof (cases "?P i x' \<and> \<not> ?P i x")
    case True
    then have "length (members c i) < max_size" using room by auto
    moreover have "length (members ?c i) \<le> Suc (length (members c i))"
      unfolding members_filter convs by (rule filter_save_row_one [OF d])
    ultimately show ?thesis by simp
  next
    case False
    have "length (members ?c i) \<le> length (members c i)"
      unfolding members_filter convs by (rule filter_save_row_same) (use False self in auto)
    with m show ?thesis using le_trans by blast
  qed
  moreover have "homed ?c"
    using h home by (fastforce simp: homed_def convs in_save_row save_conversation_def)
  moreover have "\<forall>g\<in>set (conversation_groups ?c). deleted_at g = None \<longrightarrow> row_id g \<in> is \<or> members ?c (row_id g) \<noteq> []"
  proof (intro ballI impI)
    fix g assume "g \<in> set (conversation_groups ?c)" "deleted_at g = None"
    then have "members c (row_id g) \<noteq> []" using p by (simp add: save_conversation_def)
    then obtain y where y: "y \<in> set (conversations c)" "?P (row_id g) y"
      using in_members by (metis list.set_intros(1) neq_Nil_conv)
    show "row_id g \<in> is \<or> members ?c (row_id g) \<noteq> []"
    proof (cases "row_id y = row_id x'")
      case True
      then have "y = x" using self y by blast
      then have "row_id g \<in> is \<or> ?P (row_id g) x'" using y(2) stays moved by auto
      moreover have "x' \<in> set (conversations ?c)" using x same by (auto simp: convs in_save_row)
      ultimately show ?thesis using in_members [of x' ?c "row_id g"] by auto
    next
      case False
      then have "y \<in> set (members ?c (row_id g))" using y by (auto simp: in_members convs in_save_row)
      then show ?thesis by auto
    qed
  qed
  moreover have "row_id x' < fresh c" using k(2) x same by (auto simp: keys_ok_def)
  then have "keys_ok (fresh ?c) (conversations ?c)" "keys_ok (fresh ?c) (conversation_groups ?c)"
    using k by (simp_all add: save_conversation_def)
  ultimately show ?thesis by (simp add: almost_def)
qed


subsection \<open>What the lookups return\<close>

lemma get_group_SomeD:
  "get_conversation_group c e i u m r = Inr g \<Longrightarrow>
     g \<in> set (conversation_groups c) \<and> deleted_at g = None \<and> row_id g = i \<and> cg_evaluation_id g = e"
  by (auto simp: get_conversation_group_def dest!: find_SomeD)

lemma acquire_SomeD:
  "acquire_group_for_conversation n c e i u m = Inr g \<Longrightarrow>
     g \<in> set (conversation_groups c) \<and> deleted_at g = None \<and> row_id g = i \<and> cg_evaluation_id g = e \<and>
     length (members c i) < n"
  by (auto simp: acquire_group_for_conversation_def svc_simps count_live_conversations_def dest!: get_group_SomeD)

lemma get_conversation_SomeD:
  "get_conversation c e i u m r = Inr x \<Longrightarrow>
     x \<in> set (conversations c) \<and> deleted_at x = None \<and> row_id x = i \<and> c_evaluation_id x = e"
  by (auto simp: get_conversation_def dest!: find_SomeD)

lemma get_restorable_SomeD:
  "get_restorable_conversation c e i u m t = Inr x \<Longrightarrow>
     x \<in> set (conversations c) \<and> deleted_at x \<noteq> None \<and> c_evaluation_id x = e \<and>
     live_by_id (c_evaluation_ai_model_id x) (eval_models (core c)) \<noteq> None"
  by (auto simp: get_restorable_conversation_def join_live_assignment_def dest!: find_SomeD in_window_deleted)

lemma get_assignment_live:
  assumes "get_assignment d e i u m = Inr a" shows "row_id a = i \<and> live_by_id i (eval_models d) \<noteq> None"
proof -
  from assms have "a \<in> set (eval_models d)" "deleted_at a = None" "row_id a = i"
    by (auto simp: get_assignment_def dest!: find_SomeD)
  then show ?thesis by (auto simp: live_by_id_None)
qed

lemma check_assignments_live:
  "check_assignments d e sps = Inr u \<Longrightarrow> sp \<in> set sps \<Longrightarrow> live_by_id (sp_assignment_id sp) (eval_models d) \<noteq> None"
  by (induction sps) (auto simp: svc_simps dest: get_assignment_live)

lemma almostD:
  assumes "almost is n c"
  shows "keys_ok (fresh c) (conversation_groups c)" "keys_ok (fresh c) (conversations c)" "homed c"
    "g \<in> set (conversation_groups c) \<Longrightarrow> deleted_at g = None \<Longrightarrow> row_id g \<in> is \<or> members c (row_id g) \<noteq> []"
    "length (members c i) \<le> n"
  using assms by (auto simp: almost_def)

lemma keys_ok_append_many:
  "keys_ok n t \<Longrightarrow> map row_id rows = [n..<n + k] \<Longrightarrow> keys_ok (n + k) (t @ rows)"
proof -
  assume t: "keys_ok n t" and r: "map row_id rows = [n..<n + k]"
  have "row_id ` set rows = {n..<n + k}" by (metis r atLeastLessThan_upt list.set_map)
  with t r show ?thesis by (fastforce simp: keys_ok_def)
qed

subsection \<open>Each write keeps the invariant\<close>

lemma inv_of_prune:
  "almost (set is) n c \<Longrightarrow> runnable c \<Longrightarrow> chat_inv n (soft_delete_empty_groups c is u)"
  by (simp add: chat_inv_def prune_inv runnable_def)

lemma runnable_saved:
  "runnable c \<Longrightarrow> (deleted_at x = None \<Longrightarrow> live_by_id (c_evaluation_ai_model_id x) (eval_models (core c)) \<noteq> None) \<Longrightarrow>
     runnable (save_conversation c x)"
  by (auto simp: runnable_def save_conversation_def in_save_row)

lemma create_conversation_inv:
  assumes i: "chat_inv n c" and r: "create_conversation l n c u e a s p gi t tg m = Inr (x, c')"
  shows "chat_inv n c'"
proof -
  from r obtain g asg where g: "acquire_group_for_conversation n c e gi u m = Inr g" "s = cg_scenario_id g"
    and a: "get_assignment (core c) e a None False = Inr asg"
    and c': "c' = take_ids 1 (c\<lparr>conversations := conversations c @ [x]\<rparr>)"
    and x: "row_id x = fresh c" "deleted_at x = None" "c_evaluation_id x = e" "c_scenario_id x = s"
      "c_conversation_group_id x = gi" "c_evaluation_ai_model_id x = a"
    by (auto simp: create_conversation_def svc_simps Let_def new_conversation_def)
  have live: "live_by_id a (eval_models (core c)) \<noteq> None" using get_assignment_live [OF a] by blast
  note al = almostD [of "{}" n c]
  have i': "almost {} n c" "runnable c" using i by (auto simp: chat_inv_def)
  have gs: "conversation_groups c' = conversation_groups c" by (simp add: c')
  have mem: "members c' j = members c j @ (if j = gi then [x] else [])" for j
    using x by (simp add: c' members_filter)
  have "length (members c' j) \<le> n" for j
    using al(5) [OF i'(1), of j] acquire_SomeD [OF g(1)] by (auto simp: mem)
  moreover have "homed c'"
    using al(3) [OF i'(1)] acquire_SomeD [OF g(1)] x g(2) by (fastforce simp: homed_def c')
  moreover have "\<forall>g\<in>set (conversation_groups c'). deleted_at g = None \<longrightarrow> members c' (row_id g) \<noteq> []"
    using al(4) [OF i'(1)] by (auto simp: mem gs)
  moreover have "keys_ok (fresh c') (conversation_groups c')" "keys_ok (fresh c') (conversations c')"
    using al(1,2) [OF i'(1)] x by (auto simp: c' intro: keys_ok_mono keys_ok_append)
  moreover have "runnable c'"
    using i'(2) live x by (auto simp: runnable_def c' take_ids_def)
  ultimately show ?thesis by (simp add: chat_inv_def almost_def)
qed


lemma batch_rows_sel:
  "x \<in> set (batch_rows c u e s sps b) \<Longrightarrow> deleted_at x = None \<and> c_evaluation_id x = e \<and> c_scenario_id x = s \<and>
     c_conversation_group_id x = fresh c \<and> (\<exists>sp\<in>set sps. c_evaluation_ai_model_id x = sp_assignment_id sp)"
  by (auto simp: batch_rows_def new_conversation_def enumerate_eq_zip dest!: set_zip_rightD)

lemma map_row_id_batch_rows:
  "map row_id (batch_rows c u e s sps b) = [Suc (fresh c)..<Suc (fresh c) + length sps]"
  by (rule nth_equalityI) (simp_all add: batch_rows_def new_conversation_def nth_enumerate_eq del: upt_Suc)

lemma create_group_inv:
  assumes i: "chat_inv n c" and r: "create_conversation_group l c u e s nm sps m = Inr ((g, rows), c')"
    and valid: "sps \<noteq> []" "length sps \<le> n"
  shows "chat_inv n c'"
proof -
  from r obtain asgs b where chk: "check_assignments (core c) e sps = Inr asgs"
    and g: "row_id g = fresh c" "deleted_at g = None" "cg_evaluation_id g = e" "cg_scenario_id g = s"
    and rows: "rows = batch_rows c u e s sps b"
    and c': "c' = take_ids (Suc (length sps))
      (c\<lparr>conversation_groups := conversation_groups c @ [g], conversations := conversations c @ rows\<rparr>)"
    by (auto simp: create_conversation_group_def svc_simps Let_def)
  have row: "x \<in> set rows \<Longrightarrow> deleted_at x = None \<and> c_evaluation_id x = e \<and> c_scenario_id x = s \<and>
      c_conversation_group_id x = fresh c \<and> live_by_id (c_evaluation_ai_model_id x) (eval_models (core c)) \<noteq> None" for x
    unfolding rows by (frule batch_rows_sel) (metis check_assignments_live [OF chk])
  have len: "length rows = length sps" by (simp add: rows batch_rows_def)
  have keys: "map row_id rows = [Suc (fresh c)..<Suc (fresh c) + length sps]"
    by (simp only: rows map_row_id_batch_rows)
  note al = almostD [of "{}" n c]
  have i': "almost {} n c" "runnable c" using i by (auto simp: chat_inv_def)
  have "members c (fresh c) = []"
    using al(3) [OF i'(1)] al(1) [OF i'(1)] by (fastforce simp: homed_def keys_ok_def members_filter filter_empty_conv)
  moreover have "filter (\<lambda>x. deleted_at x = None \<and> c_conversation_group_id x = j) rows = (if j = fresh c then rows else [])" for j
    using row by (auto simp: filter_empty_conv intro: filter_True)
  ultimately have mem: "members c' j = (if j = fresh c then rows else members c j)" for j
    by (simp add: c' members_filter)
  have gs: "conversation_groups c' = conversation_groups c @ [g]" by (simp add: c')
  have "length (members c' j) \<le> n" for j
    using al(5) [OF i'(1), of j] valid len by (simp add: mem)
  moreover have "homed c'"
    using al(3) [OF i'(1)] row g by (fastforce simp: homed_def c')
  moreover have "\<forall>g\<in>set (conversation_groups c'). deleted_at g = None \<longrightarrow> members c' (row_id g) \<noteq> []"
    using al(4) [OF i'(1)] valid len g(1) by (auto simp: mem gs)
  moreover have "keys_ok (fresh c') (conversation_groups c')"
    using keys_ok_append [OF al(1) [OF i'(1)] g(1)] by (auto simp: c' intro: keys_ok_mono)
  moreover have "keys_ok (fresh c') (conversations c')"
    using keys_ok_append_many [OF keys_ok_mono [OF al(2) [OF i'(1)]] keys] by (simp add: c')
  moreover have "runnable c'"
    using i'(2) row by (auto simp: runnable_def c' take_ids_def)
  ultimately show ?thesis by (simp add: chat_inv_def almost_def)
qed

lemma save_group_inv:
  assumes i: "chat_inv n c" and g: "g \<in> set (conversation_groups c)"
    and same: "row_id g' = row_id g" "deleted_at g' = deleted_at g" "cg_evaluation_id g' = cg_evaluation_id g"
      "cg_scenario_id g' = cg_scenario_id g"
  shows "chat_inv n (c\<lparr>conversation_groups := save_row g' (conversation_groups c)\<rparr>)"
proof -
  let ?c = "c\<lparr>conversation_groups := save_row g' (conversation_groups c)\<rparr>"
  note al = almostD [of "{}" n c]
  have i': "almost {} n c" "runnable c" using i by (auto simp: chat_inv_def)
  have d: "distinct (map row_id (conversation_groups c))" using al(1) [OF i'(1)] by (simp add: keys_ok_def)
  have mem: "members ?c j = members c j" for j by (simp add: members_filter)
  have "homed ?c"
    unfolding homed_def
  proof
    fix x assume "x \<in> set (conversations ?c)"
    then have "x \<in> set (conversations c)" by simp
    from homedD [OF al(3) [OF i'(1)] this]
    obtain h where h: "h \<in> set (conversation_groups c)" "row_id h = c_conversation_group_id x"
      "cg_evaluation_id h = c_evaluation_id x" "cg_scenario_id h = c_scenario_id x"
      "deleted_at x = None \<longrightarrow> deleted_at h = None" by auto
    have "h = g" if "row_id h = row_id g'" using distinct_map_same [OF d h(1) g] same(1) that by simp
    then show "\<exists>g\<in>set (conversation_groups ?c). row_id g = c_conversation_group_id x \<and>
        cg_evaluation_id g = c_evaluation_id x \<and> cg_scenario_id g = c_scenario_id x \<and> (deleted_at x = None \<longrightarrow> deleted_at g = None)"
      using h same g by (intro bexI [of _ "if row_id h = row_id g' then g' else h"]) (auto simp: in_save_row)
  qed
  moreover have "row_id g' < fresh c" using al(1) [OF i'(1)] g same by (auto simp: keys_ok_def)
  ultimately show ?thesis
    using al [OF i'(1)] i'(2) same g by (auto simp: chat_inv_def almost_def mem in_save_row runnable_def)
qed

lemma rename_group_inv:
  "chat_inv n c \<Longrightarrow> g \<in> set (conversation_groups c) \<Longrightarrow> chat_inv n (snd (rename_conversation_group c g nm))"
  by (simp add: rename_conversation_group_def Let_def save_group_inv)

lemma update_conversation_inv:
  assumes i: "chat_inv n c" and x: "x \<in> set (conversations c)" "deleted_at x = None"
    and target: "move_target n c caller (c_evaluation_id x) x wanted = Inr target"
    and r: "update_conversation c x by_id p tg target ti = Inr (x', c')"
  shows "chat_inv n c'"
proof -
  have i': "almost {} n c" "runnable c" using i by (auto simp: chat_inv_def)
  obtain h where h: "h \<in> set (conversation_groups c)" "row_id h = c_conversation_group_id x"
    "cg_evaluation_id h = c_evaluation_id x" "cg_scenario_id h = c_scenario_id x" "deleted_at h = None"
    using homedD [OF almostD(3) [OF i'(1)] x(1)] x(2) by auto
  from r have x': "row_id x' = row_id x" "c_evaluation_id x' = c_evaluation_id x" "c_scenario_id x' = c_scenario_id x"
      "deleted_at x' = None" "c_conversation_group_id x' = set_or (c_conversation_group_id x) target"
      "c_evaluation_ai_model_id x' = c_evaluation_ai_model_id x"
    and c': "c' = (if c_conversation_group_id x' \<noteq> c_conversation_group_id x
        then soft_delete_empty_groups (save_conversation c x') [c_conversation_group_id x] by_id
        else save_conversation c x')"
    using x(2) by (auto simp: update_conversation_def svc_simps Let_def)
  have run: "runnable (save_conversation c x')" using i'(2) x x' by (intro runnable_saved) (auto simp: runnable_def)
  show ?thesis
  proof (cases target)
    case None
    then have same: "c_conversation_group_id x' = c_conversation_group_id x" using x' by (simp add: set_or_def)
    have "almost {} n (save_conversation c x')"
      by (rule save_almost [OF i'(1) x(1), where g = h]) (use x x' h same in auto)
    then show ?thesis using run same by (simp add: c' chat_inv_def)
  next
    case (Some j)
    with target obtain g where g: "acquire_group_for_conversation n c (c_evaluation_id x) j (su_id caller)
        (caller_can_manage_groups caller) = Inr g" "cg_scenario_id g = c_scenario_id x" "j \<noteq> c_conversation_group_id x"
      by (auto simp: move_target_def svc_simps split: option.splits if_splits)
    have gid: "c_conversation_group_id x' = j" using x' Some by (simp add: set_or_def)
    have "almost {c_conversation_group_id x} n (save_conversation c x')"
      by (rule save_almost [OF i'(1) x(1), where g = g])
         (use x x' acquire_SomeD [OF g(1)] g gid in auto)
    then show ?thesis using inv_of_prune [OF _ run, of "[c_conversation_group_id x]"] gid g(3) by (simp add: c')
  qed
qed

lemma soft_delete_conversation_inv:
  assumes i: "chat_inv n c" and x: "x \<in> set (conversations c)"
  shows "chat_inv n (snd (soft_delete_conversation c x by_id))"
proof -
  have i': "almost {} n c" "runnable c" using i by (auto simp: chat_inv_def)
  let ?x = "soft_delete (clock c) (Some by_id) x"
  obtain h where h: "h \<in> set (conversation_groups c)" "row_id h = c_conversation_group_id x"
    "cg_evaluation_id h = c_evaluation_id x" "cg_scenario_id h = c_scenario_id x"
    using homedD [OF almostD(3) [OF i'(1)] x] by auto
  have sel: "c_conversation_group_id ?x = c_conversation_group_id x" "c_evaluation_id ?x = c_evaluation_id x"
    "c_scenario_id ?x = c_scenario_id x" by (simp_all add: soft_delete_def)
  have "almost {c_conversation_group_id x} n (save_conversation c ?x)"
    by (rule save_almost [OF i'(1) x, where g = h]) (use h sel in auto)
  moreover have "runnable (save_conversation c ?x)" using i'(2) by (rule runnable_saved) simp
  ultimately show ?thesis
    using inv_of_prune [of "[c_conversation_group_id x]"] by (simp add: soft_delete_conversation_def Let_def)
qed


lemma soft_delete_group_inv:
  assumes i: "chat_inv n c" and g: "g \<in> set (conversation_groups c)"
  shows "chat_inv n (snd (soft_delete_conversation_group c g by_id))"
proof -
  let ?d = "soft_delete (clock c) (Some by_id)" and ?c = "snd (soft_delete_conversation_group c g by_id)"
  note al = almostD [of "{}" n c]
  have i': "almost {} n c" "runnable c" using i by (auto simp: chat_inv_def)
  have d: "distinct (map row_id (conversation_groups c))" using al(1) [OF i'(1)] by (simp add: keys_ok_def)
  have convs: "conversations ?c = live_update (\<lambda>x. c_conversation_group_id x = row_id g) ?d (conversations c)"
    and gs: "conversation_groups ?c = save_row (?d g) (conversation_groups c)" and cr: "core ?c = core c"
    by (simp_all add: soft_delete_conversation_group_def Let_def)
  have mem: "x \<in> set (members ?c j) \<longleftrightarrow> x \<in> set (members c j) \<and> j \<noteq> row_id g" for x j
    by (auto simp: in_members convs live_after_delete)
  have "length (members ?c j) \<le> n" for j
  proof -
    have "length (members ?c j) \<le> length (members c j)"
      unfolding members_filter convs by (rule filter_live_update_le) simp
    with al(5) [OF i'(1), of j] show ?thesis by simp
  qed
  moreover have "homed ?c"
    unfolding homed_def
  proof
    fix x assume "x \<in> set (conversations ?c)"
    then obtain y where y: "y \<in> set (conversations c)"
      "x = (if deleted_at y = None \<and> c_conversation_group_id y = row_id g then ?d y else y)"
      unfolding convs in_live_update_delete by blast
    then have sel: "c_conversation_group_id x = c_conversation_group_id y" "c_evaluation_id x = c_evaluation_id y"
      "c_scenario_id x = c_scenario_id y" "deleted_at x = None \<Longrightarrow> deleted_at y = None \<and> c_conversation_group_id y \<noteq> row_id g"
      by (auto simp: soft_delete_def split: if_splits)
    obtain h where h: "h \<in> set (conversation_groups c)" "row_id h = c_conversation_group_id y"
      "cg_evaluation_id h = c_evaluation_id y" "cg_scenario_id h = c_scenario_id y"
      "deleted_at y = None \<longrightarrow> deleted_at h = None" using homedD [OF al(3) [OF i'(1)] y(1)] by auto
    have "h = g" if "row_id h = row_id g" using distinct_map_same [OF d h(1) g that] .
    then show "\<exists>g\<in>set (conversation_groups ?c). row_id g = c_conversation_group_id x \<and>
        cg_evaluation_id g = c_evaluation_id x \<and> cg_scenario_id g = c_scenario_id x \<and> (deleted_at x = None \<longrightarrow> deleted_at g = None)"
      using h sel g by (intro bexI [of _ "if row_id h = row_id g then ?d g else h"])
        (auto simp: in_save_row gs soft_delete_def)
  qed
  moreover have "\<forall>h\<in>set (conversation_groups ?c). deleted_at h = None \<longrightarrow> members ?c (row_id h) \<noteq> []"
  proof (intro ballI impI)
    fix h assume "h \<in> set (conversation_groups ?c)" "deleted_at h = None"
    then have h: "h \<in> set (conversation_groups c)" "row_id h \<noteq> row_id g" "deleted_at h = None"
      by (auto simp: gs in_save_row)
    then obtain y where "y \<in> set (members c (row_id h))"
      using al(4) [OF i'(1) h(1,3)] by (metis empty_iff list.set_intros(1) neq_Nil_conv)
    with h(2) have "y \<in> set (members ?c (row_id h))" by (simp add: mem)
    then show "members ?c (row_id h) \<noteq> []" by auto
  qed
  moreover have "row_id g < fresh c" using al(1) [OF i'(1)] g by (simp add: keys_ok_def)
  then have "keys_ok (fresh c) (conversations ?c)" "keys_ok (fresh c) (conversation_groups ?c)"
    using al(1,2) [OF i'(1)] by (simp_all add: convs gs keys_ok_live_update)
  moreover have "runnable ?c"
    using i'(2) by (auto simp: runnable_def convs cr live_after_delete)
  ultimately show ?thesis by (simp add: chat_inv_def almost_def cr)
qed

lemma restore_conversation_inv:
  assumes i: "chat_inv n c" and x: "x \<in> set (conversations c)" "deleted_at x \<noteq> None"
    and live: "live_by_id (c_evaluation_ai_model_id x) (eval_models (core c)) \<noteq> None"
    and r: "restore_conversation n c x = Inr (x', c')"
  shows "chat_inv n c'"
proof -
  note al = almostD [of "{}" n c]
  have i': "almost {} n c" "runnable c" using i by (auto simp: chat_inv_def)
  let ?i = "c_conversation_group_id x" and ?rev = "\<lambda>g. if row_id g = c_conversation_group_id x \<and> deleted_at g \<noteq> None then restore g else g"
  from r have room: "length (members c ?i) < n" and x': "x' = restore x"
    and c': "c' = revive_pruned_group (c\<lparr>conversations := save_row x' (conversations c)\<rparr>) ?i"
    by (auto simp: restore_conversation_def assert_group_has_room_def count_live_conversations_def svc_simps restore_row_Inr)
  have sel: "row_id x' = row_id x" "deleted_at x' = None" "c_conversation_group_id x' = ?i"
    "c_evaluation_id x' = c_evaluation_id x" "c_scenario_id x' = c_scenario_id x"
    "c_evaluation_ai_model_id x' = c_evaluation_ai_model_id x" by (simp_all add: x' restore_def)
  have dc: "distinct (map row_id (conversations c))" using al(2) [OF i'(1)] by (simp add: keys_ok_def)
  have convs: "conversations c' = save_row x' (conversations c)" and cr: "core c' = core c"
    and gs: "conversation_groups c' = map ?rev (conversation_groups c)"
    by (simp_all add: c') (simp add: revive_pruned_group_def)
  have rev: "row_id (?rev g) = row_id g" "cg_evaluation_id (?rev g) = cg_evaluation_id g" "cg_scenario_id (?rev g) = cg_scenario_id g"
    "deleted_at g = None \<Longrightarrow> deleted_at (?rev g) = None" "row_id g = ?i \<Longrightarrow> deleted_at (?rev g) = None" for g
    by (auto simp: restore_def)
  have mine: "x' \<in> set (members c' ?i)"
    using x(1) sel by (auto simp: in_members convs in_save_row)
  have self: "y = x" if "y \<in> set (conversations c)" "row_id y = row_id x" for y
    using distinct_map_same [OF dc that(1) x(1) that(2)] .
  have kept: "y \<in> set (members c j) \<Longrightarrow> y \<in> set (members c' j)" for y j
    using x(2) self sel by (fastforce simp: in_members convs in_save_row)
  have "length (members c' j) \<le> n" for j
  proof (cases "j = ?i")
    case True
    have "length (members c' j) \<le> Suc (length (members c j))"
      unfolding members_filter convs by (rule filter_save_row_one [OF dc])
    with room True show ?thesis by simp
  next
    case False
    have "length (members c' j) \<le> length (members c j)"
      unfolding members_filter convs by (rule filter_save_row_same) (use False sel in auto)
    with al(5) [OF i'(1), of j] show ?thesis by simp
  qed
  moreover have "homed c'"
    unfolding homed_def
  proof
    fix y assume "y \<in> set (conversations c')"
    then obtain z where z: "z \<in> set (conversations c)" "c_conversation_group_id z = c_conversation_group_id y"
      "c_evaluation_id z = c_evaluation_id y" "c_scenario_id z = c_scenario_id y" "y = z \<or> c_conversation_group_id y = ?i"
      using x(1) sel by (auto simp: convs in_save_row)
    obtain h where h: "h \<in> set (conversation_groups c)" "row_id h = c_conversation_group_id z"
      "cg_evaluation_id h = c_evaluation_id z" "cg_scenario_id h = c_scenario_id z"
      "deleted_at z = None \<longrightarrow> deleted_at h = None" using homedD [OF al(3) [OF i'(1)] z(1)] by auto
    have "?rev h \<in> set (conversation_groups c')" unfolding gs set_map using h(1) by (rule imageI)
    then have "\<exists>k\<in>set (conversation_groups c'). row_id k = row_id h \<and> cg_evaluation_id k = cg_evaluation_id h \<and>
        cg_scenario_id k = cg_scenario_id h \<and> (deleted_at h = None \<longrightarrow> deleted_at k = None) \<and>
        (row_id h = ?i \<longrightarrow> deleted_at k = None)"
      by (rule bexI [rotated]) (intro conjI impI rev)
    then obtain k where k: "k \<in> set (conversation_groups c')" and kk: "row_id k = row_id h \<and> cg_evaluation_id k = cg_evaluation_id h \<and>
        cg_scenario_id k = cg_scenario_id h \<and> (deleted_at h = None \<longrightarrow> deleted_at k = None) \<and>
        (row_id h = ?i \<longrightarrow> deleted_at k = None)" ..
    have A: "row_id k = c_conversation_group_id y" "cg_evaluation_id k = c_evaluation_id y" "cg_scenario_id k = c_scenario_id y"
      using kk h(2-4) z(2-4) by simp_all
    have B: "deleted_at k = None" if "deleted_at y = None"
    proof (cases "c_conversation_group_id y = ?i")
      case True
      then show ?thesis using kk h(2) z(2) by simp
    next
      case False
      then have "deleted_at h = None" using z(5) h(5) that by simp
      then show ?thesis using kk by simp
    qed
    show "\<exists>g\<in>set (conversation_groups c'). row_id g = c_conversation_group_id y \<and>
        cg_evaluation_id g = c_evaluation_id y \<and> cg_scenario_id g = c_scenario_id y \<and> (deleted_at y = None \<longrightarrow> deleted_at g = None)"
      by (rule bexI [OF _ k]) (intro conjI impI A B)
  qed
  moreover have "\<forall>g\<in>set (conversation_groups c'). deleted_at g = None \<longrightarrow> members c' (row_id g) \<noteq> []"
  proof (intro ballI impI)
    fix g assume "g \<in> set (conversation_groups c')" and l: "deleted_at g = None"
    then obtain h where h: "h \<in> set (conversation_groups c)" "g = ?rev h" by (auto simp: gs)
    show "members c' (row_id g) \<noteq> []"
    proof (cases "row_id h = ?i")
      case True
      then have "row_id g = ?i" using rev(1) [of h] unfolding h(2) by simp
      then show ?thesis using mine by (cases "members c' ?i") auto
    next
      case False
      then have "g = h" "deleted_at h = None" using h(2) l by auto
      then have "members c (row_id g) \<noteq> []" using al(4) [OF i'(1) h(1)] by simp
      then obtain y where "y \<in> set (members c (row_id g))" by (cases "members c (row_id g)") auto
      then have "y \<in> set (members c' (row_id g))" by (rule kept)
      then show ?thesis by (cases "members c' (row_id g)") auto
    qed
  qed
  moreover have "map row_id (conversation_groups c') = map row_id (conversation_groups c)"
    by (simp add: gs restore_def)
  then have "keys_ok (fresh c) (conversation_groups c')"
    using al(1) [OF i'(1)] unfolding keys_ok_def by (metis (no_types, lifting) imageE image_eqI list.set_map)
  moreover have "row_id x' < fresh c" using al(2) [OF i'(1)] x(1) sel by (simp add: keys_ok_def)
  then have "keys_ok (fresh c) (conversations c')"
    using al(2) [OF i'(1)] by (simp add: convs)
  moreover have "runnable c'"
    using i'(2) live sel by (auto simp: runnable_def convs cr in_save_row)
  ultimately show ?thesis by (simp add: chat_inv_def almost_def cr)
qed


subsection \<open>The cascades\<close>

text \<open>Deleting the conversations of the assignments \<open>P\<close>, once every other live conversation keeps its assignment.\<close>

lemma cascade_inv:
  assumes i: "almost {} n c"
    and run: "\<And>x. x \<in> set (conversations c) \<Longrightarrow> deleted_at x = None \<Longrightarrow> \<not> P (c_evaluation_ai_model_id x) \<Longrightarrow>
      live_by_id (c_evaluation_ai_model_id x) (eval_models (core c)) \<noteq> None"
  shows "chat_inv n (snd (soft_delete_conversations_of c P by_id))"
proof -
  let ?d = "soft_delete (clock c) (Some by_id)"
  let ?aff = "remdups (map c_conversation_group_id (filter (\<lambda>x. P (c_evaluation_ai_model_id x)) (conversations c)))"
  let ?c = "c\<lparr>conversations := live_update (\<lambda>x. P (c_evaluation_ai_model_id x)) ?d (conversations c)\<rparr>"
  note al = almostD [of "{}" n c, OF i]
  have mem: "x \<in> set (members ?c j) \<longleftrightarrow> x \<in> set (members c j) \<and> \<not> P (c_evaluation_ai_model_id x)" for x j
    by (auto simp: in_members live_after_delete)
  have "length (members ?c j) \<le> n" for j
  proof -
    have "length (members ?c j) \<le> length (members c j)"
      by (simp add: members_filter) (rule filter_live_update_le, simp)
    with al(5) [of j] show ?thesis by simp
  qed
  moreover have "homed ?c"
    unfolding homed_def
  proof
    fix x assume "x \<in> set (conversations ?c)"
    then have "x \<in> set (live_update (\<lambda>x. P (c_evaluation_ai_model_id x)) ?d (conversations c))" by simp
    then obtain y where y: "y \<in> set (conversations c)"
      "x = (if deleted_at y = None \<and> P (c_evaluation_ai_model_id y) then ?d y else y)"
      unfolding in_live_update_delete by blast
    then have sel: "c_conversation_group_id x = c_conversation_group_id y" "c_evaluation_id x = c_evaluation_id y"
      "c_scenario_id x = c_scenario_id y" "deleted_at x = None \<Longrightarrow> deleted_at y = None"
      by (auto simp: soft_delete_def split: if_splits)
    from homedD [OF al(3) y(1)] sel
    show "\<exists>g\<in>set (conversation_groups ?c). row_id g = c_conversation_group_id x \<and>
        cg_evaluation_id g = c_evaluation_id x \<and> cg_scenario_id g = c_scenario_id x \<and> (deleted_at x = None \<longrightarrow> deleted_at g = None)"
      by auto
  qed
  moreover have "\<forall>g\<in>set (conversation_groups ?c). deleted_at g = None \<longrightarrow> row_id g \<in> set ?aff \<or> members ?c (row_id g) \<noteq> []"
  proof (intro ballI impI)
    fix g assume "g \<in> set (conversation_groups ?c)" "deleted_at g = None"
    then obtain y where y: "y \<in> set (members c (row_id g))"
      using al(4) [of g] by (metis chat_db.select_convs(2) chat_db.surjective chat_db.update_convs(3) empty_iff list.set_intros(1) neq_Nil_conv)
    show "row_id g \<in> set ?aff \<or> members ?c (row_id g) \<noteq> []"
    proof (cases "P (c_evaluation_ai_model_id y)")
      case True
      with y have "row_id g \<in> set ?aff" by (auto simp: in_members intro: rev_image_eqI)
      then show ?thesis ..
    next
      case False
      with y have "y \<in> set (members ?c (row_id g))" by (simp add: mem)
      then show ?thesis by auto
    qed
  qed
  moreover have "keys_ok (fresh c) (conversations ?c)"
    using al(2) by (auto intro: keys_ok_live_update)
  ultimately have "almost (set ?aff) n ?c" using al(1) by (simp add: almost_def)
  moreover have "runnable ?c" using run by (auto simp: runnable_def live_after_delete)
  ultimately have "chat_inv n (soft_delete_empty_groups ?c ?aff by_id)" by (rule inv_of_prune)
  then show ?thesis by (simp add: soft_delete_conversations_of_def Let_def)
qed

text \<open>Other components only add keys and keep the assignments that are live.\<close>

definition keeps_assignments :: "db \<Rightarrow> db \<Rightarrow> bool" where
  "keeps_assignments d d' \<longleftrightarrow> next_id d \<le> next_id d' \<and>
     (\<forall>i. live_by_id i (eval_models d) \<noteq> None \<longrightarrow> live_by_id i (eval_models d') \<noteq> None)"

lemma core_inv: "chat_inv n c \<Longrightarrow> keeps_assignments (core c) d \<Longrightarrow> chat_inv n (c\<lparr>core := d\<rparr>)"
  by (auto simp: chat_inv_def almost_def keeps_assignments_def homed_def runnable_def members_filter intro: keys_ok_mono)

lemma almost_core: "almost is n c \<Longrightarrow> next_id (core c) \<le> next_id d \<Longrightarrow> almost is n (c\<lparr>core := d\<rparr>)"
  by (auto simp: almost_def homed_def members_filter intro: keys_ok_mono)

lemma audit_keeps: "keeps_assignments d (record_audit d a b c e f g h)"
  by (simp add: keeps_assignments_def record_audit_def)

lemma unassign_inv:
  assumes i: "chat_inv n c" and r: "unassign_model_endpoint snap c caller e a = Inr c'"
  shows "chat_inv n c'"
proof -
  from r obtain asg where asg: "get_assignment (core c) e a None False = Inr asg"
    and c': "c' = (snd (soft_delete_conversations_for_assignment
        (c\<lparr>core := snd (soft_delete_assignment (core c) asg (su_id caller))\<rparr>) a (su_id caller)))
      \<lparr>core := record_audit (core (snd (soft_delete_conversations_for_assignment
        (c\<lparr>core := snd (soft_delete_assignment (core c) asg (su_id caller))\<rparr>) a (su_id caller))))
        (Some (su_id caller)) (Some (su_email caller)) ''evaluation.model_unassign''
        (Some ''evaluation_ai_model'') (Some a) (Some (snap asg)) None\<rparr>"
    by (auto simp: unassign_model_endpoint_def svc_simps Let_def)
  let ?c = "c\<lparr>core := snd (soft_delete_assignment (core c) asg (su_id caller))\<rparr>"
  have "row_id asg = a" using get_assignment_live [OF asg] by simp
  then have "chat_inv n (snd (soft_delete_conversations_of ?c (\<lambda>i. i = a) (su_id caller)))"
    using i by (intro cascade_inv almost_core)
      (auto simp: chat_inv_def soft_delete_assignment_def Let_def runnable_def)
  then show ?thesis unfolding c' soft_delete_conversations_for_assignment_def by (rule core_inv [OF _ audit_keeps])
qed

lemma live_by_id_live_update_other:
  assumes "live_by_id i t = Some r" "\<not> P r"
  shows "live_by_id i (live_update P f t) \<noteq> None"
proof -
  have r: "r \<in> set t" "row_id r = i" "deleted_at r = None" using live_by_id_SomeD [OF assms(1)] by auto
  then have "r \<in> set (live_update P f t)" using assms(2) by (force simp: live_update_def image_iff)
  with r show ?thesis by (auto simp: live_by_id_None)
qed

lemma unassign_models_keeps:
  "live_by_id i (eval_models d) \<noteq> None \<Longrightarrow> i \<notin> row_id ` set (filter (\<lambda>a. em_model_id a = m) (eval_models d)) \<Longrightarrow>
     live_by_id i (eval_models (snd (unassign_models_for_model d m u))) \<noteq> None"
  by (auto simp: unassign_models_for_model_def dest: live_by_id_SomeD
      intro!: live_by_id_live_update_other [THEN not_None_eq [THEN iffD1]])

lemma filter_live_update_ids:
  "(\<And>x. row_id (f x) = row_id x) \<Longrightarrow> (\<And>x. Q (f x) = Q x) \<Longrightarrow>
     map row_id (filter Q (live_update P f t)) = map row_id (filter Q t)"
  by (induction t) (auto simp: live_update_def)

lemma delete_model_inv:
  assumes i: "chat_inv n c" and r: "delete_model_endpoint snap c caller m = Inr c'"
  shows "chat_inv n c'"
proof -
  from r obtain row where "get_model (core c) m = Inr row"
    and c': "c' = (let d1 = (core c)\<lparr>ai_models := save_row (soft_delete (clock c) (Some (su_id caller)) row) (ai_models (core c))\<rparr>;
         d3 = snd (unassign_group_models_for_model (snd (unassign_models_for_model d1 m (su_id caller))) m (su_id caller));
         c2 = snd (soft_delete_conversations_for_model (c\<lparr>core := d3\<rparr>) m (su_id caller))
     in c2\<lparr>core := record_audit (core c2) (Some (su_id caller)) (Some (su_email caller)) ''ai_model.delete''
          (Some ''ai_model'') (Some m) (Some (snap row)) None\<rparr>)"
    by (auto simp: delete_model_endpoint_def svc_simps Let_def)
  define d1 where "d1 = (core c)\<lparr>ai_models := save_row (soft_delete (clock c) (Some (su_id caller)) row) (ai_models (core c))\<rparr>"
  define d3 where "d3 = snd (unassign_group_models_for_model (snd (unassign_models_for_model d1 m (su_id caller))) m (su_id caller))"
  define ids where "ids = map row_id (filter (\<lambda>a. em_model_id a = m) (eval_models d3))"
  have em: "eval_models d1 = eval_models (core c)" "eval_models d3 = eval_models (snd (unassign_models_for_model d1 m (su_id caller)))"
    "next_id d3 = next_id (core c)"
    by (simp_all add: d1_def d3_def unassign_group_models_for_model_def unassign_models_for_model_def)
  have "ids = map row_id (filter (\<lambda>a. em_model_id a = m) (eval_models d1))"
    unfolding ids_def em(2) unassign_models_for_model_def by (simp add: filter_live_update_ids soft_delete_def)
  then have "live_by_id j (eval_models d3) \<noteq> None" if "j \<notin> set ids" "live_by_id j (eval_models (core c)) \<noteq> None" for j
    using unassign_models_keeps [of j d1 m] that unfolding em by simp
  then have "chat_inv n (snd (soft_delete_conversations_of (c\<lparr>core := d3\<rparr>) (\<lambda>j. j \<in> set ids) (su_id caller)))"
    using i em(3) by (intro cascade_inv almost_core) (auto simp: chat_inv_def runnable_def)
  then have "chat_inv n (snd (soft_delete_conversations_for_model (c\<lparr>core := d3\<rparr>) m (su_id caller)))"
    by (simp add: soft_delete_conversations_for_model_def ids_def Let_def)
  then show ?thesis unfolding c' Let_def d1_def [symmetric] d3_def [symmetric] by (rule core_inv [OF _ audit_keeps])
qed

subsection \<open>Requests\<close>

text \<open>One request at the API: its payload has passed validation (a batch has between one and \<open>max_size\<close> entries).  Steps of
  other components are the rule \<open>elsewhere\<close>; they never remove a live assignment.\<close>

inductive chat_step :: "nat \<Rightarrow> chat_db \<Rightarrow> chat_db \<Rightarrow> bool" for max_size :: nat where
  create_group: "models \<noteq> [] \<Longrightarrow> length models \<le> max_size \<Longrightarrow>
     create_conversation_group_endpoint env_license max_size c caller scenario_id nm models = Inr c' \<Longrightarrow> chat_step max_size c c'"
| rename_group: "update_conversation_group_endpoint c caller evaluation_id i nm = Inr c' \<Longrightarrow> chat_step max_size c c'"
| delete_group: "delete_conversation_group_endpoint c caller evaluation_id i = Inr c' \<Longrightarrow> chat_step max_size c c'"
| create: "create_conversation_endpoint env_license max_size c caller scenario_id a ps i title tags = Inr c' \<Longrightarrow>
     chat_step max_size c c'"
| change: "update_conversation_endpoint env_license max_size c caller evaluation_id i ch = Inr c' \<Longrightarrow> chat_step max_size c c'"
| delete: "delete_conversation_endpoint c caller evaluation_id i = Inr c' \<Longrightarrow> chat_step max_size c c'"
| restore: "restore_conversation_endpoint env_license max_size window_days c caller evaluation_id i = Inr c' \<Longrightarrow>
     chat_step max_size c c'"
| unassign: "unassign_model_endpoint snap c caller evaluation_id a = Inr c' \<Longrightarrow> chat_step max_size c c'"
| delete_model: "delete_model_endpoint snapshot c caller m = Inr c' \<Longrightarrow> chat_step max_size c c'"
| elsewhere: "keeps_assignments (core c) d \<Longrightarrow> chat_step max_size c (c\<lparr>core := d\<rparr>)"

lemma chat_step_inv: "chat_step n c c' \<Longrightarrow> chat_inv n c \<Longrightarrow> chat_inv n c'"
proof (induction rule: chat_step.induct)
  case create_group
  then show ?case
    by (auto simp: create_conversation_group_endpoint_def svc_simps Let_def case_prod_beta intro: create_group_inv)
next
  case rename_group
  then show ?case
    by (auto simp: update_conversation_group_endpoint_def svc_simps dest!: get_group_SomeD intro: rename_group_inv)
next
  case delete_group
  then show ?case
    by (auto simp: delete_conversation_group_endpoint_def svc_simps dest!: get_group_SomeD intro: soft_delete_group_inv)
next
  case create
  then show ?case
    by (auto simp: create_conversation_endpoint_def svc_simps Let_def case_prod_beta intro: create_conversation_inv)
next
  case (change env_license c caller evaluation_id i ch c')
  from change(1) obtain x target x' c1 where x: "get_conversation c evaluation_id i (su_id caller) (caller_can_manage_groups caller) False = Inr x"
    and t: "move_target n c caller evaluation_id x (cu_conversation_group_id ch) = Inr target"
    and u: "update_conversation c x (su_id caller) (cu_parameters ch) (cu_tags ch) target (cu_title ch) = Inr (x', c1) \<or> c1 = c"
    and c': "c' = c1 \<or> c' = audit_tags c1 caller i (c_tags x) (c_tags x')"
    by (auto simp: update_conversation_endpoint_def svc_simps Let_def case_prod_beta split: if_splits)
  have "chat_inv n c1"
    using u change(2) update_conversation_inv [OF change(2) _ _ _, of x caller _ target "su_id caller"] get_conversation_SomeD [OF x] t
    by metis
  then show ?case using c' core_inv [OF _ audit_keeps] by (auto simp: audit_tags_def)
next
  case delete
  then show ?case
    by (auto simp: delete_conversation_endpoint_def svc_simps dest!: get_conversation_SomeD intro: soft_delete_conversation_inv)
next
  case restore
  then show ?case
    by (auto simp: restore_conversation_endpoint_def svc_simps case_prod_beta dest!: get_restorable_SomeD
        intro: restore_conversation_inv)
next
  case unassign
  then show ?case by (blast intro: unassign_inv)
next
  case delete_model
  then show ?case by (blast intro: delete_model_inv)
next
  case elsewhere
  then show ?case by (blast intro: core_inv)
qed

interpretation chats: step_invariant "chat_step n" "chat_inv n"
  by unfold_locales (rule chat_step_inv)


lemma chat_inv_start: "conversations c = [] \<Longrightarrow> conversation_groups c = [] \<Longrightarrow> chat_inv n c"
  by (simp add: chat_inv_def almost_def keys_ok_def homed_def runnable_def members_filter)

text \<open>C5: Starting from a platform without conversations, through any sequence of requests (creating, renaming and deleting
  groups, creating, editing, moving, deleting and restoring conversations, unassigning and deleting models), every live
  conversation sits under a live group of its own evaluation and scenario and has a live model assignment, and every live
  group holds at least one live conversation and no more than the configured maximum.\<close>

theorem conversation_groups_sound:
  assumes "(chat_step max_size)\<^sup>*\<^sup>* c0 c" and "conversations c0 = []" and "conversation_groups c0 = []"
  shows "(\<forall>x\<in>set (live_select (conversations c)).
      (\<exists>g\<in>set (live_select (conversation_groups c)). row_id g = c_conversation_group_id x \<and>
         cg_evaluation_id g = c_evaluation_id x \<and> cg_scenario_id g = c_scenario_id x) \<and>
      live_by_id (c_evaluation_ai_model_id x) (eval_models (core c)) \<noteq> None) \<and>
    (\<forall>g\<in>set (live_select (conversation_groups c)).
      1 \<le> count_live_conversations c (row_id g) \<and> count_live_conversations c (row_id g) \<le> max_size)"
proof -
  have "chat_inv max_size c"
    using chats.reachable_keeps [OF assms(1)] chat_inv_start [OF assms(2,3)] by blast
  then have i: "almost {} max_size c" and run: "runnable c" by (simp_all add: chat_inv_def)
  note al = almostD [OF i]
  have "\<exists>g\<in>set (live_select (conversation_groups c)). row_id g = c_conversation_group_id x \<and>
      cg_evaluation_id g = c_evaluation_id x \<and> cg_scenario_id g = c_scenario_id x"
    if "x \<in> set (conversations c)" "deleted_at x = None" for x
    using homedD [OF al(3) that(1)] that(2) by auto
  moreover have "1 \<le> count_live_conversations c (row_id g)"
    if "g \<in> set (conversation_groups c)" "deleted_at g = None" for g
    using al(4) [OF that] by (simp add: count_live_conversations_def Suc_le_eq)
  ultimately show ?thesis using run al(5) by (auto simp: runnable_def count_live_conversations_def)
qed

end
