(* ===== verification/Content_Crypto.thy ===== *)
theory Content_Crypto
  imports Conversation_Models
begin

section \<open>At-rest sealing of message text\<close>

text \<open>
  \<open>app/core/conversations/content_crypto.py\<close>.  The hash, the authenticated cipher and the random source are
  libraries: the fields of \<open>crypto\<close>; \<open>crypto_sound\<close> states what is documented of them (a sealed value opens under its key, nonce
  and associated data; AES-GCM appends a 16-byte tag; SHA-256 yields 32 bytes; \<open>os.urandom(n)\<close> yields \<open>n\<close> bytes).  A text is
  kept as its UTF-8 bytes, so \<open>encode\<close> and \<open>decode\<close> are the identity.  Base64 is written out, with the strict decoder of
  \<open>b64decode(validate=True)\<close>.  \<open>seal_content\<close> takes the draw of the random source as an argument and says
  whether it used it.
\<close>

subsection \<open>Base64\<close>

definition b64_char :: "nat \<Rightarrow> char" where
  "b64_char n = (if n < 26 then char_of (65 + n) else if n < 52 then char_of (71 + n)
     else if n < 62 then char_of (n - 4) else if n = 62 then CHR ''+'' else CHR ''/'')"

definition b64_val :: "char \<Rightarrow> nat option" where
  "b64_val ch = (let n = of_char ch :: nat in
     if 65 \<le> n \<and> n \<le> 90 then Some (n - 65) else if 97 \<le> n \<and> n \<le> 122 then Some (n - 71)
     else if 48 \<le> n \<and> n \<le> 57 then Some (n + 4) else if ch = CHR ''+'' then Some 62
     else if ch = CHR ''/'' then Some 63 else None)"

fun b64encode :: "string \<Rightarrow> string" where
  "b64encode [] = []"
| "b64encode [a] = (let x = of_char a :: nat in [b64_char (x div 4), b64_char (x mod 4 * 16), CHR ''='', CHR ''=''])"
| "b64encode [a, b] = (let x = of_char a :: nat; y = of_char b in
     [b64_char (x div 4), b64_char (x mod 4 * 16 + y div 16), b64_char (y mod 16 * 4), CHR ''=''])"
| "b64encode (a # b # d # rest) = (let x = of_char a :: nat; y = of_char b; z = of_char d in
     [b64_char (x div 4), b64_char (x mod 4 * 16 + y div 16), b64_char (y mod 16 * 4 + z div 64), b64_char (z mod 64)]
     @ b64encode rest)"

definition b64_quad :: "nat \<Rightarrow> nat \<Rightarrow> nat \<Rightarrow> nat \<Rightarrow> string" where
  "b64_quad w x y z =
     [char_of (w * 4 + x div 16), char_of (x mod 16 * 16 + y div 4), char_of (y mod 4 * 64 + z)]"

fun b64decode :: "string \<Rightarrow> string option" where
  "b64decode [] = Some []"
| "b64decode (p # q # r # s # rest) =
     (case (b64_val p, b64_val q) of
        (Some w, Some x) \<Rightarrow>
          (if r = CHR ''='' \<and> s = CHR ''='' \<and> rest = [] then Some (take 1 (b64_quad w x 0 0))
           else case b64_val r of None \<Rightarrow> None
             | Some y \<Rightarrow> (if s = CHR ''='' \<and> rest = [] then Some (take 2 (b64_quad w x y 0))
                 else case b64_val s of None \<Rightarrow> None
                   | Some z \<Rightarrow> map_option (\<lambda>bytes. b64_quad w x y z @ bytes) (b64decode rest)))
      | _ \<Rightarrow> None)"
| "b64decode _ = None"

lemma of_char_char_of: "n < 256 \<Longrightarrow> (of_char (char_of n) :: nat) = n"
  by (simp add: take_bit_eq_mod)

lemma b64_val_char [simp]: "n < 64 \<Longrightarrow> b64_val (b64_char n) = Some n"
  by (auto simp: b64_char_def b64_val_def Let_def of_char_char_of)

lemma b64_char_no_pad [simp]: "b64_char n \<noteq> CHR ''='' \<or> 64 \<le> n"
  using b64_val_char [of n] by (cases "n < 64") (auto simp: b64_val_def)

lemma of_char_less: "(of_char ch :: nat) < 256"
  by simp

lemma pack: "v < n \<Longrightarrow> (u * n + v) div n = u \<and> (u * n + v) mod n = (v :: nat)"
  by simp

lemma of_char_div: "(of_char ch :: nat) div 4 < 64" "(of_char ch :: nat) div 16 < 16" "(of_char ch :: nat) div 64 < 4"
  using of_char_less [of ch] by (simp_all add: less_mult_imp_div_less)

lemma six_bits:
  "u < 4 \<Longrightarrow> v < 16 \<Longrightarrow> u * 16 + v < (64 :: nat)" "u < 16 \<Longrightarrow> v < 4 \<Longrightarrow> u * 4 + v < (64 :: nat)"
  by simp_all

lemma quad_bytes:
  fixes a b d :: char
  defines "x \<equiv> of_char a :: nat" and "y \<equiv> of_char b :: nat" and "z \<equiv> of_char d :: nat"
  shows "b64_quad (x div 4) (x mod 4 * 16 + y div 16) (y mod 16 * 4 + z div 64) (z mod 64) = [a, b, d]"
proof -
  have l: "x div 4 < 64" "y div 16 < 16" "z div 64 < 4" by (simp_all only: x_def y_def z_def of_char_div)
  have "x div 4 * 4 + (x mod 4 * 16 + y div 16) div 16 = x" using pack [OF l(2), of "x mod 4"] by simp
  moreover have "(x mod 4 * 16 + y div 16) mod 16 * 16 + (y mod 16 * 4 + z div 64) div 4 = y"
    using pack [OF l(2), of "x mod 4"] pack [OF l(3), of "y mod 16"] by simp
  moreover have "(y mod 16 * 4 + z div 64) mod 4 * 64 + z mod 64 = z" using pack [OF l(3), of "y mod 16"] by simp
  ultimately show ?thesis by (simp add: b64_quad_def x_def y_def z_def)
qed

lemma b64_roundtrip [simp]: "b64decode (b64encode s) = Some s"
proof (induction s rule: b64encode.induct)
  case (2 a)
  have "of_char a div 4 < (64::nat)" "of_char a mod 4 * 16 < (64::nat)"
    using of_char_div [of a] six_bits(1) [of "of_char a mod 4" 0] by simp_all
  then show ?case using quad_bytes [of a "CHR 0x00" "CHR 0x00"] by (simp add: Let_def)
next
  case (3 a b)
  have "of_char a div 4 < (64::nat)" "of_char a mod 4 * 16 + of_char b div 16 < (64::nat)" "of_char b mod 16 * 4 < (64::nat)"
    using of_char_div [of a] six_bits(1) [of "of_char a mod 4" "of_char b div 16"] of_char_div [of b]
      six_bits(2) [of "of_char b mod 16" 0] by simp_all
  moreover from this(3) have "b64_char (of_char b mod 16 * 4) \<noteq> CHR ''=''"
    using b64_char_no_pad [of "of_char b mod 16 * 4"] by linarith
  ultimately show ?case using quad_bytes [of a b "CHR 0x00"] by (simp add: Let_def)
next
  case (4 a b d rest)
  have l: "of_char a div 4 < (64::nat)" "of_char a mod 4 * 16 + of_char b div 16 < (64::nat)"
    "of_char b mod 16 * 4 + of_char d div 64 < (64::nat)" "of_char d mod 64 < (64::nat)"
    using of_char_div [of a] six_bits(1) [of "of_char a mod 4" "of_char b div 16"] of_char_div [of b]
      six_bits(2) [of "of_char b mod 16" "of_char d div 64"] of_char_div [of d] by simp_all
  have "b64_char (of_char b mod 16 * 4 + of_char d div 64) \<noteq> CHR ''=''" "b64_char (of_char d mod 64) \<noteq> CHR ''=''"
    using b64_char_no_pad l(3,4) by (meson not_le)+
  then show ?case using 4 l quad_bytes [of a b d] by (simp add: Let_def)
qed simp

subsection \<open>Keys\<close>

record crypto =
  sha256 :: "string \<Rightarrow> string"
  aead_seal :: "string \<Rightarrow> string \<Rightarrow> string \<Rightarrow> string \<Rightarrow> string"
  aead_open :: "string \<Rightarrow> string \<Rightarrow> string \<Rightarrow> string \<Rightarrow> string option"
  urandom :: "nat \<Rightarrow> nat \<Rightarrow> string"

definition crypto_sound :: "crypto \<Rightarrow> bool" where
  "crypto_sound p \<longleftrightarrow>
     (\<forall>key nonce aad text. aead_open p key nonce aad (aead_seal p key nonce aad text) = Some text \<and>
        length (aead_seal p key nonce aad text) = length text + 16) \<and>
     (\<forall>s. length (sha256 p s) = 32) \<and> (\<forall>i n. length (urandom p i n) = n)"

datatype crypto_error = ContentDecryptError | KeyringCollision

record content_keys =
  conversation_secrets_key :: string
  conversation_secrets_key_retired :: "string option"

definition ENVELOPE :: string where "ENVELOPE = ''v2:''"
definition NONCE_BYTES :: nat where "NONCE_BYTES = 12"
definition TAG_BYTES :: nat where "TAG_BYTES = 16"
definition CONTENT_AAD :: string where "CONTENT_AAD = ''messages.content''"

definition hex_digits :: string where "hex_digits = ''0123456789abcdef''"

definition hex_byte :: "char \<Rightarrow> string" where
  "hex_byte ch = (let n = of_char ch :: nat in [hex_digits ! (n div 16), hex_digits ! (n mod 16)])"

definition resolve_key :: "crypto \<Rightarrow> string \<Rightarrow> string \<times> string" where
  "resolve_key p secret = (let material = sha256 p secret in (concat (map hex_byte (take 1 (sha256 p material))), material))"

definition keyring :: "crypto \<Rightarrow> content_keys \<Rightarrow> crypto_error + (string \<times> (string \<times> string) list)" where
  "keyring p keys =
     (let active = resolve_key p (conversation_secrets_key keys) in
      case conversation_secrets_key_retired keys of
        None \<Rightarrow> Inr (fst active, [active])
      | Some retired \<Rightarrow>
          (let old = resolve_key p retired in
           if fst old = fst active then Inl KeyringCollision else Inr (fst active, [active, old])))"

definition active_kid :: "crypto \<Rightarrow> content_keys \<Rightarrow> crypto_error + string" where
  "active_kid p keys = map_sum id fst (keyring p keys)"

text \<open>\<open>_split\<close>: only a leading two-digit \<open>kid:\<close> counts as a tag.\<close>

definition split_kid :: "string \<Rightarrow> string option \<times> string" where
  "split_kid stored =
     (let kid = takeWhile (\<lambda>ch. ch \<noteq> CHR '':'') stored in
      case dropWhile (\<lambda>ch. ch \<noteq> CHR '':'') stored of
        [] \<Rightarrow> (None, stored)
      | _ # payload \<Rightarrow> if length kid = 2 \<and> set kid \<subseteq> set hex_digits then (Some kid, payload) else (None, stored))"

definition startswith :: "string \<Rightarrow> string \<Rightarrow> bool" where
  "startswith s pre \<longleftrightarrow> take (length pre) s = pre"

subsection \<open>Sealing and opening\<close>

definition seal_content :: "crypto \<Rightarrow> content_keys \<Rightarrow> nat \<Rightarrow> string \<Rightarrow> bool \<Rightarrow> crypto_error + (string \<times> bool)" where
  "seal_content p keys draw plaintext protected =
     (if \<not> protected \<or> plaintext = '''' then Inr (plaintext, False)
      else case keyring p keys of Inl e \<Rightarrow> Inl e
        | Inr (kid, ring) \<Rightarrow>
            (let nonce = urandom p draw NONCE_BYTES;
                 sealed = aead_seal p (the (map_of ring kid)) nonce CONTENT_AAD plaintext
             in Inr (kid @ '':'' @ ENVELOPE @ b64encode (nonce @ sealed), True)))"

text \<open>The loop over the candidate keys: an \<open>InvalidTag\<close> moves on to the next one.\<close>

fun open_with :: "crypto \<Rightarrow> string list \<Rightarrow> string \<Rightarrow> string \<Rightarrow> crypto_error + string" where
  "open_with p [] nonce sealed = Inl ContentDecryptError"
| "open_with p (key # keys) nonce sealed =
     (case aead_open p key nonce CONTENT_AAD sealed of Some text \<Rightarrow> Inr text | None \<Rightarrow> open_with p keys nonce sealed)"

definition unseal_content :: "crypto \<Rightarrow> content_keys \<Rightarrow> string \<Rightarrow> bool \<Rightarrow> crypto_error + string" where
  "unseal_content p keys stored encrypted =
     (if \<not> encrypted then Inr stored
      else case split_kid stored of (kid, payload) \<Rightarrow>
        (case keyring p keys of Inl e \<Rightarrow> Inl e
         | Inr (_, ring) \<Rightarrow>
             if \<not> startswith payload ENVELOPE then Inl ContentDecryptError
             else let candidates = (case kid of None \<Rightarrow> map snd ring
                        | Some k \<Rightarrow> (case map_of ring k of Some key \<Rightarrow> [key] | None \<Rightarrow> [])) in
               if candidates = [] then Inl ContentDecryptError
               else case b64decode (drop (length ENVELOPE) payload) of None \<Rightarrow> Inl ContentDecryptError
                 | Some raw \<Rightarrow>
                     if length raw < NONCE_BYTES + TAG_BYTES then Inl ContentDecryptError
                     else open_with p candidates (take NONCE_BYTES raw) (drop NONCE_BYTES raw)))"

subsection \<open>Sealed values open\<close>

lemma hex_byte_hex: "set (hex_byte ch) \<subseteq> set hex_digits" "length (hex_byte ch) = 2"
proof -
  have "of_char ch div 16 < length hex_digits" "of_char ch mod 16 < length hex_digits"
    unfolding hex_digits_def using of_char_div(2) [of ch] by simp_all
  then show "set (hex_byte ch) \<subseteq> set hex_digits" "length (hex_byte ch) = 2"
    by (simp_all add: hex_byte_def Let_def)
qed

lemma kid_hex:
  assumes "crypto_sound p"
  shows "set (fst (resolve_key p s)) \<subseteq> set hex_digits \<and> length (fst (resolve_key p s)) = 2"
proof -
  have "length (sha256 p (sha256 p s)) = 32" using assms by (simp add: crypto_sound_def)
  then obtain ch rest where "sha256 p (sha256 p s) = ch # rest" by (cases "sha256 p (sha256 p s)") auto
  then show ?thesis using hex_byte_hex [of ch] by (simp add: resolve_key_def Let_def)
qed

lemma colon_no_hex: "CHR '':'' \<notin> set hex_digits"
  by (simp add: hex_digits_def)

lemma split_kid_tagged:
  assumes "set kid \<subseteq> set hex_digits" "length kid = 2"
  shows "split_kid (kid @ '':'' @ payload) = (Some kid, payload)"
proof -
  have ne: "ch \<noteq> CHR '':''" if "ch \<in> set kid" for ch using that assms(1) colon_no_hex by blast
  have "takeWhile (\<lambda>ch. ch \<noteq> CHR '':'') (kid @ '':'' @ payload) = kid"
    "dropWhile (\<lambda>ch. ch \<noteq> CHR '':'') (kid @ '':'' @ payload) = '':'' @ payload"
    using ne by (simp_all add: takeWhile_append2 dropWhile_append2)
  then show ?thesis using assms by (simp add: split_kid_def)
qed

definition only_active :: "content_keys \<Rightarrow> content_keys" where
  "only_active keys = keys\<lparr>conversation_secrets_key_retired := None\<rparr>"

lemma keyring_active:
  assumes "keyring p keys = Inr (kid, ring)"
  shows "kid = fst (resolve_key p (conversation_secrets_key keys))"
    "map_of ring kid = Some (snd (resolve_key p (conversation_secrets_key keys)))"
    "keyring p (only_active keys) = Inr (kid, [resolve_key p (conversation_secrets_key keys)])"
  using assms by (auto simp: keyring_def only_active_def Let_def split: option.splits if_splits)

text \<open>What \<open>seal_content\<close> stores opens again, and needs no key but the active one.\<close>

lemma seal_opens:
  assumes p: "crypto_sound p" and s: "seal_content p keys draw text protected = Inr (stored, enc)"
  shows "unseal_content p keys stored enc = Inr text \<and> unseal_content p (only_active keys) stored enc = Inr text"
proof (cases "\<not> protected \<or> text = ''''")
  case True
  then show ?thesis using s by (auto simp: seal_content_def unseal_content_def)
next
  case False
  with s obtain kid ring where kr: "keyring p keys = Inr (kid, ring)" by (auto simp: seal_content_def split: sum.splits)
  let ?key = "snd (resolve_key p (conversation_secrets_key keys))" and ?nonce = "urandom p draw NONCE_BYTES"
  let ?ct = "aead_seal p ?key ?nonce CONTENT_AAD text"
  note act = keyring_active [OF kr]
  have st: "stored = kid @ '':'' @ ENVELOPE @ b64encode (?nonce @ ?ct)" "enc = True"
    using s False kr act(2) by (auto simp: seal_content_def Let_def)
  have len: "length ?nonce = 12" "length ?ct = length text + 16" "aead_open p ?key ?nonce CONTENT_AAD ?ct = Some text"
    using p by (auto simp: crypto_sound_def NONCE_BYTES_def)
  have sp: "split_kid stored = (Some kid, ENVELOPE @ b64encode (?nonce @ ?ct))"
    unfolding st(1) by (rule split_kid_tagged) (use kid_hex [OF p] act(1) in auto)
  have "unseal_content p ks stored enc = Inr text" if "keyring p ks = Inr (kid, r)" "map_of r kid = Some ?key" for ks r
    using that sp st(2) len by (simp add: unseal_content_def startswith_def NONCE_BYTES_def TAG_BYTES_def)
  moreover have "map_of [resolve_key p (conversation_secrets_key keys)] kid = Some ?key"
    using act(1) by (cases "resolve_key p (conversation_secrets_key keys)") simp
  ultimately show ?thesis using kr act(2,3) by blast
qed

end
