(* ===== verification/Rewrap.thy ===== *)
theory Rewrap
  imports Content_Crypto "HOL-Library.Multiset"
begin

section \<open>Moving sealed messages onto the active key\<close>

text \<open>
  \<open>app/core/conversations/services/rewrap.py\<close>: the sweep of a key rotation, paged by an id cursor and
  committed per chunk.  The loop is a \<open>partial_function\<close>; \<open>rewrap_loop_sweeps\<close> shows that it ends, with the
  effect of one pass over every stale row in id order, so the chunk size is invisible.  One sweep runs at a time here, so
  the guard on the ciphertext that was read always matches and \<open>skipped\<close> stays 0.
\<close>

record rewrap_result =
  rw_moved :: nat
  rw_unreadable :: nat
  rw_skipped :: nat

text \<open>\<open>kid\<close> is the active key-id.\<close>

definition stale_predicate :: "string \<Rightarrow> message \<Rightarrow> bool" where
  "stale_predicate kid m \<longleftrightarrow> ms_content_encrypted m \<and> \<not> startswith (ms_content m) (kid @ '':'' @ ENVELOPE)"

definition stale_message_count :: "crypto \<Rightarrow> content_keys \<Rightarrow> chat_db \<Rightarrow> crypto_error + nat" where
  "stale_message_count p keys c = map_sum id (\<lambda>kid. length (filter (stale_predicate kid) (messages c))) (active_kid p keys)"

text \<open>\<open>_rewrap_row\<close>: the outcome (a decryption error, or whether the guarded write landed) and the database.\<close>

definition rewrap_row ::
  "crypto \<Rightarrow> content_keys \<Rightarrow> chat_db \<Rightarrow> uuid \<Rightarrow> string \<Rightarrow> (crypto_error + bool) \<times> chat_db" where
  "rewrap_row p keys c message_id stale =
     (case unseal_content p keys stale True of Inl e \<Rightarrow> (Inl e, c)
      | Inr opened \<Rightarrow>
          (case seal_content p keys (draws c) opened True of Inl e \<Rightarrow> (Inl e, c)
           | Inr (fresh_value, encrypted) \<Rightarrow>
               (let hit = (\<lambda>m. row_id m = message_id \<and> ms_content m = stale) in
                (Inr (list_ex hit (messages c)),
                 c\<lparr>messages := map (\<lambda>m. if hit m then m\<lparr>ms_content := fresh_value, ms_content_encrypted := encrypted\<rparr> else m)
                     (messages c), draws := Suc (draws c)\<rparr>))))"

text \<open>The counters after one row.\<close>

definition tally :: "crypto_error + bool \<Rightarrow> rewrap_result \<Rightarrow> rewrap_result" where
  "tally outcome r =
     (case outcome of
        Inl e \<Rightarrow> r\<lparr>rw_unreadable := Suc (rw_unreadable r)\<rparr>
      | Inr landed \<Rightarrow> if landed then r\<lparr>rw_moved := Suc (rw_moved r)\<rparr> else r\<lparr>rw_skipped := Suc (rw_skipped r)\<rparr>)"

fun rewrap_rows ::
  "crypto \<Rightarrow> content_keys \<Rightarrow> (uuid \<times> string) list \<Rightarrow> rewrap_result \<times> chat_db \<Rightarrow> rewrap_result \<times> chat_db" where
  "rewrap_rows p keys [] rc = rc"
| "rewrap_rows p keys (row # rows) rc =
     rewrap_rows p keys rows
       (tally (fst (rewrap_row p keys (snd rc) (fst row) (snd row))) (fst rc),
        snd (rewrap_row p keys (snd rc) (fst row) (snd row)))"

definition beyond :: "uuid option \<Rightarrow> uuid \<Rightarrow> bool" where
  "beyond cursor i \<longleftrightarrow> (case cursor of None \<Rightarrow> True | Some j \<Rightarrow> j < i)"

definition stale_after :: "string \<Rightarrow> uuid option \<Rightarrow> chat_db \<Rightarrow> (uuid \<times> string) list" where
  "stale_after kid cursor c =
     sort_key fst (map (\<lambda>m. (row_id m, ms_content m))
       (filter (\<lambda>m. stale_predicate kid m \<and> beyond cursor (row_id m)) (messages c)))"

partial_function (option) rewrap_loop ::
  "crypto \<Rightarrow> content_keys \<Rightarrow> string \<Rightarrow> nat \<Rightarrow> uuid option \<Rightarrow> rewrap_result \<times> chat_db \<Rightarrow> (rewrap_result \<times> chat_db) option" where
  "rewrap_loop p keys kid chunk_size cursor rc =
     (if take chunk_size (stale_after kid cursor (snd rc)) = [] then Some rc
      else rewrap_loop p keys kid chunk_size (Some (fst (last (take chunk_size (stale_after kid cursor (snd rc))))))
             (rewrap_rows p keys (take chunk_size (stale_after kid cursor (snd rc))) rc))"

definition rewrap_message_content ::
  "crypto \<Rightarrow> content_keys \<Rightarrow> chat_db \<Rightarrow> nat \<Rightarrow> (crypto_error + (rewrap_result \<times> chat_db)) option" where
  "rewrap_message_content p keys c chunk_size =
     (case active_kid p keys of Inl e \<Rightarrow> Some (Inl e)
      | Inr kid \<Rightarrow> map_option Inr
          (rewrap_loop p keys kid chunk_size None (\<lparr>rw_moved = 0, rw_unreadable = 0, rw_skipped = 0\<rparr>, c)))"

subsection \<open>One row\<close>

lemma rewrap_row_messages:
  "\<exists>f. messages (snd (rewrap_row p keys c i s)) = map f (messages c) \<and>
     (\<forall>m. row_id (f m) = row_id m \<and> (row_id m \<noteq> i \<longrightarrow> f m = m))"
proof (cases "fst (rewrap_row p keys c i s)")
  case (Inl e)
  then have "messages (snd (rewrap_row p keys c i s)) = messages c"
    by (auto simp: rewrap_row_def Let_def split: sum.splits prod.splits)
  then show ?thesis by (intro exI [of _ id]) simp
next
  case (Inr b)
  then obtain v e where "messages (snd (rewrap_row p keys c i s)) =
     map (\<lambda>m. if row_id m = i \<and> ms_content m = s then m\<lparr>ms_content := v, ms_content_encrypted := e\<rparr> else m) (messages c)"
    by (auto simp: rewrap_row_def Let_def split: sum.splits prod.splits)
  then show ?thesis
    by (intro exI [of _ "\<lambda>m. if row_id m = i \<and> ms_content m = s then m\<lparr>ms_content := v, ms_content_encrypted := e\<rparr> else m"])
      (simp del: map_eq_conv)
qed

lemma rewrap_row_ids: "map row_id (messages (snd (rewrap_row p keys c i s))) = map row_id (messages c)"
  using rewrap_row_messages [of p keys c i s] by auto

lemma rewrap_row_other:
  assumes "\<And>m. row_id m = i \<Longrightarrow> \<not> Q m"
  shows "filter Q (messages (snd (rewrap_row p keys c i s))) = filter Q (messages c)"
proof -
  obtain f where f: "messages (snd (rewrap_row p keys c i s)) = map f (messages c)"
    "\<forall>m. row_id (f m) = row_id m \<and> (row_id m \<noteq> i \<longrightarrow> f m = m)" using rewrap_row_messages by blast
  have "filter Q (map f t) = filter Q t" for t
  proof (induction t)
    case (Cons m t)
    show ?case
    proof (cases "row_id m = i")
      case True
      then have "\<not> Q m" "\<not> Q (f m)" using assms f(2) by auto
      with Cons show ?thesis by simp
    next
      case False
      then show ?thesis using Cons f(2) by simp
    qed
  qed simp
  then show ?thesis by (simp add: f(1))
qed

lemma rewrap_rows_ids: "map row_id (messages (snd (rewrap_rows p keys rows rc))) = map row_id (messages (snd rc))"
  by (induction rows arbitrary: rc) (simp_all add: rewrap_row_ids)

lemma rewrap_rows_other:
  "(\<And>m. row_id m \<in> fst ` set rows \<Longrightarrow> \<not> Q m) \<Longrightarrow>
     filter Q (messages (snd (rewrap_rows p keys rows rc))) = filter Q (messages (snd rc))"
  by (induction rows arbitrary: rc) (simp_all add: rewrap_row_other)

lemma rewrap_rows_append: "rewrap_rows p keys (xs @ ys) rc = rewrap_rows p keys ys (rewrap_rows p keys xs rc)"
  by (induction xs arbitrary: rc) simp_all

subsection \<open>The loop is one pass in id order\<close>

lemma strict_stale_after:
  assumes "distinct (map row_id (messages c))"
  shows "sorted_wrt (<) (map fst (stale_after kid cursor c))"
proof -
  let ?xs = "map (\<lambda>m. (row_id m, ms_content m)) (filter (\<lambda>m. stale_predicate kid m \<and> beyond cursor (row_id m)) (messages c))"
  have "map fst ?xs = map row_id (filter (\<lambda>m. stale_predicate kid m \<and> beyond cursor (row_id m)) (messages c))" by simp
  then have "distinct (map fst ?xs)" using assms by (simp only: distinct_map_filter)
  moreover have "distinct (map fst (sort_key fst ?xs)) = distinct (map fst ?xs)"
    by (rule mset_eq_imp_distinct_iff) (simp only: mset_map mset_sort)
  ultimately have "distinct (map fst (sort_key fst ?xs))" by blast
  then show ?thesis
    unfolding stale_after_def strict_sorted_iff by simp
qed

lemma take_drop_beyond:
  assumes "sorted_wrt (<) (map fst S)" "take n S \<noteq> []"
  shows "filter (\<lambda>x. fst (last (take n S)) < fst x) S = drop n S" "set (map fst (take n S)) \<subseteq> {..fst (last (take n S)) :: nat}"
proof -
  let ?l = "fst (last (take n S))"
  have s: "sorted_wrt (<) (map fst (take n S) @ map fst (drop n S))"
    using assms(1) by (simp flip: map_append)
  have le: "fst x \<le> ?l" if "x \<in> set (take n S)" for x
  proof (cases "x = last (take n S)")
    case False
    then have "x \<in> set (butlast (take n S))" using that assms(2) by (metis append_butlast_last_id in_set_conv_decomp_last Un_iff empty_iff insert_iff list.set(1) list.set(2) set_append)
    moreover have "sorted_wrt (<) (map fst (butlast (take n S)) @ [?l])"
      using s assms(2) by (metis append_butlast_last_id list.map(1) list.map(2) map_append sorted_wrt_append)
    ultimately show ?thesis by (auto simp: sorted_wrt_append)
  qed simp
  have gt: "?l < fst x" if "x \<in> set (drop n S)" for x
    using s that last_in_set [OF assms(2)] unfolding sorted_wrt_append by simp
  have "filter (\<lambda>x. ?l < fst x) (take n S @ drop n S) = drop n S"
  proof -
    have "filter (\<lambda>x. ?l < fst x) (take n S) = []" using le by (fastforce simp: filter_empty_conv)
    moreover have "filter (\<lambda>x. ?l < fst x) (drop n S) = drop n S" using gt by (rule filter_True [OF ballI])
    ultimately show ?thesis by (simp only: filter_append append_Nil)
  qed
  then show "filter (\<lambda>x. ?l < fst x) S = drop n S" by simp
  show "set (map fst (take n S)) \<subseteq> {..?l}" using le by auto
qed

lemma stale_after_split: "stale_after kid (Some j) c = filter (\<lambda>x. j < fst x) (stale_after kid None c)"
proof -
  have "filter (\<lambda>m. stale_predicate kid m \<and> beyond (Some j) (row_id m)) (messages c) =
      filter (\<lambda>m. j < row_id m) (filter (\<lambda>m. stale_predicate kid m \<and> beyond None (row_id m)) (messages c))"
    by (simp add: beyond_def conj_commute)
  then show ?thesis by (simp add: stale_after_def filter_sort filter_map comp_def)
qed

lemma stale_after_later:
  "beyond cursor j \<Longrightarrow> stale_after kid (Some j) c = filter (\<lambda>x. j < fst x) (stale_after kid cursor c)"
proof (cases cursor)
  case (Some i)
  assume "beyond cursor j"
  with Some have "i < j" by (simp add: beyond_def)
  then have "(\<lambda>x :: nat \<times> string. j < fst x) = (\<lambda>x. j < fst x \<and> i < fst x)" by auto
  then show ?thesis using stale_after_split [of kid j c] stale_after_split [of kid i c] Some
    by (simp add: conj_commute)
qed (simp add: stale_after_split)

lemma stale_after_next:
  assumes d: "distinct (map row_id (messages (snd rc)))" and ne: "take n (stale_after kid cursor (snd rc)) \<noteq> []"
  shows "stale_after kid (Some (fst (last (take n (stale_after kid cursor (snd rc))))))
      (snd (rewrap_rows p keys (take n (stale_after kid cursor (snd rc))) rc)) = drop n (stale_after kid cursor (snd rc))"
proof -
  let ?S = "stale_after kid cursor (snd rc)" let ?l = "fst (last (take n ?S))"
  let ?Q = "\<lambda>m. stale_predicate kid m \<and> beyond (Some ?l) (row_id m)"
  note tb = take_drop_beyond [OF strict_stale_after [OF d] ne]
  have "filter ?Q (messages (snd (rewrap_rows p keys (take n ?S) rc))) = filter ?Q (messages (snd rc))"
    by (rule rewrap_rows_other) (use tb(2) in \<open>fastforce simp: beyond_def\<close>)+
  then have "stale_after kid (Some ?l) (snd (rewrap_rows p keys (take n ?S) rc)) = stale_after kid (Some ?l) (snd rc)"
    unfolding stale_after_def by simp
  also have "last (take n ?S) \<in> set ?S" using ne by (meson in_set_takeD last_in_set)
  then have "beyond cursor ?l" by (auto simp: stale_after_def)
  then have "stale_after kid (Some ?l) (snd rc) = drop n ?S"
    using tb(1) by (simp add: stale_after_later)
  finally show ?thesis .
qed

lemma rewrap_loop_sweeps:
  assumes "0 < n" and "distinct (map row_id (messages (snd rc)))"
  shows "rewrap_loop p keys kid n cursor rc = Some (rewrap_rows p keys (stale_after kid cursor (snd rc)) rc)"
  using assms(2)
proof (induction "length (stale_after kid cursor (snd rc))" arbitrary: cursor rc rule: less_induct)
  case less
  let ?S = "stale_after kid cursor (snd rc)"
  show ?case
  proof (cases "take n ?S = []")
    case True
    then have "?S = []" using assms(1) by simp
    then show ?thesis using True by (simp add: rewrap_loop.simps [of p keys kid n cursor])
  next
    case False
    let ?rc = "rewrap_rows p keys (take n ?S) rc" and ?l = "Some (fst (last (take n ?S)))"
    have nxt: "stale_after kid ?l (snd ?rc) = drop n ?S" by (rule stale_after_next [OF less.prems False])
    have "length (stale_after kid ?l (snd ?rc)) < length ?S" using False assms(1) by (simp add: nxt)
    moreover have "distinct (map row_id (messages (snd ?rc)))" using less.prems by (simp add: rewrap_rows_ids)
    ultimately have "rewrap_loop p keys kid n ?l ?rc = Some (rewrap_rows p keys (drop n ?S) ?rc)"
      using less.hyps [of ?l ?rc] by (simp add: nxt)
    then show ?thesis using False
      by (simp add: rewrap_loop.simps [of p keys kid n cursor] rewrap_rows_append [symmetric])
  qed
qed

subsection \<open>What one pass leaves\<close>

definition read_message :: "crypto \<Rightarrow> content_keys \<Rightarrow> message \<Rightarrow> crypto_error + string" where
  "read_message p keys m = unseal_content p keys (ms_content m) (ms_content_encrypted m)"

text \<open>\<open>m'\<close> is \<open>m\<close> after the sweep: readable text reads the same under the active key alone, unreadable rows are untouched, and
  nothing but the value and its discriminator changes.\<close>

definition rewrapped :: "crypto \<Rightarrow> content_keys \<Rightarrow> message \<Rightarrow> message \<Rightarrow> bool" where
  "rewrapped p keys m m' \<longleftrightarrow>
     m' = m\<lparr>ms_content := ms_content m', ms_content_encrypted := ms_content_encrypted m'\<rparr> \<and>
     (case read_message p keys m of Inl _ \<Rightarrow> m' = m | Inr text \<Rightarrow> read_message p (only_active keys) m' = Inr text)"

lemma sealed_not_stale:
  assumes "seal_content p keys n text prot = Inr (v, e)" "active_kid p keys = Inr kid"
  shows "\<not> stale_predicate kid (m\<lparr>ms_content := v, ms_content_encrypted := e\<rparr>)"
  using assms by (auto simp: seal_content_def stale_predicate_def startswith_def active_kid_def Let_def
      split: if_splits sum.splits)

lemma startswith_self [simp]: "startswith (pre @ rest) pre"
  by (simp add: startswith_def)

lemma startswith_append: "startswith s pre \<Longrightarrow> \<exists>rest. s = pre @ rest"
  by (metis append_take_drop_id startswith_def)

lemma active_ring: "active_kid p keys = Inr kid \<Longrightarrow> \<exists>ring. keyring p keys = Inr (kid, ring)"
  by (cases "keyring p keys") (auto simp: active_kid_def)

lemma seal_total:
  assumes "active_kid p keys = Inr kid" shows "\<exists>v e. seal_content p keys n plain True = Inr (v, e)"
proof -
  obtain ring where "keyring p keys = Inr (kid, ring)" using active_ring [OF assms] by blast
  then show ?thesis by (cases "plain = []") (auto simp: seal_content_def Let_def)
qed

text \<open>A value already on the active key and format needs no other key.\<close>

lemma current_reads:
  assumes p: "crypto_sound p" and k: "active_kid p keys = Inr kid" and m: "\<not> stale_predicate kid m"
    and r: "read_message p keys m = Inr text"
  shows "read_message p (only_active keys) m = Inr text"
proof (cases "ms_content_encrypted m")
  case False
  then show ?thesis using r by (simp add: read_message_def unseal_content_def)
next
  case True
  obtain ring where kr: "keyring p keys = Inr (kid, ring)" using active_ring [OF k] by blast
  note act = keyring_active [OF kr]
  from True m obtain rest where "ms_content m = kid @ '':'' @ (ENVELOPE @ rest)"
    by (metis append.assoc startswith_append stale_predicate_def)
  moreover have "set kid \<subseteq> set hex_digits" "length kid = 2" using kid_hex [OF p] act(1) by auto
  ultimately have sp: "split_kid (ms_content m) = (Some kid, ENVELOPE @ rest)" using split_kid_tagged by metis
  have "map_of [resolve_key p (conversation_secrets_key keys)] kid = Some (snd (resolve_key p (conversation_secrets_key keys)))"
    using act(1) by (cases "resolve_key p (conversation_secrets_key keys)") simp
  then show ?thesis using r True sp kr act(2,3)
    by (simp add: read_message_def unseal_content_def del: map_of.simps)
qed

lemma rewrap_row_effect:
  assumes p: "crypto_sound p" and k: "active_kid p keys = Inr kid" and d: "distinct (map row_id (messages c))"
    and m: "m \<in> set (messages c)" "stale_predicate kid m"
  shows "case read_message p keys m of
      Inl _ \<Rightarrow> \<exists>e. rewrap_row p keys c (row_id m) (ms_content m) = (Inl e, c)
    | Inr text \<Rightarrow> fst (rewrap_row p keys c (row_id m) (ms_content m)) = Inr True \<and>
        (\<exists>m'. rewrapped p keys m m' \<and> \<not> stale_predicate kid m' \<and>
           messages (snd (rewrap_row p keys c (row_id m) (ms_content m))) = map (\<lambda>x. if row_id x = row_id m then m' else x) (messages c))"
proof -
  have enc: "ms_content_encrypted m" using m(2) by (simp add: stale_predicate_def)
  then have rd: "read_message p keys m = unseal_content p keys (ms_content m) True" by (simp add: read_message_def)
  show ?thesis
  proof (cases "read_message p keys m")
    case (Inl e)
    then show ?thesis by (simp add: rewrap_row_def rd [symmetric])
  next
    case (Inr plain)
    obtain v e where s: "seal_content p keys (draws c) plain True = Inr (v, e)"
      using seal_total [OF k] by blast
    let ?m = "m\<lparr>ms_content := v, ms_content_encrypted := e\<rparr>"
    have same: "x = m" if "x \<in> set (messages c)" "row_id x = row_id m" for x using distinct_map_same [OF d that(1) m(1) that(2)] .
    have "messages (snd (rewrap_row p keys c (row_id m) (ms_content m))) = map (\<lambda>x. if row_id x = row_id m then ?m else x) (messages c)"
      using Inr s same by (auto simp: rewrap_row_def Let_def rd [symmetric])
    moreover have "fst (rewrap_row p keys c (row_id m) (ms_content m)) = Inr True"
      using Inr s m(1) by (auto simp: rewrap_row_def Let_def list_ex_iff rd [symmetric])
    moreover have "rewrapped p keys m ?m"
      using Inr seal_opens [OF p s] by (simp add: rewrapped_def read_message_def)
    ultimately show ?thesis using Inr sealed_not_stale [OF s k, of m] by auto
  qed
qed

definition unreadable_row :: "crypto \<Rightarrow> content_keys \<Rightarrow> uuid \<times> string \<Rightarrow> bool" where
  "unreadable_row p keys row \<longleftrightarrow> (\<exists>e. unseal_content p keys (snd row) True = Inl e)"

definition pass_effect :: "crypto \<Rightarrow> content_keys \<Rightarrow> string \<Rightarrow> uuid set \<Rightarrow> (message \<Rightarrow> message) \<Rightarrow> message list \<Rightarrow> bool" where
  "pass_effect p keys kid ids f ms \<longleftrightarrow> (\<forall>m\<in>set ms. row_id (f m) = row_id m \<and>
     (if row_id m \<in> ids then rewrapped p keys m (f m) \<and> (stale_predicate kid (f m) \<longleftrightarrow> (\<exists>e. read_message p keys m = Inl e))
      else f m = m))"

lemma rewrapped_id:
  assumes "rewrapped p keys m m'" shows "row_id m' = row_id m"
proof -
  have "row_id m' = row_id (m\<lparr>ms_content := ms_content m', ms_content_encrypted := ms_content_encrypted m'\<rparr>)"
    using assms unfolding rewrapped_def by (metis (no_types))
  then show ?thesis by simp
qed

lemma rewrap_row_function:
  assumes p: "crypto_sound p" and k: "active_kid p keys = Inr kid" and d: "distinct (map row_id (messages c))"
    and m: "m \<in> set (messages c)" "stale_predicate kid m"
  shows "\<exists>f. messages (snd (rewrap_row p keys c (row_id m) (ms_content m))) = map f (messages c) \<and>
      pass_effect p keys kid {row_id m} f (messages c) \<and>
      fst (rewrap_row p keys c (row_id m) (ms_content m)) =
        (if unreadable_row p keys (row_id m, ms_content m) then fst (rewrap_row p keys c (row_id m) (ms_content m)) else Inr True) \<and>
      (unreadable_row p keys (row_id m, ms_content m) \<longleftrightarrow> isl (fst (rewrap_row p keys c (row_id m) (ms_content m))))"
proof -
  have rd: "read_message p keys m = unseal_content p keys (ms_content m) True"
    using m(2) by (simp add: read_message_def stale_predicate_def)
  have same: "x = m" if "x \<in> set (messages c)" "row_id x = row_id m" for x using distinct_map_same [OF d that(1) m(1) that(2)] .
  note eff = rewrap_row_effect [OF assms]
  show ?thesis
  proof (cases "read_message p keys m")
    case (Inl e)
    with eff obtain e' where "rewrap_row p keys c (row_id m) (ms_content m) = (Inl e', c)" by auto
    moreover have "pass_effect p keys kid {row_id m} id (messages c)"
      unfolding pass_effect_def
    proof
      fix x assume x: "x \<in> set (messages c)"
      show "row_id (id x) = row_id x \<and> (if row_id x \<in> {row_id m}
          then rewrapped p keys x (id x) \<and> (stale_predicate kid (id x) \<longleftrightarrow> (\<exists>e. read_message p keys x = Inl e)) else id x = x)"
        using same [OF x] m Inl by (cases "row_id x = row_id m") (simp_all add: rewrapped_def)
    qed
    ultimately show ?thesis using Inl rd by (intro exI [of _ id]) (auto simp: unreadable_row_def)
  next
    case (Inr plain)
    with eff obtain m' where m': "rewrapped p keys m m'" "\<not> stale_predicate kid m'"
      "messages (snd (rewrap_row p keys c (row_id m) (ms_content m))) = map (\<lambda>x. if row_id x = row_id m then m' else x) (messages c)"
      "fst (rewrap_row p keys c (row_id m) (ms_content m)) = Inr True" by auto
    have "pass_effect p keys kid {row_id m} (\<lambda>x. if row_id x = row_id m then m' else x) (messages c)"
      unfolding pass_effect_def
    proof
      fix x assume x: "x \<in> set (messages c)"
      let ?f = "\<lambda>x. if row_id x = row_id m then m' else x"
      show "row_id (?f x) = row_id x \<and> (if row_id x \<in> {row_id m}
          then rewrapped p keys x (?f x) \<and> (stale_predicate kid (?f x) \<longleftrightarrow> (\<exists>e. read_message p keys x = Inl e)) else ?f x = x)"
        using same [OF x] m' Inr rewrapped_id [OF m'(1)] by (cases "row_id x = row_id m") simp_all
    qed
    then show ?thesis using m' Inr rd by (intro exI [of _ "\<lambda>x. if row_id x = row_id m then m' else x"]) (auto simp: unreadable_row_def)
  qed
qed

lemma tally_counts:
  "rw_moved (tally out r) + rw_unreadable (tally out r) + rw_skipped (tally out r) =
     Suc (rw_moved r + rw_unreadable r + rw_skipped r)"
  "rw_unreadable (tally out r) = rw_unreadable r + (if isl out then 1 else 0)"
  "isl out \<or> out = Inr True \<Longrightarrow> rw_skipped (tally out r) = rw_skipped r"
  by (cases out; simp add: tally_def)+

lemma rewrap_rows_effect:
  assumes p: "crypto_sound p" and k: "active_kid p keys = Inr kid"
  shows "distinct (map row_id (messages (snd rc))) \<Longrightarrow> distinct (map fst rows) \<Longrightarrow>
    (\<And>row. row \<in> set rows \<Longrightarrow> \<exists>m\<in>set (messages (snd rc)). row = (row_id m, ms_content m) \<and> stale_predicate kid m) \<Longrightarrow>
    \<exists>f. messages (snd (rewrap_rows p keys rows rc)) = map f (messages (snd rc)) \<and>
        pass_effect p keys kid (fst ` set rows) f (messages (snd rc)) \<and>
        rw_skipped (fst (rewrap_rows p keys rows rc)) = rw_skipped (fst rc) \<and>
        rw_unreadable (fst (rewrap_rows p keys rows rc)) = rw_unreadable (fst rc) + length (filter (unreadable_row p keys) rows) \<and>
        rw_moved (fst (rewrap_rows p keys rows rc)) + rw_unreadable (fst (rewrap_rows p keys rows rc)) +
            rw_skipped (fst (rewrap_rows p keys rows rc)) =
          rw_moved (fst rc) + rw_unreadable (fst rc) + rw_skipped (fst rc) + length rows"
proof (induction rows arbitrary: rc)
  case Nil
  then show ?case by (intro exI [of _ id]) (simp add: pass_effect_def)
next
  case (Cons row rows)
  obtain m where m: "m \<in> set (messages (snd rc))" "row = (row_id m, ms_content m)" "stale_predicate kid m"
    using Cons.prems(3) [of row] by auto
  let ?out = "rewrap_row p keys (snd rc) (row_id m) (ms_content m)"
  let ?rc = "(tally (fst ?out) (fst rc), snd ?out)"
  obtain g where g: "messages (snd ?out) = map g (messages (snd rc))" "pass_effect p keys kid {row_id m} g (messages (snd rc))"
    "isl (fst ?out) \<or> fst ?out = Inr True" "unreadable_row p keys row \<longleftrightarrow> isl (fst ?out)"
    using rewrap_row_function [OF p k Cons.prems(1) m(1,3)] unfolding m(2) by (metis isl_def)
  have gid: "row_id (g x) = row_id x" "row_id x \<noteq> row_id m \<Longrightarrow> g x = x" if "x \<in> set (messages (snd rc))" for x
    using g(2) that by (auto simp: pass_effect_def)
  have fresh: "row_id m \<notin> fst ` set rows" using Cons.prems(2) m(2) by auto
  have "\<exists>x\<in>set (messages (snd ?rc)). row' = (row_id x, ms_content x) \<and> stale_predicate kid x" if r: "row' \<in> set rows" for row'
  proof -
    obtain x where x: "x \<in> set (messages (snd rc))" "row' = (row_id x, ms_content x)" "stale_predicate kid x"
      using Cons.prems(3) r by (meson list.set_intros(2))
    then have "row_id x \<noteq> row_id m" using fresh r by force
    then have "g x = x" using gid x(1) by blast
    then show ?thesis using x g(1) by (metis imageI list.set_map snd_conv)
  qed
  moreover have "distinct (map row_id (messages (snd ?rc)))" using Cons.prems(1) by (simp add: rewrap_row_ids)
  moreover have "distinct (map fst rows)" using Cons.prems(2) by simp
  ultimately obtain f where f: "messages (snd (rewrap_rows p keys rows ?rc)) = map f (messages (snd ?rc))"
    "pass_effect p keys kid (fst ` set rows) f (messages (snd ?rc))"
    and cnt: "rw_skipped (fst (rewrap_rows p keys rows ?rc)) = rw_skipped (fst ?rc)"
      "rw_unreadable (fst (rewrap_rows p keys rows ?rc)) = rw_unreadable (fst ?rc) + length (filter (unreadable_row p keys) rows)"
      "rw_moved (fst (rewrap_rows p keys rows ?rc)) + rw_unreadable (fst (rewrap_rows p keys rows ?rc)) +
            rw_skipped (fst (rewrap_rows p keys rows ?rc)) =
          rw_moved (fst ?rc) + rw_unreadable (fst ?rc) + rw_skipped (fst ?rc) + length rows"
    using Cons.IH [of ?rc] by metis
  have "pass_effect p keys kid (fst ` set (row # rows)) (f \<circ> g) (messages (snd rc))"
    unfolding pass_effect_def
  proof
    fix x assume x: "x \<in> set (messages (snd rc))"
    then have gx: "g x \<in> set (messages (snd ?rc))" by (simp add: g(1))
    note fx = f(2) [unfolded pass_effect_def, rule_format, OF gx]
    show "row_id ((f \<circ> g) x) = row_id x \<and> (if row_id x \<in> fst ` set (row # rows)
        then rewrapped p keys x ((f \<circ> g) x) \<and> (stale_predicate kid ((f \<circ> g) x) \<longleftrightarrow> (\<exists>e. read_message p keys x = Inl e))
        else (f \<circ> g) x = x)"
    proof (cases "row_id x = row_id m")
      case True
      then have "f (g x) = g x" using fx gid(1) [OF x] fresh by auto
      then show ?thesis using True g(2) x m(2) gid(1) [OF x] by (auto simp: pass_effect_def)
    next
      case False
      then have gx: "g x = x" using gid(2) [OF x] by blast
      have "row_id x \<in> fst ` set (row # rows) \<longleftrightarrow> row_id x \<in> fst ` set rows" using False m(2) by simp
      then show ?thesis using fx unfolding gx comp_apply by (cases "row_id x \<in> fst ` set rows") simp_all
    qed
  qed
  moreover have eq: "rewrap_rows p keys (row # rows) rc = rewrap_rows p keys rows ?rc" using m(2) by simp
  moreover have "messages (snd (rewrap_rows p keys rows ?rc)) = map (f \<circ> g) (messages (snd rc))"
    using f(1) g(1) by simp
  moreover have "rw_skipped (fst (rewrap_rows p keys rows ?rc)) = rw_skipped (fst rc)"
    using cnt(1) tally_counts(3) [OF g(3)] by simp
  moreover have "rw_unreadable (fst (rewrap_rows p keys rows ?rc)) =
      rw_unreadable (fst rc) + length (filter (unreadable_row p keys) (row # rows))"
    using cnt(2) tally_counts(2) g(4) by simp
  moreover have "rw_moved (fst (rewrap_rows p keys rows ?rc)) + rw_unreadable (fst (rewrap_rows p keys rows ?rc)) +
      rw_skipped (fst (rewrap_rows p keys rows ?rc)) =
      rw_moved (fst rc) + rw_unreadable (fst rc) + rw_skipped (fst rc) + length (row # rows)"
    using cnt(3) tally_counts(1) [of "fst ?out" "fst rc"] by simp
  ultimately show ?case unfolding eq by (intro exI [of _ "f \<circ> g"] conjI)
qed

lemma rows_of_stale:
  "row \<in> set (stale_after kid None c) \<Longrightarrow> \<exists>m\<in>set (messages c). row = (row_id m, ms_content m) \<and> stale_predicate kid m"
  by (auto simp: stale_after_def)

lemma stale_rows_length:
  "length (filter Q (stale_after kid None c)) =
     length (filter (\<lambda>m. stale_predicate kid m \<and> Q (row_id m, ms_content m)) (messages c))"
  by (simp add: stale_after_def beyond_def filter_sort filter_map comp_def conj_commute)

lemma ids_of_stale: "fst ` set (stale_after kid None c) = row_id ` {m \<in> set (messages c). stale_predicate kid m}"
  by (simp add: stale_after_def beyond_def image_image)

text \<open>C11: The key-rotation sweep always ends, whatever the chunk size and the stored rows.  Afterwards every message that
  could be read before reads the same under the active key alone, so the retired key can be dropped, rows that no configured key
  opens are left exactly as they were, and the three counters account for every stale row, the number still stale being the
  number reported unreadable.\<close>

theorem rewrap_completes:
  assumes p: "crypto_sound p" and k: "active_kid p keys = Inr kid" and n: "0 < chunk_size"
    and d: "distinct (map row_id (messages c))"
  shows "\<exists>r c'. rewrap_message_content p keys c chunk_size = Some (Inr (r, c')) \<and>
    list_all2 (rewrapped p keys) (messages c) (messages c') \<and>
    Inr (rw_moved r + rw_unreadable r + rw_skipped r) = stale_message_count p keys c \<and> rw_skipped r = 0 \<and>
    stale_message_count p keys c' = Inr (rw_unreadable r)"
proof -
  let ?S = "stale_after kid None c" and ?r = "\<lparr>rw_moved = 0, rw_unreadable = 0, rw_skipped = 0\<rparr>"
  have ds: "distinct (map fst ?S)" using strict_stale_after [OF d] by (simp add: strict_sorted_iff)
  let ?rc = "rewrap_rows p keys ?S (?r, c)"
  from rewrap_rows_effect [OF p k _ ds, of "(?r, c)"] d rows_of_stale
  have "\<exists>f. messages (snd ?rc) = map f (messages c) \<and> pass_effect p keys kid (fst ` set ?S) f (messages c) \<and>
      rw_skipped (fst ?rc) = 0 \<and> rw_unreadable (fst ?rc) = length (filter (unreadable_row p keys) ?S) \<and>
      rw_moved (fst ?rc) + rw_unreadable (fst ?rc) + rw_skipped (fst ?rc) = length ?S" by simp
  then obtain f where f: "messages (snd ?rc) = map f (messages c)" "pass_effect p keys kid (fst ` set ?S) f (messages c)"
    and cnt: "rw_skipped (fst ?rc) = 0" "rw_unreadable (fst ?rc) = length (filter (unreadable_row p keys) ?S)"
      "rw_moved (fst ?rc) + rw_unreadable (fst ?rc) + rw_skipped (fst ?rc) = length ?S" by (elim exE conjE) (rule that)
  have run: "rewrap_message_content p keys c chunk_size = Some (Inr (fst ?rc, snd ?rc))"
    using rewrap_loop_sweeps [OF n, of "(?r, c)" p keys kid None] d k by (simp add: rewrap_message_content_def)
  have stale: "row_id m \<in> fst ` set ?S \<longleftrightarrow> stale_predicate kid m" if "m \<in> set (messages c)" for m
  proof
    assume "row_id m \<in> fst ` set ?S"
    then obtain m' where m': "m' \<in> set (messages c)" "stale_predicate kid m'" "row_id m = row_id m'"
      unfolding ids_of_stale by blast
    with distinct_map_same [OF d that m'(1)] show "stale_predicate kid m" by simp
  next
    assume "stale_predicate kid m"
    with that show "row_id m \<in> fst ` set ?S" unfolding ids_of_stale by blast
  qed
  have each: "rewrapped p keys m (f m) \<and>
      (stale_predicate kid (f m) \<longleftrightarrow> stale_predicate kid m \<and> unreadable_row p keys (row_id m, ms_content m))"
    if m: "m \<in> set (messages c)" for m
  proof (cases "stale_predicate kid m")
    case True
    have "rewrapped p keys m (f m) \<and> (stale_predicate kid (f m) \<longleftrightarrow> (\<exists>e. read_message p keys m = Inl e))"
      using f(2) m stale [OF m] True by (simp add: pass_effect_def)
    moreover have "read_message p keys m = unseal_content p keys (ms_content m) True"
      using True by (simp add: read_message_def stale_predicate_def)
    ultimately show ?thesis using True by (simp add: unreadable_row_def)
  next
    case False
    then have "f m = m" using f(2) stale [OF m] m by (auto simp: pass_effect_def)
    moreover have "rewrapped p keys m m"
      using current_reads [OF p k False] by (auto simp: rewrapped_def split: sum.splits)
    ultimately show ?thesis using False by simp
  qed
  have "length (filter (stale_predicate kid) (map f (messages c))) =
      length (filter (\<lambda>m. stale_predicate kid m \<and> unreadable_row p keys (row_id m, ms_content m)) (messages c))"
    using each by (simp add: filter_map comp_def cong: filter_cong)
  then have "stale_message_count p keys (snd ?rc) = Inr (rw_unreadable (fst ?rc))"
    using k by (simp add: stale_message_count_def f(1) cnt(2) stale_rows_length)
  moreover have "stale_message_count p keys c = Inr (length ?S)"
    using k stale_rows_length [of "\<lambda>_. True" kid c] by (simp add: stale_message_count_def)
  moreover have "list_all2 (rewrapped p keys) (messages c) (messages (snd ?rc))"
    using each by (simp add: f(1) list_all2_map2 list_all2_same)
  ultimately show ?thesis using run cnt by (intro exI) auto
qed

end
