(* ===== verification/Messages.thy ===== *)
theory Messages
  imports Conversations Content_Crypto
begin

section \<open>Turns and messages\<close>

text \<open>
  \<open>app/core/conversations/services/messages.py\<close>, the stream of a reply (\<open>streaming.py\<close>, \<open>services/generation.py\<close>), the
  reaper (\<open>tasks.py\<close>) and the write routes of \<open>api/v1/messages.py\<close>.  A send opens a turn (the prompt and a
  \<open>streaming\<close> placeholder) in Transaction A; the stream of the provider ends in a guarded finalize (Transaction B), which may be
  lost, and then the reaper sweeps the placeholder.  What the provider answers is an input: the chunks it yields
  and how the stream ends.  Row locks and lost races have no counterpart, a transaction being one step; a
  \<open>ContentDecryptError\<close> nobody catches is a \<open>RuntimeError\<close> (500).
\<close>

subsection \<open>Reading\<close>

definition turn_messages :: "chat_db \<Rightarrow> uuid \<Rightarrow> message list" where
  "turn_messages c turn_id = filter (\<lambda>m. ms_turn_id m = turn_id) (messages c)"

definition superseded_ids :: "message list \<Rightarrow> uuid list" where
  "superseded_ids ms = List.map_filter ms_replaces_message_id ms"

text \<open>\<open>ORDER BY role order, slot, id\<close>; a NULL slot sorts last.\<close>

definition message_order :: "message list \<Rightarrow> message list" where
  "message_order ms =
     sort_key (\<lambda>m. MESSAGE_ROLE_ORDER (ms_role m)) (sort_key (\<lambda>m. ms_slot m = None)
       (sort_key (\<lambda>m. case ms_slot m of None \<Rightarrow> '''' | Some s \<Rightarrow> s) (sort_key row_id ms)))"

definition live_turn_messages :: "chat_db \<Rightarrow> uuid \<Rightarrow> message list" where
  "live_turn_messages c turn_id =
     (let ms = turn_messages c turn_id
      in message_order (filter (\<lambda>m. row_id m \<notin> set (superseded_ids ms)) ms))"

definition conversation_turns :: "chat_db \<Rightarrow> uuid \<Rightarrow> turn list" where
  "conversation_turns c conversation_id = filter (\<lambda>t. tn_conversation_id t = conversation_id) (turns c)"

definition live_conversation_messages :: "chat_db \<Rightarrow> uuid \<Rightarrow> message list" where
  "live_conversation_messages c conversation_id =
     concat (map (\<lambda>t. live_turn_messages c (row_id t)) (sort_key tn_turn_index (conversation_turns c conversation_id)))"

definition list_conversation_messages :: "chat_db \<Rightarrow> uuid \<Rightarrow> nat \<Rightarrow> nat \<Rightarrow> message list \<times> nat" where
  "list_conversation_messages c conversation_id limit offset =
     paginate limit offset (live_conversation_messages c conversation_id)"

definition live_messages_for_conversations :: "chat_db \<Rightarrow> uuid list \<Rightarrow> (uuid \<times> message) list" where
  "live_messages_for_conversations c conversation_ids =
     concat (map (\<lambda>i. map (\<lambda>m. (i, m)) (live_conversation_messages c i)) (py_sorted_set conversation_ids))"

definition message_in_conversation :: "chat_db \<Rightarrow> uuid \<Rightarrow> message \<Rightarrow> bool" where
  "message_in_conversation c conversation_id m \<longleftrightarrow>
     (\<exists>t\<in>set (turns c). row_id t = ms_turn_id m \<and> tn_conversation_id t = conversation_id)"

definition assert_messages_in_conversation :: "chat_db \<Rightarrow> uuid \<Rightarrow> uuid list \<Rightarrow> unit result" where
  "assert_messages_in_conversation c conversation_id message_ids =
     (let found = map row_id (filter (\<lambda>m. row_id m \<in> set message_ids \<and>
            (\<exists>t\<in>set (live_select (turns c)). row_id t = ms_turn_id m \<and> tn_conversation_id t = conversation_id))
            (live_select (messages c)));
          missing = py_sorted_set (filter (\<lambda>i. i \<notin> set found) message_ids)
      in ensure (missing = [])
           (NotFoundError (Msg ''Messages not found in conversation {}: {}.'' [AId conversation_id, AIds missing])))"

definition image_keys_for_message :: "chat_db \<Rightarrow> uuid \<Rightarrow> string list" where
  "image_keys_for_message c message_id =
     map mi_image_key (sort_key mi_position (filter (\<lambda>x. mi_message_id x = message_id) (message_images c)))"

subsection \<open>The prompt context\<close>

datatype content_part = TextContentPart string | ImageContentPart string
datatype chat_content = PlainText string | Parts "content_part list"

record chat_message =
  cm_role :: string
  cm_content :: chat_content

text \<open>\<open>data_url\<close> is \<open>cached_data_url\<close> of the media store; \<open>None\<close> is its \<open>FileNotFoundError\<close>.\<close>

definition to_chat_message :: "(string \<Rightarrow> string option) \<Rightarrow> message \<Rightarrow> string list \<Rightarrow> string \<Rightarrow> chat_message" where
  "to_chat_message data_url m image_keys content =
     (let parts = (if content = '''' then [] else [TextContentPart content]) @
                  map ImageContentPart (List.map_filter data_url image_keys)
      in \<lparr>cm_role = message_role_value (ms_role m),
          cm_content = (if image_keys = [] \<or> parts = [] then PlainText content else Parts parts)\<rparr>)"

definition in_history :: "chat_db \<Rightarrow> message \<Rightarrow> bool" where
  "in_history c m \<longleftrightarrow> (ms_content m \<noteq> '''' \<or> image_keys_for_message c (row_id m) \<noteq> []) \<and>
     (ms_role m = MR_USER \<or> ms_status m = MS_COMPLETE)"

fun unseal_history ::
  "crypto \<Rightarrow> content_keys \<Rightarrow> (string \<Rightarrow> string option) \<Rightarrow> chat_db \<Rightarrow> message list \<Rightarrow> crypto_error + chat_message list" where
  "unseal_history p keys data_url c [] = Inr []"
| "unseal_history p keys data_url c (m # ms) =
     (case unseal_content p keys (ms_content m) (ms_content_encrypted m) of Inl e \<Rightarrow> Inl e
      | Inr content \<Rightarrow> map_sum id (\<lambda>rest. to_chat_message data_url m (image_keys_for_message c (row_id m)) content # rest)
          (unseal_history p keys data_url c ms))"

definition conversation_history ::
  "crypto \<Rightarrow> content_keys \<Rightarrow> (string \<Rightarrow> string option) \<Rightarrow> chat_db \<Rightarrow> uuid \<Rightarrow> crypto_error + chat_message list" where
  "conversation_history p keys data_url c conversation_id =
     unseal_history p keys data_url c (filter (in_history c) (live_conversation_messages c conversation_id))"

subsection \<open>Opening a turn\<close>

record opened_turn =
  ot_turn :: turn
  ot_messages :: "message list"
  ot_replayed :: bool

definition new_message ::
  "uuid \<Rightarrow> timestamp \<Rightarrow> uuid \<Rightarrow> message_role \<Rightarrow> message_status \<Rightarrow> string \<Rightarrow> bool \<Rightarrow> string option \<Rightarrow> uuid option \<Rightarrow>
     uuid option \<Rightarrow> tag_map \<Rightarrow> message" where
  "new_message i t turn_id role status content encrypted slot client_message_id replaces tags =
     \<lparr>row_id = i, created_at = t, deleted_at = None, deleted_by_id = None, ms_turn_id = turn_id, ms_role = role,
      ms_status = status, ms_content = content, ms_content_encrypted = encrypted, ms_slot = slot,
      ms_client_message_id = client_message_id, ms_replaces_message_id = replaces, ms_extra = [], ms_tags = tags\<rparr>"

definition replay :: "chat_db \<Rightarrow> conversation \<Rightarrow> uuid \<Rightarrow> opened_turn option result" where
  "replay c x client_message_id =
     (case List.find (\<lambda>m. ms_client_message_id m = Some client_message_id) (messages c) of
        None \<Rightarrow> Inr None
      | Some existing \<Rightarrow>
          (case List.find (\<lambda>t. row_id t = ms_turn_id existing \<and> tn_conversation_id t = row_id x) (turns c) of
             None \<Rightarrow> Inl (ConflictError (Msg ''client_message_id {} already used in another conversation.'' [AId client_message_id]))
           | Some t \<Rightarrow> Inr (Some \<lparr>ot_turn = t, ot_messages = live_turn_messages c (row_id t), ot_replayed = True\<rparr>)))"

definition next_turn_index :: "chat_db \<Rightarrow> uuid \<Rightarrow> nat" where
  "next_turn_index c conversation_id =
     (let ts = conversation_turns c conversation_id in if ts = [] then 0 else Max (set (map tn_turn_index ts)) + 1)"

definition attach_images :: "uuid \<Rightarrow> string list \<Rightarrow> message_image list" where
  "attach_images message_id image_keys =
     map (\<lambda>(k, key). \<lparr>mi_message_id = message_id, mi_position = k, mi_image_key = key\<rparr>) (enumerate 0 image_keys)"

definition open_new_turn ::
  "crypto \<Rightarrow> content_keys \<Rightarrow> chat_db \<Rightarrow> conversation \<Rightarrow> string \<Rightarrow> uuid option \<Rightarrow> string list \<Rightarrow> tag_map \<Rightarrow>
     (opened_turn \<times> chat_db) result" where
  "open_new_turn p keys c x content client_message_id image_keys tags =
     (case seal_content p keys (draws c) content (c_content_protected x) of
        Inl _ \<Rightarrow> Inl RuntimeError
      | Inr (stored_content, content_encrypted) \<Rightarrow>
          let t = \<lparr>row_id = fresh c, created_at = clock c, deleted_at = None, deleted_by_id = None,
                   tn_conversation_id = row_id x, tn_turn_index = next_turn_index c (row_id x)\<rparr>;
              user_message = new_message (fresh c + 1) (clock c) (row_id t) MR_USER MS_COMPLETE stored_content
                content_encrypted None client_message_id None tags;
              placeholder = new_message (fresh c + 2) (clock c) (row_id t) MR_ASSISTANT MS_STREAMING '''' False None None None []
          in Inr (\<lparr>ot_turn = t, ot_messages = [user_message, placeholder], ot_replayed = False\<rparr>,
               take_ids 3 (c\<lparr>turns := turns c @ [t], messages := messages c @ [user_message, placeholder],
                 message_images := message_images c @ attach_images (row_id user_message) image_keys,
                 draws := Suc (draws c)\<rparr>)))"

definition open_turn ::
  "crypto \<Rightarrow> content_keys \<Rightarrow> chat_db \<Rightarrow> conversation \<Rightarrow> string \<Rightarrow> uuid option \<Rightarrow> string list \<Rightarrow> tag_map \<Rightarrow>
     (opened_turn \<times> chat_db) result" where
  "open_turn p keys c x content client_message_id image_keys tags =
     bindE (case client_message_id of None \<Rightarrow> Inr None | Some k \<Rightarrow> replay c x k) (\<lambda>replayed.
     case replayed of Some o' \<Rightarrow> Inr (o', c)
     | None \<Rightarrow> open_new_turn p keys c x content client_message_id image_keys tags)"

subsection \<open>Finalizing and superseding\<close>

definition finalize_message ::
  "chat_db \<Rightarrow> uuid \<Rightarrow> string \<Rightarrow> message_status \<Rightarrow> bool \<Rightarrow> (string \<times> json) list option \<Rightarrow> bool \<times> chat_db" where
  "finalize_message c message_id content status encrypted extra =
     (let hit = (\<lambda>m. row_id m = message_id \<and> ms_status m = MS_STREAMING);
          write = (\<lambda>m. m\<lparr>ms_content := content, ms_status := status, ms_content_encrypted := encrypted,
                         ms_extra := set_or (ms_extra m) extra\<rparr>)
      in (list_ex hit (messages c), c\<lparr>messages := map (\<lambda>m. if hit m then write m else m) (messages c)\<rparr>))"

definition conversation_message :: "chat_db \<Rightarrow> conversation \<Rightarrow> uuid \<Rightarrow> message result" where
  "conversation_message c x message_id =
     the_or (NotFoundError (Msg ''Message {} not found in conversation {}.'' [AId message_id, AId (row_id x)]))
       (List.find (\<lambda>m. row_id m = message_id \<and> message_in_conversation c (row_id x) m) (messages c))"

definition turn_index_of :: "chat_db \<Rightarrow> uuid \<Rightarrow> nat option" where
  "turn_index_of c turn_id = map_option tn_turn_index (List.find (\<lambda>t. row_id t = turn_id) (turns c))"

definition open_replacement :: "chat_db \<Rightarrow> conversation \<Rightarrow> uuid \<Rightarrow> ((message \<times> message) \<times> chat_db) result" where
  "open_replacement c x message_id =
     bindE (conversation_message c x message_id) (\<lambda>superseded.
     bindE (ensure (ms_role superseded = MR_ASSISTANT)
       (BadRequestError (Msg ''Message {} is not an assistant reply.'' [AId message_id]))) (\<lambda>_.
     bindE (ensure (turn_index_of c (ms_turn_id superseded) = Some (next_turn_index c (row_id x) - 1))
       (ConflictError (Msg ''Message {} is not in the conversation's last turn; only the latest reply can be regenerated or continued.''
          [AId message_id]))) (\<lambda>_.
     bindE (ensure (\<not> list_ex (\<lambda>m. ms_replaces_message_id m = Some message_id) (messages c))
       (ConflictError (Msg ''Message {} has already been superseded.'' [AId message_id]))) (\<lambda>_.
     let c' = (if ms_status superseded = MS_STREAMING
               then snd (finalize_message c (row_id superseded) (ms_content superseded) MS_INTERRUPTED
                      (ms_content_encrypted superseded) None) else c);
         placeholder = new_message (fresh c) (clock c) (ms_turn_id superseded) MR_ASSISTANT MS_STREAMING '''' False
           (ms_slot superseded) None (Some (row_id superseded)) []
     in Inr ((superseded, placeholder), take_ids 1 (c'\<lparr>messages := messages c' @ [placeholder]\<rparr>))))))"

text \<open>\<open>tasks.py\<close>: \<open>extra || '{"interrupted_by": "reaper"}'\<close> on the placeholders past the time to live.\<close>

definition reap_orphaned_streaming_messages :: "int \<Rightarrow> chat_db \<Rightarrow> nat \<times> chat_db" where
  "reap_orphaned_streaming_messages streaming_reap_ttl_seconds c =
     (let stuck = (\<lambda>m. ms_status m = MS_STREAMING \<and> created_at m < clock c - streaming_reap_ttl_seconds)
      in (length (filter stuck (messages c)),
          c\<lparr>messages := map (\<lambda>m. if stuck m then m\<lparr>ms_status := MS_INTERRUPTED,
                ms_extra := dict_merge (ms_extra m) [(''interrupted_by'', JStr ''reaper'')]\<rparr> else m) (messages c)\<rparr>))"

end
