(* ===== verification/Message_Stream.thy ===== *)
theory Message_Stream
  imports Messages
begin

section \<open>Streaming a reply and persisting it\<close>

text \<open>
  \<open>conversations/streaming.py\<close>, \<open>services/generation.py\<close> and the handlers of \<open>api/v1/messages.py\<close>.  A provider stream is the
  list of chunks it yields and the way it ends: exhausted, a \<open>ProviderError\<close>, or cut (the client left).
  \<open>persist_stream\<close> returns the events the client receives and what Transaction B writes.  A handler is split
  at its commit points: Transaction A, then either settling the placeholder on a failure before the stream or the stream.
\<close>

datatype provider_error =
    ProviderRateLimitError string | ProviderAuthError string | ProviderTimeoutError string
  | ProviderBadRequestError string | ProviderNotFoundError string | ProviderContextWindowError string
  | ProviderUnavailableError string | OtherProviderError string

fun provider_error_text :: "provider_error \<Rightarrow> string" where
  "provider_error_text (ProviderRateLimitError s) = s"
| "provider_error_text (ProviderAuthError s) = s"
| "provider_error_text (ProviderTimeoutError s) = s"
| "provider_error_text (ProviderBadRequestError s) = s"
| "provider_error_text (ProviderNotFoundError s) = s"
| "provider_error_text (ProviderContextWindowError s) = s"
| "provider_error_text (ProviderUnavailableError s) = s"
| "provider_error_text (OtherProviderError s) = s"

fun provider_error_to_status :: "provider_error \<Rightarrow> int \<times> bool" where
  "provider_error_to_status (ProviderRateLimitError _) = (429, True)"
| "provider_error_to_status (ProviderTimeoutError _) = (504, True)"
| "provider_error_to_status (ProviderUnavailableError _) = (502, True)"
| "provider_error_to_status (ProviderContextWindowError _) = (400, False)"
| "provider_error_to_status (ProviderBadRequestError _) = (400, False)"
| "provider_error_to_status (ProviderNotFoundError _) = (400, False)"
| "provider_error_to_status (ProviderAuthError _) = (502, False)"
| "provider_error_to_status (OtherProviderError _) = (502, False)"

text \<open>\<open>HTTPStatus(code).phrase\<close> for the codes the error paths produce.\<close>

definition http_phrase :: "int \<Rightarrow> string" where
  "http_phrase code =
     (if code = 400 then ''Bad Request'' else if code = 404 then ''Not Found''
      else if code = 429 then ''Too Many Requests'' else if code = 500 then ''Internal Server Error''
      else if code = 502 then ''Bad Gateway'' else if code = 504 then ''Gateway Timeout'' else ''Error'')"

text \<open>The first choice of a chunk: its finish reason and content, if any; the usage of the terminal chunk.\<close>

record chunk =
  ck_finish_reason :: "string option"
  ck_content :: "string option"
  ck_usage :: "json option"

datatype stream_close = Exhausted | Failed provider_error | Cut

datatype sse_event =
    SseDelta string
  | SseDone "string option" "json option"
  | SseError string int string bool

fun stream_sse :: "string option \<Rightarrow> json option \<Rightarrow> chunk list \<Rightarrow> stream_close \<Rightarrow> sse_event list" where
  "stream_sse finish_reason usage [] Exhausted = [SseDone finish_reason usage]"
| "stream_sse finish_reason usage [] (Failed e) =
     (let (code, retryable) = provider_error_to_status e
      in [SseError (http_phrase code) code (provider_error_text e) retryable])"
| "stream_sse finish_reason usage [] Cut = []"
| "stream_sse finish_reason usage (ck # cks) fin =
     (case ck_content ck of None \<Rightarrow> [] | Some s \<Rightarrow> if s = '''' then [] else [SseDelta s]) @
     stream_sse (case ck_finish_reason ck of None \<Rightarrow> finish_reason | Some r \<Rightarrow> Some r)
       (case ck_usage ck of None \<Rightarrow> usage | Some u \<Rightarrow> Some u) cks fin"

text \<open>\<open>_drop_nulls\<close>: nulls go, and so does a nested object that empties out.\<close>

fun drop_nulls :: "(string \<times> json) list \<Rightarrow> (string \<times> json) list" where
  "drop_nulls [] = []"
| "drop_nulls ((k, JNull) # kvs) = drop_nulls kvs"
| "drop_nulls ((k, JObj inner) # kvs) =
     (if drop_nulls inner = [] then drop_nulls kvs else (k, JObj (drop_nulls inner)) # drop_nulls kvs)"
| "drop_nulls ((k, v) # kvs) = (k, v) # drop_nulls kvs"

definition MASKED_ERROR_DETAIL :: string where
  "MASKED_ERROR_DETAIL = ''The model could not complete the request.''"

record stream_outcome =
  so_buffer :: "string list"
  so_status :: message_status
  so_extra :: "(string \<times> json) list"

definition error_extra :: "int \<Rightarrow> string \<Rightarrow> bool \<Rightarrow> (string \<times> json) list" where
  "error_extra code title retryable =
     [(''error'', JObj [(''status'', JInt code), (''title'', JStr title), (''retryable'', JBool retryable)])]"

fun json_opt :: "('a \<Rightarrow> json) \<Rightarrow> 'a option \<Rightarrow> json" where
  "json_opt f None = JNull"
| "json_opt f (Some x) = f x"

text \<open>One event: what is forwarded, and the buffer, status and extra after it.\<close>

fun persist_event :: "bool \<Rightarrow> sse_event \<Rightarrow> stream_outcome \<Rightarrow> sse_event \<times> stream_outcome" where
  "persist_event mask_models (SseDelta s) st = (SseDelta s, st\<lparr>so_buffer := so_buffer st @ [s]\<rparr>)"
| "persist_event mask_models (SseDone finish_reason usage) st =
     (SseDone finish_reason usage,
      st\<lparr>so_status := MS_COMPLETE,
         so_extra := drop_nulls [(''finish_reason'', json_opt JStr finish_reason), (''usage'', json_opt id usage)]\<rparr>)"
| "persist_event mask_models (SseError title code detail retryable) st =
     (SseError title code (if mask_models then MASKED_ERROR_DETAIL else detail) retryable,
      st\<lparr>so_status := MS_ERROR, so_extra := error_extra code title retryable\<rparr>)"

fun persist_events :: "bool \<Rightarrow> sse_event list \<Rightarrow> stream_outcome \<Rightarrow> sse_event list \<times> stream_outcome" where
  "persist_events mask_models [] st = ([], st)"
| "persist_events mask_models (e # es) st =
     (let (forwarded, st1) = persist_event mask_models e st; (rest, st2) = persist_events mask_models es st1
      in (forwarded # rest, st2))"

definition stamp_tag_context :: "tag_map \<Rightarrow> string \<Rightarrow> (string \<times> json) list \<Rightarrow> (string \<times> json) list" where
  "stamp_tag_context tag_context prefix extra =
     (if tag_context = [] then extra
      else let stamped = dict_set extra TAG_CONTEXT_EXTRA_KEY (JObj (map (\<lambda>(k, v). (k, JStr v)) tag_context))
           in if prefix = '''' then stamped else dict_set stamped TAG_CONTEXT_PARTIAL_EXTRA_KEY (JBool True))"

definition persist_stream ::
  "bool \<Rightarrow> string \<Rightarrow> tag_map \<Rightarrow> sse_event list \<Rightarrow> sse_event list \<times> string \<times> message_status \<times> (string \<times> json) list" where
  "persist_stream mask_models prefix tag_context events =
     (let (forwarded, st) = persist_events mask_models events
            \<lparr>so_buffer = (if prefix = '''' then [] else [prefix]), so_status = MS_INTERRUPTED, so_extra = []\<rparr>
      in (forwarded, concat (so_buffer st), so_status st, stamp_tag_context tag_context prefix (so_extra st)))"

text \<open>Transaction B: seal what was buffered and finalize; a failure of it is swallowed and leaves the placeholder.\<close>

definition finalize_stream ::
  "crypto \<Rightarrow> content_keys \<Rightarrow> bool \<Rightarrow> chat_db \<Rightarrow> uuid \<Rightarrow> string \<Rightarrow> message_status \<Rightarrow> (string \<times> json) list \<Rightarrow> chat_db" where
  "finalize_stream p keys protected c placeholder_id content status extra =
     (case seal_content p keys (draws c) content protected of
        Inl _ \<Rightarrow> c
      | Inr (stored, encrypted) \<Rightarrow>
          (snd (finalize_message c placeholder_id stored status encrypted (Some extra)))\<lparr>draws := Suc (draws c)\<rparr>)"

definition settle_streaming_error :: "chat_db \<Rightarrow> uuid \<Rightarrow> int \<Rightarrow> bool \<Rightarrow> chat_db" where
  "settle_streaming_error c placeholder_id code retryable =
     snd (finalize_message c placeholder_id '''' MS_ERROR False (Some (error_extra code (http_phrase code) retryable)))"

subsection \<open>Replaying a stored reply\<close>

definition the_reply :: "message list \<Rightarrow> message option" where
  "the_reply ms = List.find (\<lambda>m. ms_role m = MR_ASSISTANT) ms"

fun obj_field :: "string \<Rightarrow> json option \<Rightarrow> json option" where
  "obj_field k (Some (JObj kvs)) = map_of kvs k"
| "obj_field k _ = None"

definition replay_events :: "message list \<Rightarrow> string \<Rightarrow> sse_event list" where
  "replay_events ms content =
     (case the_reply ms of
        None \<Rightarrow> [SseDone (Some ''replayed'') None]
      | Some reply \<Rightarrow>
          (if ms_content reply = '''' then [] else [SseDelta content]) @
          (if ms_status reply = MS_ERROR then
             let stored = map_of (ms_extra reply) ''error'' in
             [SseError (case obj_field ''title'' stored of Some (JStr s) \<Rightarrow> s | _ \<Rightarrow> ''Bad Gateway'')
                (case obj_field ''status'' stored of Some (JInt n) \<Rightarrow> n | _ \<Rightarrow> 502) MASKED_ERROR_DETAIL
                (case obj_field ''retryable'' stored of Some (JBool b) \<Rightarrow> b | _ \<Rightarrow> True)]
           else [SseDone (Some (if ms_status reply = MS_COMPLETE then ''replayed'' else message_status_value (ms_status reply))) None]))"

subsection \<open>The handlers\<close>

definition validate_attachments :: "chat_db \<Rightarrow> string list \<Rightarrow> uuid \<Rightarrow> unit result" where
  "validate_attachments c image_keys caller_id =
     fold (\<lambda>image_key r. bindE r (\<lambda>_.
        case List.find (\<lambda>a. ma_key a = image_key) (live_select (media_assets c)) of
          None \<Rightarrow> Inl (BadRequestError (Msg ''Unknown image_key {}.'' [AStr image_key]))
        | Some asset \<Rightarrow>
            bindE (ensure (ma_created_by_id asset = caller_id)
              (BadRequestError (Msg ''Unknown image_key {}.'' [AStr image_key]))) (\<lambda>_.
            ensure (ma_is_private asset)
              (BadRequestError (Msg ''Attachment {} must be uploaded with is_private=true.'' [AStr image_key])))))
       image_keys (Inr ())"

record user_message_in =
  um_content :: string
  um_client_message_id :: "uuid option"
  um_image_keys :: "string list"
  um_tags :: tag_map

text \<open>\<open>send_message\<close> up to its commit.\<close>

definition send_message ::
  "crypto \<Rightarrow> content_keys \<Rightarrow> chat_db \<Rightarrow> session_user \<Rightarrow> uuid \<Rightarrow> uuid \<Rightarrow> user_message_in \<Rightarrow> (opened_turn \<times> chat_db) result" where
  "send_message p keys c caller evaluation_id conversation_id body =
     bindE (require_conversation_permission CONVERSATIONS_UPDATE c caller evaluation_id) (\<lambda>_.
     bindE (get_conversation c evaluation_id conversation_id (su_id caller) (caller_can_manage_groups caller) False) (\<lambda>x.
     bindE (validate_attachments c (um_image_keys body) (su_id caller)) (\<lambda>_.
     bindE (open_turn p keys c x (um_content body) (um_client_message_id body) (um_image_keys body) (um_tags body)) (\<lambda>(opened, c').
     bindE (if ot_replayed opened then Inr () else assert_tags_allowed (core c') (c_evaluation_id x) (um_tags body)) (\<lambda>_.
     Inr (opened, c'))))))"

text \<open>The reply of an idempotent retry, opened before the stream starts.\<close>

definition replay_reply :: "crypto \<Rightarrow> content_keys \<Rightarrow> chat_db \<Rightarrow> opened_turn \<Rightarrow> sse_event list result" where
  "replay_reply p keys c opened =
     (let ms = live_turn_messages c (row_id (ot_turn opened)) in
      case the_reply ms of
        None \<Rightarrow> Inr (replay_events ms '''')
      | Some stored \<Rightarrow> if ms_content stored = '''' then Inr (replay_events ms '''')
          else (case unseal_content p keys (ms_content stored) (ms_content_encrypted stored) of
                  Inl _ \<Rightarrow> Inl RuntimeError
                | Inr content \<Rightarrow> Inr (replay_events ms content)))"

text \<open>\<open>_superseding_turn\<close>, the Transaction A of regenerate and continue: the conversation, the superseded reply, the placeholder
  and the tags of the prompt.\<close>

definition superseding_turn ::
  "chat_db \<Rightarrow> session_user \<Rightarrow> uuid \<Rightarrow> uuid \<Rightarrow> uuid \<Rightarrow> ((conversation \<times> message \<times> message \<times> tag_map) \<times> chat_db) result" where
  "superseding_turn c caller evaluation_id conversation_id message_id =
     bindE (require_conversation_permission CONVERSATIONS_UPDATE c caller evaluation_id) (\<lambda>_.
     bindE (get_conversation c evaluation_id conversation_id (su_id caller) (caller_can_manage_groups caller) False) (\<lambda>x.
     bindE (open_replacement c x message_id) (\<lambda>((superseded, placeholder), c').
     let prompt = List.find (\<lambda>m. ms_role m = MR_USER) (live_turn_messages c' (ms_turn_id superseded))
     in Inr ((x, superseded, placeholder, case prompt of None \<Rightarrow> [] | Some m \<Rightarrow> ms_tags m), c'))))"

text \<open>\<open>_stream_into\<close> up to the stream.  \<open>target\<close> is the answer of \<open>resolve_dispatch_target\<close> (whether to mask), \<open>dispatch\<close> that of the
  gateway for a history and a system suffix: the provider's stream, or the error that opening it raised.  On a failure the
  placeholder is settled and the error raised.\<close>

record prepared =
  pp_mask :: bool
  pp_prefix :: string
  pp_tags :: tag_map
  pp_chunks :: "chunk list"
  pp_close :: stream_close

definition stream_into ::
  "crypto \<Rightarrow> content_keys \<Rightarrow> (string \<Rightarrow> string option) \<Rightarrow> bool result \<Rightarrow>
     (chat_message list \<Rightarrow> string option \<Rightarrow> provider_error + (chunk list \<times> stream_close)) \<Rightarrow>
     chat_db \<Rightarrow> conversation \<Rightarrow> uuid \<Rightarrow> message option \<Rightarrow> tag_map \<Rightarrow> (error + prepared) \<times> chat_db" where
  "stream_into p keys data_url target dispatch c x placeholder_id prefix_source message_tags =
     (case bindE target (\<lambda>mask_models.
             bindE (allowed_tags_only (core c) (c_evaluation_id x) (dict_merge (c_tags x) message_tags)) (\<lambda>folded.
             Inr (mask_models, fold_tag_context folded))) of
        Inl e \<Rightarrow> (Inl e, settle_streaming_error c placeholder_id (int (status_code e)) False)
      | Inr (mask_models, sent_tags, tag_block) \<Rightarrow>
          (case (conversation_history p keys data_url c (row_id x),
                 case prefix_source of None \<Rightarrow> Inr ''''
                 | Some m \<Rightarrow> unseal_content p keys (ms_content m) (ms_content_encrypted m)) of
             (Inr history, Inr prefix) \<Rightarrow>
               (let history' = (if prefix = '''' then history
                      else history @ [\<lparr>cm_role = ''assistant'', cm_content = PlainText prefix\<rparr>]) in
                case dispatch history' tag_block of
                  Inl pe \<Rightarrow>
                    (let (code, retryable) = provider_error_to_status pe;
                         msg = Msg (if mask_models then MASKED_ERROR_DETAIL else provider_error_text pe) []
                     in (Inl (if code < 500 then BadRequestError msg else BadGatewayError msg),
                         settle_streaming_error c placeholder_id code retryable))
                | Inr (chunks, fin) \<Rightarrow>
                    (Inr \<lparr>pp_mask = mask_models, pp_prefix = prefix, pp_tags = sent_tags, pp_chunks = chunks, pp_close = fin\<rparr>, c))
           | _ \<Rightarrow> (Inl RuntimeError, settle_streaming_error c placeholder_id 500 False)))"

text \<open>The stream itself: the events of the client and the database after a finalize that went through.\<close>

definition run_stream ::
  "crypto \<Rightarrow> content_keys \<Rightarrow> chat_db \<Rightarrow> conversation \<Rightarrow> uuid \<Rightarrow> prepared \<Rightarrow> sse_event list \<times> chat_db" where
  "run_stream p keys c x placeholder_id pr =
     (let (forwarded, content, status, extra) = persist_stream (pp_mask pr) (pp_prefix pr) (pp_tags pr)
            (stream_sse None None (pp_chunks pr) (pp_close pr))
      in (forwarded, finalize_stream p keys (c_content_protected x) c placeholder_id content status extra))"

end
