(* ===== verification/Message_Laws.thy ===== *)
theory Message_Laws
  imports Message_Stream Conversation_Laws "HOL-Library.Multiset"
begin

section \<open>Linear, append-only transcripts\<close>

text \<open>
  The shape of every turn: a complete prompt, a first reply, and then replies each replacing the one before it, all but the
  last of them finished.  \<open>message_step\<close> is one transaction on the write path (or one request on conversations);
  the shape is an invariant of it, and finished messages are never written again.
\<close>

fun linked :: "message \<Rightarrow> message list \<Rightarrow> bool" where
  "linked a [] \<longleftrightarrow> True"
| "linked a (b # rest) \<longleftrightarrow> ms_replaces_message_id b = Some (row_id a) \<and> ms_role b = MR_ASSISTANT \<and>
     ms_status a \<noteq> MS_STREAMING \<and> linked b rest"

fun turn_shape :: "message list \<Rightarrow> bool" where
  "turn_shape (u # a # rest) \<longleftrightarrow> ms_role u = MR_USER \<and> ms_status u = MS_COMPLETE \<and> ms_replaces_message_id u = None \<and>
     ms_role a = MR_ASSISTANT \<and> ms_replaces_message_id a = None \<and> linked a rest"
| "turn_shape _ \<longleftrightarrow> False"

definition replaced_once :: "message list \<Rightarrow> bool" where
  "replaced_once ms \<longleftrightarrow> distinct (List.map_filter ms_replaces_message_id ms)"

definition submitted_once :: "message list \<Rightarrow> bool" where
  "submitted_once ms \<longleftrightarrow> distinct (List.map_filter ms_client_message_id ms)"

definition dense_turns :: "chat_db \<Rightarrow> bool" where
  "dense_turns c \<longleftrightarrow> (\<forall>i. map tn_turn_index (conversation_turns c i) = [0..<length (conversation_turns c i)])"

definition message_inv :: "chat_db \<Rightarrow> bool" where
  "message_inv c \<longleftrightarrow>
     keys_ok (fresh c) (turns c) \<and> keys_ok (fresh c) (messages c) \<and> dense_turns c \<and>
     (\<forall>t\<in>set (turns c). turn_shape (turn_messages c (row_id t))) \<and>
     (\<forall>m\<in>set (messages c). \<exists>t\<in>set (turns c). row_id t = ms_turn_id m) \<and>
     replaced_once (messages c) \<and> submitted_once (messages c)"

inductive message_step :: "crypto \<Rightarrow> content_keys \<Rightarrow> chat_db \<Rightarrow> chat_db \<Rightarrow> bool" for p :: crypto and keys :: content_keys where
  send: "send_message p keys c caller evaluation_id i body = Inr (opened, c') \<Longrightarrow> message_step p keys c c'"
| supersede: "superseding_turn c caller evaluation_id i message_id = Inr (r, c') \<Longrightarrow> message_step p keys c c'"
| settle: "stream_into p keys data_url target dispatch c x placeholder_id prefix_source tags = (out, c') \<Longrightarrow> message_step p keys c c'"
| stream: "run_stream p keys c x placeholder_id pr = (events, c') \<Longrightarrow> message_step p keys c c'"
| reap: "message_step p keys c (snd (reap_orphaned_streaming_messages ttl c))"
| request: "chat_step n c c' \<Longrightarrow> message_step p keys c c'"

subsection \<open>In-place writes touch streaming rows only\<close>

definition touches_streaming :: "(message \<Rightarrow> message) \<Rightarrow> bool" where
  "touches_streaming f \<longleftrightarrow> (\<forall>m. row_id (f m) = row_id m \<and> ms_turn_id (f m) = ms_turn_id m \<and> ms_role (f m) = ms_role m \<and>
     ms_replaces_message_id (f m) = ms_replaces_message_id m \<and> ms_client_message_id (f m) = ms_client_message_id m \<and>
     (ms_status m \<noteq> MS_STREAMING \<longrightarrow> f m = m))"

lemma finalize_touches:
  "\<exists>f. touches_streaming f \<and> snd (finalize_message c i content status enc extra) = c\<lparr>messages := map f (messages c)\<rparr>"
  unfolding finalize_message_def Let_def snd_conv touches_streaming_def
  by (rule exI, rule conjI [rotated], rule refl) simp

lemma reap_touches:
  "\<exists>f. touches_streaming f \<and> snd (reap_orphaned_streaming_messages ttl c) = c\<lparr>messages := map f (messages c)\<rparr>"
  unfolding reap_orphaned_streaming_messages_def Let_def snd_conv touches_streaming_def
  by (rule exI, rule conjI [rotated], rule refl) simp

lemma touchesD:
  assumes "touches_streaming f"
  shows "row_id (f m) = row_id m" "ms_turn_id (f m) = ms_turn_id m" "ms_role (f m) = ms_role m"
    "ms_replaces_message_id (f m) = ms_replaces_message_id m" "ms_client_message_id (f m) = ms_client_message_id m"
    "ms_status m \<noteq> MS_STREAMING \<Longrightarrow> f m = m"
  using assms by (auto simp: touches_streaming_def)

lemma linked_map: "touches_streaming f \<Longrightarrow> linked a rest \<Longrightarrow> linked (f a) (map f rest)"
proof (induction rest arbitrary: a)
  case (Cons b rest)
  then have "f a = a" using touchesD(6) by simp
  with Cons show ?case by (simp add: touchesD)
qed simp

lemma turn_shape_map: "touches_streaming f \<Longrightarrow> turn_shape ms \<Longrightarrow> turn_shape (map f ms)"
  by (cases ms rule: turn_shape.cases) (auto simp: touchesD linked_map dest: touchesD(6))

lemma map_filter_map:
  assumes "\<And>m. k (f m) = k m" shows "List.map_filter k (map f ms) = List.map_filter k ms"
  by (induction ms) (simp_all add: List.map_filter_simps assms split: option.splits)

lemma turn_messages_map: "touches_streaming f \<Longrightarrow> turn_messages (c\<lparr>messages := map f (messages c)\<rparr>) i = map f (turn_messages c i)"
  by (simp add: turn_messages_def filter_map comp_def touchesD)

lemma conversation_turns_cong: "turns c = turns c' \<Longrightarrow> conversation_turns c i = conversation_turns c' i"
  by (simp add: conversation_turns_def)

lemma write_inv: "message_inv c \<Longrightarrow> touches_streaming f \<Longrightarrow> message_inv (c\<lparr>messages := map f (messages c)\<rparr>)"
  by (auto simp: message_inv_def turn_messages_map turn_shape_map replaced_once_def submitted_once_def map_filter_map touchesD
      keys_ok_def comp_def dense_turns_def conversation_turns_def)

text \<open>Nothing here depends on the conversation tables or on the core database, which only hands out more keys.\<close>

lemma message_inv_cong:
  "message_inv c \<Longrightarrow> turns c' = turns c \<Longrightarrow> messages c' = messages c \<Longrightarrow> fresh c \<le> fresh c' \<Longrightarrow> message_inv c'"
  by (auto simp: message_inv_def dense_turns_def conversation_turns_def turn_messages_def intro: keys_ok_mono)

subsection \<open>Opening a turn\<close>

lemma next_turn_index_dense:
  assumes "dense_turns c" shows "next_turn_index c i = length (conversation_turns c i)"
proof (cases "conversation_turns c i = []")
  case False
  then have "Max {0..<length (conversation_turns c i)} = length (conversation_turns c i) - 1"
    by (intro Max_eqI) auto
  then have "Max {0..<length (conversation_turns c i)} + 1 = length (conversation_turns c i)"
    using False by (simp add: length_greater_0_conv [symmetric] del: length_greater_0_conv)
  then show ?thesis
    using False assms by (simp add: next_turn_index_def dense_turns_def Let_def)
qed (simp add: next_turn_index_def Let_def)

lemma no_messages_of_fresh: "message_inv c \<Longrightarrow> fresh c \<le> i \<Longrightarrow> turn_messages c i = []"
  by (fastforce simp: message_inv_def keys_ok_def turn_messages_def filter_empty_conv)

lemma map_filter_append: "List.map_filter k (xs @ ys) = List.map_filter k xs @ List.map_filter k ys"
  by (induction xs) (auto simp: List.map_filter_simps split: option.splits)

lemma in_map_filter: "y \<in> set (List.map_filter k xs) \<longleftrightarrow> (\<exists>x\<in>set xs. k x = Some y)"
  by (induction xs) (auto simp: List.map_filter_simps split: option.splits)

lemma once_same:
  assumes "distinct (List.map_filter k xs)" and "a \<in> set xs" and "b \<in> set xs" and "k a = Some y" and "k b = Some y"
  shows "a = b"
  using assms by (induction xs) (auto simp: List.map_filter_simps in_map_filter split: option.splits)

lemma open_new_turn_inv:
  assumes i: "message_inv c" and r: "open_new_turn p keys c x content k ks tags = Inr (o', c')"
    and new: "\<And>m. k = Some j \<Longrightarrow> m \<in> set (messages c) \<Longrightarrow> ms_client_message_id m \<noteq> Some j" and k: "k = None \<or> k = Some j"
  shows "message_inv c'"
proof -
  from r obtain t u a where tua: "turns c' = turns c @ [t]" "messages c' = messages c @ [u, a]" "fresh c' = fresh c + 3"
    "row_id t = fresh c" "row_id u = fresh c + 1" "row_id a = fresh c + 2" "ms_turn_id u = fresh c" "ms_turn_id a = fresh c"
    "tn_conversation_id t = row_id x" "tn_turn_index t = next_turn_index c (row_id x)"
    "ms_role u = MR_USER" "ms_status u = MS_COMPLETE" "ms_replaces_message_id u = None" "ms_client_message_id u = k"
    "ms_role a = MR_ASSISTANT" "ms_replaces_message_id a = None" "ms_client_message_id a = None"
    by (auto simp: open_new_turn_def new_message_def Let_def split: sum.splits)
  have keys: "keys_ok (fresh c) (turns c)" "keys_ok (fresh c) (messages c)" and dense: "dense_turns c"
    using i by (auto simp: message_inv_def)
  have tm: "turn_messages c' j = (if j = fresh c then [u, a] else turn_messages c j)" for j
    using no_messages_of_fresh [OF i, of "fresh c"] by (auto simp: turn_messages_def tua)
  have ct: "conversation_turns c' j = conversation_turns c j @ (if j = row_id x then [t] else [])" for j
    by (simp add: conversation_turns_def tua)
  have "keys_ok (fresh c') (turns c')" using keys_ok_append [OF keys(1) tua(4)] tua by (auto intro: keys_ok_mono)
  moreover have "keys_ok (fresh c') (messages c')"
    using keys(2) tua by (fastforce simp: keys_ok_def)
  moreover have "dense_turns c'"
    using dense tua(10) next_turn_index_dense [OF dense] by (simp add: dense_turns_def ct)
  moreover have "\<forall>t\<in>set (turns c'). turn_shape (turn_messages c' (row_id t))"
    using i tua by (auto simp: tm message_inv_def)
  moreover have "\<forall>m\<in>set (messages c'). \<exists>t\<in>set (turns c'). row_id t = ms_turn_id m"
    using i tua by (fastforce simp: message_inv_def)
  moreover have "replaced_once (messages c')"
    using i tua by (simp add: message_inv_def replaced_once_def map_filter_append List.map_filter_simps)
  moreover have "submitted_once (messages c')"
    using i tua new k by (auto simp: message_inv_def submitted_once_def map_filter_append List.map_filter_simps in_map_filter)
  ultimately show ?thesis by (simp add: message_inv_def)
qed

lemma replay_None: "replay c x k = Inr None \<Longrightarrow> m \<in> set (messages c) \<Longrightarrow> ms_client_message_id m \<noteq> Some k"
  by (auto simp: replay_def find_None_iff_all split: option.splits)

lemma open_turn_inv:
  assumes i: "message_inv c" and r: "open_turn p keys c x content k ks tags = Inr (o', c')"
  shows "message_inv c'"
proof (cases k)
  case None
  with r have "open_new_turn p keys c x content None ks tags = Inr (o', c')" by (simp add: open_turn_def)
  then show ?thesis by (rule open_new_turn_inv [OF i]) auto
next
  case (Some j)
  with r obtain rep where rep: "replay c x j = Inr rep"
    "(case rep of Some o'' \<Rightarrow> Inr (o'', c) | None \<Rightarrow> open_new_turn p keys c x content k ks tags) = Inr (o', c')"
    by (auto simp: open_turn_def svc_simps)
  show ?thesis
  proof (cases rep)
    case None
    with rep have "open_new_turn p keys c x content k ks tags = Inr (o', c')" by simp
    then show ?thesis by (rule open_new_turn_inv [OF i]) (use replay_None rep(1) None Some in auto)
  qed (use rep i in simp)
qed

subsection \<open>Superseding a reply\<close>

lemma linked_last:
  "linked a rest \<Longrightarrow> b \<in> set (a # rest) \<Longrightarrow> b \<noteq> last (a # rest) \<Longrightarrow> \<exists>s\<in>set rest. ms_replaces_message_id s = Some (row_id b)"
proof (induction rest arbitrary: a)
  case (Cons s rest)
  then show ?case by (cases "b = a") auto
qed simp

lemma linked_snoc:
  "linked a rest \<Longrightarrow> ms_status (last (a # rest)) \<noteq> MS_STREAMING \<Longrightarrow> ms_role s = MR_ASSISTANT \<Longrightarrow>
     ms_replaces_message_id s = Some (row_id (last (a # rest))) \<Longrightarrow> linked a (rest @ [s])"
  by (induction rest arbitrary: a) auto

lemma linked_roles: "linked a rest \<Longrightarrow> ms_role a = MR_ASSISTANT \<Longrightarrow> b \<in> set (a # rest) \<Longrightarrow> ms_role b = MR_ASSISTANT"
  by (induction rest arbitrary: a) auto

lemma linked_streaming: "linked a rest \<Longrightarrow> b \<in> set (a # rest) \<Longrightarrow> ms_status b = MS_STREAMING \<Longrightarrow> b = last (a # rest)"
  by (induction rest arbitrary: a) auto

lemma unreplaced_is_last:
  assumes "turn_shape ms" "m \<in> set ms" "ms_role m = MR_ASSISTANT"
    and "\<And>s. s \<in> set ms \<Longrightarrow> ms_replaces_message_id s \<noteq> Some (row_id m)"
  shows "\<exists>u a rest. ms = u # a # rest \<and> m = last (a # rest)"
proof -
  obtain u a rest where ms: "ms = u # a # rest" using assms(1) by (cases ms rule: turn_shape.cases) auto
  then have "linked a rest" "m \<in> set (a # rest)" using assms(1-3) by auto
  then have "m = last (a # rest)" using linked_last assms(4) ms by (metis list.set_intros(2))
  with ms show ?thesis by blast
qed

lemma open_replacement_inv:
  assumes i: "message_inv c" and r: "open_replacement c x mid = Inr ((old, new), c')"
  shows "message_inv c'"
proof -
  from r have old: "old \<in> set (messages c)" "row_id old = mid" "ms_role old = MR_ASSISTANT"
    and none: "\<And>m. m \<in> set (messages c) \<Longrightarrow> ms_replaces_message_id m \<noteq> Some mid"
    and new: "row_id new = fresh c" "ms_turn_id new = ms_turn_id old" "ms_role new = MR_ASSISTANT"
      "ms_replaces_message_id new = Some mid" "ms_client_message_id new = None"
    and c': "c' = (let c1 = (if ms_status old = MS_STREAMING then snd (finalize_message c (row_id old) (ms_content old) MS_INTERRUPTED
          (ms_content_encrypted old) None) else c) in take_ids 1 (c1\<lparr>messages := messages c1 @ [new]\<rparr>))"
    by (auto simp: open_replacement_def conversation_message_def svc_simps Let_def list_ex_iff new_message_def dest!: find_SomeD)
  define f where "f = (\<lambda>m :: message. if row_id m = mid \<and> ms_status m = MS_STREAMING
      then m\<lparr>ms_content := ms_content old, ms_status := MS_INTERRUPTED, ms_content_encrypted := ms_content_encrypted old\<rparr> else m)"
  define c1 where "c1 = c\<lparr>messages := map f (messages c)\<rparr>"
  have f: "touches_streaming f" by (auto simp: touches_streaming_def f_def)
  have i1: "message_inv c1" using write_inv [OF i f] by (simp add: c1_def)
  have d: "distinct (map row_id (messages c))" using i by (simp add: message_inv_def keys_ok_def)
  have same: "m = old" if "m \<in> set (messages c)" "row_id m = mid" for m
    using distinct_map_same [OF d that(1) old(1)] that(2) old(2) by simp
  have c1_eq: "c1 = (if ms_status old = MS_STREAMING then snd (finalize_message c (row_id old) (ms_content old) MS_INTERRUPTED
          (ms_content_encrypted old) None) else c)"
  proof (cases "ms_status old = MS_STREAMING")
    case True
    then show ?thesis
      by (auto simp: c1_def finalize_message_def Let_def f_def old(2) set_or_def intro!: chat_db.equality map_cong)
  next
    case False
    have "map f (messages c) = messages c"
      by (rule map_idI) (use False same in \<open>auto simp: f_def\<close>)
    with False show ?thesis by (simp add: c1_def)
  qed
  have c'_eq: "c' = take_ids 1 (c1\<lparr>messages := messages c1 @ [new]\<rparr>)" using c' by (simp add: c1_eq Let_def)
  obtain t where t: "t \<in> set (turns c)" "row_id t = ms_turn_id old" using i old(1) by (auto simp: message_inv_def)
  let ?ms = "turn_messages c1 (ms_turn_id old)"
  have sh: "turn_shape ?ms" using i1 t by (auto simp: message_inv_def c1_def)
  have fo: "f old \<in> set ?ms" "ms_role (f old) = MR_ASSISTANT" "ms_status (f old) \<noteq> MS_STREAMING"
    using old f by (auto simp: turn_messages_def c1_def touchesD) (auto simp: f_def split: if_splits)
  have none1: "ms_replaces_message_id m \<noteq> Some (row_id (f old))" if "m \<in> set (messages c1)" for m
    using that none old(2) f by (auto simp: c1_def touchesD)
  then obtain u a rest where ms: "?ms = u # a # rest" "f old = last (a # rest)"
    using unreplaced_is_last [OF sh fo(1,2)] by (auto simp: turn_messages_def)
  have "linked a (rest @ [new])"
    using sh ms fo(3) new old(2) touchesD(1) [OF f, of old] by (intro linked_snoc) auto
  then have shape: "turn_shape (?ms @ [new])" using sh ms(1) by simp
  have keys: "keys_ok (fresh c) (turns c1)" "keys_ok (fresh c) (messages c1)" "fresh c1 = fresh c"
    using i1 by (auto simp: message_inv_def c1_def)
  have tm: "turn_messages c' j = turn_messages c1 j @ (if j = ms_turn_id old then [new] else [])" for j
    using new(2) by (simp add: c'_eq turn_messages_def)
  have "keys_ok (fresh c') (messages c')" using keys_ok_append [OF keys(2), of new] new(1) by (simp add: c'_eq keys(3))
  moreover have "\<forall>t\<in>set (turns c'). turn_shape (turn_messages c' (row_id t))"
    unfolding tm using i1 shape by (auto simp: message_inv_def c'_eq)
  moreover have "\<forall>m\<in>set (messages c'). \<exists>t\<in>set (turns c'). row_id t = ms_turn_id m"
    using i1 new(2) t by (auto simp: message_inv_def c'_eq c1_def)
  moreover have "replaced_once (messages c')"
    using i1 new(4) none1 old(2) touchesD(1) [OF f, of old]
    by (auto simp: message_inv_def replaced_once_def c'_eq map_filter_append List.map_filter_simps in_map_filter)
  moreover have "submitted_once (messages c')"
    using i1 new(5) by (simp add: message_inv_def submitted_once_def c'_eq map_filter_append List.map_filter_simps)
  ultimately show ?thesis
    using i1 keys by (simp add: message_inv_def c'_eq dense_turns_def conversation_turns_def keys_ok_mono)
qed

subsection \<open>One transaction\<close>

text \<open>What a transaction may do to the transcripts: write streaming rows in place and append.\<close>

definition grows :: "chat_db \<Rightarrow> chat_db \<Rightarrow> bool" where
  "grows c c' \<longleftrightarrow> (\<exists>f new. touches_streaming f \<and> messages c' = map f (messages c) @ new) \<and> (\<exists>ts. turns c' = turns c @ ts)"

lemma touches_id: "touches_streaming (\<lambda>m. m)"
  by (simp add: touches_streaming_def)

lemma touches_comp: "touches_streaming f \<Longrightarrow> touches_streaming g \<Longrightarrow> touches_streaming (\<lambda>m. g (f m))"
  by (simp add: touches_streaming_def)

lemma growsI: "touches_streaming f \<Longrightarrow> messages c' = map f (messages c) @ new \<Longrightarrow> turns c' = turns c @ ts \<Longrightarrow> grows c c'"
  by (auto simp: grows_def)

lemma grows_same: "messages c' = messages c \<Longrightarrow> turns c' = turns c \<Longrightarrow> grows c c'"
  by (rule growsI [of "\<lambda>m. m" _ _ "[]" "[]"]) (simp_all add: touches_id)

lemma grows_trans:
  assumes "grows a b" and "grows b c" shows "grows a c"
proof -
  obtain f new ts where 1: "touches_streaming f" "messages b = map f (messages a) @ new" "turns b = turns a @ ts"
    using assms(1) unfolding grows_def by (elim conjE exE)
  obtain g new' ts' where 2: "touches_streaming g" "messages c = map g (messages b) @ new'" "turns c = turns b @ ts'"
    using assms(2) unfolding grows_def by (elim conjE exE)
  from 1 2 show ?thesis
    by (intro growsI [OF touches_comp [OF 1(1) 2(1)], of c a "map g new @ new'" "ts @ ts'"]) simp_all
qed

lemma write_grows: "touches_streaming f \<Longrightarrow> grows c (c\<lparr>messages := map f (messages c)\<rparr>)"
  by (rule growsI [of f _ _ "[]" "[]"]) simp_all

lemma open_turn_grows: "open_turn p keys c x content k ks tags = Inr (o', c') \<Longrightarrow> grows c c'"
  by (auto simp: open_turn_def open_new_turn_def svc_simps Let_def split: option.splits sum.splits
      intro: grows_same growsI [OF touches_id])

lemma open_replacement_grows:
  assumes "open_replacement c x mid = Inr (r, c')" shows "grows c c'"
proof -
  obtain sup new where sn: "r = (sup, new)" by (cases r)
  have c': "c' = (let c1 = (if ms_status sup = MS_STREAMING
      then snd (finalize_message c (row_id sup) (ms_content sup) MS_INTERRUPTED (ms_content_encrypted sup) None) else c)
    in take_ids 1 (c1\<lparr>messages := messages c1 @ [new]\<rparr>))"
    using assms by (auto simp: sn open_replacement_def svc_simps Let_def)
  obtain f where f: "touches_streaming f"
    "snd (finalize_message c (row_id sup) (ms_content sup) MS_INTERRUPTED (ms_content_encrypted sup) None) =
       c\<lparr>messages := map f (messages c)\<rparr>"
    using finalize_touches by blast
  show ?thesis
  proof (cases "ms_status sup = MS_STREAMING")
    case True
    then show ?thesis using f by (intro growsI [of f _ _ "[new]" "[]"]) (simp_all add: c')
  next
    case False
    then show ?thesis using touches_id by (intro growsI [of "\<lambda>m. m" _ _ "[new]" "[]"]) (simp_all add: c')
  qed
qed

text \<open>The finalizing transactions are an in-place write, and possibly a call of the random source.\<close>

definition in_place :: "chat_db \<Rightarrow> chat_db \<Rightarrow> bool" where
  "in_place c c' \<longleftrightarrow> (\<exists>f. touches_streaming f \<and> messages c' = map f (messages c)) \<and> turns c' = turns c \<and> core c' = core c"

lemma in_placeI: "touches_streaming f \<Longrightarrow> messages c' = map f (messages c) \<Longrightarrow> turns c' = turns c \<Longrightarrow> core c' = core c \<Longrightarrow> in_place c c'"
  by (auto simp: in_place_def)

lemma in_place_refl: "in_place c c"
  by (rule in_placeI [OF touches_id]) simp_all

lemma in_place_grows: "in_place c c' \<Longrightarrow> grows c c'"
  by (auto simp: in_place_def intro: growsI [of _ _ _ "[]" "[]"])

lemma in_place_inv: 
  assumes "message_inv c" and "in_place c c'" shows "message_inv c'"
proof -
  obtain f where f: "touches_streaming f" "messages c' = map f (messages c)" "turns c' = turns c" "core c' = core c"
    using assms(2) unfolding in_place_def by (elim conjE exE)
  show ?thesis by (rule message_inv_cong [OF write_inv [OF assms(1) f(1)]]) (simp_all add: f)
qed

lemma finalize_in_place: "in_place c (snd (finalize_message c i content status enc extra))"
proof -
  obtain f where f: "touches_streaming f" "snd (finalize_message c i content status enc extra) = c\<lparr>messages := map f (messages c)\<rparr>"
    using finalize_touches by blast
  then show ?thesis by (intro in_placeI [of f]) simp_all
qed

lemma reap_in_place: "in_place c (snd (reap_orphaned_streaming_messages ttl c))"
proof -
  obtain f where f: "touches_streaming f" "snd (reap_orphaned_streaming_messages ttl c) = c\<lparr>messages := map f (messages c)\<rparr>"
    using reap_touches by blast
  then show ?thesis by (intro in_placeI [of f]) simp_all
qed

lemma finalize_stream_in_place: "in_place c (finalize_stream p keys protected c i content status extra)"
proof (cases "seal_content p keys (draws c) content protected")
  case (Inr r)
  have "in_place c' (c'\<lparr>draws := n\<rparr>)" for c' :: chat_db and n
    by (rule in_placeI [OF touches_id]) simp_all
  moreover have "in_place c (b\<lparr>draws := n\<rparr>)" if "in_place c b" for b n
    using that by (auto simp: in_place_def)
  ultimately show ?thesis using Inr by (simp add: finalize_stream_def case_prod_beta finalize_in_place)
qed (simp add: finalize_stream_def in_place_refl)

lemma stream_into_in_place:
  "stream_into p keys data_url target dispatch c x i prefix_source tags = (out, c') \<Longrightarrow> in_place c c'"
  by (auto simp: stream_into_def settle_streaming_error_def Let_def case_prod_beta finalize_in_place in_place_refl
      split: sum.splits)

lemma run_stream_in_place: "run_stream p keys c x i pr = (events, c') \<Longrightarrow> in_place c c'"
  by (auto simp: run_stream_def Let_def case_prod_beta finalize_stream_in_place)

text \<open>Requests on conversations and other components leave the transcripts alone.\<close>

definition untouched :: "chat_db \<Rightarrow> chat_db \<Rightarrow> bool" where
  "untouched c c' \<longleftrightarrow> turns c' = turns c \<and> messages c' = messages c \<and> fresh c \<le> fresh c'"

lemma unassign_next_id [simp]:
  "next_id (snd (unassign_models_for_model d m u)) = next_id d" "next_id (snd (unassign_group_models_for_model d m u)) = next_id d"
  "next_id (snd (soft_delete_assignment d a u)) = next_id d" "next_id d \<le> next_id (record_audit d i j k l n o' p)"
  by (simp_all add: unassign_models_for_model_def unassign_group_models_for_model_def soft_delete_assignment_def Let_def
      record_audit_def)

lemmas conversation_writes =
  create_conversation_group_def rename_conversation_group_def soft_delete_conversation_group_def create_conversation_def
  update_conversation_def soft_delete_conversation_def restore_conversation_def soft_delete_conversations_for_assignment_def
  soft_delete_conversations_for_model_def soft_delete_conversations_of_def save_conversation_def audit_tags_def

lemmas conversation_routes =
  create_conversation_group_endpoint_def update_conversation_group_endpoint_def delete_conversation_group_endpoint_def
  create_conversation_endpoint_def update_conversation_endpoint_def delete_conversation_endpoint_def
  restore_conversation_endpoint_def unassign_model_endpoint_def delete_model_endpoint_def

lemma chat_step_untouched: "chat_step n c c' \<Longrightarrow> untouched c c'"
  by (cases rule: chat_step.cases, assumption)
    (auto simp: untouched_def conversation_routes conversation_writes svc_simps Let_def case_prod_beta keeps_assignments_def
      split: if_splits)

subsection \<open>Every transaction keeps the shape\<close>

lemma send_open: "send_message p keys c caller e i body = Inr (opened, c') \<Longrightarrow>
  \<exists>x. open_turn p keys c x (um_content body) (um_client_message_id body) (um_image_keys body) (um_tags body) = Inr (opened, c')"
  by (auto simp: send_message_def svc_simps split: if_splits)

lemma superseding_open: "superseding_turn c caller e i mid = Inr (r, c') \<Longrightarrow>
  \<exists>x sup new. open_replacement c x mid = Inr ((sup, new), c')"
  by (auto simp: superseding_turn_def svc_simps Let_def)

lemma message_step_inv: "message_step p keys c c' \<Longrightarrow> message_inv c \<Longrightarrow> message_inv c'"
proof (induction rule: message_step.induct)
  case send
  then show ?case using send_open open_turn_inv by blast
next
  case supersede
  then show ?case using superseding_open open_replacement_inv by blast
next
  case settle
  then show ?case using stream_into_in_place in_place_inv by blast
next
  case stream
  then show ?case using run_stream_in_place in_place_inv by blast
next
  case reap
  then show ?case using reap_in_place in_place_inv by blast
next
  case request
  then show ?case using chat_step_untouched message_inv_cong by (auto simp: untouched_def)
qed

lemma message_step_grows: "message_step p keys c c' \<Longrightarrow> grows c c'"
proof (induction rule: message_step.induct)
  case send
  then show ?case using send_open open_turn_grows by blast
next
  case supersede
  then show ?case using superseding_open open_replacement_grows by blast
next
  case settle
  then show ?case using stream_into_in_place in_place_grows by blast
next
  case stream
  then show ?case using run_stream_in_place in_place_grows by blast
next
  case reap
  then show ?case using reap_in_place in_place_grows by blast
next
  case request
  then show ?case using chat_step_untouched grows_same by (auto simp: untouched_def)
qed

interpretation transcripts: step_invariant "message_step p keys" message_inv
  by unfold_locales (rule message_step_inv)

lemma steps_grow: "(message_step p keys)\<^sup>*\<^sup>* c c' \<Longrightarrow> grows c c'"
proof (induction rule: rtranclp_induct)
  case base
  show ?case by (rule grows_same) simp_all
next
  case (step b c')
  then show ?case using message_step_grows grows_trans by blast
qed

lemma message_inv_start: "turns c = [] \<Longrightarrow> messages c = [] \<Longrightarrow> message_inv c"
  by (simp add: message_inv_def keys_ok_def dense_turns_def conversation_turns_def replaced_once_def submitted_once_def
      List.map_filter_simps)

lemma message_inv_reachable:
  "(message_step p keys)\<^sup>*\<^sup>* c0 c \<Longrightarrow> turns c0 = [] \<Longrightarrow> messages c0 = [] \<Longrightarrow> message_inv c"
  using transcripts.reachable_keeps message_inv_start by blast

subsection \<open>What a reader sees\<close>

lemma superseded_ids_linked: "linked a rest \<Longrightarrow> superseded_ids rest = map row_id (butlast (a # rest))"
proof (induction rest arbitrary: a)
  case (Cons b rest)
  then have "superseded_ids rest = map row_id (butlast (b # rest))" by simp
  with Cons.prems show ?case by (simp add: superseded_ids_def List.map_filter_simps)
qed (simp add: superseded_ids_def List.map_filter_simps)

lemma message_order_pair:
  "ms_role u = MR_USER \<Longrightarrow> ms_role r = MR_ASSISTANT \<Longrightarrow> message_order [u, r] = [u, r]"
  by (simp add: message_order_def sort_key_def insort_key.simps)

lemma live_turn_pair:
  assumes "turn_messages c i = u # a # rest" and "turn_shape (u # a # rest)" and "distinct (map row_id (u # a # rest))"
  shows "live_turn_messages c i = [u, last (a # rest)]"
proof -
  obtain old r where split: "a # rest = old @ [r]" by (metis append_butlast_last_id list.distinct(1))
  have r: "r \<in> set (a # rest)" "butlast (a # rest) = old" "last (a # rest) = r" unfolding split by simp_all
  have l: "linked a rest" and u: "ms_role u = MR_USER" and a: "ms_role a = MR_ASSISTANT"
    and unset: "ms_replaces_message_id u = None" "ms_replaces_message_id a = None"
    using assms(2) by simp_all
  have "superseded_ids (u # a # rest) = superseded_ids rest"
    using unset by (simp add: superseded_ids_def List.map_filter_simps)
  then have s: "superseded_ids (u # a # rest) = map row_id old" using superseded_ids_linked [OF l] r(2) by simp
  have "distinct (map row_id (u # old @ [r]))" using assms(3) unfolding split .
  then have "filter (\<lambda>m. row_id m \<notin> set (map row_id old)) (u # old @ [r]) = [u, r]"
    by (auto simp: filter_empty_conv)
  then have "filter (\<lambda>m. row_id m \<notin> set (superseded_ids (turn_messages c i))) (turn_messages c i) = [u, r]"
    unfolding assms(1) s unfolding split .
  then show ?thesis
    using message_order_pair [OF u linked_roles [OF l a r(1)]] by (simp only: live_turn_messages_def Let_def r(3))
qed

text \<open>C4: Starting from a platform without messages, after any sequence of sends, regenerations, continuations, streams (whatever
  the provider answers), settled failures, reaper sweeps and requests on conversations: the turns of every conversation
  are numbered 0, 1, 2 and so on; a reader of a turn always sees exactly two messages, a complete prompt and one reply;
  every other message of the turn is a finished reply; and no two messages carry the same client_message_id.\<close>

theorem transcripts_linear:
  assumes "(message_step p keys)\<^sup>*\<^sup>* c0 c" and "turns c0 = []" and "messages c0 = []"
  shows "(\<forall>i. map tn_turn_index (conversation_turns c i) = [0..<length (conversation_turns c i)]) \<and>
    (\<forall>t\<in>set (turns c). \<exists>u r. live_turn_messages c (row_id t) = [u, r] \<and> ms_role u = MR_USER \<and> ms_status u = MS_COMPLETE \<and>
       ms_role r = MR_ASSISTANT \<and> (\<forall>m\<in>set (turn_messages c (row_id t)). m = u \<or> m = r \<or>
         ms_role m = MR_ASSISTANT \<and> ms_status m \<noteq> MS_STREAMING)) \<and>
    submitted_once (messages c)"
proof -
  have i: "message_inv c" using message_inv_reachable [OF assms] .
  have "\<exists>u r. live_turn_messages c (row_id t) = [u, r] \<and> ms_role u = MR_USER \<and> ms_status u = MS_COMPLETE \<and>
       ms_role r = MR_ASSISTANT \<and> (\<forall>m\<in>set (turn_messages c (row_id t)). m = u \<or> m = r \<or>
         ms_role m = MR_ASSISTANT \<and> ms_status m \<noteq> MS_STREAMING)" if t: "t \<in> set (turns c)" for t
  proof -
    have sh: "turn_shape (turn_messages c (row_id t))" using i t by (simp add: message_inv_def)
    then obtain u a rest where ms: "turn_messages c (row_id t) = u # a # rest"
      by (cases "turn_messages c (row_id t)" rule: turn_shape.cases) auto
    have "distinct (map row_id (turn_messages c (row_id t)))"
      using i by (simp add: message_inv_def keys_ok_def turn_messages_def distinct_map_filter)
    then have live: "live_turn_messages c (row_id t) = [u, last (a # rest)]"
      using live_turn_pair [OF ms] sh unfolding ms by blast
    have l: "linked a rest" "ms_role a = MR_ASSISTANT" "ms_role u = MR_USER" "ms_status u = MS_COMPLETE"
      using sh by (simp_all add: ms)
    have "ms_role (last (a # rest)) = MR_ASSISTANT" by (rule linked_roles [OF l(1,2)], rule last_in_set) simp
    moreover have "m = u \<or> m = last (a # rest) \<or> ms_role m = MR_ASSISTANT \<and> ms_status m \<noteq> MS_STREAMING"
      if "m \<in> set (u # a # rest)" for m
      using that linked_roles [OF l(1,2)] linked_streaming [OF l(1)] by (metis set_ConsD)
    ultimately show ?thesis using live l(3,4) unfolding ms by blast
  qed
  then show ?thesis using i by (auto simp: message_inv_def dense_turns_def)
qed

text \<open>C29: Transcripts are append-only: whatever happens later, a finished message (a prompt, or a reply that is complete,
  interrupted or failed) stays in its place with its text, status and metadata unchanged, a message never changes its
  turn, role or predecessor, and the turns opened so far stay as they are.\<close>

theorem transcripts_append_only:
  assumes "(message_step p keys)\<^sup>*\<^sup>* c c'" and "k < length (messages c)" and "m = messages c ! k" and "m' = messages c' ! k"
  shows "k < length (messages c') \<and> (ms_status m \<noteq> MS_STREAMING \<longrightarrow> m' = m) \<and> row_id m' = row_id m \<and>
    ms_turn_id m' = ms_turn_id m \<and> ms_role m' = ms_role m \<and> ms_replaces_message_id m' = ms_replaces_message_id m \<and>
    ms_client_message_id m' = ms_client_message_id m \<and> take (length (turns c)) (turns c') = turns c"
proof -
  obtain f new ts where f: "touches_streaming f" and e: "messages c' = map f (messages c) @ new" "turns c' = turns c @ ts"
    using steps_grow [OF assms(1)] unfolding grows_def by (elim conjE exE)
  have "m' = f m" using assms(2-4) by (simp add: e(1) nth_append)
  then show ?thesis using assms(2) touchesD [OF f, of m] by (simp add: e)
qed


end
