(* ===== verification/Stream_Laws.thy ===== *)
theory Stream_Laws
  imports Message_Stream
begin

section \<open>What is stored is what was streamed\<close>

text \<open>
  The event pipeline of a reply: \<open>stream_sse\<close> turns the provider's chunks into events, \<open>persist_stream\<close> forwards them
  to the client while it buffers the text, and the finalize seals the buffer.  The text a reader opens later is the text the
  client was shown, whatever way the stream ended.
\<close>

fun sse_text :: "sse_event \<Rightarrow> string" where
  "sse_text (SseDelta s) = s"
| "sse_text _ = ''''"

definition streamed_text :: "sse_event list \<Rightarrow> string" where
  "streamed_text events = concat (map sse_text events)"

fun close_status :: "stream_close \<Rightarrow> message_status" where
  "close_status Exhausted = MS_COMPLETE"
| "close_status (Failed e) = MS_ERROR"
| "close_status Cut = MS_INTERRUPTED"

fun is_terminal :: "sse_event \<Rightarrow> bool" where
  "is_terminal (SseDelta s) \<longleftrightarrow> False"
| "is_terminal _ \<longleftrightarrow> True"

text \<open>Text of an event that the mask leaves visible: the detail of an error never is the provider's.\<close>

fun masked_event :: "sse_event \<Rightarrow> bool" where
  "masked_event (SseError title code detail retryable) \<longleftrightarrow> detail = MASKED_ERROR_DETAIL"
| "masked_event _ \<longleftrightarrow> True"

lemma streamed_simps [simp]:
  "streamed_text [] = ''''" "streamed_text (e # es) = sse_text e @ streamed_text es"
  "streamed_text (es @ es') = streamed_text es @ streamed_text es'"
  by (simp_all add: streamed_text_def)

lemma persist_event_simps [simp]:
  "sse_text (fst (persist_event mask_models e st)) = sse_text e"
  "is_terminal (fst (persist_event mask_models e st)) = is_terminal e"
  "mask_models \<Longrightarrow> masked_event (fst (persist_event mask_models e st))"
  "concat (so_buffer (snd (persist_event mask_models e st))) = concat (so_buffer st) @ sse_text e"
  by (cases e; simp)+

lemma persist_events_simps [simp]:
  "streamed_text (fst (persist_events mask_models es st)) = streamed_text es"
  "map is_terminal (fst (persist_events mask_models es st)) = map is_terminal es"
  "mask_models \<Longrightarrow> list_all masked_event (fst (persist_events mask_models es st))"
  "concat (so_buffer (snd (persist_events mask_models es st))) = concat (so_buffer st) @ streamed_text es"
  by (induction es arbitrary: st) (simp_all add: case_prod_beta Let_def)

lemma persist_events_append:
  "snd (persist_events mask_models (es @ es') st) = snd (persist_events mask_models es' (snd (persist_events mask_models es st)))"
  by (induction es arbitrary: st) (simp_all add: case_prod_beta Let_def)

lemma stream_status:
  "so_status (snd (persist_events mask_models (stream_sse fr us cks fin) st)) =
     (if fin = Cut then so_status st else close_status fin)"
proof (induction cks arbitrary: fr us st)
  case Nil
  then show ?case by (cases fin) (simp_all add: Let_def case_prod_beta)
next
  case (Cons ck cks)
  then show ?case by (simp add: persist_events_append Let_def case_prod_beta split: option.splits)
qed

text \<open>Nothing follows a terminal event, and a stream that is not cut has one.\<close>

lemma stream_terminal:
  "\<exists>k. map is_terminal (stream_sse fr us cks fin) = replicate k False @ (if fin = Cut then [] else [True])"
proof (induction cks arbitrary: fr us)
  case Nil
  then show ?case by (cases fin) (simp_all add: Let_def case_prod_beta exI [of _ 0])
next
  case (Cons ck cks)
  define fr' where "fr' = (case ck_finish_reason ck of None \<Rightarrow> fr | Some r \<Rightarrow> Some r)"
  define us' where "us' = (case ck_usage ck of None \<Rightarrow> us | Some u \<Rightarrow> Some u)"
  obtain k where k: "map is_terminal (stream_sse fr' us' cks fin) = replicate k False @ (if fin = Cut then [] else [True])"
    using Cons by blast
  show ?case
  proof (cases "ck_content ck = None \<or> ck_content ck = Some []")
    case True
    then show ?thesis using k by (auto simp: fr'_def us'_def)
  next
    case False
    then have "map is_terminal (stream_sse fr us (ck # cks) fin) = replicate (Suc k) False @ (if fin = Cut then [] else [True])"
      using k by (auto simp: fr'_def us'_def)
    then show ?thesis ..
  qed
qed

lemma seal_active:
  assumes "active_kid p keys = Inr kid" shows "\<exists>stored enc. seal_content p keys draw text_in protected = Inr (stored, enc)"
  using assms by (cases "keyring p keys") (auto simp: active_kid_def seal_content_def Let_def)


end
