(* ===== verification/Tag_Laws.thy ===== *)
theory Tag_Laws
  imports Tag_Policy
begin

section \<open>Tags cannot break out of their line, and the reader is told the truth\<close>

text \<open>
  Tag values are free text of a participant that ends up in the system message of a request.  Sanitising keeps each
  pair on one line; the policy decides which pairs are sent; \<open>unsent\<close>, which a reader sees, agrees with what was sent.
\<close>

definition printable :: "string \<Rightarrow> bool" where
  "printable s \<longleftrightarrow> list_all (\<lambda>ch. \<not> is_control ch) s"

lemma printable_simps [simp]:
  "printable ''''" "printable (ch # s) \<longleftrightarrow> \<not> is_control ch \<and> printable s"
  "printable (s @ s') \<longleftrightarrow> printable s \<and> printable s'" "printable (rev s) \<longleftrightarrow> printable s"
  by (auto simp: printable_def list_all_iff)

lemma printable_words:
  "list_all (\<lambda>ch. py_isspace ch \<or> \<not> is_control ch) s \<Longrightarrow> printable w \<Longrightarrow> list_all printable (py_words w s)"
  by (induction w s rule: py_words.induct) auto

lemma printable_join: "list_all printable xs \<Longrightarrow> printable sep \<Longrightarrow> printable (py_join sep xs)"
  by (induction sep xs rule: py_join.induct) auto

lemma sanitise_printable: "printable (sanitise_single_line s)"
  unfolding sanitise_single_line_def
  by (intro printable_join printable_words) (auto simp: list_all_iff is_control_def Let_def)

lemma py_words_unbroken: "list_all (\<lambda>ch. \<not> py_isspace ch) s \<Longrightarrow> w @ s \<noteq> [] \<Longrightarrow> py_words w s = [rev w @ s]"
  by (induction w s rule: py_words.induct) auto

lemma py_words_plain:
  "list_all (\<lambda>ch. \<not> py_isspace ch) w \<Longrightarrow> list_all (\<lambda>x. x \<noteq> [] \<and> list_all (\<lambda>ch. \<not> py_isspace ch) x) (py_words w s)"
  by (induction w s rule: py_words.induct) auto

lemma py_words_word:
  "list_all (\<lambda>ch. \<not> py_isspace ch) x \<Longrightarrow> py_isspace sp \<Longrightarrow> w @ x \<noteq> [] \<Longrightarrow>
     py_words w (x @ sp # s) = (rev w @ x) # py_words [] s"
  by (induction x arbitrary: w) auto

lemma py_words_join:
  "list_all (\<lambda>x. x \<noteq> [] \<and> list_all (\<lambda>ch. \<not> py_isspace ch) x) xs \<Longrightarrow> py_words [] (py_join '' '' xs) = xs"
proof (induction "'' ''" xs rule: py_join.induct)
  case (2 x)
  then show ?case by (simp add: py_words_unbroken)
next
  case (3 x y xs)
  then show ?case using py_words_word [of x "CHR '' ''" "[]"] by (simp add: py_isspace_def Let_def)
qed simp

text \<open>Cleaning a clean line changes nothing.\<close>

lemma sanitise_idem: "sanitise_single_line (sanitise_single_line s) = sanitise_single_line s"
proof -
  let ?c = "sanitise_single_line s"
  have "filter (\<lambda>ch. py_isspace ch \<or> \<not> is_control ch) ?c = ?c"
    using sanitise_printable [of s] by (auto simp: printable_def list_all_iff intro: filter_True)
  then have "sanitise_single_line ?c = py_join '' '' (py_words [] ?c)" by (simp add: sanitise_single_line_def)
  also have "py_words [] ?c = py_words [] (filter (\<lambda>ch. py_isspace ch \<or> \<not> is_control ch) s)"
    unfolding sanitise_single_line_def by (rule py_words_join) (rule py_words_plain, simp)
  finally show ?thesis by (simp add: sanitise_single_line_def)
qed

lemma tag_char_plain: "is_tag_char ch \<Longrightarrow> \<not> py_isspace ch \<and> \<not> is_control ch"
  by (auto simp: is_tag_char_def py_isspace_def is_control_def Let_def)

text \<open>A valid tag key is sent as it is.\<close>

lemma sanitise_tag_key: "is_valid_tag_key k \<Longrightarrow> sanitise_single_line k = k"
proof -
  assume k: "is_valid_tag_key k"
  then have "list_all (\<lambda>ch. \<not> py_isspace ch) k" "k \<noteq> []" "filter (\<lambda>ch. py_isspace ch \<or> \<not> is_control ch) k = k"
    using tag_char_plain by (auto simp: is_valid_tag_key_def list_all_iff intro: filter_True)
  then show ?thesis by (simp add: sanitise_single_line_def py_words_unbroken)
qed

lemma keys_dict_set [simp]: "fst ` set (dict_set xs k v) = insert k (fst ` set xs)"
proof -
  have "fst ` set (dict_merge xs [(k, v)]) = dom (map_of (dict_merge xs [(k, v)]))" by (simp only: dom_map_of_conv_image_fst)
  also have "\<dots> = insert k (dom (map_of xs))" by (auto simp: dom_def split: option.splits if_splits)
  finally show ?thesis by (simp only: dict_set_def dom_map_of_conv_image_fst)
qed

lemma fold_keys:
  "fst ` set (fold (\<lambda>(k, v) sent. let value = sanitise_single_line v
       in if value = '''' then sent else dict_set sent (sanitise_single_line k) value) tags acc) =
     fst ` set acc \<union> {sanitise_single_line k | k v. (k, v) \<in> set tags \<and> sanitise_single_line v \<noteq> ''''}"
proof (induction tags arbitrary: acc)
  case (Cons kv tags)
  then show ?case by (cases kv) (auto simp: Let_def)
qed simp

lemma sent_keys: "fst ` set (sent_tag_context tags) = {sanitise_single_line k | k v. (k, v) \<in> set tags \<and> sanitise_single_line v \<noteq> ''''}"
  unfolding sent_tag_context_def fold_keys by simp

lemma dict_set_all: "list_all (\<lambda>(k, v). Q k \<and> R v) xs \<Longrightarrow> Q k \<Longrightarrow> R v \<Longrightarrow> list_all (\<lambda>(k, v). Q k \<and> R v) (dict_set xs k v)"
  by (auto simp: dict_set_def dict_merge_def list_all_iff split: option.splits if_splits)

lemma sent_printable: "list_all (\<lambda>(k, v). printable k \<and> printable v) (sent_tag_context tags)"
proof -
  have "list_all (\<lambda>(k, v). printable k \<and> printable v) (fold (\<lambda>(k, v) sent. let value = sanitise_single_line v
       in if value = '''' then sent else dict_set sent (sanitise_single_line k) value) ts acc)"
    if "list_all (\<lambda>(k, v). printable k \<and> printable v) acc" for ts :: tag_map and acc
    using that
  proof (induction ts arbitrary: acc)
    case (Cons kv ts)
    then show ?case by (cases kv) (simp add: Let_def dict_set_all sanitise_printable)
  qed simp
  then show ?thesis by (simp add: sent_tag_context_def)
qed

text \<open>C39: Whatever tags reach a request, the block folded into the system message is the preamble followed by one line per pair
  sent, and no line holds a line break or another control character: a tag value cannot add lines to the prompt.\<close>

theorem tag_block_one_line_each:
  "fold_tag_context tags = (sent, block) \<Longrightarrow>
     (block = None \<longleftrightarrow> sent = []) \<and>
     (\<forall>s. block = Some s \<longrightarrow> (\<exists>lines. s = py_join [CHR 0x0A] (TAG_CONTEXT_PREAMBLE # lines) \<and>
        lines = map (\<lambda>(k, v). k @ '': '' @ v) sent \<and> list_all printable lines))"
proof -
  assume "fold_tag_context tags = (sent, block)"
  then have s: "sent = sent_tag_context tags" "block = (if sent = [] then None else Some (render_pairs sent))"
    by (auto simp: fold_tag_context_def Let_def)
  have "list_all printable (map (\<lambda>(k, v). k @ '': '' @ v) sent)"
    using sent_printable [of tags] by (auto simp: s(1) list_all_iff is_control_def)
  with s(2) show ?thesis by (auto simp: render_pairs_def)
qed

lemma kept_filter:
  assumes "load_tag_fold_policy d e = Inr p" and "allowed_tags_only d e tags = Inr kept"
  shows "kept = filter (\<lambda>(k, v). fp_enabled p \<and> (fp_restricted p \<longrightarrow> k \<in> set (fp_allowed p))) tags"
proof (cases "tags = []")
  case False
  obtain enabled restricted where t: "tagging_policy d e = Inr (enabled, restricted)"
    using assms(1) by (auto simp: load_tag_fold_policy_def svc_simps)
  with assms False show ?thesis
    by (cases enabled; cases restricted) (auto simp: load_tag_fold_policy_def allowed_tags_only_def svc_simps)
qed (use assms in \<open>simp add: allowed_tags_only_def\<close>)

lemma kept_keys:
  assumes "load_tag_fold_policy d e = Inr p" and "allowed_tags_only d e tags = Inr kept"
  shows "(k, v) \<in> set kept \<longleftrightarrow> (k, v) \<in> set tags \<and> fp_enabled p \<and> (fp_restricted p \<longrightarrow> k \<in> set (fp_allowed p))"
  unfolding kept_filter [OF assms] by auto

lemma assert_keeps_all:
  assumes "assert_tags_allowed d e tags = Inr ()" and "allowed_tags_only d e tags = Inr kept"
  shows "kept = tags"
proof (cases "tags = []")
  case False
  obtain enabled restricted where t: "tagging_policy d e = Inr (enabled, restricted)"
    using assms(1) False by (auto simp: assert_tags_allowed_def svc_simps)
  show ?thesis
  proof (cases restricted)
    case True
    then have on: enabled "\<forall>k\<in>fst ` set tags. k \<in> set (allowed_tag_keys d e)"
      using assms(1) False t by (auto simp: assert_tags_allowed_def svc_simps Let_def py_sorted_set_def filter_empty_conv)
    then have "filter (\<lambda>(k, v). k \<in> set (allowed_tag_keys d e)) tags = tags" by (auto intro!: filter_True)
    with True on(1) assms(2) False t show ?thesis by (simp add: allowed_tags_only_def svc_simps)
  next
    case no: False
    then show ?thesis using assms False t by (auto simp: assert_tags_allowed_def allowed_tags_only_def svc_simps split: if_splits)
  qed
qed (use assms in \<open>simp add: allowed_tags_only_def\<close>)

text \<open>The tags a reader is told were not sent are exactly those that were not: for a conversation's stored tags, under the
  evaluation's policy, a key is reported unsent if and only if it does not occur in the block that the request would carry;
  and a set of tags passes the check on writing only if the policy keeps all of it.\<close>

lemma unsent_iff_not_sent:
  assumes policy: "load_tag_fold_policy d e = Inr p" and kept: "allowed_tags_only d e tags = Inr kept"
    and keys: "list_all (\<lambda>(k, v). is_valid_tag_key k) tags" and dist: "distinct (map fst tags)" and k: "k \<in> fst ` set tags"
  shows "(k \<in> set (unsent p tags) \<longleftrightarrow> k \<notin> fst ` set (fst (fold_tag_context kept))) \<and>
    (assert_tags_allowed d e tags = Inr () \<longrightarrow> kept = tags)"
proof -
  obtain v where v: "(k, v) \<in> set tags" using k by auto
  have only: "v' = v" if "(k, v') \<in> set tags" for v' using eq_key_imp_eq_value [OF dist v that] by simp
  have plain: "sanitise_single_line k' = k'" if "(k', v') \<in> set tags" for k' v'
    using keys that sanitise_tag_key by (auto simp: list_all_iff)
  note kk = kept_keys [OF policy kept]
  have sent: "k \<in> fst ` set (fst (fold_tag_context kept)) \<longleftrightarrow> (k, v) \<in> set kept \<and> sanitise_single_line v \<noteq> ''''"
  proof
    assume "k \<in> fst ` set (fst (fold_tag_context kept))"
    then obtain k' v' where k': "k = sanitise_single_line k'" "(k', v') \<in> set kept" "sanitise_single_line v' \<noteq> ''''"
      by (auto simp: fold_tag_context_def Let_def sent_keys)
    then have "k' = k" using plain kk by metis
    then show "(k, v) \<in> set kept \<and> sanitise_single_line v \<noteq> ''''" using k' only kk by metis
  next
    assume s: "(k, v) \<in> set kept \<and> sanitise_single_line v \<noteq> ''''"
    then have "sanitise_single_line k \<in> {sanitise_single_line k | k v. (k, v) \<in> set kept \<and> sanitise_single_line v \<noteq> ''''}" by blast
    then show "k \<in> fst ` set (fst (fold_tag_context kept))"
      using plain [OF v] by (simp add: fold_tag_context_def Let_def sent_keys)
  qed
  have "k \<in> set (unsent p tags) \<longleftrightarrow> \<not> fp_enabled p \<or> sanitise_single_line v = [] \<or> fp_restricted p \<and> k \<notin> set (fp_allowed p)"
  proof (cases "fp_enabled p")
    case True
    have "tags \<noteq> []" using v by auto
    then have "k \<in> set (unsent p tags) \<longleftrightarrow> (\<exists>v'. (k, v') \<in> set tags \<and>
        (sanitise_single_line v' = [] \<or> fp_restricted p \<and> k \<notin> set (fp_allowed p)))"
      using True by (force simp: unsent_def)
    then show ?thesis using True v only by metis
  qed (use v k in \<open>auto simp: unsent_def\<close>)
  then have "k \<in> set (unsent p tags) \<longleftrightarrow> k \<notin> fst ` set (fst (fold_tag_context kept))"
    unfolding sent using v by (auto simp: kk)
  then show ?thesis using assert_keeps_all kept by blast
qed

end
