(* ===== verification/Annotation_Models.thy ===== *)
theory Annotation_Models
  imports Messages Platform
begin

section \<open>The annotation and review tables\<close>

text \<open>
  \<open>annotations/models.py\<close>, \<open>annotations/enums.py\<close>, \<open>reviews/models.py\<close> and \<open>reviews/enums.py\<close>: flags (the submissions),
  reviews, notes, annotations with their labels, and task completions, in a record \<open>desk\<close> next to the conversation database
  \<open>chat\<close> they are anchored in; and the scope all of them are read through (\<open>join_conversation_scoped\<close> of
  \<open>evaluations/access.py\<close>).
\<close>

datatype flag_status = FS_PENDING | FS_APPROVED | FS_REJECTED
datatype review_status = RS_PENDING | RS_APPROVED | RS_REJECTED

fun flag_status_value :: "flag_status \<Rightarrow> string" where
  "flag_status_value FS_PENDING = ''pending''"
| "flag_status_value FS_APPROVED = ''approved''"
| "flag_status_value FS_REJECTED = ''rejected''"

fun review_status_value :: "review_status \<Rightarrow> string" where
  "review_status_value RS_PENDING = ''pending''"
| "review_status_value RS_APPROVED = ''approved''"
| "review_status_value RS_REJECTED = ''rejected''"

record message_flag = base +
  fl_reason :: string
  fl_red_flagged :: bool
  fl_comment :: "string option"
  fl_status :: flag_status
  fl_created_by_id :: uuid
  fl_conversation_id :: uuid
  fl_evaluation_id :: uuid
  fl_evaluation_group_id :: uuid
  fl_scenario_id :: "uuid option"
  fl_task_id :: "uuid option"

record review = base +
  rv_message_flag_id :: uuid
  rv_reviewer_id :: uuid
  rv_assigned_by_id :: uuid
  rv_evaluation_id :: uuid
  rv_status :: review_status
  rv_successful_exploit :: "bool option"
  rv_unique_exploit :: "bool option"
  rv_valid_submission :: "bool option"
  rv_number_prompts :: "nat option"
  rv_notes :: "string option"

record note_row = base +
  nt_text :: string
  nt_created_by_id :: uuid
  nt_conversation_id :: uuid
  nt_evaluation_id :: uuid
  nt_evaluation_group_id :: uuid

record annotation_label = base +
  lb_created_by_id :: "uuid option"
  lb_key :: "string option"
  lb_name :: string

record annotation = base +
  an_message_id :: uuid
  an_label_id :: uuid
  an_created_by_id :: uuid
  an_conversation_id :: uuid
  an_evaluation_id :: uuid
  an_evaluation_group_id :: uuid

record task_completion = base +
  tc_created_by_id :: uuid
  tc_conversation_id :: uuid
  tc_task_id :: uuid
  tc_conversation_group_id :: uuid
  tc_evaluation_id :: uuid
  tc_evaluation_group_id :: uuid
  tc_scenario_id :: "uuid option"

record desk =
  chat :: chat_db
  message_flags :: "message_flag list"
  flagged_messages :: "(uuid \<times> uuid) list"
  reviews :: "review list"
  note_rows :: "note_row list"
  noted_messages :: "(uuid \<times> uuid) list"
  annotation_labels :: "annotation_label list"
  annotations :: "annotation list"
  task_completions :: "task_completion list"

definition empty_desk :: "chat_db \<Rightarrow> desk" where
  "empty_desk c = \<lparr>chat = c, message_flags = [], flagged_messages = [], reviews = [], note_rows = [], noted_messages = [],
     annotation_labels = [], annotations = [], task_completions = []\<rparr>"

abbreviation base_db :: "desk \<Rightarrow> db" where
  "base_db s \<equiv> core (chat s)"

abbreviation next_key :: "desk \<Rightarrow> uuid" where
  "next_key s \<equiv> fresh (chat s)"

abbreviation time_of :: "desk \<Rightarrow> timestamp" where
  "time_of s \<equiv> clock (chat s)"

definition on_base :: "(db \<Rightarrow> db) \<Rightarrow> desk \<Rightarrow> desk" where
  "on_base f s = s\<lparr>chat := (chat s)\<lparr>core := f (core (chat s))\<rparr>\<rparr>"

definition draw_key :: "desk \<Rightarrow> desk" where
  "draw_key s = s\<lparr>chat := take_ids 1 (chat s)\<rparr>"

definition audit_desk ::
  "session_user \<Rightarrow> string \<Rightarrow> string \<Rightarrow> uuid \<Rightarrow> (string \<times> arg) list option \<Rightarrow> (string \<times> arg) list option \<Rightarrow> desk \<Rightarrow> desk" where
  "audit_desk caller action object_type object_id before after =
     on_base (\<lambda>d. record_audit d (Some (su_id caller)) (Some (su_email caller)) action (Some object_type) (Some object_id) before after)"

lemma on_base_sel [simp]:
  "message_flags (on_base f s) = message_flags s" "flagged_messages (on_base f s) = flagged_messages s"
  "reviews (on_base f s) = reviews s" "note_rows (on_base f s) = note_rows s" "noted_messages (on_base f s) = noted_messages s"
  "annotation_labels (on_base f s) = annotation_labels s" "annotations (on_base f s) = annotations s"
  "task_completions (on_base f s) = task_completions s" "base_db (on_base f s) = f (base_db s)"
  "conversations (chat (on_base f s)) = conversations (chat s)" "turns (chat (on_base f s)) = turns (chat s)"
  "messages (chat (on_base f s)) = messages (chat s)"
  by (simp_all add: on_base_def)

lemma draw_key_sel [simp]:
  "message_flags (draw_key s) = message_flags s" "flagged_messages (draw_key s) = flagged_messages s"
  "reviews (draw_key s) = reviews s" "note_rows (draw_key s) = note_rows s" "noted_messages (draw_key s) = noted_messages s"
  "annotation_labels (draw_key s) = annotation_labels s" "annotations (draw_key s) = annotations s"
  "task_completions (draw_key s) = task_completions s" "next_key (draw_key s) = Suc (next_key s)"
  "conversations (chat (draw_key s)) = conversations (chat s)"
  by (simp_all add: draw_key_def)

lemma audit_desk_sel [simp]:
  "message_flags (audit_desk c a t i b f s) = message_flags s" "reviews (audit_desk c a t i b f s) = reviews s"
  "note_rows (audit_desk c a t i b f s) = note_rows s" "annotation_labels (audit_desk c a t i b f s) = annotation_labels s"
  "annotations (audit_desk c a t i b f s) = annotations s" "task_completions (audit_desk c a t i b f s) = task_completions s"
  "next_key (audit_desk c a t i b f s) = Suc (next_key s)" "users (base_db (audit_desk c a t i b f s)) = users (base_db s)"
  "conversations (chat (audit_desk c a t i b f s)) = conversations (chat s)"
  by (simp_all add: audit_desk_def record_audit_def)

subsection \<open>The scope of a child of a conversation\<close>

definition live_conversation :: "desk \<Rightarrow> uuid \<Rightarrow> bool" where
  "live_conversation s i \<longleftrightarrow> (\<exists>x\<in>set (conversations (chat s)). row_id x = i \<and> deleted_at x = None)"

definition conversation_scoped :: "desk \<Rightarrow> uuid \<Rightarrow> bool \<Rightarrow> bool \<Rightarrow> uuid \<Rightarrow> uuid \<Rightarrow> uuid \<Rightarrow> bool" where
  "conversation_scoped s caller_id can_manage author_scoped evaluation_id conversation_id created_by_id \<longleftrightarrow>
     visible_evaluation_group (base_db s) evaluation_id caller_id can_manage \<and> live_conversation s conversation_id \<and>
     (author_scoped \<and> \<not> can_manage \<longrightarrow> created_by_id = caller_id)"

text \<open>\<open>conversation \<rightarrow> evaluation \<rightarrow> group\<close>, all live and the group visible; \<open>owned\<close> adds the ownership predicate of
  \<open>resolve_conversation_context\<close>, which \<open>resolve_note_conversation\<close> and \<open>resolve_annotation_message\<close> do without.\<close>

definition resolve_ancestry :: "desk \<Rightarrow> bool \<Rightarrow> uuid \<Rightarrow> uuid \<Rightarrow> (conversation \<times> uuid) option" where
  "resolve_ancestry s owned conversation_id caller_id =
     (case List.find (\<lambda>x. row_id x = conversation_id \<and> (owned \<longrightarrow> c_user_id x = caller_id)) (live_select (conversations (chat s))) of
        None \<Rightarrow> None
      | Some x \<Rightarrow> (case live_by_id (c_evaluation_id x) (evaluations (base_db s)) of None \<Rightarrow> None
          | Some e \<Rightarrow> (case live_by_id (e_evaluation_group_id e) (groups (base_db s)) of None \<Rightarrow> None
              | Some g \<Rightarrow> if group_visible_to (base_db s) caller_id g then Some (x, row_id g) else None)))"

definition resolve_conversation_context :: "desk \<Rightarrow> uuid \<Rightarrow> uuid \<Rightarrow> (conversation \<times> uuid) result" where
  "resolve_conversation_context s conversation_id caller_id =
     the_or (NotFoundError (Msg ''Conversation {} not found.'' [AId conversation_id])) (resolve_ancestry s True conversation_id caller_id)"

definition task_of_scenario :: "desk \<Rightarrow> uuid \<Rightarrow> uuid \<Rightarrow> unit result" where
  "task_of_scenario s task_id scenario_id =
     ensure (\<exists>t\<in>set (live_select (tasks (base_db s))). row_id t = task_id \<and> t_scenario_id t = scenario_id)
       (NotFoundError (Msg ''Task {} not found in scenario {}.'' [AId task_id, AId scenario_id]))"

definition abool :: "bool \<Rightarrow> arg" where
  "abool b = AStr (if b then ''true'' else ''false'')"

fun abool_opt :: "bool option \<Rightarrow> arg" where
  "abool_opt None = AOpt None"
| "abool_opt (Some b) = abool b"

fun anat_opt :: "nat option \<Rightarrow> arg" where
  "anat_opt None = AOpt None"
| "anat_opt (Some n) = ANat n"

end
