(* ===== verification/Flags.thy ===== *)
theory Flags
  imports Annotation_Models
begin

section \<open>Message flags\<close>

text \<open>
  \<open>annotations/services/message_flags.py\<close>, the flag gates of \<open>annotations/dependencies.py\<close> and the write routes of
  \<open>api/v1/message_flags.py\<close>.  A flag selects messages of one conversation of its author; payload validation (a non-empty
  selection without duplicates, no explicit null) has run.
\<close>

definition flag_scope :: "desk \<Rightarrow> uuid \<Rightarrow> bool \<Rightarrow> message_flag \<Rightarrow> bool" where
  "flag_scope s caller_id can_manage f \<longleftrightarrow>
     conversation_scoped s caller_id can_manage True (fl_evaluation_id f) (fl_conversation_id f) (fl_created_by_id f)"

definition get_flag :: "desk \<Rightarrow> uuid \<Rightarrow> uuid \<Rightarrow> bool \<Rightarrow> message_flag result" where
  "get_flag s flag_id caller_id can_manage =
     the_or (NotFoundError (Msg ''Message flag {} not found.'' [AId flag_id]))
       (List.find (\<lambda>f. row_id f = flag_id \<and> flag_scope s caller_id can_manage f) (live_select (message_flags s)))"

record flag_filters =
  ff_conversation_id :: "uuid option"
  ff_evaluation_id :: "uuid option"
  ff_evaluation_group_id :: "uuid option"
  ff_scenario_id :: "uuid option"
  ff_task_id :: "uuid option"
  ff_created_by_id :: "uuid option"
  ff_created_from :: "timestamp option"
  ff_created_to :: "timestamp option"
  ff_message_id :: "uuid option"
  ff_status :: "flag_status option"
  ff_red_flagged :: "bool option"
  ff_search :: "string option"
  ff_deleted :: bool

definition holds_opt :: "('a \<Rightarrow> bool) \<Rightarrow> 'a option \<Rightarrow> bool" where
  "holds_opt P x \<longleftrightarrow> (case x of None \<Rightarrow> True | Some y \<Rightarrow> P y)"

definition flag_filters_ok :: "(string \<Rightarrow> string option \<Rightarrow> bool) \<Rightarrow> desk \<Rightarrow> flag_filters \<Rightarrow> message_flag \<Rightarrow> bool" where
  "flag_filters_ok ilike s ff f \<longleftrightarrow>
     holds_opt (\<lambda>i. fl_conversation_id f = i) (ff_conversation_id ff) \<and> holds_opt (\<lambda>i. fl_evaluation_id f = i) (ff_evaluation_id ff) \<and>
     holds_opt (\<lambda>i. fl_evaluation_group_id f = i) (ff_evaluation_group_id ff) \<and>
     holds_opt (\<lambda>i. fl_scenario_id f = Some i) (ff_scenario_id ff) \<and> holds_opt (\<lambda>i. fl_task_id f = Some i) (ff_task_id ff) \<and>
     holds_opt (\<lambda>i. fl_created_by_id f = i) (ff_created_by_id ff) \<and> holds_opt (\<lambda>t. t \<le> created_at f) (ff_created_from ff) \<and>
     holds_opt (\<lambda>t. created_at f \<le> t) (ff_created_to ff) \<and>
     holds_opt (\<lambda>i. (row_id f, i) \<in> set (flagged_messages s)) (ff_message_id ff) \<and>
     holds_opt (\<lambda>v. fl_status f = v) (ff_status ff) \<and> holds_opt (\<lambda>b. fl_red_flagged f = b) (ff_red_flagged ff) \<and>
     holds_opt (\<lambda>q. ilike q (Some (fl_reason f)) \<or> ilike q (fl_comment f)) (ff_search ff)"

definition list_flags ::
  "(string \<Rightarrow> string option \<Rightarrow> bool) \<Rightarrow> (message_flag \<Rightarrow> 'k::linorder) \<Rightarrow> desk \<Rightarrow> uuid \<Rightarrow> bool \<Rightarrow> flag_filters \<Rightarrow> nat \<Rightarrow> nat \<Rightarrow>
     timestamp \<Rightarrow> message_flag list \<times> nat" where
  "list_flags ilike order_key s caller_id can_manage filters limit offset deleted_cutoff =
     (let rows = (if ff_deleted filters
                  then deleted_select deleted_cutoff (if can_manage then None else Some caller_id) (message_flags s)
                  else live_select (message_flags s))
      in paginate limit offset (sort_key order_key (sort_key row_id
           (filter (flag_filters_ok ilike s filters) (filter (flag_scope s caller_id can_manage) rows)))))"

text \<open>Per message the number of the caller's live flags of the conversation that select it; absent messages count 0.\<close>

definition flag_counts_by_message :: "desk \<Rightarrow> uuid \<Rightarrow> uuid list \<Rightarrow> uuid \<Rightarrow> bool \<Rightarrow> (uuid \<times> nat) list" where
  "flag_counts_by_message s conversation_id message_ids caller_id can_manage =
     (let hits = filter (\<lambda>(f, m). m \<in> set message_ids \<and> (\<exists>x\<in>set (live_select (message_flags s)). row_id x = f \<and>
            fl_conversation_id x = conversation_id \<and> (can_manage \<or> fl_created_by_id x = caller_id))) (flagged_messages s)
      in map (\<lambda>m. (m, length (filter (\<lambda>(f, m'). m' = m) hits))) (remdups (map snd hits)))"

record flag_create =
  fc_conversation_id :: uuid
  fc_message_ids :: "uuid list"
  fc_reason :: string
  fc_red_flagged :: bool
  fc_comment :: "string option"
  fc_task_id :: "uuid option"

definition create_flag :: "desk \<Rightarrow> flag_create \<Rightarrow> uuid \<Rightarrow> (message_flag \<times> desk) result" where
  "create_flag s draft caller_id =
     bindE (resolve_conversation_context s (fc_conversation_id draft) caller_id) (\<lambda>(x, group_id).
     bindE (assert_messages_in_conversation (chat s) (fc_conversation_id draft) (fc_message_ids draft)) (\<lambda>_.
     bindE (case fc_task_id draft of None \<Rightarrow> Inr () | Some t \<Rightarrow> task_of_scenario s t (c_scenario_id x)) (\<lambda>_.
     let f = \<lparr>row_id = next_key s, created_at = time_of s, deleted_at = None, deleted_by_id = None, fl_reason = fc_reason draft,
              fl_red_flagged = fc_red_flagged draft, fl_comment = fc_comment draft, fl_status = FS_PENDING,
              fl_created_by_id = caller_id, fl_conversation_id = row_id x, fl_evaluation_id = c_evaluation_id x,
              fl_evaluation_group_id = group_id, fl_scenario_id = Some (c_scenario_id x), fl_task_id = fc_task_id draft\<rparr>
     in Inr (f, (draw_key s)\<lparr>message_flags := message_flags s @ [f],
          flagged_messages := flagged_messages s @ map (\<lambda>m. (row_id f, m)) (fc_message_ids draft)\<rparr>))))"

record flag_update =
  fu_reason :: "string option"
  fu_red_flagged :: "bool option"
  fu_comment :: "string option option"

definition save_flag :: "desk \<Rightarrow> message_flag \<Rightarrow> desk" where
  "save_flag s f = s\<lparr>message_flags := save_row f (message_flags s)\<rparr>"

definition update_flag :: "desk \<Rightarrow> message_flag \<Rightarrow> flag_update \<Rightarrow> message_flag \<times> desk" where
  "update_flag s f ch =
     (let f' = f\<lparr>fl_reason := set_or (fl_reason f) (fu_reason ch), fl_red_flagged := set_or (fl_red_flagged f) (fu_red_flagged ch),
                fl_comment := set_or (fl_comment f) (fu_comment ch)\<rparr>
      in (f', save_flag s f'))"

definition soft_delete_flag :: "desk \<Rightarrow> message_flag \<Rightarrow> uuid \<Rightarrow> message_flag \<times> desk" where
  "soft_delete_flag s f by_id = (let f' = soft_delete (time_of s) (Some by_id) f in (f', save_flag s f'))"

definition get_restorable_flag :: "desk \<Rightarrow> uuid \<Rightarrow> uuid \<Rightarrow> bool \<Rightarrow> timestamp \<Rightarrow> message_flag result" where
  "get_restorable_flag s flag_id caller_id can_manage deleted_cutoff =
     the_or (NotFoundError (Msg ''No restorable message flag {} was deleted within the restore window.'' [AId flag_id]))
       (List.find (\<lambda>f. row_id f = flag_id \<and> flag_scope s caller_id can_manage f)
         (deleted_select deleted_cutoff (if can_manage then None else Some caller_id) (message_flags s)))"

definition restore_flag :: "desk \<Rightarrow> message_flag \<Rightarrow> (message_flag \<times> desk) result" where
  "restore_flag s f =
     bindE (restore_row (\<lambda>_ _. False) (Msg ''Message flag cannot be restored.'' []) f (message_flags s)) (\<lambda>(f', t).
     Inr (f', s\<lparr>message_flags := t\<rparr>))"

subsection \<open>Gates and routes\<close>

text \<open>\<open>group_of_flag_filters\<close>: the first filter that names an object decides.\<close>

definition group_of_flag_filters :: "desk \<Rightarrow> flag_filters \<Rightarrow> uuid option" where
  "group_of_flag_filters s ff =
     (case ff_evaluation_group_id ff of Some g \<Rightarrow> Some g | None \<Rightarrow>
      (case ff_evaluation_id ff of
         Some i \<Rightarrow> map_option e_evaluation_group_id (List.find (\<lambda>e. row_id e = i) (evaluations (base_db s)))
       | None \<Rightarrow> (case ff_conversation_id ff of None \<Rightarrow> None
           | Some i \<Rightarrow> (case List.find (\<lambda>x. row_id x = i) (conversations (chat s)) of None \<Rightarrow> None
               | Some x \<Rightarrow> map_option e_evaluation_group_id (List.find (\<lambda>e. row_id e = c_evaluation_id x) (evaluations (base_db s)))))))"

definition group_of_path_flag :: "desk \<Rightarrow> uuid \<Rightarrow> uuid option" where
  "group_of_path_flag s flag_id = map_option fl_evaluation_group_id (List.find (\<lambda>f. row_id f = flag_id) (message_flags s))"

definition require_flag_permission :: "permission \<Rightarrow> desk \<Rightarrow> session_user \<Rightarrow> uuid \<Rightarrow> session_user result" where
  "require_flag_permission p s caller flag_id = require_object_or_global p (base_db s) caller (group_of_path_flag s flag_id)"

definition require_flag_create_permission :: "permission \<Rightarrow> desk \<Rightarrow> session_user \<Rightarrow> session_user result" where
  "require_flag_create_permission p s caller =
     bindE (ensure (has_permission p (su_permissions caller) \<or> holds_permission_anywhere (base_db s) (su_id caller) EVALUATION_GROUP p)
       (ForbiddenError (Msg ''Caller lacks the {} permission.'' [AStr (permission_value p)]))) (\<lambda>_. Inr caller)"

definition flag_snapshot :: "message_flag \<Rightarrow> (string \<times> arg) list" where
  "flag_snapshot f = [(''reason'', AStr (fl_reason f)), (''red_flagged'', abool (fl_red_flagged f)), (''comment'', AOpt (fl_comment f)),
     (''status'', AStr (flag_status_value (fl_status f)))]"

definition create_message_flag_endpoint :: "desk \<Rightarrow> session_user \<Rightarrow> flag_create \<Rightarrow> desk result" where
  "create_message_flag_endpoint s caller draft =
     bindE (require_flag_create_permission FLAGS_CREATE s caller) (\<lambda>_.
     bindE (create_flag s draft (su_id caller)) (\<lambda>(f, s').
     Inr (audit_desk caller ''flag.create'' ''message_flag'' (row_id f) None (Some (flag_snapshot f)) s')))"

definition update_message_flag_endpoint :: "desk \<Rightarrow> session_user \<Rightarrow> uuid \<Rightarrow> flag_update \<Rightarrow> desk result" where
  "update_message_flag_endpoint s caller flag_id ch =
     bindE (require_flag_permission FLAGS_UPDATE s caller flag_id) (\<lambda>_.
     bindE (get_flag s flag_id (su_id caller) (caller_can_manage_groups caller)) (\<lambda>f.
     let (f', s') = update_flag s f ch;
         (before, after) = changed_fields (flag_snapshot f) (flag_snapshot f')
     in Inr (if before \<noteq> [] \<or> after \<noteq> []
             then audit_desk caller ''flag.update'' ''message_flag'' (row_id f') (Some before) (Some after) s' else s')))"

definition delete_message_flag_endpoint :: "desk \<Rightarrow> session_user \<Rightarrow> uuid \<Rightarrow> desk result" where
  "delete_message_flag_endpoint s caller flag_id =
     bindE (require_flag_permission FLAGS_DELETE s caller flag_id) (\<lambda>_.
     bindE (get_flag s flag_id (su_id caller) (caller_can_manage_groups caller)) (\<lambda>f.
     Inr (audit_desk caller ''flag.delete'' ''message_flag'' (row_id f) (Some (flag_snapshot f)) None
            (snd (soft_delete_flag s f (su_id caller))))))"

definition restore_message_flag_endpoint :: "int \<Rightarrow> desk \<Rightarrow> session_user \<Rightarrow> uuid \<Rightarrow> desk result" where
  "restore_message_flag_endpoint window_days s caller flag_id =
     bindE (require_flag_permission FLAGS_DELETE s caller flag_id) (\<lambda>_.
     bindE (get_restorable_flag s flag_id (su_id caller) (caller_can_manage_groups caller)
       (restore_cutoff window_days (time_of s))) (\<lambda>f.
     bindE (restore_flag s f) (\<lambda>(f', s').
     Inr (audit_desk caller ''flag.restore'' ''message_flag'' (row_id f') None (Some (flag_snapshot f')) s'))))"

definition require_flag_list_permission :: "permission \<Rightarrow> desk \<Rightarrow> session_user \<Rightarrow> flag_filters \<Rightarrow> session_user result" where
  "require_flag_list_permission p s caller ff = require_object_or_global p (base_db s) caller (group_of_flag_filters s ff)"

definition list_message_flags_endpoint ::
  "(string \<Rightarrow> string option \<Rightarrow> bool) \<Rightarrow> (message_flag \<Rightarrow> 'k::linorder) \<Rightarrow> int \<Rightarrow> desk \<Rightarrow> session_user \<Rightarrow> flag_filters \<Rightarrow>
     nat \<Rightarrow> nat \<Rightarrow> (message_flag list \<times> nat) result" where
  "list_message_flags_endpoint ilike order_key window_days s caller filters limit offset =
     bindE (require_flag_list_permission FLAGS_READ s caller filters) (\<lambda>_.
     Inr (list_flags ilike order_key s (su_id caller) (caller_can_manage_groups caller) filters limit offset
            (restore_cutoff window_days (time_of s))))"

definition get_message_flag_endpoint :: "desk \<Rightarrow> session_user \<Rightarrow> uuid \<Rightarrow> message_flag result" where
  "get_message_flag_endpoint s caller flag_id =
     bindE (require_flag_permission FLAGS_READ s caller flag_id) (\<lambda>_.
     get_flag s flag_id (su_id caller) (caller_can_manage_groups caller))"

end
