(* ===== verification/Reviews.thy ===== *)
theory Reviews
  imports Flags Bulk
begin

section \<open>Reviewers and verdicts\<close>

text \<open>
  \<open>evaluations/services/annotators.py\<close>, \<open>reviews/access.py\<close>, \<open>reviews/services/reviews.py\<close>, \<open>reviews/notifications.py\<close> and the
  routes of \<open>api/v1/reviews.py\<close> that write, with the picker and the queue they feed.  The case-insensitive search is a
  parameter; a best-effort mail is sent (its loss has no further effect).
\<close>

subsection \<open>The pool of a group\<close>

definition reviewer_role_ids :: "db \<Rightarrow> uuid list" where
  "reviewer_role_ids d =
     map row_id (filter (\<lambda>r. r_is_active r \<and> has_permission REVIEWS_ANNOTATE (r_permissions r)) (live_select (roles d)))"

definition global_reviewer_ids :: "db \<Rightarrow> uuid list" where
  "global_reviewer_ids d = map fst (filter (\<lambda>(u, r). r \<in> set (reviewer_role_ids d)) (user_roles d))"

definition member_reviewer_ids :: "db \<Rightarrow> uuid \<Rightarrow> uuid list" where
  "member_reviewer_ids d group_id =
     map a_user_id (filter (\<lambda>a. a_object_type a = EVALUATION_GROUP \<and> a_object_id a = group_id \<and>
       a_role_id a \<in> set (reviewer_role_ids d)) (live_select (assignments d)))"

definition organization_pool_predicate :: "db \<Rightarrow> evaluation_group \<Rightarrow> user \<Rightarrow> bool" where
  "organization_pool_predicate d g u \<longleftrightarrow>
     row_id u \<in> set (member_reviewer_ids d (row_id g)) \<or>
     (case g_organization_id g of None \<Rightarrow> False
      | Some i \<Rightarrow> u_organization_id u = Some i \<and> row_id u \<in> set (global_reviewer_ids d))"

definition annotator_pool_predicate :: "db \<Rightarrow> evaluation_group \<Rightarrow> user \<Rightarrow> bool" where
  "annotator_pool_predicate d g u \<longleftrightarrow>
     (case g_access_level g of
        PUBLIC \<Rightarrow> row_id u \<in> set (global_reviewer_ids d) \<or> row_id u \<in> set (member_reviewer_ids d (row_id g))
      | ORGANIZATION \<Rightarrow> organization_pool_predicate d g u
      | _ \<Rightarrow> row_id u \<in> set (member_reviewer_ids d (row_id g)))"

definition matches_user :: "(string \<Rightarrow> string option \<Rightarrow> bool) \<Rightarrow> string option \<Rightarrow> user \<Rightarrow> bool" where
  "matches_user ilike search u \<longleftrightarrow>
     (case search of None \<Rightarrow> True
      | Some q \<Rightarrow> q = '''' \<or> ilike q (Some (u_email u)) \<or> ilike q (u_first_name u) \<or> ilike q (u_last_name u))"

definition list_group_annotators ::
  "(string \<Rightarrow> string option \<Rightarrow> bool) \<Rightarrow> db \<Rightarrow> evaluation_group \<Rightarrow> string option \<Rightarrow> nat \<Rightarrow> nat \<Rightarrow> user list \<times> nat" where
  "list_group_annotators ilike d g search limit offset =
     paginate limit offset (sort_key u_email (sort_key row_id
       (filter (matches_user ilike search) (filter (annotator_pool_predicate d g) (live_select (users d))))))"

definition is_assignable_annotator :: "db \<Rightarrow> evaluation_group \<Rightarrow> uuid \<Rightarrow> bool" where
  "is_assignable_annotator d g user_id \<longleftrightarrow>
     (\<exists>u\<in>set (live_select (users d)). row_id u = user_id \<and> annotator_pool_predicate d g u)"

subsection \<open>Scopes\<close>

definition caller_can_review :: "session_user \<Rightarrow> bool" where
  "caller_can_review caller \<longleftrightarrow> has_permission REVIEWS_CREATE (su_permissions caller)"

definition scope_review_flags :: "desk \<Rightarrow> uuid \<Rightarrow> bool \<Rightarrow> bool \<Rightarrow> message_flag \<Rightarrow> bool" where
  "scope_review_flags s caller_id can_manage can_review f \<longleftrightarrow>
     visible_evaluation_group (base_db s) (fl_evaluation_id f) caller_id can_manage \<and> live_conversation s (fl_conversation_id f) \<and>
     (\<not> can_manage \<and> \<not> can_review \<longrightarrow> fl_created_by_id f = caller_id)"

definition flag_of_review :: "desk \<Rightarrow> review \<Rightarrow> message_flag option" where
  "flag_of_review s r = live_by_id (rv_message_flag_id r) (message_flags s)"

definition scope_reviews :: "desk \<Rightarrow> uuid \<Rightarrow> bool \<Rightarrow> bool \<Rightarrow> review \<Rightarrow> bool" where
  "scope_reviews s caller_id can_manage can_review r \<longleftrightarrow>
     visible_evaluation_group (base_db s) (rv_evaluation_id r) caller_id can_manage \<and>
     (case flag_of_review s r of None \<Rightarrow> False
      | Some f \<Rightarrow> live_conversation s (fl_conversation_id f) \<and>
          (\<not> can_manage \<and> \<not> can_review \<longrightarrow> fl_created_by_id f = caller_id))"

subsection \<open>Assigning\<close>

definition resolve_assignable_flag :: "desk \<Rightarrow> uuid \<Rightarrow> uuid \<Rightarrow> bool \<Rightarrow> message_flag result" where
  "resolve_assignable_flag s flag_id caller_id can_manage =
     the_or (NotFoundError (Msg ''Message flag {} not found.'' [AId flag_id]))
       (List.find (\<lambda>f. row_id f = flag_id \<and> visible_evaluation_group (base_db s) (fl_evaluation_id f) caller_id can_manage)
         (live_select (message_flags s)))"

definition live_review :: "desk \<Rightarrow> uuid \<Rightarrow> uuid \<Rightarrow> bool" where
  "live_review s flag_id reviewer_id \<longleftrightarrow>
     (\<exists>r\<in>set (live_select (reviews s)). rv_message_flag_id r = flag_id \<and> rv_reviewer_id r = reviewer_id)"

definition pool_check :: "desk \<Rightarrow> message_flag \<Rightarrow> uuid \<Rightarrow> unit result" where
  "pool_check s f reviewer_id =
     (case live_by_id (fl_evaluation_group_id f) (groups (base_db s)) of
        None \<Rightarrow> Inl (NotFoundError (Msg ''User {} is not an assignable reviewer for this submission.'' [AId reviewer_id]))
      | Some g \<Rightarrow> ensure (is_assignable_annotator (base_db s) g reviewer_id)
          (NotFoundError (Msg ''User {} is not an assignable reviewer for this submission.'' [AId reviewer_id])))"

definition new_review :: "desk \<Rightarrow> message_flag \<Rightarrow> uuid \<Rightarrow> uuid \<Rightarrow> review" where
  "new_review s f reviewer_id caller_id =
     \<lparr>row_id = next_key s, created_at = time_of s, deleted_at = None, deleted_by_id = None, rv_message_flag_id = row_id f,
      rv_reviewer_id = reviewer_id, rv_assigned_by_id = caller_id, rv_evaluation_id = fl_evaluation_id f, rv_status = RS_PENDING,
      rv_successful_exploit = None, rv_unique_exploit = None, rv_valid_submission = None, rv_number_prompts = None, rv_notes = None\<rparr>"

definition assign_reviewer :: "desk \<Rightarrow> uuid \<Rightarrow> uuid \<Rightarrow> uuid \<Rightarrow> bool \<Rightarrow> (review \<times> desk) result" where
  "assign_reviewer s flag_id reviewer_id caller_id can_manage =
     bindE (resolve_assignable_flag s flag_id caller_id can_manage) (\<lambda>f.
     bindE (ensure (fl_status f = FS_PENDING)
       (ConflictError (Msg ''Cannot assign a reviewer to an already-decided submission.'' []))) (\<lambda>_.
     bindE (ensure (reviewer_id \<noteq> fl_created_by_id f)
       (ConflictError (Msg ''A flag's author cannot review their own submission.'' []))) (\<lambda>_.
     bindE (ensure (live_by_id reviewer_id (users (base_db s)) \<noteq> None)
       (NotFoundError (Msg ''User {} not found.'' [AId reviewer_id]))) (\<lambda>_.
     bindE (pool_check s f reviewer_id) (\<lambda>_.
     bindE (ensure (\<not> live_review s flag_id reviewer_id)
       (ConflictError (Msg ''Reviewer is already assigned to this submission.'' []))) (\<lambda>_.
     let r = new_review s f reviewer_id caller_id
     in Inr (r, (draw_key s)\<lparr>reviews := reviews s @ [r]\<rparr>)))))))"

definition list_assignable_reviewers ::
  "(string \<Rightarrow> string option \<Rightarrow> bool) \<Rightarrow> desk \<Rightarrow> uuid \<Rightarrow> uuid \<Rightarrow> bool \<Rightarrow> string option \<Rightarrow> nat \<Rightarrow> nat \<Rightarrow> (user list \<times> nat) result" where
  "list_assignable_reviewers ilike s flag_id caller_id can_manage search limit offset =
     bindE (resolve_assignable_flag s flag_id caller_id can_manage) (\<lambda>f.
     if fl_status f \<noteq> FS_PENDING then Inr ([], 0)
     else (case live_by_id (fl_evaluation_group_id f) (groups (base_db s)) of None \<Rightarrow> Inr ([], 0)
       | Some g \<Rightarrow> Inr (paginate limit offset (sort_key u_email (sort_key row_id
           (filter (\<lambda>u. annotator_pool_predicate (base_db s) g u \<and> row_id u \<noteq> fl_created_by_id f \<and>
                        \<not> live_review s flag_id (row_id u) \<and> matches_user ilike search u)
             (live_select (users (base_db s)))))))))"

text \<open>The workload of a reviewer: pending reviews of submissions that are reachable and not in a terminal evaluation or group.\<close>

definition count_active_reviews :: "desk \<Rightarrow> uuid list \<Rightarrow> (uuid \<times> nat) list" where
  "count_active_reviews s user_ids =
     (let active = (\<lambda>r. rv_status r = RS_PENDING \<and>
            (case flag_of_review s r of None \<Rightarrow> False
             | Some f \<Rightarrow> live_conversation s (fl_conversation_id f) \<and>
                 (case live_by_id (fl_evaluation_id f) (evaluations (base_db s)) of None \<Rightarrow> False
                  | Some e \<Rightarrow> e_status e \<notin> {COMPLETED, REJECTED}) \<and>
                 (case live_by_id (fl_evaluation_group_id f) (groups (base_db s)) of None \<Rightarrow> False
                  | Some g \<Rightarrow> g_status g \<notin> {PS_INACTIVE, NOT_APPROVED})));
          mine = filter (\<lambda>r. rv_reviewer_id r \<in> set user_ids \<and> active r) (live_select (reviews s))
      in map (\<lambda>i. (i, length (filter (\<lambda>r. rv_reviewer_id r = i) mine))) (remdups (map rv_reviewer_id mine)))"

subsection \<open>Reading and changing reviews\<close>

definition get_review :: "desk \<Rightarrow> uuid \<Rightarrow> uuid \<Rightarrow> bool \<Rightarrow> bool \<Rightarrow> review result" where
  "get_review s review_id caller_id can_manage can_review =
     the_or (NotFoundError (Msg ''Review {} not found.'' [AId review_id]))
       (List.find (\<lambda>r. row_id r = review_id \<and> scope_reviews s caller_id can_manage can_review r) (live_select (reviews s)))"

definition resolve_reviewer_emails :: "desk \<Rightarrow> review list \<Rightarrow> (uuid \<times> string) list" where
  "resolve_reviewer_emails s rs =
     map (\<lambda>u. (row_id u, u_email u)) (filter (\<lambda>u. row_id u \<in> set (map rv_reviewer_id rs)) (users (base_db s)))"

record review_filters =
  rf_message_flag_id :: "uuid option"
  rf_evaluation_id :: "uuid option"
  rf_reviewer_id :: "uuid option"
  rf_status :: "review_status option"
  rf_created_from :: "timestamp option"
  rf_created_to :: "timestamp option"

definition review_filters_ok :: "review_filters \<Rightarrow> review \<Rightarrow> bool" where
  "review_filters_ok rf r \<longleftrightarrow>
     holds_opt (\<lambda>i. rv_message_flag_id r = i) (rf_message_flag_id rf) \<and> holds_opt (\<lambda>i. rv_evaluation_id r = i) (rf_evaluation_id rf) \<and>
     holds_opt (\<lambda>i. rv_reviewer_id r = i) (rf_reviewer_id rf) \<and> holds_opt (\<lambda>v. rv_status r = v) (rf_status rf) \<and>
     holds_opt (\<lambda>t. t \<le> created_at r) (rf_created_from rf) \<and> holds_opt (\<lambda>t. created_at r \<le> t) (rf_created_to rf)"

definition reassignable_tombstone :: "desk \<Rightarrow> review \<Rightarrow> bool" where
  "reassignable_tombstone s r \<longleftrightarrow> rv_status r \<noteq> RS_PENDING \<or>
     (case flag_of_review s r of None \<Rightarrow> False
      | Some f \<Rightarrow> fl_status f = FS_PENDING \<and> live_by_id (rv_reviewer_id r) (users (base_db s)) \<noteq> None)"

definition list_reviews ::
  "(review \<Rightarrow> 'k::linorder) \<Rightarrow> desk \<Rightarrow> uuid \<Rightarrow> bool \<Rightarrow> bool \<Rightarrow> review_filters \<Rightarrow> nat \<Rightarrow> nat \<Rightarrow> bool \<Rightarrow> timestamp \<Rightarrow> review list \<times> nat" where
  "list_reviews order_key s caller_id can_manage can_review filters limit offset deleted deleted_cutoff =
     (let rows = filter (scope_reviews s caller_id can_manage can_review)
            (if deleted then deleted_select deleted_cutoff (if can_manage then None else Some caller_id) (reviews s)
             else live_select (reviews s));
          rows' = (if deleted then filter (reassignable_tombstone s) rows else rows)
      in paginate limit offset (sort_key order_key (sort_key row_id (filter (review_filters_ok filters) rows'))))"

text \<open>\<open>ReviewUpdateChanges\<close>; validation has refused \<open>pending\<close> and null for the status.\<close>

record review_update =
  vd_status :: "review_status option"
  vd_successful_exploit :: "bool option option"
  vd_unique_exploit :: "bool option option"
  vd_valid_submission :: "bool option option"
  vd_number_prompts :: "nat option option"
  vd_notes :: "string option option"

definition save_review :: "desk \<Rightarrow> review \<Rightarrow> desk" where
  "save_review s r = s\<lparr>reviews := save_row r (reviews s)\<rparr>"

definition update_review :: "desk \<Rightarrow> review \<Rightarrow> review_update \<Rightarrow> review \<times> desk" where
  "update_review s r ch =
     (let r' = r\<lparr>rv_status := set_or (rv_status r) (vd_status ch),
                rv_successful_exploit := set_or (rv_successful_exploit r) (vd_successful_exploit ch),
                rv_unique_exploit := set_or (rv_unique_exploit r) (vd_unique_exploit ch),
                rv_valid_submission := set_or (rv_valid_submission r) (vd_valid_submission ch),
                rv_number_prompts := set_or (rv_number_prompts r) (vd_number_prompts ch),
                rv_notes := set_or (rv_notes r) (vd_notes ch)\<rparr>
      in (r', save_review s r'))"

definition unassign_review :: "desk \<Rightarrow> review \<Rightarrow> uuid \<Rightarrow> review \<times> desk" where
  "unassign_review s r by_id = (let r' = soft_delete (time_of s) (Some by_id) r in (r', save_review s r'))"

definition get_restorable_review :: "desk \<Rightarrow> uuid \<Rightarrow> uuid \<Rightarrow> bool \<Rightarrow> bool \<Rightarrow> timestamp \<Rightarrow> review result" where
  "get_restorable_review s review_id caller_id can_manage can_review deleted_cutoff =
     the_or (NotFoundError (Msg ''No restorable review {} was deleted within the restore window.'' [AId review_id]))
       (List.find (\<lambda>r. row_id r = review_id \<and> scope_reviews s caller_id can_manage can_review r)
         (deleted_select deleted_cutoff (if can_manage then None else Some caller_id) (reviews s)))"

definition assert_review_reassignable :: "desk \<Rightarrow> review \<Rightarrow> unit result" where
  "assert_review_reassignable s r =
     (if rv_status r \<noteq> RS_PENDING then Inr ()
      else bindE (the_or (NotFoundError (Msg ''No restorable review {} was deleted within the restore window.'' [AId (row_id r)]))
                   (flag_of_review s r)) (\<lambda>f.
        bindE (ensure (fl_status f = FS_PENDING)
          (ConflictError (Msg ''Cannot restore a pending review of an already-decided submission.'' []))) (\<lambda>_.
        bindE (ensure (live_by_id (rv_reviewer_id r) (users (base_db s)) \<noteq> None)
          (NotFoundError (Msg ''Reviewer {} is no longer a live user.'' [AId (rv_reviewer_id r)]))) (\<lambda>_.
        pool_check s f (rv_reviewer_id r)))))"

definition review_clash :: "review \<Rightarrow> review \<Rightarrow> bool" where
  "review_clash x r \<longleftrightarrow> rv_message_flag_id x = rv_message_flag_id r \<and> rv_reviewer_id x = rv_reviewer_id r"

definition restore_review :: "desk \<Rightarrow> review \<Rightarrow> (review \<times> desk) result" where
  "restore_review s r =
     bindE (restore_row review_clash
       (Msg ''That reviewer is already assigned to this submission; unassign the live review first.'' []) r (reviews s)) (\<lambda>(r', t).
     Inr (r', s\<lparr>reviews := t\<rparr>))"

subsection \<open>The queue and the submission\<close>

definition completed :: "review \<Rightarrow> bool" where
  "completed r \<longleftrightarrow> rv_status r = RS_APPROVED \<or> rv_status r = RS_REJECTED"

definition reviews_of_flag :: "desk \<Rightarrow> uuid \<Rightarrow> review list" where
  "reviews_of_flag s flag_id =
     sort_key created_at (sort_key row_id (filter (\<lambda>r. rv_message_flag_id r = flag_id) (live_select (reviews s))))"

definition required_reviews :: "desk \<Rightarrow> message_flag \<Rightarrow> int" where
  "required_reviews s f =
     (case fl_scenario_id f of None \<Rightarrow> 1
      | Some i \<Rightarrow> (case live_by_id i (scenarios (base_db s)) of None \<Rightarrow> 1 | Some sc \<Rightarrow> s_required_reviews sc))"

definition completed_reviews :: "desk \<Rightarrow> uuid \<Rightarrow> nat" where
  "completed_reviews s flag_id = length (filter completed (reviews_of_flag s flag_id))"

record queue_filters =
  qf_evaluation_id :: "uuid option"
  qf_evaluation_group_id :: "uuid option"
  qf_scenario_id :: "uuid option"
  qf_unassigned :: bool

record queue_entry =
  qe_flag :: message_flag
  qe_required_reviews :: int
  qe_completed_reviews :: nat
  qe_reviews :: "review list"

definition review_queue ::
  "desk \<Rightarrow> uuid \<Rightarrow> bool \<Rightarrow> bool \<Rightarrow> queue_filters \<Rightarrow> nat \<Rightarrow> nat \<Rightarrow> queue_entry list \<times> nat" where
  "review_queue s caller_id can_manage can_review qf limit offset =
     (let awaiting = filter (\<lambda>f. scope_review_flags s caller_id can_manage can_review f \<and>
            holds_opt (\<lambda>i. fl_evaluation_id f = i) (qf_evaluation_id qf) \<and>
            holds_opt (\<lambda>i. fl_evaluation_group_id f = i) (qf_evaluation_group_id qf) \<and>
            holds_opt (\<lambda>i. fl_scenario_id f = Some i) (qf_scenario_id qf) \<and>
            (qf_unassigned qf \<longrightarrow> reviews_of_flag s (row_id f) = []) \<and>
            int (completed_reviews s (row_id f)) < required_reviews s f) (live_select (message_flags s));
          page = paginate limit offset (sort_key (\<lambda>f. - created_at f) (sort_key row_id awaiting))
      in (map (\<lambda>f. \<lparr>qe_flag = f, qe_required_reviews = required_reviews s f,
                    qe_completed_reviews = completed_reviews s (row_id f), qe_reviews = reviews_of_flag s (row_id f)\<rparr>) (fst page),
          snd page))"

definition scoped_submission :: "desk \<Rightarrow> uuid \<Rightarrow> uuid \<Rightarrow> bool \<Rightarrow> bool \<Rightarrow> message_flag result" where
  "scoped_submission s flag_id caller_id can_manage can_review =
     the_or (NotFoundError (Msg ''Submission {} not found.'' [AId flag_id]))
       (List.find (\<lambda>f. row_id f = flag_id \<and> scope_review_flags s caller_id can_manage can_review f) (live_select (message_flags s)))"

definition get_submission_detail ::
  "desk \<Rightarrow> uuid \<Rightarrow> uuid \<Rightarrow> bool \<Rightarrow> bool \<Rightarrow> nat \<Rightarrow> nat \<Rightarrow> (message_flag \<times> uuid list \<times> review list \<times> nat) result" where
  "get_submission_detail s flag_id caller_id can_manage can_review limit offset =
     bindE (scoped_submission s flag_id caller_id can_manage can_review) (\<lambda>f.
     let flagged_ids = map snd (filter (\<lambda>(i, m). i = flag_id) (flagged_messages s));
         superseded = filter (\<lambda>i. i \<in> set flagged_ids) (superseded_ids (messages (chat s)));
         (page, total) = paginate limit offset (reviews_of_flag s flag_id)
     in Inr (f, superseded, page, total))"

definition submission_conversation_messages ::
  "desk \<Rightarrow> uuid \<Rightarrow> uuid \<Rightarrow> bool \<Rightarrow> bool \<Rightarrow> nat \<Rightarrow> nat \<Rightarrow> (message list \<times> nat) result" where
  "submission_conversation_messages s flag_id caller_id can_manage can_review limit offset =
     bindE (scoped_submission s flag_id caller_id can_manage can_review) (\<lambda>f.
     Inr (list_conversation_messages (chat s) (fl_conversation_id f) limit offset))"

subsection \<open>Routes\<close>

definition review_snapshot :: "review \<Rightarrow> (string \<times> arg) list" where
  "review_snapshot r =
     [(''reviewer_id'', AId (rv_reviewer_id r)), (''message_flag_id'', AId (rv_message_flag_id r)),
      (''status'', AStr (review_status_value (rv_status r))), (''successful_exploit'', abool_opt (rv_successful_exploit r)),
      (''unique_exploit'', abool_opt (rv_unique_exploit r)), (''valid_submission'', abool_opt (rv_valid_submission r)),
      (''number_prompts'', anat_opt (rv_number_prompts r)), (''notes'', AOpt (rv_notes r))]"

definition notify_reviewer :: "string \<Rightarrow> review \<Rightarrow> desk \<Rightarrow> desk" where
  "notify_reviewer template r s =
     (case live_by_id (rv_reviewer_id r) (users (base_db s)) of None \<Rightarrow> s
      | Some u \<Rightarrow> on_base (\<lambda>d. send_email d template (u_email u) None) s)"

definition notify_review_assigned :: "review \<Rightarrow> desk \<Rightarrow> desk" where
  "notify_review_assigned = notify_reviewer ''review_assigned''"

definition notify_review_unassigned :: "review \<Rightarrow> desk \<Rightarrow> desk" where
  "notify_review_unassigned = notify_reviewer ''review_unassigned''"

definition assign_reviewer_endpoint :: "desk \<Rightarrow> session_user \<Rightarrow> uuid \<Rightarrow> uuid \<Rightarrow> desk result" where
  "assign_reviewer_endpoint s caller flag_id reviewer_id =
     bindE (require_permission REVIEWS_CREATE caller) (\<lambda>_.
     bindE (assign_reviewer s flag_id reviewer_id (su_id caller) (caller_can_manage_groups caller)) (\<lambda>(r, s').
     Inr (notify_review_assigned r
       (audit_desk caller ''review.assign'' ''review'' (row_id r) None (Some (review_snapshot r)) s'))))"

definition assign_processor :: "bool \<Rightarrow> session_user \<Rightarrow> desk \<Rightarrow> uuid \<times> uuid \<Rightarrow> (review \<times> desk) result" where
  "assign_processor dry_run caller s pair =
     bindE (assign_reviewer s (fst pair) (snd pair) (su_id caller) (caller_can_manage_groups caller)) (\<lambda>(r, s').
     Inr (r, if dry_run then s'
             else audit_desk caller ''review.assign'' ''review'' (row_id r) None (Some (review_snapshot r)) s'))"

text \<open>The rows of the batch are committed before the reviewers are notified.\<close>

definition bulk_assign_reviewers_endpoint ::
  "(error \<Rightarrow> problem_error_item list option) \<Rightarrow> desk \<Rightarrow> session_user \<Rightarrow> (uuid \<times> uuid) bulk_request \<Rightarrow> review bulk_response result \<times> desk" where
  "bulk_assign_reviewers_endpoint items s caller payload =
     (case require_permission REVIEWS_CREATE caller of Inl e \<Rightarrow> (Inl e, s)
      | Inr _ \<Rightarrow>
          (case apply_bulk (\<lambda>s s'. s) items (assign_processor (bq_dry_run payload) caller) s payload of
             (Inl e, s') \<Rightarrow> (Inl e, s')
           | (Inr response, s') \<Rightarrow> (Inr response, if bq_dry_run payload then s'
               else fold notify_review_assigned (List.map_filter rr_data (bs_results response)) s')))"

definition update_review_endpoint :: "desk \<Rightarrow> session_user \<Rightarrow> uuid \<Rightarrow> review_update \<Rightarrow> desk result" where
  "update_review_endpoint s caller review_id ch =
     bindE (require_permission REVIEWS_UPDATE caller) (\<lambda>_.
     let can_manage = caller_can_manage_groups caller in
     bindE (get_review s review_id (su_id caller) can_manage (caller_can_review caller)) (\<lambda>r.
     bindE (ensure (can_manage \<or> rv_reviewer_id r = su_id caller)
       (ForbiddenError (Msg ''Only the assigned reviewer can record this verdict.'' []))) (\<lambda>_.
     let (r', s') = update_review s r ch;
         (before, after) = changed_fields (review_snapshot r) (review_snapshot r')
     in Inr (if before \<noteq> [] \<or> after \<noteq> []
             then audit_desk caller ''review.verdict'' ''review'' (row_id r') (Some before) (Some after) s' else s'))))"

definition restore_review_endpoint :: "int \<Rightarrow> desk \<Rightarrow> session_user \<Rightarrow> uuid \<Rightarrow> desk result" where
  "restore_review_endpoint window_days s caller review_id =
     bindE (require_permission REVIEWS_DELETE caller) (\<lambda>_.
     let can_manage = caller_can_manage_groups caller in
     bindE (get_restorable_review s review_id (su_id caller) can_manage (caller_can_review caller)
       (restore_cutoff window_days (time_of s))) (\<lambda>r.
     bindE (ensure (rv_status r = RS_PENDING \<or> can_manage \<or> rv_reviewer_id r = su_id caller)
       (ForbiddenError (Msg ''Only the reviewer who recorded a verdict (or a manager) can restore a decided review.'' []))) (\<lambda>_.
     bindE (assert_review_reassignable s r) (\<lambda>_.
     bindE (restore_review s r) (\<lambda>(r', s').
     Inr (notify_review_assigned r'
       (audit_desk caller ''review.restore'' ''review'' (row_id r') None (Some (review_snapshot r')) s')))))))"

definition unassign_review_endpoint :: "desk \<Rightarrow> session_user \<Rightarrow> uuid \<Rightarrow> desk result" where
  "unassign_review_endpoint s caller review_id =
     bindE (require_permission REVIEWS_DELETE caller) (\<lambda>_.
     let can_manage = caller_can_manage_groups caller in
     bindE (get_review s review_id (su_id caller) can_manage (caller_can_review caller)) (\<lambda>r.
     bindE (ensure (rv_status r = RS_PENDING \<or> can_manage \<or> rv_reviewer_id r = su_id caller)
       (ForbiddenError (Msg ''Only the reviewer who recorded a verdict (or a manager) can unassign a decided review.'' []))) (\<lambda>_.
     let (r', s') = unassign_review s r (su_id caller)
     in Inr (notify_review_unassigned r'
          (audit_desk caller ''review.unassign'' ''review'' (row_id r) (Some (review_snapshot r)) None s')))))"

subsection \<open>Routes that read\<close>

definition project_reviews :: "desk \<Rightarrow> review list \<Rightarrow> (review \<times> string option) list" where
  "project_reviews s rs = map (\<lambda>r. (r, map_of (resolve_reviewer_emails s rs) (rv_reviewer_id r))) rs"

definition list_reviews_endpoint ::
  "(review \<Rightarrow> 'k::linorder) \<Rightarrow> int \<Rightarrow> desk \<Rightarrow> session_user \<Rightarrow> review_filters \<Rightarrow> nat \<Rightarrow> nat \<Rightarrow> bool \<Rightarrow>
     ((review \<times> string option) list \<times> nat) result" where
  "list_reviews_endpoint order_key window_days s caller filters limit offset deleted =
     bindE (require_permission REVIEWS_READ caller) (\<lambda>_.
     let (rs, total) = list_reviews order_key s (su_id caller) (caller_can_manage_groups caller) (caller_can_review caller)
           filters limit offset deleted (restore_cutoff window_days (time_of s))
     in Inr (project_reviews s rs, total))"

definition review_queue_endpoint ::
  "desk \<Rightarrow> session_user \<Rightarrow> queue_filters \<Rightarrow> nat \<Rightarrow> nat \<Rightarrow> ((queue_entry \<times> string option list) list \<times> nat) result" where
  "review_queue_endpoint s caller filters limit offset =
     bindE (require_permission REVIEWS_READ caller) (\<lambda>_.
     let (entries, total) = review_queue s (su_id caller) (caller_can_manage_groups caller) (caller_can_review caller)
           filters limit offset;
         emails = resolve_reviewer_emails s (concat (map qe_reviews entries))
     in Inr (map (\<lambda>e. (e, map (\<lambda>r. map_of emails (rv_reviewer_id r)) (qe_reviews e))) entries, total))"

definition get_review_endpoint :: "desk \<Rightarrow> session_user \<Rightarrow> uuid \<Rightarrow> (review \<times> string option) result" where
  "get_review_endpoint s caller review_id =
     bindE (require_permission REVIEWS_READ caller) (\<lambda>_.
     bindE (get_review s review_id (su_id caller) (caller_can_manage_groups caller) (caller_can_review caller)) (\<lambda>r.
     Inr (hd (project_reviews s [r]))))"

definition get_submission_detail_endpoint ::
  "desk \<Rightarrow> session_user \<Rightarrow> uuid \<Rightarrow> nat \<Rightarrow> nat \<Rightarrow> (message_flag \<times> ((review \<times> string option) list \<times> nat) \<times> uuid list) result" where
  "get_submission_detail_endpoint s caller submission_id limit offset =
     bindE (require_permission REVIEWS_READ caller) (\<lambda>_.
     bindE (get_submission_detail s submission_id (su_id caller) (caller_can_manage_groups caller) (caller_can_review caller)
              limit offset) (\<lambda>(f, superseded, page, total).
     Inr (f, (project_reviews s page, total), py_sorted_set superseded)))"

definition get_submission_messages_endpoint ::
  "desk \<Rightarrow> session_user \<Rightarrow> uuid \<Rightarrow> nat \<Rightarrow> nat \<Rightarrow> ((message \<times> string list) list \<times> nat) result" where
  "get_submission_messages_endpoint s caller submission_id limit offset =
     bindE (require_permission REVIEWS_READ caller) (\<lambda>_.
     bindE (submission_conversation_messages s submission_id (su_id caller) (caller_can_manage_groups caller)
              (caller_can_review caller) limit offset) (\<lambda>(ms, total).
     Inr (map (\<lambda>m. (m, image_keys_for_message (chat s) (row_id m))) ms, total)))"

definition list_assignable_reviewers_endpoint ::
  "(string \<Rightarrow> string option \<Rightarrow> bool) \<Rightarrow> desk \<Rightarrow> session_user \<Rightarrow> uuid \<Rightarrow> string option \<Rightarrow> nat \<Rightarrow> nat \<Rightarrow> ((user \<times> nat) list \<times> nat) result" where
  "list_assignable_reviewers_endpoint ilike s caller submission_id search limit offset =
     bindE (require_permission REVIEWS_CREATE caller) (\<lambda>_.
     bindE (list_assignable_reviewers ilike s submission_id (su_id caller) (caller_can_manage_groups caller) search limit offset)
       (\<lambda>(us, total). let workload = count_active_reviews s (map row_id us)
        in Inr (map (\<lambda>u. (u, case map_of workload (row_id u) of None \<Rightarrow> 0 | Some n \<Rightarrow> n)) us, total)))"

end
