(* ===== verification/Annotations.thy ===== *)
theory Annotations
  imports Flags
begin

section \<open>Labels and annotations\<close>

text \<open>
  \<open>annotations/label_catalog.py\<close>, \<open>services/annotation_labels.py\<close>, \<open>services/annotations.py\<close> and the routes of
  \<open>api/v1/annotations.py\<close> and \<open>api/v1/annotation_labels.py\<close>.  \<open>cid\<close> is \<open>curated_label_id\<close>, the \<open>uuid5\<close> of the catalog key.
  A request is one transaction, so the lost races of the two inserts under a savepoint have no counterpart.  The refusal of the
  deploy sync is a \<open>RuntimeError\<close>; payload validation has cleaned a typed label to one non-empty line.
\<close>

subsection \<open>The catalog\<close>

definition CURATED_ANNOTATION_LABELS :: "(string \<times> string) list" where
  "CURATED_ANNOTATION_LABELS =
     [(''harmful-instructions'', ''Harmful instructions''), (''pii-leak'', ''PII leak''), (''jailbreak'', ''Jailbreak''),
      (''hallucination'', ''Hallucination''), (''bias'', ''Bias''), (''refusal'', ''Refusal''), (''off-policy'', ''Off-policy'')]"

definition same_wording :: "string \<Rightarrow> string \<Rightarrow> bool" where
  "same_wording a b \<longleftrightarrow> casefold a = casefold b"

definition upsert_label :: "(string \<Rightarrow> uuid) \<Rightarrow> string \<times> string \<Rightarrow> desk \<Rightarrow> desk" where
  "upsert_label cid entry s =
     (let i = cid (fst entry);
          values = (\<lambda>row. row\<lparr>lb_key := Some (fst entry), lb_name := snd entry, lb_created_by_id := None,
                             deleted_at := None, deleted_by_id := None\<rparr>)
      in if \<exists>x\<in>set (annotation_labels s). row_id x = i
         then s\<lparr>annotation_labels := map (\<lambda>x. if row_id x = i then values x else x) (annotation_labels s)\<rparr>
         else s\<lparr>annotation_labels := annotation_labels s @
                  [\<lparr>row_id = i, created_at = time_of s, deleted_at = None, deleted_by_id = None,
                    lb_created_by_id = None, lb_key = Some (fst entry), lb_name = snd entry\<rparr>]\<rparr>)"

definition sync_annotation_labels :: "(string \<Rightarrow> uuid) \<Rightarrow> desk \<Rightarrow> (nat \<times> desk) result" where
  "sync_annotation_labels cid s =
     (let shipped = map (\<lambda>(k, _). cid k) CURATED_ANNOTATION_LABELS;
          clashing = filter (\<lambda>x. (\<exists>(_, name)\<in>set CURATED_ANNOTATION_LABELS. same_wording (lb_name x) name) \<and>
                                 row_id x \<notin> set shipped) (live_select (annotation_labels s))
      in if clashing \<noteq> [] then Inl RuntimeError
         else Inr (length CURATED_ANNOTATION_LABELS, fold (upsert_label cid) CURATED_ANNOTATION_LABELS s))"

subsection \<open>A label for a wording\<close>

definition min_by_id :: "'a base_scheme list \<Rightarrow> 'a base_scheme option" where
  "min_by_id rows = (case sort_key row_id rows of [] \<Rightarrow> None | x # _ \<Rightarrow> Some x)"

definition find_or_create_user_label :: "desk \<Rightarrow> string \<Rightarrow> uuid \<Rightarrow> annotation_label \<times> desk" where
  "find_or_create_user_label s name caller_id =
     (let cleaned = sanitise_single_line name;
          named = filter (\<lambda>x. same_wording (lb_name x) cleaned) (live_select (annotation_labels s))
      in case min_by_id (filter (\<lambda>x. lb_created_by_id x = None) named) of
           Some x \<Rightarrow> (x, s)
         | None \<Rightarrow> (case List.find (\<lambda>x. lb_created_by_id x = Some caller_id) named of
               Some x \<Rightarrow> (x, s)
             | None \<Rightarrow>
                 (let x = \<lparr>row_id = next_key s, created_at = time_of s, deleted_at = None, deleted_by_id = None,
                           lb_created_by_id = Some caller_id, lb_key = None, lb_name = cleaned\<rparr>
                  in (x, (draw_key s)\<lparr>annotation_labels := annotation_labels s @ [x]\<rparr>))))"

definition annotation_scope :: "desk \<Rightarrow> uuid \<Rightarrow> bool \<Rightarrow> annotation \<Rightarrow> bool" where
  "annotation_scope s caller_id can_manage a \<longleftrightarrow>
     conversation_scoped s caller_id can_manage False (an_evaluation_id a) (an_conversation_id a) (an_created_by_id a)"

definition labels_used_in_conversation :: "desk \<Rightarrow> uuid \<Rightarrow> uuid \<Rightarrow> bool \<Rightarrow> uuid list" where
  "labels_used_in_conversation s conversation_id caller_id can_manage =
     map an_label_id (filter (\<lambda>a. an_conversation_id a = conversation_id \<and> annotation_scope s caller_id can_manage a)
       (live_select (annotations s)))"

subsection \<open>The picker\<close>

definition offered :: "desk \<Rightarrow> uuid \<Rightarrow> bool \<Rightarrow> uuid option \<Rightarrow> annotation_label \<Rightarrow> bool" where
  "offered s caller_id can_manage conversation_id x \<longleftrightarrow>
     lb_created_by_id x = None \<or> lb_created_by_id x = Some caller_id \<or>
     (case conversation_id of None \<Rightarrow> False
      | Some i \<Rightarrow> row_id x \<in> set (labels_used_in_conversation s i caller_id can_manage))"

definition precedence :: "uuid \<Rightarrow> annotation_label \<Rightarrow> nat" where
  "precedence caller_id x = (if lb_created_by_id x = None then 0 else if lb_created_by_id x = Some caller_id then 1 else 2)"

definition outranked :: "desk \<Rightarrow> uuid \<Rightarrow> bool \<Rightarrow> uuid option \<Rightarrow> annotation_label \<Rightarrow> bool" where
  "outranked s caller_id can_manage conversation_id x \<longleftrightarrow>
     (\<exists>b\<in>set (live_select (annotation_labels s)). same_wording (lb_name b) (lb_name x) \<and>
        offered s caller_id can_manage conversation_id b \<and>
        (precedence caller_id b < precedence caller_id x \<or>
         precedence caller_id b = precedence caller_id x \<and> row_id b < row_id x))"

definition list_annotation_labels ::
  "desk \<Rightarrow> uuid \<Rightarrow> bool \<Rightarrow> uuid option \<Rightarrow> nat \<Rightarrow> nat \<Rightarrow> annotation_label list \<times> nat" where
  "list_annotation_labels s caller_id can_manage conversation_id limit offset =
     paginate limit offset (sort_key (\<lambda>x. casefold (lb_name x)) (sort_key row_id
       (filter (\<lambda>x. \<not> outranked s caller_id can_manage conversation_id x)
         (filter (offered s caller_id can_manage conversation_id) (live_select (annotation_labels s))))))"

subsection \<open>Annotating\<close>

text \<open>\<open>message \<rightarrow> turn \<rightarrow> conversation \<rightarrow> evaluation \<rightarrow> group\<close>, all live and the group visible to the caller.\<close>

definition resolve_annotation_message :: "desk \<Rightarrow> uuid \<Rightarrow> uuid \<Rightarrow> (conversation \<times> uuid) result" where
  "resolve_annotation_message s message_id caller_id =
     the_or (NotFoundError (Msg ''Message {} not found.'' [AId message_id]))
       (case live_by_id message_id (messages (chat s)) of None \<Rightarrow> None
        | Some m \<Rightarrow> (case live_by_id (ms_turn_id m) (turns (chat s)) of None \<Rightarrow> None
            | Some t \<Rightarrow> resolve_ancestry s False (tn_conversation_id t) caller_id))"

definition get_live_duplicate :: "desk \<Rightarrow> uuid \<Rightarrow> uuid \<Rightarrow> uuid \<Rightarrow> annotation option" where
  "get_live_duplicate s message_id label_id caller_id =
     List.find (\<lambda>a. an_message_id a = message_id \<and> an_label_id a = label_id \<and> an_created_by_id a = caller_id)
       (live_select (annotations s))"

definition resolve_label :: "desk \<Rightarrow> uuid \<Rightarrow> uuid \<Rightarrow> uuid \<Rightarrow> (annotation_label \<times> desk) result" where
  "resolve_label s label_id conversation_id caller_id =
     (let missing = NotFoundError (Msg ''Annotation label {} not found.'' [AId label_id]) in
      bindE (the_or missing (live_by_id label_id (annotation_labels s))) (\<lambda>x.
      if lb_created_by_id x = None \<or> lb_created_by_id x = Some caller_id then Inr (x, s)
      else bindE (ensure (label_id \<in> set (labels_used_in_conversation s conversation_id caller_id False)) missing) (\<lambda>_.
        Inr (find_or_create_user_label s (lb_name x) caller_id))))"

record annotation_create =
  ac_message_id :: uuid
  ac_label_id :: "uuid option"
  ac_text :: "string option"

definition draft_label :: "desk \<Rightarrow> annotation_create \<Rightarrow> uuid \<Rightarrow> uuid \<Rightarrow> (annotation_label \<times> desk) result" where
  "draft_label s draft conversation_id caller_id =
     (case ac_label_id draft of Some i \<Rightarrow> resolve_label s i conversation_id caller_id
      | None \<Rightarrow> (case ac_text draft of Some w \<Rightarrow> Inr (find_or_create_user_label s w caller_id)
          | None \<Rightarrow> Inl (BadRequestError (Msg ''Provide exactly one of 'label_id' and 'text'.'' []))))"

definition create_annotation :: "desk \<Rightarrow> annotation_create \<Rightarrow> uuid \<Rightarrow> ((annotation \<times> bool) \<times> desk) result" where
  "create_annotation s draft caller_id =
     bindE (resolve_annotation_message s (ac_message_id draft) caller_id) (\<lambda>(x, group_id).
     bindE (draft_label s draft (row_id x) caller_id) (\<lambda>(label, s1).
     case get_live_duplicate s1 (ac_message_id draft) (row_id label) caller_id of
       Some a \<Rightarrow> Inr ((a, False), s1)
     | None \<Rightarrow>
         (let a = \<lparr>row_id = next_key s1, created_at = time_of s1, deleted_at = None, deleted_by_id = None,
                   an_message_id = ac_message_id draft, an_label_id = row_id label, an_created_by_id = caller_id,
                   an_conversation_id = row_id x, an_evaluation_id = c_evaluation_id x, an_evaluation_group_id = group_id\<rparr>
          in Inr ((a, True), (draw_key s1)\<lparr>annotations := annotations s1 @ [a]\<rparr>))))"

definition get_annotation :: "desk \<Rightarrow> uuid \<Rightarrow> uuid \<Rightarrow> bool \<Rightarrow> annotation result" where
  "get_annotation s annotation_id caller_id can_manage =
     the_or (NotFoundError (Msg ''Annotation {} not found.'' [AId annotation_id]))
       (List.find (\<lambda>a. row_id a = annotation_id \<and> annotation_scope s caller_id can_manage a) (live_select (annotations s)))"

record annotation_filters =
  af_message_id :: "uuid option"
  af_conversation_id :: "uuid option"
  af_evaluation_id :: "uuid option"
  af_evaluation_group_id :: "uuid option"
  af_label_id :: "uuid option"
  af_created_by_id :: "uuid option"
  af_created_from :: "timestamp option"
  af_created_to :: "timestamp option"
  af_deleted :: bool

definition annotation_filters_ok :: "annotation_filters \<Rightarrow> annotation \<Rightarrow> bool" where
  "annotation_filters_ok af a \<longleftrightarrow>
     holds_opt (\<lambda>i. an_message_id a = i) (af_message_id af) \<and> holds_opt (\<lambda>i. an_conversation_id a = i) (af_conversation_id af) \<and>
     holds_opt (\<lambda>i. an_evaluation_id a = i) (af_evaluation_id af) \<and>
     holds_opt (\<lambda>i. an_evaluation_group_id a = i) (af_evaluation_group_id af) \<and>
     holds_opt (\<lambda>i. an_label_id a = i) (af_label_id af) \<and> holds_opt (\<lambda>i. an_created_by_id a = i) (af_created_by_id af) \<and>
     holds_opt (\<lambda>t. t \<le> created_at a) (af_created_from af) \<and> holds_opt (\<lambda>t. created_at a \<le> t) (af_created_to af)"

definition list_annotations ::
  "(annotation \<Rightarrow> 'k::linorder) \<Rightarrow> desk \<Rightarrow> uuid \<Rightarrow> bool \<Rightarrow> annotation_filters \<Rightarrow> nat \<Rightarrow> nat \<Rightarrow> timestamp \<Rightarrow> annotation list \<times> nat" where
  "list_annotations order_key s caller_id can_manage filters limit offset deleted_cutoff =
     (let rows = (if af_deleted filters
                  then deleted_select deleted_cutoff (if can_manage then None else Some caller_id) (annotations s)
                  else live_select (annotations s))
      in paginate limit offset (sort_key order_key (sort_key row_id
           (filter (annotation_filters_ok filters) (filter (annotation_scope s caller_id can_manage) rows)))))"

definition assert_may_delete_annotation :: "annotation \<Rightarrow> uuid \<Rightarrow> bool \<Rightarrow> unit result" where
  "assert_may_delete_annotation a caller_id can_manage =
     ensure (can_manage \<or> an_created_by_id a = caller_id)
       (ForbiddenError (Msg ''Only the annotation's author may delete it.'' []))"

definition save_annotation :: "desk \<Rightarrow> annotation \<Rightarrow> desk" where
  "save_annotation s a = s\<lparr>annotations := save_row a (annotations s)\<rparr>"

definition soft_delete_annotation :: "desk \<Rightarrow> annotation \<Rightarrow> uuid \<Rightarrow> annotation \<times> desk" where
  "soft_delete_annotation s a by_id = (let a' = soft_delete (time_of s) (Some by_id) a in (a', save_annotation s a'))"

definition get_restorable_annotation :: "desk \<Rightarrow> uuid \<Rightarrow> uuid \<Rightarrow> bool \<Rightarrow> timestamp \<Rightarrow> annotation result" where
  "get_restorable_annotation s annotation_id caller_id can_manage deleted_cutoff =
     the_or (NotFoundError (Msg ''No restorable annotation {} was deleted within the restore window.'' [AId annotation_id]))
       (List.find (\<lambda>a. row_id a = annotation_id \<and> annotation_scope s caller_id can_manage a)
         (deleted_select deleted_cutoff (if can_manage then None else Some caller_id) (annotations s)))"

definition annotation_clash :: "annotation \<Rightarrow> annotation \<Rightarrow> bool" where
  "annotation_clash x a \<longleftrightarrow>
     an_message_id x = an_message_id a \<and> an_label_id x = an_label_id a \<and> an_created_by_id x = an_created_by_id a"

definition restore_annotation :: "desk \<Rightarrow> annotation \<Rightarrow> (annotation \<times> desk) result" where
  "restore_annotation s a =
     bindE (restore_row annotation_clash (Msg ''An identical annotation already exists.'' []) a (annotations s)) (\<lambda>(a', t).
     Inr (a', s\<lparr>annotations := t\<rparr>))"

subsection \<open>Routes\<close>

text \<open>The label is rendered whether it is retired or not.\<close>

definition annotation_snapshot :: "desk \<Rightarrow> annotation \<Rightarrow> (string \<times> arg) list" where
  "annotation_snapshot s a =
     [(''message_id'', AId (an_message_id a)), (''label_id'', AId (an_label_id a)),
      (''label_name'', AOpt (map_option lb_name (List.find (\<lambda>x. row_id x = an_label_id a) (annotation_labels s))))]"

definition create_annotation_endpoint :: "desk \<Rightarrow> session_user \<Rightarrow> annotation_create \<Rightarrow> (annotation \<times> desk) result" where
  "create_annotation_endpoint s caller draft =
     bindE (require_permission ANNOTATIONS_CREATE caller) (\<lambda>_.
     bindE (create_annotation s draft (su_id caller)) (\<lambda>((a, created), s').
     Inr (a, if created
             then audit_desk caller ''annotation.create'' ''annotation'' (row_id a) None (Some (annotation_snapshot s' a)) s'
             else s')))"

definition delete_annotation_endpoint :: "desk \<Rightarrow> session_user \<Rightarrow> uuid \<Rightarrow> desk result" where
  "delete_annotation_endpoint s caller annotation_id =
     bindE (require_permission ANNOTATIONS_DELETE caller) (\<lambda>_.
     let can_manage = caller_can_manage_groups caller in
     bindE (get_annotation s annotation_id (su_id caller) can_manage) (\<lambda>a.
     bindE (assert_may_delete_annotation a (su_id caller) can_manage) (\<lambda>_.
     Inr (audit_desk caller ''annotation.delete'' ''annotation'' (row_id a) (Some (annotation_snapshot s a)) None
            (snd (soft_delete_annotation s a (su_id caller)))))))"

definition restore_annotation_endpoint :: "int \<Rightarrow> desk \<Rightarrow> session_user \<Rightarrow> uuid \<Rightarrow> desk result" where
  "restore_annotation_endpoint window_days s caller annotation_id =
     bindE (require_permission ANNOTATIONS_DELETE caller) (\<lambda>_.
     bindE (get_restorable_annotation s annotation_id (su_id caller) (caller_can_manage_groups caller)
       (restore_cutoff window_days (time_of s))) (\<lambda>a.
     bindE (restore_annotation s a) (\<lambda>(a', s').
     Inr (audit_desk caller ''annotation.restore'' ''annotation'' (row_id a') None (Some (annotation_snapshot s' a')) s'))))"

definition list_annotation_labels_endpoint ::
  "desk \<Rightarrow> session_user \<Rightarrow> uuid option \<Rightarrow> nat \<Rightarrow> nat \<Rightarrow> (annotation_label list \<times> nat) result" where
  "list_annotation_labels_endpoint s caller conversation_id limit offset =
     bindE (require_permission ANNOTATIONS_READ caller) (\<lambda>_.
     Inr (list_annotation_labels s (su_id caller) (caller_can_manage_groups caller) conversation_id limit offset))"

definition list_annotations_endpoint ::
  "(annotation \<Rightarrow> 'k::linorder) \<Rightarrow> int \<Rightarrow> desk \<Rightarrow> session_user \<Rightarrow> annotation_filters \<Rightarrow> nat \<Rightarrow> nat \<Rightarrow> (annotation list \<times> nat) result" where
  "list_annotations_endpoint order_key window_days s caller filters limit offset =
     bindE (require_permission ANNOTATIONS_READ caller) (\<lambda>_.
     Inr (list_annotations order_key s (su_id caller) (caller_can_manage_groups caller) filters limit offset
            (restore_cutoff window_days (time_of s))))"

definition get_annotation_endpoint :: "desk \<Rightarrow> session_user \<Rightarrow> uuid \<Rightarrow> annotation result" where
  "get_annotation_endpoint s caller annotation_id =
     bindE (require_permission ANNOTATIONS_READ caller) (\<lambda>_.
     get_annotation s annotation_id (su_id caller) (caller_can_manage_groups caller))"

end
