(* ===== verification/Note_Service.thy ===== *)
theory Note_Service
  imports Flags
begin

section \<open>Notes and task completions\<close>

text \<open>
  \<open>annotations/services/notes.py\<close>, \<open>annotations/services/task_completions.py\<close> and the write routes of \<open>api/v1/notes.py\<close> and
  \<open>api/v1/task_completions.py\<close>.  A note selects messages of a conversation its author need not own; a completion is a live
  row per conversation, task and owner.  The lost race of the completion insert has no counterpart.
\<close>

subsection \<open>Notes\<close>

definition note_scope :: "desk \<Rightarrow> uuid \<Rightarrow> bool \<Rightarrow> note_row \<Rightarrow> bool" where
  "note_scope s caller_id can_manage n \<longleftrightarrow>
     conversation_scoped s caller_id can_manage True (nt_evaluation_id n) (nt_conversation_id n) (nt_created_by_id n)"

definition resolve_note_conversation :: "desk \<Rightarrow> uuid \<Rightarrow> uuid \<Rightarrow> (conversation \<times> uuid) result" where
  "resolve_note_conversation s conversation_id caller_id =
     the_or (NotFoundError (Msg ''Conversation {} not found.'' [AId conversation_id])) (resolve_ancestry s False conversation_id caller_id)"

record note_create =
  nc_conversation_id :: uuid
  nc_message_ids :: "uuid list"
  nc_text :: string

definition create_note :: "desk \<Rightarrow> note_create \<Rightarrow> uuid \<Rightarrow> (note_row \<times> desk) result" where
  "create_note s draft caller_id =
     bindE (resolve_note_conversation s (nc_conversation_id draft) caller_id) (\<lambda>(x, group_id).
     bindE (assert_messages_in_conversation (chat s) (nc_conversation_id draft) (nc_message_ids draft)) (\<lambda>_.
     let n = \<lparr>row_id = next_key s, created_at = time_of s, deleted_at = None, deleted_by_id = None, nt_text = nc_text draft,
              nt_created_by_id = caller_id, nt_conversation_id = row_id x, nt_evaluation_id = c_evaluation_id x,
              nt_evaluation_group_id = group_id\<rparr>
     in Inr (n, (draw_key s)\<lparr>note_rows := note_rows s @ [n],
          noted_messages := noted_messages s @ map (\<lambda>m. (row_id n, m)) (nc_message_ids draft)\<rparr>)))"

definition get_note :: "desk \<Rightarrow> uuid \<Rightarrow> uuid \<Rightarrow> bool \<Rightarrow> note_row result" where
  "get_note s note_id caller_id can_manage =
     the_or (NotFoundError (Msg ''Note {} not found.'' [AId note_id]))
       (List.find (\<lambda>n. row_id n = note_id \<and> note_scope s caller_id can_manage n) (live_select (note_rows s)))"

record note_filters =
  nf_conversation_id :: "uuid option"
  nf_evaluation_id :: "uuid option"
  nf_evaluation_group_id :: "uuid option"
  nf_created_by_id :: "uuid option"
  nf_created_from :: "timestamp option"
  nf_created_to :: "timestamp option"
  nf_message_id :: "uuid option"
  nf_search :: "string option"
  nf_deleted :: bool

definition note_filters_ok :: "(string \<Rightarrow> string option \<Rightarrow> bool) \<Rightarrow> desk \<Rightarrow> note_filters \<Rightarrow> note_row \<Rightarrow> bool" where
  "note_filters_ok ilike s nf n \<longleftrightarrow>
     holds_opt (\<lambda>i. nt_conversation_id n = i) (nf_conversation_id nf) \<and> holds_opt (\<lambda>i. nt_evaluation_id n = i) (nf_evaluation_id nf) \<and>
     holds_opt (\<lambda>i. nt_evaluation_group_id n = i) (nf_evaluation_group_id nf) \<and>
     holds_opt (\<lambda>i. nt_created_by_id n = i) (nf_created_by_id nf) \<and>
     holds_opt (\<lambda>t. t \<le> created_at n) (nf_created_from nf) \<and> holds_opt (\<lambda>t. created_at n \<le> t) (nf_created_to nf) \<and>
     holds_opt (\<lambda>i. (row_id n, i) \<in> set (noted_messages s)) (nf_message_id nf) \<and>
     holds_opt (\<lambda>q. ilike q (Some (nt_text n))) (nf_search nf)"

definition list_notes ::
  "(string \<Rightarrow> string option \<Rightarrow> bool) \<Rightarrow> (note_row \<Rightarrow> 'k::linorder) \<Rightarrow> desk \<Rightarrow> uuid \<Rightarrow> bool \<Rightarrow> note_filters \<Rightarrow> nat \<Rightarrow> nat \<Rightarrow>
     timestamp \<Rightarrow> note_row list \<times> nat" where
  "list_notes ilike order_key s caller_id can_manage filters limit offset deleted_cutoff =
     (let rows = (if nf_deleted filters
                  then deleted_select deleted_cutoff (if can_manage then None else Some caller_id) (note_rows s)
                  else live_select (note_rows s))
      in paginate limit offset (sort_key order_key (sort_key row_id
           (filter (note_filters_ok ilike s filters) (filter (note_scope s caller_id can_manage) rows)))))"

definition save_note :: "desk \<Rightarrow> note_row \<Rightarrow> desk" where
  "save_note s n = s\<lparr>note_rows := save_row n (note_rows s)\<rparr>"

definition update_note :: "desk \<Rightarrow> note_row \<Rightarrow> string option \<Rightarrow> note_row \<times> desk" where
  "update_note s n new_text = (let n' = n\<lparr>nt_text := set_or (nt_text n) new_text\<rparr> in (n', save_note s n'))"

definition soft_delete_note :: "desk \<Rightarrow> note_row \<Rightarrow> uuid \<Rightarrow> note_row \<times> desk" where
  "soft_delete_note s n by_id = (let n' = soft_delete (time_of s) (Some by_id) n in (n', save_note s n'))"

definition get_restorable_note :: "desk \<Rightarrow> uuid \<Rightarrow> uuid \<Rightarrow> bool \<Rightarrow> timestamp \<Rightarrow> note_row result" where
  "get_restorable_note s note_id caller_id can_manage deleted_cutoff =
     the_or (NotFoundError (Msg ''No restorable note {} was deleted within the restore window.'' [AId note_id]))
       (List.find (\<lambda>n. row_id n = note_id \<and> note_scope s caller_id can_manage n)
         (deleted_select deleted_cutoff (if can_manage then None else Some caller_id) (note_rows s)))"

definition restore_note :: "desk \<Rightarrow> note_row \<Rightarrow> (note_row \<times> desk) result" where
  "restore_note s n =
     bindE (restore_row (\<lambda>_ _. False) (Msg ''Note cannot be restored.'' []) n (note_rows s)) (\<lambda>(n', t).
     Inr (n', s\<lparr>note_rows := t\<rparr>))"

subsection \<open>Routes of notes\<close>

definition note_snapshot :: "note_row \<Rightarrow> (string \<times> arg) list" where
  "note_snapshot n = [(''text'', AStr (nt_text n))]"

definition create_note_endpoint :: "desk \<Rightarrow> session_user \<Rightarrow> note_create \<Rightarrow> desk result" where
  "create_note_endpoint s caller draft =
     bindE (require_permission NOTES_CREATE caller) (\<lambda>_.
     bindE (create_note s draft (su_id caller)) (\<lambda>(n, s').
     Inr (audit_desk caller ''note.create'' ''note'' (row_id n) None
       (Some (note_snapshot n @ [(''message_count'', ANat (length (nc_message_ids draft)))])) s')))"

definition update_note_endpoint :: "desk \<Rightarrow> session_user \<Rightarrow> uuid \<Rightarrow> string option \<Rightarrow> desk result" where
  "update_note_endpoint s caller note_id new_text =
     bindE (require_permission NOTES_UPDATE caller) (\<lambda>_.
     bindE (get_note s note_id (su_id caller) (caller_can_manage_groups caller)) (\<lambda>n.
     if new_text = None then Inr s
     else (let (n', s') = update_note s n new_text;
               (before, after) = changed_fields (note_snapshot n) (note_snapshot n')
           in Inr (if before \<noteq> [] \<or> after \<noteq> []
                   then audit_desk caller ''note.update'' ''note'' (row_id n') (Some before) (Some after) s' else s'))))"

definition delete_note_endpoint :: "desk \<Rightarrow> session_user \<Rightarrow> uuid \<Rightarrow> desk result" where
  "delete_note_endpoint s caller note_id =
     bindE (require_permission NOTES_DELETE caller) (\<lambda>_.
     bindE (get_note s note_id (su_id caller) (caller_can_manage_groups caller)) (\<lambda>n.
     Inr (audit_desk caller ''note.delete'' ''note'' (row_id n) (Some (note_snapshot n)) None
            (snd (soft_delete_note s n (su_id caller))))))"

definition restore_note_endpoint :: "int \<Rightarrow> desk \<Rightarrow> session_user \<Rightarrow> uuid \<Rightarrow> desk result" where
  "restore_note_endpoint window_days s caller note_id =
     bindE (require_permission NOTES_DELETE caller) (\<lambda>_.
     bindE (get_restorable_note s note_id (su_id caller) (caller_can_manage_groups caller)
       (restore_cutoff window_days (time_of s))) (\<lambda>n.
     bindE (restore_note s n) (\<lambda>(n', s').
     Inr (audit_desk caller ''note.restore'' ''note'' (row_id n') None (Some (note_snapshot n')) s'))))"

definition list_notes_endpoint ::
  "(string \<Rightarrow> string option \<Rightarrow> bool) \<Rightarrow> (note_row \<Rightarrow> 'k::linorder) \<Rightarrow> int \<Rightarrow> desk \<Rightarrow> session_user \<Rightarrow> note_filters \<Rightarrow> nat \<Rightarrow> nat \<Rightarrow>
     (note_row list \<times> nat) result" where
  "list_notes_endpoint ilike order_key window_days s caller filters limit offset =
     bindE (require_permission NOTES_READ caller) (\<lambda>_.
     Inr (list_notes ilike order_key s (su_id caller) (caller_can_manage_groups caller) filters limit offset
            (restore_cutoff window_days (time_of s))))"

definition get_note_endpoint :: "desk \<Rightarrow> session_user \<Rightarrow> uuid \<Rightarrow> note_row result" where
  "get_note_endpoint s caller note_id =
     bindE (require_permission NOTES_READ caller) (\<lambda>_. get_note s note_id (su_id caller) (caller_can_manage_groups caller))"

subsection \<open>Task completions\<close>

definition completion_scope :: "desk \<Rightarrow> uuid \<Rightarrow> bool \<Rightarrow> task_completion \<Rightarrow> bool" where
  "completion_scope s caller_id can_manage tc \<longleftrightarrow>
     conversation_scoped s caller_id can_manage True (tc_evaluation_id tc) (tc_conversation_id tc) (tc_created_by_id tc)"

definition get_owned_live_completion :: "desk \<Rightarrow> uuid \<Rightarrow> uuid \<Rightarrow> uuid \<Rightarrow> task_completion option" where
  "get_owned_live_completion s conversation_id task_id caller_id =
     List.find (\<lambda>tc. tc_conversation_id tc = conversation_id \<and> tc_task_id tc = task_id \<and> tc_created_by_id tc = caller_id)
       (live_select (task_completions s))"

definition complete_task :: "desk \<Rightarrow> uuid \<Rightarrow> uuid \<Rightarrow> uuid \<Rightarrow> (task_completion \<times> desk) result" where
  "complete_task s conversation_id task_id caller_id =
     bindE (resolve_conversation_context s conversation_id caller_id) (\<lambda>(x, group_id).
     bindE (task_of_scenario s task_id (c_scenario_id x)) (\<lambda>_.
     case get_owned_live_completion s conversation_id task_id caller_id of
       Some tc \<Rightarrow> Inr (tc, s)
     | None \<Rightarrow>
         (let tc = \<lparr>row_id = next_key s, created_at = time_of s, deleted_at = None, deleted_by_id = None,
                    tc_created_by_id = caller_id, tc_conversation_id = row_id x, tc_task_id = task_id,
                    tc_conversation_group_id = c_conversation_group_id x, tc_evaluation_id = c_evaluation_id x,
                    tc_evaluation_group_id = group_id, tc_scenario_id = Some (c_scenario_id x)\<rparr>
          in Inr (tc, (draw_key s)\<lparr>task_completions := task_completions s @ [tc]\<rparr>))))"

definition uncomplete_task :: "desk \<Rightarrow> uuid \<Rightarrow> uuid \<Rightarrow> uuid \<Rightarrow> desk result" where
  "uncomplete_task s conversation_id task_id caller_id =
     bindE (resolve_conversation_context s conversation_id caller_id) (\<lambda>_.
     case get_owned_live_completion s conversation_id task_id caller_id of
       None \<Rightarrow> Inr s
     | Some tc \<Rightarrow> Inr (s\<lparr>task_completions := save_row (soft_delete (time_of s) (Some caller_id) tc) (task_completions s)\<rparr>))"

definition list_conversation_completions :: "desk \<Rightarrow> uuid \<Rightarrow> uuid \<Rightarrow> bool \<Rightarrow> task_completion list" where
  "list_conversation_completions s conversation_id caller_id can_manage =
     sort_key created_at (sort_key row_id (filter (\<lambda>tc. tc_conversation_id tc = conversation_id \<and>
       completion_scope s caller_id can_manage tc) (live_select (task_completions s))))"

text \<open>The roll-up counts by the group a conversation is in now, not by the snapshot of the row.\<close>

definition conversation_now_in :: "desk \<Rightarrow> uuid \<Rightarrow> uuid \<Rightarrow> bool" where
  "conversation_now_in s conversation_group_id conversation_id \<longleftrightarrow>
     (\<exists>x\<in>set (live_select (conversations (chat s))). row_id x = conversation_id \<and> c_conversation_group_id x = conversation_group_id)"

definition group_completion_rollup :: "desk \<Rightarrow> uuid \<Rightarrow> uuid \<Rightarrow> bool \<Rightarrow> nat \<times> (uuid \<times> nat) list" where
  "group_completion_rollup s conversation_group_id caller_id can_manage =
     (let mine = filter (\<lambda>x. c_conversation_group_id x = conversation_group_id \<and>
            visible_evaluation_group (base_db s) (c_evaluation_id x) caller_id can_manage \<and>
            (can_manage \<or> c_user_id x = caller_id)) (live_select (conversations (chat s)));
          done_tasks = map tc_task_id (filter (\<lambda>tc. completion_scope s caller_id can_manage tc \<and>
            conversation_now_in s conversation_group_id (tc_conversation_id tc)) (live_select (task_completions s)))
      in (length mine, map (\<lambda>i. (i, length (filter (\<lambda>j. j = i) done_tasks))) (remdups done_tasks)))"

definition group_of_path_conversation :: "desk \<Rightarrow> uuid \<Rightarrow> uuid option" where
  "group_of_path_conversation s conversation_id =
     (case List.find (\<lambda>x. row_id x = conversation_id) (conversations (chat s)) of None \<Rightarrow> None
      | Some x \<Rightarrow> map_option e_evaluation_group_id (List.find (\<lambda>e. row_id e = c_evaluation_id x) (evaluations (base_db s))))"

definition group_of_path_conversation_group :: "desk \<Rightarrow> uuid \<Rightarrow> uuid option" where
  "group_of_path_conversation_group s conversation_group_id =
     (case List.find (\<lambda>x. row_id x = conversation_group_id) (conversation_groups (chat s)) of None \<Rightarrow> None
      | Some x \<Rightarrow> map_option e_evaluation_group_id (List.find (\<lambda>e. row_id e = cg_evaluation_id x) (evaluations (base_db s))))"

definition complete_task_endpoint :: "desk \<Rightarrow> session_user \<Rightarrow> uuid \<Rightarrow> uuid \<Rightarrow> (task_completion \<times> desk) result" where
  "complete_task_endpoint s caller conversation_id task_id =
     bindE (require_object_or_global CONVERSATIONS_UPDATE (base_db s) caller (group_of_path_conversation s conversation_id)) (\<lambda>_.
     complete_task s conversation_id task_id (su_id caller))"

definition uncomplete_task_endpoint :: "desk \<Rightarrow> session_user \<Rightarrow> uuid \<Rightarrow> uuid \<Rightarrow> desk result" where
  "uncomplete_task_endpoint s caller conversation_id task_id =
     bindE (require_object_or_global CONVERSATIONS_UPDATE (base_db s) caller (group_of_path_conversation s conversation_id)) (\<lambda>_.
     uncomplete_task s conversation_id task_id (su_id caller))"

definition list_conversation_completed_tasks_endpoint :: "desk \<Rightarrow> session_user \<Rightarrow> uuid \<Rightarrow> task_completion list result" where
  "list_conversation_completed_tasks_endpoint s caller conversation_id =
     bindE (require_object_or_global CONVERSATIONS_READ (base_db s) caller (group_of_path_conversation s conversation_id)) (\<lambda>_.
     Inr (list_conversation_completions s conversation_id (su_id caller) (caller_can_manage_groups caller)))"

definition group_completed_tasks_rollup_endpoint :: "desk \<Rightarrow> session_user \<Rightarrow> uuid \<Rightarrow> (nat \<times> (uuid \<times> nat) list) result" where
  "group_completed_tasks_rollup_endpoint s caller conversation_group_id =
     bindE (require_object_or_global CONVERSATIONS_READ (base_db s) caller
       (group_of_path_conversation_group s conversation_group_id)) (\<lambda>_.
     Inr (group_completion_rollup s conversation_group_id (su_id caller) (caller_can_manage_groups caller)))"

end
