(* ===== verification/Desk_Laws.thy ===== *)
theory Desk_Laws
  imports Reviews Annotations Note_Service Tag_Laws
begin

section \<open>The indexes of the annotation tables\<close>

text \<open>
  What the partial unique indexes of the annotation tables promise, and that the checks of the services keep every request
  within them: \<open>desk_step\<close> is one request of a caller (or any other change of the conversation database), \<open>desk_inv\<close> the
  invariant of its reachable states.
\<close>

subsection \<open>Unique keys of live rows\<close>

text \<open>A partial unique index: the rows with a key (not \<open>None\<close>) that are live have distinct keys.\<close>

definition indexed :: "('a base_scheme \<Rightarrow> 'k option) \<Rightarrow> uuid \<Rightarrow> 'a base_scheme list \<Rightarrow> bool" where
  "indexed key n t \<longleftrightarrow> keys_ok n t \<and>
     (\<forall>x\<in>set (live_select t). \<forall>y\<in>set (live_select t). key x \<noteq> None \<longrightarrow> key x = key y \<longrightarrow> x = y)"

lemma indexedI:
  assumes "keys_ok n t"
    and "\<And>a b. a \<in> set t \<Longrightarrow> b \<in> set t \<Longrightarrow> deleted_at a = None \<Longrightarrow> deleted_at b = None \<Longrightarrow> key a \<noteq> None \<Longrightarrow>
       key a = key b \<Longrightarrow> a = b"
  shows "indexed key n t"
  unfolding indexed_def by (intro conjI ballI impI) (simp_all add: assms)

lemma indexed_keys: "indexed key n t \<Longrightarrow> keys_ok n t"
  by (simp add: indexed_def)

lemma indexed_same:
  "indexed key n t \<Longrightarrow> x \<in> set t \<Longrightarrow> y \<in> set t \<Longrightarrow> deleted_at x = None \<Longrightarrow> deleted_at y = None \<Longrightarrow> key x = key y \<Longrightarrow>
     key x \<noteq> None \<Longrightarrow> x = y"
  by (simp add: indexed_def)

lemma indexed_mono: "indexed key n t \<Longrightarrow> n \<le> m \<Longrightarrow> indexed key m t"
  using keys_ok_mono by (auto simp: indexed_def)

lemma indexed_distinct:
  assumes "indexed key n t" and "\<And>x y. P x \<Longrightarrow> P y \<Longrightarrow> g x = g y \<Longrightarrow> key x = key y" and "\<And>x. P x \<Longrightarrow> key x \<noteq> None"
  shows "distinct (map g (filter P (live_select t)))"
proof -
  have "distinct t" using indexed_keys [OF assms(1)] by (simp add: keys_ok_def distinct_map)
  moreover have "inj_on g (set (filter P (live_select t)))"
  proof (rule inj_onI)
    fix x y assume xy: "x \<in> set (filter P (live_select t))" "y \<in> set (filter P (live_select t))" "g x = g y"
    then have "P x" "P y" "x \<in> set t" "y \<in> set t" "deleted_at x = None" "deleted_at y = None" by simp_all
    then show "x = y" using indexed_same [OF assms(1), of x y] assms(2) [of x y] assms(3) [of x] xy(3) by blast
  qed
  ultimately show ?thesis by (simp add: distinct_map live_select_def)
qed

lemma indexed_append:
  assumes "indexed key n t" and "row_id r = n" and "n < m"
    and "\<And>x. x \<in> set t \<Longrightarrow> deleted_at x = None \<Longrightarrow> key r \<noteq> None \<Longrightarrow> key x \<noteq> key r"
  shows "indexed key m (t @ [r])"
proof -
  have "keys_ok m (t @ [r])" using keys_ok_append [of n t r] keys_ok_mono assms by (fastforce simp: indexed_def)
  moreover have "a = b" if "a \<in> set (t @ [r])" "b \<in> set (t @ [r])" "deleted_at a = None" "deleted_at b = None"
      "key a \<noteq> None" "key a = key b" for a b
    using that assms(4) [of a] assms(4) [of b] indexed_same [OF assms(1), of a b] by auto
  ultimately show ?thesis by (rule indexedI)
qed

lemma indexed_save:
  assumes "indexed key n t" and "x \<in> set t" and "row_id r = row_id x"
    and "\<And>y. deleted_at r = None \<Longrightarrow> y \<in> set t \<Longrightarrow> deleted_at y = None \<Longrightarrow> row_id y \<noteq> row_id r \<Longrightarrow> key r \<noteq> None \<Longrightarrow> key y \<noteq> key r"
  shows "indexed key n (save_row r t)"
proof -
  have "keys_ok n (save_row r t)" using assms(1-3) keys_ok_save_row [of n t r] by (auto simp: indexed_def keys_ok_def)
  moreover have "a = b" if "a \<in> set (save_row r t)" "b \<in> set (save_row r t)" "deleted_at a = None" "deleted_at b = None"
      "key a \<noteq> None" "key a = key b" for a b
    using that assms(4) [of a] assms(4) [of b] indexed_same [OF assms(1), of a b] unfolding in_save_row by metis
  ultimately show ?thesis by (rule indexedI)
qed

lemma indexed_save_dead:
  "indexed key n t \<Longrightarrow> x \<in> set t \<Longrightarrow> row_id r = row_id x \<Longrightarrow> deleted_at r \<noteq> None \<Longrightarrow> indexed key n (save_row r t)"
  by (rule indexed_save) simp_all

lemma indexed_save_same:
  assumes "indexed key n t" and "x \<in> set t" and "row_id r = row_id x" and "deleted_at x = None" and "key r = key x"
  shows "indexed key n (save_row r t)"
  using assms indexed_same [OF assms(1) _ assms(2)] by (intro indexed_save [OF assms(1-3)]) metis

text \<open>A table whose tombstones come back through \<open>restore_row\<close>: the clash test is equality of the indexed keys, which a restore
  does not touch.\<close>

locale restorable_index =
  fixes key :: "'a base_scheme \<Rightarrow> 'k option" and clashes :: "'a base_scheme \<Rightarrow> 'a base_scheme \<Rightarrow> bool"
  assumes key_restore: "key (restore r) = key r"
    and clashes_key: "clashes x r \<longleftrightarrow> key x = key r"
begin

lemma restored:
  assumes "indexed key n t" and "r \<in> set t" and "restore_row clashes msg r t = Inr (r', t')"
  shows "indexed key n t'"
proof -
  have t': "t' = save_row (restore r) t"
    and free: "\<forall>x\<in>set (live_select t). row_id x \<noteq> row_id r \<longrightarrow> \<not> clashes x r"
    using assms(3) by (simp_all add: restore_row_Inr)
  show ?thesis unfolding t' using free by (intro indexed_save [OF assms(1,2)]) (auto simp: key_restore clashes_key)
qed

lemma restore_succeeds:
  assumes "indexed key n t" and "r \<in> set t" and "\<And>x. x \<in> set t \<Longrightarrow> deleted_at x = None \<Longrightarrow> key x \<noteq> key r"
  shows "restore_row clashes msg r t = Inr (restore r, save_row (restore r) t)"
  using assms(3) by (simp add: restore_row_Inr clashes_key)

end

definition review_key :: "review \<Rightarrow> (uuid \<times> uuid) option" where
  "review_key r = Some (rv_message_flag_id r, rv_reviewer_id r)"

definition annotation_key :: "annotation \<Rightarrow> (uuid \<times> uuid \<times> uuid) option" where
  "annotation_key a = Some (an_message_id a, an_label_id a, an_created_by_id a)"

definition completion_key :: "task_completion \<Rightarrow> (uuid \<times> uuid \<times> uuid) option" where
  "completion_key tc = Some (tc_conversation_id tc, tc_task_id tc, tc_created_by_id tc)"

definition author_name_key :: "annotation_label \<Rightarrow> (uuid \<times> string) option" where
  "author_name_key x = map_option (\<lambda>i. (i, casefold (lb_name x))) (lb_created_by_id x)"

lemma restore_fields [simp]:
  "rv_message_flag_id (restore r) = rv_message_flag_id r" "rv_reviewer_id (restore r) = rv_reviewer_id r"
  "rv_status (restore r) = rv_status r" "rv_evaluation_id (restore r) = rv_evaluation_id r"
  "an_message_id (restore a) = an_message_id a" "an_label_id (restore a) = an_label_id a"
  "an_created_by_id (restore a) = an_created_by_id a"
  by (simp_all add: restore_def)

interpretation review_index: restorable_index review_key review_clash
  by unfold_locales (auto simp: review_key_def review_clash_def)

interpretation annotation_index: restorable_index annotation_key annotation_clash
  by unfold_locales (auto simp: annotation_key_def annotation_clash_def)

subsection \<open>The invariant\<close>

definition reviews_of_others :: "desk \<Rightarrow> bool" where
  "reviews_of_others s \<longleftrightarrow> (\<forall>r\<in>set (reviews s). \<exists>f\<in>set (message_flags s). row_id f = rv_message_flag_id r \<and>
     fl_created_by_id f \<noteq> rv_reviewer_id r \<and> fl_evaluation_id f = rv_evaluation_id r)"

definition clean_labels :: "desk \<Rightarrow> bool" where
  "clean_labels s \<longleftrightarrow> (\<forall>x\<in>set (annotation_labels s). sanitise_single_line (lb_name x) = lb_name x)"

definition desk_inv :: "desk \<Rightarrow> bool" where
  "desk_inv s \<longleftrightarrow> keys_ok (next_key s) (message_flags s) \<and> indexed review_key (next_key s) (reviews s) \<and>
     indexed annotation_key (next_key s) (annotations s) \<and> indexed completion_key (next_key s) (task_completions s) \<and>
     indexed author_name_key (next_key s) (annotation_labels s) \<and> reviews_of_others s \<and> clean_labels s"

lemma desk_inv_start: "desk_inv (empty_desk c)"
  by (simp add: desk_inv_def empty_desk_def indexed_def keys_ok_def live_select_def reviews_of_others_def clean_labels_def)

lemma desk_inv_frame:
  assumes "desk_inv s" and "next_key s \<le> next_key s'" and "message_flags s' = message_flags s" and "reviews s' = reviews s"
    and "annotations s' = annotations s" and "task_completions s' = task_completions s" and "annotation_labels s' = annotation_labels s"
  shows "desk_inv s'"
  using assms keys_ok_mono [of "next_key s" "message_flags s" "next_key s'"] indexed_mono [OF _ assms(2)]
  unfolding desk_inv_def reviews_of_others_def clean_labels_def by metis

lemma audit_inv: "desk_inv s \<Longrightarrow> desk_inv (audit_desk c a t i b f s)"
  by (rule desk_inv_frame) simp_all

lemma notify_sel [simp]:
  "message_flags (notify_reviewer t r s) = message_flags s" "reviews (notify_reviewer t r s) = reviews s"
  "annotations (notify_reviewer t r s) = annotations s" "task_completions (notify_reviewer t r s) = task_completions s"
  "annotation_labels (notify_reviewer t r s) = annotation_labels s" "next_key (notify_reviewer t r s) = next_key s"
  by (simp_all add: notify_reviewer_def send_email_def split: option.splits)

lemma notify_inv: "desk_inv s \<Longrightarrow> desk_inv (notify_reviewer t r s)"
  by (rule desk_inv_frame) simp_all

lemma desk_invD:
  assumes "desk_inv s"
  shows "keys_ok (next_key s) (message_flags s)" and "indexed review_key (next_key s) (reviews s)"
    and "indexed annotation_key (next_key s) (annotations s)" and "indexed completion_key (next_key s) (task_completions s)"
    and "indexed author_name_key (next_key s) (annotation_labels s)" and "reviews_of_others s" and "clean_labels s"
  using assms by (simp_all add: desk_inv_def)

subsection \<open>Flags\<close>

lemma create_flag_inv:
  assumes "create_flag s draft u = Inr (f, s')" and "desk_inv s"
  shows "desk_inv s'"
proof -
  obtain fs where s': "message_flags s' = message_flags s @ [f]" "row_id f = next_key s" "next_key s' = Suc (next_key s)"
    "reviews s' = reviews s" "annotations s' = annotations s" "task_completions s' = task_completions s"
    "annotation_labels s' = annotation_labels s"
    using assms(1) by (auto simp: create_flag_def svc_simps Let_def case_prod_beta)
  have "indexed review_key (Suc (next_key s)) (reviews s)" "indexed annotation_key (Suc (next_key s)) (annotations s)"
    "indexed completion_key (Suc (next_key s)) (task_completions s)" "indexed author_name_key (Suc (next_key s)) (annotation_labels s)"
    using desk_invD [OF assms(2)] by (auto intro: indexed_mono)
  moreover have "keys_ok (Suc (next_key s)) (message_flags s @ [f])"
    using desk_invD(1) [OF assms(2)] s'(2) by (rule keys_ok_append)
  ultimately show ?thesis using desk_invD(6,7) [OF assms(2)]
    by (auto simp: desk_inv_def s' reviews_of_others_def clean_labels_def)
qed

lemma save_flag_inv:
  assumes "desk_inv s" and "f \<in> set (message_flags s)" and "row_id f' = row_id f" and "fl_created_by_id f' = fl_created_by_id f"
    and "fl_evaluation_id f' = fl_evaluation_id f"
  shows "desk_inv (s\<lparr>message_flags := save_row f' (message_flags s)\<rparr>)"
proof -
  have k: "keys_ok (next_key s) (message_flags s)" using desk_invD(1) [OF assms(1)] .
  have same: "g = f" if "g \<in> set (message_flags s)" "row_id g = row_id f" for g
    using k that assms(2) distinct_map_same [of row_id] by (auto simp: keys_ok_def)
  have "row_id f < next_key s" using k assms(2) by (simp add: keys_ok_def)
  moreover have "\<exists>g\<in>set (save_row f' (message_flags s)). row_id g = rv_message_flag_id r \<and>
      fl_created_by_id g \<noteq> rv_reviewer_id r \<and> fl_evaluation_id g = rv_evaluation_id r" if r: "r \<in> set (reviews s)" for r
  proof -
    obtain g where g: "g \<in> set (message_flags s)" "row_id g = rv_message_flag_id r" "fl_created_by_id g \<noteq> rv_reviewer_id r"
      "fl_evaluation_id g = rv_evaluation_id r"
      using desk_invD(6) [OF assms(1)] r by (auto simp: reviews_of_others_def)
    show ?thesis
    proof (cases "row_id g = row_id f")
      case True
      then show ?thesis using g same [OF g(1)] assms(2-5) saved_row_mem [of f _ f'] by (intro bexI [of _ f']) auto
    next
      case False
      then show ?thesis using g assms(3) by (intro bexI [of _ g]) (auto simp: in_save_row)
    qed
  qed
  ultimately show ?thesis using desk_invD [OF assms(1)] assms(3) by (auto simp: desk_inv_def reviews_of_others_def clean_labels_def)
qed

subsection \<open>Reviews\<close>

lemma assign_effect:
  assumes "assign_reviewer s flag_id reviewer_id u m = Inr (r, s')"
  obtains f where "f \<in> set (message_flags s)" "row_id f = flag_id" "fl_created_by_id f \<noteq> reviewer_id" "\<not> live_review s flag_id reviewer_id"
    "r = new_review s f reviewer_id u" "s' = (draw_key s)\<lparr>reviews := reviews s @ [r]\<rparr>"
  using assms that by (auto simp: assign_reviewer_def resolve_assignable_flag_def svc_simps Let_def dest!: find_SomeD)

lemma assign_inv:
  assumes "assign_reviewer s flag_id reviewer_id u m = Inr (r, s')" and "desk_inv s"
  shows "desk_inv s'"
proof -
  obtain f where f: "f \<in> set (message_flags s)" "row_id f = flag_id" "fl_created_by_id f \<noteq> reviewer_id" "\<not> live_review s flag_id reviewer_id"
    "r = new_review s f reviewer_id u" "s' = (draw_key s)\<lparr>reviews := reviews s @ [r]\<rparr>"
    using assign_effect [OF assms(1)] .
  have "indexed review_key (Suc (next_key s)) (reviews s @ [r])"
    using f(2,4) by (intro indexed_append [OF desk_invD(2) [OF assms(2)]])
      (auto simp: f(5) new_review_def live_review_def review_key_def)
  moreover have "keys_ok (Suc (next_key s)) (message_flags s)" "indexed annotation_key (Suc (next_key s)) (annotations s)"
    "indexed completion_key (Suc (next_key s)) (task_completions s)" "indexed author_name_key (Suc (next_key s)) (annotation_labels s)"
    using desk_invD [OF assms(2)] by (auto intro: indexed_mono keys_ok_mono)
  moreover have "reviews_of_others s'"
    using desk_invD(6) [OF assms(2)] f(1-3) by (auto simp: f(5,6) reviews_of_others_def new_review_def)
  ultimately show ?thesis using desk_invD(7) [OF assms(2)] by (simp add: desk_inv_def f(6) clean_labels_def)
qed

lemma reviews_inv:
  assumes "desk_inv s" and "indexed review_key (next_key s) t"
    and "\<And>r. r \<in> set t \<Longrightarrow> \<exists>x\<in>set (reviews s). rv_message_flag_id r = rv_message_flag_id x \<and> rv_reviewer_id r = rv_reviewer_id x \<and>
       rv_evaluation_id r = rv_evaluation_id x"
  shows "desk_inv (s\<lparr>reviews := t\<rparr>)"
  using assms(2) desk_invD [OF assms(1)] assms(3) unfolding desk_inv_def reviews_of_others_def clean_labels_def by (simp, metis)

lemma save_review_inv:
  assumes "desk_inv s" and "x \<in> set (reviews s)" and "row_id r = row_id x" and "rv_message_flag_id r = rv_message_flag_id x"
    and "rv_reviewer_id r = rv_reviewer_id x" and "rv_evaluation_id r = rv_evaluation_id x"
    and "deleted_at r = None \<Longrightarrow> deleted_at x = None"
  shows "desk_inv (save_review s r)"
proof -
  have "indexed review_key (next_key s) (save_row r (reviews s))"
  proof (cases "deleted_at r")
    case None
    then show ?thesis using assms(2-7) desk_invD(2) [OF assms(1)]
      by (intro indexed_save_same [of _ _ _ x]) (auto simp: review_key_def)
  next
    case (Some t)
    then show ?thesis using assms(2,3) desk_invD(2) [OF assms(1)] by (intro indexed_save_dead [of _ _ _ x]) auto
  qed
  then show ?thesis unfolding save_review_def using assms(2-6)
    by (intro reviews_inv [OF assms(1)]) (auto simp: in_save_row intro: bexI [of _ x])
qed

lemma restore_review_inv:
  assumes "desk_inv s" and "r \<in> set (reviews s)" and "restore_review s r = Inr (r', s')"
  shows "desk_inv s'"
proof -
  obtain t where t: "restore_row review_clash (Msg ''That reviewer is already assigned to this submission; unassign the live review first.'' []) r
      (reviews s) = Inr (r', t)" "s' = s\<lparr>reviews := t\<rparr>"
    using assms(3) by (auto simp: restore_review_def svc_simps)
  have "t = save_row (restore r) (reviews s)" using t(1) by (simp add: restore_row_Inr)
  then show ?thesis unfolding t(2) using assms(2) review_index.restored [OF desk_invD(2) [OF assms(1)] assms(2) t(1)]
    by (intro reviews_inv [OF assms(1)]) (auto simp: in_save_row intro: bexI [of _ r])
qed

subsection \<open>Labels, annotations, completions and notes\<close>

lemma min_by_id_None: "min_by_id rows = None \<longleftrightarrow> rows = []"
  by (auto simp: min_by_id_def split: list.splits)

lemma min_by_id_SomeD: "min_by_id rows = Some x \<Longrightarrow> x \<in> set rows \<and> (\<forall>y\<in>set rows. row_id x \<le> row_id y)"
proof -
  assume "min_by_id rows = Some x"
  then obtain xs where xs: "sort_key row_id rows = x # xs" by (auto simp: min_by_id_def split: list.splits)
  then have "set rows = set (x # xs)" "sorted (map row_id (x # xs))" by (metis set_sort, metis sorted_sort_key)
  then show ?thesis by auto
qed

lemma append_label_inv:
  assumes "desk_inv s" and "row_id x = next_key s" and "sanitise_single_line (lb_name x) = lb_name x"
    and "\<And>y. y \<in> set (annotation_labels s) \<Longrightarrow> deleted_at y = None \<Longrightarrow> author_name_key x \<noteq> None \<Longrightarrow> author_name_key y \<noteq> author_name_key x"
  shows "desk_inv ((draw_key s)\<lparr>annotation_labels := annotation_labels s @ [x]\<rparr>)"
proof -
  have "indexed author_name_key (Suc (next_key s)) (annotation_labels s @ [x])"
    using assms(4) by (intro indexed_append [OF desk_invD(5) [OF assms(1)] assms(2)]) simp_all
  moreover have "keys_ok (Suc (next_key s)) (message_flags s)" "indexed annotation_key (Suc (next_key s)) (annotations s)"
    "indexed completion_key (Suc (next_key s)) (task_completions s)" "indexed review_key (Suc (next_key s)) (reviews s)"
    using desk_invD [OF assms(1)] by (auto intro: indexed_mono keys_ok_mono)
  ultimately show ?thesis
    using desk_invD(6,7) [OF assms(1)] assms(3) by (simp add: desk_inv_def clean_labels_def reviews_of_others_def)
qed

lemma find_or_create_disj:
  assumes "find_or_create_user_label s name u = (x, s')"
  shows "(s' = s \<and> x \<in> set (live_select (annotation_labels s)) \<and> same_wording (lb_name x) (sanitise_single_line name) \<and>
       lb_created_by_id x \<in> {None, Some u}) \<or>
    (s' = (draw_key s)\<lparr>annotation_labels := annotation_labels s @ [x]\<rparr> \<and> row_id x = next_key s \<and> lb_created_by_id x = Some u \<and>
     lb_name x = sanitise_single_line name \<and> deleted_at x = None \<and>
     (\<forall>y\<in>set (live_select (annotation_labels s)). lb_created_by_id y = Some u \<longrightarrow> \<not> same_wording (lb_name y) (lb_name x)))"
proof -
  let ?w = "sanitise_single_line name"
  let ?named = "filter (\<lambda>x. same_wording (lb_name x) ?w) (live_select (annotation_labels s))"
  show ?thesis
  proof (cases "min_by_id (filter (\<lambda>x. lb_created_by_id x = None) ?named)")
    case None
    show ?thesis
    proof (cases "List.find (\<lambda>x. lb_created_by_id x = Some u) ?named")
      case none2: None
      have "\<not> same_wording (lb_name y) ?w" if "y \<in> set (live_select (annotation_labels s))" "lb_created_by_id y = Some u" for y
        using none2 that unfolding find_None_iff_all by auto
      then show ?thesis using assms None none2 unfolding find_or_create_user_label_def Let_def by (intro disjI2) auto
    next
      case (Some y)
      then show ?thesis using assms None find_SomeD [OF Some] by (auto simp: find_or_create_user_label_def Let_def)
    qed
  next
    case (Some y)
    then show ?thesis using assms min_by_id_SomeD [OF Some] by (auto simp: find_or_create_user_label_def Let_def)
  qed
qed

lemma find_or_create_inv:
  assumes "find_or_create_user_label s name u = (x, s')" and "desk_inv s"
  shows "desk_inv s'"
  using find_or_create_disj [OF assms(1)]
proof (elim disjE conjE)
  assume "s' = s"
  then show ?thesis using assms(2) by simp
next
  assume x: "row_id x = next_key s" "lb_created_by_id x = Some u" "lb_name x = sanitise_single_line name"
    and new: "\<forall>y\<in>set (live_select (annotation_labels s)). lb_created_by_id y = Some u \<longrightarrow> \<not> same_wording (lb_name y) (lb_name x)"
    and s': "s' = (draw_key s)\<lparr>annotation_labels := annotation_labels s @ [x]\<rparr>"
  show ?thesis unfolding s' using x new
    by (intro append_label_inv [OF assms(2)]) (auto simp: author_name_key_def same_wording_def sanitise_idem)
qed

lemma find_or_create_keeps:
  assumes "find_or_create_user_label s name u = (x, s')"
  shows "message_flags s' = message_flags s \<and> reviews s' = reviews s \<and> annotations s' = annotations s \<and>
    task_completions s' = task_completions s \<and> next_key s \<le> next_key s'"
  using find_or_create_disj [OF assms] by (elim disjE conjE) simp_all

lemma labels_inv:
  assumes "desk_inv s" and "indexed author_name_key (next_key s) t" and "\<And>x. x \<in> set t \<Longrightarrow> sanitise_single_line (lb_name x) = lb_name x"
  shows "desk_inv (s\<lparr>annotation_labels := t\<rparr>)"
  using assms(2,3) desk_invD [OF assms(1)] by (simp add: desk_inv_def reviews_of_others_def clean_labels_def)

lemma draft_label_inv:
  assumes "draft_label s draft i u = Inr (x, s')" and "desk_inv s"
  shows "desk_inv s'"
  using assms find_or_create_inv
  by (auto simp: draft_label_def resolve_label_def svc_simps Let_def split: option.splits if_splits)

lemma annotations_inv:
  assumes "desk_inv s" and "indexed annotation_key (next_key s) t"
  shows "desk_inv (s\<lparr>annotations := t\<rparr>)"
  using assms(2) desk_invD [OF assms(1)] by (simp add: desk_inv_def reviews_of_others_def clean_labels_def)

lemma draw_key_inv: "desk_inv s \<Longrightarrow> desk_inv (draw_key s)"
  by (rule desk_inv_frame) simp_all

lemma create_annotation_inv:
  assumes "create_annotation s draft u = Inr ((a, created), s')" and "desk_inv s"
  shows "desk_inv s'"
proof -
  obtain x g where r: "resolve_annotation_message s (ac_message_id draft) u = Inr (x, g)"
    using assms(1) by (auto simp: create_annotation_def svc_simps)
  obtain label s1 where l: "draft_label s draft (row_id x) u = Inr (label, s1)"
    using assms(1) r by (auto simp: create_annotation_def svc_simps)
  have i: "desk_inv s1" using draft_label_inv [OF l assms(2)] .
  show ?thesis
  proof (cases "get_live_duplicate s1 (ac_message_id draft) (row_id label) u")
    case None
    then have s': "s' = (draw_key s1)\<lparr>annotations := annotations s1 @ [a]\<rparr>" "row_id a = next_key s1"
      "annotation_key a = Some (ac_message_id draft, row_id label, u)"
      using assms(1) by (auto simp: create_annotation_def r l Let_def annotation_key_def)
    have "indexed annotation_key (Suc (next_key s1)) (annotations s1 @ [a])"
      using None s'(3) by (intro indexed_append [OF desk_invD(3) [OF i] s'(2)])
        (auto simp: get_live_duplicate_def find_None_iff_all annotation_key_def)
    then show ?thesis unfolding s'(1) by (intro annotations_inv draw_key_inv [OF i]) simp
  next
    case (Some b)
    then show ?thesis using assms(1) i by (auto simp: create_annotation_def r l)
  qed
qed

lemma delete_annotation_inv:
  assumes "desk_inv s" and "a \<in> set (annotations s)"
  shows "desk_inv (snd (soft_delete_annotation s a u))"
  using indexed_save_dead [OF desk_invD(3) [OF assms(1)] assms(2), of "soft_delete (time_of s) (Some u) a"]
  by (simp add: soft_delete_annotation_def save_annotation_def Let_def annotations_inv [OF assms(1)])

lemma restore_annotation_inv:
  assumes "desk_inv s" and "a \<in> set (annotations s)" and "restore_annotation s a = Inr (a', s')"
  shows "desk_inv s'"
  using assms(3) annotation_index.restored [OF desk_invD(3) [OF assms(1)] assms(2)] annotations_inv [OF assms(1)]
  by (auto simp: restore_annotation_def svc_simps)

lemma completions_inv:
  assumes "desk_inv s" and "indexed completion_key (next_key s) t"
  shows "desk_inv (s\<lparr>task_completions := t\<rparr>)"
  using assms(2) desk_invD [OF assms(1)] by (simp add: desk_inv_def reviews_of_others_def clean_labels_def)

lemma complete_task_inv:
  assumes "complete_task s i j u = Inr (tc, s')" and "desk_inv s"
  shows "desk_inv s'"
proof (cases "get_owned_live_completion s i j u")
  case None
  then have s': "s' = (draw_key s)\<lparr>task_completions := task_completions s @ [tc]\<rparr>" "row_id tc = next_key s"
    "completion_key tc = Some (i, j, u)"
    using assms(1) by (auto simp: complete_task_def svc_simps Let_def completion_key_def resolve_conversation_context_def resolve_ancestry_def
        split: option.splits if_splits dest!: find_SomeD)
  have "indexed completion_key (Suc (next_key s)) (task_completions s @ [tc])"
    using None s'(3) by (intro indexed_append [OF desk_invD(4) [OF assms(2)] s'(2)])
      (auto simp: get_owned_live_completion_def find_None_iff_all completion_key_def)
  then show ?thesis unfolding s'(1) by (intro completions_inv draw_key_inv [OF assms(2)]) simp
next
  case (Some b)
  then show ?thesis using assms by (auto simp: complete_task_def svc_simps)
qed

lemma uncomplete_task_inv:
  assumes "uncomplete_task s i j u = Inr s'" and "desk_inv s"
  shows "desk_inv s'"
proof (cases "get_owned_live_completion s i j u")
  case None
  then show ?thesis using assms by (auto simp: uncomplete_task_def svc_simps)
next
  case (Some tc)
  then have "tc \<in> set (task_completions s)" by (auto simp: get_owned_live_completion_def dest!: find_SomeD)
  then show ?thesis using Some assms(1) indexed_save_dead [OF desk_invD(4) [OF assms(2)], of tc "soft_delete (time_of s) (Some u) tc"]
    by (auto simp: uncomplete_task_def svc_simps intro!: completions_inv [OF assms(2)])
qed

lemma upsert_label_inv:
  assumes "desk_inv s" and "cid (fst entry) < next_key s" and "sanitise_single_line (snd entry) = snd entry"
  shows "desk_inv (upsert_label cid entry s) \<and> next_key (upsert_label cid entry s) = next_key s"
proof -
  let ?t = "annotation_labels (upsert_label cid entry s)"
  have keys: "keys_ok (next_key s) (annotation_labels s)" using desk_invD(5) [OF assms(1)] by (rule indexed_keys)
  have "keys_ok (next_key s) ?t"
    using keys assms(2) by (auto simp: upsert_label_def Let_def keys_ok_def o_def) (simp_all add: if_distrib cong: if_cong)
  moreover have "x = y" if "x \<in> set (live_select ?t)" "y \<in> set (live_select ?t)" "author_name_key x \<noteq> None"
      "author_name_key x = author_name_key y" for x y
    using that indexed_same [OF desk_invD(5) [OF assms(1)], of x y]
    by (cases "lb_created_by_id x"; cases "lb_created_by_id y") (auto simp: upsert_label_def Let_def author_name_key_def split: if_splits)
  then have "indexed author_name_key (next_key s) ?t" using calculation by (intro indexedI) auto
  moreover have "\<forall>x\<in>set ?t. sanitise_single_line (lb_name x) = lb_name x"
    using desk_invD(7) [OF assms(1)] assms(3) by (auto simp: upsert_label_def Let_def clean_labels_def)
  ultimately have "desk_inv (s\<lparr>annotation_labels := ?t\<rparr>)" by (intro labels_inv [OF assms(1)]) auto
  moreover have "s\<lparr>annotation_labels := ?t\<rparr> = upsert_label cid entry s" by (simp add: upsert_label_def Let_def)
  moreover have "next_key (upsert_label cid entry s) = next_key s" by (simp add: upsert_label_def Let_def)
  ultimately show ?thesis by (simp only: simp_thms)
qed

lemma catalog_clean: "list_all (\<lambda>entry. sanitise_single_line (snd entry) = snd entry) CURATED_ANNOTATION_LABELS"
  by code_simp

lemma sync_labels_inv:
  assumes "sync_annotation_labels cid s = Inr (n, s')" and "desk_inv s" and "\<forall>(k, w)\<in>set CURATED_ANNOTATION_LABELS. cid k < next_key s"
  shows "desk_inv s' \<and> next_key s' = next_key s"
proof -
  have "desk_inv (fold (upsert_label cid) es s) \<and> next_key (fold (upsert_label cid) es s) = next_key s"
    if "set es \<subseteq> set CURATED_ANNOTATION_LABELS" "desk_inv s" "\<forall>(k, w)\<in>set CURATED_ANNOTATION_LABELS. cid k < next_key s" for es s
    using that
  proof (induction es arbitrary: s)
    case (Cons e es)
    have "cid (fst e) < next_key s" "sanitise_single_line (snd e) = snd e"
      using Cons.prems(1,3) catalog_clean by (auto simp: list_all_iff)
    then have "desk_inv (upsert_label cid e s) \<and> next_key (upsert_label cid e s) = next_key s"
      using upsert_label_inv Cons.prems(2) by blast
    then show ?case using Cons.IH [of "upsert_label cid e s"] Cons.prems by auto
  qed simp
  then show ?thesis using assms by (auto simp: sync_annotation_labels_def Let_def split: if_splits)
qed

end
