(* ===== verification/Review_Laws.thy ===== *)
theory Review_Laws
  imports Desk_Laws
begin

section \<open>Requests on the annotation tables\<close>

text \<open>
  Every write route of flags, reviews, annotations, notes and task completions, the deploy sync of the labels, and any other
  change of the conversation database (which hands out keys, never takes them back), as one step of a caller; what holds in every
  reachable state, who can touch a verdict, and what the two pickers promise.
\<close>

inductive desk_step :: "(string \<Rightarrow> uuid) \<Rightarrow> session_user \<Rightarrow> desk \<Rightarrow> desk \<Rightarrow> bool" for cid :: "string \<Rightarrow> uuid" and caller :: session_user where
  create_flag: "create_message_flag_endpoint s caller draft = Inr s' \<Longrightarrow> desk_step cid caller s s'"
| update_flag: "update_message_flag_endpoint s caller i fch = Inr s' \<Longrightarrow> desk_step cid caller s s'"
| delete_flag: "delete_message_flag_endpoint s caller i = Inr s' \<Longrightarrow> desk_step cid caller s s'"
| restore_flag: "restore_message_flag_endpoint window_days s caller i = Inr s' \<Longrightarrow> desk_step cid caller s s'"
| assign: "assign_reviewer_endpoint s caller i u = Inr s' \<Longrightarrow> desk_step cid caller s s'"
| bulk_assign: "bulk_assign_reviewers_endpoint items s caller q = (r, s') \<Longrightarrow> desk_step cid caller s s'"
| verdict: "update_review_endpoint s caller i rch = Inr s' \<Longrightarrow> desk_step cid caller s s'"
| unassign: "unassign_review_endpoint s caller i = Inr s' \<Longrightarrow> desk_step cid caller s s'"
| restore_review: "restore_review_endpoint window_days s caller i = Inr s' \<Longrightarrow> desk_step cid caller s s'"
| annotate: "create_annotation_endpoint s caller adraft = Inr (a, s') \<Longrightarrow> desk_step cid caller s s'"
| delete_annotation: "delete_annotation_endpoint s caller i = Inr s' \<Longrightarrow> desk_step cid caller s s'"
| restore_annotation: "restore_annotation_endpoint window_days s caller i = Inr s' \<Longrightarrow> desk_step cid caller s s'"
| create_note: "create_note_endpoint s caller ndraft = Inr s' \<Longrightarrow> desk_step cid caller s s'"
| update_note: "update_note_endpoint s caller i w = Inr s' \<Longrightarrow> desk_step cid caller s s'"
| delete_note: "delete_note_endpoint s caller i = Inr s' \<Longrightarrow> desk_step cid caller s s'"
| restore_note: "restore_note_endpoint window_days s caller i = Inr s' \<Longrightarrow> desk_step cid caller s s'"
| complete: "complete_task_endpoint s caller i j = Inr (tc, s') \<Longrightarrow> desk_step cid caller s s'"
| uncomplete: "uncomplete_task_endpoint s caller i j = Inr s' \<Longrightarrow> desk_step cid caller s s'"
| sync: "sync_annotation_labels cid s = Inr (n, s') \<Longrightarrow> desk_step cid caller s s'"
| elsewhere: "fresh (chat s) \<le> fresh c \<Longrightarrow> desk_step cid caller s (s\<lparr>chat := c\<rparr>)"

definition some_step :: "(string \<Rightarrow> uuid) \<Rightarrow> desk \<Rightarrow> desk \<Rightarrow> bool" where
  "some_step cid s s' \<longleftrightarrow> (\<exists>caller. desk_step cid caller s s')"

subsection \<open>Every request keeps the invariant\<close>

lemma apply_bulk_keeps:
  assumes "\<And>s x y s'. P s \<Longrightarrow> processor s x = Inr (y, s') \<Longrightarrow> P s'" and "P s"
  shows "P (snd (apply_bulk (\<lambda>s s'. s) items processor s q))"
  using run_rows_keeps [of P processor s items 0 "bq_rows q", OF assms] assms(2) by (auto simp: apply_bulk_def split: sum.splits)

lemma fold_keeps: "(\<And>x s. P s \<Longrightarrow> P (f x s)) \<Longrightarrow> P s \<Longrightarrow> P (fold f xs s)"
  by (induction xs arbitrary: s) simp_all

lemma bulk_assign_keeps:
  assumes "bulk_assign_reviewers_endpoint items s caller q = (res, s')" and "P s"
    and "\<And>s i u r s'. P s \<Longrightarrow> assign_reviewer s i u (su_id caller) (caller_can_manage_groups caller) = Inr (r, s') \<Longrightarrow> P s'"
    and "\<And>s a b i v w. P s \<Longrightarrow> P (audit_desk caller a b i v w s)" and "\<And>s t r. P s \<Longrightarrow> P (notify_reviewer t r s)"
  shows "P s'"
proof -
  have n: "P (notify_review_assigned r s)" if "P s" for r s unfolding notify_review_assigned_def using that by (rule assms(5))
  let ?b = "apply_bulk (\<lambda>s s'. s) items (assign_processor (bq_dry_run q) caller) s q"
  have "P (snd ?b)"
    by (rule apply_bulk_keeps [where P = P, OF _ assms(2)]) (auto simp: assign_processor_def svc_simps split: if_splits intro: assms(3,4))
  moreover obtain r1 s1 where b: "?b = (r1, s1)" by (cases ?b)
  ultimately have "P s1" by simp
  then show ?thesis
    using assms(1,2) b fold_keeps [of P notify_review_assigned, OF n]
    by (cases r1) (auto simp: bulk_assign_reviewers_endpoint_def split: sum.splits if_splits)
qed

lemma get_review_mem: "get_review s i u m v = Inr r \<Longrightarrow> r \<in> set (reviews s) \<and> deleted_at r = None"
  by (auto simp: get_review_def svc_simps dest!: find_SomeD)

lemma get_restorable_review_mem: "get_restorable_review s i u m v c = Inr r \<Longrightarrow> r \<in> set (reviews s) \<and> deleted_at r \<noteq> None"
  by (auto simp: get_restorable_review_def svc_simps dest!: find_SomeD in_window_deleted)

lemma get_flag_mem: "get_flag s i u m = Inr f \<Longrightarrow> f \<in> set (message_flags s)"
  by (auto simp: get_flag_def svc_simps dest!: find_SomeD)

lemma get_restorable_flag_mem: "get_restorable_flag s i u m c = Inr f \<Longrightarrow> f \<in> set (message_flags s)"
  by (auto simp: get_restorable_flag_def svc_simps dest!: find_SomeD)

lemma get_annotation_mem: "get_annotation s i u m = Inr a \<Longrightarrow> a \<in> set (annotations s)"
  by (auto simp: get_annotation_def svc_simps dest!: find_SomeD)

lemma get_restorable_annotation_mem: "get_restorable_annotation s i u m c = Inr a \<Longrightarrow> a \<in> set (annotations s)"
  by (auto simp: get_restorable_annotation_def svc_simps dest!: find_SomeD)

lemma flag_routes_inv:
  assumes "desk_inv s"
  shows "create_message_flag_endpoint s caller draft = Inr s' \<Longrightarrow> desk_inv s'"
    and "update_message_flag_endpoint s caller i ch = Inr s' \<Longrightarrow> desk_inv s'"
    and "delete_message_flag_endpoint s caller i = Inr s' \<Longrightarrow> desk_inv s'"
    and "restore_message_flag_endpoint w s caller i = Inr s' \<Longrightarrow> desk_inv s'"
proof -
  show "create_message_flag_endpoint s caller draft = Inr s' \<Longrightarrow> desk_inv s'"
    using assms by (auto simp: create_message_flag_endpoint_def svc_simps intro!: audit_inv intro: create_flag_inv)
  show "update_message_flag_endpoint s caller i ch = Inr s' \<Longrightarrow> desk_inv s'"
    using assms by (auto simp: update_message_flag_endpoint_def update_flag_def save_flag_def Let_def case_prod_beta svc_simps
        split: if_splits intro!: audit_inv save_flag_inv dest!: get_flag_mem)
  show "delete_message_flag_endpoint s caller i = Inr s' \<Longrightarrow> desk_inv s'"
    using assms by (auto simp: delete_message_flag_endpoint_def soft_delete_flag_def save_flag_def soft_delete_def Let_def svc_simps
        intro!: audit_inv save_flag_inv dest!: get_flag_mem)
  show "restore_message_flag_endpoint w s caller i = Inr s' \<Longrightarrow> desk_inv s'"
    using assms by (auto simp: restore_message_flag_endpoint_def restore_flag_def restore_row_Inr restore_def svc_simps
        intro!: audit_inv save_flag_inv dest!: get_restorable_flag_mem)
qed

lemma review_routes_inv:
  assumes "desk_inv s"
  shows "assign_reviewer_endpoint s caller i u = Inr s' \<Longrightarrow> desk_inv s'"
    and "bulk_assign_reviewers_endpoint items s caller q = (res, s') \<Longrightarrow> desk_inv s'"
    and "update_review_endpoint s caller i ch = Inr s' \<Longrightarrow> desk_inv s'"
    and "unassign_review_endpoint s caller i = Inr s' \<Longrightarrow> desk_inv s'"
    and "restore_review_endpoint w s caller i = Inr s' \<Longrightarrow> desk_inv s'"
proof -
  show "assign_reviewer_endpoint s caller i u = Inr s' \<Longrightarrow> desk_inv s'"
    using assms by (auto simp: assign_reviewer_endpoint_def notify_review_assigned_def svc_simps
        intro!: audit_inv notify_inv intro: assign_inv)
  show "bulk_assign_reviewers_endpoint items s caller q = (res, s') \<Longrightarrow> desk_inv s'"
    by (erule bulk_assign_keeps [where P = desk_inv]) (auto intro: assms audit_inv notify_inv assign_inv)
  show "update_review_endpoint s caller i ch = Inr s' \<Longrightarrow> desk_inv s'"
    using assms by (auto simp: update_review_endpoint_def update_review_def Let_def case_prod_beta svc_simps
        split: if_splits intro!: audit_inv save_review_inv dest!: get_review_mem)
  show "unassign_review_endpoint s caller i = Inr s' \<Longrightarrow> desk_inv s'"
    using assms by (auto simp: unassign_review_endpoint_def unassign_review_def notify_review_unassigned_def soft_delete_def Let_def svc_simps
        intro!: audit_inv notify_inv save_review_inv dest!: get_review_mem)
  show "restore_review_endpoint w s caller i = Inr s' \<Longrightarrow> desk_inv s'"
    using assms by (auto simp: restore_review_endpoint_def notify_review_assigned_def Let_def svc_simps
        intro!: audit_inv notify_inv dest!: get_restorable_review_mem intro: restore_review_inv)
qed

lemma annotation_routes_inv:
  assumes "desk_inv s"
  shows "create_annotation_endpoint s caller draft = Inr (a, s') \<Longrightarrow> desk_inv s'"
    and "delete_annotation_endpoint s caller i = Inr s' \<Longrightarrow> desk_inv s'"
    and "restore_annotation_endpoint w s caller i = Inr s' \<Longrightarrow> desk_inv s'"
proof -
  show "create_annotation_endpoint s caller draft = Inr (a, s') \<Longrightarrow> desk_inv s'"
    using assms by (auto simp: create_annotation_endpoint_def svc_simps split: if_splits intro!: audit_inv intro: create_annotation_inv)
  show "delete_annotation_endpoint s caller i = Inr s' \<Longrightarrow> desk_inv s'"
    using assms by (auto simp: delete_annotation_endpoint_def Let_def svc_simps intro!: audit_inv delete_annotation_inv
        dest!: get_annotation_mem)
  show "restore_annotation_endpoint w s caller i = Inr s' \<Longrightarrow> desk_inv s'"
    using assms by (auto simp: restore_annotation_endpoint_def svc_simps intro!: audit_inv dest!: get_restorable_annotation_mem
        intro: restore_annotation_inv)
qed

lemma note_routes_inv:
  assumes "desk_inv s"
  shows "create_note_endpoint s caller draft = Inr s' \<Longrightarrow> desk_inv s'"
    and "update_note_endpoint s caller i w = Inr s' \<Longrightarrow> desk_inv s'"
    and "delete_note_endpoint s caller i = Inr s' \<Longrightarrow> desk_inv s'"
    and "restore_note_endpoint d s caller i = Inr s' \<Longrightarrow> desk_inv s'"
proof -
  show "create_note_endpoint s caller draft = Inr s' \<Longrightarrow> desk_inv s'"
    by (rule desk_inv_frame [OF assms]) (auto simp: create_note_endpoint_def create_note_def Let_def svc_simps)
  show "update_note_endpoint s caller i w = Inr s' \<Longrightarrow> desk_inv s'"
    by (rule desk_inv_frame [OF assms]) (auto simp: update_note_endpoint_def update_note_def save_note_def Let_def case_prod_beta svc_simps
        split: if_splits)
  show "delete_note_endpoint s caller i = Inr s' \<Longrightarrow> desk_inv s'"
    by (rule desk_inv_frame [OF assms]) (auto simp: delete_note_endpoint_def soft_delete_note_def save_note_def Let_def svc_simps)
  show "restore_note_endpoint d s caller i = Inr s' \<Longrightarrow> desk_inv s'"
    by (rule desk_inv_frame [OF assms]) (auto simp: restore_note_endpoint_def restore_note_def svc_simps)
qed

definition catalog_keys :: "(string \<Rightarrow> uuid) \<Rightarrow> uuid \<Rightarrow> bool" where
  "catalog_keys cid n \<longleftrightarrow> (\<forall>(k, w)\<in>set CURATED_ANNOTATION_LABELS. cid k < n)"

lemma desk_step_inv: "desk_step cid caller s s' \<Longrightarrow> desk_inv s \<Longrightarrow> catalog_keys cid (next_key s) \<Longrightarrow> desk_inv s'"
proof (induction rule: desk_step.induct)
  case (sync s n s')
  then show ?case using sync_labels_inv [OF sync(1,2)] unfolding catalog_keys_def by blast
next
  case (elsewhere s c)
  show ?case by (rule desk_inv_frame [OF elsewhere(2)]) (simp_all add: elsewhere(1))
next
  case (complete s i j tc s')
  then show ?case using complete_task_inv by (auto simp: complete_task_endpoint_def svc_simps)
next
  case (uncomplete s i j s')
  then show ?case using uncomplete_task_inv by (auto simp: uncomplete_task_endpoint_def svc_simps)
qed (rule flag_routes_inv review_routes_inv annotation_routes_inv note_routes_inv; assumption)+

lemma get_flag_routes_mono:
  shows "create_flag s draft u = Inr (f, s') \<Longrightarrow> next_key s \<le> next_key s'"
    and "assign_reviewer s i v u m = Inr (r, s') \<Longrightarrow> next_key s \<le> next_key s'"
    and "create_annotation s ad u = Inr (ac, s') \<Longrightarrow> next_key s \<le> next_key s'"
    and "complete_task s i j u = Inr (tc, s') \<Longrightarrow> next_key s \<le> next_key s'"
    and "uncomplete_task s i j u = Inr s' \<Longrightarrow> next_key s \<le> next_key s'"
    and "create_note s nd u = Inr (n, s') \<Longrightarrow> next_key s \<le> next_key s'"
proof -
  show "create_flag s draft u = Inr (f, s') \<Longrightarrow> next_key s \<le> next_key s'"
    by (auto simp: create_flag_def Let_def svc_simps)
  show "assign_reviewer s i v u m = Inr (r, s') \<Longrightarrow> next_key s \<le> next_key s'"
    by (auto simp: assign_reviewer_def Let_def svc_simps)
  have "draft_label s ad c u = Inr (x, s1) \<Longrightarrow> next_key s \<le> next_key s1" for c x s1
    using find_or_create_keeps by (auto simp: draft_label_def resolve_label_def svc_simps Let_def split: option.splits if_splits)
  then show "create_annotation s ad u = Inr (ac, s') \<Longrightarrow> next_key s \<le> next_key s'"
    by (fastforce simp: create_annotation_def Let_def svc_simps split: option.splits)
  show "complete_task s i j u = Inr (tc, s') \<Longrightarrow> next_key s \<le> next_key s'"
    by (auto simp: complete_task_def Let_def svc_simps split: option.splits)
  show "uncomplete_task s i j u = Inr s' \<Longrightarrow> next_key s \<le> next_key s'"
    by (auto simp: uncomplete_task_def svc_simps split: option.splits)
  show "create_note s nd u = Inr (n, s') \<Longrightarrow> next_key s \<le> next_key s'"
    by (auto simp: create_note_def Let_def svc_simps)
qed

lemmas save_defs = update_flag_def save_flag_def soft_delete_flag_def restore_flag_def update_review_def save_review_def
  unassign_review_def restore_review_def soft_delete_annotation_def save_annotation_def restore_annotation_def
  update_note_def save_note_def soft_delete_note_def restore_note_def

lemma upsert_key: "next_key (upsert_label cid e s) = next_key s"
  by (simp add: upsert_label_def Let_def)

lemma audit_mono: "next_key s \<le> next_key s' \<Longrightarrow> next_key s \<le> next_key (audit_desk c a t i b f s')"
  by simp

lemma desk_step_mono: "desk_step cid caller s s' \<Longrightarrow> next_key s \<le> next_key s'"
proof (induction rule: desk_step.induct)
  case (create_flag s draft s')
  then show ?case by (auto simp: create_message_flag_endpoint_def svc_simps intro: audit_mono get_flag_routes_mono(1))
next
  case (assign s i u s')
  then show ?case by (auto simp: assign_reviewer_endpoint_def notify_review_assigned_def svc_simps dest!: get_flag_routes_mono(2))
next
  case (bulk_assign items s q r s')
  show ?case by (rule bulk_assign_keeps [OF bulk_assign, of "\<lambda>x. next_key s \<le> next_key x"])
      (auto dest: get_flag_routes_mono(2) intro: le_trans)
next
  case (annotate s adraft a s')
  then show ?case by (auto simp: create_annotation_endpoint_def svc_simps split: if_splits intro: audit_mono get_flag_routes_mono(3))
next
  case (complete s i j tc s')
  then show ?case by (auto simp: complete_task_endpoint_def svc_simps intro: get_flag_routes_mono(4))
next
  case (uncomplete s i j s')
  then show ?case by (auto simp: uncomplete_task_endpoint_def svc_simps intro: get_flag_routes_mono(5))
next
  case (create_note s ndraft s')
  then show ?case by (auto simp: create_note_endpoint_def svc_simps intro: audit_mono get_flag_routes_mono(6))
next
  case (sync s n s')
  have "next_key (fold (upsert_label cid) es s) = next_key s" for es by (induction es arbitrary: s) (simp_all add: upsert_key)
  then show ?case using sync by (auto simp: sync_annotation_labels_def Let_def split: if_splits)
qed (auto simp: update_message_flag_endpoint_def delete_message_flag_endpoint_def restore_message_flag_endpoint_def
    update_review_endpoint_def unassign_review_endpoint_def restore_review_endpoint_def delete_annotation_endpoint_def
    restore_annotation_endpoint_def update_note_endpoint_def delete_note_endpoint_def restore_note_endpoint_def
    notify_review_assigned_def notify_review_unassigned_def save_defs Let_def case_prod_beta svc_simps split: if_splits)

lemma some_steps_inv:
  assumes "(some_step cid)\<^sup>*\<^sup>* s s'" and "desk_inv s" and "catalog_keys cid (next_key s)"
  shows "desk_inv s' \<and> catalog_keys cid (next_key s')"
  using assms
proof (induction rule: rtranclp_induct)
  case (step y z)
  then obtain caller where d: "desk_step cid caller y z" by (auto simp: some_step_def)
  have "next_key y \<le> next_key z" using desk_step_mono [OF d] .
  then have "catalog_keys cid (next_key z)" using step unfolding catalog_keys_def by fastforce
  then show ?case using desk_step_inv [OF d] step by blast
qed simp


subsection \<open>Verdicts belong to their reviewer\<close>

text \<open>What a caller without break-glass may do to somebody else's review: tombstone or revive it while it is pending.\<close>

definition verdicts_kept :: "session_user \<Rightarrow> review list \<Rightarrow> review list \<Rightarrow> bool" where
  "verdicts_kept caller rs rs' \<longleftrightarrow> (\<forall>r\<in>set rs. su_id caller \<noteq> rv_reviewer_id r \<longrightarrow>
     (\<exists>r'\<in>set rs'. r' = r\<lparr>deleted_at := deleted_at r', deleted_by_id := deleted_by_id r'\<rparr> \<and> (rv_status r \<noteq> RS_PENDING \<longrightarrow> r' = r)))"

lemma kept_same: "verdicts_kept caller rs rs"
  unfolding verdicts_kept_def
proof (intro ballI impI)
  fix r assume "r \<in> set rs"
  then show "\<exists>r'\<in>set rs. r' = r\<lparr>deleted_at := deleted_at r', deleted_by_id := deleted_by_id r'\<rparr> \<and> (rv_status r \<noteq> RS_PENDING \<longrightarrow> r' = r)"
    by (intro bexI [of _ r]) simp_all
qed

lemma kept_append: "verdicts_kept caller rs (rs @ new)"
  unfolding verdicts_kept_def
proof (intro ballI impI)
  fix r assume "r \<in> set rs"
  then show "\<exists>r'\<in>set (rs @ new). r' = r\<lparr>deleted_at := deleted_at r', deleted_by_id := deleted_by_id r'\<rparr> \<and> (rv_status r \<noteq> RS_PENDING \<longrightarrow> r' = r)"
    by (intro bexI [of _ r]) simp_all
qed

lemma kept_save:
  assumes "distinct (map row_id rs)" and "x \<in> set rs" and "row_id r = row_id x"
    and "su_id caller \<noteq> rv_reviewer_id x \<Longrightarrow> rv_status x = RS_PENDING \<and> r = x\<lparr>deleted_at := deleted_at r, deleted_by_id := deleted_by_id r\<rparr>"
  shows "verdicts_kept caller rs (save_row r rs)"
  unfolding verdicts_kept_def
proof (intro ballI impI)
  fix q assume q: "q \<in> set rs" "su_id caller \<noteq> rv_reviewer_id q"
  show "\<exists>q'\<in>set (save_row r rs). q' = q\<lparr>deleted_at := deleted_at q', deleted_by_id := deleted_by_id q'\<rparr> \<and> (rv_status q \<noteq> RS_PENDING \<longrightarrow> q' = q)"
  proof (cases "row_id q = row_id x")
    case True
    then have "q = x" using distinct_map_same [OF assms(1) q(1) assms(2)] by simp
    then show ?thesis using assms(2-4) q(2) saved_row_mem [of x rs r] by (intro bexI [of _ r]) auto
  next
    case False
    then show ?thesis using q(1) assms(3) by (intro bexI [of _ q]) (simp_all add: in_save_row)
  qed
qed

lemma annotation_reviews: "create_annotation_endpoint s caller draft = Inr (a, s') \<Longrightarrow> reviews s' = reviews s"
proof -
  have "draft_label s d c u = Inr (x, s1) \<Longrightarrow> reviews s1 = reviews s" for d c u x s1
    using find_or_create_keeps by (auto simp: draft_label_def resolve_label_def svc_simps Let_def split: option.splits if_splits)
  then show "create_annotation_endpoint s caller draft = Inr (a, s') \<Longrightarrow> reviews s' = reviews s"
    by (fastforce simp: create_annotation_endpoint_def create_annotation_def Let_def svc_simps split: option.splits if_splits)
qed

lemma review_rows_distinct: "desk_inv s \<Longrightarrow> distinct (map row_id (reviews s))"
  using desk_invD(2) by (auto simp: indexed_def keys_ok_def)

lemma desk_step_verdicts:
  assumes "desk_step cid caller s s'" and "desk_inv s" and "\<not> caller_can_manage_groups caller"
  shows "verdicts_kept caller (reviews s) (reviews s')"
  using assms
proof (induction rule: desk_step.induct)
  case (assign s i u s')
  then obtain r where "reviews s' = reviews s @ [r]"
    by (auto simp: assign_reviewer_endpoint_def assign_reviewer_def notify_review_assigned_def Let_def svc_simps)
  then show ?case by (simp add: kept_append)
next
  case (bulk_assign items s q r s')
  have "\<exists>new. reviews s' = reviews s @ new"
    by (rule bulk_assign_keeps [OF bulk_assign(1), of "\<lambda>x. \<exists>new. reviews x = reviews s @ new"])
      (auto simp: assign_reviewer_def Let_def svc_simps)
  then show ?case using kept_append by metis
next
  case (verdict s i rch s')
  then obtain r where r: "r \<in> set (reviews s)" "rv_reviewer_id r = su_id caller"
    and s': "reviews s' = save_row (fst (update_review s r rch)) (reviews s)"
    by (auto simp: update_review_endpoint_def update_review_def save_review_def Let_def case_prod_beta svc_simps
        split: if_splits dest!: get_review_mem)
  show ?case unfolding s' by (rule kept_save [OF review_rows_distinct [OF verdict(2)] r(1)])
      (simp_all add: update_review_def Let_def r(2))
next
  case (unassign s i s')
  then obtain r where r: "r \<in> set (reviews s)" "rv_status r = RS_PENDING \<or> rv_reviewer_id r = su_id caller"
    and s': "reviews s' = save_row (soft_delete (time_of s) (Some (su_id caller)) r) (reviews s)"
    by (auto simp: unassign_review_endpoint_def unassign_review_def save_review_def notify_review_unassigned_def Let_def svc_simps
        dest!: get_review_mem)
  show ?case unfolding s' by (rule kept_save [OF review_rows_distinct [OF unassign(2)] r(1)]) (use r(2) in \<open>auto simp: soft_delete_def\<close>)
next
  case (restore_review window_days s i s')
  then obtain r where r: "r \<in> set (reviews s)" "rv_status r = RS_PENDING \<or> rv_reviewer_id r = su_id caller"
    and s': "reviews s' = save_row (restore r) (reviews s)"
    by (auto simp: restore_review_endpoint_def restore_review_def restore_row_Inr notify_review_assigned_def Let_def svc_simps
        dest!: get_restorable_review_mem)
  show ?case unfolding s' by (rule kept_save [OF review_rows_distinct [OF restore_review(2)] r(1)]) (use r(2) in \<open>auto simp: restore_def\<close>)
next
  case (annotate s adraft a s')
  then show ?case using annotation_reviews kept_same by metis
next
  case (sync s n s')
  have "reviews (fold (upsert_label cid) es s) = reviews s" for es by (induction es arbitrary: s) (simp_all add: upsert_label_def Let_def)
  then have "reviews s' = reviews s" using sync(1) by (auto simp: sync_annotation_labels_def Let_def split: if_splits)
  then show ?case by (simp add: kept_same)
next
  case (create_flag s draft s')
  then have "reviews s' = reviews s" by (auto simp: create_message_flag_endpoint_def create_flag_def Let_def svc_simps)
  then show ?case by (simp add: kept_same)
next
  case (create_note s ndraft s')
  then have "reviews s' = reviews s" by (auto simp: create_note_endpoint_def create_note_def Let_def svc_simps)
  then show ?case by (simp add: kept_same)
next
  case (complete s i j tc s')
  then have "reviews s' = reviews s" by (auto simp: complete_task_endpoint_def complete_task_def Let_def svc_simps split: option.splits)
  then show ?case by (simp add: kept_same)
next
  case (uncomplete s i j s')
  then have "reviews s' = reviews s" by (auto simp: uncomplete_task_endpoint_def uncomplete_task_def svc_simps split: option.splits)
  then show ?case by (simp add: kept_same)
next
  case (elsewhere s c)
  show ?case by (simp add: kept_same)
qed (auto simp: update_message_flag_endpoint_def delete_message_flag_endpoint_def restore_message_flag_endpoint_def
    delete_annotation_endpoint_def restore_annotation_endpoint_def update_note_endpoint_def delete_note_endpoint_def
    restore_note_endpoint_def save_defs Let_def case_prod_beta svc_simps kept_same split: if_splits)

text \<open>C6: A verdict belongs to its reviewer: whatever requests callers make who are neither the reviewer of a review nor hold the
  break-glass permission, in any order and number, the review keeps its status, its assessment and its notes; and once it is
  decided it is neither unassigned nor revived: the row stays exactly as it is.\<close>

theorem verdicts_protected:
  assumes "(some_step cid)\<^sup>*\<^sup>* (empty_desk c) s" and "catalog_keys cid (fresh c)" and "r \<in> set (reviews s)"
    and "(\<lambda>a b. \<exists>caller. su_id caller \<noteq> rv_reviewer_id r \<and> \<not> caller_can_manage_groups caller \<and> desk_step cid caller a b)\<^sup>*\<^sup>* s s'"
  shows "\<exists>r'\<in>set (reviews s'). r' = r\<lparr>deleted_at := deleted_at r', deleted_by_id := deleted_by_id r'\<rparr> \<and>
    (rv_status r \<noteq> RS_PENDING \<longrightarrow> r' = r)"
proof -
  have i: "desk_inv s \<and> catalog_keys cid (next_key s)"
    using some_steps_inv [OF assms(1) desk_inv_start] assms(2) by (simp add: empty_desk_def)
  have "(desk_inv s' \<and> catalog_keys cid (next_key s')) \<and>
    (\<exists>r'\<in>set (reviews s'). r' = r\<lparr>deleted_at := deleted_at r', deleted_by_id := deleted_by_id r'\<rparr> \<and> (rv_status r \<noteq> RS_PENDING \<longrightarrow> r' = r))"
    using assms(4)
  proof (induction rule: rtranclp_induct)
    case base
    show ?case using i assms(3) by (intro conjI bexI [of _ r]) simp_all
  next
    case (step y z)
    then obtain caller where c: "su_id caller \<noteq> rv_reviewer_id r" "\<not> caller_can_manage_groups caller" "desk_step cid caller y z" by blast
    have "some_step cid y z" using c(3) by (auto simp: some_step_def)
    then have inv: "desk_inv z \<and> catalog_keys cid (next_key z)" using some_steps_inv [of cid y z] step.IH by blast
    obtain q where q: "q \<in> set (reviews y)" "q = r\<lparr>deleted_at := deleted_at q, deleted_by_id := deleted_by_id q\<rparr>"
      "rv_status r \<noteq> RS_PENDING \<longrightarrow> q = r" using step.IH by blast
    have same: "rv_reviewer_id q = rv_reviewer_id r" "rv_status q = rv_status r" by (subst q(2), simp)+
    obtain q' where q': "q' \<in> set (reviews z)" "q' = q\<lparr>deleted_at := deleted_at q', deleted_by_id := deleted_by_id q'\<rparr>"
      "rv_status q \<noteq> RS_PENDING \<longrightarrow> q' = q"
      using desk_step_verdicts [OF c(3) _ c(2)] step.IH q(1) c(1) same(1) unfolding verdicts_kept_def by metis
    have "q' = r\<lparr>deleted_at := deleted_at q', deleted_by_id := deleted_by_id q'\<rparr>"
      by (subst q'(2), subst q(2)) simp
    then show ?case using inv q'(1,3) q(3) same(2) by (intro conjI bexI [of _ q']) auto
  qed
  then show ?thesis by blast
qed

subsection \<open>The picker of reviewers and the gate behind it\<close>

lemma pool_checks:
  "pool_check s f i = Inr () \<longleftrightarrow> (case live_by_id (fl_evaluation_group_id f) (groups (base_db s)) of None \<Rightarrow> False
     | Some g \<Rightarrow> is_assignable_annotator (base_db s) g i)"
  by (simp add: pool_check_def ensure_def split: option.splits)

text \<open>C13: The picker of reviewers and the assignment it feeds agree: for every submission and caller, either both refuse with the
  same error, or the picker lists exactly the users whose assignment goes through.\<close>

theorem picker_is_gate:
  assumes "length (users (base_db s)) \<le> limit"
  shows "case list_assignable_reviewers ilike s flag_id caller_id can_manage None limit 0 of
      Inl e \<Rightarrow> \<forall>i. assign_reviewer s flag_id i caller_id can_manage = Inl e
    | Inr (us, n) \<Rightarrow> row_id ` set us = {i. \<exists>r s'. assign_reviewer s flag_id i caller_id can_manage = Inr (r, s')} \<and> n = length us"
proof (cases "resolve_assignable_flag s flag_id caller_id can_manage")
  case (Inl e)
  then show ?thesis by (simp add: list_assignable_reviewers_def assign_reviewer_def)
next
  case (Inr f)
  have fid: "row_id f = flag_id" using Inr by (auto simp: resolve_assignable_flag_def svc_simps dest!: find_SomeD)
  have gate: "(\<exists>r s'. assign_reviewer s flag_id i caller_id can_manage = Inr (r, s')) \<longleftrightarrow>
      fl_status f = FS_PENDING \<and> i \<noteq> fl_created_by_id f \<and> live_by_id i (users (base_db s)) \<noteq> None \<and>
      pool_check s f i = Inr () \<and> \<not> live_review s flag_id i" for i
    by (auto simp: assign_reviewer_def Inr Let_def svc_simps ensure_def split: if_splits)
  show ?thesis
  proof (cases "fl_status f = FS_PENDING")
    case False
    then show ?thesis by (simp add: list_assignable_reviewers_def Inr gate)
  next
    case pending: True
    show ?thesis
    proof (cases "live_by_id (fl_evaluation_group_id f) (groups (base_db s))")
      case None
      then show ?thesis using pending by (simp add: list_assignable_reviewers_def Inr gate pool_checks)
    next
      case (Some g)
      let ?ok = "\<lambda>u. annotator_pool_predicate (base_db s) g u \<and> row_id u \<noteq> fl_created_by_id f \<and> \<not> live_review s flag_id (row_id u)"
      let ?us = "sort_key u_email (sort_key row_id (filter ?ok (live_select (users (base_db s)))))"
      have "length ?us \<le> limit" using assms by (simp add: live_select_def) (meson le_trans length_filter_le)
      then have "list_assignable_reviewers ilike s flag_id caller_id can_manage None limit 0 = Inr (?us, length ?us)"
        using pending Some by (simp add: list_assignable_reviewers_def Inr paginate_def matches_user_def)
      moreover have "row_id ` set ?us = {i. \<exists>r s'. assign_reviewer s flag_id i caller_id can_manage = Inr (r, s')}"
      proof -
        have listed: "i \<in> row_id ` set ?us \<longleftrightarrow> (\<exists>u. u \<in> set (users (base_db s)) \<and> deleted_at u = None \<and> row_id u = i \<and> ?ok u)" for i
          by auto
        have accepted: "(\<exists>u. u \<in> set (users (base_db s)) \<and> deleted_at u = None \<and> row_id u = i \<and> ?ok u) \<longleftrightarrow>
            (\<exists>r s'. assign_reviewer s flag_id i caller_id can_manage = Inr (r, s'))" for i
        proof
          assume "\<exists>u. u \<in> set (users (base_db s)) \<and> deleted_at u = None \<and> row_id u = i \<and> ?ok u"
          then show "\<exists>r s'. assign_reviewer s flag_id i caller_id can_manage = Inr (r, s')"
            unfolding gate pending pool_checks Some is_assignable_annotator_def live_by_id_None by auto
        next
          assume a: "\<exists>r s'. assign_reviewer s flag_id i caller_id can_manage = Inr (r, s')"
          then obtain u where "u \<in> set (users (base_db s))" "deleted_at u = None" "row_id u = i" "annotator_pool_predicate (base_db s) g u"
            unfolding gate pool_checks Some is_assignable_annotator_def by auto
          with a show "\<exists>u. u \<in> set (users (base_db s)) \<and> deleted_at u = None \<and> row_id u = i \<and> ?ok u"
            unfolding gate by (intro exI [of _ u]) simp
        qed
        show ?thesis by (rule set_eqI) (simp only: mem_Collect_eq trans [OF listed accepted])
      qed
      ultimately show ?thesis by simp
    qed
  qed
qed

subsection \<open>The picker of labels\<close>

lemma wording_trans: "same_wording a b \<Longrightarrow> same_wording b c \<Longrightarrow> same_wording a c"
  by (simp add: same_wording_def)

lemma best_label:
  assumes "x \<in> set (live_select (annotation_labels s))" and "offered s u m i x"
  obtains y where "y \<in> set (live_select (annotation_labels s))" "offered s u m i y" "same_wording (lb_name y) (lb_name x)"
    "\<not> outranked s u m i y" "precedence u y \<le> precedence u x"
proof -
  let ?S = "{y \<in> set (live_select (annotation_labels s)). offered s u m i y \<and> same_wording (lb_name y) (lb_name x) \<and>
      precedence u y \<le> precedence u x}"
  let ?f = "\<lambda>y. (precedence u y, row_id y)"
  have "x \<in> ?S" using assms by (simp add: same_wording_def)
  then obtain y where y: "y \<in> ?S" and least: "\<And>z. (?f z, ?f y) \<in> less_than <*lex*> less_than \<Longrightarrow> z \<notin> ?S"
    using wfE_min [of "inv_image (less_than <*lex*> less_than) ?f" x ?S] by (auto simp: wf_lex_prod in_inv_image)
  have "\<not> outranked s u m i y"
  proof
    assume "outranked s u m i y"
    then obtain b where b: "b \<in> set (live_select (annotation_labels s))" "same_wording (lb_name b) (lb_name y)" "offered s u m i b"
      "precedence u b < precedence u y \<or> precedence u b = precedence u y \<and> row_id b < row_id y"
      unfolding outranked_def by blast
    have "b \<in> ?S" using b y wording_trans by auto
    moreover have "(?f b, ?f y) \<in> less_than <*lex*> less_than" using b(4) by auto
    ultimately show False using least by blast
  qed
  with y that show ?thesis by blast
qed

lemma unbeaten_same:
  assumes "distinct (map row_id (annotation_labels s))" and "x \<in> set (live_select (annotation_labels s))"
    and "y \<in> set (live_select (annotation_labels s))" and "offered s u m i x" and "offered s u m i y"
    and "\<not> outranked s u m i x" and "\<not> outranked s u m i y" and "same_wording (lb_name x) (lb_name y)"
  shows "x = y"
proof -
  have "\<not> (precedence u y < precedence u x \<or> precedence u y = precedence u x \<and> row_id y < row_id x)"
    using assms(3,5,6,8) unfolding outranked_def same_wording_def by metis
  moreover have "\<not> (precedence u x < precedence u y \<or> precedence u x = precedence u y \<and> row_id x < row_id y)"
    using assms(2,4,7,8) unfolding outranked_def by blast
  ultimately have "row_id x = row_id y" by linarith
  then show ?thesis using distinct_map_same [OF assms(1)] assms(2,3) by simp
qed

text \<open>C40: The picker of labels offers every wording once: no two entries of the full list differ only in case, every entry is a live
  label offered to the caller, and for every label offered to them the list has one of that wording which ranks at least as high
  (curated before the caller's own before a colleague's).\<close>

theorem labels_offered_once:
  assumes "(some_step cid)\<^sup>*\<^sup>* (empty_desk c) s" and "catalog_keys cid (fresh c)" and "length (annotation_labels s) \<le> limit"
    and "picked = fst (list_annotation_labels s caller_id can_manage conversation_id limit 0)"
  shows "distinct (map (\<lambda>x. casefold (lb_name x)) picked) \<and>
    (\<forall>x\<in>set picked. x \<in> set (live_select (annotation_labels s)) \<and> offered s caller_id can_manage conversation_id x) \<and>
    (\<forall>x\<in>set (live_select (annotation_labels s)). offered s caller_id can_manage conversation_id x \<longrightarrow>
       (\<exists>y\<in>set picked. same_wording (lb_name y) (lb_name x) \<and> precedence caller_id y \<le> precedence caller_id x))"
proof -
  have "desk_inv s" using some_steps_inv [OF assms(1) desk_inv_start] assms(2) by (simp add: empty_desk_def)
  then have ids: "distinct (map row_id (annotation_labels s))" using desk_invD(5) by (auto simp: indexed_def keys_ok_def)
  let ?shown = "filter (\<lambda>x. \<not> outranked s caller_id can_manage conversation_id x)
    (filter (offered s caller_id can_manage conversation_id) (live_select (annotation_labels s)))"
  have "length ?shown \<le> limit" using assms(3) by (simp add: live_select_def) (meson le_trans length_filter_le)
  then have p: "picked = sort_key (\<lambda>x. casefold (lb_name x)) (sort_key row_id ?shown)"
    unfolding assms(4) list_annotation_labels_def paginate_def by simp
  have mem: "set picked = set ?shown" unfolding p by simp
  have "distinct (annotation_labels s)" using ids by (simp add: distinct_map)
  then have "distinct picked" unfolding p by (simp add: live_select_def)
  moreover have "inj_on (\<lambda>x. casefold (lb_name x)) (set picked)"
    unfolding mem by (rule inj_onI) (rule unbeaten_same [OF ids, of _ _ caller_id can_manage conversation_id], auto simp: same_wording_def)
  ultimately have "distinct (map (\<lambda>x. casefold (lb_name x)) picked)" by (simp add: distinct_map)
  moreover have "\<forall>x\<in>set (live_select (annotation_labels s)). offered s caller_id can_manage conversation_id x \<longrightarrow>
      (\<exists>y\<in>set picked. same_wording (lb_name y) (lb_name x) \<and> precedence caller_id y \<le> precedence caller_id x)"
    unfolding mem by (intro ballI impI) (erule (1) best_label, rule bexI, auto)
  ultimately show ?thesis unfolding mem by auto
qed

lemma typed_label:
  assumes "desk_inv s" and "x \<in> set (live_select (annotation_labels s))" and "lb_created_by_id x = None \<or> lb_created_by_id x = Some u"
    and "\<not> outranked s u m i x"
  shows "find_or_create_user_label s (lb_name x) u = (x, s)"
proof -
  let ?named = "filter (\<lambda>y. same_wording (lb_name y) (lb_name x)) (live_select (annotation_labels s))"
  have clean: "sanitise_single_line (lb_name x) = lb_name x" using desk_invD(7) [OF assms(1)] assms(2) by (simp add: clean_labels_def)
  have x: "x \<in> set ?named" using assms(2) by (simp add: same_wording_def)
  have ids: "distinct (map row_id (annotation_labels s))" using desk_invD(5) [OF assms(1)] by (auto simp: indexed_def keys_ok_def)
  have beaten: False if "y \<in> set ?named" "lb_created_by_id y = None" "lb_created_by_id x \<noteq> None \<or> row_id y < row_id x" for y
  proof -
    have "offered s u m i y" using that(2) by (simp add: offered_def)
    moreover have "precedence u y < precedence u x \<or> precedence u y = precedence u x \<and> row_id y < row_id x"
      using that(2,3) by (auto simp: precedence_def)
    ultimately have "outranked s u m i x" unfolding outranked_def using that(1) by (intro bexI [of _ y]) auto
    with assms(4) show False by blast
  qed
  show ?thesis
  proof (cases "min_by_id (filter (\<lambda>y. lb_created_by_id y = None) ?named)")
    case None
    then have own: "lb_created_by_id x = Some u" using x assms(3) by (auto simp: min_by_id_None filter_empty_conv)
    obtain y where y: "List.find (\<lambda>y. lb_created_by_id y = Some u) ?named = Some y" using find_ex [OF x, of "\<lambda>y. lb_created_by_id y = Some u"] own by blast
    have "y = x"
      using find_SomeD [OF y] own assms(2) indexed_same [OF desk_invD(5) [OF assms(1)], of y x]
      by (auto simp: author_name_key_def same_wording_def)
    then show ?thesis using None y by (simp add: find_or_create_user_label_def clean Let_def)
  next
    case (Some y)
    then have y: "y \<in> set ?named" "lb_created_by_id y = None"
      and least: "\<forall>z\<in>set ?named. lb_created_by_id z = None \<longrightarrow> row_id y \<le> row_id z" using min_by_id_SomeD [OF Some] by auto
    have "lb_created_by_id x = None" "\<not> row_id y < row_id x" using beaten [OF y] by blast+
    then have "row_id y = row_id x" using least x by fastforce
    then have "y = x" using distinct_map_same [OF ids] y(1) assms(2) by simp
    then show ?thesis using Some by (simp add: find_or_create_user_label_def clean Let_def)
  qed
qed

text \<open>C20: Picking a label and typing its name are the same request: for every label on a page of the picker of a conversation, a
  participant who annotates a message of that conversation with the label picked, and one who types its wording, get the same
  answer and leave the same database, errors included.\<close>

theorem picking_is_typing:
  assumes "(some_step cid)\<^sup>*\<^sup>* (empty_desk c) s" and "catalog_keys cid (fresh c)"
    and "x \<in> set (fst (list_annotation_labels s caller_id False (Some i) limit offset))"
    and "\<forall>v g. resolve_annotation_message s message_id caller_id = Inr (v, g) \<longrightarrow> row_id v = i"
  shows "create_annotation s \<lparr>ac_message_id = message_id, ac_label_id = Some (row_id x), ac_text = None\<rparr> caller_id =
    create_annotation s \<lparr>ac_message_id = message_id, ac_label_id = None, ac_text = Some (lb_name x)\<rparr> caller_id"
proof -
  have inv: "desk_inv s" using some_steps_inv [OF assms(1) desk_inv_start] assms(2) by (simp add: empty_desk_def)
  then have ids: "distinct (map row_id (annotation_labels s))" using desk_invD(5) by (auto simp: indexed_def keys_ok_def)
  have "x \<in> set (live_select (annotation_labels s)) \<and> offered s caller_id False (Some i) x \<and> \<not> outranked s caller_id False (Some i) x"
    using assms(3) by (auto simp: list_annotation_labels_def paginate_def dest!: in_set_takeD in_set_dropD)
  then have x: "x \<in> set (live_select (annotation_labels s))" "offered s caller_id False (Some i) x" "\<not> outranked s caller_id False (Some i) x"
    by blast+
  have found: "live_by_id (row_id x) (annotation_labels s) = Some x" using live_by_id_member [OF ids] x(1) by simp
  have "resolve_label s (row_id x) i caller_id = Inr (find_or_create_user_label s (lb_name x) caller_id)"
  proof (cases "lb_created_by_id x = None \<or> lb_created_by_id x = Some caller_id")
    case True
    then show ?thesis using typed_label [OF inv x(1) True x(3)] by (simp add: resolve_label_def found the_or_def Let_def)
  next
    case False
    then have "row_id x \<in> set (labels_used_in_conversation s i caller_id False)" using x(2) by (auto simp: offered_def)
    then show ?thesis using False by (auto simp: resolve_label_def found the_or_def ensure_def Let_def)
  qed
  then show ?thesis using assms(4)
    by (cases "resolve_annotation_message s message_id caller_id") (auto simp: create_annotation_def draft_label_def Let_def split: prod.splits option.splits)
qed

end
