(* ===== verification/Review_Witnesses.thy ===== *)
theory Review_Witnesses
  imports Content_Witnesses Review_Laws
begin

section \<open>Submissions, reviews and labels at work\<close>

text \<open>
  The properties of the annotation tables on one conversation of \<open>alice\<close>, who submits its reply, \<open>bob\<close>, who
  holds a reviewing role in the group, is assigned and records a verdict, and both label the reply.
\<close>

definition reviewer_role :: role where "reviewer_role = mk_role 14 ''reviewer'' [REVIEWS_ANNOTATE] False False True"

definition mk_message :: "uuid \<Rightarrow> message_role \<Rightarrow> string \<Rightarrow> message" where
  "mk_message i speaker content = \<lparr>row_id = i, created_at = 86400, deleted_at = None, deleted_by_id = None, ms_turn_id = 103, ms_role = speaker,
     ms_status = MS_COMPLETE, ms_content = content, ms_content_encrypted = False, ms_slot = None, ms_client_message_id = None,
     ms_replaces_message_id = None, ms_extra = [], ms_tags = []\<rparr>"

definition desk_chat :: chat_db where
  "desk_chat = \<lparr>core = gdemo\<lparr>roles := [owner_role, reviewer_role], assignments := [mk_assignment 40 20 1 11, mk_assignment 42 20 2 14],
       next_id := 106\<rparr>,
     conversation_groups = [\<lparr>row_id = 100, created_at = 86400, deleted_at = None, deleted_by_id = None, cg_user_id = 1,
       cg_evaluation_id = 60, cg_scenario_id = 62, cg_name = ''Tries''\<rparr>],
     conversations = [\<lparr>row_id = 101, created_at = 86400, deleted_at = None, deleted_by_id = None, c_user_id = 1, c_evaluation_id = 60,
       c_evaluation_ai_model_id = 61, c_conversation_group_id = 100, c_scenario_id = 62, c_title = None, c_tags = [],
       c_content_protected = False, c_parameters = []\<rparr>],
     turns = [\<lparr>row_id = 103, created_at = 86400, deleted_at = None, deleted_by_id = None, tn_conversation_id = 101, tn_turn_index = 0\<rparr>],
     messages = [mk_message 104 MR_USER ''hello'', mk_message 105 MR_ASSISTANT ''Hi!''], message_images = [], media_assets = [], draws = 0\<rparr>"

definition label_cid :: "string \<Rightarrow> uuid" where "label_cid k = length k"

definition submitter :: session_user where
  "submitter = caller_of 1 [FLAGS_CREATE, REVIEWS_CREATE, REVIEWS_DELETE, ANNOTATIONS_CREATE]"
definition annotator :: session_user where
  "annotator = caller_of 2 [REVIEWS_CREATE, REVIEWS_UPDATE, ANNOTATIONS_CREATE]"

definition submission :: flag_create where
  "submission = \<lparr>fc_conversation_id = 101, fc_message_ids = [105], fc_reason = ''leak'', fc_red_flagged = True, fc_comment = None, fc_task_id = None\<rparr>"

definition flagged :: "desk result" where "flagged = create_message_flag_endpoint (empty_desk desk_chat) submitter submission"

definition assigned :: "desk result" where "assigned = assign_reviewer_endpoint (projr flagged) submitter 106 2"

definition approval :: review_update where
  "approval = \<lparr>vd_status = Some RS_APPROVED, vd_successful_exploit = Some (Some True), vd_unique_exploit = None, vd_valid_submission = None,
     vd_number_prompts = Some (Some 1), vd_notes = None\<rparr>"

definition decided :: "desk result" where "decided = update_review_endpoint (projr assigned) annotator 108 approval"

definition typed :: "string \<Rightarrow> annotation_create" where
  "typed w = \<lparr>ac_message_id = 105, ac_label_id = None, ac_text = Some w\<rparr>"

definition labelled :: "(annotation \<times> desk) result" where "labelled = create_annotation_endpoint (projr decided) annotator (typed ''Roleplay'')"

definition bystander_label :: "(annotation \<times> desk) result" where
  "bystander_label = create_annotation_endpoint (projr decided) submitter (typed ''Roleplay'')"

abbreviation picker :: "(user list \<times> nat) result" where
  "picker \<equiv> list_assignable_reviewers (\<lambda>_ _. False) (projr flagged) 106 1 False None 10 0"

abbreviation offered_page :: "annotation_label list" where
  "offered_page \<equiv> fst (list_annotation_labels (snd (projr labelled)) 1 False (Some 101) 5 0)"

text \<open>What the run computes, evaluated once.\<close>

lemma desk_evaluated:
  "let fl = create_message_flag_endpoint (empty_desk desk_chat) submitter submission;
       s1 = projr fl;
       pk = list_assignable_reviewers (\<lambda>_ _. False) s1 106 1 False None 10 0;
       assigned1 = assign_reviewer_endpoint s1 submitter 106 2;
       decided1 = update_review_endpoint (projr assigned1) annotator 108 approval;
       s3 = projr decided1;
       labelled1 = create_annotation_endpoint s3 annotator (typed ''Roleplay'');
       s4 = snd (projr labelled1);
       page = fst (list_annotation_labels s4 1 False (Some 101) 5 0);
       rm = resolve_annotation_message s4 105 1
   in \<not> isl fl \<and> \<not> isl assigned1 \<and> \<not> isl decided1 \<and> \<not> isl labelled1 \<and>
      \<not> isl (create_annotation_endpoint s3 submitter (typed ''Roleplay'')) \<and>
      length (users (base_db s1)) \<le> 10 \<and> \<not> isl pk \<and> 2 \<in> set (map row_id (fst (projr pk))) \<and>
      reviews s3 \<noteq> [] \<and> su_id submitter \<noteq> rv_reviewer_id (hd (reviews s3)) \<and> row_id (hd (reviews s3)) = 108 \<and>
      rv_status (hd (reviews s3)) = RS_APPROVED \<and> deleted_at (hd (reviews s3)) = None \<and>
      length (live_select (reviews s4)) = 1 \<and> length (annotation_labels s4) \<le> 5 \<and> page \<noteq> [] \<and>
      map lb_name page = [''Roleplay''] \<and> row_id (hd page) = 111 \<and> \<not> isl rm \<and> row_id (fst (projr rm)) = 101"
  by code_simp

lemmas desk_facts = desk_evaluated [unfolded Let_def, folded flagged_def, folded assigned_def, folded decided_def, folded labelled_def,
  folded bystander_label_def]

lemma demo_catalog_keys: "catalog_keys label_cid (fresh desk_chat)"
  unfolding catalog_keys_def by code_simp

lemma demo_steps:
  "desk_step label_cid submitter (empty_desk desk_chat) (projr flagged)"
  "desk_step label_cid submitter (projr flagged) (projr assigned)"
  "desk_step label_cid annotator (projr assigned) (projr decided)"
  "desk_step label_cid annotator (projr decided) (snd (projr labelled))"
  "desk_step label_cid submitter (projr decided) (snd (projr bystander_label))"
proof -
  have ok: "\<not> isl flagged" "\<not> isl assigned" "\<not> isl decided" "\<not> isl labelled" "\<not> isl bystander_label"
    using desk_facts by blast+
  have "create_message_flag_endpoint (empty_desk desk_chat) submitter submission = Inr (projr flagged)"
    using Inr_of_not_isl [OF ok(1)] by (simp only: flagged_def)
  then show "desk_step label_cid submitter (empty_desk desk_chat) (projr flagged)" by (rule desk_step.create_flag)
  have "assign_reviewer_endpoint (projr flagged) submitter 106 2 = Inr (projr assigned)"
    using Inr_of_not_isl [OF ok(2)] by (simp only: assigned_def)
  then show "desk_step label_cid submitter (projr flagged) (projr assigned)" by (rule desk_step.assign)
  have "update_review_endpoint (projr assigned) annotator 108 approval = Inr (projr decided)"
    using Inr_of_not_isl [OF ok(3)] by (simp only: decided_def)
  then show "desk_step label_cid annotator (projr assigned) (projr decided)" by (rule desk_step.verdict)
  have "create_annotation_endpoint (projr decided) annotator (typed ''Roleplay'') = Inr (fst (projr labelled), snd (projr labelled))"
    using Inr_pair_of_not_isl [OF ok(4)] by (simp only: labelled_def)
  then show "desk_step label_cid annotator (projr decided) (snd (projr labelled))" by (rule desk_step.annotate)
  have "create_annotation_endpoint (projr decided) submitter (typed ''Roleplay'') = Inr (fst (projr bystander_label), snd (projr bystander_label))"
    using Inr_pair_of_not_isl [OF ok(5)] by (simp only: bystander_label_def)
  then show "desk_step label_cid submitter (projr decided) (snd (projr bystander_label))" by (rule desk_step.annotate)
qed

lemma decided_reachable: "(some_step label_cid)\<^sup>*\<^sup>* (empty_desk desk_chat) (projr decided)"
proof -
  have "some_step label_cid (empty_desk desk_chat) (projr flagged)" "some_step label_cid (projr flagged) (projr assigned)"
    "some_step label_cid (projr assigned) (projr decided)"
    unfolding some_step_def by (rule exI, rule demo_steps)+
  then show ?thesis by (rule rtranclp.rtrancl_into_rtrancl [OF rtranclp.rtrancl_into_rtrancl [OF r_into_rtranclp]])
qed

lemma labelled_reachable: "(some_step label_cid)\<^sup>*\<^sup>* (empty_desk desk_chat) (snd (projr labelled))"
proof (rule rtranclp.rtrancl_into_rtrancl [OF decided_reachable])
  show "some_step label_cid (projr decided) (snd (projr labelled))" unfolding some_step_def by (rule exI, rule demo_steps)
qed


theorem picker_is_gate_witness:
  "\<exists>r s'. assign_reviewer (projr flagged) 106 2 1 False = Inr (r, s')"
proof -
  have l: "length (users (base_db (projr flagged))) \<le> 10" using desk_facts by blast
  obtain us n where l2: "picker = Inr (us, n)" and two: "2 \<in> row_id ` set us"
    using desk_facts by (cases picker) auto
  have "row_id ` set us = {i. \<exists>r s'. assign_reviewer (projr flagged) 106 i 1 False = Inr (r, s')} \<and> n = length us"
    using picker_is_gate [OF l, where ilike = "\<lambda>_ _. False" and flag_id = 106 and caller_id = 1 and can_manage = False]
    unfolding l2 by simp
  then have "2 \<in> {i. \<exists>r s'. assign_reviewer (projr flagged) 106 i 1 False = Inr (r, s')}" using two by blast
  then show ?thesis by blast
qed

theorem verdicts_protected_witness:
  "\<exists>r\<in>set (reviews (snd (projr bystander_label))). row_id r = 108 \<and> rv_status r = RS_APPROVED \<and> deleted_at r = None"
proof -
  let ?r = "hd (reviews (projr decided))"
  have f: "su_id submitter \<noteq> rv_reviewer_id ?r" "reviews (projr decided) \<noteq> []" "row_id ?r = 108"
    "rv_status ?r = RS_APPROVED" "deleted_at ?r = None"
    using desk_facts by blast+
  have m: "\<not> caller_can_manage_groups submitter" by code_simp
  have "(\<lambda>a b. \<exists>caller. su_id caller \<noteq> rv_reviewer_id ?r \<and> \<not> caller_can_manage_groups caller \<and> desk_step label_cid caller a b)\<^sup>*\<^sup>*
      (projr decided) (snd (projr bystander_label))" using f m demo_steps(5) by (intro r_into_rtranclp) blast
  then show ?thesis
    using verdicts_protected [OF decided_reachable demo_catalog_keys, of ?r] hd_in_set f by auto
qed

theorem labels_offered_once_witness:
  "map lb_name offered_page = [''Roleplay''] \<and> distinct (map (\<lambda>x. casefold (lb_name x)) offered_page)"
  using labels_offered_once [OF labelled_reachable demo_catalog_keys _ refl, of 5 1 False "Some 101"] desk_facts by blast

theorem picking_is_typing_witness:
  "create_annotation (snd (projr labelled)) \<lparr>ac_message_id = 105, ac_label_id = Some 111, ac_text = None\<rparr> 1 =
   create_annotation (snd (projr labelled)) (typed ''Roleplay'') 1"
proof -
  have x: "hd offered_page \<in> set offered_page" using desk_facts by (blast intro: hd_in_set)
  have h: "row_id (hd offered_page) = 111" "lb_name (hd offered_page) = ''Roleplay''" using desk_facts hd_map [of offered_page lb_name] by auto
  have r: "row_id (fst (projr (resolve_annotation_message (snd (projr labelled)) 105 1))) = 101" using desk_facts by blast
  have v: "\<forall>v g. resolve_annotation_message (snd (projr labelled)) 105 1 = Inr (v, g) \<longrightarrow> row_id v = 101"
    using r by (intro allI impI) simp
  from picking_is_typing [where message_id = 105, OF labelled_reachable demo_catalog_keys x v] show ?thesis unfolding h typed_def .
qed

end
