(* ===== verification/Model_Registry.thy ===== *)
theory Model_Registry
  imports Conversations Content_Crypto Bulk
begin

section \<open>The registry of AI models\<close>

text \<open>
  \<open>ai_gateway/models.py\<close>, \<open>ai_gateway/crypto.py\<close>, \<open>ai_gateway/services/ai_models.py\<close>, the start of a health check of
  \<open>services/health.py\<close> and the routes of \<open>api/v1/ai_models.py\<close>.  A registered model extends the row the other components
  see; \<open>registry\<close> keeps the full rows next to the database, whose \<open>ai_models\<close> is their projection, and the health checks handed to
  the task queue.  JWE is the record
  \<open>jwe\<close>, \<open>litellm.supports_web_search\<close> the argument \<open>web_search\<close>.  Payload validation has run (a non-empty API key, no null for
  a NOT NULL column).  Which index a doubly conflicting insert violates first is the name's.
\<close>

datatype provider_vendor = HUGGINGFACE | GOOGLE | OPENAI | ANTHROPIC | AZURE | GENERIC | AWS_BEDROCK | COHERE
datatype modality = MOD_TEXT | MOD_IMAGE
datatype health_check_status = HC_CHECKING | HC_ALIVE | HC_DEAD

fun provider_value :: "provider_vendor \<Rightarrow> string" where
  "provider_value HUGGINGFACE = ''huggingface''"
| "provider_value GOOGLE = ''google''"
| "provider_value OPENAI = ''openai''"
| "provider_value ANTHROPIC = ''anthropic''"
| "provider_value AZURE = ''azure''"
| "provider_value GENERIC = ''generic''"
| "provider_value AWS_BEDROCK = ''aws_bedrock''"
| "provider_value COHERE = ''cohere''"

fun modality_value :: "modality \<Rightarrow> string" where
  "modality_value MOD_TEXT = ''text''"
| "modality_value MOD_IMAGE = ''image''"

fun LITELLM_PREFIX :: "provider_vendor \<Rightarrow> string" where
  "LITELLM_PREFIX OPENAI = ''openai''"
| "LITELLM_PREFIX ANTHROPIC = ''anthropic''"
| "LITELLM_PREFIX GOOGLE = ''gemini''"
| "LITELLM_PREFIX AZURE = ''azure''"
| "LITELLM_PREFIX AWS_BEDROCK = ''bedrock''"
| "LITELLM_PREFIX COHERE = ''cohere''"
| "LITELLM_PREFIX HUGGINGFACE = ''huggingface''"
| "LITELLM_PREFIX GENERIC = ''openai''"

record registered_model = ai_model +
  rm_description :: "string option"
  rm_model_alias :: string
  rm_provider :: provider_vendor
  rm_input_modalities :: "modality list"
  rm_output_modalities :: "modality list"
  rm_provider_model_id :: string
  rm_endpoint_name :: "string option"
  rm_inference_endpoint :: "string option"
  rm_warmup_enabled :: bool
  rm_advanced_params_disabled :: bool
  rm_web_access :: bool
  rm_icon_file :: "string option"
  rm_labels :: "string list"
  rm_parameters :: params
  rm_extras :: params
  rm_api_key_encrypted :: "string option"
  rm_disabled_at :: "timestamp option"
  rm_health_check_status :: "health_check_status option"
  rm_last_health_check_at :: "timestamp option"
  rm_last_health_reason :: "string option"
  rm_capability_mismatch :: "string option"
  rm_last_healthy_at :: "timestamp option"
  rm_inactivity_alert_hours :: "nat option"
  rm_last_used_at :: "timestamp option"
  rm_last_warmup_at :: "timestamp option"
  rm_inactivity_alerted_at :: "timestamp option"

record registry =
  site :: chat_db
  registered :: "registered_model list"
  health_queue :: "uuid list"

abbreviation registry_db :: "registry \<Rightarrow> db" where
  "registry_db r \<equiv> core (site r)"

abbreviation registry_now :: "registry \<Rightarrow> timestamp" where
  "registry_now r \<equiv> clock (site r)"

definition drawn :: "registry \<Rightarrow> registry" where
  "drawn r = r\<lparr>site := (site r)\<lparr>draws := Suc (draws (site r))\<rparr>\<rparr>"

definition put_models :: "registered_model list \<Rightarrow> registry \<Rightarrow> registry" where
  "put_models t r = r\<lparr>registered := t, site := (site r)\<lparr>core := (core (site r))\<lparr>ai_models := map ai_model.truncate t\<rparr>\<rparr>\<rparr>"

definition disable :: "timestamp \<Rightarrow> registered_model \<Rightarrow> registered_model" where
  "disable t m = m\<lparr>rm_disabled_at := Some t\<rparr>"

definition enable :: "registered_model \<Rightarrow> registered_model" where
  "enable m = m\<lparr>rm_inactivity_alerted_at := if rm_disabled_at m \<noteq> None then None else rm_inactivity_alerted_at m, rm_disabled_at := None\<rparr>"

definition is_disabled :: "registered_model \<Rightarrow> bool" where
  "is_disabled m \<longleftrightarrow> rm_disabled_at m \<noteq> None"

text \<open>\<open>AiModel.restore\<close> also re-arms the inactivity alert.\<close>

definition restore_registered :: "registered_model \<Rightarrow> registered_model" where
  "restore_registered m = (restore m)\<lparr>rm_inactivity_alerted_at := None\<rparr>"

definition probed_call :: "registered_model \<Rightarrow> modality list \<times> string option \<times> provider_vendor \<times> string" where
  "probed_call m = (rm_input_modalities m, rm_inference_endpoint m, rm_provider m, rm_provider_model_id m)"

subsection \<open>Secrets at rest\<close>

datatype jwe_outcome = JoseFailure | NoPlaintext | Plaintext string

record jwe =
  jwe_sha256 :: "string \<Rightarrow> string"
  jwe_encrypt :: "string \<Rightarrow> nat \<Rightarrow> string \<Rightarrow> string"
  jwe_decrypt :: "string \<Rightarrow> string \<Rightarrow> jwe_outcome"

record gateway_settings =
  gs_model_secrets_key :: string
  gs_model_secrets_key_retired :: "string option"
  gs_provider_key :: "provider_vendor \<Rightarrow> string option"
  gs_health_check_task_time_limit_seconds :: int
  gs_health_check_wake_deadline_seconds :: int

definition resolve_secret :: "jwe \<Rightarrow> string \<Rightarrow> string \<times> string" where
  "resolve_secret j secret =
     (let material = jwe_sha256 j secret in (concat (map hex_byte (take 1 (jwe_sha256 j material))), material))"

text \<open>\<open>SecretDecryptError\<close>, and the \<open>ValueError\<close> of an empty secret or of two keys with one id.\<close>

datatype secret_error = SecretDecryptError | SecretValueError

definition secrets_ring :: "jwe \<Rightarrow> gateway_settings \<Rightarrow> secret_error + string \<times> (string \<times> string) list" where
  "secrets_ring j gs =
     (let active = resolve_secret j (gs_model_secrets_key gs) in
      case gs_model_secrets_key_retired gs of
        None \<Rightarrow> Inr (fst active, [active])
      | Some retired \<Rightarrow>
          (let old = resolve_secret j retired in
           if fst old = fst active then Inl SecretValueError else Inr (fst active, [active, old])))"

definition split_secret :: "string \<Rightarrow> string option \<times> string" where
  "split_secret ciphertext =
     (let kid = takeWhile (\<lambda>ch. ch \<noteq> CHR '':'') ciphertext in
      case dropWhile (\<lambda>ch. ch \<noteq> CHR '':'') ciphertext of
        [] \<Rightarrow> (None, ciphertext)
      | _ # payload \<Rightarrow> if length kid = 2 \<and> set kid \<subseteq> set hex_digits then (Some kid, payload) else (None, ciphertext))"

definition encrypt_secret :: "jwe \<Rightarrow> gateway_settings \<Rightarrow> nat \<Rightarrow> string \<Rightarrow> secret_error + string" where
  "encrypt_secret j gs drawing plain =
     (if plain = '''' then Inl SecretValueError
      else case secrets_ring j gs of Inl e \<Rightarrow> Inl e
        | Inr (kid, ring) \<Rightarrow> Inr (kid @ '':'' @ jwe_encrypt j (the (map_of ring kid)) drawing plain))"

fun try_keys :: "jwe \<Rightarrow> string \<Rightarrow> string list \<Rightarrow> secret_error + string" where
  "try_keys j payload [] = Inl SecretDecryptError"
| "try_keys j payload (key # ks) =
     (case jwe_decrypt j key payload of
        JoseFailure \<Rightarrow> try_keys j payload ks
      | NoPlaintext \<Rightarrow> Inl SecretDecryptError
      | Plaintext s \<Rightarrow> Inr s)"

definition decrypt_secret :: "jwe \<Rightarrow> gateway_settings \<Rightarrow> string \<Rightarrow> secret_error + string" where
  "decrypt_secret j gs ciphertext =
     (case secrets_ring j gs of Inl e \<Rightarrow> Inl e
      | Inr (_, ring) \<Rightarrow>
          (case split_secret ciphertext of
             (None, payload) \<Rightarrow> try_keys j payload (map snd ring)
           | (Some kid, payload) \<Rightarrow>
               (case map_of ring kid of None \<Rightarrow> Inl SecretDecryptError | Some key \<Rightarrow> try_keys j payload [key])))"

definition needs_rewrap :: "jwe \<Rightarrow> gateway_settings \<Rightarrow> string \<Rightarrow> secret_error + bool" where
  "needs_rewrap j gs ciphertext =
     (case secrets_ring j gs of Inl e \<Rightarrow> Inl e
      | Inr (active, _) \<Rightarrow> Inr (fst (split_secret ciphertext) \<noteq> Some active))"

text \<open>In a request neither error is an API error.\<close>

definition or_crash :: "secret_error + 'a \<Rightarrow> 'a result" where
  "or_crash x = (case x of Inl _ \<Rightarrow> Inl RuntimeError | Inr y \<Rightarrow> Inr y)"

subsection \<open>Rules of a callable row\<close>

definition blank_text :: "string option \<Rightarrow> bool" where
  "blank_text s \<longleftrightarrow> (case s of None \<Rightarrow> True | Some x \<Rightarrow> list_all py_isspace x)"

definition missing_inference_endpoint :: "provider_vendor \<Rightarrow> string option \<Rightarrow> bool" where
  "missing_inference_endpoint provider endpoint \<longleftrightarrow> provider = GENERIC \<and> blank_text endpoint"

definition require_inference_endpoint :: "provider_vendor \<Rightarrow> string option \<Rightarrow> unit result" where
  "require_inference_endpoint provider endpoint =
     ensure (\<not> missing_inference_endpoint provider endpoint)
       (BadRequestError (Msg ''A generic provider has no vendor-hosted base URL, so inference_endpoint is required.'' []))"

definition prefixed_model_id :: "provider_vendor \<Rightarrow> string \<Rightarrow> string option \<Rightarrow> string option" where
  "prefixed_model_id provider provider_model_id endpoint =
     (if provider = GENERIC \<or> \<not> blank_text endpoint then None
      else List.find (\<lambda>p. startswith (casefold provider_model_id) (p @ ''/''))
             (py_dedup [LITELLM_PREFIX provider, provider_value provider]))"

definition require_unprefixed_model_id :: "provider_vendor \<Rightarrow> string \<Rightarrow> string option \<Rightarrow> unit result" where
  "require_unprefixed_model_id provider provider_model_id endpoint =
     (case prefixed_model_id provider provider_model_id endpoint of
        None \<Rightarrow> Inr ()
      | Some p \<Rightarrow> Inl (BadRequestError (Msg ''Drop the {}/ prefix - the Provider field adds it.'' [AStr p])))"

definition supports_web_access :: "(string \<Rightarrow> bool) \<Rightarrow> provider_vendor \<Rightarrow> string \<Rightarrow> bool" where
  "supports_web_access web_search vendor provider_model_id \<longleftrightarrow>
     vendor \<in> {ANTHROPIC, GOOGLE} \<or> vendor = OPENAI \<and> web_search (''openai/'' @ provider_model_id)"

definition require_web_access_supported :: "(string \<Rightarrow> bool) \<Rightarrow> provider_vendor \<Rightarrow> string \<Rightarrow> bool \<Rightarrow> unit result" where
  "require_web_access_supported web_search provider provider_model_id web_access =
     ensure (\<not> web_access \<or> supports_web_access web_search provider provider_model_id)
       (BadRequestError (Msg ''This model has no internet access option at its provider.'' []))"

subsection \<open>Writing rows\<close>

text \<open>The flush: the partial unique indexes on \<open>name\<close> and \<open>model_alias\<close>.\<close>

definition model_unique :: "registered_model list \<Rightarrow> registered_model \<Rightarrow> unit result" where
  "model_unique t m =
     (let others = filter (\<lambda>x. row_id x \<noteq> row_id m) (live_select t) in
      bindE (ensure (\<not> list_ex (\<lambda>x. m_name x = m_name m) others)
        (ConflictError (Msg ''A model with this {} already exists.'' [AStr ''name'']))) (\<lambda>_.
      ensure (\<not> list_ex (\<lambda>x. rm_model_alias x = rm_model_alias m) others)
        (ConflictError (Msg ''A model with this {} already exists.'' [AStr ''model_alias'']))))"

record model_create =
  mc_name :: string
  mc_description :: "string option"
  mc_model_alias :: string
  mc_provider :: provider_vendor
  mc_input_modalities :: "modality list option"
  mc_output_modalities :: "modality list option"
  mc_provider_model_id :: string
  mc_endpoint_name :: "string option"
  mc_inference_endpoint :: "string option"
  mc_icon_file :: "string option"
  mc_labels :: "string list option"
  mc_parameters :: "params option"
  mc_extras :: "params option"
  mc_is_disabled :: bool
  mc_warmup_enabled :: bool
  mc_advanced_params_disabled :: bool
  mc_web_access :: bool
  mc_inactivity_alert_hours :: "nat option"
  mc_api_key :: "string option"

definition or_text :: "modality list option \<Rightarrow> modality list" where
  "or_text ms = (case ms of None \<Rightarrow> [MOD_TEXT] | Some [] \<Rightarrow> [MOD_TEXT] | Some xs \<Rightarrow> xs)"

definition or_empty :: "'a list option \<Rightarrow> 'a list" where
  "or_empty x = (case x of None \<Rightarrow> [] | Some xs \<Rightarrow> xs)"

definition create_model ::
  "(string \<Rightarrow> bool) \<Rightarrow> jwe \<Rightarrow> gateway_settings \<Rightarrow> registry \<Rightarrow> model_create \<Rightarrow> (registered_model \<times> registry) result" where
  "create_model web_search j gs r draft =
     bindE (require_inference_endpoint (mc_provider draft) (mc_inference_endpoint draft)) (\<lambda>_.
     bindE (require_unprefixed_model_id (mc_provider draft) (mc_provider_model_id draft) (mc_inference_endpoint draft)) (\<lambda>_.
     bindE (require_web_access_supported web_search (mc_provider draft) (mc_provider_model_id draft) (mc_web_access draft)) (\<lambda>_.
     bindE (case mc_api_key draft of None \<Rightarrow> Inr None
            | Some k \<Rightarrow> bindE (or_crash (encrypt_secret j gs (draws (site r)) k)) (\<lambda>s. Inr (Some s))) (\<lambda>stored.
     let t = registry_now r;
         m0 = \<lparr>row_id = fresh (site r), created_at = t, deleted_at = None, deleted_by_id = None, m_name = mc_name draft,
               rm_description = mc_description draft, rm_model_alias = mc_model_alias draft, rm_provider = mc_provider draft,
               rm_input_modalities = or_text (mc_input_modalities draft), rm_output_modalities = or_text (mc_output_modalities draft),
               rm_provider_model_id = mc_provider_model_id draft, rm_endpoint_name = mc_endpoint_name draft,
               rm_inference_endpoint = mc_inference_endpoint draft, rm_warmup_enabled = mc_warmup_enabled draft,
               rm_advanced_params_disabled = mc_advanced_params_disabled draft, rm_web_access = mc_web_access draft,
               rm_icon_file = mc_icon_file draft, rm_labels = or_empty (mc_labels draft),
               rm_parameters = or_empty (mc_parameters draft), rm_extras = or_empty (mc_extras draft),
               rm_api_key_encrypted = stored, rm_disabled_at = None, rm_health_check_status = None,
               rm_last_health_check_at = None, rm_last_health_reason = None, rm_capability_mismatch = None,
               rm_last_healthy_at = None, rm_inactivity_alert_hours = mc_inactivity_alert_hours draft, rm_last_used_at = None,
               rm_last_warmup_at = None, rm_inactivity_alerted_at = None\<rparr>;
         m = (if mc_is_disabled draft then disable t m0 else m0)
     in bindE (model_unique (registered r) m) (\<lambda>_.
        Inr (m, put_models (registered r @ [m]) (let r' = r\<lparr>site := take_ids 1 (site r)\<rparr> in if mc_api_key draft = None then r' else drawn r')))))))"

definition get_registered :: "registry \<Rightarrow> uuid \<Rightarrow> bool \<Rightarrow> registered_model result" where
  "get_registered r model_id include_disabled =
     the_or (NotFoundError (Msg ''Model {} not found.'' [AId model_id]))
       (List.find (\<lambda>m. row_id m = model_id \<and> (include_disabled \<or> \<not> is_disabled m)) (live_select (registered r)))"

definition get_model_by_name :: "registry \<Rightarrow> string \<Rightarrow> registered_model result" where
  "get_model_by_name r name =
     the_or (NotFoundError (Msg ''Model {} not found.'' [AStr name])) (List.find (\<lambda>m. m_name m = name) (live_select (registered r)))"

definition save_model :: "registered_model \<Rightarrow> registry \<Rightarrow> registry" where
  "save_model m r = put_models (save_row m (registered r)) r"

record model_update =
  mu_name :: "string option"
  mu_description :: "string option option"
  mu_model_alias :: "string option"
  mu_provider :: "provider_vendor option"
  mu_input_modalities :: "modality list option"
  mu_output_modalities :: "modality list option"
  mu_provider_model_id :: "string option"
  mu_endpoint_name :: "string option option"
  mu_inference_endpoint :: "string option option"
  mu_icon_file :: "string option option"
  mu_labels :: "string list option"
  mu_parameters :: "params option"
  mu_extras :: "params option"
  mu_is_disabled :: "bool option"
  mu_warmup_enabled :: "bool option"
  mu_advanced_params_disabled :: "bool option"
  mu_web_access :: "bool option"
  mu_inactivity_alert_hours :: "nat option option"

text \<open>The loop over the sent fields: each iteration reads only its own column, so the order of a Python set does not matter.\<close>

definition set_model_fields :: "timestamp \<Rightarrow> registered_model \<Rightarrow> model_update \<Rightarrow> registered_model" where
  "set_model_fields t m ch =
     (let m1 = (case mu_is_disabled ch of None \<Rightarrow> m | Some b \<Rightarrow> if b then disable t m else enable m);
          hours_armed = (rm_inactivity_alert_hours m = None \<and> (case mu_inactivity_alert_hours ch of Some (Some _) \<Rightarrow> True | _ \<Rightarrow> False));
          warmup_armed = (\<not> rm_warmup_enabled m \<and> mu_warmup_enabled ch = Some True);
          m2 = m1\<lparr>rm_inactivity_alerted_at := if hours_armed \<or> warmup_armed then None else rm_inactivity_alerted_at m1\<rparr>
      in m2\<lparr>m_name := set_or (m_name m2) (mu_name ch), rm_description := set_or (rm_description m2) (mu_description ch),
           rm_model_alias := set_or (rm_model_alias m2) (mu_model_alias ch), rm_provider := set_or (rm_provider m2) (mu_provider ch),
           rm_input_modalities := set_or (rm_input_modalities m2) (mu_input_modalities ch),
           rm_output_modalities := set_or (rm_output_modalities m2) (mu_output_modalities ch),
           rm_provider_model_id := set_or (rm_provider_model_id m2) (mu_provider_model_id ch),
           rm_endpoint_name := set_or (rm_endpoint_name m2) (mu_endpoint_name ch),
           rm_inference_endpoint := set_or (rm_inference_endpoint m2) (mu_inference_endpoint ch),
           rm_icon_file := set_or (rm_icon_file m2) (mu_icon_file ch), rm_labels := set_or (rm_labels m2) (mu_labels ch),
           rm_parameters := set_or (rm_parameters m2) (mu_parameters ch), rm_extras := set_or (rm_extras m2) (mu_extras ch),
           rm_warmup_enabled := set_or (rm_warmup_enabled m2) (mu_warmup_enabled ch),
           rm_advanced_params_disabled := set_or (rm_advanced_params_disabled m2) (mu_advanced_params_disabled ch),
           rm_web_access := set_or (rm_web_access m2) (mu_web_access ch),
           rm_inactivity_alert_hours := set_or (rm_inactivity_alert_hours m2) (mu_inactivity_alert_hours ch)\<rparr>)"

definition update_model :: "(string \<Rightarrow> bool) \<Rightarrow> registry \<Rightarrow> registered_model \<Rightarrow> model_update \<Rightarrow> (registered_model \<times> registry) result" where
  "update_model web_search r m ch =
     (let m1 = set_model_fields (registry_now r) m ch;
          endpoint_sent = (mu_inference_endpoint ch \<noteq> None); provider_sent = (mu_provider ch \<noteq> None);
          id_sent = (mu_provider_model_id ch \<noteq> None)
      in
      bindE (if provider_sent \<or> endpoint_sent then require_inference_endpoint (rm_provider m1) (rm_inference_endpoint m1)
             else Inr ()) (\<lambda>_.
      bindE (if provider_sent \<or> id_sent \<or> endpoint_sent
             then require_unprefixed_model_id (rm_provider m1) (rm_provider_model_id m1) (rm_inference_endpoint m1) else Inr ()) (\<lambda>_.
      bindE (if provider_sent \<or> id_sent \<or> mu_web_access ch \<noteq> None
             then require_web_access_supported web_search (rm_provider m1) (rm_provider_model_id m1) (rm_web_access m1) else Inr ()) (\<lambda>_.
      let m2 = (if probed_call m1 \<noteq> probed_call m then m1\<lparr>rm_capability_mismatch := None\<rparr> else m1)
      in bindE (model_unique (registered r) m2) (\<lambda>_. Inr (m2, save_model m2 r))))))"

definition set_api_key :: "jwe \<Rightarrow> gateway_settings \<Rightarrow> registry \<Rightarrow> registered_model \<Rightarrow> string \<Rightarrow> (registered_model \<times> registry) result" where
  "set_api_key j gs r m api_key =
     bindE (or_crash (encrypt_secret j gs (draws (site r)) api_key)) (\<lambda>s.
     let m' = m\<lparr>rm_api_key_encrypted := Some s\<rparr> in Inr (m', save_model m' (drawn r)))"

definition clear_api_key :: "registry \<Rightarrow> registered_model \<Rightarrow> registered_model \<times> registry" where
  "clear_api_key r m =
     (if rm_api_key_encrypted m = None then (m, r)
      else let m' = m\<lparr>rm_api_key_encrypted := None\<rparr> in (m', save_model m' r))"

definition has_default_key :: "provider_vendor \<Rightarrow> bool" where
  "has_default_key v \<longleftrightarrow> v \<in> {HUGGINGFACE, GOOGLE, OPENAI, ANTHROPIC, AZURE, COHERE}"

definition resolve_api_key :: "jwe \<Rightarrow> gateway_settings \<Rightarrow> registered_model \<Rightarrow> secret_error + string option" where
  "resolve_api_key j gs m =
     (case rm_api_key_encrypted m of
        Some s \<Rightarrow> (case decrypt_secret j gs s of Inl e \<Rightarrow> Inl e | Inr k \<Rightarrow> Inr (Some k))
      | None \<Rightarrow> Inr (if has_default_key (rm_provider m) then gs_provider_key gs (rm_provider m) else None))"

definition has_resolvable_credential :: "gateway_settings \<Rightarrow> registered_model \<Rightarrow> bool" where
  "has_resolvable_credential gs m \<longleftrightarrow>
     rm_api_key_encrypted m \<noteq> None \<or> rm_provider m = AWS_BEDROCK \<or>
     has_default_key (rm_provider m) \<and> \<not> blank_text (gs_provider_key gs (rm_provider m))"

definition get_restorable_model :: "registry \<Rightarrow> uuid \<Rightarrow> timestamp \<Rightarrow> registered_model result" where
  "get_restorable_model r model_id deleted_cutoff =
     the_or (NotFoundError (Msg ''No restorable model {} was deleted within the restore window.'' [AId model_id]))
       (List.find (\<lambda>m. row_id m = model_id) (deleted_select deleted_cutoff None (registered r)))"

definition restore_model :: "registry \<Rightarrow> registered_model \<Rightarrow> (registered_model \<times> registry) result" where
  "restore_model r m =
     bindE (ensure (\<not> list_ex (\<lambda>x. m_name x = m_name m) (live_select (registered r)))
       (ConflictError (Msg ''A live model already uses the {} {}; rename it and retry.'' [AStr ''name'', AStr (m_name m)]))) (\<lambda>_.
     bindE (ensure (\<not> list_ex (\<lambda>x. rm_model_alias x = rm_model_alias m) (live_select (registered r)))
       (ConflictError (Msg ''A live model already uses the {} {}; rename it and retry.'' [AStr ''model_alias'', AStr (rm_model_alias m)]))) (\<lambda>_.
     let m' = restore_registered m in Inr (m', save_model m' r)))"

definition list_labels :: "registry \<Rightarrow> string list" where
  "list_labels r = sort_key casefold (remdups (concat (map rm_labels (live_select (registered r)))))"

record model_filters =
  mf_include_disabled :: bool
  mf_deleted :: bool
  mf_assignable_to_evaluation :: "uuid option"
  mf_for_group :: "uuid option"

definition list_models ::
  "registry \<Rightarrow> model_filters \<Rightarrow> (registered_model \<Rightarrow> bool) \<Rightarrow> nat \<Rightarrow> nat \<Rightarrow> timestamp \<Rightarrow> registered_model list \<times> nat" where
  "list_models r filters extra limit offset deleted_cutoff =
     (if mf_deleted filters
      then paginate limit offset (sort_key (\<lambda>m. case deleted_at m of None \<Rightarrow> 0 | Some t \<Rightarrow> - t) (sort_key row_id
             (filter extra (deleted_select deleted_cutoff None (registered r)))))
      else paginate limit offset (sort_key created_at (sort_key row_id
             (filter extra (filter (\<lambda>m. mf_include_disabled filters \<or> \<not> is_disabled m) (live_select (registered r)))))))"

end
