(* ===== verification/Gateway.thy ===== *)
theory Gateway
  imports Model_Registry Message_Stream
begin

section \<open>The gateway to the providers\<close>

text \<open>
  \<open>ai_gateway/dispatch.py\<close>, \<open>chat.py\<close>, \<open>inference_params.py\<close> and \<open>web_access.py\<close>.  A provider adapter is a function from the
  call it receives to a \<open>ProviderError\<close> or its reply; \<open>litellm.supports_web_search\<close> is the argument \<open>web_search\<close>.  Stored
  parameters are strings; what goes over the wire is \<open>wire\<close>.  Usage stamps are best effort: \<open>stamps\<close> says whether their own
  session commits.  Metrics and time limits are left out; the ellipsis of a truncated reason is one character.
\<close>

datatype content_part = TextContentPart string | ImageContentPart string
datatype chat_content = ChatText string | ChatParts "content_part list"

record chat_message =
  cm_role :: message_role
  cm_content :: chat_content

datatype wire = WStr string | WInt int | WDict "(string \<times> wire) list" | WList "wire list"

record provider_call =
  pc_vendor :: provider_vendor
  pc_provider_model_id :: string
  pc_messages :: "chat_message list"
  pc_api_key :: "string option"
  pc_api_base :: "string option"
  pc_params :: "(string \<times> wire) list"

datatype dispatch_error = ByProvider provider_error | ByService error

type_synonym 'a dispatched = "dispatch_error + 'a"

definition bindD :: "'a dispatched \<Rightarrow> ('a \<Rightarrow> 'b dispatched) \<Rightarrow> 'b dispatched" where
  "bindD x f = (case x of Inl e \<Rightarrow> Inl e | Inr y \<Rightarrow> f y)"

text \<open>\<open>repr\<close> of a slug.\<close>

definition quoted :: "string \<Rightarrow> string" where
  "quoted s = CHR 0x27 # s @ [CHR 0x27]"

definition refuse :: "bool \<Rightarrow> string \<Rightarrow> unit dispatched" where
  "refuse b reason = (if b then Inl (ByProvider (ProviderBadRequestError reason)) else Inr ())"

subsection \<open>Parameters\<close>

definition merge_inference_params :: "params option list \<Rightarrow> params" where
  "merge_inference_params levels = foldl (\<lambda>merged level. case level of None \<Rightarrow> merged | Some l \<Rightarrow> dict_merge merged l) [] levels"

definition MASKABLE_PARAM_KEYS :: "string list" where
  "MASKABLE_PARAM_KEYS = [''temperature'', ''top_p'', ''top_k'', ''max_tokens'', ''frequency_penalty'', ''presence_penalty'',
     ''repetition_penalty'', ''seed'']"

definition mask_inference_params :: "params \<Rightarrow> params" where
  "mask_inference_params ps = filter (\<lambda>(k, v). k \<in> set MASKABLE_PARAM_KEYS) ps"

definition dict_pop :: "string \<Rightarrow> (string \<times> 'v) list \<Rightarrow> (string \<times> 'v) list" where
  "dict_pop key d = filter (\<lambda>(k, v). k \<noteq> key) d"

definition dict_setdefault :: "string \<Rightarrow> 'v \<Rightarrow> (string \<times> 'v) list \<Rightarrow> (string \<times> 'v) list" where
  "dict_setdefault key v d = (if key \<in> fst ` set d then d else d @ [(key, v)])"

subsection \<open>Building a call\<close>

definition resolve_model :: "registry \<Rightarrow> string \<Rightarrow> registered_model dispatched" where
  "resolve_model r alias =
     (case List.find (\<lambda>m. rm_model_alias m = alias) (live_select (registered r)) of
        Some m \<Rightarrow> if is_disabled m then Inl (ByService (NotFoundError (Msg ''Model {} is not available.'' [AStr alias]))) else Inr m
      | None \<Rightarrow> Inl (ByService (NotFoundError (Msg ''Model {} is not available.'' [AStr alias]))))"

definition credential :: "jwe \<Rightarrow> gateway_settings \<Rightarrow> registered_model \<Rightarrow> string option dispatched" where
  "credential j gs m =
     (case resolve_api_key j gs m of
        Inl SecretDecryptError \<Rightarrow> Inl (ByProvider (ProviderAuthError (''Stored credential for model '' @ quoted (rm_model_alias m) @ '' could not be decrypted.'')))
      | Inl SecretValueError \<Rightarrow> Inl (ByService RuntimeError)
      | Inr k \<Rightarrow> Inr k)"

fun is_image_part :: "content_part \<Rightarrow> bool" where
  "is_image_part (ImageContentPart _) = True"
| "is_image_part (TextContentPart _) = False"

fun content_has_image :: "chat_content \<Rightarrow> bool" where
  "content_has_image (ChatText _) = False"
| "content_has_image (ChatParts ps) = list_ex is_image_part ps"

definition has_image_content :: "chat_message list \<Rightarrow> bool" where
  "has_image_content ms = list_ex (\<lambda>m. content_has_image (cm_content m)) ms"

definition system_content :: "string option \<Rightarrow> string option \<Rightarrow> string" where
  "system_content system_prompt system_suffix =
     py_join [CHR 0x0A, CHR 0x0A] (filter (\<lambda>p. p \<noteq> '''') (List.map_filter id [system_prompt, system_suffix]))"

definition build_call ::
  "jwe \<Rightarrow> gateway_settings \<Rightarrow> registered_model \<Rightarrow> chat_message list \<Rightarrow> params option \<Rightarrow> string option \<Rightarrow> provider_call dispatched" where
  "build_call j gs m history params system_suffix =
     bindD (refuse (MOD_TEXT \<notin> set (rm_output_modalities m)) (''Model '' @ quoted (rm_model_alias m) @ '' does not produce text output.'')) (\<lambda>_.
     bindD (refuse (MOD_IMAGE \<notin> set (rm_input_modalities m) \<and> has_image_content history)
       (''Model '' @ quoted (rm_model_alias m) @ '' does not accept image input.'')) (\<lambda>_.
     bindD (refuse (missing_inference_endpoint (rm_provider m) (rm_inference_endpoint m))
       (''Model '' @ quoted (rm_model_alias m) @ '' is generic but carries no inference_endpoint - there is no base URL to call.'')) (\<lambda>_.
     let merged = (if rm_advanced_params_disabled m then [] else merge_inference_params [Some (rm_parameters m), params]);
         system_prompt = map_of merged ''system_prompt'';
         stop = map_of merged ''stop_sequences'';
         popped = dict_pop ''stop_sequences'' (dict_pop ''system_prompt'' merged);
         knobs = (case stop of None \<Rightarrow> popped | Some s \<Rightarrow> dict_setdefault ''stop'' s popped);
         sc = system_content system_prompt system_suffix
     in bindD (credential j gs m) (\<lambda>key.
        Inr \<lparr>pc_vendor = rm_provider m, pc_provider_model_id = rm_provider_model_id m,
          pc_messages = (if sc = '''' then history else \<lparr>cm_role = MR_SYSTEM, cm_content = ChatText sc\<rparr> # history),
          pc_api_key = key, pc_api_base = rm_inference_endpoint m, pc_params = map (\<lambda>(k, v). (k, WStr v)) knobs\<rparr>))))"

definition WEB_TOOL_KEYS :: "string list" where
  "WEB_TOOL_KEYS = [''web_search_options'', ''tools'']"

definition WEB_SEARCH_OPTIONS :: wire where
  "WEB_SEARCH_OPTIONS = WDict [(''search_context_size'', WStr ''medium'')]"

definition ANTHROPIC_WEB_FETCH_TOOL :: wire where
  "ANTHROPIC_WEB_FETCH_TOOL = WDict [(''type'', WStr ''web_fetch_20250910''), (''name'', WStr ''web_fetch''), (''max_uses'', WInt 5)]"

definition apply_web_access ::
  "(string \<Rightarrow> bool) \<Rightarrow> (string \<times> wire) list \<Rightarrow> registered_model \<Rightarrow> (string \<times> wire) list dispatched" where
  "apply_web_access web_search params m =
     (if \<not> rm_web_access m then Inr (filter (\<lambda>(k, v). k \<notin> set WEB_TOOL_KEYS) params)
      else bindD (refuse (\<not> supports_web_access web_search (rm_provider m) (rm_provider_model_id m))
             (''Model '' @ quoted (rm_model_alias m) @ '' has no internet access option at its provider, yet web_access is on.'')) (\<lambda>_.
           Inr (dict_merge params ((''web_search_options'', WEB_SEARCH_OPTIONS) #
             (if rm_provider m = ANTHROPIC then [(''tools'', WList [ANTHROPIC_WEB_FETCH_TOOL])] else [])))))"

text \<open>What \<open>dispatch_chat\<close> and \<open>dispatch_stream\<close> do before the provider is called.\<close>

definition prepare_call ::
  "(string \<Rightarrow> bool) \<Rightarrow> jwe \<Rightarrow> gateway_settings \<Rightarrow> registry \<Rightarrow> string \<Rightarrow> chat_message list \<Rightarrow> params option \<Rightarrow> string option \<Rightarrow>
     (registered_model \<times> provider_call) dispatched" where
  "prepare_call web_search j gs r alias history params system_suffix =
     bindD (resolve_model r alias) (\<lambda>m.
     bindD (build_call j gs m history params system_suffix) (\<lambda>call.
     bindD (apply_web_access web_search (pc_params call) m) (\<lambda>ps.
     Inr (m, call\<lparr>pc_params := ps\<rparr>))))"

subsection \<open>Usage stamps\<close>

definition stamp_model :: "bool \<Rightarrow> uuid \<Rightarrow> (registered_model \<Rightarrow> bool) \<Rightarrow> (registered_model \<Rightarrow> registered_model) \<Rightarrow> registry \<Rightarrow> registry" where
  "stamp_model stamps model_id extra_where f r =
     (if stamps then put_models (map (\<lambda>m. if row_id m = model_id \<and> extra_where m then f m else m) (registered r)) r else r)"

definition stamp_usage :: "bool \<Rightarrow> uuid \<Rightarrow> registry \<Rightarrow> registry" where
  "stamp_usage stamps model_id r =
     stamp_model stamps model_id (\<lambda>_. True)
       (\<lambda>m. m\<lparr>rm_last_used_at := Some (registry_now r), rm_inactivity_alerted_at := None\<rparr>) r"

definition WARMUP_STAMP_INTERVAL :: int where "WARMUP_STAMP_INTERVAL = 300"

definition stamp_warmup :: "bool \<Rightarrow> uuid \<Rightarrow> registry \<Rightarrow> registry" where
  "stamp_warmup stamps model_id r =
     stamp_model stamps model_id
       (\<lambda>m. case rm_last_warmup_at m of None \<Rightarrow> True | Some t \<Rightarrow> t < registry_now r - WARMUP_STAMP_INTERVAL)
       (\<lambda>m. m\<lparr>rm_last_warmup_at := Some (registry_now r)\<rparr>) r"

subsection \<open>Dispatch\<close>

definition dispatch_chat ::
  "(string \<Rightarrow> bool) \<Rightarrow> jwe \<Rightarrow> gateway_settings \<Rightarrow> (provider_call \<Rightarrow> provider_error + 'c) \<Rightarrow> bool \<Rightarrow> registry \<Rightarrow> string \<Rightarrow> chat_message list \<Rightarrow>
     params option \<Rightarrow> string option \<Rightarrow> 'c dispatched \<times> registry" where
  "dispatch_chat web_search j gs provider stamps r alias history params system_suffix =
     (case prepare_call web_search j gs r alias history params system_suffix of
        Inl e \<Rightarrow> (Inl e, r)
      | Inr (m, call) \<Rightarrow>
          (case provider call of Inl e \<Rightarrow> Inl (ByProvider e) | Inr completion \<Rightarrow> Inr completion, stamp_usage stamps (row_id m) r))"

text \<open>\<open>dispatch_stream\<close> returns without a stamp; the first iteration of the stream stamps, on the state of that moment.\<close>

definition dispatch_stream ::
  "(string \<Rightarrow> bool) \<Rightarrow> jwe \<Rightarrow> gateway_settings \<Rightarrow> registry \<Rightarrow> string \<Rightarrow> chat_message list \<Rightarrow> params option \<Rightarrow> string option \<Rightarrow>
     (provider_call \<times> (bool \<Rightarrow> registry \<Rightarrow> registry)) dispatched" where
  "dispatch_stream web_search j gs r alias history params system_suffix =
     bindD (prepare_call web_search j gs r alias history params system_suffix) (\<lambda>(m, call).
     Inr (call, \<lambda>stamps. stamp_usage stamps (row_id m)))"

datatype warmup_status = WS_STARTING | WS_READY | WS_ERROR

fun HEALTH_FAULTS :: "provider_error \<Rightarrow> warmup_status \<times> string option" where
  "HEALTH_FAULTS (ProviderRateLimitError _) = (WS_READY, Some ''rate-limit'')"
| "HEALTH_FAULTS (ProviderTimeoutError _) = (WS_STARTING, Some ''timeout'')"
| "HEALTH_FAULTS (ProviderUnavailableError _) = (WS_STARTING, Some ''unreachable'')"
| "HEALTH_FAULTS (ProviderContextWindowError _) = (WS_ERROR, Some ''context-window'')"
| "HEALTH_FAULTS (ProviderAuthError _) = (WS_ERROR, Some ''auth'')"
| "HEALTH_FAULTS (ProviderBadRequestError _) = (WS_ERROR, Some ''bad-request'')"
| "HEALTH_FAULTS (ProviderNotFoundError _) = (WS_ERROR, Some ''model-not-found'')"
| "HEALTH_FAULTS (OtherProviderError _) = (WS_ERROR, Some ''error'')"

definition PROBE_MESSAGE :: chat_message where
  "PROBE_MESSAGE = \<lparr>cm_role = MR_USER, cm_content = ChatText ''ping''\<rparr>"

text \<open>The probe image is the argument \<open>png\<close>.\<close>

definition PROBE_IMAGE_MESSAGE :: "string \<Rightarrow> chat_message" where
  "PROBE_IMAGE_MESSAGE png = \<lparr>cm_role = MR_USER, cm_content = ChatParts [TextContentPart ''ping'', ImageContentPart png]\<rparr>"

definition capped :: "provider_call \<Rightarrow> provider_call" where
  "capped call = call\<lparr>pc_params := dict_merge (pc_params call) [(''max_tokens'', WInt 1)]\<rparr>"

definition dispatch_health ::
  "jwe \<Rightarrow> gateway_settings \<Rightarrow> (provider_call \<Rightarrow> provider_error + 'c) \<Rightarrow> registered_model \<Rightarrow> (warmup_status \<times> string option) dispatched" where
  "dispatch_health j gs provider m =
     (case build_call j gs m [PROBE_MESSAGE] None None of
        Inl (ByProvider e) \<Rightarrow> Inr (HEALTH_FAULTS e)
      | Inl (ByService e) \<Rightarrow> Inl (ByService e)
      | Inr call \<Rightarrow> (case provider (capped call) of Inl e \<Rightarrow> Inr (HEALTH_FAULTS e) | Inr _ \<Rightarrow> Inr (WS_READY, None)))"

definition MISMATCH_MAX_LEN :: nat where "MISMATCH_MAX_LEN = 255"

definition mismatch_reason :: "string \<Rightarrow> string" where
  "mismatch_reason reason =
     (if length reason \<le> MISMATCH_MAX_LEN then reason else take (MISMATCH_MAX_LEN - 1) reason @ [CHR 0x85])"

definition dispatch_capability_probe ::
  "string \<Rightarrow> jwe \<Rightarrow> gateway_settings \<Rightarrow> (provider_call \<Rightarrow> provider_error + 'c) \<Rightarrow> registered_model \<Rightarrow> (bool \<times> string option) dispatched" where
  "dispatch_capability_probe png j gs provider m =
     bindD (build_call j gs m [PROBE_IMAGE_MESSAGE png] None None) (\<lambda>call.
     case provider (capped call) of
       Inl (ProviderBadRequestError reason) \<Rightarrow> Inr (True, Some (mismatch_reason reason))
     | Inl _ \<Rightarrow> Inr (False, None)
     | Inr _ \<Rightarrow> Inr (True, None))"

definition dispatch_probe ::
  "jwe \<Rightarrow> gateway_settings \<Rightarrow> (provider_call \<Rightarrow> provider_error + 'c) \<Rightarrow> bool \<Rightarrow> registry \<Rightarrow> string \<Rightarrow> warmup_status dispatched \<times> registry" where
  "dispatch_probe j gs provider stamps r alias =
     (case resolve_model r alias of
        Inl e \<Rightarrow> (Inl e, r)
      | Inr m \<Rightarrow> (bindD (dispatch_health j gs provider m) (\<lambda>(s, _). Inr s), stamp_warmup stamps (row_id m) r))"

end
