(* ===== verification/Model_Routes.thy ===== *)
theory Model_Routes
  imports Gateway Annotation_Models
begin

section \<open>Requests to the model registry\<close>

text \<open>
  The handlers of \<open>api/v1/ai_models.py\<close>, with \<open>check_in_flight\<close> and \<open>start_health_check\<close> of \<open>ai_gateway/services/health.py\<close>.
  \<open>broker_up\<close> says whether the task queue accepts a task.  An automatic check commits the request first, so only it can be lost.
  \<open>max_rows\<close> and the uniqueness of row keys are checked before a bulk handler runs.
\<close>

subsection \<open>Health checks, started\<close>

definition check_in_flight :: "gateway_settings \<Rightarrow> timestamp \<Rightarrow> registered_model \<Rightarrow> bool" where
  "check_in_flight gs t m \<longleftrightarrow>
     rm_health_check_status m = Some HC_CHECKING \<and>
     (case rm_last_health_check_at m of None \<Rightarrow> False | Some s \<Rightarrow> t - gs_health_check_task_time_limit_seconds gs < s)"

definition start_health_check :: "registry \<Rightarrow> registered_model \<Rightarrow> registered_model \<times> registry" where
  "start_health_check r m =
     (let m' = m\<lparr>rm_health_check_status := Some HC_CHECKING, rm_last_health_check_at := Some (registry_now r)\<rparr>
      in (m', save_model m' r))"

definition enqueue_health :: "uuid \<Rightarrow> registry \<Rightarrow> registry" where
  "enqueue_health model_id r = r\<lparr>health_queue := health_queue r @ [model_id]\<rparr>"

definition autocheck :: "bool \<Rightarrow> gateway_settings \<Rightarrow> registered_model \<Rightarrow> registry \<Rightarrow> registered_model \<times> registry" where
  "autocheck broker_up gs m r =
     (if is_disabled m \<or> \<not> has_resolvable_credential gs m \<and> rm_inference_endpoint m = None \<or> \<not> broker_up then (m, r)
      else start_health_check (enqueue_health (row_id m) r) m)"

subsection \<open>The audit trail\<close>

definition ai_model_snapshot :: "registered_model \<Rightarrow> (string \<times> arg) list" where
  "ai_model_snapshot m =
     [(''name'', AStr (m_name m)), (''description'', AOpt (rm_description m)), (''model_alias'', AStr (rm_model_alias m)),
      (''provider'', AStr (provider_value (rm_provider m))),
      (''input_modalities'', AStrs (map modality_value (rm_input_modalities m))),
      (''output_modalities'', AStrs (map modality_value (rm_output_modalities m))),
      (''provider_model_id'', AStr (rm_provider_model_id m)), (''endpoint_name'', AOpt (rm_endpoint_name m)),
      (''inference_endpoint'', AOpt (rm_inference_endpoint m)), (''is_disabled'', abool (is_disabled m)),
      (''warmup_enabled'', abool (rm_warmup_enabled m)), (''advanced_params_disabled'', abool (rm_advanced_params_disabled m)),
      (''web_access'', abool (rm_web_access m)),
      (''inactivity_alert_hours'', case rm_inactivity_alert_hours m of None \<Rightarrow> AOpt None | Some h \<Rightarrow> ANat h),
      (''icon_file'', AOpt (rm_icon_file m)), (''labels'', AStrs (rm_labels m))]"

definition audit_model ::
  "session_user \<Rightarrow> string \<Rightarrow> uuid \<Rightarrow> (string \<times> arg) list option \<Rightarrow> (string \<times> arg) list option \<Rightarrow> registry \<Rightarrow> registry" where
  "audit_model caller action model_id before after r =
     r\<lparr>site := (site r)\<lparr>core := record_audit (core (site r)) (Some (su_id caller)) (Some (su_email caller)) action (Some ''ai_model'')
         (Some model_id) before after\<rparr>\<rparr>"

subsection \<open>Creating\<close>

definition create_model_endpoint ::
  "(string \<Rightarrow> bool) \<Rightarrow> jwe \<Rightarrow> gateway_settings \<Rightarrow> bool \<Rightarrow> registry \<Rightarrow> session_user \<Rightarrow> model_create \<Rightarrow> (registered_model \<times> registry) result" where
  "create_model_endpoint web_search j gs broker_up r caller payload =
     bindE (require_permission MODELS_CREATE caller) (\<lambda>_.
     bindE (create_model web_search j gs r payload) (\<lambda>(m, r1).
     Inr (autocheck broker_up gs m (audit_model caller ''ai_model.create'' (row_id m) None (Some (ai_model_snapshot m)) r1))))"

text \<open>The rollback of a bulk request; the random source is not rewound.\<close>

definition registry_rollback :: "registry \<Rightarrow> registry \<Rightarrow> registry" where
  "registry_rollback r r' = r\<lparr>site := (site r)\<lparr>draws := draws (site r')\<rparr>\<rparr>"

definition create_processor ::
  "(string \<Rightarrow> bool) \<Rightarrow> jwe \<Rightarrow> gateway_settings \<Rightarrow> bool \<Rightarrow> session_user \<Rightarrow> registry \<Rightarrow> model_create \<Rightarrow> (registered_model \<times> registry) result" where
  "create_processor web_search j gs dry_run caller r payload =
     bindE (create_model web_search j gs r payload) (\<lambda>(m, r1).
     Inr (m, if dry_run then r1 else audit_model caller ''ai_model.create'' (row_id m) None (Some (ai_model_snapshot m)) r1))"

definition bulk_create_models_endpoint ::
  "(error \<Rightarrow> problem_error_item list option) \<Rightarrow> (string \<Rightarrow> bool) \<Rightarrow> jwe \<Rightarrow> gateway_settings \<Rightarrow> registry \<Rightarrow> session_user \<Rightarrow>
     model_create bulk_request \<Rightarrow> registered_model bulk_response result \<times> registry" where
  "bulk_create_models_endpoint items web_search j gs r caller payload =
     (case require_permission MODELS_CREATE caller of Inl e \<Rightarrow> (Inl e, r)
      | Inr _ \<Rightarrow> apply_bulk registry_rollback items (create_processor web_search j gs (bq_dry_run payload) caller) r payload)"

subsection \<open>Credentials\<close>

definition api_key_processor ::
  "jwe \<Rightarrow> gateway_settings \<Rightarrow> bool \<Rightarrow> session_user \<Rightarrow> registry \<Rightarrow> string \<times> string \<Rightarrow> (registered_model \<times> registry) result" where
  "api_key_processor j gs dry_run caller r = (\<lambda>(name, api_key).
     bindE (get_model_by_name r name) (\<lambda>m.
     bindE (set_api_key j gs r m api_key) (\<lambda>(m', r1).
     Inr (m', if dry_run then r1 else audit_model caller ''ai_model.credential_set'' (row_id m') None None r1))))"

definition bulk_set_model_api_keys_endpoint ::
  "(error \<Rightarrow> problem_error_item list option) \<Rightarrow> jwe \<Rightarrow> gateway_settings \<Rightarrow> registry \<Rightarrow> session_user \<Rightarrow> (string \<times> string) bulk_request \<Rightarrow>
     registered_model bulk_response result \<times> registry" where
  "bulk_set_model_api_keys_endpoint items j gs r caller payload =
     (case require_permission MODELS_UPDATE caller of Inl e \<Rightarrow> (Inl e, r)
      | Inr _ \<Rightarrow> apply_bulk registry_rollback items (api_key_processor j gs (bq_dry_run payload) caller) r payload)"

definition set_model_api_key_endpoint ::
  "jwe \<Rightarrow> gateway_settings \<Rightarrow> bool \<Rightarrow> registry \<Rightarrow> session_user \<Rightarrow> uuid \<Rightarrow> string \<Rightarrow> registry result" where
  "set_model_api_key_endpoint j gs broker_up r caller model_id api_key =
     bindE (require_permission MODELS_UPDATE caller) (\<lambda>_.
     bindE (get_registered r model_id True) (\<lambda>m.
     bindE (set_api_key j gs r m api_key) (\<lambda>(m', r1).
     Inr (snd (autocheck broker_up gs m' (audit_model caller ''ai_model.credential_set'' (row_id m') None None r1))))))"

definition clear_model_api_key_endpoint ::
  "gateway_settings \<Rightarrow> bool \<Rightarrow> registry \<Rightarrow> session_user \<Rightarrow> uuid \<Rightarrow> registry result" where
  "clear_model_api_key_endpoint gs broker_up r caller model_id =
     bindE (require_permission MODELS_UPDATE caller) (\<lambda>_.
     bindE (get_registered r model_id True) (\<lambda>m.
     let (m', r1) = clear_api_key r m;
         r2 = audit_model caller ''ai_model.credential_clear'' (row_id m') None None r1
     in Inr (if has_resolvable_credential gs m' then snd (autocheck broker_up gs m' r2) else r2)))"

subsection \<open>Reading\<close>

definition list_models_endpoint ::
  "int \<Rightarrow> registry \<Rightarrow> session_user \<Rightarrow> model_filters \<Rightarrow> nat \<Rightarrow> nat \<Rightarrow> (registered_model list \<times> nat) result" where
  "list_models_endpoint window_days r caller filters limit offset =
     (let d = registry_db r; can_manage = caller_can_manage_groups caller in
      bindE (case mf_assignable_to_evaluation filters of None \<Rightarrow> Inr None
             | Some i \<Rightarrow> bindE (get_evaluation d i (Some (su_id caller)) can_manage) (\<lambda>e. Inr (Some e))) (\<lambda>evaluation.
      bindE (if has_permission MODELS_READ (su_permissions caller) then Inr ()
             else (case (case evaluation of Some e \<Rightarrow> Some (e_evaluation_group_id e) | None \<Rightarrow> mf_for_group filters) of
                 None \<Rightarrow> Inl (ForbiddenError (Msg ''Listing models requires the 'models:read' permission.'' []))
               | Some g \<Rightarrow> assert_group_write_access d g (su_id caller) can_manage MODELS_READ
                   (Msg ''Evaluation group {} not found.'' [AId g]))) (\<lambda>_.
      bindE (ensure (\<not> mf_include_disabled filters \<or> has_permission MODELS_UPDATE (su_permissions caller))
        (ForbiddenError (Msg ''Listing disabled models requires the 'models:update' permission.'' []))) (\<lambda>_.
      bindE (ensure (\<not> mf_deleted filters \<or> has_permission MODELS_DELETE (su_permissions caller))
        (ForbiddenError (Msg ''Listing deleted {} requires the '{}' permission.''
          [AStr ''models'', AStr (permission_value MODELS_DELETE)]))) (\<lambda>_.
      Inr (list_models r filters
        (\<lambda>m. case evaluation of None \<Rightarrow> True | Some e \<Rightarrow> assignable_model_conditions d e (ai_model.truncate m))
        limit offset (restore_cutoff window_days (registry_now r))))))))"

definition list_model_labels_endpoint :: "registry \<Rightarrow> session_user \<Rightarrow> string list result" where
  "list_model_labels_endpoint r caller = bindE (require_permission MODELS_READ caller) (\<lambda>_. Inr (list_labels r))"

definition get_model_endpoint :: "registry \<Rightarrow> session_user \<Rightarrow> uuid \<Rightarrow> registered_model result" where
  "get_model_endpoint r caller model_id =
     bindE (require_permission MODELS_READ caller) (\<lambda>_.
     get_registered r model_id (has_permission MODELS_UPDATE (su_permissions caller)))"

subsection \<open>The manual health check\<close>

text \<open>True in the first component: a new check was started (202).  The enqueue is not swallowed here.\<close>

definition health_check_model_endpoint ::
  "gateway_settings \<Rightarrow> bool \<Rightarrow> registry \<Rightarrow> session_user \<Rightarrow> uuid \<Rightarrow> (bool \<times> registered_model \<times> registry) result" where
  "health_check_model_endpoint gs broker_up r caller model_id =
     bindE (require_permission MODELS_UPDATE caller) (\<lambda>_.
     bindE (get_registered r model_id True) (\<lambda>m.
     if check_in_flight gs (registry_now r) m then Inr (False, m, r)
     else let (m', r1) = start_health_check r m in
          bindE (ensure broker_up RuntimeError) (\<lambda>_. Inr (True, m', enqueue_health (row_id m') r1))))"

subsection \<open>Changing, restoring, deleting\<close>

definition PROBED_CALL_FIELDS :: "string list" where
  "PROBED_CALL_FIELDS = [''input_modalities'', ''inference_endpoint'', ''provider'', ''provider_model_id'']"

definition update_model_endpoint ::
  "(string \<Rightarrow> bool) \<Rightarrow> gateway_settings \<Rightarrow> bool \<Rightarrow> registry \<Rightarrow> session_user \<Rightarrow> uuid \<Rightarrow> model_update \<Rightarrow> (registered_model \<times> registry) result" where
  "update_model_endpoint web_search gs broker_up r caller model_id payload =
     bindE (require_permission MODELS_UPDATE caller) (\<lambda>_.
     bindE (get_registered r model_id True) (\<lambda>m.
     bindE (update_model web_search r m payload) (\<lambda>(updated, r1).
     let (diff_before, diff_after) = changed_fields (ai_model_snapshot m) (ai_model_snapshot updated);
         opaque_changed = (rm_extras updated \<noteq> rm_extras m \<or> rm_parameters updated \<noteq> rm_parameters m);
         r2 = (if diff_before \<noteq> [] \<or> diff_after \<noteq> []
               then audit_model caller ''ai_model.update'' (row_id updated) (Some diff_before) (Some diff_after) r1
               else if opaque_changed then audit_model caller ''ai_model.update'' (row_id updated) None None r1 else r1)
     in Inr (if set PROBED_CALL_FIELDS \<inter> set (map fst diff_after) \<noteq> {} \<or> map_of diff_after ''is_disabled'' = Some (abool False)
             then autocheck broker_up gs updated r2 else (updated, r2)))))"

definition restore_model_endpoint ::
  "int \<Rightarrow> registry \<Rightarrow> session_user \<Rightarrow> uuid \<Rightarrow> (registered_model \<times> registry) result" where
  "restore_model_endpoint window_days r caller model_id =
     bindE (require_permission MODELS_DELETE caller) (\<lambda>_.
     bindE (get_restorable_model r model_id (restore_cutoff window_days (registry_now r))) (\<lambda>m.
     bindE (restore_model r m) (\<lambda>(restored, r1).
     Inr (restored, audit_model caller ''ai_model.restore'' (row_id restored) None (Some (ai_model_snapshot restored)) r1))))"

text \<open>The cascades of the delete are \<open>delete_model_endpoint\<close> of \<open>Conversations\<close>; the registry row is stamped alike.\<close>

definition delete_registered_endpoint :: "registry \<Rightarrow> session_user \<Rightarrow> uuid \<Rightarrow> registry result" where
  "delete_registered_endpoint r caller model_id =
     bindE (require_permission MODELS_DELETE caller) (\<lambda>_.
     bindE (get_registered r model_id True) (\<lambda>m.
     bindE (delete_model_endpoint (\<lambda>_. ai_model_snapshot m) (site r) caller model_id) (\<lambda>c.
     Inr (r\<lparr>registered := save_row (soft_delete (registry_now r) (Some (su_id caller)) m) (registered r), site := c\<rparr>))))"

end
