(* ===== verification/Model_Health.thy ===== *)
theory Model_Health
  imports Model_Routes
begin

section \<open>Health checks and idle models\<close>

text \<open>
  \<open>run_health_check\<close> of \<open>ai_gateway/services/health.py\<close> and \<open>services/inactivity.py\<close>.  A check reads the row and commits, probes
  without a transaction, and settles in another one: \<open>conclude_check\<close> is what it learned about the row it read, \<open>settle_health_check\<close> the two
  guarded updates on the row of that moment.  \<open>probe i\<close> is the outcome of the i-th health probe, \<open>monotonic i\<close> the clock after it.
\<close>

subsection \<open>The probe loop\<close>

record verdict =
  hv_alive :: bool
  hv_reason :: "string option"
  hv_served :: bool

fun probe_loop ::
  "int \<Rightarrow> (nat \<Rightarrow> (warmup_status \<times> string option) dispatched) \<Rightarrow> (nat \<Rightarrow> int) \<Rightarrow> nat \<Rightarrow> nat \<Rightarrow> verdict dispatched option" where
  "probe_loop deadline probe monotonic i 0 = None"
| "probe_loop deadline probe monotonic i (Suc fuel) =
     (case probe i of
        Inl e \<Rightarrow> Some (Inl e)
      | Inr (status, probe_reason) \<Rightarrow>
          (case status of
             WS_READY \<Rightarrow> Some (Inr \<lparr>hv_alive = True, hv_reason = None, hv_served = (probe_reason = None)\<rparr>)
           | WS_ERROR \<Rightarrow> Some (Inr \<lparr>hv_alive = False, hv_reason = probe_reason, hv_served = False\<rparr>)
           | WS_STARTING \<Rightarrow>
               if deadline \<le> monotonic i then Some (Inr \<lparr>hv_alive = False, hv_reason = Some ''cold/deadline'', hv_served = False\<rparr>)
               else probe_loop deadline probe monotonic (Suc i) fuel))"

text \<open>What the run learned: the verdict, and the conclusion of the capability probe if one was made and conclusive.\<close>

record check_run =
  cr_model :: registered_model
  cr_verdict :: verdict
  cr_finding :: "string option option"

definition conclude_check ::
  "string \<Rightarrow> jwe \<Rightarrow> gateway_settings \<Rightarrow> (provider_call \<Rightarrow> provider_error + 'c) \<Rightarrow> registered_model \<Rightarrow> verdict \<Rightarrow> check_run dispatched" where
  "conclude_check png j gs provider m v =
     bindD (if hv_served v \<and> MOD_IMAGE \<in> set (rm_input_modalities m) then dispatch_capability_probe png j gs provider m
            else Inr (False, None)) (\<lambda>(conclusive, mismatch).
     Inr \<lparr>cr_model = m, cr_verdict = v, cr_finding = (if conclusive then Some mismatch else None)\<rparr>)"

definition token_of :: "registered_model \<Rightarrow> timestamp option" where
  "token_of m = rm_last_health_check_at m"

definition settle_row :: "timestamp \<Rightarrow> check_run \<Rightarrow> registered_model \<Rightarrow> registered_model" where
  "settle_row t run m =
     (let v = cr_verdict run;
          m1 = m\<lparr>rm_health_check_status := Some (if hv_alive v then HC_ALIVE else HC_DEAD), rm_last_health_reason := hv_reason v,
                 rm_last_healthy_at := if hv_alive v then Some t else rm_last_healthy_at m\<rparr>
      in case cr_finding run of None \<Rightarrow> m1
         | Some mismatch \<Rightarrow> if probed_call m1 = probed_call (cr_model run) then m1\<lparr>rm_capability_mismatch := mismatch\<rparr> else m1)"

definition settle_health_check :: "registry \<Rightarrow> check_run \<Rightarrow> registry" where
  "settle_health_check r run =
     put_models (map (\<lambda>m. if row_id m = row_id (cr_model run) \<and> token_of m = token_of (cr_model run)
                          then settle_row (registry_now r) run m else m) (registered r)) r"

subsection \<open>Idle models\<close>

definition idle_since :: "registered_model \<Rightarrow> timestamp" where
  "idle_since m = (case rm_last_used_at m of Some t \<Rightarrow> t | None \<Rightarrow> created_at m)"

definition inactive_predicate :: "timestamp \<Rightarrow> registered_model \<Rightarrow> bool" where
  "inactive_predicate t m \<longleftrightarrow>
     rm_warmup_enabled m \<and> rm_disabled_at m = None \<and> rm_inactivity_alerted_at m = None \<and>
     (case rm_inactivity_alert_hours m of None \<Rightarrow> False | Some h \<Rightarrow> int h * 3600 \<le> t - idle_since m)"

definition find_inactive_models :: "registry \<Rightarrow> timestamp \<Rightarrow> registered_model list" where
  "find_inactive_models r t = filter (inactive_predicate t) (live_select (registered r))"

definition claim_alert :: "registry \<Rightarrow> uuid \<Rightarrow> timestamp \<Rightarrow> bool \<times> registry" where
  "claim_alert r model_id t =
     (let hit = (\<lambda>m. deleted_at m = None \<and> row_id m = model_id \<and> inactive_predicate t m)
      in (list_ex hit (registered r),
          put_models (map (\<lambda>m. if hit m then m\<lparr>rm_inactivity_alerted_at := Some t\<rparr> else m) (registered r)) r))"

definition permission_holders :: "db \<Rightarrow> permission \<Rightarrow> uuid list" where
  "permission_holders d p =
     map fst (filter (\<lambda>(u, i). list_ex (\<lambda>x. row_id x = i \<and> r_is_active x \<and> permission_value p \<in> set (r_permissions x))
       (live_select (roles d))) (user_roles d))"

definition alert_recipients :: "db \<Rightarrow> user list" where
  "alert_recipients d =
     filter (\<lambda>u. u_status u = USER_ACTIVE \<and> row_id u \<in> set (permission_holders d MODELS_UPDATE) \<and>
       row_id u \<in> set (permission_holders d MODELS_READ)) (live_select (users d))"

definition alert_text :: "timestamp \<Rightarrow> registered_model \<Rightarrow> detail" where
  "alert_text t m =
     (let still_warmed = (case rm_last_warmup_at m of None \<Rightarrow> False
            | Some w \<Rightarrow> t - int (case rm_inactivity_alert_hours m of None \<Rightarrow> 0 | Some h \<Rightarrow> h) * 3600 \<le> w)
      in Msg (CHR 0x27 # ''{}' has had no messages for {} hours'' @
              (if still_warmed then '' but is still being warmed, so it is burning endpoint time for nobody.''
               else '', and nothing is warming it either.'') @ '' Disable it if nobody needs it.'')
           [AStr (m_name m), ANat (nat ((t - idle_since m) div 3600))])"

text \<open>One recipient: a notification and a mail in a transaction of their own; \<open>delivers\<close> says whether it commits.\<close>

definition tell_recipient :: "(uuid \<Rightarrow> uuid \<Rightarrow> bool) \<Rightarrow> timestamp \<Rightarrow> registered_model \<Rightarrow> user \<Rightarrow> registry \<Rightarrow> registry" where
  "tell_recipient delivers t m u r =
     (if delivers (row_id m) (row_id u)
      then r\<lparr>site := (site r)\<lparr>core := send_email (snd (create_notification (core (site r)) (row_id u) ''Model idle'' (Some (alert_text t m))
             (Some NOT_AI_MODEL) (Some (row_id m)))) ''model_inactivity_alert'' (u_email u) None\<rparr>\<rparr>
      else r)"

text \<open>The sweep over the candidates; \<open>meanwhile i\<close> is what other transactions commit before the i-th claim.\<close>

fun alert_each ::
  "(uuid \<Rightarrow> uuid \<Rightarrow> bool) \<Rightarrow> (nat \<Rightarrow> registry \<Rightarrow> registry) \<Rightarrow> timestamp \<Rightarrow> user list \<Rightarrow> nat \<Rightarrow> registered_model list \<Rightarrow> registry \<Rightarrow>
     nat \<times> registry" where
  "alert_each delivers meanwhile t recipients i [] r = (0, r)"
| "alert_each delivers meanwhile t recipients i (m # ms) r =
     (let (claimed, r1) = claim_alert (meanwhile i r) (row_id m) t
      in if claimed
         then (let (n, r') = alert_each delivers meanwhile t recipients (Suc i) ms (foldl (\<lambda>s u. tell_recipient delivers t m u s) r1 recipients)
               in (Suc n, r'))
         else alert_each delivers meanwhile t recipients (Suc i) ms r1)"

definition alert_inactive_models ::
  "(uuid \<Rightarrow> uuid \<Rightarrow> bool) \<Rightarrow> (nat \<Rightarrow> registry \<Rightarrow> registry) \<Rightarrow> registry \<Rightarrow> nat \<times> registry" where
  "alert_inactive_models delivers meanwhile r =
     (let t = registry_now r; candidates = find_inactive_models r t; recipients = alert_recipients (registry_db r)
      in if candidates = [] \<or> recipients = [] then (0, r)
         else alert_each delivers meanwhile t recipients 0 candidates r)"

end
