(* ===== verification/Model_Laws.thy ===== *)
theory Model_Laws
  imports Model_Health Desk_Laws
begin

section \<open>The registry keeps its promises\<close>

text \<open>
  Every request to the registry is a sequence of row writes (\<open>model_write\<close>), of a kind that says what it may do to the columns the
  alerts and the findings rest on.  From this follow: names and aliases of live models are unique, every row can be called, a stored
  finding is evidence about the call the row describes, and an idle model is announced once per quiet period.
\<close>

subsection \<open>Row writes\<close>

definition callable :: "(string \<Rightarrow> bool) \<Rightarrow> registered_model \<Rightarrow> bool" where
  "callable ws m \<longleftrightarrow>
     \<not> missing_inference_endpoint (rm_provider m) (rm_inference_endpoint m) \<and>
     prefixed_model_id (rm_provider m) (rm_provider_model_id m) (rm_inference_endpoint m) = None \<and>
     (rm_web_access m \<longrightarrow> supports_web_access ws (rm_provider m) (rm_provider_model_id m))"

type_synonym finding = "uuid \<times> (modality list \<times> string option \<times> provider_vendor \<times> string) \<times> string option"

definition finding_of :: "registered_model \<Rightarrow> finding" where
  "finding_of m = (row_id m, probed_call m, rm_capability_mismatch m)"

definition kept_finding :: "registered_model \<Rightarrow> registered_model \<Rightarrow> bool" where
  "kept_finding m m' \<longleftrightarrow> rm_capability_mismatch m' = None \<or> finding_of m' = finding_of m"

text \<open>The columns an alert depends on, and what counts as a fresh decision to watch the model.\<close>

definition alert_state :: "registered_model \<Rightarrow> bool \<times> bool \<times> nat option \<times> bool \<times> timestamp option" where
  "alert_state m = (deleted_at m = None, rm_disabled_at m = None, rm_inactivity_alert_hours m, rm_warmup_enabled m, rm_inactivity_alerted_at m)"

definition rearmed :: "registered_model \<Rightarrow> registered_model \<Rightarrow> bool" where
  "rearmed m m' \<longleftrightarrow> deleted_at m \<noteq> None \<and> deleted_at m' = None \<or> rm_disabled_at m \<noteq> None \<and> rm_disabled_at m' = None \<or>
     rm_inactivity_alert_hours m = None \<and> rm_inactivity_alert_hours m' \<noteq> None \<or> \<not> rm_warmup_enabled m \<and> rm_warmup_enabled m'"

datatype write_kind = Calm | Guarded | Used uuid | Settles finding

definition row_change :: "(string \<Rightarrow> bool) \<Rightarrow> write_kind \<Rightarrow> registered_model \<Rightarrow> registered_model \<Rightarrow> bool" where
  "row_change ws k m m' \<longleftrightarrow> row_id m' = row_id m \<and> (callable ws m \<longrightarrow> callable ws m') \<and>
     (kept_finding m m' \<or> k = Settles (finding_of m')) \<and>
     (case k of
        Guarded \<Rightarrow> rm_inactivity_alerted_at m \<noteq> None \<longrightarrow> rm_inactivity_alerted_at m' \<noteq> None \<or> rearmed m m'
      | Used i \<Rightarrow> row_id m \<noteq> i \<longrightarrow> alert_state m' = alert_state m
      | _ \<Rightarrow> alert_state m' = alert_state m)"

lemma row_change_refl [simp]: "row_change ws k m m"
  by (simp add: row_change_def kept_finding_def split: write_kind.split)

definition synced_models :: "registry \<Rightarrow> bool" where
  "synced_models r \<longleftrightarrow> ai_models (registry_db r) = map ai_model.truncate (registered r)"

abbreviation registry_fresh :: "registry \<Rightarrow> uuid" where
  "registry_fresh r \<equiv> fresh (site r)"

inductive model_write :: "(string \<Rightarrow> bool) \<Rightarrow> write_kind \<Rightarrow> registry \<Rightarrow> registry \<Rightarrow> bool" for ws k where
  append: "registered r' = registered r @ [m] \<Longrightarrow> row_id m = registry_fresh r \<Longrightarrow> registry_fresh r < registry_fresh r' \<Longrightarrow>
    model_unique (registered r) m = Inr () \<Longrightarrow> callable ws m \<Longrightarrow> rm_capability_mismatch m = None \<Longrightarrow> synced_models r' \<Longrightarrow> model_write ws k r r'"
| save: "m \<in> set (registered r) \<Longrightarrow> registered r' = save_row m' (registered r) \<Longrightarrow> row_change ws k m m' \<Longrightarrow>
    deleted_at m' \<noteq> None \<or> (deleted_at m = None \<and> m_name m' = m_name m \<and> rm_model_alias m' = rm_model_alias m) \<or>
      model_unique (registered r) m' = Inr () \<Longrightarrow> registry_fresh r \<le> registry_fresh r' \<Longrightarrow> synced_models r' \<Longrightarrow> model_write ws k r r'"
| touch: "registered r' = map f (registered r) \<Longrightarrow>
    (\<And>m. m \<in> set (registered r) \<Longrightarrow> row_change ws k m (f m) \<and> deleted_at (f m) = deleted_at m \<and> m_name (f m) = m_name m \<and>
       rm_model_alias (f m) = rm_model_alias m) \<Longrightarrow> registry_fresh r \<le> registry_fresh r' \<Longrightarrow> synced_models r' \<Longrightarrow> model_write ws k r r'"

lemma model_write_site: "registered r' = registered r \<Longrightarrow> registry_fresh r \<le> registry_fresh r' \<Longrightarrow> synced_models r' \<Longrightarrow> model_write ws k r r'"
  by (rule model_write.touch [where f = id]) simp_all

subsection \<open>The invariant\<close>

definition registry_inv :: "(string \<Rightarrow> bool) \<Rightarrow> registry \<Rightarrow> bool" where
  "registry_inv ws r \<longleftrightarrow> synced_models r \<and> indexed (\<lambda>m. Some (m_name m)) (registry_fresh r) (registered r) \<and>
     indexed (\<lambda>m. Some (rm_model_alias m)) (registry_fresh r) (registered r) \<and> (\<forall>m\<in>set (registered r). callable ws m)"

lemma registry_keys: "registry_inv ws r \<Longrightarrow> keys_ok (registry_fresh r) (registered r)"
  by (auto simp: registry_inv_def indexed_def)

lemma model_unique_Inr: "model_unique t m = Inr () \<longleftrightarrow>
   (\<forall>x\<in>set t. deleted_at x = None \<longrightarrow> row_id x \<noteq> row_id m \<longrightarrow> m_name x \<noteq> m_name m \<and> rm_model_alias x \<noteq> rm_model_alias m)"
  by (auto simp: model_unique_def Let_def svc_simps list_ex_iff in_live_select)

lemma indexed_touch:
  assumes "indexed key n t" and "n \<le> n'" and "\<And>m. m \<in> set t \<Longrightarrow> row_id (f m) = row_id m \<and> deleted_at (f m) = deleted_at m \<and> key (f m) = key m"
  shows "indexed key n' (map f t)"
proof (rule indexedI)
  have e: "map row_id (map f t) = map row_id t" using assms(3) by simp
  have "keys_ok n' t" using indexed_keys [OF assms(1)] keys_ok_mono assms(2) by blast
  then show "keys_ok n' (map f t)" unfolding keys_ok_def e using assms(3) by simp
  show "a = b" if "a \<in> set (map f t)" "b \<in> set (map f t)" "deleted_at a = None" "deleted_at b = None" "key a \<noteq> None" "key a = key b" for a b
  proof -
    obtain x y where "x \<in> set t" "a = f x" "y \<in> set t" "b = f y" using \<open>a \<in> _\<close> \<open>b \<in> _\<close> by auto
    then show ?thesis using that(3-6) assms(3) [of x] assms(3) [of y] indexed_same [OF assms(1), of x y] by simp
  qed
qed

lemma model_write_keeps: "model_write ws k r r' \<Longrightarrow> registry_inv ws r \<Longrightarrow> registry_inv ws r'"
proof (induction rule: model_write.induct)
  case (append r' r m)
  have "row_id x \<noteq> row_id m" if "x \<in> set (registered r)" for x
    using that keys_ok_fresh [OF registry_keys [OF append.prems]] append(2) by force
  then show ?case using append by (auto simp: registry_inv_def model_unique_Inr intro!: indexed_append)
next
  case (save m r r' m')
  have i: "indexed (\<lambda>m. Some (m_name m)) (registry_fresh r) (registered r)" "indexed (\<lambda>m. Some (rm_model_alias m)) (registry_fresh r) (registered r)"
    using save by (simp_all add: registry_inv_def)
  have id: "row_id m' = row_id m" using save by (simp add: row_change_def)
  have "indexed (\<lambda>m. Some (m_name m)) (registry_fresh r) (save_row m' (registered r))"
    "indexed (\<lambda>m. Some (rm_model_alias m)) (registry_fresh r) (save_row m' (registered r))"
    using save(4) indexed_save_dead [OF i(1) save(1) id] indexed_save_dead [OF i(2) save(1) id] indexed_save_same [OF i(1) save(1) id]
      indexed_save_same [OF i(2) save(1) id] indexed_save [OF i(1) save(1) id] indexed_save [OF i(2) save(1) id]
    by (metis model_unique_Inr option.inject)+
  moreover have "callable ws m'" using save by (simp add: registry_inv_def row_change_def)
  ultimately show ?case using save by (auto simp: registry_inv_def in_save_row intro: indexed_mono)
next
  case (touch r' f r)
  then show ?case
    by (auto simp: registry_inv_def row_change_def intro!: indexed_touch)
qed

subsection \<open>What a request writes\<close>

lemma put_models_sel [simp]:
  "registered (put_models t r) = t" "registry_fresh (put_models t r) = registry_fresh r" "registry_now (put_models t r) = registry_now r"
  "synced_models (put_models t r)" "draws (site (put_models t r)) = draws (site r)" "health_queue (put_models t r) = health_queue r"
  by (simp_all add: put_models_def synced_models_def)

lemma save_model_sel [simp]:
  "registered (save_model m r) = save_row m (registered r)" "registry_fresh (save_model m r) = registry_fresh r" "synced_models (save_model m r)"
  by (simp_all add: save_model_def)

lemma drawn_sel [simp]:
  "registered (drawn r) = registered r" "registry_fresh (drawn r) = registry_fresh r" "synced_models (drawn r) = synced_models r"
  by (simp_all add: drawn_def synced_models_def)

lemma audit_model_sel [simp]:
  "registered (audit_model c a i b d r) = registered r" "registry_fresh (audit_model c a i b d r) = Suc (registry_fresh r)"
  "synced_models (audit_model c a i b d r) = synced_models r"
  by (simp_all add: audit_model_def synced_models_def record_audit_def)

lemma enqueue_health_sel [simp]:
  "registered (enqueue_health i r) = registered r" "registry_fresh (enqueue_health i r) = registry_fresh r"
  "synced_models (enqueue_health i r) = synced_models r" "site (enqueue_health i r) = site r"
  by (simp_all add: enqueue_health_def synced_models_def)

lemma model_write_synced: "model_write ws k r r' \<Longrightarrow> synced_models r'"
  by (induction rule: model_write.induct) auto

lemma write_audit: "synced_models r \<Longrightarrow> model_write ws k r (audit_model c a i b d r)"
  by (rule model_write_site) simp_all

text \<open>A saved row that differs in columns no law looks at.\<close>

lemma write_calm:
  assumes "m \<in> set (registered r)" and "registered r' = save_row m' (registered r)" and "row_id m' = row_id m" "callable ws m' = callable ws m"
    and "finding_of m' = finding_of m" "alert_state m' = alert_state m" "m_name m' = m_name m" "rm_model_alias m' = rm_model_alias m"
    and "registry_fresh r \<le> registry_fresh r'" "synced_models r'" and "deleted_at m' = deleted_at m"
  shows "model_write ws Calm r r'"
  using assms by (intro model_write.save [where m = m and m' = m'] ) (auto simp: row_change_def kept_finding_def)

lemma write_start:
  assumes "m \<in> set (registered r)"
  shows "model_write ws Calm r (snd (start_health_check r m))"
  unfolding start_health_check_def Let_def snd_conv
  by (rule write_calm [OF assms, where m' = "m\<lparr>rm_health_check_status := Some HC_CHECKING, rm_last_health_check_at := Some (registry_now r)\<rparr>"])
    (simp_all add: callable_def finding_of_def alert_state_def probed_call_def)

lemma write_autocheck:
  assumes "m \<in> set (registered r)" "synced_models r"
  shows "model_write ws Calm r (snd (autocheck b gs m r))"
proof (cases "is_disabled m \<or> \<not> has_resolvable_credential gs m \<and> rm_inference_endpoint m = None \<or> \<not> b")
  case True
  then show ?thesis using assms by (auto simp: autocheck_def intro: model_write_site)
next
  case False
  then have "snd (autocheck b gs m r) = snd (start_health_check (enqueue_health (row_id m) r) m)" by (auto simp: autocheck_def)
  moreover have "m \<in> set (registered (enqueue_health (row_id m) r))" using assms by simp
  then have "model_write ws Calm (enqueue_health (row_id m) r) (snd (start_health_check (enqueue_health (row_id m) r) m))" by (rule write_start)
  moreover have "model_write ws k (enqueue_health (row_id m) r) r' = model_write ws k r r'" for k r'
    by (auto elim!: model_write.cases intro: model_write.intros)
  ultimately show ?thesis by simp
qed

lemma create_model_writes:
  assumes "create_model ws j gs r draft = Inr (m, r1)"
  shows "model_write ws k r r1 \<and> m \<in> set (registered r1) \<and> synced_models r1"
proof -
  obtain stored where rules: "\<not> missing_inference_endpoint (mc_provider draft) (mc_inference_endpoint draft)"
      "prefixed_model_id (mc_provider draft) (mc_provider_model_id draft) (mc_inference_endpoint draft) = None"
      "mc_web_access draft \<longrightarrow> supports_web_access ws (mc_provider draft) (mc_provider_model_id draft)"
    and u: "model_unique (registered r) m = Inr ()"
    and m: "row_id m = registry_fresh r" "rm_capability_mismatch m = None" "rm_provider m = mc_provider draft"
      "rm_inference_endpoint m = mc_inference_endpoint draft" "rm_provider_model_id m = mc_provider_model_id draft"
      "rm_web_access m = mc_web_access draft" "rm_api_key_encrypted m = stored"
    and r1: "registered r1 = registered r @ [m]" "registry_fresh r1 = Suc (registry_fresh r)" "synced_models r1"
    using assms unfolding create_model_def Let_def require_inference_endpoint_def require_unprefixed_model_id_def
      require_web_access_supported_def svc_simps ensure_eq_Inr Inr_inject prod.inject
    by (auto split: option.splits if_splits simp: disable_def svc_simps)
  then show ?thesis by (auto intro: model_write.append simp: callable_def)
qed

lemma set_api_key_writes:
  assumes "set_api_key j gs r m k = Inr (m', r1)" "m \<in> set (registered r)"
  shows "model_write ws Calm r r1 \<and> m' \<in> set (registered r1) \<and> synced_models r1 \<and> row_id m' = row_id m"
proof -
  obtain s where m': "m' = m\<lparr>rm_api_key_encrypted := Some s\<rparr>" and r1: "r1 = save_model m' (drawn r)"
    using assms(1) by (auto simp: set_api_key_def svc_simps Let_def)
  have "model_write ws Calm r r1" unfolding r1
    by (rule write_calm [OF assms(2), where m' = m']) (simp_all add: m' callable_def finding_of_def alert_state_def probed_call_def)
  then show ?thesis using assms(2) by (auto simp: r1 m' intro: saved_row_mem)
qed

lemma clear_api_key_writes:
  assumes "clear_api_key r m = (m', r1)" "m \<in> set (registered r)" "synced_models r"
  shows "model_write ws Calm r r1 \<and> m' \<in> set (registered r1) \<and> synced_models r1 \<and> row_id m' = row_id m"
proof (cases "rm_api_key_encrypted m = None")
  case True
  then show ?thesis using assms by (auto simp: clear_api_key_def intro: model_write_site)
next
  case False
  then have m': "m' = m\<lparr>rm_api_key_encrypted := None\<rparr>" and r1: "r1 = save_model m' r" using assms(1) by (auto simp: clear_api_key_def Let_def)
  have "model_write ws Calm r r1" unfolding r1
    by (rule write_calm [OF assms(2), where m' = m']) (simp_all add: m' callable_def finding_of_def alert_state_def probed_call_def)
  then show ?thesis using assms(2) by (auto simp: r1 m' intro: saved_row_mem)
qed

lemma set_model_fields_sel:
  fixes t :: timestamp and m :: registered_model and ch :: model_update
  defines "m1 \<equiv> set_model_fields t m ch"
  shows "row_id m1 = row_id m" "deleted_at m1 = deleted_at m" "rm_capability_mismatch m1 = rm_capability_mismatch m"
    "rm_provider m1 = set_or (rm_provider m) (mu_provider ch)"
    "rm_inference_endpoint m1 = set_or (rm_inference_endpoint m) (mu_inference_endpoint ch)"
    "rm_provider_model_id m1 = set_or (rm_provider_model_id m) (mu_provider_model_id ch)"
    "rm_web_access m1 = set_or (rm_web_access m) (mu_web_access ch)"
    "rm_inactivity_alerted_at m \<noteq> None \<Longrightarrow> rm_inactivity_alerted_at m1 \<noteq> None \<or> rearmed m m1"
proof -
  have b: "row_id m1 = row_id m \<and> deleted_at m1 = deleted_at m \<and> rm_capability_mismatch m1 = rm_capability_mismatch m \<and>
    rm_provider m1 = set_or (rm_provider m) (mu_provider ch) \<and>
    rm_inference_endpoint m1 = set_or (rm_inference_endpoint m) (mu_inference_endpoint ch) \<and>
    rm_provider_model_id m1 = set_or (rm_provider_model_id m) (mu_provider_model_id ch) \<and>
    rm_web_access m1 = set_or (rm_web_access m) (mu_web_access ch)"
    unfolding m1_def set_model_fields_def Let_def by (simp add: disable_def enable_def split: option.split)
  show "row_id m1 = row_id m" "deleted_at m1 = deleted_at m" "rm_capability_mismatch m1 = rm_capability_mismatch m"
    "rm_provider m1 = set_or (rm_provider m) (mu_provider ch)"
    "rm_inference_endpoint m1 = set_or (rm_inference_endpoint m) (mu_inference_endpoint ch)"
    "rm_provider_model_id m1 = set_or (rm_provider_model_id m) (mu_provider_model_id ch)"
    "rm_web_access m1 = set_or (rm_web_access m) (mu_web_access ch)" using b by blast+
  let ?m0 = "case mu_is_disabled ch of None \<Rightarrow> m | Some b \<Rightarrow> if b then disable t m else enable m"
  have d: "rm_disabled_at m1 = rm_disabled_at ?m0" "rm_inactivity_alert_hours m1 = set_or (rm_inactivity_alert_hours m) (mu_inactivity_alert_hours ch)"
    "rm_warmup_enabled m1 = set_or (rm_warmup_enabled m) (mu_warmup_enabled ch)"
    "rm_inactivity_alerted_at m1 = (if rm_inactivity_alert_hours m = None \<and> (case mu_inactivity_alert_hours ch of Some (Some _) \<Rightarrow> True | _ \<Rightarrow> False) \<or>
       \<not> rm_warmup_enabled m \<and> mu_warmup_enabled ch = Some True then None else rm_inactivity_alerted_at ?m0)"
    unfolding m1_def set_model_fields_def Let_def by (simp_all add: disable_def enable_def split: option.split)
  show "rm_inactivity_alerted_at m1 \<noteq> None \<or> rearmed m m1" if "rm_inactivity_alerted_at m \<noteq> None"
  proof (rule disjCI, rule ccontr)
    assume calm: "\<not> rearmed m m1" and "\<not> rm_inactivity_alerted_at m1 \<noteq> None"
    moreover have "rm_inactivity_alerted_at ?m0 \<noteq> None \<or> rearmed m m1"
      using that d(1) by (auto simp: rearmed_def disable_def enable_def split: option.splits if_splits)
    moreover have "rm_inactivity_alert_hours m = None \<and> (case mu_inactivity_alert_hours ch of Some (Some _) \<Rightarrow> True | _ \<Rightarrow> False) \<longrightarrow> rearmed m m1"
      using d(2) by (auto simp: rearmed_def set_or_def split: option.splits)
    moreover have "\<not> rm_warmup_enabled m \<and> mu_warmup_enabled ch = Some True \<longrightarrow> rearmed m m1"
      using d(3) by (auto simp: rearmed_def set_or_def)
    ultimately show False using d(4) by presburger
  qed
qed

lemma set_or_None [simp]: "set_or x None = x"
  by (simp add: set_or_def)

lemma update_model_writes:
  assumes "update_model ws r m ch = Inr (m', r1)" "m \<in> set (registered r)"
  shows "model_write ws Guarded r r1 \<and> m' \<in> set (registered r1) \<and> synced_models r1 \<and> row_id m' = row_id m"
proof -
  let ?m1 = "set_model_fields (registry_now r) m ch"
  have m': "m' = (if probed_call ?m1 \<noteq> probed_call m then ?m1\<lparr>rm_capability_mismatch := None\<rparr> else ?m1)"
    and u: "model_unique (registered r) m' = Inr ()" and r1: "r1 = save_model m' r"
    and e: "mu_provider ch \<noteq> None \<or> mu_inference_endpoint ch \<noteq> None \<Longrightarrow> require_inference_endpoint (rm_provider ?m1) (rm_inference_endpoint ?m1) = Inr ()"
    and p: "mu_provider ch \<noteq> None \<or> mu_provider_model_id ch \<noteq> None \<or> mu_inference_endpoint ch \<noteq> None \<Longrightarrow>
       require_unprefixed_model_id (rm_provider ?m1) (rm_provider_model_id ?m1) (rm_inference_endpoint ?m1) = Inr ()"
    and w: "mu_provider ch \<noteq> None \<or> mu_provider_model_id ch \<noteq> None \<or> mu_web_access ch \<noteq> None \<Longrightarrow>
       require_web_access_supported ws (rm_provider ?m1) (rm_provider_model_id ?m1) (rm_web_access ?m1) = Inr ()"
    using assms(1) unfolding update_model_def Let_def svc_simps by (auto split: if_splits)
  have same: "rm_provider m' = rm_provider ?m1" "rm_inference_endpoint m' = rm_inference_endpoint ?m1" "rm_web_access m' = rm_web_access ?m1"
    "rm_provider_model_id m' = rm_provider_model_id ?m1" "probed_call m' = probed_call ?m1" "row_id m' = row_id m"
    "rm_inactivity_alerted_at m' = rm_inactivity_alerted_at ?m1" "rearmed m m' = rearmed m ?m1"
    using set_model_fields_sel(1) [where t = "registry_now r" and m = m and ch = ch] by (simp_all add: m' probed_call_def rearmed_def)
  note sel = set_model_fields_sel [where t = "registry_now r" and m = m and ch = ch]
  have "callable ws m'" if "callable ws m"
  proof -
    have "\<not> missing_inference_endpoint (rm_provider ?m1) (rm_inference_endpoint ?m1)"
      using that e sel by (cases "mu_provider ch = None \<and> mu_inference_endpoint ch = None") (auto simp: callable_def require_inference_endpoint_def)
    moreover have "prefixed_model_id (rm_provider ?m1) (rm_provider_model_id ?m1) (rm_inference_endpoint ?m1) = None"
      using that p sel by (cases "mu_provider ch = None \<and> mu_provider_model_id ch = None \<and> mu_inference_endpoint ch = None")
        (auto simp: callable_def require_unprefixed_model_id_def split: option.splits)
    moreover have "rm_web_access ?m1 \<longrightarrow> supports_web_access ws (rm_provider ?m1) (rm_provider_model_id ?m1)"
      using that w sel by (cases "mu_provider ch = None \<and> mu_provider_model_id ch = None \<and> mu_web_access ch = None")
        (auto simp: callable_def require_web_access_supported_def)
    ultimately show ?thesis by (simp add: callable_def same)
  qed
  moreover have "kept_finding m m'"
    using sel(1,3) by (simp add: m' kept_finding_def finding_of_def)
  ultimately have "row_change ws Guarded m m'" using same sel(8) by (simp add: row_change_def)
  then have "model_write ws Guarded r r1" unfolding r1 using assms(2) u by (intro model_write.save [where m = m and m' = m']) simp_all
  then show ?thesis using assms(2) same by (auto simp: r1 intro: saved_row_mem)
qed

lemma restore_model_writes:
  assumes "restore_model r m = Inr (m', r1)" "m \<in> set (registered r)" "deleted_at m \<noteq> None"
  shows "model_write ws Guarded r r1 \<and> m' \<in> set (registered r1) \<and> synced_models r1 \<and> row_id m' = row_id m"
proof -
  have m': "m' = restore_registered m" and r1: "r1 = save_model m' r"
    and free: "\<forall>x\<in>set (registered r). deleted_at x = None \<longrightarrow> m_name x \<noteq> m_name m \<and> rm_model_alias x \<noteq> rm_model_alias m"
    using assms(1) unfolding restore_model_def svc_simps by (auto simp: Let_def list_ex_iff in_live_select)
  have id: "row_id m' = row_id m" by (simp add: m' restore_registered_def)
  have "row_change ws Guarded m m'"
    using assms(3) by (simp add: row_change_def m' restore_registered_def callable_def kept_finding_def finding_of_def probed_call_def
        rearmed_def restore_def)
  moreover have "model_unique (registered r) m' = Inr ()"
    using free by (auto simp: model_unique_Inr m' restore_registered_def restore_def)
  ultimately have "model_write ws Guarded r r1" unfolding r1 using assms(2) by (intro model_write.save [where m = m and m' = m']) simp_all
  then show ?thesis using assms(2) id by (auto simp: r1 intro: saved_row_mem)
qed

lemma truncate_sel [simp]:
  "row_id (ai_model.truncate m) = row_id m" "deleted_at (ai_model.truncate m) = deleted_at m" "m_name (ai_model.truncate m) = m_name m"
  by (simp_all add: ai_model.truncate_def)

lemma find_of_filter: "List.find P (filter Q xs) = List.find (\<lambda>x. Q x \<and> P x) xs"
  by (induction xs) auto

lemma map_truncate_save_row:
  "map ai_model.truncate (save_row m t) = save_row (ai_model.truncate m) (map ai_model.truncate t)"
  by (induction t) (auto simp: save_row_def)

lemma find_truncate:
  "(\<And>m. P (ai_model.truncate m) = Q m) \<Longrightarrow>
     List.find P (map ai_model.truncate t) = map_option ai_model.truncate (List.find Q t)"
  by (induction t) auto

lemma delete_model_effect:
  assumes "delete_model_endpoint snap c caller i = Inr c'"
  obtains m where "get_model (core c) i = Inr m"
    "ai_models (core c') = save_row (soft_delete (clock c) (Some (su_id caller)) m) (ai_models (core c))" "fresh c \<le> fresh c'"
proof -
  obtain m where m: "get_model (core c) i = Inr m"
    and c': "c' = (let d1 = (core c)\<lparr>ai_models := save_row (soft_delete (clock c) (Some (su_id caller)) m) (ai_models (core c))\<rparr>;
         d2 = snd (unassign_models_for_model d1 i (su_id caller));
         d3 = snd (unassign_group_models_for_model d2 i (su_id caller));
         c1 = snd (soft_delete_conversations_for_model (c\<lparr>core := d3\<rparr>) i (su_id caller))
     in c1\<lparr>core := record_audit (core c1) (Some (su_id caller)) (Some (su_email caller)) ''ai_model.delete''
          (Some ''ai_model'') (Some i) (Some (snap m)) None\<rparr>)"
    using assms by (auto simp: delete_model_endpoint_def svc_simps Let_def)
  have core: "core (snd (soft_delete_conversations_for_model x k u)) = core x" for x k u
    by (simp add: soft_delete_conversations_for_model_def soft_delete_conversations_of_def Let_def case_prod_beta)
  have "ai_models (core c') = save_row (soft_delete (clock c) (Some (su_id caller)) m) (ai_models (core c))" "fresh c \<le> fresh c'"
    by (simp_all add: c' Let_def core record_audit_def unassign_models_for_model_def unassign_group_models_for_model_def)
  then show thesis using that m by blast
qed

lemma delete_registered_writes:
  assumes "delete_registered_endpoint r caller i = Inr r1" "synced_models r"
  shows "model_write ws Guarded r r1 \<and> synced_models r1"
proof -
  obtain m c where m: "get_registered r i True = Inr m" and c: "delete_model_endpoint (\<lambda>_. ai_model_snapshot m) (site r) caller i = Inr c"
    and r1: "r1 = r\<lparr>registered := save_row (soft_delete (registry_now r) (Some (su_id caller)) m) (registered r), site := c\<rparr>"
    using assms(1) by (auto simp: delete_registered_endpoint_def svc_simps)
  have f: "List.find (\<lambda>x. row_id x = i \<and> deleted_at x = None) (registered r) = Some m"
    using m by (simp add: get_registered_def live_select_def find_of_filter conj_commute)
  have mem: "m \<in> set (registered r)" "deleted_at m = None" using find_SomeD [OF f] by auto
  obtain m0 where m0: "get_model (registry_db r) i = Inr m0"
    and ai: "ai_models (core c) = save_row (soft_delete (registry_now r) (Some (su_id caller)) m0) (ai_models (registry_db r))"
    and fr: "registry_fresh r \<le> fresh c"
    using delete_model_effect [OF c] by blast
  have "m0 = ai_model.truncate m"
    using m0 f assms(2) by (simp add: get_model_def live_by_id_def synced_models_def find_truncate [where Q = "\<lambda>x. row_id x = i \<and> deleted_at x = None"] ai_model.truncate_def)
  then have "soft_delete (registry_now r) (Some (su_id caller)) m0 = ai_model.truncate (soft_delete (registry_now r) (Some (su_id caller)) m)"
    by (simp add: soft_delete_def ai_model.truncate_def)
  then have s: "synced_models r1" using ai assms(2) by (simp add: r1 synced_models_def map_truncate_save_row)
  have "row_change ws Guarded m (soft_delete (registry_now r) (Some (su_id caller)) m)"
    by (simp add: row_change_def callable_def kept_finding_def finding_of_def probed_call_def soft_delete_def)
  then have "model_write ws Guarded r r1"
    using mem fr s by (intro model_write.save [where m = m and m' = "soft_delete (registry_now r) (Some (su_id caller)) m"])
      (simp_all add: r1 soft_delete_def)
  then show ?thesis using s by blast
qed

subsection \<open>Settling, stamping, claiming\<close>

text \<open>The finding a settling run may write.\<close>

definition finding_written :: "check_run \<Rightarrow> write_kind" where
  "finding_written run =
     (case cr_finding run of None \<Rightarrow> Calm | Some x \<Rightarrow> Settles (row_id (cr_model run), probed_call (cr_model run), x))"

lemma settle_row_sel:
  "row_id (settle_row t run m) = row_id m" "deleted_at (settle_row t run m) = deleted_at m" "m_name (settle_row t run m) = m_name m"
  "rm_model_alias (settle_row t run m) = rm_model_alias m" "probed_call (settle_row t run m) = probed_call m"
  "alert_state (settle_row t run m) = alert_state m" "callable ws (settle_row t run m) = callable ws m"
  "rm_capability_mismatch (settle_row t run m) =
     (case cr_finding run of None \<Rightarrow> rm_capability_mismatch m
      | Some x \<Rightarrow> if probed_call m = probed_call (cr_model run) then x else rm_capability_mismatch m)"
proof -
  let ?m1 = "m\<lparr>rm_health_check_status := Some (if hv_alive (cr_verdict run) then HC_ALIVE else HC_DEAD), rm_last_health_reason := hv_reason (cr_verdict run),
    rm_last_healthy_at := if hv_alive (cr_verdict run) then Some t else rm_last_healthy_at m\<rparr>"
  have h: "probed_call (x\<lparr>rm_health_check_status := v1\<rparr>) = probed_call x" "probed_call (x\<lparr>rm_last_health_reason := v2\<rparr>) = probed_call x"
    "probed_call (x\<lparr>rm_last_healthy_at := v3\<rparr>) = probed_call x" "probed_call (x\<lparr>rm_capability_mismatch := v4\<rparr>) = probed_call x"
    for x v1 v2 v3 v4 by (simp_all add: probed_call_def)
  have p: "probed_call ?m1 = probed_call m" by (simp only: h)
  have e: "settle_row t run m = (case cr_finding run of None \<Rightarrow> ?m1
      | Some x \<Rightarrow> if probed_call m = probed_call (cr_model run) then ?m1\<lparr>rm_capability_mismatch := x\<rparr> else ?m1)"
    unfolding settle_row_def Let_def p by (rule refl)
  show "row_id (settle_row t run m) = row_id m" "deleted_at (settle_row t run m) = deleted_at m" "m_name (settle_row t run m) = m_name m"
    "rm_model_alias (settle_row t run m) = rm_model_alias m" "probed_call (settle_row t run m) = probed_call m"
    "alert_state (settle_row t run m) = alert_state m" "callable ws (settle_row t run m) = callable ws m"
    "rm_capability_mismatch (settle_row t run m) = (case cr_finding run of None \<Rightarrow> rm_capability_mismatch m
      | Some x \<Rightarrow> if probed_call m = probed_call (cr_model run) then x else rm_capability_mismatch m)"
    unfolding e by (simp_all add: h alert_state_def callable_def split: option.split)
qed

lemma write_put_map:
  assumes "\<And>m. m \<in> set (registered r) \<Longrightarrow> P m \<Longrightarrow> row_change ws k m (f m) \<and> deleted_at (f m) = deleted_at m \<and> m_name (f m) = m_name m \<and>
     rm_model_alias (f m) = rm_model_alias m"
  shows "model_write ws k r (put_models (map (\<lambda>m. if P m then f m else m) (registered r)) r)"
  by (rule model_write.touch [where f = "\<lambda>m. if P m then f m else m"]) (use assms in auto)

lemma settle_writes: "model_write ws (finding_written run) r (settle_health_check r run)"
  unfolding settle_health_check_def
  by (rule write_put_map)
    (simp add: row_change_def finding_written_def kept_finding_def finding_of_def settle_row_sel split: option.split)

lemma stamp_usage_writes: "synced_models r \<Longrightarrow> model_write ws (Used i) r (stamp_usage b i r)"
  unfolding stamp_usage_def stamp_model_def
  by (cases b) (auto intro!: write_put_map model_write_site simp: row_change_def callable_def kept_finding_def finding_of_def probed_call_def)

lemma stamp_warmup_writes: "synced_models r \<Longrightarrow> model_write ws Calm r (stamp_warmup b i r)"
  unfolding stamp_warmup_def stamp_model_def
  by (cases b) (auto intro!: write_put_map model_write_site
      simp: row_change_def callable_def kept_finding_def finding_of_def probed_call_def alert_state_def)

lemma claim_writes: "model_write ws Guarded r (snd (claim_alert r i t))"
  unfolding claim_alert_def Let_def snd_conv
  by (rule write_put_map) (simp add: row_change_def callable_def kept_finding_def finding_of_def probed_call_def)

lemma tell_writes: "synced_models r \<Longrightarrow> model_write ws k r (tell_recipient delivers t m u r)"
  by (rule model_write_site) (simp_all add: tell_recipient_def synced_models_def create_notification_def send_email_def Let_def)

lemma row_change_kind: "row_change ws Calm m m' \<Longrightarrow> row_change ws k m m'"
  by (cases k) (simp_all add: row_change_def alert_state_def)

lemma model_write_kind: "model_write ws Calm r r' \<Longrightarrow> model_write ws k r r'"
proof (induction rule: model_write.induct)
  case (touch r' f r)
  then show ?case by (intro model_write.touch [where f = f]) (simp_all add: row_change_kind)
next
  case (save m r r' m')
  then show ?case by (intro model_write.save [where m = m and m' = m']) (simp_all add: row_change_kind)
qed (rule model_write.append)

end
