(* ===== verification/Gateway_Laws.thy ===== *)
theory Gateway_Laws
  imports Model_Laws
begin

section \<open>The gateway at work\<close>

text \<open>
  \<open>gateway_step\<close> is one request to the registry, one call through the gateway, one part of a health check or of the idle sweep, or whatever
  another component commits.  \<open>reading\<close> holds the rows the running checks have read, \<open>evidence\<close> the conclusions their capability probes
  came to; both are for the statements only.
\<close>

record gateway_state =
  reg :: registry
  reading :: "registered_model list"
  evidence :: "finding list"

type_synonym provider = "provider_call \<Rightarrow> provider_error + string"

datatype gateway_event = Traffic uuid | Request

inductive gateway_step :: "(string \<Rightarrow> bool) \<Rightarrow> gateway_event \<Rightarrow> gateway_state \<Rightarrow> gateway_state \<Rightarrow> bool" for ws where
  create: "create_model_endpoint ws j gs b (reg s) caller draft = Inr (m, r') \<Longrightarrow> gateway_step ws Request s (s\<lparr>reg := r'\<rparr>)"
| bulk_create: "bulk_create_models_endpoint items ws j gs (reg s) caller q = (x, r') \<Longrightarrow> gateway_step ws Request s (s\<lparr>reg := r'\<rparr>)"
| bulk_keys: "bulk_set_model_api_keys_endpoint items j gs (reg s) caller kq = (x, r') \<Longrightarrow> gateway_step ws Request s (s\<lparr>reg := r'\<rparr>)"
| set_key: "set_model_api_key_endpoint j gs b (reg s) caller i k = Inr r' \<Longrightarrow> gateway_step ws Request s (s\<lparr>reg := r'\<rparr>)"
| clear_key: "clear_model_api_key_endpoint gs b (reg s) caller i = Inr r' \<Longrightarrow> gateway_step ws Request s (s\<lparr>reg := r'\<rparr>)"
| check: "health_check_model_endpoint gs b (reg s) caller i = Inr (started, m, r') \<Longrightarrow> gateway_step ws Request s (s\<lparr>reg := r'\<rparr>)"
| update: "update_model_endpoint ws gs b (reg s) caller i ch = Inr (m, r') \<Longrightarrow> gateway_step ws Request s (s\<lparr>reg := r'\<rparr>)"
| restore: "restore_model_endpoint days (reg s) caller i = Inr (m, r') \<Longrightarrow> gateway_step ws Request s (s\<lparr>reg := r'\<rparr>)"
| delete: "delete_registered_endpoint (reg s) caller i = Inr r' \<Longrightarrow> gateway_step ws Request s (s\<lparr>reg := r'\<rparr>)"
| chat: "prepare_call ws j gs (reg s) alias history ps sfx = Inr (m, call) \<Longrightarrow>
    dispatch_chat ws j gs (p :: provider) b (reg s) alias history ps sfx = (reply, r') \<Longrightarrow> gateway_step ws (Traffic (row_id m)) s (s\<lparr>reg := r'\<rparr>)"
| stream_starts: "gateway_step ws (Traffic i) s (s\<lparr>reg := stamp_usage b i (reg s)\<rparr>)"
| warm_up: "dispatch_probe j gs (p :: provider) b (reg s) alias = (status, r') \<Longrightarrow> gateway_step ws Request s (s\<lparr>reg := r'\<rparr>)"
| read_row: "m \<in> set (live_select (registered (reg s))) \<Longrightarrow> gateway_step ws Request s (s\<lparr>reading := m # reading s\<rparr>)"
| settle: "m \<in> set (reading s) \<Longrightarrow> conclude_check png j gs (p :: provider) m v = Inr run \<Longrightarrow>
    gateway_step ws Request s (s\<lparr>reg := settle_health_check (reg s) run,
      evidence := (case cr_finding run of None \<Rightarrow> evidence s | Some x \<Rightarrow> (row_id m, probed_call m, x) # evidence s)\<rparr>)"
| claim: "claim_alert (reg s) i t = (claimed, r') \<Longrightarrow> gateway_step ws Request s (s\<lparr>reg := r'\<rparr>)"
| tell: "gateway_step ws Request s (s\<lparr>reg := tell_recipient delivers t m u (reg s)\<rparr>)"
| elsewhere: "ai_models (core c) = ai_models (registry_db (reg s)) \<Longrightarrow> registry_fresh (reg s) \<le> fresh c \<Longrightarrow>
    gateway_step ws Request s (s\<lparr>reg := (reg s)\<lparr>site := c\<rparr>\<rparr>)"

subsection \<open>Every step is a sequence of row writes\<close>

text \<open>One write of a kind the step allows, then only writes that leave the alert columns and findings alone.\<close>

definition writes :: "(string \<Rightarrow> bool) \<Rightarrow> write_kind \<Rightarrow> registry \<Rightarrow> registry \<Rightarrow> bool" where
  "writes ws k r r' \<longleftrightarrow> (\<exists>r1. model_write ws k r r1 \<and> (model_write ws Calm)\<^sup>*\<^sup>* r1 r')"

lemma writes1: "model_write ws k r r' \<Longrightarrow> writes ws k r r'"
  by (auto simp: writes_def)

lemma writes_then: "writes ws k r r1 \<Longrightarrow> model_write ws Calm r1 r' \<Longrightarrow> writes ws k r r'"
  unfolding writes_def by (meson rtranclp.rtrancl_into_rtrancl)

lemma writes_same: "synced_models r \<Longrightarrow> writes ws k r r"
  by (rule writes1, rule model_write_site) simp_all

lemma writes_kind: "writes ws Calm r r' \<Longrightarrow> writes ws Guarded r r'"
  using model_write_kind unfolding writes_def by blast

lemma writes_trans: "writes ws Calm r r1 \<Longrightarrow> writes ws Calm r1 r2 \<Longrightarrow> writes ws Calm r r2"
  unfolding writes_def by (meson converse_rtranclp_into_rtranclp rtranclp_trans)

lemma get_registered_mem:
  "get_registered r i b = Inr m \<Longrightarrow> m \<in> set (registered r) \<and> deleted_at m = None \<and> row_id m = i"
  by (auto simp: get_registered_def in_live_select dest!: find_SomeD)

lemma get_by_name_mem: "get_model_by_name r name = Inr m \<Longrightarrow> m \<in> set (registered r)"
  by (auto simp: get_model_by_name_def in_live_select dest!: find_SomeD)

lemma writes_autocheck:
  assumes "writes ws k r r1" "m \<in> set (registered r1)" "synced_models r1"
  shows "writes ws k r (snd (autocheck b gs m (audit_model c a i v w r1)))"
  by (rule writes_then [OF writes_then [OF assms(1) write_audit [OF assms(3)]]], rule write_autocheck) (simp_all add: assms)

lemma create_writes:
  assumes "create_model_endpoint ws j gs b r caller p = Inr (m, r')"
  shows "writes ws k r r'"
proof -
  obtain m1 r1 where c: "create_model ws j gs r p = Inr (m1, r1)"
    and r': "(m, r') = autocheck b gs m1 (audit_model caller ''ai_model.create'' (row_id m1) None (Some (ai_model_snapshot m1)) r1)"
    using assms by (auto simp: create_model_endpoint_def svc_simps)
  then show ?thesis using writes_autocheck [OF writes1] create_model_writes [OF c] by (metis snd_conv)
qed

lemma create_processor_writes:
  assumes "create_processor ws j gs dry caller r p = Inr (m, r')"
  shows "writes ws Calm r r'"
proof -
  obtain r1 where c: "create_model ws j gs r p = Inr (m, r1)"
    and r': "r' = (if dry then r1 else audit_model caller ''ai_model.create'' (row_id m) None (Some (ai_model_snapshot m)) r1)"
    using assms by (auto simp: create_processor_def svc_simps)
  have w: "writes ws Calm r r1" "synced_models r1" using create_model_writes [OF c] writes1 by blast+
  show ?thesis using w writes_then [OF w(1) write_audit [OF w(2)]] by (simp add: r')
qed

lemma api_key_processor_writes:
  assumes "api_key_processor j gs dry caller r x = Inr (m, r')"
  shows "writes ws Calm r r'"
proof -
  obtain m0 r1 where "get_model_by_name r (fst x) = Inr m0" and k: "set_api_key j gs r m0 (snd x) = Inr (m, r1)"
    and r': "r' = (if dry then r1 else audit_model caller ''ai_model.credential_set'' (row_id m) None None r1)"
    using assms by (cases x) (auto simp: api_key_processor_def svc_simps)
  have w: "writes ws Calm r r1" "synced_models r1"
    using set_api_key_writes [OF k get_by_name_mem [OF \<open>get_model_by_name r (fst x) = Inr m0\<close>]] writes1 by blast+
  show ?thesis using w writes_then [OF w(1) write_audit [OF w(2)]] by (simp add: r')
qed

lemma writes_synced: "writes ws k r r' \<Longrightarrow> synced_models r'"
  unfolding writes_def using model_write_synced by (metis rtranclp.cases)

lemma bulk_writes:
  assumes "\<And>s x y s'. processor s x = Inr (y, s') \<Longrightarrow> writes ws Calm s s'" "synced_models r"
  shows "writes ws Calm r (snd (apply_bulk registry_rollback items processor r q))"
proof -
  have keep: "\<And>s x y s'. writes ws Calm r s \<Longrightarrow> processor s x = Inr (y, s') \<Longrightarrow> writes ws Calm r s'"
    using assms(1) writes_trans by blast
  have undo: "writes ws Calm r (registry_rollback r s)" for s
    by (rule writes1, rule model_write_site) (simp_all add: registry_rollback_def synced_models_def assms(2) [unfolded synced_models_def])
  show ?thesis
    using run_rows_keeps [of "writes ws Calm r" processor r items 0 "bq_rows q", OF keep writes_same [OF assms(2)]] undo
    by (auto simp: apply_bulk_def split: sum.splits)
qed

lemma key_writes:
  assumes "set_model_api_key_endpoint j gs b r caller i k = Inr r'"
  shows "writes ws Calm r r'"
proof -
  obtain m m1 r1 where g: "get_registered r i True = Inr m" and k: "set_api_key j gs r m k = Inr (m1, r1)"
    and r': "r' = snd (autocheck b gs m1 (audit_model caller ''ai_model.credential_set'' (row_id m1) None None r1))"
    using assms by (auto simp: set_model_api_key_endpoint_def svc_simps)
  show ?thesis unfolding r'
    using set_api_key_writes [OF k conjunct1 [OF get_registered_mem [OF g]]] writes_autocheck [OF writes1] by blast
qed

lemma clear_writes:
  assumes "clear_model_api_key_endpoint gs b r caller i = Inr r'" "synced_models r"
  shows "writes ws Calm r r'"
proof -
  obtain m where g: "get_registered r i True = Inr m"
    and r': "r' = (let (m', r1) = clear_api_key r m; r2 = audit_model caller ''ai_model.credential_clear'' (row_id m') None None r1
      in if has_resolvable_credential gs m' then snd (autocheck b gs m' r2) else r2)"
    using assms(1) by (auto simp: clear_model_api_key_endpoint_def svc_simps Let_def case_prod_beta)
  obtain m1 r1 where c: "clear_api_key r m = (m1, r1)" by (cases "clear_api_key r m")
  have w: "model_write ws Calm r r1" "m1 \<in> set (registered r1)" "synced_models r1"
    using clear_api_key_writes [OF c conjunct1 [OF get_registered_mem [OF g]] assms(2)] by blast+
  show ?thesis
    using writes_then [OF writes1 [OF w(1)] write_audit [OF w(3)]] writes_autocheck [OF writes1 [OF w(1)] w(2,3)]
    by (simp add: r' c Let_def)
qed

lemma check_writes:
  assumes "health_check_model_endpoint gs b r caller i = Inr (started, m, r')" "synced_models r"
  shows "writes ws Calm r r'"
proof -
  obtain m0 where g: "get_registered r i True = Inr m0"
    and c: "r' = r \<or> r' = enqueue_health (row_id (fst (start_health_check r m0))) (snd (start_health_check r m0))"
    using assms(1) by (auto simp: health_check_model_endpoint_def svc_simps Let_def case_prod_beta split: if_splits)
  from c show ?thesis
  proof
    assume r': "r' = enqueue_health (row_id (fst (start_health_check r m0))) (snd (start_health_check r m0))"
    have w: "model_write ws Calm r (snd (start_health_check r m0))" by (rule write_start [OF conjunct1 [OF get_registered_mem [OF g]]])
    have "model_write ws Calm (snd (start_health_check r m0)) r'" by (rule model_write_site) (simp_all add: r' model_write_synced [OF w])
    then show ?thesis using writes_then [OF writes1 [OF w]] by blast
  qed (simp add: writes_same assms(2))
qed

lemma if_result: "(Inr (if b then x else y) :: 'a result) = Inr z \<Longrightarrow> z = y \<or> z = x"
  by (simp split: if_splits)

lemma update_writes:
  assumes "update_model_endpoint ws gs b r caller i ch = Inr (m, r')"
  shows "writes ws Guarded r r'"
proof -
  obtain m0 m1 r1 where g: "get_registered r i True = Inr m0" and u: "update_model ws r m0 ch = Inr (m1, r1)"
    and e: "(let (diff_before, diff_after) = changed_fields (ai_model_snapshot m0) (ai_model_snapshot m1);
         opaque_changed = (rm_extras m1 \<noteq> rm_extras m0 \<or> rm_parameters m1 \<noteq> rm_parameters m0);
         r2 = (if diff_before \<noteq> [] \<or> diff_after \<noteq> []
               then audit_model caller ''ai_model.update'' (row_id m1) (Some diff_before) (Some diff_after) r1
               else if opaque_changed then audit_model caller ''ai_model.update'' (row_id m1) None None r1 else r1)
     in Inr (if set PROBED_CALL_FIELDS \<inter> set (map fst diff_after) \<noteq> {} \<or> map_of diff_after ''is_disabled'' = Some (abool False)
             then autocheck b gs m1 r2 else (m1, r2))) = (Inr (m, r') :: (registered_model \<times> registry) result)"
    using assms unfolding update_model_endpoint_def bindE_eq_Inr by (auto simp only: split_paired_Ex case_prod_conv sum.inject)
  obtain v w where vw: "changed_fields (ai_model_snapshot m0) (ai_model_snapshot m1) = (v, w)" by (cases "changed_fields (ai_model_snapshot m0) (ai_model_snapshot m1)")
  define r2 where "r2 = (if v \<noteq> [] \<or> w \<noteq> [] then audit_model caller ''ai_model.update'' (row_id m1) (Some v) (Some w) r1
    else if rm_extras m1 \<noteq> rm_extras m0 \<or> rm_parameters m1 \<noteq> rm_parameters m0
    then audit_model caller ''ai_model.update'' (row_id m1) None None r1 else r1)"
  have f: "(m, r') = (m1, r2) \<or> (m, r') = autocheck b gs m1 r2"
    using e unfolding vw Let_def case_prod_conv r2_def [symmetric] by (rule if_result)
  have r2: "r2 = r1 \<or> (\<exists>v w. r2 = audit_model caller ''ai_model.update'' (row_id m1) v w r1)"
    unfolding r2_def by (cases "v \<noteq> [] \<or> w \<noteq> []"; cases "rm_extras m1 \<noteq> rm_extras m0 \<or> rm_parameters m1 \<noteq> rm_parameters m0";
      simp only: if_True if_False simp_thms; blast)
  have w: "model_write ws Guarded r r1" "m1 \<in> set (registered r1)" "synced_models r1"
    using update_model_writes [OF u conjunct1 [OF get_registered_mem [OF g]]] by blast+
  have w2: "writes ws Guarded r r2" "m1 \<in> set (registered r2)" "synced_models r2"
    using r2 w writes1 [OF w(1)] writes_then [OF writes1 [OF w(1)] write_audit [OF w(3)]] by auto
  show ?thesis using f w2 writes_then [OF w2(1) write_autocheck [OF w2(2,3)]] by (metis snd_conv)
qed

lemma restore_writes:
  assumes "restore_model_endpoint days r caller i = Inr (m, r')"
  shows "writes ws Guarded r r'"
proof -
  obtain m0 r1 where g: "get_restorable_model r i (restore_cutoff days (registry_now r)) = Inr m0" and u: "restore_model r m0 = Inr (m, r1)"
    and r': "r' = audit_model caller ''ai_model.restore'' (row_id m) None (Some (ai_model_snapshot m)) r1"
    using assms by (auto simp: restore_model_endpoint_def svc_simps)
  have "m0 \<in> set (registered r)" "deleted_at m0 \<noteq> None"
    using g in_window_deleted by (auto simp: get_restorable_model_def dest!: find_SomeD)
  then have w: "model_write ws Guarded r r1" "synced_models r1" using restore_model_writes [OF u] by blast+
  then show ?thesis unfolding r' by (intro writes_then [OF writes1 write_audit])
qed

lemma dispatch_chat_state:
  assumes "prepare_call ws j gs r alias history ps sfx = Inr (m, call)"
    and "dispatch_chat ws j gs provider b r alias history ps sfx = (reply, r')"
  shows "r' = stamp_usage b (row_id m) r"
  using assms by (simp add: dispatch_chat_def)

lemma dispatch_probe_state:
  assumes "dispatch_probe j gs provider b r alias = (status, r')"
  obtains "r' = r" | i where "r' = stamp_warmup b i r"
  using assms by (auto simp: dispatch_probe_def split: sum.splits)

lemma conclude_model: "conclude_check png j gs provider m v = Inr run \<Longrightarrow> cr_model run = m"
  by (auto simp: conclude_check_def bindD_def split: sum.splits prod.splits)

lemma settle_kind:
  assumes "conclude_check png j gs provider m v = Inr run"
  shows "writes ws Guarded r (settle_health_check r run) \<and> cr_finding run = None \<or>
    (\<exists>x. cr_finding run = Some x \<and> writes ws (Settles (row_id m, probed_call m, x)) r (settle_health_check r run))"
  using settle_writes [of ws run r] conclude_model [OF assms]
  by (cases "cr_finding run") (simp_all add: finding_written_def writes1 writes_kind)

definition step_kind :: "gateway_event \<Rightarrow> gateway_state \<Rightarrow> write_kind \<Rightarrow> bool" where
  "step_kind e s' k \<longleftrightarrow> k = Guarded \<or> (\<exists>i. e = Traffic i \<and> k = Used i) \<or> (\<exists>f\<in>set (evidence s'). k = Settles f)"

lemma step_writes:
  assumes "gateway_step ws e s s'" "synced_models (reg s)"
  shows "(\<exists>k. step_kind e s' k \<and> writes ws k (reg s) (reg s')) \<and> set (evidence s) \<subseteq> set (evidence s')"
  using assms
proof (induction rule: gateway_step.induct)
  case (create j gs b s caller draft m r')
  then show ?case using create_writes [of ws j gs b "reg s" caller draft m r' Guarded] by (auto simp: step_kind_def)
next
  case (bulk_create items j gs s caller q x r')
  have "writes ws Calm (reg s) r'"
  proof (cases "require_permission MODELS_CREATE caller")
    case (Inl e)
    then show ?thesis using bulk_create by (simp add: bulk_create_models_endpoint_def writes_same)
  next
    case (Inr u)
    then have "r' = snd (apply_bulk registry_rollback items (create_processor ws j gs (bq_dry_run q) caller) (reg s) q)"
      using bulk_create(1) by (simp add: bulk_create_models_endpoint_def prod_eq_iff)
    then show ?thesis using bulk_writes [OF create_processor_writes bulk_create(2)] by simp
  qed
  then show ?case using writes_kind by (auto simp: step_kind_def)
next
  case (bulk_keys items j gs s caller kq x r')
  have "writes ws Calm (reg s) r'"
  proof (cases "require_permission MODELS_UPDATE caller")
    case (Inl e)
    then show ?thesis using bulk_keys by (simp add: bulk_set_model_api_keys_endpoint_def writes_same)
  next
    case (Inr u)
    then have "r' = snd (apply_bulk registry_rollback items (api_key_processor j gs (bq_dry_run kq) caller) (reg s) kq)"
      using bulk_keys(1) by (simp add: bulk_set_model_api_keys_endpoint_def prod_eq_iff)
    then show ?thesis using bulk_writes [OF api_key_processor_writes bulk_keys(2)] by simp
  qed
  then show ?case using writes_kind by (auto simp: step_kind_def)
next
  case (set_key j gs b s caller i k r')
  then show ?case using writes_kind [OF key_writes [OF set_key(1)]] by (auto simp: step_kind_def)
next
  case (clear_key gs b s caller i r')
  then show ?case using writes_kind [OF clear_writes [OF clear_key]] by (auto simp: step_kind_def)
next
  case (check gs b s caller i started m r')
  then show ?case using writes_kind [OF check_writes [OF check]] by (auto simp: step_kind_def)
next
  case (update gs b s caller i ch m r')
  then show ?case using update_writes [OF update(1)] by (auto simp: step_kind_def)
next
  case (restore days s caller i m r')
  then show ?case using restore_writes [OF restore(1)] by (auto simp: step_kind_def)
next
  case (delete s caller i r')
  then show ?case using delete_registered_writes [OF delete] writes1 by (auto simp: step_kind_def)
next
  case (chat j gs s slug history ps sfx m call p b reply r')
  then show ?case using writes1 [OF stamp_usage_writes [OF chat(3)]] dispatch_chat_state [OF chat(1,2)]
    by (auto simp: step_kind_def)
next
  case (stream_starts i s b)
  then show ?case using writes1 [OF stamp_usage_writes [OF stream_starts]] by (auto simp: step_kind_def)
next
  case (warm_up j gs p b s slug status r')
  have "writes ws Guarded (reg s) r'"
    using dispatch_probe_state [OF warm_up(1)] writes_same [OF warm_up(2)] writes_kind [OF writes1 [OF stamp_warmup_writes [OF warm_up(2)]]]
    by metis
  then show ?case by (auto simp: step_kind_def)
next
  case (read_row m s)
  then show ?case using writes_same [of "reg s" ws Guarded] by (auto simp: step_kind_def)
next
  case (settle m s png j gs p v run)
  then show ?case using settle_kind [OF settle(2), of ws "reg s"] by (auto simp: step_kind_def)
next
  case (claim s i t claimed r')
  then show ?case using writes1 [OF claim_writes [of ws "reg s" i t]] by (auto simp: step_kind_def)
next
  case (tell s delivers t m u)
  then show ?case using writes1 [OF tell_writes [OF tell]] by (auto simp: step_kind_def)
next
  case (elsewhere c s)
  then have "model_write ws Guarded (reg s) ((reg s)\<lparr>site := c\<rparr>)" by (intro model_write_site) (simp_all add: synced_models_def)
  then show ?case using writes1 by (auto simp: step_kind_def)
qed

subsection \<open>Names, aliases and callable rows\<close>

lemma writes_keep: "writes ws k r r' \<Longrightarrow> registry_inv ws r \<Longrightarrow> registry_inv ws r'"
proof -
  assume "writes ws k r r'" "registry_inv ws r"
  then obtain r1 where 1: "registry_inv ws r1" "(model_write ws Calm)\<^sup>*\<^sup>* r1 r'" using model_write_keeps unfolding writes_def by blast
  from 1(2,1) show ?thesis by (induction rule: rtranclp_induct) (auto intro: model_write_keeps)
qed

definition some_gateway_step :: "(string \<Rightarrow> bool) \<Rightarrow> gateway_state \<Rightarrow> gateway_state \<Rightarrow> bool" where
  "some_gateway_step ws s s' \<longleftrightarrow> (\<exists>e. gateway_step ws e s s')"

lemma registry_synced: "registry_inv ws r \<Longrightarrow> synced_models r"
  by (simp add: registry_inv_def)

lemma some_step_keeps: "some_gateway_step ws s s' \<Longrightarrow> registry_inv ws (reg s) \<Longrightarrow> registry_inv ws (reg s')"
  unfolding some_gateway_step_def using step_writes writes_keep registry_synced by blast

interpretation gateway: step_invariant "some_gateway_step ws" "\<lambda>s. registry_inv ws (reg s)"
  by unfold_locales (rule some_step_keeps)

definition no_models :: "registry \<Rightarrow> bool" where
  "no_models r \<longleftrightarrow> registered r = [] \<and> ai_models (registry_db r) = []"

lemma no_models_inv: "no_models r \<Longrightarrow> registry_inv ws r"
  by (simp add: no_models_def registry_inv_def synced_models_def indexed_def keys_ok_def live_select_def)

lemma supported_web: "callable ws m \<Longrightarrow> \<not> isl (apply_web_access ws ps m)"
  by (auto simp: callable_def apply_web_access_def refuse_def bindD_def)


subsection \<open>Findings are evidence\<close>

definition findings_ok :: "finding list \<Rightarrow> registry \<Rightarrow> bool" where
  "findings_ok fs r \<longleftrightarrow> (\<forall>m\<in>set (registered r). rm_capability_mismatch m \<noteq> None \<longrightarrow> finding_of m \<in> set fs)"

lemma finding_same: "finding_of a = finding_of b \<Longrightarrow> rm_capability_mismatch a = rm_capability_mismatch b"
  by (simp add: finding_of_def)

lemma kept_finding_ok:
  "row_change ws k m m' \<Longrightarrow> (\<forall>f. k = Settles f \<longrightarrow> f \<in> F) \<Longrightarrow> rm_capability_mismatch m \<noteq> None \<longrightarrow> finding_of m \<in> F \<Longrightarrow>
     rm_capability_mismatch m' \<noteq> None \<longrightarrow> finding_of m' \<in> F"
  unfolding row_change_def kept_finding_def using finding_same [of m' m] by metis

lemma model_write_findings:
  "model_write ws k r r' \<Longrightarrow> (\<forall>f. k = Settles f \<longrightarrow> f \<in> set fs) \<Longrightarrow> findings_ok fs r \<Longrightarrow> findings_ok fs r'"
proof (induction rule: model_write.induct)
  case (append r' r m)
  then show ?case by (simp add: findings_ok_def)
next
  case (save m r r' m')
  have "rm_capability_mismatch m' \<noteq> None \<longrightarrow> finding_of m' \<in> set fs"
    using kept_finding_ok [OF save(3,7)] save(1,8) by (simp add: findings_ok_def)
  then show ?case using save(2,8) by (auto simp: findings_ok_def in_save_row)
next
  case (touch r' f r)
  have "rm_capability_mismatch (f m) \<noteq> None \<longrightarrow> finding_of (f m) \<in> set fs" if "m \<in> set (registered r)" for m
    using kept_finding_ok [OF _ touch(5), of ws m "f m"] touch(2) [OF that] touch(6) that by (simp add: findings_ok_def)
  then show ?case using touch(1) by (simp add: findings_ok_def)
qed

lemma writes_findings:
  assumes "writes ws k r r'" "\<forall>f. k = Settles f \<longrightarrow> f \<in> set fs" "findings_ok fs r"
  shows "findings_ok fs r'"
proof -
  obtain r1 where r1: "model_write ws k r r1" "(model_write ws Calm)\<^sup>*\<^sup>* r1 r'" using assms(1) by (auto simp: writes_def)
  have "findings_ok fs r1" by (rule model_write_findings [OF r1(1) assms(2,3)])
  with r1(2) show ?thesis by (induction rule: rtranclp_induct) (auto intro: model_write_findings)
qed

lemma findings_mono: "findings_ok fs r \<Longrightarrow> set fs \<subseteq> set gs \<Longrightarrow> findings_ok gs r"
  by (auto simp: findings_ok_def)

lemma step_findings:
  assumes "some_gateway_step ws s s'" "registry_inv ws (reg s) \<and> findings_ok (evidence s) (reg s)"
  shows "registry_inv ws (reg s') \<and> findings_ok (evidence s') (reg s')"
proof -
  obtain e k where k: "step_kind e s' k" "writes ws k (reg s) (reg s')" and sub: "set (evidence s) \<subseteq> set (evidence s')"
    using assms step_writes registry_synced unfolding some_gateway_step_def by blast
  have "\<forall>f. k = Settles f \<longrightarrow> f \<in> set (evidence s')" using k(1) by (auto simp: step_kind_def)
  then show ?thesis
    using writes_findings [OF k(2) _ findings_mono [OF conjunct2 [OF assms(2)] sub]] some_step_keeps [OF assms(1)] assms(2) by blast
qed

interpretation findings: step_invariant "some_gateway_step ws" "\<lambda>s. registry_inv ws (reg s) \<and> findings_ok (evidence s) (reg s)"
  by unfold_locales (rule step_findings)

text \<open>C14: A stored capability finding always describes the call the row makes now. However health checks overlap with each other and with
  changes of the row, a row shows a mismatch only if a capability probe of exactly its current modalities, endpoint, provider and model id
  came to that conclusion; a check that was overtaken writes nothing that does not fit.\<close>
theorem findings_are_evidence:
  assumes "(some_gateway_step ws)\<^sup>*\<^sup>* s s'" and "no_models (reg s)"
  shows "\<forall>m\<in>set (registered (reg s')). \<forall>x. rm_capability_mismatch m = Some x \<longrightarrow>
    (row_id m, (rm_input_modalities m, rm_inference_endpoint m, rm_provider m, rm_provider_model_id m), Some x) \<in> set (evidence s')"
proof -
  have "registry_inv ws (reg s) \<and> findings_ok (evidence s) (reg s)"
    using assms(2) no_models_inv by (auto simp: findings_ok_def no_models_def)
  from findings.reachable_keeps [OF assms(1) this] show ?thesis by (auto simp: findings_ok_def finding_of_def probed_call_def)
qed

subsection \<open>One announcement per quiet period\<close>

lemma write_alert:
  assumes "model_write ws k r r'" "registry_inv ws r" "m \<in> set (registered r)"
  shows "\<exists>m'\<in>set (registered r'). row_change ws k m m' \<or> m' = m"
  using assms
proof (induction rule: model_write.induct)
  case (save x r r' x')
  show ?case
  proof (cases "row_id m = row_id x")
    case True
    then have "m = x" using registry_keys [OF save.prems(1)] save(1) save.prems(2) by (auto simp: keys_ok_def dest: distinct_map_same)
    moreover have "x' \<in> set (registered r')" using save(1,2,3) by (simp add: row_change_def saved_row_mem)
    ultimately show ?thesis using save(3) by blast
  next
    case False
    then have "m \<in> set (registered r')" using save(2,3) save.prems(2) by (simp add: in_save_row row_change_def)
    then show ?thesis by blast
  qed
qed auto

lemma calm_alert: "row_change ws Calm m m' \<Longrightarrow> row_id m' = row_id m \<and> alert_state m' = alert_state m"
  by (simp add: row_change_def)

lemma calm_writes_alert:
  assumes "(model_write ws Calm)\<^sup>*\<^sup>* r r'" "registry_inv ws r" "m \<in> set (registered r)"
  shows "\<exists>m'\<in>set (registered r'). row_id m' = row_id m \<and> alert_state m' = alert_state m"
  using assms
proof (induction rule: rtranclp_induct)
  case (step r1 r2)
  obtain m1 where m1: "m1 \<in> set (registered r1)" "row_id m1 = row_id m" "alert_state m1 = alert_state m" using step by blast
  have "registry_inv ws r1" using writes_keep [of ws Calm r r1] step(1) step.prems(1)
    by (metis model_write_keeps rtranclp_induct)
  then show ?case using write_alert [OF step(2) _ m1(1)] calm_alert m1 by metis
qed auto

lemma rearmed_cong: "alert_state m1 = alert_state m' \<Longrightarrow> rearmed m m1 = rearmed m m'"
  by (auto simp: alert_state_def rearmed_def)

lemma writes_alert:
  assumes "writes ws k r r'" "registry_inv ws r" "m \<in> set (registered r)" "rm_inactivity_alerted_at m \<noteq> None" "k \<noteq> Used (row_id m)"
  shows "\<exists>m'\<in>set (registered r'). row_id m' = row_id m \<and> (rm_inactivity_alerted_at m' \<noteq> None \<or> rearmed m m')"
proof -
  obtain r1 where r1: "model_write ws k r r1" "(model_write ws Calm)\<^sup>*\<^sup>* r1 r'" using assms(1) by (auto simp: writes_def)
  obtain m1 where m1: "m1 \<in> set (registered r1)" "row_change ws k m m1 \<or> m1 = m" using write_alert [OF r1(1) assms(2,3)] by blast
  have "row_id m1 = row_id m \<and> (rm_inactivity_alerted_at m1 \<noteq> None \<or> rearmed m m1)"
    using m1(2) assms(4,5) by (auto simp: row_change_def alert_state_def split: write_kind.splits)
  moreover obtain m' where "m' \<in> set (registered r')" "row_id m' = row_id m1" "alert_state m' = alert_state m1"
    using calm_writes_alert [OF r1(2) model_write_keeps [OF r1(1) assms(2)] m1(1)] by blast
  moreover from this(3) have "rm_inactivity_alerted_at m' = rm_inactivity_alerted_at m1" by (simp add: alert_state_def)
  ultimately show ?thesis using rearmed_cong [of m1 m' m] by metis
qed

text \<open>Somebody decides afresh to watch the model: it is restored, enabled, given a threshold or its warm-up is switched on.\<close>

definition watched_afresh :: "uuid \<Rightarrow> gateway_state \<Rightarrow> gateway_state \<Rightarrow> bool" where
  "watched_afresh i s s' \<longleftrightarrow>
     (\<exists>m\<in>set (registered (reg s)). \<exists>m'\<in>set (registered (reg s')). row_id m = i \<and> row_id m' = i \<and> rearmed m m')"

definition quiet_step :: "(string \<Rightarrow> bool) \<Rightarrow> uuid \<Rightarrow> gateway_state \<Rightarrow> gateway_state \<Rightarrow> bool" where
  "quiet_step ws i s s' \<longleftrightarrow> (\<exists>e. gateway_step ws e s s' \<and> e \<noteq> Traffic i) \<and> \<not> watched_afresh i s s'"

definition announced :: "uuid \<Rightarrow> registry \<Rightarrow> bool" where
  "announced i r \<longleftrightarrow> (\<exists>m\<in>set (registered r). row_id m = i \<and> rm_inactivity_alerted_at m \<noteq> None)"

lemma quiet_step_keeps:
  assumes "quiet_step ws i s s'" "registry_inv ws (reg s) \<and> announced i (reg s)"
  shows "registry_inv ws (reg s') \<and> announced i (reg s')"
proof -
  obtain e where e: "gateway_step ws e s s'" "e \<noteq> Traffic i" using assms(1) by (auto simp: quiet_step_def)
  have s: "synced_models (reg s)" using assms(2) registry_synced by blast
  obtain k where k: "step_kind e s' k" "writes ws k (reg s) (reg s')" using step_writes [OF e(1) s] by blast
  obtain m where m: "m \<in> set (registered (reg s))" "row_id m = i" "rm_inactivity_alerted_at m \<noteq> None" using assms(2) by (auto simp: announced_def)
  have "k \<noteq> Used (row_id m)" using k(1) e(2) m(2) by (auto simp: step_kind_def)
  then obtain m' where m': "m' \<in> set (registered (reg s'))" "row_id m' = row_id m" "rm_inactivity_alerted_at m' \<noteq> None \<or> rearmed m m'"
    using writes_alert [OF k(2) conjunct1 [OF assms(2)] m(1,3)] by blast
  moreover have "\<not> rearmed m m'" using assms(1) m(1,2) m'(1,2) by (auto simp: quiet_step_def watched_afresh_def)
  ultimately show ?thesis using writes_keep [OF k(2)] assms(2) m(2) by (auto simp: announced_def)
qed

interpretation quiet: step_invariant "quiet_step ws i" "\<lambda>s. registry_inv ws (reg s) \<and> announced i (reg s)"
  by unfold_locales (rule quiet_step_keeps)

lemma announced_blocks: "registry_inv ws r \<Longrightarrow> announced i r \<Longrightarrow> \<not> fst (claim_alert r i t)"
  using registry_keys [of ws r]
  by (auto simp: announced_def claim_alert_def Let_def list_ex_iff inactive_predicate_def keys_ok_def dest: distinct_map_same)

lemma claim_announces:
  assumes "fst (claim_alert r i t)"
  shows "announced i (snd (claim_alert r i t))"
proof -
  define hit where "hit = (\<lambda>m. deleted_at m = None \<and> row_id m = i \<and> inactive_predicate t m)"
  obtain m where m: "m \<in> set (registered r)" "hit m" using assms by (auto simp: claim_alert_def Let_def list_ex_iff hit_def)
  have "registered (snd (claim_alert r i t)) = map (\<lambda>m. if hit m then m\<lparr>rm_inactivity_alerted_at := Some t\<rparr> else m) (registered r)"
    by (simp add: claim_alert_def Let_def hit_def put_models_def)
  with m have "m\<lparr>rm_inactivity_alerted_at := Some t\<rparr> \<in> set (registered (snd (claim_alert r i t)))" by force
  moreover have "row_id (m\<lparr>rm_inactivity_alerted_at := Some t\<rparr>) = i" using m(2) by (simp add: hit_def)
  ultimately show ?thesis unfolding announced_def by (intro bexI) auto
qed

text \<open>C17: An idle model is announced once per quiet period. After a sweep has claimed the alert of a model, no sweep, overlapping or
  redelivered, claims it again until the model carries traffic or somebody restores or enables it, gives it a threshold or switches its
  warm-up on; health checks, key changes and other edits do not count.\<close>
theorem idle_model_announced_once:
  assumes "(some_gateway_step ws)\<^sup>*\<^sup>* s0 s" and "no_models (reg s0)" and "claim_alert (reg s) i t = (True, r)"
    and "(quiet_step ws i)\<^sup>*\<^sup>* (s\<lparr>reg := r\<rparr>) s'"
  shows "\<not> fst (claim_alert (reg s') i t')"
proof -
  have inv: "registry_inv ws (reg s)" by (rule gateway.reachable_keeps [OF assms(1) no_models_inv [OF assms(2)]])
  have "registry_inv ws r" using model_write_keeps [OF claim_writes inv, of i t] assms(3) by simp
  moreover have "announced i r" using claim_announces [of "reg s" i t] assms(3) by simp
  ultimately have "registry_inv ws (reg s') \<and> announced i (reg s')" using quiet.reachable_keeps [OF assms(4)] by simp
  then show ?thesis using announced_blocks by blast
qed

end
