(* ===== verification/Gateway_Calls.thy ===== *)
theory Gateway_Calls
  imports Gateway_Laws
begin

section \<open>What reaches a provider\<close>

text \<open>
  A stored API key opens again, also during a key rotation; a call that leaves the gateway is the one its row describes; a health check
  comes to a verdict.  \<open>jwe_sound\<close> is what the code relies on in \<open>joserfc\<close> and \<open>hashlib\<close>.
\<close>

subsection \<open>Stored keys\<close>

definition jwe_sound :: "jwe \<Rightarrow> bool" where
  "jwe_sound j \<longleftrightarrow> (\<forall>s. length (jwe_sha256 j s) = 32) \<and>
     (\<forall>key n plain. plain \<noteq> '''' \<longrightarrow> jwe_decrypt j key (jwe_encrypt j key n plain) = Plaintext plain)"

lemma secret_kid_hex:
  assumes "jwe_sound j"
  shows "set (fst (resolve_secret j s)) \<subseteq> set hex_digits \<and> length (fst (resolve_secret j s)) = 2"
proof -
  have "length (jwe_sha256 j (jwe_sha256 j s)) = 32" using assms by (simp add: jwe_sound_def)
  then obtain ch rest where "jwe_sha256 j (jwe_sha256 j s) = ch # rest" by (cases "jwe_sha256 j (jwe_sha256 j s)") auto
  then show ?thesis using hex_byte_hex [of ch] by (simp add: resolve_secret_def Let_def)
qed

lemma split_secret_tagged:
  assumes "set kid \<subseteq> set hex_digits \<and> length kid = 2"
  shows "split_secret (kid @ '':'' @ payload) = (Some kid, payload)"
proof -
  have ne: "ch \<noteq> CHR '':''" if "ch \<in> set kid" for ch using that assms colon_no_hex by blast
  have "takeWhile (\<lambda>ch. ch \<noteq> CHR '':'') (kid @ '':'' @ payload) = kid"
    "dropWhile (\<lambda>ch. ch \<noteq> CHR '':'') (kid @ '':'' @ payload) = '':'' @ payload"
    using ne by (simp_all add: takeWhile_append2 dropWhile_append2)
  then show ?thesis using assms by (simp add: split_secret_def)
qed

lemma secrets_ring_active:
  assumes "secrets_ring j gs = Inr (kid, ring)"
  shows "kid = fst (resolve_secret j (gs_model_secrets_key gs)) \<and> map_of ring kid = Some (snd (resolve_secret j (gs_model_secrets_key gs)))"
  using assms by (cases "resolve_secret j (gs_model_secrets_key gs)") (auto simp: secrets_ring_def Let_def split: option.splits if_splits)

lemma secrets_ring_retired:
  assumes "secrets_ring j gs = Inr (kid, ring)" "gs_model_secrets_key_retired gs = Some old"
  shows "fst (resolve_secret j old) \<noteq> kid \<and> map_of ring (fst (resolve_secret j old)) = Some (snd (resolve_secret j old))"
  using assms by (cases "resolve_secret j old") (auto simp: secrets_ring_def Let_def split: if_splits)

definition still_reads :: "gateway_settings \<Rightarrow> gateway_settings \<Rightarrow> bool" where
  "still_reads gs gs' \<longleftrightarrow> gs_model_secrets_key gs' = gs_model_secrets_key gs \<or> gs_model_secrets_key_retired gs' = Some (gs_model_secrets_key gs)"

lemma encrypted_opens:
  assumes j: "jwe_sound j" and s: "encrypt_secret j gs n k = Inr s" and ring: "secrets_ring j gs' = Inr (kid', ring')" and r: "still_reads gs gs'"
  shows "decrypt_secret j gs' s = Inr k \<and> needs_rewrap j gs' s = Inr (gs_model_secrets_key gs' \<noteq> gs_model_secrets_key gs)"
proof -
  let ?kid = "fst (resolve_secret j (gs_model_secrets_key gs))" and ?key = "snd (resolve_secret j (gs_model_secrets_key gs))"
  obtain kid ring where kr: "secrets_ring j gs = Inr (kid, ring)" and k: "k \<noteq> ''''"
    and s': "s = kid @ '':'' @ jwe_encrypt j (the (map_of ring kid)) n k"
    using s by (auto simp: encrypt_secret_def split: if_splits sum.splits)
  have "kid = ?kid" "map_of ring ?kid = Some ?key" using secrets_ring_active [OF kr] by metis+
  then have "s = ?kid @ '':'' @ jwe_encrypt j ?key n k" using s' by simp
  then have split: "split_secret s = (Some ?kid, jwe_encrypt j ?key n k)"
    using split_secret_tagged [OF secret_kid_hex [OF j]] by metis
  have key: "map_of ring' ?kid = Some ?key \<and> (?kid \<noteq> kid' \<longleftrightarrow> gs_model_secrets_key gs' \<noteq> gs_model_secrets_key gs)"
    using r secrets_ring_active [OF ring] secrets_ring_retired [OF ring] unfolding still_reads_def by metis
  have "jwe_decrypt j ?key (jwe_encrypt j ?key n k) = Plaintext k" using j k by (simp add: jwe_sound_def)
  then show ?thesis using key by (simp add: decrypt_secret_def needs_rewrap_def ring split)
qed

lemma autocheck_keeps_keys:
  assumes "\<forall>x\<in>set (registered r). row_id x = row_id m \<longrightarrow> rm_api_key_encrypted x = rm_api_key_encrypted m"
    and "y \<in> set (registered (snd (autocheck b gs m r)))" "row_id y = row_id m"
  shows "rm_api_key_encrypted y = rm_api_key_encrypted m"
  using assms by (auto simp: autocheck_def start_health_check_def Let_def in_save_row split: if_splits)

lemma or_crash_Inr: "or_crash x = Inr y \<longleftrightarrow> x = Inr y"
  by (simp add: or_crash_def split: sum.splits)

lemma key_set_stored:
  assumes "set_model_api_key_endpoint j gs b r caller i k = Inr r'"
  obtains s where "encrypt_secret j gs (draws (site r)) k = Inr s" and
    "\<And>m. m \<in> set (registered r') \<Longrightarrow> row_id m = i \<Longrightarrow> rm_api_key_encrypted m = Some s"
proof -
  obtain m m1 r1 where g: "get_registered r i True = Inr m" and set: "set_api_key j gs r m k = Inr (m1, r1)"
    and r': "r' = snd (autocheck b gs m1 (audit_model caller ''ai_model.credential_set'' (row_id m1) None None r1))"
    using assms by (auto simp: set_model_api_key_endpoint_def svc_simps)
  obtain s where s: "encrypt_secret j gs (draws (site r)) k = Inr s" and m1: "m1 = m\<lparr>rm_api_key_encrypted := Some s\<rparr>"
    and r1: "r1 = save_model m1 (drawn r)"
    using set unfolding set_api_key_def bindE_eq_Inr Let_def or_crash_Inr by (metis prod.inject sum.inject(2))
  have i: "row_id m1 = i" using get_registered_mem [OF g] m1 by simp
  define r2 where "r2 = audit_model caller ''ai_model.credential_set'' (row_id m1) None None r1"
  have "registered r2 = save_row m1 (registered (drawn r))" by (simp add: r2_def r1)
  then have same: "\<forall>x\<in>set (registered r2). row_id x = row_id m1 \<longrightarrow> rm_api_key_encrypted x = rm_api_key_encrypted m1"
    by (auto simp: in_save_row)
  have "rm_api_key_encrypted m1 = Some s" by (simp add: m1)
  then have "rm_api_key_encrypted x = Some s" if "x \<in> set (registered r')" "row_id x = i" for x
    using autocheck_keeps_keys [OF same, of x b gs] that i r' r2_def by metis
  with s show ?thesis by (rule that)
qed

lemma bindD_Inr: "bindD x f = Inr y \<longleftrightarrow> (\<exists>z. x = Inr z \<and> f z = Inr y)"
  by (cases x) (simp_all add: bindD_def)

lemma refuse_Inr: "refuse b reason = Inr u \<longleftrightarrow> \<not> b"
  by (simp add: refuse_def)

lemmas gateway_Inr = bindD_Inr refuse_Inr Let_def

lemma prepared:
  assumes "prepare_call ws j gs r slug history ps sfx = Inr (m, call)"
  obtains call0 qs where "resolve_model r slug = Inr m" "build_call j gs m history ps sfx = Inr call0"
    "apply_web_access ws (pc_params call0) m = Inr qs" "call = call0\<lparr>pc_params := qs\<rparr>"
  using assms by (auto simp: prepare_call_def gateway_Inr)

lemma built:
  assumes "build_call j gs m history ps sfx = Inr call"
  shows "MOD_TEXT \<in> set (rm_output_modalities m)" "has_image_content history \<Longrightarrow> MOD_IMAGE \<in> set (rm_input_modalities m)"
    "\<not> missing_inference_endpoint (rm_provider m) (rm_inference_endpoint m)" "credential j gs m = Inr (pc_api_key call)"
    "pc_vendor call = rm_provider m" "pc_provider_model_id call = rm_provider_model_id m" "pc_api_base call = rm_inference_endpoint m"
  using assms by (auto simp: build_call_def gateway_Inr)

text \<open>C16: A credential that was set is the one the provider gets. However the stored row changes otherwise, and also after the secret key was
  rotated with the old key kept as the retired one, a call of that model carries exactly the key that was set; it is reported as needing a
  re-wrap just when the secret key has changed since.\<close>
theorem stored_key_reaches_provider:
  assumes "jwe_sound j" and "set_model_api_key_endpoint j gs b r caller i k = Inr r'"
    and "secrets_ring j gs' = Inr ring" and "still_reads gs gs'"
    and "resolve_model r'' slug = Inr m" "row_id m = i"
    and "m' \<in> set (registered r')" "row_id m' = i" "rm_api_key_encrypted m = rm_api_key_encrypted m'"
  shows "credential j gs' m = Inr (Some k) \<and>
    (\<forall>call. prepare_call ws j gs' r'' slug history ps sfx = Inr (m, call) \<longrightarrow> pc_api_key call = Some k) \<and>
    map_option (needs_rewrap j gs') (rm_api_key_encrypted m) = Some (Inr (gs_model_secrets_key gs' \<noteq> gs_model_secrets_key gs))"
proof -
  obtain s where s: "encrypt_secret j gs (draws (site r)) k = Inr s" "rm_api_key_encrypted m = Some s"
    using key_set_stored [OF assms(2)] assms(7-9) by metis
  have o: "decrypt_secret j gs' s = Inr k \<and> needs_rewrap j gs' s = Inr (gs_model_secrets_key gs' \<noteq> gs_model_secrets_key gs)"
    using encrypted_opens [OF assms(1) s(1) _ assms(4)] assms(3) by (cases ring) blast
  then have "credential j gs' m = Inr (Some k)" by (simp add: credential_def resolve_api_key_def s(2))
  moreover from this have "pc_api_key call = Some k" if "prepare_call ws j gs' r'' slug history ps sfx = Inr (m, call)" for call
    using prepared [OF that] built(4) by (metis provider_call.select_convs(4) provider_call.surjective provider_call.update_convs(6) sum.inject(2))
  ultimately show ?thesis using o s(2) by simp
qed

subsection \<open>Calls that leave the gateway\<close>

lemma built_messages:
  assumes "build_call j gs m history ps sfx = Inr call"
  obtains sp where "pc_messages call = (if system_content sp sfx = '''' then history
    else \<lparr>cm_role = MR_SYSTEM, cm_content = ChatText (system_content sp sfx)\<rparr> # history)"
  using assms by (auto simp: build_call_def gateway_Inr)

lemma keys_kept: "fst ` set (map (\<lambda>(k, v). (k, WStr v)) xs) = fst ` set xs"
  by force

lemma built_keys:
  assumes "build_call j gs m history ps sfx = Inr call"
  shows "fst ` set (pc_params call) \<inter> {''system_prompt'', ''stop_sequences''} = {}"
  using assms
  by (auto simp: build_call_def gateway_Inr dict_setdefault_def dict_pop_def simp del: map_map split: option.splits if_splits)

lemma built_no_params: "build_call j gs m history ps sfx = Inr call \<Longrightarrow> rm_advanced_params_disabled m \<Longrightarrow> pc_params call = []"
  by (auto simp: build_call_def gateway_Inr dict_pop_def)

lemma dict_merge_keys: "fst ` set (dict_merge a b) = fst ` set a \<union> fst ` set b"
proof -
  have "fst ` set (map (\<lambda>(k, v). (k, f k v)) a) = fst ` set a" for f :: "string \<Rightarrow> 'a \<Rightarrow> 'a" by (simp add: image_image split_def)
  moreover have "fst ` set (filter (\<lambda>(k, v). k \<notin> A) b) = fst ` set b - A" for A by force
  ultimately show ?thesis unfolding dict_merge_def set_append image_Un by auto
qed

lemma web_applied:
  assumes "apply_web_access ws qs m = Inr qs'"
  shows "\<not> rm_web_access m \<Longrightarrow> fst ` set qs' \<inter> set WEB_TOOL_KEYS = {}"
    "rm_web_access m \<Longrightarrow> supports_web_access ws (rm_provider m) (rm_provider_model_id m)"
    "rm_web_access m \<Longrightarrow> map_of qs' ''web_search_options'' = Some WEB_SEARCH_OPTIONS"
  using assms by (auto simp: apply_web_access_def bindD_def refuse_def WEB_TOOL_KEYS_def split: sum.splits if_splits)

lemma web_applied_keys:
  assumes "apply_web_access ws qs m = Inr qs'"
  shows "fst ` set qs' \<subseteq> fst ` set qs \<union> set WEB_TOOL_KEYS"
proof (cases "rm_web_access m")
  case True
  then have "qs' = dict_merge qs ((''web_search_options'', WEB_SEARCH_OPTIONS) #
      (if rm_provider m = ANTHROPIC then [(''tools'', WList [ANTHROPIC_WEB_FETCH_TOOL])] else []))"
    using assms by (simp add: apply_web_access_def bindD_def refuse_def split: if_splits)
  then have "fst ` set qs' \<subseteq> fst ` set qs \<union> {''web_search_options'', ''tools''}" by (auto simp only: dict_merge_keys set_simps image_insert image_empty if_split_mem2 fst_conv split: if_splits)
  then show ?thesis by (auto simp: WEB_TOOL_KEYS_def)
qed (use assms in \<open>auto simp: apply_web_access_def\<close>)

lemma disjoint_kept: "A \<subseteq> B \<union> C \<Longrightarrow> B \<inter> D = {} \<Longrightarrow> C \<inter> D = {} \<Longrightarrow> A \<inter> D = {}"
  by blast

lemma system_suffix_last: "x \<noteq> '''' \<Longrightarrow> \<exists>c. system_content sp (Some x) = c @ x"
  by (cases sp) (auto simp: system_content_def List.map_filter_def)

text \<open>C15: A call leaves the gateway only as its row says. It is made for a live, enabled model of the requested alias that produces text; it
  carries that row's provider, model id and base URL, and as key the row's own decrypted credential or, without one, the platform key of
  that same provider. Images go only to models that accept them, internet tools only to models that have the switch on and whose provider
  supports it, tuned parameters only where they are enabled; the history is sent as it is, after at most one system message, which ends
  with the system suffix of the caller.\<close>
theorem gateway_calls_faithful:
  assumes "prepare_call ws j gs r slug history ps sfx = Inr (m, call)"
  shows "m \<in> set (registered r) \<and> deleted_at m = None \<and> rm_disabled_at m = None \<and> rm_model_alias m = slug \<and>
    MOD_TEXT \<in> set (rm_output_modalities m) \<and> (has_image_content history \<longrightarrow> MOD_IMAGE \<in> set (rm_input_modalities m)) \<and>
    pc_vendor call = rm_provider m \<and> pc_provider_model_id call = rm_provider_model_id m \<and>
    pc_api_base call = rm_inference_endpoint m \<and> \<not> missing_inference_endpoint (pc_vendor call) (pc_api_base call) \<and>
    (case rm_api_key_encrypted m of
       Some s \<Rightarrow> map_option Inr (pc_api_key call) = Some (decrypt_secret j gs s)
     | None \<Rightarrow> pc_api_key call = (if has_default_key (rm_provider m) then gs_provider_key gs (rm_provider m) else None)) \<and>
    (if rm_web_access m
     then supports_web_access ws (pc_vendor call) (pc_provider_model_id call) \<and>
       map_of (pc_params call) ''web_search_options'' = Some WEB_SEARCH_OPTIONS
     else fst ` set (pc_params call) \<inter> set WEB_TOOL_KEYS = {}) \<and>
    fst ` set (pc_params call) \<inter> {''system_prompt'', ''stop_sequences''} = {} \<and>
    (rm_advanced_params_disabled m \<longrightarrow> fst ` set (pc_params call) \<subseteq> set WEB_TOOL_KEYS) \<and>
    (pc_messages call = history \<and> (sfx = None \<or> sfx = Some '''') \<or>
     (\<exists>c. pc_messages call = \<lparr>cm_role = MR_SYSTEM, cm_content = ChatText (c @ (case sfx of None \<Rightarrow> '''' | Some x \<Rightarrow> x))\<rparr> # history))"
proof -
  obtain call0 qs where row: "resolve_model r slug = Inr m" and b: "build_call j gs m history ps sfx = Inr call0"
    and w: "apply_web_access ws (pc_params call0) m = Inr qs" and call: "call = call0\<lparr>pc_params := qs\<rparr>"
    using prepared [OF assms] by metis
  have live: "m \<in> set (registered r) \<and> deleted_at m = None \<and> rm_disabled_at m = None \<and> rm_model_alias m = slug"
    using row by (auto simp: resolve_model_def is_disabled_def in_live_select split: option.splits if_splits dest!: find_SomeD)
  have key: "case rm_api_key_encrypted m of Some s \<Rightarrow> map_option Inr (pc_api_key call) = Some (decrypt_secret j gs s)
     | None \<Rightarrow> pc_api_key call = (if has_default_key (rm_provider m) then gs_provider_key gs (rm_provider m) else None)"
    using built(4) [OF b] by (auto simp: call credential_def resolve_api_key_def split: option.splits sum.splits secret_error.splits)
  have keys: "fst ` set (pc_params call) \<subseteq> fst ` set (pc_params call0) \<union> set WEB_TOOL_KEYS" using web_applied_keys [OF w] by (simp add: call)
  have "set WEB_TOOL_KEYS \<inter> {''system_prompt'', ''stop_sequences''} = {}" by (simp add: WEB_TOOL_KEYS_def)
  then have clean: "fst ` set (pc_params call) \<inter> {''system_prompt'', ''stop_sequences''} = {}" by (rule disjoint_kept [OF keys built_keys [OF b]])
  have off: "rm_advanced_params_disabled m \<longrightarrow> fst ` set (pc_params call) \<subseteq> set WEB_TOOL_KEYS" using keys built_no_params [OF b] by auto
  obtain sp where msg: "pc_messages call = (if system_content sp sfx = '''' then history
    else \<lparr>cm_role = MR_SYSTEM, cm_content = ChatText (system_content sp sfx)\<rparr> # history)"
    using built_messages [OF b] by (auto simp: call)
  have msgs: "pc_messages call = history \<and> (sfx = None \<or> sfx = Some '''') \<or>
     (\<exists>c. pc_messages call = \<lparr>cm_role = MR_SYSTEM, cm_content = ChatText (c @ (case sfx of None \<Rightarrow> '''' | Some x \<Rightarrow> x))\<rparr> # history)"
  proof (cases "sfx = None \<or> sfx = Some ''''")
    case True
    then show ?thesis unfolding msg by auto
  next
    case False
    then obtain x where x: "sfx = Some x" "x \<noteq> ''''" by auto
    then obtain c where "system_content sp sfx = c @ x" using system_suffix_last by metis
    then show ?thesis unfolding msg using x by simp
  qed
  have web: "if rm_web_access m
     then supports_web_access ws (pc_vendor call) (pc_provider_model_id call) \<and>
       map_of (pc_params call) ''web_search_options'' = Some WEB_SEARCH_OPTIONS
     else fst ` set (pc_params call) \<inter> set WEB_TOOL_KEYS = {}"
    using web_applied [OF w] built(5,6) [OF b] by (simp add: call)
  have same: "pc_vendor call = rm_provider m" "pc_provider_model_id call = rm_provider_model_id m" "pc_api_base call = rm_inference_endpoint m"
    using built(5-7) [OF b] by (simp_all add: call)
  have rest: "MOD_TEXT \<in> set (rm_output_modalities m)" "has_image_content history \<longrightarrow> MOD_IMAGE \<in> set (rm_input_modalities m)"
    "\<not> missing_inference_endpoint (pc_vendor call) (pc_api_base call)"
    using built(1-3) [OF b] by (simp_all add: same)
  show ?thesis by (intro conjI) (use live in metis, use live in metis, use live in metis, use live in metis, rule rest, rule rest,
    rule same, rule same, rule same, rule rest, rule key, rule web, rule clean, rule off, rule msgs)
qed

subsection \<open>Health checks settle\<close>

text \<open>How a check ends, without the loop: after \<open>n\<close> cold probes before the deadline, by what probe \<open>n\<close> said.\<close>

definition check_outcome ::
  "int \<Rightarrow> (nat \<Rightarrow> (warmup_status \<times> string option) dispatched) \<Rightarrow> (nat \<Rightarrow> int) \<Rightarrow> nat \<Rightarrow> verdict dispatched option" where
  "check_outcome deadline probe monotonic n =
     (case probe n of
        Inl e \<Rightarrow> Some (Inl e)
      | Inr (WS_READY, reason) \<Rightarrow> Some (Inr \<lparr>hv_alive = True, hv_reason = None, hv_served = (reason = None)\<rparr>)
      | Inr (WS_ERROR, reason) \<Rightarrow> Some (Inr \<lparr>hv_alive = False, hv_reason = reason, hv_served = False\<rparr>)
      | Inr (WS_STARTING, reason) \<Rightarrow>
          (if deadline \<le> monotonic n then Some (Inr \<lparr>hv_alive = False, hv_reason = Some ''cold/deadline'', hv_served = False\<rparr>) else None))"

lemma probe_loop_outcome:
  "probe_loop deadline probe monotonic i (Suc fuel) =
     (case check_outcome deadline probe monotonic i of Some v \<Rightarrow> Some v | None \<Rightarrow> probe_loop deadline probe monotonic (Suc i) fuel)"
  by (simp add: check_outcome_def split: sum.splits prod.splits warmup_status.splits)

lemma outcome_late: "deadline \<le> monotonic n \<Longrightarrow> check_outcome deadline probe monotonic n \<noteq> None"
  by (simp add: check_outcome_def split: sum.splits prod.splits warmup_status.splits)

lemma probe_loop_settles:
  assumes "deadline \<le> monotonic (i + k)" "k < fuel"
  shows "\<exists>n\<le>i + k. i \<le> n \<and> probe_loop deadline probe monotonic i fuel = check_outcome deadline probe monotonic n \<and>
    check_outcome deadline probe monotonic n \<noteq> None \<and> (\<forall>l. i \<le> l \<and> l < n \<longrightarrow> check_outcome deadline probe monotonic l = None)"
  using assms
proof (induction k arbitrary: i fuel)
  case 0
  then obtain f where "fuel = Suc f" by (cases fuel) auto
  moreover obtain v where "check_outcome deadline probe monotonic i = Some v" using outcome_late 0 by fastforce
  ultimately show ?case by (intro exI [of _ i]) (auto simp: probe_loop_outcome simp del: probe_loop.simps)
next
  case (Suc k)
  obtain f where f: "fuel = Suc f" using Suc.prems by (cases fuel) auto
  show ?case
  proof (cases "check_outcome deadline probe monotonic i")
    case (Some v)
    then show ?thesis using f by (intro exI [of _ i]) (auto simp: probe_loop_outcome simp del: probe_loop.simps)
  next
    case None
    obtain n where n: "n \<le> Suc i + k" "Suc i \<le> n" "probe_loop deadline probe monotonic (Suc i) f = check_outcome deadline probe monotonic n"
      "check_outcome deadline probe monotonic n \<noteq> None" "\<forall>l. Suc i \<le> l \<and> l < n \<longrightarrow> check_outcome deadline probe monotonic l = None"
      using Suc.IH [of "Suc i" f] Suc.prems f by auto
    have "check_outcome deadline probe monotonic l = None" if "i \<le> l \<and> l < n" for l using that None n(5) by (cases "l = i") auto
    then show ?thesis using n None f by (intro exI [of _ n]) (simp add: probe_loop_outcome del: probe_loop.simps)
  qed
qed

lemma clock_advances:
  assumes "\<forall>n. monotonic n + backoff \<le> monotonic (Suc n)"
  shows "monotonic 0 + int n * backoff \<le> (monotonic n :: int)"
proof (induction n)
  case (Suc n)
  then show ?case using assms [rule_format, of n] by (simp add: algebra_simps)
qed simp


end
