(* ===== verification/Gateway_Witnesses.thy ===== *)
theory Gateway_Witnesses
  imports Gateway_Calls Demo
begin

section \<open>A model in use\<close>

text \<open>
  An operator registers a model that reads images, its first health check finds that the endpoint rejects them, the idle sweep announces it,
  and its key is set and read after a rotation.
\<close>

definition short_mac :: "string \<Rightarrow> string" where
  "short_mac key = take 16 (key @ replicate 16 CHR ''.'')"

definition demo_jwe :: jwe where
  "demo_jwe = \<lparr>jwe_sha256 = (\<lambda>s. take 32 (s @ replicate 32 CHR ''.'')), jwe_encrypt = (\<lambda>key n s. s @ short_mac key),
     jwe_decrypt = (\<lambda>key s. if 16 \<le> length s \<and> drop (length s - 16) s = short_mac key
       then (if length s = 16 then NoPlaintext else Plaintext (take (length s - 16) s)) else JoseFailure)\<rparr>"

lemma length_short_mac [simp]: "length (short_mac key) = 16"
  by (simp add: short_mac_def min_def)

lemma demo_jwe_sound: "jwe_sound demo_jwe"
  by (simp add: jwe_sound_def demo_jwe_def min_def)

definition old_settings :: gateway_settings where
  "old_settings = \<lparr>gs_model_secrets_key = ''old'', gs_model_secrets_key_retired = None,
     gs_provider_key = (\<lambda>v. if v = ANTHROPIC then Some ''platform'' else None), gs_health_check_task_time_limit_seconds = 900,
     gs_health_check_wake_deadline_seconds = 600\<rparr>"

definition new_settings :: gateway_settings where
  "new_settings = old_settings\<lparr>gs_model_secrets_key := ''new'', gs_model_secrets_key_retired := Some ''old''\<rparr>"

definition operator :: session_user where "operator = caller_of 1 [MODELS_CREATE, MODELS_UPDATE]"

definition no_search :: "string \<Rightarrow> bool" where "no_search m \<longleftrightarrow> False"

definition helper_draft :: model_create where
  "helper_draft = \<lparr>mc_name = ''Helper'', mc_description = None, mc_model_alias = ''helper'', mc_provider = ANTHROPIC,
     mc_input_modalities = Some [MOD_TEXT, MOD_IMAGE], mc_output_modalities = None, mc_provider_model_id = ''claude'', mc_endpoint_name = None,
     mc_inference_endpoint = None, mc_icon_file = None, mc_labels = None, mc_parameters = Some [(''web_search_options'', ''high'')],
     mc_extras = None, mc_is_disabled = False, mc_warmup_enabled = True, mc_advanced_params_disabled = False, mc_web_access = False,
     mc_inactivity_alert_hours = Some 1, mc_api_key = None\<rparr>"

definition start :: gateway_state where
  "start = \<lparr>reg = \<lparr>site = empty_chat_db\<lparr>core := demo\<rparr>, registered = [], health_queue = []\<rparr>, reading = [], evidence = []\<rparr>"

definition created :: "(registered_model \<times> registry) result" where
  "created = create_model_endpoint no_search demo_jwe old_settings True (reg start) operator helper_draft"

definition helper :: registered_model where "helper = hd (registered (snd (projr created)))"

text \<open>An endpoint that takes no images, and one that refuses to go online.\<close>

definition no_images :: provider where
  "no_images call = (if has_image_content (pc_messages call) then Inl (ProviderBadRequestError ''no vision'') else Inr ''pong'')"

definition offline :: provider where
  "offline call = (if ''web_search_options'' \<in> set (map fst (pc_params call)) then Inl (ProviderBadRequestError ''offline'') else Inr ''pong'')"

definition checked :: "check_run dispatched" where
  "checked = conclude_check ''png'' demo_jwe old_settings no_images helper \<lparr>hv_alive = True, hv_reason = None, hv_served = True\<rparr>"

definition settled :: registry where "settled = settle_health_check (snd (projr created)) (projr checked)"

definition idle_time :: timestamp where "idle_time = 86400 + 7200"

definition alerted :: registry where "alerted = snd (claim_alert settled 100 idle_time)"

definition warmed :: "warmup_status dispatched \<times> registry" where
  "warmed = dispatch_probe demo_jwe old_settings no_images True alerted ''helper''"

definition keyed :: "registry result" where
  "keyed = set_model_api_key_endpoint demo_jwe old_settings True settled operator 100 ''sk-1''"

definition keyed_helper :: registered_model where "keyed_helper = hd (registered (projr keyed))"

definition greeting :: "chat_message list" where "greeting = [\<lparr>cm_role = MR_USER, cm_content = ChatText ''hi''\<rparr>]"

definition called :: "(registered_model \<times> provider_call) dispatched" where
  "called = prepare_call no_search demo_jwe old_settings settled ''helper'' greeting None (Some ''Be brief.'')"

subsection \<open>What happens, evaluated once\<close>

lemma gateway_evaluated:
  "let made = create_model_endpoint no_search demo_jwe old_settings True (reg start) operator helper_draft;
       m = hd (registered (snd (projr made)));
       run = conclude_check ''png'' demo_jwe old_settings no_images m \<lparr>hv_alive = True, hv_reason = None, hv_served = True\<rparr>;
       r2 = settle_health_check (snd (projr made)) (projr run);
       claim = claim_alert r2 100 idle_time;
       warm = dispatch_probe demo_jwe old_settings no_images True (snd claim) ''helper'';
       key = set_model_api_key_endpoint demo_jwe old_settings True r2 operator 100 ''sk-1'';
       km = hd (registered (projr key));
       sent = prepare_call no_search demo_jwe old_settings r2 ''helper'' greeting None (Some ''Be brief.'')
   in \<not> isl made \<and> live_select (registered (snd (projr made))) = registered (snd (projr made)) \<and>
      registered (snd (projr made)) = [m] \<and> row_id m = 100 \<and>
      \<not> isl run \<and> cr_finding (projr run) = Some (Some ''no vision'') \<and> map rm_capability_mismatch (registered r2) = [Some ''no vision''] \<and>
      map rm_health_check_status (registered r2) = [Some HC_ALIVE] \<and> fst claim \<and>
      list_all (\<lambda>x. list_all (\<lambda>y. \<not> rearmed x y) (registered (snd warm))) (registered (snd claim)) \<and>
      \<not> rm_web_access m \<and> dispatch_health demo_jwe old_settings offline m = Inr (WS_ERROR, Some ''bad-request'') \<and>
      fst (dispatch_chat no_search demo_jwe old_settings offline True (snd (projr made)) ''helper'' greeting None None) = Inr ''pong'' \<and>
      \<not> isl key \<and> registered (projr key) = [km] \<and> row_id km = 100 \<and> deleted_at km = None \<and> rm_disabled_at km = None \<and>
      rm_model_alias km = ''helper'' \<and> \<not> isl sent \<and> rm_web_access (fst (projr sent)) = False \<and>
      rm_api_key_encrypted (fst (projr sent)) = None \<and> rm_provider (fst (projr sent)) = ANTHROPIC"
  by code_simp

lemmas gateway_facts = gateway_evaluated [unfolded Let_def, folded created_def, folded helper_def, folded checked_def, folded settled_def,
  folded keyed_def called_def alerted_def, folded keyed_helper_def warmed_def]

lemma created_ok: "created = Inr (fst (projr created), snd (projr created))"
  and checked_ok: "checked = Inr (projr checked)" and keyed_ok: "keyed = Inr (projr keyed)"
  and called_ok: "called = Inr (fst (projr called), snd (projr called))"
  using gateway_facts by (auto intro: Inr_of_not_isl Inr_pair_of_not_isl)

lemma settled_facts: "row_id helper = 100" "cr_finding (projr checked) = Some (Some ''no vision'')"
  "map rm_capability_mismatch (registered settled) = [Some ''no vision'']" "fst (claim_alert settled 100 idle_time)"
  using gateway_facts by blast+

lemma helper_live: "helper \<in> set (live_select (registered (snd (projr created))))"
  using gateway_facts by (metis list.set_intros(1))

lemma created_call: "create_model_endpoint no_search demo_jwe old_settings True (reg start) operator helper_draft =
    Inr (fst (projr created), snd (projr created))"
  using created_ok by (simp only: created_def)

lemma checked_call: "conclude_check ''png'' demo_jwe old_settings no_images helper \<lparr>hv_alive = True, hv_reason = None, hv_served = True\<rparr> =
    Inr (projr checked)"
  using checked_ok by (simp only: checked_def)

lemma keyed_call: "set_model_api_key_endpoint demo_jwe old_settings True settled operator 100 ''sk-1'' = Inr (projr keyed)"
  using keyed_ok by (simp only: keyed_def)

lemma called_call: "prepare_call no_search demo_jwe old_settings settled ''helper'' greeting None (Some ''Be brief.'') =
    Inr (fst (projr called), snd (projr called))"
  using called_ok by (simp only: called_def)

definition after_create :: gateway_state where "after_create = start\<lparr>reg := snd (projr created)\<rparr>"
definition after_read :: gateway_state where "after_read = after_create\<lparr>reading := [helper]\<rparr>"
definition after_check :: gateway_state where
  "after_check = after_read\<lparr>reg := settled, evidence := [(row_id helper, probed_call helper, Some ''no vision'')]\<rparr>"

lemma start_empty: "no_models (reg start)"
  by code_simp

lemma demo_run: "(some_gateway_step no_search)\<^sup>*\<^sup>* start after_check"
proof -
  have "gateway_step no_search Request start after_create" unfolding after_create_def
    by (rule gateway_step.create) (rule created_call)
  moreover have "gateway_step no_search Request after_create after_read"
    using gateway_step.read_row [of helper after_create no_search] helper_live by (simp add: after_read_def after_create_def start_def)
  moreover have "gateway_step no_search Request after_read after_check"
    using gateway_step.settle [of helper after_read, OF _ checked_call, of no_search] settled_facts(2)
    by (simp add: after_check_def after_read_def after_create_def start_def settled_def)
  ultimately have "some_gateway_step no_search start after_create" "some_gateway_step no_search after_create after_read"
    "some_gateway_step no_search after_read after_check" unfolding some_gateway_step_def by blast+
  then show ?thesis by (meson converse_rtranclp_into_rtranclp rtranclp.rtrancl_refl)
qed

subsection \<open>The theorems at work\<close>


theorem findings_are_evidence_witness:
  "list_ex (\<lambda>m. (row_id m, (rm_input_modalities m, rm_inference_endpoint m, rm_provider m, rm_provider_model_id m), Some ''no vision'')
     \<in> set (evidence after_check)) (registered settled)"
proof -
  obtain m where m: "registered settled = [m]" "rm_capability_mismatch m = Some ''no vision''" using settled_facts(3) by auto
  have "m \<in> set (registered (reg after_check))" using m(1) by (simp add: after_check_def)
  from findings_are_evidence [OF demo_run start_empty, rule_format, OF this m(2)] show ?thesis by (simp add: m(1))
qed

lemma claimed_pair: "claim_alert (reg after_check) 100 idle_time = (True, alerted)"
  using settled_facts(4) by (simp add: alerted_def after_check_def prod_eq_iff)

text \<open>A health probe of the scheduled warm-up follows the announcement; it is no traffic.\<close>

lemma warm_up_quiet: "quiet_step no_search 100 (after_check\<lparr>reg := alerted\<rparr>) (after_check\<lparr>reg := snd warmed\<rparr>)"
proof -
  have "gateway_step no_search Request (after_check\<lparr>reg := alerted\<rparr>) (after_check\<lparr>reg := alerted\<rparr>\<lparr>reg := snd warmed\<rparr>)"
    by (rule gateway_step.warm_up [where status = "fst warmed"]) (simp add: warmed_def)
  moreover have "\<not> watched_afresh 100 (after_check\<lparr>reg := alerted\<rparr>) (after_check\<lparr>reg := snd warmed\<rparr>)"
    using gateway_facts by (auto simp: watched_afresh_def list_all_iff)
  ultimately show ?thesis unfolding quiet_step_def by auto
qed

theorem idle_model_announced_once_witness:
  "fst (claim_alert settled 100 idle_time) \<and> \<not> fst (claim_alert (snd warmed) 100 (idle_time + 60))"
  using settled_facts(4) idle_model_announced_once [OF demo_run start_empty claimed_pair r_into_rtranclp [of "quiet_step no_search 100", OF warm_up_quiet], of "idle_time + 60"]
  by simp

theorem stored_key_reaches_provider_witness:
  "credential demo_jwe new_settings keyed_helper = Inr (Some ''sk-1'') \<and>
   map_option (needs_rewrap demo_jwe new_settings) (rm_api_key_encrypted keyed_helper) = Some (Inr True)"
proof -
  obtain ring where ring: "secrets_ring demo_jwe new_settings = Inr ring"
  proof -
    have "\<not> isl (secrets_ring demo_jwe new_settings)" by code_simp
    then show ?thesis using that by (cases "secrets_ring demo_jwe new_settings") auto
  qed
  have reads: "still_reads old_settings new_settings" by (simp add: still_reads_def old_settings_def new_settings_def)
  have row: "resolve_model (projr keyed) ''helper'' = Inr keyed_helper"
    using gateway_facts by (simp add: resolve_model_def live_select_def is_disabled_def)
  have mem: "keyed_helper \<in> set (registered (projr keyed))" "row_id keyed_helper = 100" using gateway_facts by auto
  from stored_key_reaches_provider [OF demo_jwe_sound keyed_call ring reads row mem(2) _ mem(2) refl] mem(1)
  show ?thesis by (simp add: new_settings_def old_settings_def)
qed

theorem gateway_calls_faithful_witness:
  "pc_vendor (snd (projr called)) = ANTHROPIC \<and> pc_api_key (snd (projr called)) = Some ''platform'' \<and>
   ''web_search_options'' \<notin> fst ` set (pc_params (snd (projr called)))"
proof -
  note f = gateway_calls_faithful [OF called_call]
  have row: "rm_web_access (fst (projr called)) = False" "rm_api_key_encrypted (fst (projr called)) = None"
    "rm_provider (fst (projr called)) = ANTHROPIC" using gateway_facts by auto
  have "pc_vendor (snd (projr called)) = ANTHROPIC" using f row(3) by simp
  moreover have "pc_api_key (snd (projr called)) = Some ''platform''" using f row(2,3) by (simp add: has_default_key_def old_settings_def)
  moreover have "fst ` set (pc_params (snd (projr called))) \<inter> set WEB_TOOL_KEYS = {}" using f row(1) by simp
  ultimately show ?thesis by (auto simp: WEB_TOOL_KEYS_def)
qed

definition demo_probe :: "nat \<Rightarrow> (warmup_status \<times> string option) dispatched" where
  "demo_probe n = (if n < 2 then Inr (WS_STARTING, Some ''timeout'') else Inr (WS_READY, None))"


subsection \<open>The probe and the internet switch\<close>

text \<open>
  The switch of this row is off, so its calls carry no web option; but its stored parameters hold one, and the health probe, which skips the
  switch, sends it and reports a model dead that answers every call.
\<close>

lemma probe_ignores_web_switch:
  "\<not> rm_web_access helper \<and> dispatch_health demo_jwe old_settings offline helper = Inr (WS_ERROR, Some ''bad-request'') \<and>
   fst (dispatch_chat no_search demo_jwe old_settings offline True (snd (projr created)) ''helper'' greeting None None) = Inr ''pong''"
  using gateway_facts by blast

end
